(* ===== verification/Prelude.thy ===== *)
theory Prelude
  imports "HOL-Library.Word" "HOL-Library.Monad_Syntax"
begin

text \<open>
  What every theory of the development shares: the widths of the C integers of
  \<^verbatim>\<open>core/core.h\<close> (\<open>byte\<close>, \<open>word\<close>, \<open>dword\<close>), the predicate \<open>runs\<close> with its rules (one
  sweep over the code proves that a routine returns and that what it returns satisfies
  a postcondition), the collections the component proofs draw on, and the facts on
  words and bit masks that more than one component uses.
\<close>

unbundle bit_operations_syntax

type_synonym u8 = "8 word"
type_synonym u16 = "16 word"
type_synonym u32 = "32 word"

text \<open>
  Rules of \<open>runs\<close> for the routines of the model (\<open>runs_intro\<close>), the equations that
  unfold the C macros of the source (\<open>macro_defs\<close>), and the facts that a state
  invariant is kept by an update of a field (\<open>keeps\<close>).
\<close>

named_theorems runs_intro
named_theorems macro_defs
named_theorems keeps

section \<open>Results of routines\<close>

text \<open>
  A routine of the C code that takes the machine state is a function into \<open>option\<close>:
  \<open>None\<close> is a call that does not return (the fuel of the trap recursion is exhausted),
  \<open>Some\<close> carries the value and the new state. \<open>runs tot m Q\<close> says that the outcome of
  \<open>m\<close> satisfies \<open>Q\<close>; with \<open>tot\<close> it says in addition that \<open>m\<close> returns.
\<close>

definition runs :: "bool \<Rightarrow> 'a option \<Rightarrow> ('a \<Rightarrow> bool) \<Rightarrow> bool" where
  "runs tot m Q = (case m of None \<Rightarrow> \<not> tot | Some x \<Rightarrow> Q x)"

lemma runs_Some [simp]: "runs tot (Some x) Q = Q x"
  by (simp add: runs_def)

lemma runs_None [simp]: "runs tot None Q = (\<not> tot)"
  by (simp add: runs_def)

lemma runs_SomeI [runs_intro]: "Q x \<Longrightarrow> runs tot (Some x) Q"
  by simp

lemma runs_bind [runs_intro]: "runs tot m (\<lambda>x. runs tot (f x) Q) \<Longrightarrow> runs tot (m \<bind> f) Q"
  by (cases m) (auto simp: runs_def)

lemma runs_if [runs_intro]:
  "(c \<Longrightarrow> runs tot a Q) \<Longrightarrow> (\<not> c \<Longrightarrow> runs tot b Q) \<Longrightarrow> runs tot (if c then a else b) Q"
  by simp

lemma runs_let [runs_intro]: "(\<And>x. x = e \<Longrightarrow> runs tot (f x) Q) \<Longrightarrow> runs tot (let x = e in f x) Q"
  by simp

lemma runs_prod [runs_intro]:
  "(\<And>a b. p = (a, b) \<Longrightarrow> runs tot (f a b) Q) \<Longrightarrow> runs tot (case p of (a, b) \<Rightarrow> f a b) Q"
  by (cases p) simp

lemma runs_weaken: "runs tot m P \<Longrightarrow> (\<And>x. P x \<Longrightarrow> Q x) \<Longrightarrow> runs tot m Q"
  by (auto simp: runs_def split: option.splits)

lemma runs_conj: "runs tot m P \<Longrightarrow> runs tot m Q \<Longrightarrow> runs tot m (\<lambda>x. P x \<and> Q x)"
  by (auto simp: runs_def split: option.splits)

lemma runs_total: "runs True m Q = (\<exists>x. m = Some x \<and> Q x)"
  by (auto simp: runs_def split: option.splits)

lemma runs_partial: "runs False m Q = (\<forall>x. m = Some x \<longrightarrow> Q x)"
  by (auto simp: runs_def split: option.splits)

lemma runs_Some_D: "runs tot m Q \<Longrightarrow> m = Some x \<Longrightarrow> Q x"
  by (simp add: runs_def)

section \<open>Words and masks\<close>

lemma and_not_mask_eq_0: "(x AND m) AND NOT m = (0 :: 'a::len word)"
  by (simp add: bit_eq_iff bit_simps)

lemma and_mask_idem: "x AND NOT m = 0 \<Longrightarrow> x AND m = (x :: 'a::len word)"
  by (auto simp: bit_eq_iff bit_simps)

lemma subset_mask_or:
  "x AND NOT m = 0 \<Longrightarrow> y AND NOT m = 0 \<Longrightarrow> (x OR y) AND NOT m = (0 :: 'a::len word)"
  by (auto simp: bit_eq_iff bit_simps)

lemma subset_mask_and: "x AND NOT m = 0 \<Longrightarrow> (x AND y) AND NOT m = (0 :: 'a::len word)"
  by (auto simp: bit_eq_iff bit_simps)

lemma word_replace_field:
  "((x AND NOT m) OR (y AND m)) AND m = (y AND m :: 'a::len word)"
  by (auto simp: bit_eq_iff bit_simps)

lemma word_replace_field_other:
  "((x AND NOT m) OR (y AND m)) AND NOT m = (x AND NOT m :: 'a::len word)"
  by (auto simp: bit_eq_iff bit_simps)

text \<open>A word has no bits outside a mask.\<close>

definition within :: "'a::len word \<Rightarrow> 'a word \<Rightarrow> bool" where
  "within m x = (x AND m = x)"

lemma within_simps [simp]: "within m 0" "within m (x AND m)" "within m ((x AND y) AND m)" "within m ((x OR y) AND m)"
  by (auto simp: within_def bit_eq_iff bit_simps)

lemma within_and [simp]: "within m x \<Longrightarrow> within m (x AND y)"
  by (auto simp: within_def bit_eq_iff bit_simps)

lemma within_or: "within m x \<Longrightarrow> within m y \<Longrightarrow> within m (x OR y)"
  by (auto simp: within_def bit_eq_iff bit_simps)

section \<open>Signs, carries and overflows of 16-bit operations\<close>

lemma and_exp_bit: "x AND 2 ^ n = (if bit x n then 2 ^ n else 0 :: 'a::len word)"
  by (rule bit_word_eqI) (auto simp: bit_simps)

lemma bit_ge_exp:
  assumes "uint x < 2 * 2 ^ n" "n < LENGTH('a)"
  shows "bit (x::'a::len word) n = (2 ^ n \<le> uint x)"
proof -
  have "bit x n = bit (uint x) n" using assms(2) by (simp add: bit_uint_iff)
  also have "\<dots> = odd (uint x div 2 ^ n)" by (rule bit_iff_odd)
  also have "uint x div 2 ^ n = (if 2 ^ n \<le> uint x then 1 else 0)"
  proof (cases "2 ^ n \<le> uint x")
    case True
    have "uint x div 2 ^ n = 1 + (uint x - 2 ^ n) div 2 ^ n"
      using div_add_self2[of "2^n" "uint x - 2 ^ n"] by simp
    then show ?thesis using True assms(1) by (simp add: div_pos_pos_trivial)
  qed (simp add: div_pos_pos_trivial)
  finally show ?thesis by simp
qed

lemma uint16: "0 \<le> uint (x::u16)" "uint (x::u16) < 0x10000" using uint_lt2p[of x] by simp_all

lemma uint8: "0 \<le> uint (x::u8)" "uint (x::u8) < 0x100" using uint_lt2p[of x] by simp_all

lemma bit15: "bit (x::u16) 15 = (0x8000 \<le> uint x)"
  using bit_ge_exp[of x 15] uint16[of x] by simp

lemma sint16: "sint (x::u16) = (if 0x8000 \<le> uint x then uint x - 0x10000 else uint x)"
  using bit15[of x] uint16[of x] 
  by (simp add: sint_uint signed_take_bit_eq_take_bit_minus take_bit_eq_mod bit_uint_iff)

lemma and_sign16: "(x AND 0x8000 = 0) = (uint (x::u16) < 0x8000)"
  using and_exp_bit[of x 15] by (simp add: bit15 split: if_splits)

lemma and_sign_eq16: "(x AND 0x8000 = y AND 0x8000) = ((uint (x::u16) < 0x8000) = (uint (y::u16) < 0x8000))"
  using and_exp_bit[of x 15] and_exp_bit[of y 15] by (simp add: bit15 split: if_splits)

lemma add_v: fixes s d :: u16
 shows "(s AND 0x8000 = d AND 0x8000 \<and> s AND 0x8000 \<noteq> (s+d) AND 0x8000) = (sint s + sint d \<noteq> sint (s + d))"
proof -
  obtain a b where [simp]: "uint s = a" "uint d = b" by blast
  have "0 \<le> a" "a < 0x10000" "0 \<le> b" "b < 0x10000" using uint16[of s] uint16[of d] by simp_all
  then show ?thesis 
  by (auto simp: and_sign_eq16 sint16 uint_plus_if')
qed

lemma sub_v: fixes s d :: u16
 shows "(s AND 0x8000 \<noteq> d AND 0x8000 \<and> d AND 0x8000 = (s-d) AND 0x8000) = (sint s - sint d \<noteq> sint (s - d))"
proof -
  obtain a b where [simp]: "uint s = a" "uint d = b" by blast
  have "0 \<le> a" "a < 0x10000" "0 \<le> b" "b < 0x10000" using uint16[of s] uint16[of d] by simp_all
  then show ?thesis 
  by (auto simp: and_sign_eq16 sint16 uint_sub_if')
qed

lemma wide_add: "uint (ucast (a::u16) + ucast (b::u16) :: u32) = uint a + uint b"
  using uint16[of a] uint16[of b] by (simp add: uint_plus_if' unsigned_ucast_eq take_bit_eq_mod)

lemma narrow_word: "(ucast (x::u32) :: u16) = word_of_int (uint x)"
  by simp

lemma narrow_add: "ucast (ucast (a::u16) + ucast (b::u16) :: u32) = a + b"
  by (simp only: narrow_word wide_add) simp

lemma uint_not16: "uint (NOT (a::u16)) = 0xFFFF - uint a"
proof -
  have "NOT a = 0xFFFF - a" by (simp add: not_eq_complement)
  then show ?thesis using uint16[of a] by (simp add: uint_sub_if')
qed

lemma wide_cmp: "uint (ucast (a::u16) + ucast (NOT (b::u16)) + 1 :: u32) = uint a - uint b + 0x10000"
proof -
  obtain x y where [simp]: "uint a = x" "uint b = y" by blast
  have "0 \<le> x" "x < 0x10000" "0 \<le> y" "y < 0x10000" using uint16[of a] uint16[of b] by simp_all
  then show ?thesis
   using wide_add[of a "NOT b"] by (simp add: uint_plus_if' uint_not16)
qed

lemma narrow_cmp: "ucast (ucast (a::u16) + ucast (NOT (b::u16)) + 1 :: u32) = a - b"
  by (simp only: narrow_word wide_cmp) simp

lemma and_carry16: "uint (x::u32) < 0x20000 \<Longrightarrow> (x AND 0x10000 = 0) = (uint x < 0x10000)"
  using and_exp_bit[of x 16] bit_ge_exp[of x 16] by (simp split: if_splits)

lemma u16_eq_bits:
  "(x = y) = (bit x 0 = bit (y::u16) 0 \<and> bit x 1 = bit y 1 \<and> bit x 2 = bit y 2 \<and> bit x 3 = bit y 3 \<and>
     bit x 4 = bit y 4 \<and> bit x 5 = bit y 5 \<and> bit x 6 = bit y 6 \<and> bit x 7 = bit y 7 \<and>
     bit x 8 = bit y 8 \<and> bit x 9 = bit y 9 \<and> bit x 10 = bit y 10 \<and> bit x 11 = bit y 11 \<and>
     bit x 12 = bit y 12 \<and> bit x 13 = bit y 13 \<and> bit x 14 = bit y 14 \<and> bit x 15 = bit y 15)"
proof -
  have "(x = y) = (\<forall>n<16. bit x n = bit y n)" by (auto intro: bit_word_eqI)
  then show ?thesis by (simp add: numeral_eq_Suc All_less_Suc conj_commute conj_left_commute)
qed

lemma u8_eq_bits:
  "((a :: u8) = b) = (bit a 0 = bit b 0 \<and> bit a 1 = bit b 1 \<and> bit a 2 = bit b 2 \<and> bit a 3 = bit b 3 \<and>
     bit a 4 = bit b 4 \<and> bit a 5 = bit b 5 \<and> bit a 6 = bit b 6 \<and> bit a 7 = bit b 7)"
proof -
  have "(a = b) = (\<forall>n<8. bit a n = bit b n)" by (auto intro: bit_word_eqI)
  then show ?thesis by (simp add: numeral_eq_Suc All_less_Suc conj_commute conj_left_commute)
qed

lemma u32_bits_eqI: "(\<And>n. n < 32 \<Longrightarrow> bit (a :: u32) n = bit b n) \<Longrightarrow> a = b"
  by (auto simp: bit_eq_iff dest: bit_imp_le_length)

lemma u32_eq_bits:
  "((a :: u32) = b) = (bit a 0 = bit b 0 \<and> bit a 1 = bit b 1 \<and> bit a 2 = bit b 2 \<and> bit a 3 = bit b 3 \<and>
     bit a 4 = bit b 4 \<and> bit a 5 = bit b 5 \<and> bit a 6 = bit b 6 \<and> bit a 7 = bit b 7 \<and>
     bit a 8 = bit b 8 \<and> bit a 9 = bit b 9 \<and> bit a 10 = bit b 10 \<and> bit a 11 = bit b 11 \<and>
     bit a 12 = bit b 12 \<and> bit a 13 = bit b 13 \<and> bit a 14 = bit b 14 \<and> bit a 15 = bit b 15 \<and>
     bit a 16 = bit b 16 \<and> bit a 17 = bit b 17 \<and> bit a 18 = bit b 18 \<and> bit a 19 = bit b 19 \<and>
     bit a 20 = bit b 20 \<and> bit a 21 = bit b 21 \<and> bit a 22 = bit b 22 \<and> bit a 23 = bit b 23 \<and>
     bit a 24 = bit b 24 \<and> bit a 25 = bit b 25 \<and> bit a 26 = bit b 26 \<and> bit a 27 = bit b 27 \<and>
     bit a 28 = bit b 28 \<and> bit a 29 = bit b 29 \<and> bit a 30 = bit b 30 \<and> bit a 31 = bit b 31)" (is "_ = ?r")
proof
  assume ?r
  then show "a = b" by (intro u32_bits_eqI) (auto simp: less_Suc_eq numeral_eq_Suc)
qed simp

lemma u8_high [simp]: "8 \<le> n \<Longrightarrow> \<not> bit (b :: u8) n"
  by (auto dest: bit_imp_le_length)

text \<open>Bytes and words as indices of larger arrays, and the bytes of a word.\<close>

lemma unat_ucast_up: "LENGTH('a) \<le> LENGTH('b) \<Longrightarrow> unat (ucast (x :: 'a::len word) :: 'b::len word) = unat x"
  using order_less_le_trans[OF unsigned_less[of x, where 'a = nat] power_increasing[of "LENGTH('a)" "LENGTH('b)" "2 :: nat"]]
  by (simp add: unsigned_ucast_eq take_bit_eq_mod)

lemma wide16:
  fixes x :: u16
  shows "unat (ucast x :: u32) = unat x" "(ucast x :: u32) \<le> 0xFFFF" "(ucast (ucast x :: u32) :: u16) = x"
proof -
  show u: "unat (ucast x :: u32) = unat x"
    using unsigned_less[of x, where 'a = nat] by (simp add: unsigned_ucast_eq take_bit_eq_mod)
  show "(ucast x :: u32) \<le> 0xFFFF"
    using unsigned_less[of x, where 'a = nat] by (simp add: word_le_nat_alt u)
  show "(ucast (ucast x :: u32) :: u16) = x" by (auto simp: bit_eq_iff bit_simps dest: bit_imp_le_length)
qed

lemma low_bytes: "ucast (w AND 0xFF :: u16) = (ucast w :: u8)" "ucast (drop_bit 8 w AND 0xFF :: u16) = (ucast (drop_bit 8 w) :: u8)"
proof -
  have m: "(0xFF :: u16) = mask 8" by (simp add: mask_eq_exp_minus_1)
  show "ucast (w AND 0xFF :: u16) = (ucast w :: u8)" "ucast (drop_bit 8 w AND 0xFF :: u16) = (ucast (drop_bit 8 w) :: u8)"
    unfolding m by (auto simp: bit_eq_iff bit_simps)
qed

end
