(* ===== verification/Regs.thy ===== *)
theory Regs
  imports Prelude
begin

text \<open>
  The processor state of \<^verbatim>\<open>core/core.h\<close> (\<open>struct _regs\<close>) and the callbacks the machine
  hangs into it (the record \<open>bus\<close>), the flag macros of \<^verbatim>\<open>core/core.c\<close>, the access to the
  mode fields of the PSW, and the DCJ11 banked stack pointers and register sets.

  Conventions. Fields keep the names of the C struct (\<open>R\<close> is \<open>r\<close>, as in
  \<^verbatim>\<open>pdp11_fp.c\<close>). Flags the code only tests for truth are \<open>bool\<close>; all other integers keep
  their width. C arrays are functions of their index; the code only uses indices inside
  the array. A pointer into the host's RAM is its offset in the RAM block, \<open>None\<close> is
  NULL. The function pointers of the struct are the fields of the record \<open>bus\<close>, passed
  along as an argument, because a record cannot hold functions over itself; the
  machine's own data (its devices) is the component \<open>mach\<close>.
\<close>

section \<open>Data\<close>

datatype cpu = K1801VM1 | K1801VM2 | K1806VM2 | DCJ11

record fpac_t =
  fp_l :: u32
  fp_h :: u32

record mmu_tlb_entry_t =
  host_base :: "u32 option"
  valid_min_flags :: u16
  valid_max :: u16

record 'm regs =
  model :: cpu
  psw :: u16
  R :: "nat \<Rightarrow> u16"
  ir :: u16
  instr_pc :: u16
  rset_bank :: "nat \<Rightarrow> nat \<Rightarrow> u16"
  rset_bank_init :: bool
  sp_mode :: "nat \<Rightarrow> u16"
  sp_mode_init :: bool
  dcj11_yellow_pending :: bool
  dcj11_stack_trap_active :: bool
  dcj11_explicit_psw_write :: bool
  dcj11_vector_push_active :: bool
  dcj11_vector_old_pc :: u16
  dcj11_vector_old_psw :: u16
  cps :: u16
  cpc :: u16
  SEL0 :: u16
  J11_MEMERR :: u16
  J11_CCR :: u16
  J11_MAINT :: u16
  J11_HITMISS :: u16
  J11_CPUERR :: u16
  J11_RSVD_177770 :: u16
  J11_PIRQ :: u16
  J11_STKLIM :: u16
  TVE_LIMIT :: u16
  TVE_COUNT :: u16
  TVE_CSR :: u16
  TVE_PENDING :: bool
  VM1_RAP_PRESENT :: bool
  fTrap :: bool
  fWait :: bool
  fAbort :: bool
  fHaltSignal :: bool
  fStepDeferHalt :: bool
  has_fis :: bool
  has_fpu :: bool
  fpu_fr :: "nat \<Rightarrow> fpac_t"
  fpu_fps :: u32
  fpu_fea :: u32
  fpu_fec :: u32
  fp11_reg_delta_mask :: u8
  fp11_reg_delta :: "nat \<Rightarrow> u8"
  fp11_trap_pending :: bool
  fp11_trap_old_pc :: u16
  fp11_trap_old_psw :: u16
  fp11_backup_pc :: u16
  mmu_ssr0 :: u16
  mmu_ssr1 :: u16
  mmu_ssr2 :: u16
  mmu_ssr3 :: u16
  mmu_par :: "nat \<Rightarrow> nat \<Rightarrow> nat \<Rightarrow> u16"
  mmu_pdr :: "nat \<Rightarrow> nat \<Rightarrow> nat \<Rightarrow> u16"
  mmu_tlb :: "nat \<Rightarrow> nat \<Rightarrow> nat \<Rightarrow> mmu_tlb_entry_t"
  ram_fast :: "u32 option"
  ram_fast_size :: u32
  hwstub_mem :: "(u32 \<Rightarrow> u8) option"
  hwstub_mem_size :: u32
  mach :: 'm

text \<open>The faults of the MMU, and the two traps a memory access can raise.\<close>

datatype mmu_fault = MMU_FAULT_NONE | MMU_FAULT_NONRES | MMU_FAULT_LENGTH | MMU_FAULT_PROTECT

datatype trap_req =
    BUS_ERROR
  | MMU_FAULT (mf_va: u16) (mf_pc: u16) (mf_fault: mmu_fault) (mf_mode: nat) (mf_space: nat)
      (mf_seg: nat)

type_synonym 'm trapf = "trap_req \<Rightarrow> 'm regs \<Rightarrow> 'm regs option"

text \<open>
  The build options and the callbacks. A memory callback may itself raise a bus error
  (\<open>core_bus_error_trap\<close> is exported for that): it gets that routine as its first
  argument. \<open>None\<close> for an optional callback is the NULL pointer. \<open>host_read\<close> and
  \<open>host_write\<close> are the bytes of the host's RAM block behind \<open>ram_fast\<close>.
\<close>

record 'm bus =
  ENABLE_MMU :: bool
  MMU_STUB_REGS_WHEN_DISABLED :: bool
  cb_load_byte :: "('m regs \<Rightarrow> 'm regs option) \<Rightarrow> 'm regs \<Rightarrow> u16 \<Rightarrow> (u8 \<times> 'm regs) option"
  cb_store_byte :: "('m regs \<Rightarrow> 'm regs option) \<Rightarrow> 'm regs \<Rightarrow> u16 \<Rightarrow> u8 \<Rightarrow> 'm regs option"
  cb_load_word :: "('m regs \<Rightarrow> 'm regs option) \<Rightarrow> 'm regs \<Rightarrow> u16 \<Rightarrow> (u16 \<times> 'm regs) option"
  cb_store_word :: "('m regs \<Rightarrow> 'm regs option) \<Rightarrow> 'm regs \<Rightarrow> u16 \<Rightarrow> u16 \<Rightarrow> 'm regs option"
  cb_load_byte_pa :: "(('m regs \<Rightarrow> 'm regs option) \<Rightarrow> 'm regs \<Rightarrow> u32 \<Rightarrow> (u8 \<times> 'm regs) option) option"
  cb_store_byte_pa :: "(('m regs \<Rightarrow> 'm regs option) \<Rightarrow> 'm regs \<Rightarrow> u32 \<Rightarrow> u8 \<Rightarrow> 'm regs option) option"
  cb_load_word_pa :: "(('m regs \<Rightarrow> 'm regs option) \<Rightarrow> 'm regs \<Rightarrow> u32 \<Rightarrow> (u16 \<times> 'm regs) option) option"
  cb_store_word_pa :: "(('m regs \<Rightarrow> 'm regs option) \<Rightarrow> 'm regs \<Rightarrow> u32 \<Rightarrow> u16 \<Rightarrow> 'm regs option) option"
  cb_init :: "('m regs \<Rightarrow> int \<times> 'm regs) option"
  cb_reset :: "('m regs \<Rightarrow> 'm regs) option"
  cb_fini :: "('m regs \<Rightarrow> 'm regs) option"
  cb_poll_irq :: "('m regs \<Rightarrow> u16 option \<times> 'm regs) option"
  cb_ramptr :: "('m regs \<Rightarrow> u16 \<Rightarrow> u32 option) option"
  host_read :: "'m regs \<Rightarrow> u32 \<Rightarrow> u8"
  host_write :: "'m regs \<Rightarrow> u32 \<Rightarrow> u8 \<Rightarrow> 'm regs"

text \<open>A processor structure that is all zero (\<^verbatim>\<open>memset\<close> before \<^verbatim>\<open>core_init\<close>), of a given model
  and with given devices.\<close>

definition zero_regs :: "cpu \<Rightarrow> 'm \<Rightarrow> 'm regs" where
  "zero_regs cpu devices =
     \<lparr>model = cpu, psw = 0, R = (\<lambda>i. 0), ir = 0, instr_pc = 0,
      rset_bank = (\<lambda>i j. 0), rset_bank_init = False, sp_mode = (\<lambda>i. 0), sp_mode_init = False,
      dcj11_yellow_pending = False, dcj11_stack_trap_active = False,
      dcj11_explicit_psw_write = False, dcj11_vector_push_active = False,
      dcj11_vector_old_pc = 0, dcj11_vector_old_psw = 0, cps = 0, cpc = 0, SEL0 = 0,
      J11_MEMERR = 0, J11_CCR = 0, J11_MAINT = 0, J11_HITMISS = 0, J11_CPUERR = 0,
      J11_RSVD_177770 = 0, J11_PIRQ = 0, J11_STKLIM = 0,
      TVE_LIMIT = 0, TVE_COUNT = 0, TVE_CSR = 0, TVE_PENDING = False, VM1_RAP_PRESENT = False,
      fTrap = False, fWait = False, fAbort = False, fHaltSignal = False, fStepDeferHalt = False,
      has_fis = False, has_fpu = False,
      fpu_fr = (\<lambda>i. \<lparr>fp_l = 0, fp_h = 0\<rparr>), fpu_fps = 0, fpu_fea = 0, fpu_fec = 0,
      fp11_reg_delta_mask = 0, fp11_reg_delta = (\<lambda>i. 0), fp11_trap_pending = False,
      fp11_trap_old_pc = 0, fp11_trap_old_psw = 0, fp11_backup_pc = 0,
      mmu_ssr0 = 0, mmu_ssr1 = 0, mmu_ssr2 = 0, mmu_ssr3 = 0,
      mmu_par = (\<lambda>i j k. 0), mmu_pdr = (\<lambda>i j k. 0),
      mmu_tlb = (\<lambda>i j k. \<lparr>host_base = None, valid_min_flags = 0, valid_max = 0\<rparr>),
      ram_fast = None, ram_fast_size = 0, hwstub_mem = None, hwstub_mem_size = 0,
      mach = devices\<rparr>"

section \<open>Flags\<close>

abbreviation FLAG_H :: u16 where "FLAG_H \<equiv> 0x100"
abbreviation FLAG_P :: u16 where "FLAG_P \<equiv> 0x80"
abbreviation FLAG_T :: u16 where "FLAG_T \<equiv> 0x10"
abbreviation FLAG_N :: u16 where "FLAG_N \<equiv> 8"
abbreviation FLAG_Z :: u16 where "FLAG_Z \<equiv> 4"
abbreviation FLAG_V :: u16 where "FLAG_V \<equiv> 2"
abbreviation FLAG_C :: u16 where "FLAG_C \<equiv> 1"

abbreviation MPI :: u16 where "MPI \<equiv> 0x7FFF"
abbreviation MNI :: u16 where "MNI \<equiv> 0x8000"
abbreviation NEG_1 :: u16 where "NEG_1 \<equiv> 0xFFFF"
abbreviation SIGN :: u16 where "SIGN \<equiv> 0x8000"
abbreviation CARRY :: u32 where "CARRY \<equiv> 0x10000"
abbreviation MPI_B :: u16 where "MPI_B \<equiv> 0x7F"
abbreviation MNI_B :: u16 where "MNI_B \<equiv> 0x80"
abbreviation NEG_1_B :: u16 where "NEG_1_B \<equiv> 0xFF"
abbreviation SIGN_B :: u16 where "SIGN_B \<equiv> 0x80"
abbreviation CARRY_B :: u32 where "CARRY_B \<equiv> 0x100"

text \<open>
  The macros that change the flags leave N, Z, V and C alone on a DCJ11 whose
  instruction has written the PSW explicitly.
\<close>

definition cc_frozen :: "'m regs \<Rightarrow> bool" where
  "cc_frozen r = (model r = DCJ11 \<and> dcj11_explicit_psw_write r)"

definition clear_flag :: "u16 \<Rightarrow> 'm regs \<Rightarrow> 'm regs" where
  "clear_flag f r =
     (let mask = (if cc_frozen r then f AND NOT (FLAG_N OR FLAG_Z OR FLAG_V OR FLAG_C) else f)
      in r\<lparr>psw := psw r AND NOT mask\<rparr>)"

definition set_flag :: "u16 \<Rightarrow> 'm regs \<Rightarrow> 'm regs" where
  "set_flag f r =
     (let mask = (if cc_frozen r then f AND NOT (FLAG_N OR FLAG_Z OR FLAG_V OR FLAG_C) else f)
      in r\<lparr>psw := psw r OR mask\<rparr>)"

definition flag_is_set :: "u16 \<Rightarrow> 'm regs \<Rightarrow> bool" where
  "flag_is_set f r = (psw r AND f = f)"

definition flag_is_clear :: "u16 \<Rightarrow> 'm regs \<Rightarrow> bool" where
  "flag_is_clear f r = (psw r AND f = 0)"

definition set_flag_if :: "bool \<Rightarrow> u16 \<Rightarrow> 'm regs \<Rightarrow> 'm regs" where
  "set_flag_if a f r = (if a then set_flag f r else clear_flag f r)"

definition PSW_SET_NZV_WORD :: "u16 \<Rightarrow> 'm regs \<Rightarrow> 'm regs" where
  "PSW_SET_NZV_WORD result r =
     (if cc_frozen r then r
      else let f = (if result AND SIGN \<noteq> 0 then FLAG_N else 0) OR (if result = 0 then FLAG_Z else 0)
           in r\<lparr>psw := (psw r AND NOT (FLAG_N OR FLAG_Z OR FLAG_V)) OR f\<rparr>)"

definition PSW_SET_NZV_BYTE :: "u16 \<Rightarrow> 'm regs \<Rightarrow> 'm regs" where
  "PSW_SET_NZV_BYTE result r =
     (if cc_frozen r then r
      else let f = (if result AND SIGN_B \<noteq> 0 then FLAG_N else 0) OR
                   (if result AND 0xFF = 0 then FLAG_Z else 0)
           in r\<lparr>psw := (psw r AND NOT (FLAG_N OR FLAG_Z OR FLAG_V)) OR f\<rparr>)"

definition PSW_SET_NZVC_WORD :: "bool \<Rightarrow> bool \<Rightarrow> bool \<Rightarrow> bool \<Rightarrow> 'm regs \<Rightarrow> 'm regs" where
  "PSW_SET_NZVC_WORD n_cond z_cond v_cond c_cond r =
     (if cc_frozen r then r
      else let f = (if n_cond then FLAG_N else 0) OR (if z_cond then FLAG_Z else 0) OR
                   (if v_cond then FLAG_V else 0) OR (if c_cond then FLAG_C else 0)
           in r\<lparr>psw := (psw r AND NOT (FLAG_N OR FLAG_Z OR FLAG_V OR FLAG_C)) OR f\<rparr>)"

definition PSW_SET_NZVC_BYTE :: "bool \<Rightarrow> bool \<Rightarrow> bool \<Rightarrow> bool \<Rightarrow> 'm regs \<Rightarrow> 'm regs" where
  "PSW_SET_NZVC_BYTE n_cond z_cond v_cond c_cond r = PSW_SET_NZVC_WORD n_cond z_cond v_cond c_cond r"

text \<open>
  The shift count of the callers lies in 1..31, where the C shifts are defined; a count
  of 0 returns early.
\<close>

definition arith_rshift32 :: "u32 \<Rightarrow> u16 \<Rightarrow> u32" where
  "arith_rshift32 value count =
     (if count = 0 then value
      else if value AND 0x80000000 \<noteq> 0
      then drop_bit (unat count) value OR push_bit (32 - unat count) (NOT 0)
      else drop_bit (unat count) value)"

definition is_vm2 :: "'m regs \<Rightarrow> bool" where
  "is_vm2 r = (model r = K1801VM2 \<or> model r = K1806VM2)"

definition has_prev_space_ops :: "'m regs \<Rightarrow> bool" where
  "has_prev_space_ops r = (is_vm2 r \<or> model r = DCJ11)"

section \<open>Mode fields of the PSW\<close>

abbreviation PSW_CM_MASK :: u16 where "PSW_CM_MASK \<equiv> 0xC000"
abbreviation PSW_PM_MASK :: u16 where "PSW_PM_MASK \<equiv> 0x3000"

definition psw_mode_normalize :: "nat \<Rightarrow> nat" where
  "psw_mode_normalize mode = (let mode = mode mod 4 in if mode = 2 then 0 else mode)"

definition dcj11_kernel_psw :: "u16 \<Rightarrow> bool" where
  "dcj11_kernel_psw p = (psw_mode_normalize (unat (drop_bit 14 p AND 3)) = 0)"

definition dcj11_psw_cur_mode :: "u16 \<Rightarrow> nat" where
  "dcj11_psw_cur_mode p = psw_mode_normalize (unat (drop_bit 14 p AND 3))"

definition dcj11_psw_prev_mode_mxpi :: "u16 \<Rightarrow> nat" where
  "dcj11_psw_prev_mode_mxpi p =
     (let pm = unat (drop_bit 12 p AND 3) in if pm = 2 then 3 else psw_mode_normalize pm)"

definition dcj11_psw_set_cur_mode :: "u16 \<Rightarrow> nat \<Rightarrow> u16" where
  "dcj11_psw_set_cur_mode p mode =
     (let m = psw_mode_normalize mode in (p AND NOT PSW_CM_MASK) OR push_bit 14 (of_nat m AND 3))"

definition dcj11_psw_set_prev_mode :: "u16 \<Rightarrow> nat \<Rightarrow> u16" where
  "dcj11_psw_set_prev_mode p mode =
     (let m = psw_mode_normalize mode in (p AND NOT PSW_PM_MASK) OR push_bit 12 (of_nat m AND 3))"

definition dcj11_psw_regset :: "u16 \<Rightarrow> nat" where
  "dcj11_psw_regset p = unat (drop_bit 11 p AND 1)"

section \<open>Banked stack pointers and register sets (DCJ11)\<close>

definition dcj11_sp_mode_init :: "'m regs \<Rightarrow> 'm regs" where
  "dcj11_sp_mode_init r =
     (if model r \<noteq> DCJ11 then r
      else if sp_mode_init r then r
      else r\<lparr>sp_mode := (\<lambda>mode. if mode < 4 then R r 6 else sp_mode r mode), sp_mode_init := True\<rparr>)"

definition dcj11_switch_stack_mode :: "u16 \<Rightarrow> u16 \<Rightarrow> 'm regs \<Rightarrow> 'm regs" where
  "dcj11_switch_stack_mode old_psw new_psw r =
     (if model r \<noteq> DCJ11 then r
      else let old_mode = dcj11_psw_cur_mode old_psw; new_mode = dcj11_psw_cur_mode new_psw
           in if old_mode = new_mode then r
              else let r = dcj11_sp_mode_init r;
                       r = r\<lparr>sp_mode := (sp_mode r)(old_mode := R r 6)\<rparr>
                   in r\<lparr>R := (R r)(6 := sp_mode r new_mode)\<rparr>)"

definition dcj11_regset_init :: "'m regs \<Rightarrow> 'm regs" where
  "dcj11_regset_init r =
     (if model r \<noteq> DCJ11 then r
      else if rset_bank_init r then r
      else r\<lparr>rset_bank := (\<lambda>bank reg. if bank < 2 \<and> reg < 6 then R r reg else rset_bank r bank reg),
             rset_bank_init := True\<rparr>)"

text \<open>The loop over R0..R5 that saves one register and loads its other copy.\<close>

fun switch_regset_loop :: "nat \<Rightarrow> nat \<Rightarrow> nat list \<Rightarrow> 'm regs \<Rightarrow> 'm regs" where
  "switch_regset_loop old_sel new_sel [] r = r"
| "switch_regset_loop old_sel new_sel (reg # regs) r =
     (let r = r\<lparr>rset_bank := (rset_bank r)(old_sel := (rset_bank r old_sel)(reg := R r reg))\<rparr>;
          r = r\<lparr>R := (R r)(reg := rset_bank r new_sel reg)\<rparr>
      in switch_regset_loop old_sel new_sel regs r)"

definition dcj11_switch_regset :: "u16 \<Rightarrow> u16 \<Rightarrow> 'm regs \<Rightarrow> 'm regs" where
  "dcj11_switch_regset old_psw new_psw r =
     (if model r \<noteq> DCJ11 then r
      else let old_sel = dcj11_psw_regset old_psw; new_sel = dcj11_psw_regset new_psw
           in if old_sel = new_sel then r
              else switch_regset_loop old_sel new_sel [0, 1, 2, 3, 4, 5] (dcj11_regset_init r))"

definition dcj11_set_psw :: "u16 \<Rightarrow> 'm regs \<Rightarrow> 'm regs" where
  "dcj11_set_psw new_psw r =
     (let old_psw = psw r;
          r = (if model r = DCJ11
               then dcj11_switch_regset old_psw new_psw (dcj11_switch_stack_mode old_psw new_psw r)
               else r)
      in r\<lparr>psw := new_psw\<rparr>)"

definition dcj11_explicit_psw_write_fn :: "'m regs \<Rightarrow> u16 \<Rightarrow> u16" where
  "dcj11_explicit_psw_write_fn r new_psw =
     (if model r = DCJ11 then (new_psw AND NOT FLAG_T) OR (psw r AND FLAG_T) else new_psw)"

definition trap_psw :: "'m regs \<Rightarrow> u16 \<Rightarrow> u16 \<Rightarrow> u16" where
  "trap_psw r old_psw vec_psw =
     (if is_vm2 r then
        if old_psw AND FLAG_H \<noteq> 0
        then (old_psw AND NOT 0x1FF) OR (vec_psw AND 0x1FF)
        else (old_psw AND NOT 0x1FF) OR (vec_psw AND 0xFF)
      else if model r = DCJ11 then
        (let old_cm = dcj11_psw_cur_mode old_psw;
             vec_psw = dcj11_psw_set_cur_mode vec_psw 0
         in dcj11_psw_set_prev_mode vec_psw old_cm)
      else vec_psw)"

definition dcj11_rti_rtt_protect_psw :: "u16 \<Rightarrow> u16 \<Rightarrow> u16" where
  "dcj11_rti_rtt_protect_psw old_psw new_psw =
     (let set_only_mask = 0xF800; keep_ipl_mask = 0xE0;
          new_psw = (new_psw AND NOT set_only_mask) OR ((new_psw OR old_psw) AND set_only_mask)
      in (new_psw AND NOT keep_ipl_mask) OR (old_psw AND keep_ipl_mask))"

definition dcj11_read_mode_reg :: "nat \<Rightarrow> u16 \<Rightarrow> 'm regs \<Rightarrow> u16 \<times> 'm regs" where
  "dcj11_read_mode_reg mode reg r =
     (if reg \<noteq> 6 \<or> model r \<noteq> DCJ11 then (R r (unat (reg AND 7)), r)
      else let r = dcj11_sp_mode_init r in (sp_mode r (psw_mode_normalize mode), r))"

definition dcj11_write_mode_reg :: "nat \<Rightarrow> u16 \<Rightarrow> u16 \<Rightarrow> 'm regs \<Rightarrow> 'm regs" where
  "dcj11_write_mode_reg mode reg value r =
     (if reg \<noteq> 6 \<or> model r \<noteq> DCJ11 then r\<lparr>R := (R r)(unat (reg AND 7) := value)\<rparr>
      else let r = dcj11_sp_mode_init r;
               r = r\<lparr>sp_mode := (sp_mode r)(psw_mode_normalize mode := value)\<rparr>
           in if dcj11_psw_cur_mode (psw r) = psw_mode_normalize mode
              then r\<lparr>R := (R r)(6 := value)\<rparr> else r)"

section \<open>The condition codes as a group\<close>

text \<open>
  What an instruction leaves in the PSW, as one assignment: \<open>set_cc n z v c\<close>. The macros
  above reduce to it unless the condition codes are frozen.
\<close>

definition nzvc :: "bool \<Rightarrow> bool \<Rightarrow> bool \<Rightarrow> bool \<Rightarrow> u16" where
  "nzvc n z v c =
     (if n then FLAG_N else 0) OR (if z then FLAG_Z else 0) OR
     (if v then FLAG_V else 0) OR (if c then FLAG_C else 0)"

abbreviation CC_MASK :: u16 where "CC_MASK \<equiv> 0xF"

definition set_cc :: "bool \<Rightarrow> bool \<Rightarrow> bool \<Rightarrow> bool \<Rightarrow> 'm regs \<Rightarrow> 'm regs" where
  "set_cc n z v c r = r\<lparr>psw := (psw r AND NOT CC_MASK) OR nzvc n z v c\<rparr>"

lemma cc_frozen_psw [simp]: "cc_frozen (r\<lparr>psw := p\<rparr>) = cc_frozen r"
  by (simp add: cc_frozen_def)

definition put_bits :: "bool \<Rightarrow> u16 \<Rightarrow> u16 \<Rightarrow> u16" where
  "put_bits a f p = (if a then p OR f else p AND NOT f)"

lemma put_bits_nzvc:
  "put_bits c 1 (put_bits v 2 (put_bits z 4 (put_bits n 8 p))) = (p AND NOT CC_MASK) OR nzvc n z v c"
  by (cases n; cases z; cases v; cases c;
      simp add: put_bits_def nzvc_def u16_eq_bits bit_simps)

lemma not_frozen_flags:
  assumes "\<not> cc_frozen r"
  shows "set_flag f r = r\<lparr>psw := put_bits True f (psw r)\<rparr>"
     "clear_flag f r = r\<lparr>psw := put_bits False f (psw r)\<rparr>"
     "set_flag_if a f r = r\<lparr>psw := put_bits a f (psw r)\<rparr>"
  using assms by (simp_all add: set_flag_def clear_flag_def put_bits_def set_flag_if_def)

lemma set_flags_nzvc:
  assumes "\<not> cc_frozen r"
  shows "set_flag_if c FLAG_C (set_flag_if v FLAG_V (set_flag_if z FLAG_Z (set_flag_if n FLAG_N r))) = set_cc n z v c r"
  using assms
  by (simp add: not_frozen_flags put_bits_nzvc set_cc_def)

lemma PSW_SET_NZVC_WORD_cc: "\<not> cc_frozen r \<Longrightarrow> PSW_SET_NZVC_WORD n z v c r = set_cc n z v c r"
  by (simp add: PSW_SET_NZVC_WORD_def set_cc_def nzvc_def Let_def)

lemma nzvc_flags [simp]:
  "nzvc n z v c AND 8 = (if n then 8 else 0)" "nzvc n z v c AND 4 = (if z then 4 else 0)"
  "nzvc n z v c AND 2 = (if v then 2 else 0)" "nzvc n z v c AND 1 = (if c then 1 else 0)"
  by (cases n; cases z; cases v; cases c; simp add: nzvc_def)+

lemma cc_word_mask:
  "((p AND - 16) OR x) AND 1 = x AND (1::u16)" "((p AND - 16) OR x) AND 2 = x AND (2::u16)"
  "((p AND - 16) OR x) AND 4 = x AND (4::u16)" "((p AND - 16) OR x) AND 8 = x AND (8::u16)"
  "((p AND - 16) OR x) AND 5 = x AND (5::u16)"
  by (simp_all add: word_ao_dist word_bw_assocs)

lemma set_cc_flag:
  "flag_is_set FLAG_N (set_cc n z v c r) = n" "flag_is_set FLAG_Z (set_cc n z v c r) = z"
  "flag_is_set FLAG_V (set_cc n z v c r) = v" "flag_is_set FLAG_C (set_cc n z v c r) = c"
  "flag_is_clear FLAG_N (set_cc n z v c r) = (\<not> n)" "flag_is_clear FLAG_Z (set_cc n z v c r) = (\<not> z)"
  "flag_is_clear FLAG_V (set_cc n z v c r) = (\<not> v)" "flag_is_clear FLAG_C (set_cc n z v c r) = (\<not> c)"
  by (simp_all add: flag_is_set_def flag_is_clear_def set_cc_def cc_word_mask)

lemma set_cc_hi: "flag_is_clear (FLAG_C OR FLAG_Z) (set_cc n z v c r) = (\<not> c \<and> \<not> z)"
  by (cases n; cases z; cases v; cases c;
      simp add: flag_is_set_def flag_is_clear_def set_cc_def cc_word_mask nzvc_def word_bw_assocs)

lemma cc_frozen_R [simp]: "cc_frozen (r\<lparr>R := x\<rparr>) = cc_frozen r"
  by (simp add: cc_frozen_def)

lemma flags_R [simp]:
  "R (set_flag f r) = R r" "R (clear_flag f r) = R r" "R (set_flag_if a f r) = R r"
  by (simp_all add: set_flag_def clear_flag_def set_flag_if_def)

lemma flags_model [simp]:
  "model (set_flag f r) = model r" "model (clear_flag f r) = model r" "model (set_flag_if a f r) = model r"
  by (simp_all add: set_flag_def clear_flag_def set_flag_if_def)

lemma cc_frozen_flags [simp]:
  "cc_frozen (set_flag f r) = cc_frozen r" "cc_frozen (clear_flag f r) = cc_frozen r"
  "cc_frozen (set_flag_if a f r) = cc_frozen r"
  by (simp_all add: set_flag_def clear_flag_def set_flag_if_def)

lemma put_bits_and:
  "put_bits a f p AND f = (if a then f else 0)" "f AND g = 0 \<Longrightarrow> put_bits a f p AND g = p AND g"
  by (auto simp: put_bits_def bit_eq_iff bit_simps)

lemma flags_R_comm:
  "set_flag_if a f (r\<lparr>R := x\<rparr>) = (set_flag_if a f r)\<lparr>R := x\<rparr>"
  by (simp add: set_flag_if_def set_flag_def clear_flag_def Let_def)

lemma set_cc_R_comm: "set_cc n z v c (r\<lparr>R := x\<rparr>) = (set_cc n z v c r)\<lparr>R := x\<rparr>"
  by (simp add: set_cc_def)

lemma set_flags_vcnz:
  assumes "\<not> cc_frozen r"
  shows "set_flag_if z FLAG_Z (set_flag_if n FLAG_N (set_flag_if c FLAG_C (set_flag_if v FLAG_V r))) = set_cc n z v c r"
proof -
  have "put_bits z 4 (put_bits n 8 (put_bits c 1 (put_bits v 2 p))) = (p AND NOT CC_MASK) OR nzvc n z v c" for p
    by (cases n; cases z; cases v; cases c; simp add: put_bits_def nzvc_def u16_eq_bits bit_simps)
  then show ?thesis using assms by (simp add: not_frozen_flags set_cc_def)
qed

lemma set_flags_znvc:
  assumes "\<not> cc_frozen r"
  shows "clear_flag FLAG_V (set_flag_if c FLAG_C (set_flag_if n FLAG_N (set_flag_if z FLAG_Z r))) = set_cc n z False c r"
proof -
  have "put_bits False 2 (put_bits c 1 (put_bits n 8 (put_bits z 4 p))) = (p AND NOT CC_MASK) OR nzvc n z False c" for p
    by (cases n; cases z; cases c; simp add: put_bits_def nzvc_def u16_eq_bits bit_simps)
  then show ?thesis using assms by (simp add: not_frozen_flags set_cc_def)
qed

lemma V_flags:
  assumes "\<not> cc_frozen r"
  shows "flag_is_set FLAG_V (set_flag FLAG_V r)" 
    "flag_is_set FLAG_V (set_flag FLAG_C r) = flag_is_set FLAG_V r"
    "flag_is_set FLAG_V (clear_flag FLAG_C r) = flag_is_set FLAG_V r"
  using assms by (simp_all add: flag_is_set_def not_frozen_flags put_bits_and)

end
