(* ===== verification/RegBlocks.thy ===== *)
theory RegBlocks
  imports Regs
begin

text \<open>
  The processor's own registers in the I/O page: the VM1 timer block
  (\<^verbatim>\<open>vm1_reg_block_*\<close>), the DCJ11 internal registers (\<^verbatim>\<open>dcj11_reg_block_*\<close>: error,
  cache, program interrupt request, stack limit, PSW), the yellow-zone stack check and
  the acceptance of interrupts. A register block answers \<open>None\<close> for an address it does
  not decode (\<open>return false\<close> in C).
\<close>

section \<open>VM1 timer block\<close>

definition vm1_reg_block_load_word :: "'m regs \<Rightarrow> u16 \<Rightarrow> u16 option" where
  "vm1_reg_block_load_word r offset =
     (if offset = 0xFFC0 then Some 0x1FFF
      else if offset = 0xFFC2 then Some (if VM1_RAP_PRESENT r then 0x1FFF else 0)
      else if offset = 0xFFC4 then Some 0xFEE0
      else if offset = 0xFFC6 then Some (TVE_LIMIT r)
      else if offset = 0xFFC8 then Some (TVE_COUNT r)
      else if offset = 0xFFCA then Some (TVE_CSR r)
      else None)"

definition vm1_reg_block_store_word :: "u16 \<Rightarrow> u16 \<Rightarrow> 'm regs \<Rightarrow> 'm regs option" where
  "vm1_reg_block_store_word offset val r =
     (if offset = 0xFFC0 then Some r
      else if offset = 0xFFC2 then Some (r\<lparr>VM1_RAP_PRESENT := False\<rparr>)
      else if offset = 0xFFC4 then Some r
      else if offset = 0xFFC6 then Some (r\<lparr>TVE_LIMIT := val\<rparr>)
      else if offset = 0xFFC8 then Some r
      else if offset = 0xFFCA
      then Some (r\<lparr>TVE_CSR := 0xFF00 OR (val AND 0x7F), TVE_COUNT := TVE_LIMIT r\<rparr>)
      else None)"

text \<open>The byte of a word that a byte address selects, and a word with that byte replaced.\<close>

definition byte_of_word :: "u16 \<Rightarrow> u16 \<Rightarrow> u8" where
  "byte_of_word offset val =
     ucast (if offset AND 1 \<noteq> 0 then drop_bit 8 val AND 0xFF else val AND 0xFF)"

definition merge_byte :: "u16 \<Rightarrow> u16 \<Rightarrow> u8 \<Rightarrow> u16" where
  "merge_byte offset regv val =
     (if offset AND 1 \<noteq> 0
      then (regv AND 0xFF) OR push_bit 8 (ucast val AND 0xFF)
      else (regv AND 0xFF00) OR (ucast val AND 0xFF))"

definition vm1_reg_block_load_byte :: "'m regs \<Rightarrow> u16 \<Rightarrow> u8 option" where
  "vm1_reg_block_load_byte r offset =
     map_option (byte_of_word offset) (vm1_reg_block_load_word r offset)"

definition vm1_reg_block_store_byte :: "u16 \<Rightarrow> u8 \<Rightarrow> 'm regs \<Rightarrow> 'm regs option" where
  "vm1_reg_block_store_byte offset val r =
     (case vm1_reg_block_load_word r offset of
        None \<Rightarrow> None
      | Some regv \<Rightarrow> vm1_reg_block_store_word offset (merge_byte offset regv val) r)"

section \<open>DCJ11 internal registers\<close>

abbreviation DCJ11_REG_MEMERR :: u16 where "DCJ11_REG_MEMERR \<equiv> 0xFFE4"
abbreviation DCJ11_REG_CCR :: u16 where "DCJ11_REG_CCR \<equiv> 0xFFE6"
abbreviation DCJ11_REG_MAINT :: u16 where "DCJ11_REG_MAINT \<equiv> 0xFFE8"
abbreviation DCJ11_REG_HITMISS :: u16 where "DCJ11_REG_HITMISS \<equiv> 0xFFEA"
abbreviation DCJ11_REG_CPUERR :: u16 where "DCJ11_REG_CPUERR \<equiv> 0xFFF6"
abbreviation DCJ11_REG_PIRQ :: u16 where "DCJ11_REG_PIRQ \<equiv> 0xFFFA"
abbreviation DCJ11_REG_STKLIM :: u16 where "DCJ11_REG_STKLIM \<equiv> 0xFFFC"
abbreviation DCJ11_REG_PSW :: u16 where "DCJ11_REG_PSW \<equiv> 0xFFFE"

abbreviation DCJ11_CPUERR_RED :: u16 where "DCJ11_CPUERR_RED \<equiv> 4"
abbreviation DCJ11_CPUERR_YEL :: u16 where "DCJ11_CPUERR_YEL \<equiv> 8"
abbreviation DCJ11_CPUERR_ADR :: u16 where "DCJ11_CPUERR_ADR \<equiv> 0x40"
abbreviation DCJ11_CPUERR_HALT :: u16 where "DCJ11_CPUERR_HALT \<equiv> 0x80"
abbreviation DCJ11_CPUERR_MASK :: u16 where "DCJ11_CPUERR_MASK \<equiv> 0xFC"
abbreviation DCJ11_PIRQ_RW :: u16 where "DCJ11_PIRQ_RW \<equiv> 0xFE00"
abbreviation DCJ11_PIRQ_IMP :: u16 where "DCJ11_PIRQ_IMP \<equiv> 0xFEEE"
abbreviation DCJ11_STACK_YEL_LIMIT :: u16 where "DCJ11_STACK_YEL_LIMIT \<equiv> 0x100"

definition dcj11_set_cpuerr :: "u16 \<Rightarrow> 'm regs \<Rightarrow> 'm regs" where
  "dcj11_set_cpuerr bits r =
     (if model r \<noteq> DCJ11 then r
      else r\<lparr>J11_CPUERR := (J11_CPUERR r OR bits) AND DCJ11_CPUERR_MASK\<rparr>)"

text \<open>The compiler builtin: the number of zero bits above the highest set bit.\<close>

definition builtin_clz :: "u32 \<Rightarrow> nat" where
  "builtin_clz x = length (takeWhile (\<lambda>i. \<not> bit x i) (rev [0..<32]))"

definition dcj11_pirq_highest_level :: "u16 \<Rightarrow> nat" where
  "dcj11_pirq_highest_level pirq =
     (let req = pirq AND DCJ11_PIRQ_RW
      in if req = 0 then 0 else (31 - builtin_clz (ucast req)) - 8)"

definition dcj11_pirq_pri_field :: "nat \<Rightarrow> u16" where
  "dcj11_pirq_pri_field level =
     (if level = 1 then 0x22 else if level = 2 then 0x44 else if level = 3 then 0x66
      else if level = 4 then 0x88 else if level = 5 then 0xAA else if level = 6 then 0xCC
      else if level = 7 then 0xEE else 0)"

definition dcj11_pirq_visible :: "u16 \<Rightarrow> u16" where
  "dcj11_pirq_visible pirq =
     (let level = dcj11_pirq_highest_level pirq; req = pirq AND DCJ11_PIRQ_RW
      in (req OR dcj11_pirq_pri_field level) AND DCJ11_PIRQ_IMP)"

definition dcj11_reg_block_load_word :: "'m regs \<Rightarrow> u16 \<Rightarrow> u16 option" where
  "dcj11_reg_block_load_word r offset =
     (let a = offset AND 0xFFFE
      in if a = DCJ11_REG_MEMERR then Some (J11_MEMERR r)
         else if a = DCJ11_REG_CCR then Some (J11_CCR r)
         else if a = DCJ11_REG_MAINT then Some (J11_MAINT r)
         else if a = DCJ11_REG_HITMISS then Some (J11_HITMISS r)
         else if a = DCJ11_REG_CPUERR then Some (J11_CPUERR r AND DCJ11_CPUERR_MASK)
         else if a = DCJ11_REG_PIRQ then Some (dcj11_pirq_visible (J11_PIRQ r))
         else if a = DCJ11_REG_STKLIM then Some (J11_STKLIM r)
         else if a = DCJ11_REG_PSW then Some (psw r)
         else None)"

definition dcj11_reg_block_store_word :: "u16 \<Rightarrow> u16 \<Rightarrow> 'm regs \<Rightarrow> 'm regs option" where
  "dcj11_reg_block_store_word offset val r =
     (let a = offset AND 0xFFFE
      in if a = DCJ11_REG_MEMERR then Some (r\<lparr>J11_MEMERR := 0\<rparr>)
         else if a = DCJ11_REG_CCR then Some (r\<lparr>J11_CCR := val\<rparr>)
         else if a = DCJ11_REG_MAINT then Some r
         else if a = DCJ11_REG_HITMISS then Some r
         else if a = DCJ11_REG_CPUERR then Some (r\<lparr>J11_CPUERR := 0\<rparr>)
         else if a = DCJ11_REG_PIRQ then Some (r\<lparr>J11_PIRQ := val AND DCJ11_PIRQ_RW\<rparr>)
         else if a = DCJ11_REG_STKLIM then Some (r\<lparr>J11_STKLIM := val AND 0xFFFE\<rparr>)
         else if a = DCJ11_REG_PSW then
           (let r = dcj11_set_psw (dcj11_explicit_psw_write_fn r val) r
            in Some (r\<lparr>dcj11_explicit_psw_write := True\<rparr>))
         else None)"

definition dcj11_reg_block_load_byte :: "'m regs \<Rightarrow> u16 \<Rightarrow> u8 option" where
  "dcj11_reg_block_load_byte r offset =
     map_option (byte_of_word offset) (dcj11_reg_block_load_word r offset)"

definition dcj11_reg_block_store_byte :: "u16 \<Rightarrow> u8 \<Rightarrow> 'm regs \<Rightarrow> 'm regs option" where
  "dcj11_reg_block_store_byte offset val r =
     (if offset AND 0xFFFE = DCJ11_REG_PIRQ then
        if offset AND 1 = 0 then Some r
        else dcj11_reg_block_store_word DCJ11_REG_PIRQ (push_bit 8 (ucast val)) r
      else if offset = DCJ11_REG_MEMERR \<or> offset = DCJ11_REG_HITMISS \<or>
              offset = DCJ11_REG_CPUERR \<or> offset = DCJ11_REG_MAINT
      then dcj11_reg_block_store_word offset 0 r
      else case dcj11_reg_block_load_word r offset of
             None \<Rightarrow> None
           | Some regv \<Rightarrow> dcj11_reg_block_store_word offset (merge_byte offset regv val) r)"

definition dcj11_note_stack_reference :: "u16 \<Rightarrow> 'm regs \<Rightarrow> 'm regs" where
  "dcj11_note_stack_reference addr r =
     (if model r \<noteq> DCJ11 then r
      else if dcj11_stack_trap_active r then r
      else if \<not> dcj11_kernel_psw (psw r) then r
      else let limit = J11_STKLIM r AND 0xFFFE;
               limit = (if limit = 0 then DCJ11_STACK_YEL_LIMIT else limit)
           in if addr < limit
              then (dcj11_set_cpuerr DCJ11_CPUERR_YEL r)\<lparr>dcj11_yellow_pending := True\<rparr>
              else r)"

section \<open>Acceptance of interrupts\<close>

text \<open>\<open>Some vec\<close> is acceptance with the vector the C code stores in \<^verbatim>\<open>*vec_out\<close>.\<close>

definition irq_accept :: "'m regs \<Rightarrow> u16 \<Rightarrow> u16 option" where
  "irq_accept r irq_vector =
     (let vec = (if model r = K1801VM1 then irq_vector else irq_vector AND 0x1FF);
          pri = unat (drop_bit 9 irq_vector AND 7);
          psw_pri = unat (drop_bit 5 (psw r) AND 7)
      in if model r = K1801VM1 then
           if psw r AND 0x200 \<noteq> 0 then None
           else if vec = 0xE002 \<and> psw r AND 0x400 \<noteq> 0 then None
           else if vec \<noteq> 0xE002 \<and> flag_is_set FLAG_P r then None
           else Some (vec AND 0xFFFE)
         else if is_vm2 r then
           if psw r AND FLAG_P \<noteq> 0 then None else Some (irq_vector AND 0xFFFE)
         else if pri \<noteq> 0 \<and> pri \<le> psw_pri then None
         else Some (vec AND 0x1FFE))"

definition dcj11_pirq_poll :: "'m regs \<Rightarrow> u16 option" where
  "dcj11_pirq_poll r =
     (if model r \<noteq> DCJ11 then None
      else let level = dcj11_pirq_highest_level (J11_PIRQ r);
               psw_pri = unat (drop_bit 5 (psw r) AND 7)
           in if level = 0 then None
              else if level \<le> psw_pri then None
              else Some (0xA0 OR push_bit 9 (of_nat level AND 7)))"

definition core_poll_irq_any :: "'m bus \<Rightarrow> 'm regs \<Rightarrow> u16 option \<times> 'm regs" where
  "core_poll_irq_any b r =
     (case dcj11_pirq_poll r of
        Some v \<Rightarrow> (Some v, r)
      | None \<Rightarrow> (case cb_poll_irq b of None \<Rightarrow> (None, r) | Some poll_irq \<Rightarrow> poll_irq r))"

end
