(* ===== verification/Mmu.thy ===== *)
theory Mmu
  imports RegBlocks
begin

text \<open>
  The memory management unit: the PAR/PDR and MMR registers in the I/O page
  (\<^verbatim>\<open>mmu_io_*\<close>), the translation cache (\<^verbatim>\<open>mmu_tlb_*\<close>), the translation of virtual
  addresses (\<^verbatim>\<open>translate_va*\<close>) and the fault record. The code is compiled with
  \<open>ENABLE_MMU\<close> 0 or 1; both are modelled, the option is a field of the bus record.
\<close>

section \<open>Register map\<close>

abbreviation MMU_SSR0 :: u16 where "MMU_SSR0 \<equiv> 0xFF7A"
abbreviation MMU_SSR1 :: u16 where "MMU_SSR1 \<equiv> 0xFF7C"
abbreviation MMU_SSR2 :: u16 where "MMU_SSR2 \<equiv> 0xFF7E"
abbreviation MMU_SSR3 :: u16 where "MMU_SSR3 \<equiv> 0xF54E"
abbreviation MMU_SSR3_ALT :: u16 where "MMU_SSR3_ALT \<equiv> 0xFF4E"

abbreviation MMU_SSR0_ENABLE :: u16 where "MMU_SSR0_ENABLE \<equiv> 1"
abbreviation MMU_SSR0_PAGE_MASK :: u16 where "MMU_SSR0_PAGE_MASK \<equiv> 0x7E"
abbreviation MMU_SSR0_PROTECT :: u16 where "MMU_SSR0_PROTECT \<equiv> 0x2000"
abbreviation MMU_SSR0_LENGTH :: u16 where "MMU_SSR0_LENGTH \<equiv> 0x4000"
abbreviation MMU_SSR0_NONRES :: u16 where "MMU_SSR0_NONRES \<equiv> 0x8000"
abbreviation MMU_SSR0_FREEZE :: u16 where "MMU_SSR0_FREEZE \<equiv> 0xE000"
abbreviation MMU_SSR0_J_MASK :: u16 where "MMU_SSR0_J_MASK \<equiv> 0xE07F"
abbreviation MMU_SSR0_J_WR_MASK :: u16 where "MMU_SSR0_J_WR_MASK \<equiv> 0xF301"
abbreviation MMU_SSR3_UD :: u16 where "MMU_SSR3_UD \<equiv> 1"
abbreviation MMU_SSR3_SD :: u16 where "MMU_SSR3_SD \<equiv> 2"
abbreviation MMU_SSR3_KD :: u16 where "MMU_SSR3_KD \<equiv> 4"
abbreviation MMU_SSR3_CSM :: u16 where "MMU_SSR3_CSM \<equiv> 8"
abbreviation MMU_SSR3_M22E :: u16 where "MMU_SSR3_M22E \<equiv> 0x10"
abbreviation MMU_SSR3_J_MASK :: u16 where "MMU_SSR3_J_MASK \<equiv> 0x3F"
abbreviation MMU_PAR_J_MASK :: u16 where "MMU_PAR_J_MASK \<equiv> 0xFFFF"
abbreviation MMU_PDR_J_MASK :: u16 where "MMU_PDR_J_MASK \<equiv> 0xFF4E"
abbreviation MMU_PDR_W :: u16 where "MMU_PDR_W \<equiv> 0x40"
abbreviation MMU_PDR_A :: u16 where "MMU_PDR_A \<equiv> 0x80"
abbreviation MMU_TLB_VALID_MIN_MASK :: u16 where "MMU_TLB_VALID_MIN_MASK \<equiv> 0x1FFF"
abbreviation MMU_TLB_WRITE_ALLOWED :: u16 where "MMU_TLB_WRITE_ALLOWED \<equiv> 0x8000"
abbreviation MMU_PA18_MASK :: u32 where "MMU_PA18_MASK \<equiv> 0x3FFFF"
abbreviation MMU_PA22_MASK :: u32 where "MMU_PA22_MASK \<equiv> 0x3FFFFF"
abbreviation MMU_TRAP_VECTOR :: u16 where "MMU_TRAP_VECTOR \<equiv> 0xA8"

text \<open>
  One register set of eight words (\<open>MMU_DEC\<close>): base, mode, space and whether it holds
  PARs. The address is even, so the parity test of the macro always holds.
\<close>

definition mmu_dec_table :: "(u16 \<times> nat \<times> nat \<times> bool) list" where
  "mmu_dec_table =
     [(0xF480, 1, 0, False), (0xF490, 1, 1, False), (0xF4A0, 1, 0, True), (0xF4B0, 1, 1, True),
      (0xF4C0, 0, 0, False), (0xF4D0, 0, 1, False), (0xF4E0, 0, 0, True), (0xF4F0, 0, 1, True),
      (0xFF80, 3, 0, False), (0xFF90, 3, 1, False), (0xFFA0, 3, 0, True), (0xFFB0, 3, 1, True)]"

fun mmu_dec :: "u16 \<Rightarrow> (u16 \<times> nat \<times> nat \<times> bool) list \<Rightarrow> (nat \<times> nat \<times> bool \<times> nat) option" where
  "mmu_dec a [] = None"
| "mmu_dec a ((base, m, s, p) # tab) =
     (if base \<le> a \<and> a \<le> base + 0xE \<and> (a - base) AND 1 = 0
      then Some (m, s, p, unat (drop_bit 1 (a - base)))
      else mmu_dec a tab)"

definition mmu_decode_parpdr :: "u16 \<Rightarrow> (nat \<times> nat \<times> bool \<times> nat) option" where
  "mmu_decode_parpdr addr = mmu_dec (addr AND 0xFFFE) mmu_dec_table"

definition mmu_is_reg_address :: "'m bus \<Rightarrow> u16 \<Rightarrow> bool" where
  "mmu_is_reg_address b addr =
     (let a = addr AND 0xFFFE
      in if \<not> ENABLE_MMU b \<and> \<not> MMU_STUB_REGS_WHEN_DISABLED b then False
         else if a = MMU_SSR0 \<or> a = MMU_SSR1 \<or> a = MMU_SSR2 \<or> a = MMU_SSR3 \<or> a = MMU_SSR3_ALT then True
         else mmu_decode_parpdr a \<noteq> None)"

section \<open>Access rights, address size\<close>

definition mmu_acf_read_ok :: "u16 \<Rightarrow> bool" where
  "mmu_acf_read_ok pdr = (let acf = pdr AND 6 in acf = 2 \<or> acf = 6)"

definition mmu_acf_write_ok :: "u16 \<Rightarrow> bool" where
  "mmu_acf_write_ok pdr = (let acf = pdr AND 6 in acf = 6)"

definition mmu_acf_write_is_protect :: "u16 \<Rightarrow> bool" where
  "mmu_acf_write_is_protect pdr = (let acf = pdr AND 6 in acf = 2)"

definition mmu_phys_finalize :: "u32 \<Rightarrow> u16 \<Rightarrow> u32" where
  "mmu_phys_finalize pa ssr3 =
     (if ssr3 AND MMU_SSR3_M22E \<noteq> 0 then pa AND MMU_PA22_MASK else pa AND MMU_PA18_MASK)"

definition mmu_phys_is_iopage :: "u32 \<Rightarrow> bool" where
  "mmu_phys_is_iopage pa = (0x3FE000 \<le> pa \<and> pa \<le> 0x3FFFFF)"

definition mmu_split_enabled :: "'m regs \<Rightarrow> nat \<Rightarrow> bool" where
  "mmu_split_enabled r mode =
     (if mode = 0 then mmu_ssr3 r AND MMU_SSR3_KD \<noteq> 0
      else if mode = 1 then mmu_ssr3 r AND MMU_SSR3_SD \<noteq> 0
      else if mode = 3 then mmu_ssr3 r AND MMU_SSR3_UD \<noteq> 0
      else False)"

definition mmu_mode_from_psw :: "u16 \<Rightarrow> nat" where
  "mmu_mode_from_psw p = unat (drop_bit 14 p AND 3)"

section \<open>Translation cache\<close>

text \<open>\<open>upd3\<close> is assignment to one element of a three-dimensional array.\<close>

definition upd3 :: "nat \<Rightarrow> nat \<Rightarrow> nat \<Rightarrow> 'a \<Rightarrow> (nat \<Rightarrow> nat \<Rightarrow> nat \<Rightarrow> 'a) \<Rightarrow> (nat \<Rightarrow> nat \<Rightarrow> nat \<Rightarrow> 'a)" where
  "upd3 i j k x f = f(i := (f i)(j := (f i j)(k := x)))"

definition mmu_tlb_entry_for :: "u16 \<Rightarrow> u16 \<Rightarrow> u16 \<Rightarrow> u32 option \<Rightarrow> u32 \<Rightarrow> mmu_tlb_entry_t" where
  "mmu_tlb_entry_for pdr par ssr3 ramf ramsize =
     (let ed = drop_bit 3 pdr AND 1; len = drop_bit 8 pdr AND 0x7F
      in if \<not> mmu_acf_read_ok pdr
         then \<lparr>host_base = None, valid_min_flags = 0, valid_max = 0\<rparr>
         else
           let vmin = (if ed \<noteq> 0 then push_bit 6 len else 0);
               vmax = (if ed \<noteq> 0 then 0x1FFF else push_bit 6 len OR 0x3F);
               vmin = (if pdr AND MMU_PDR_W \<noteq> 0 \<and> mmu_acf_write_ok pdr
                       then vmin OR MMU_TLB_WRITE_ALLOWED else vmin);
               hb = (case ramf of
                       None \<Rightarrow> None
                     | Some ram \<Rightarrow>
                         (let seg_base = push_bit 6 (ucast par);
                              pa_base = mmu_phys_finalize seg_base ssr3;
                              pa_last = mmu_phys_finalize (seg_base + 0x1FFF) ssr3
                          in if pa_base \<le> pa_last \<and> pa_last - pa_base = 0x1FFF \<and>
                                \<not> mmu_phys_is_iopage pa_base \<and> \<not> mmu_phys_is_iopage pa_last \<and>
                                pa_base + 0x2000 \<le> ramsize
                             then Some (ram + pa_base) else None))
           in \<lparr>host_base = hb, valid_min_flags = vmin, valid_max = vmax\<rparr>)"

definition mmu_tlb_update :: "nat \<Rightarrow> nat \<Rightarrow> nat \<Rightarrow> 'm regs \<Rightarrow> 'm regs" where
  "mmu_tlb_update mode space seg r =
     (let pdr = mmu_pdr r mode space seg AND MMU_PDR_J_MASK;
          par = mmu_par r mode space seg AND MMU_PAR_J_MASK
      in r\<lparr>mmu_tlb := upd3 mode space seg
             (mmu_tlb_entry_for pdr par (mmu_ssr3 r) (ram_fast r) (ram_fast_size r)) (mmu_tlb r)\<rparr>)"

text \<open>The cached host address of an access, \<open>None\<close> when the cache does not cover it.\<close>

definition mmu_tlb_ptr :: "'m regs \<Rightarrow> nat \<Rightarrow> nat \<Rightarrow> nat \<Rightarrow> u16 \<Rightarrow> u16 \<Rightarrow> bool \<Rightarrow> u32 option" where
  "mmu_tlb_ptr r mode space seg po width is_write =
     (let entry = mmu_tlb r mode space seg;
          vmin = valid_min_flags entry AND MMU_TLB_VALID_MIN_MASK;
          last = po + width - 1
      in case host_base entry of
           None \<Rightarrow> None
         | Some base \<Rightarrow>
             if po < vmin \<or> valid_max entry < last then None
             else if is_write \<and> valid_min_flags entry AND MMU_TLB_WRITE_ALLOWED = 0 then None
             else Some (base + ucast po))"

text \<open>The three nested loops over modes, spaces and segments.\<close>

definition tlb_indices :: "(nat \<times> nat \<times> nat) list" where
  "tlb_indices = [(mode, space, seg). mode \<leftarrow> [0..<4], space \<leftarrow> [0..<2], seg \<leftarrow> [0..<8]]"

fun tlb_flush_list :: "(nat \<times> nat \<times> nat) list \<Rightarrow> 'm regs \<Rightarrow> 'm regs" where
  "tlb_flush_list [] r = r"
| "tlb_flush_list ((mode, space, seg) # is) r = tlb_flush_list is (mmu_tlb_update mode space seg r)"

definition mmu_tlb_flush_all :: "'m regs \<Rightarrow> 'm regs" where
  "mmu_tlb_flush_all r = tlb_flush_list tlb_indices r"

section \<open>Registers in the I/O page\<close>

definition mmu_ssr1_visible :: "'m regs \<Rightarrow> u16" where
  "mmu_ssr1_visible r =
     (let mmr1 = mmu_ssr1 r
      in if model r \<noteq> DCJ11 then mmr1
         else let mmr1 = (if drop_bit 8 mmr1 = 0x17 then mmr1 AND 0xFF else mmr1)
              in if mmr1 AND 0xFF = 0x17 then drop_bit 8 mmr1 else mmr1)"

definition mmu_io_read_word :: "'m bus \<Rightarrow> 'm regs \<Rightarrow> u16 \<Rightarrow> u16 option" where
  "mmu_io_read_word b r addr =
     (let a = addr AND 0xFFFE; on = (\<lambda>v. Some (if ENABLE_MMU b then v else 0))
      in if \<not> ENABLE_MMU b \<and> \<not> MMU_STUB_REGS_WHEN_DISABLED b then None
         else if model r \<noteq> DCJ11 then None
         else if a = MMU_SSR0 then on (mmu_ssr0 r)
         else if a = MMU_SSR1 then on (mmu_ssr1_visible r)
         else if a = MMU_SSR2 then on (mmu_ssr2 r)
         else if a = MMU_SSR3 \<or> a = MMU_SSR3_ALT then on (mmu_ssr3 r AND MMU_SSR3_J_MASK)
         else case mmu_decode_parpdr a of
                None \<Rightarrow> None
              | Some (mode, space, is_par, seg) \<Rightarrow>
                  on (if is_par then mmu_par r mode space seg AND MMU_PAR_J_MASK
                      else mmu_pdr r mode space seg AND MMU_PDR_J_MASK))"

definition mmu_write_ssr0 :: "u16 \<Rightarrow> 'm regs \<Rightarrow> 'm regs" where
  "mmu_write_ssr0 val r =
     (let old_ssr0 = mmu_ssr0 r;
          data = val AND MMU_SSR0_J_MASK;
          r = r\<lparr>mmu_ssr0 := (mmu_ssr0 r AND NOT MMU_SSR0_J_WR_MASK) OR (data AND MMU_SSR0_J_WR_MASK)\<rparr>
      in if (old_ssr0 XOR val) AND MMU_SSR0_ENABLE \<noteq> 0 then mmu_tlb_flush_all r else r)"

definition mmu_write_parpdr :: "nat \<Rightarrow> nat \<Rightarrow> bool \<Rightarrow> nat \<Rightarrow> u16 \<Rightarrow> 'm regs \<Rightarrow> 'm regs" where
  "mmu_write_parpdr mode space is_par seg val r =
     (let r = (if is_par then
                 r\<lparr>mmu_par := upd3 mode space seg (val AND MMU_PAR_J_MASK) (mmu_par r),
                   mmu_pdr := upd3 mode space seg
                     (mmu_pdr r mode space seg AND NOT (MMU_PDR_A OR MMU_PDR_W)) (mmu_pdr r)\<rparr>
               else
                 r\<lparr>mmu_pdr := upd3 mode space seg
                     ((val AND MMU_PDR_J_MASK) AND NOT (MMU_PDR_A OR MMU_PDR_W)) (mmu_pdr r)\<rparr>)
      in mmu_tlb_update mode space seg r)"

definition mmu_io_write_word :: "'m bus \<Rightarrow> u16 \<Rightarrow> u16 \<Rightarrow> 'm regs \<Rightarrow> 'm regs option" where
  "mmu_io_write_word b addr val r =
     (let a = addr AND 0xFFFE; on = (\<lambda>r'. Some (if ENABLE_MMU b then r' else r))
      in if \<not> ENABLE_MMU b \<and> \<not> MMU_STUB_REGS_WHEN_DISABLED b then None
         else if model r \<noteq> DCJ11 then None
         else if a = MMU_SSR0 then on (mmu_write_ssr0 val r)
         else if a = MMU_SSR1 then Some r
         else if a = MMU_SSR2 then Some r
         else if a = MMU_SSR3 \<or> a = MMU_SSR3_ALT
         then on (mmu_tlb_flush_all (r\<lparr>mmu_ssr3 := val AND MMU_SSR3_J_MASK\<rparr>))
         else case mmu_decode_parpdr a of
                None \<Rightarrow> None
              | Some (mode, space, is_par, seg) \<Rightarrow> on (mmu_write_parpdr mode space is_par seg val r))"

definition mmu_io_read_byte :: "'m bus \<Rightarrow> 'm regs \<Rightarrow> u16 \<Rightarrow> u8 option" where
  "mmu_io_read_byte b r addr =
     map_option (byte_of_word addr) (mmu_io_read_word b r (addr AND 0xFFFE))"

definition mmu_io_write_byte :: "'m bus \<Rightarrow> u16 \<Rightarrow> u8 \<Rightarrow> 'm regs \<Rightarrow> 'm regs option" where
  "mmu_io_write_byte b addr val r =
     (let wa = addr AND 0xFFFE
      in if \<not> mmu_is_reg_address b wa \<or> model r \<noteq> DCJ11 then None
         else let w = (case mmu_io_read_word b r wa of None \<Rightarrow> 0 | Some w \<Rightarrow> w)
              in mmu_io_write_word b wa (merge_byte addr w val) r)"

section \<open>Translation\<close>

definition mmu_on :: "'m bus \<Rightarrow> 'm regs \<Rightarrow> bool" where
  "mmu_on b r = (ENABLE_MMU b \<and> model r = DCJ11 \<and> mmu_ssr0 r AND MMU_SSR0_ENABLE \<noteq> 0)"

definition va_seg :: "u16 \<Rightarrow> nat" where
  "va_seg va = unat (drop_bit 13 va AND 7)"

text \<open>\<open>r->mmu_pdr[mode][space][seg] |= bits\<close>\<close>

definition pdr_or :: "nat \<Rightarrow> nat \<Rightarrow> nat \<Rightarrow> u16 \<Rightarrow> 'm regs \<Rightarrow> 'm regs" where
  "pdr_or mode space seg bits r =
     r\<lparr>mmu_pdr := upd3 mode space seg (mmu_pdr r mode space seg OR bits) (mmu_pdr r)\<rparr>"

definition mmu_note_write_pdrw :: "'m bus \<Rightarrow> nat \<Rightarrow> bool \<Rightarrow> nat \<Rightarrow> 'm regs \<Rightarrow> 'm regs" where
  "mmu_note_write_pdrw b mode space seg r =
     (if \<not> mmu_on b r then r
      else let mode = mode mod 4; seg = seg mod 8;
               space = (if space \<and> \<not> mmu_split_enabled r mode then False else space)
           in pdr_or mode (if space then 1 else 0) seg MMU_PDR_W r)"

definition mmu_note_internal_reg_write :: "'m bus \<Rightarrow> u16 \<Rightarrow> bool \<Rightarrow> 'm regs \<Rightarrow> 'm regs" where
  "mmu_note_internal_reg_write b va force_kernel_d r =
     (if \<not> mmu_on b r then r
      else let mode = (if force_kernel_d then 0 else mmu_mode_from_psw (psw r));
               space = (if force_kernel_d then mmu_split_enabled r 0 else mmu_split_enabled r mode)
           in mmu_note_write_pdrw b mode space (va_seg va) r)"

definition mmu_fault_to_ssr0_bits :: "mmu_fault \<Rightarrow> u16" where
  "mmu_fault_to_ssr0_bits fault =
     (case fault of
        MMU_FAULT_NONRES \<Rightarrow> MMU_SSR0_NONRES
      | MMU_FAULT_LENGTH \<Rightarrow> MMU_SSR0_LENGTH
      | MMU_FAULT_PROTECT \<Rightarrow> MMU_SSR0_PROTECT
      | MMU_FAULT_NONE \<Rightarrow> 0)"

definition mmu_mmr1_instruction_start :: "'m bus \<Rightarrow> 'm regs \<Rightarrow> 'm regs" where
  "mmu_mmr1_instruction_start b r =
     (if \<not> ENABLE_MMU b \<or> model r \<noteq> DCJ11 then r
      else if mmu_ssr0 r AND MMU_SSR0_FREEZE \<noteq> 0 then r
      else r\<lparr>mmu_ssr2 := R r 7, mmu_ssr1 := 0\<rparr>)"

definition mmu_mmr1_record_delta :: "'m bus \<Rightarrow> nat \<Rightarrow> u16 \<Rightarrow> 'm regs \<Rightarrow> 'm regs" where
  "mmu_mmr1_record_delta b reg delta r =
     (if \<not> ENABLE_MMU b \<or> model r \<noteq> DCJ11 then r
      else if mmu_ssr0 r AND MMU_SSR0_FREEZE \<noteq> 0 then r
      else let entry = push_bit 3 (delta AND 0x1F) OR (of_nat reg AND 7)
           in if mmu_ssr1 r AND 0xFF = 0 then r\<lparr>mmu_ssr1 := entry\<rparr>
              else if mmu_ssr1 r AND 0xFF00 = 0 then r\<lparr>mmu_ssr1 := mmu_ssr1 r OR push_bit 8 entry\<rparr>
              else r)"

text \<open>
  The outcome of a translation: the return code (\<open>Inl\<close> is \<open>-1\<close>) with the values the C
  code leaves in its output parameters.
\<close>

datatype xlate = XFault (x_fault: mmu_fault) (x_mode: nat) (x_space: nat) (x_seg: nat)
  | XOk (x_pa: u32)

text \<open>
  The page check shared by \<^verbatim>\<open>translate_va_ex\<close> and \<^verbatim>\<open>translate_va_mode_space\<close> (the
  two C functions repeat it): length, access rights, the A and W bits, the physical
  address.
\<close>

definition page_translate :: "'m bus \<Rightarrow> u16 \<Rightarrow> bool \<Rightarrow> nat \<Rightarrow> nat \<Rightarrow> nat \<Rightarrow> 'm regs \<Rightarrow> xlate \<times> 'm regs" where
  "page_translate b va is_write mode space seg r =
     (let block = drop_bit 6 va AND 0x7F;
          pdr = mmu_pdr r mode space seg AND MMU_PDR_J_MASK;
          par = mmu_par r mode space seg AND MMU_PAR_J_MASK;
          ed = drop_bit 3 pdr AND 1;
          len = drop_bit 8 pdr AND 0x7F;
          note = (\<lambda>r. if is_write then mmu_note_write_pdrw b mode (space \<noteq> 0) seg r else r)
      in if (ed = 0 \<and> len < block) \<or> (ed \<noteq> 0 \<and> block < len)
         then (XFault MMU_FAULT_LENGTH mode space seg, note r)
         else if is_write \<and> \<not> mmu_acf_write_ok pdr
         then (XFault (if mmu_acf_write_is_protect pdr then MMU_FAULT_PROTECT else MMU_FAULT_NONRES)
                 mode space seg, note r)
         else if \<not> is_write \<and> \<not> mmu_acf_read_ok pdr
         then (XFault MMU_FAULT_NONRES mode space seg, r)
         else
           let r = pdr_or mode space seg (if is_write then MMU_PDR_A OR MMU_PDR_W else MMU_PDR_A) r;
               pa_block = ucast ((par + block) AND MMU_PAR_J_MASK) :: u32
           in (XOk (mmu_phys_finalize (push_bit 6 pa_block OR ucast (va AND 0x3F)) (mmu_ssr3 r)), r))"

definition translate_va_ex :: "'m bus \<Rightarrow> u16 \<Rightarrow> bool \<Rightarrow> bool \<Rightarrow> bool \<Rightarrow> 'm regs \<Rightarrow> xlate \<times> 'm regs" where
  "translate_va_ex b va is_write is_ifetch force_kernel_d r =
     (if \<not> mmu_on b r then (XOk (ucast va), r)
      else
        let mode = (if force_kernel_d then 0 else mmu_mode_from_psw (psw r));
            space = (if force_kernel_d then (if mmu_split_enabled r 0 then 1 else 0)
                     else if is_ifetch then 0
                     else if mmu_split_enabled r mode then 1 else 0);
            seg = va_seg va
        in if mode = 2
           then (XFault MMU_FAULT_NONRES mode space seg,
                 if is_write then mmu_note_write_pdrw b mode (space \<noteq> 0) seg r else r)
           else page_translate b va is_write mode space seg r)"

definition translate_va :: "'m bus \<Rightarrow> u16 \<Rightarrow> bool \<Rightarrow> bool \<Rightarrow> 'm regs \<Rightarrow> xlate \<times> 'm regs" where
  "translate_va b va is_write is_ifetch r = translate_va_ex b va is_write is_ifetch False r"

definition translate_va_mode_space ::
  "'m bus \<Rightarrow> u16 \<Rightarrow> bool \<Rightarrow> nat \<Rightarrow> bool \<Rightarrow> 'm regs \<Rightarrow> xlate \<times> 'm regs" where
  "translate_va_mode_space b va is_write mode_in space_in r =
     (if \<not> mmu_on b r then (XOk (ucast va), r)
      else
        let mode = psw_mode_normalize mode_in;
            space = (if space_in then if mmu_split_enabled r mode then 1 else 0 else 0)
        in page_translate b va is_write mode space (va_seg va) r)"

definition mmu_record_fault :: "'m bus \<Rightarrow> mmu_fault \<Rightarrow> nat \<Rightarrow> nat \<Rightarrow> nat \<Rightarrow> 'm regs \<Rightarrow> 'm regs" where
  "mmu_record_fault b fault mode space seg r =
     (if \<not> ENABLE_MMU b \<or> model r \<noteq> DCJ11 then r
      else if mmu_ssr0 r AND MMU_SSR0_FREEZE \<noteq> 0 then r
      else
        let page = push_bit 4 (of_nat mode AND 3) OR push_bit 3 (of_nat space AND 1) OR (of_nat seg AND 7)
        in r\<lparr>mmu_ssr0 := ((mmu_ssr0 r AND MMU_SSR0_ENABLE) OR (push_bit 1 page AND MMU_SSR0_PAGE_MASK) OR
                          mmu_fault_to_ssr0_bits fault) AND MMU_SSR0_J_MASK,
             mmu_ssr2 := instr_pc r\<rparr>)"

end
