(* ===== verification/Memory.thy ===== *)
theory Memory
  imports Mmu
begin

text \<open>
  Memory accesses of the processor: the physical accesses \<^verbatim>\<open>raw_*_phys\<close> with the I/O
  page aliases of the DCJ11, and the virtual ones \<^verbatim>\<open>core_load_*_ex\<close>,
  \<^verbatim>\<open>core_store_*_ex\<close> and \<^verbatim>\<open>core_*_word_mode_space\<close>.

  The C functions for accesses and for traps call each other. Here an access gets the
  trap routine as its argument \<open>t\<close>; the theory Traps ties the knot. The fast path of an
  access (the cached RAM pointer with \<open>ENABLE_MMU = 0\<close>, the translation cache with
  \<open>ENABLE_MMU = 1\<close>) and the path behind it are separate definitions.
\<close>

section \<open>Physical accesses\<close>

definition dcj11_io_alias_offset :: "'m bus \<Rightarrow> 'm regs \<Rightarrow> u32 \<Rightarrow> u16 option" where
  "dcj11_io_alias_offset b r pa =
     (if model r \<noteq> DCJ11 then None
      else if \<not> ENABLE_MMU b then None
      else if mmu_ssr0 r AND 1 = 0 then None
      else if mmu_ssr3 r AND 0x10 \<noteq> 0 then
        (if pa < 0x3FE000 \<or> 0x3FFFFF < pa then None else Some (ucast (pa AND 0xFFFF)))
      else if 0x3E000 \<le> pa \<and> pa \<le> 0x3FFFF then Some (0xE000 OR ucast (pa AND 0x1FFF))
      else None)"

definition dcj11_phys_internal_reg :: "'m bus \<Rightarrow> u16 \<Rightarrow> bool" where
  "dcj11_phys_internal_reg b offset =
     (let a = offset AND 0xFFFE
      in if DCJ11_REG_MEMERR \<le> a \<and> a \<le> DCJ11_REG_PSW then True else mmu_is_reg_address b a)"

definition raw_load_byte_phys :: "'m bus \<Rightarrow> 'm trapf \<Rightarrow> u32 \<Rightarrow> 'm regs \<Rightarrow> (u8 \<times> 'm regs) option" where
  "raw_load_byte_phys b t pa r =
     (let internal = (case dcj11_io_alias_offset b r pa of
                        None \<Rightarrow> None
                      | Some offset \<Rightarrow>
                          (case dcj11_reg_block_load_byte r offset of
                             Some v \<Rightarrow> Some v
                           | None \<Rightarrow> mmu_io_read_byte b r offset))
      in case internal of
           Some v \<Rightarrow> Some (v, r)
         | None \<Rightarrow>
             if pa \<le> 0xFFFF then cb_load_byte b (t BUS_ERROR) r (ucast pa)
             else case cb_load_byte_pa b of
                    Some f \<Rightarrow> f (t BUS_ERROR) r pa
                  | None \<Rightarrow> cb_load_byte b (t BUS_ERROR) r (ucast pa))"

definition raw_store_byte_phys :: "'m bus \<Rightarrow> 'm trapf \<Rightarrow> u32 \<Rightarrow> u8 \<Rightarrow> 'm regs \<Rightarrow> 'm regs option" where
  "raw_store_byte_phys b t pa val r =
     (let internal = (case dcj11_io_alias_offset b r pa of
                        None \<Rightarrow> None
                      | Some offset \<Rightarrow>
                          (case dcj11_reg_block_store_byte offset val r of
                             Some r \<Rightarrow> Some r
                           | None \<Rightarrow> mmu_io_write_byte b offset val r))
      in case internal of
           Some r \<Rightarrow> Some r
         | None \<Rightarrow>
             if pa \<le> 0xFFFF then cb_store_byte b (t BUS_ERROR) r (ucast pa) val
             else case cb_store_byte_pa b of
                    Some f \<Rightarrow> f (t BUS_ERROR) r pa val
                  | None \<Rightarrow> cb_store_byte b (t BUS_ERROR) r (ucast pa) val)"

definition raw_load_word_phys :: "'m bus \<Rightarrow> 'm trapf \<Rightarrow> u32 \<Rightarrow> 'm regs \<Rightarrow> (u16 \<times> 'm regs) option" where
  "raw_load_word_phys b t pa r =
     (let internal = (case dcj11_io_alias_offset b r pa of
                        None \<Rightarrow> None
                      | Some offset \<Rightarrow>
                          (case dcj11_reg_block_load_word r offset of
                             Some v \<Rightarrow> Some v
                           | None \<Rightarrow> mmu_io_read_word b r offset))
      in case internal of
           Some v \<Rightarrow> Some (v, r)
         | None \<Rightarrow>
             if pa \<le> 0xFFFF then cb_load_word b (t BUS_ERROR) r (ucast pa)
             else case cb_load_word_pa b of
                    Some f \<Rightarrow> f (t BUS_ERROR) r pa
                  | None \<Rightarrow> cb_load_word b (t BUS_ERROR) r (ucast pa))"

definition raw_store_word_phys :: "'m bus \<Rightarrow> 'm trapf \<Rightarrow> u32 \<Rightarrow> u16 \<Rightarrow> 'm regs \<Rightarrow> 'm regs option" where
  "raw_store_word_phys b t pa val r =
     (let internal = (case dcj11_io_alias_offset b r pa of
                        None \<Rightarrow> None
                      | Some offset \<Rightarrow>
                          (case dcj11_reg_block_store_word offset val r of
                             Some r \<Rightarrow> Some r
                           | None \<Rightarrow> mmu_io_write_word b offset val r))
      in case internal of
           Some r \<Rightarrow> Some r
         | None \<Rightarrow>
             if pa \<le> 0xFFFF then cb_store_word b (t BUS_ERROR) r (ucast pa) val
             else case cb_store_word_pa b of
                    Some f \<Rightarrow> f (t BUS_ERROR) r pa val
                  | None \<Rightarrow> cb_store_word b (t BUS_ERROR) r (ucast pa) val)"

section \<open>Host memory behind the fast path\<close>

text \<open>Two bytes at a host address, low byte first.\<close>

definition host_read_word :: "'m bus \<Rightarrow> 'm regs \<Rightarrow> u32 \<Rightarrow> u16" where
  "host_read_word b r p = ucast (host_read b r p) OR push_bit 8 (ucast (host_read b r (p + 1)))"

definition host_write_word :: "'m bus \<Rightarrow> 'm regs \<Rightarrow> u32 \<Rightarrow> u16 \<Rightarrow> 'm regs" where
  "host_write_word b r p val =
     host_write b (host_write b r p (ucast (val AND 0xFF))) (p + 1) (ucast (drop_bit 8 val AND 0xFF))"

text \<open>The page of an access in the current mode and its place in that page.\<close>

definition cur_page :: "'m regs \<Rightarrow> u16 \<Rightarrow> nat \<times> nat \<times> nat" where
  "cur_page r offset =
     (let mode = mmu_mode_from_psw (psw r)
      in (mode, if mmu_split_enabled r mode then 1 else 0, unat (drop_bit 13 offset)))"

definition tlb_hit :: "'m bus \<Rightarrow> nat \<times> nat \<times> nat \<Rightarrow> u16 \<Rightarrow> u16 \<Rightarrow> bool \<Rightarrow> 'm regs \<Rightarrow> u32 option" where
  "tlb_hit b page offset width is_write r =
     (case page of (mode, space, seg) \<Rightarrow>
        if mmu_on b r then mmu_tlb_ptr r mode space seg (offset AND 0x1FFF) width is_write else None)"

definition fast_load_byte :: "'m bus \<Rightarrow> bool \<Rightarrow> u16 \<Rightarrow> 'm regs \<Rightarrow> (u8 \<times> 'm regs) option" where
  "fast_load_byte b is_ifetch offset r =
     (if \<not> ENABLE_MMU b then
        (case ram_fast r of
           None \<Rightarrow> None
         | Some ram \<Rightarrow> if ucast offset < ram_fast_size r
                       then Some (host_read b r (ram + ucast offset), r) else None)
      else if is_ifetch then None
      else case cur_page r offset of (mode, space, seg) \<Rightarrow>
             (case tlb_hit b (mode, space, seg) offset 1 False r of
                None \<Rightarrow> None
              | Some p \<Rightarrow> let r = pdr_or mode space seg MMU_PDR_A r in Some (host_read b r p, r)))"

definition fast_store_byte :: "'m bus \<Rightarrow> u16 \<Rightarrow> u8 \<Rightarrow> 'm regs \<Rightarrow> 'm regs option" where
  "fast_store_byte b offset val r =
     (if \<not> ENABLE_MMU b then
        (case ram_fast r of
           None \<Rightarrow> None
         | Some ram \<Rightarrow> if ucast offset < ram_fast_size r
                       then Some (host_write b r (ram + ucast offset) val) else None)
      else case cur_page r offset of (mode, space, seg) \<Rightarrow>
             (case tlb_hit b (mode, space, seg) offset 1 True r of
                None \<Rightarrow> None
              | Some p \<Rightarrow> let r = pdr_or mode space seg (MMU_PDR_A OR MMU_PDR_W) r
                          in Some (host_write b r p val)))"

definition fast_load_word :: "'m bus \<Rightarrow> bool \<Rightarrow> u16 \<Rightarrow> 'm regs \<Rightarrow> (u16 \<times> 'm regs) option" where
  "fast_load_word b is_ifetch offset r =
     (if \<not> ENABLE_MMU b then
        (case ram_fast r of
           None \<Rightarrow> None
         | Some ram \<Rightarrow> if \<not> (model r = DCJ11 \<and> offset AND 1 \<noteq> 0) \<and> ucast offset + 1 < ram_fast_size r
                       then Some (host_read_word b r (ram + ucast offset), r) else None)
      else if is_ifetch then None
      else case cur_page r offset of (mode, space, seg) \<Rightarrow>
             (case tlb_hit b (mode, space, seg) offset 2 False r of
                None \<Rightarrow> None
              | Some p \<Rightarrow> let r = pdr_or mode space seg MMU_PDR_A r in Some (host_read_word b r p, r)))"

definition fast_store_word :: "'m bus \<Rightarrow> u16 \<Rightarrow> u16 \<Rightarrow> 'm regs \<Rightarrow> 'm regs option" where
  "fast_store_word b offset val r =
     (if \<not> ENABLE_MMU b then
        (case ram_fast r of
           None \<Rightarrow> None
         | Some ram \<Rightarrow> if \<not> (model r = DCJ11 \<and> offset AND 1 \<noteq> 0) \<and> ucast offset + 1 < ram_fast_size r
                       then Some (host_write_word b r (ram + ucast offset) val) else None)
      else case cur_page r offset of (mode, space, seg) \<Rightarrow>
             (case tlb_hit b (mode, space, seg) offset 2 True r of
                None \<Rightarrow> None
              | Some p \<Rightarrow> let r = pdr_or mode space seg (MMU_PDR_A OR MMU_PDR_W) r
                          in Some (host_write_word b r p val)))"

section \<open>Registers decoded at virtual addresses\<close>

text \<open>
  With translation off, the DCJ11 decodes its internal and MMU registers at virtual
  addresses; the VM1 always decodes its timer block.
\<close>

definition va_reg_load_byte :: "'m bus \<Rightarrow> u16 \<Rightarrow> 'm regs \<Rightarrow> u8 option" where
  "va_reg_load_byte b offset r =
     (if model r = DCJ11 \<and> \<not> mmu_on b r then
        (case dcj11_reg_block_load_byte r offset of
           Some v \<Rightarrow> Some v | None \<Rightarrow> mmu_io_read_byte b r offset)
      else if model r = K1801VM1 then vm1_reg_block_load_byte r offset
      else None)"

definition va_reg_load_word :: "'m bus \<Rightarrow> u16 \<Rightarrow> 'm regs \<Rightarrow> u16 option" where
  "va_reg_load_word b offset r =
     (if model r = DCJ11 \<and> \<not> mmu_on b r then
        (case dcj11_reg_block_load_word r offset of
           Some v \<Rightarrow> Some v | None \<Rightarrow> mmu_io_read_word b r offset)
      else if model r = K1801VM1 then vm1_reg_block_load_word r offset
      else None)"

text \<open>\<open>note\<close> records the write in the PDR of the page, as the callers do.\<close>

definition va_reg_store_byte :: "'m bus \<Rightarrow> ('m regs \<Rightarrow> 'm regs) \<Rightarrow> u16 \<Rightarrow> u8 \<Rightarrow> 'm regs \<Rightarrow> 'm regs option" where
  "va_reg_store_byte b note offset val r =
     (if model r = DCJ11 \<and> \<not> mmu_on b r then
        map_option note (case dcj11_reg_block_store_byte offset val r of
                           Some r \<Rightarrow> Some r | None \<Rightarrow> mmu_io_write_byte b offset val r)
      else if model r = K1801VM1 then vm1_reg_block_store_byte offset val r
      else None)"

definition va_reg_store_word :: "'m bus \<Rightarrow> ('m regs \<Rightarrow> 'm regs) \<Rightarrow> u16 \<Rightarrow> u16 \<Rightarrow> 'm regs \<Rightarrow> 'm regs option" where
  "va_reg_store_word b note offset val r =
     (if model r = DCJ11 \<and> \<not> mmu_on b r then
        map_option note (case dcj11_reg_block_store_word offset val r of
                           Some r \<Rightarrow> Some r | None \<Rightarrow> mmu_io_write_word b offset val r)
      else if model r = K1801VM1 then vm1_reg_block_store_word offset val r
      else None)"

section \<open>Virtual accesses\<close>

text \<open>An address error of the DCJ11: the access returns 0 after the trap.\<close>

definition address_error :: "'m trapf \<Rightarrow> 'm regs \<Rightarrow> 'm regs option" where
  "address_error t r = t BUS_ERROR (dcj11_set_cpuerr DCJ11_CPUERR_ADR r)"

definition core_load_byte_slow :: "'m bus \<Rightarrow> 'm trapf \<Rightarrow> bool \<Rightarrow> bool \<Rightarrow> u16 \<Rightarrow> 'm regs \<Rightarrow> (u8 \<times> 'm regs) option" where
  "core_load_byte_slow b t is_ifetch force_kernel_d offset r =
     (case va_reg_load_byte b offset r of
        Some v \<Rightarrow> Some (v, r)
      | None \<Rightarrow>
          (case translate_va_ex b offset False is_ifetch force_kernel_d r of
             (XFault fault mode space seg, r) \<Rightarrow>
               do { r \<leftarrow> t (MMU_FAULT offset (R r 7) fault mode space seg) r; Some (0, r) }
           | (XOk pa, r) \<Rightarrow> raw_load_byte_phys b t pa r))"

definition core_load_byte_ex :: "'m bus \<Rightarrow> 'm trapf \<Rightarrow> bool \<Rightarrow> bool \<Rightarrow> u16 \<Rightarrow> 'm regs \<Rightarrow> (u8 \<times> 'm regs) option" where
  "core_load_byte_ex b t is_ifetch force_kernel_d offset r =
     (case fast_load_byte b is_ifetch offset r of
        Some x \<Rightarrow> Some x
      | None \<Rightarrow> core_load_byte_slow b t is_ifetch force_kernel_d offset r)"

definition core_store_byte_slow :: "'m bus \<Rightarrow> 'm trapf \<Rightarrow> bool \<Rightarrow> u16 \<Rightarrow> u8 \<Rightarrow> 'm regs \<Rightarrow> 'm regs option" where
  "core_store_byte_slow b t force_kernel_d offset val r =
     (case va_reg_store_byte b (mmu_note_internal_reg_write b offset force_kernel_d) offset val r of
        Some r \<Rightarrow> Some r
      | None \<Rightarrow>
          (case translate_va_ex b offset True False force_kernel_d r of
             (XFault fault mode space seg, r) \<Rightarrow> t (MMU_FAULT offset (R r 7) fault mode space seg) r
           | (XOk pa, r) \<Rightarrow> raw_store_byte_phys b t pa val r))"

definition core_store_byte_ex :: "'m bus \<Rightarrow> 'm trapf \<Rightarrow> bool \<Rightarrow> u16 \<Rightarrow> u8 \<Rightarrow> 'm regs \<Rightarrow> 'm regs option" where
  "core_store_byte_ex b t force_kernel_d offset val r =
     (case fast_store_byte b offset val r of
        Some r \<Rightarrow> Some r
      | None \<Rightarrow> core_store_byte_slow b t force_kernel_d offset val r)"

definition core_load_word_slow :: "'m bus \<Rightarrow> 'm trapf \<Rightarrow> bool \<Rightarrow> bool \<Rightarrow> u16 \<Rightarrow> 'm regs \<Rightarrow> (u16 \<times> 'm regs) option" where
  "core_load_word_slow b t is_ifetch force_kernel_d offset r =
     (case va_reg_load_word b offset r of
        Some v \<Rightarrow> if model r = DCJ11 \<and> is_ifetch
                  then do { r \<leftarrow> address_error t r; Some (0, r) } else Some (v, r)
      | None \<Rightarrow>
          (case translate_va_ex b offset False is_ifetch force_kernel_d r of
             (XFault fault mode space seg, r) \<Rightarrow>
               do { r \<leftarrow> t (MMU_FAULT offset (R r 7) fault mode space seg) r; Some (0, r) }
           | (XOk pa, r) \<Rightarrow>
               if model r = DCJ11 \<and> is_ifetch \<and>
                  (case dcj11_io_alias_offset b r pa of
                     None \<Rightarrow> False | Some io_offset \<Rightarrow> dcj11_phys_internal_reg b io_offset)
               then do { r \<leftarrow> address_error t r; Some (0, r) }
               else raw_load_word_phys b t pa r))"

definition core_load_word_ex :: "'m bus \<Rightarrow> 'm trapf \<Rightarrow> bool \<Rightarrow> bool \<Rightarrow> u16 \<Rightarrow> 'm regs \<Rightarrow> (u16 \<times> 'm regs) option" where
  "core_load_word_ex b t is_ifetch force_kernel_d offset r =
     (if model r = DCJ11 \<and> offset AND 1 \<noteq> 0 then do { r \<leftarrow> address_error t r; Some (0, r) }
      else case fast_load_word b is_ifetch offset r of
             Some x \<Rightarrow> Some x
           | None \<Rightarrow> core_load_word_slow b t is_ifetch force_kernel_d offset r)"

definition core_store_word_slow :: "'m bus \<Rightarrow> 'm trapf \<Rightarrow> bool \<Rightarrow> u16 \<Rightarrow> u16 \<Rightarrow> 'm regs \<Rightarrow> 'm regs option" where
  "core_store_word_slow b t force_kernel_d offset val r =
     (case va_reg_store_word b (mmu_note_internal_reg_write b offset force_kernel_d) offset val r of
        Some r \<Rightarrow> Some r
      | None \<Rightarrow>
          (case translate_va_ex b offset True False force_kernel_d r of
             (XFault fault mode space seg, r) \<Rightarrow> t (MMU_FAULT offset (R r 7) fault mode space seg) r
           | (XOk pa, r) \<Rightarrow> raw_store_word_phys b t pa val r))"

definition core_store_word_ex :: "'m bus \<Rightarrow> 'm trapf \<Rightarrow> bool \<Rightarrow> u16 \<Rightarrow> u16 \<Rightarrow> 'm regs \<Rightarrow> 'm regs option" where
  "core_store_word_ex b t force_kernel_d offset val r =
     (if model r = DCJ11 \<and> offset AND 1 \<noteq> 0 then address_error t r
      else case fast_store_word b offset val r of
             Some r \<Rightarrow> Some r
           | None \<Rightarrow> core_store_word_slow b t force_kernel_d offset val r)"

section \<open>Accesses to a given mode and space\<close>

text \<open>The page an access to a given mode and space looks up in the translation cache.\<close>

definition mode_space_page :: "'m regs \<Rightarrow> nat \<Rightarrow> bool \<Rightarrow> u16 \<Rightarrow> nat \<times> nat \<times> nat" where
  "mode_space_page r mode data_space offset =
     (let mode = psw_mode_normalize mode
      in (mode, if data_space \<and> mmu_split_enabled r mode then 1 else 0, unat (drop_bit 13 offset)))"

definition core_load_word_mode_space ::
  "'m bus \<Rightarrow> 'm trapf \<Rightarrow> u16 \<Rightarrow> nat \<Rightarrow> bool \<Rightarrow> 'm regs \<Rightarrow> (u16 \<times> 'm regs) option" where
  "core_load_word_mode_space b t offset mode data_space r =
     (if model r = DCJ11 \<and> offset AND 1 \<noteq> 0 then do { r \<leftarrow> address_error t r; Some (0, r) }
      else case mode_space_page r mode data_space offset of (m, space, seg) \<Rightarrow>
        (case tlb_hit b (m, space, seg) offset 2 False r of
           Some p \<Rightarrow> let r = pdr_or m space seg MMU_PDR_A r in Some (host_read_word b r p, r)
         | None \<Rightarrow>
             (case va_reg_load_word b offset r of
                Some v \<Rightarrow> Some (v, r)
              | None \<Rightarrow>
                  (case translate_va_mode_space b offset False mode data_space r of
                     (XFault fault m space seg, r) \<Rightarrow>
                       do { r \<leftarrow> t (MMU_FAULT offset (R r 7) fault m space seg) r; Some (0, r) }
                   | (XOk pa, r) \<Rightarrow> raw_load_word_phys b t pa r))))"

definition core_store_word_mode_space ::
  "'m bus \<Rightarrow> 'm trapf \<Rightarrow> u16 \<Rightarrow> u16 \<Rightarrow> nat \<Rightarrow> bool \<Rightarrow> 'm regs \<Rightarrow> 'm regs option" where
  "core_store_word_mode_space b t offset val mode data_space r =
     (if model r = DCJ11 \<and> offset AND 1 \<noteq> 0 then address_error t r
      else case mode_space_page r mode data_space offset of (m, space, seg) \<Rightarrow>
        (case tlb_hit b (m, space, seg) offset 2 True r of
           Some p \<Rightarrow> Some (host_write_word b (pdr_or m space seg (MMU_PDR_A OR MMU_PDR_W) r) p val)
         | None \<Rightarrow>
             (case va_reg_store_word b (mmu_note_write_pdrw b mode data_space (va_seg offset)) offset val r of
                Some r \<Rightarrow> Some r
              | None \<Rightarrow>
                  (case translate_va_mode_space b offset True mode data_space r of
                     (XFault fault m space seg, r) \<Rightarrow> t (MMU_FAULT offset (R r 7) fault m space seg) r
                   | (XOk pa, r) \<Rightarrow> raw_store_word_phys b t pa val r))))"

definition core_load_byte :: "'m bus \<Rightarrow> 'm trapf \<Rightarrow> u16 \<Rightarrow> 'm regs \<Rightarrow> (u8 \<times> 'm regs) option" where
  "core_load_byte b t offset r = core_load_byte_ex b t False False offset r"

definition core_store_byte :: "'m bus \<Rightarrow> 'm trapf \<Rightarrow> u16 \<Rightarrow> u8 \<Rightarrow> 'm regs \<Rightarrow> 'm regs option" where
  "core_store_byte b t offset val r = core_store_byte_ex b t False offset val r"

definition core_load_word :: "'m bus \<Rightarrow> 'm trapf \<Rightarrow> u16 \<Rightarrow> 'm regs \<Rightarrow> (u16 \<times> 'm regs) option" where
  "core_load_word b t offset r = core_load_word_ex b t False False offset r"

definition core_load_word_ifetch :: "'m bus \<Rightarrow> 'm trapf \<Rightarrow> u16 \<Rightarrow> 'm regs \<Rightarrow> (u16 \<times> 'm regs) option" where
  "core_load_word_ifetch b t offset r = core_load_word_ex b t True False offset r"

definition core_load_word_vector :: "'m bus \<Rightarrow> 'm trapf \<Rightarrow> u16 \<Rightarrow> 'm regs \<Rightarrow> (u16 \<times> 'm regs) option" where
  "core_load_word_vector b t offset r =
     (let a = offset AND 0xFFFE
      in if ENABLE_MMU b \<and> model r = DCJ11 then core_load_word_mode_space b t a 0 True r
         else raw_load_word_phys b t (ucast a) r)"

definition core_store_word :: "'m bus \<Rightarrow> 'm trapf \<Rightarrow> u16 \<Rightarrow> u16 \<Rightarrow> 'm regs \<Rightarrow> 'm regs option" where
  "core_store_word b t offset val r = core_store_word_ex b t False offset val r"

end
