(* ===== verification/Traps.thy ===== *)
theory Traps
  imports Memory
begin

text \<open>
  Trap and interrupt entry (\<^verbatim>\<open>core_take_vector\<close>), the red-zone stack abort of the
  DCJ11, bus errors, MMU faults, the HALT sequences, and reset.

  Trap entry reads the vector and pushes PC and PSW through the memory routines, which
  may trap again: in C the functions are mutually recursive. Here every routine takes
  the trap routine for its own accesses as an argument \<open>t\<close>, and \<open>core_trap\<close> closes the
  recursion with fuel: \<open>core_trap b n\<close> allows \<open>n\<close> nested traps and is \<open>None\<close> when they
  do not suffice.
\<close>

section \<open>Stack accesses\<close>

definition pushw :: "'m bus \<Rightarrow> 'm trapf \<Rightarrow> u16 \<Rightarrow> 'm regs \<Rightarrow> 'm regs option" where
  "pushw b t v r =
     (let r = r\<lparr>R := (R r)(6 := R r 6 - 2)\<rparr>;
          r = dcj11_note_stack_reference (R r 6) r
      in core_store_word b t (R r 6) v r)"

definition pullw :: "'m bus \<Rightarrow> 'm trapf \<Rightarrow> 'm regs \<Rightarrow> (u16 \<times> 'm regs) option" where
  "pullw b t r =
     do { (v, r) \<leftarrow> core_load_word b t (R r 6) r;
          Some (v, r\<lparr>R := (R r)(6 := R r 6 + 2)\<rparr>) }"

section \<open>Trap entry\<close>

definition core_take_vector :: "'m bus \<Rightarrow> 'm trapf \<Rightarrow> u16 \<Rightarrow> u16 \<Rightarrow> u16 \<Rightarrow> 'm regs \<Rightarrow> 'm regs option" where
  "core_take_vector b t vec old_pc old_psw r =
     do { (fetched_psw, r) \<leftarrow> core_load_word_vector b t (vec + 2) r;
          if fAbort r then Some r else
     do { (new_pc, r) \<leftarrow> core_load_word_vector b t vec r;
          if fAbort r then Some r else
     let r = dcj11_set_psw (trap_psw r old_psw fetched_psw) r;
         r = (if model r = DCJ11
              then r\<lparr>dcj11_vector_old_pc := old_pc, dcj11_vector_old_psw := old_psw,
                     dcj11_vector_push_active := True\<rparr>
              else r)
     in
     do { r \<leftarrow> pushw b t old_psw r;
          if fAbort r then Some (r\<lparr>dcj11_vector_push_active := False\<rparr>) else
     do { r \<leftarrow> pushw b t old_pc r;
          if fAbort r then Some (r\<lparr>dcj11_vector_push_active := False\<rparr>)
          else Some (r\<lparr>dcj11_vector_push_active := False, R := (R r)(7 := new_pc)\<rparr>) }}}}"

text \<open>The yellow-zone trap at the end of an instruction; the flag says whether it was taken.\<close>

definition dcj11_service_stack_trap :: "'m bus \<Rightarrow> 'm trapf \<Rightarrow> 'm regs \<Rightarrow> (bool \<times> 'm regs) option" where
  "dcj11_service_stack_trap b t r =
     (if model r \<noteq> DCJ11 then Some (False, r)
      else if \<not> dcj11_yellow_pending r \<or> dcj11_stack_trap_active r then Some (False, r)
      else let old_psw = psw r;
               r = r\<lparr>dcj11_yellow_pending := False, dcj11_stack_trap_active := True\<rparr>
           in do { r \<leftarrow> core_take_vector b t 4 (R r 7) old_psw r;
                   Some (True, r\<lparr>dcj11_stack_trap_active := False\<rparr>) })"

definition dcj11_take_red_stack_abort :: "'m bus \<Rightarrow> 'm trapf \<Rightarrow> 'm regs \<Rightarrow> (bool \<times> 'm regs) option" where
  "dcj11_take_red_stack_abort b t r =
     (if model r \<noteq> DCJ11 \<or> \<not> dcj11_vector_push_active r then Some (False, r)
      else
        let old_psw = dcj11_vector_old_psw r;
            old_pc = dcj11_vector_old_pc r;
            r = r\<lparr>dcj11_vector_push_active := False, dcj11_yellow_pending := False\<rparr>;
            r = dcj11_set_psw old_psw r;
            r = r\<lparr>R := (R r)(7 := old_pc)\<rparr>;
            r = dcj11_set_cpuerr DCJ11_CPUERR_RED r
        in
        do { (vector_psw, r) \<leftarrow> raw_load_word_phys b t 6 r;
             if fAbort r then Some (True, r) else
        let r = dcj11_set_psw (trap_psw r old_psw vector_psw) r;
            r = dcj11_sp_mode_init r;
            r = r\<lparr>sp_mode := (sp_mode r)(0 := 4)\<rparr>;
            r = (if dcj11_psw_cur_mode (psw r) = 0 then r\<lparr>R := (R r)(6 := 4)\<rparr> else r);
            r = r\<lparr>R := (R r)(6 := R r 6 - 2)\<rparr>
        in
        do { r \<leftarrow> raw_store_word_phys b t (ucast (R r 6)) old_psw r;
             if fAbort r then Some (True, r) else
        let r = r\<lparr>R := (R r)(6 := R r 6 - 2)\<rparr>
        in
        do { r \<leftarrow> raw_store_word_phys b t (ucast (R r 6)) old_pc r;
             if fAbort r then Some (True, r) else
        do { (new_pc, r) \<leftarrow> raw_load_word_phys b t 4 r;
             let r = (if \<not> fAbort r then r\<lparr>R := (R r)(7 := new_pc)\<rparr> else r)
             in Some (True, r\<lparr>fAbort := True\<rparr>) }}}})"

definition dcj11_reset_instruction_state :: "'m bus \<Rightarrow> 'm regs \<Rightarrow> 'm regs" where
  "dcj11_reset_instruction_state b r =
     (if model r \<noteq> DCJ11 then r
      else let r = r\<lparr>J11_PIRQ := 0\<rparr>
           in if ENABLE_MMU b then mmu_tlb_flush_all (r\<lparr>mmu_ssr0 := 0, mmu_ssr3 := 0\<rparr>) else r)"

definition illegal_trap :: "'m bus \<Rightarrow> 'm trapf \<Rightarrow> 'm regs \<Rightarrow> 'm regs option" where
  "illegal_trap b t r = core_take_vector b t 8 (R r 7) (psw r) r"

definition trap_vector4 :: "'m bus \<Rightarrow> 'm trapf \<Rightarrow> 'm regs \<Rightarrow> 'm regs option" where
  "trap_vector4 b t r = core_take_vector b t 4 (R r 7) (psw r) r"

definition bus_error_trap :: "'m bus \<Rightarrow> 'm trapf \<Rightarrow> 'm regs \<Rightarrow> 'm regs option" where
  "bus_error_trap b t r =
     (let old_psw = psw r; fault_pc = R r 7
      in do { (taken, r) \<leftarrow> dcj11_take_red_stack_abort b t r;
              if taken then Some r
              else let vec = (if model r = K1801VM1 \<and> psw r AND 0xC00 \<noteq> 0 then 0xE002 else 4)
                   in do { r \<leftarrow> core_take_vector b t vec fault_pc old_psw r;
                           Some (r\<lparr>fAbort := True\<rparr>) } })"

definition mmu_fault_trap ::
  "'m bus \<Rightarrow> 'm trapf \<Rightarrow> u16 \<Rightarrow> u16 \<Rightarrow> mmu_fault \<Rightarrow> nat \<Rightarrow> nat \<Rightarrow> nat \<Rightarrow> 'm regs \<Rightarrow> 'm regs option" where
  "mmu_fault_trap b t va pc fault mode space seg r =
     (let old_psw = psw r
      in do { (taken, r) \<leftarrow> dcj11_take_red_stack_abort b t r;
              if taken then Some r
              else let r = mmu_record_fault b fault mode space seg r
                   in do { r \<leftarrow> core_take_vector b t MMU_TRAP_VECTOR pc old_psw r;
                           Some (r\<lparr>fAbort := True\<rparr>) } })"

text \<open>The mutual recursion of the C functions, closed with fuel.\<close>

primrec core_trap :: "'m bus \<Rightarrow> nat \<Rightarrow> trap_req \<Rightarrow> 'm regs \<Rightarrow> 'm regs option" where
  "core_trap b 0 = (\<lambda>q r. None)"
| "core_trap b (Suc n) =
     (\<lambda>q r. case q of
        BUS_ERROR \<Rightarrow> bus_error_trap b (core_trap b n) r
      | MMU_FAULT va pc fault mode space seg \<Rightarrow>
          mmu_fault_trap b (core_trap b n) va pc fault mode space seg r)"

section \<open>HALT\<close>

text \<open>
  The last branch of the C function is for a model number outside the enumeration and
  cannot be reached. Assignments keep the order of the code: a value loaded from a
  vector goes to PC or PSW even when its access has trapped.
\<close>

definition handle_halt_vm1 :: "'m bus \<Rightarrow> 'm trapf \<Rightarrow> 'm regs \<Rightarrow> 'm regs option" where
  "handle_halt_vm1 b t r =
     do { (v, r) \<leftarrow> core_load_word b t 0xFFCE r;
          r \<leftarrow> core_store_word b t 0xFFCE (v OR 8) r;
          if fAbort r then Some r else
     do { r \<leftarrow> core_store_word b t 0xFFBE (psw r) r;
          if fAbort r then Some r else
     do { r \<leftarrow> core_store_word b t 0xFFBC (R r 7) r;
          if fAbort r then Some r else
     do { (pc, r) \<leftarrow> core_load_word_vector b t 0xE002 r;
          let r = r\<lparr>R := (R r)(7 := pc)\<rparr> in
          if fAbort r then Some r else
     do { (p, r) \<leftarrow> core_load_word_vector b t (0xE002 + 2) r;
          Some (r\<lparr>psw := p\<rparr>) }}}}}"

definition handle_halt_vm2 :: "'m bus \<Rightarrow> 'm trapf \<Rightarrow> 'm regs \<Rightarrow> 'm regs option" where
  "handle_halt_vm2 b t r =
     (let r = r\<lparr>cps := psw r, cpc := R r 7\<rparr>;
          vec = (SEL0 r AND 0xFF00) OR 0x78
      in do { (pc, r) \<leftarrow> core_load_word_vector b t vec r;
              let r = r\<lparr>R := (R r)(7 := pc AND 0xFFFE)\<rparr> in
              do { (p, r) \<leftarrow> core_load_word_vector b t (vec + 2) r;
                   Some (r\<lparr>psw := p\<rparr>) } })"

definition handle_halt_dcj11 :: "'m bus \<Rightarrow> 'm trapf \<Rightarrow> 'm regs \<Rightarrow> 'm regs option" where
  "handle_halt_dcj11 b t r =
     do { r \<leftarrow> pushw b t (psw r) r;
          r \<leftarrow> pushw b t (R r 7) r;
          (pc, r) \<leftarrow> core_load_word_vector b t 4 r;
          let r = r\<lparr>R := (R r)(7 := pc AND 0xFFFE)\<rparr> in
          Some (dcj11_set_psw 0xE0 r) }"

definition handle_halt :: "'m bus \<Rightarrow> 'm trapf \<Rightarrow> 'm regs \<Rightarrow> 'm regs option" where
  "handle_halt b t r =
     (if model r = K1801VM1 then handle_halt_vm1 b t r
      else if is_vm2 r then handle_halt_vm2 b t r
      else handle_halt_dcj11 b t r)"

text \<open>The FIS opcodes of a machine without FIS: a VM2 vectors through its console ROM.\<close>

definition handle_fis :: "'m bus \<Rightarrow> 'm trapf \<Rightarrow> 'm regs \<Rightarrow> 'm regs option" where
  "handle_fis b t r =
     (if \<not> is_vm2 r \<or> SEL0 r AND 0x80 \<noteq> 0 then illegal_trap b t r
      else
        let r = r\<lparr>cps := psw r, cpc := R r 7\<rparr>;
            vec = (SEL0 r AND 0xFF00) OR 8
        in do { (pc, r) \<leftarrow> core_load_word_vector b t vec r;
                let r = r\<lparr>R := (R r)(7 := pc AND 0xFFFE)\<rparr> in
                do { (p, r) \<leftarrow> core_load_word_vector b t (vec + 2) r;
                     Some (r\<lparr>psw := p\<rparr>) } })"

definition handle_fis_error :: "'m bus \<Rightarrow> 'm trapf \<Rightarrow> u16 \<Rightarrow> 'm regs \<Rightarrow> 'm regs option" where
  "handle_fis_error b t err r =
     do { r \<leftarrow> pushw b t err r;
          r \<leftarrow> pushw b t (R r 7) r;
          (pc, r) \<leftarrow> core_load_word_vector b t 0xA4 r;
          let r = r\<lparr>R := (R r)(7 := pc)\<rparr> in
          do { (p, r) \<leftarrow> core_load_word_vector b t 0xA6 r;
               Some (r\<lparr>psw := p\<rparr>) } }"

section \<open>Initialisation and reset\<close>

definition core_init :: "'m bus \<Rightarrow> 'm regs \<Rightarrow> int \<times> 'm regs" where
  "core_init b r =
     (let r = (if model r = K1806VM2 then r\<lparr>model := K1801VM2\<rparr> else r);
          r = (if model r = DCJ11 then r\<lparr>has_fis := False, has_fpu := True\<rparr>
               else r\<lparr>has_fis := False, has_fpu := False\<rparr>);
          r = r\<lparr>ram_fast := None\<rparr>
      in case cb_init b of None \<Rightarrow> (-1, r) | Some init \<Rightarrow> init r)"

definition core_reset_fields :: "'m bus \<Rightarrow> 'm regs \<Rightarrow> 'm regs" where
  "core_reset_fields b r =
     (let r = r\<lparr>sp_mode := (\<lambda>mode. if mode < 4 then 0 else sp_mode r mode),
                sp_mode_init := False,
                rset_bank := (\<lambda>bank reg. if bank < 2 \<and> reg < 6 then 0 else rset_bank r bank reg),
                rset_bank_init := False,
                dcj11_yellow_pending := False, dcj11_stack_trap_active := False,
                dcj11_explicit_psw_write := False, dcj11_vector_push_active := False,
                dcj11_vector_old_pc := 0, dcj11_vector_old_psw := 0, ir := 0\<rparr>;
          r = r\<lparr>J11_MEMERR := 0, J11_CCR := 0, J11_MAINT := 0, J11_HITMISS := 0,
                J11_CPUERR := 0, J11_PIRQ := 0, J11_STKLIM := DCJ11_STACK_YEL_LIMIT,
                fWait := False, fTrap := False, fAbort := False, fHaltSignal := False,
                fStepDeferHalt := False\<rparr>;
          r = r\<lparr>fp11_reg_delta_mask := 0,
                fp11_reg_delta := (\<lambda>i. if i < 8 then 0 else fp11_reg_delta r i),
                fp11_trap_pending := False, fp11_trap_old_pc := 0, fp11_trap_old_psw := 0,
                fp11_backup_pc := 0\<rparr>
      in if ENABLE_MMU b then
           mmu_tlb_flush_all
             (r\<lparr>mmu_ssr0 := 0, mmu_ssr1 := 0, mmu_ssr2 := 0, mmu_ssr3 := 0,
                mmu_par := (\<lambda>m s g. if m < 4 \<and> s < 2 \<and> g < 8 then 0 else mmu_par r m s g),
                mmu_pdr := (\<lambda>m s g. if m < 4 \<and> s < 2 \<and> g < 8 then 0 else mmu_pdr r m s g)\<rparr>)
         else r)"

definition cache_ram_pointer :: "'m bus \<Rightarrow> 'm regs \<Rightarrow> 'm regs" where
  "cache_ram_pointer b r =
     (let r = r\<lparr>ram_fast := None\<rparr>
      in case cb_ramptr b of
           None \<Rightarrow> r\<lparr>ram_fast_size := 0\<rparr>
         | Some ramptr \<Rightarrow>
             (let r = r\<lparr>ram_fast := ramptr r 0\<rparr>
              in if ram_fast r = None then r\<lparr>ram_fast_size := 0\<rparr> else r))"

text \<open>The reset callback is called without a test: with a NULL pointer there is no result.\<close>

definition core_reset :: "'m bus \<Rightarrow> 'm trapf \<Rightarrow> 'm regs \<Rightarrow> 'm regs option" where
  "core_reset b t r =
     do { cb \<leftarrow> cb_reset b;
          r \<leftarrow> (let r = cb (core_reset_fields b r)
                in if model r = K1801VM1 then
                     (let r = r\<lparr>TVE_CSR := 0xFF00, TVE_LIMIT := 0, TVE_COUNT := 0,
                                TVE_PENDING := False, VM1_RAP_PRESENT := True\<rparr>
                      in do { (v, r) \<leftarrow> core_load_word b t 0xFFCE r;
                              Some (r\<lparr>R := (R r)(7 := v AND 0xFF00)\<rparr>) })
                   else if is_vm2 r then Some (r\<lparr>R := (R r)(7 := SEL0 r AND 0xFF00)\<rparr>)
                   else Some (r\<lparr>R := (R r)(7 := 0)\<rparr>));
          Some (cache_ram_pointer b (r\<lparr>psw := 0xE0\<rparr>)) }"

definition core_fini :: "'m bus \<Rightarrow> 'm regs \<Rightarrow> 'm regs" where
  "core_fini b r =
     (let r = (case cb_fini b of None \<Rightarrow> r | Some fini \<Rightarrow> fini r)
      in r\<lparr>ram_fast := None, ram_fast_size := 0\<rparr>)"

end
