(* ===== verification/Operand.thy ===== *)
theory Operand
  imports Traps
begin

text \<open>
  Operands of instructions: the addressing modes (\<^verbatim>\<open>decode_data\<close>), the accesses to an
  operand (\<^verbatim>\<open>get_data_*\<close>, \<^verbatim>\<open>put_data_*\<close>), the macros of \<^verbatim>\<open>core_step\<close> around them, and
  the ways control leaves the code of an instruction.
\<close>

datatype optype = TYPE_REG | TYPE_MEM | TYPE_ERROR | TYPE_IFETCH
datatype opsize = TYPE_WORD | TYPE_BYTE

section \<open>Accesses to an operand\<close>

definition get_data_byte :: "'m bus \<Rightarrow> 'm trapf \<Rightarrow> optype \<Rightarrow> u16 \<Rightarrow> 'm regs \<Rightarrow> (u8 \<times> 'm regs) option" where
  "get_data_byte b t ty offset r =
     (if ty = TYPE_REG then Some (ucast (R r (unat offset) AND 0xFF), r)
      else if ty = TYPE_IFETCH then core_load_byte_ex b t True False offset r
      else core_load_byte b t offset r)"

definition put_data_byte :: "'m bus \<Rightarrow> 'm trapf \<Rightarrow> optype \<Rightarrow> u16 \<Rightarrow> u8 \<Rightarrow> 'm regs \<Rightarrow> 'm regs option" where
  "put_data_byte b t ty offset val r =
     (if ty = TYPE_REG
      then Some (r\<lparr>R := (R r)(unat offset := (R r (unat offset) AND 0xFF00) OR ucast val)\<rparr>)
      else core_store_byte b t offset val r)"

definition put_data_byte_movb :: "'m bus \<Rightarrow> 'm trapf \<Rightarrow> optype \<Rightarrow> u16 \<Rightarrow> u8 \<Rightarrow> 'm regs \<Rightarrow> 'm regs option" where
  "put_data_byte_movb b t ty offset val r =
     (if ty = TYPE_REG
      then Some (r\<lparr>R := (R r)(unat offset :=
                   if ucast val AND SIGN_B \<noteq> 0 then 0xFF00 OR ucast val else ucast val AND 0xFF)\<rparr>)
      else core_store_byte b t offset val r)"

definition get_data_word :: "'m bus \<Rightarrow> 'm trapf \<Rightarrow> optype \<Rightarrow> u16 \<Rightarrow> 'm regs \<Rightarrow> (u16 \<times> 'm regs) option" where
  "get_data_word b t ty offset r =
     (if ty = TYPE_REG then Some (R r (unat offset), r)
      else if ty = TYPE_IFETCH then core_load_word_ifetch b t offset r
      else core_load_word b t offset r)"

definition put_data_word :: "'m bus \<Rightarrow> 'm trapf \<Rightarrow> optype \<Rightarrow> u16 \<Rightarrow> u16 \<Rightarrow> 'm regs \<Rightarrow> 'm regs option" where
  "put_data_word b t ty offset val r =
     (if ty = TYPE_REG then Some (r\<lparr>R := (R r)(unat offset := val)\<rparr>)
      else core_store_word b t offset val r)"

section \<open>Addressing modes\<close>

text \<open>
  The step is 1 for byte operands through R0..R5 in modes 0, 1, 2 and 4, else 2. An
  error result has no address; the C code leaves the address variable unused then.
\<close>

definition operand_step :: "nat \<Rightarrow> nat \<Rightarrow> opsize \<Rightarrow> u16" where
  "operand_step mode reg data_type =
     (if data_type = TYPE_BYTE \<and> reg \<noteq> 6 \<and> reg \<noteq> 7 \<and> mode \<noteq> 3 \<and> mode \<noteq> 5 \<and> mode \<noteq> 6 \<and> mode \<noteq> 7
      then 1 else 2)"

definition mem_or_error :: "(u16 \<times> 'm regs) option \<Rightarrow> (optype \<times> u16 \<times> 'm regs) option" where
  "mem_or_error m =
     do { (v, r) \<leftarrow> m; Some (if fAbort r then (TYPE_ERROR, 0, r) else (TYPE_MEM, v, r)) }"

text \<open>The register change of modes 2 and 3, and of modes 4 and 5.\<close>

definition post_increment :: "'m bus \<Rightarrow> nat \<Rightarrow> u16 \<Rightarrow> 'm regs \<Rightarrow> 'm regs" where
  "post_increment b reg step r =
     mmu_mmr1_record_delta b reg step (r\<lparr>R := (R r)(reg := R r reg + step)\<rparr>)"

definition pre_decrement :: "'m bus \<Rightarrow> nat \<Rightarrow> u16 \<Rightarrow> 'm regs \<Rightarrow> 'm regs" where
  "pre_decrement b reg step r =
     (let r = mmu_mmr1_record_delta b reg (- step) (r\<lparr>R := (R r)(reg := R r reg - step)\<rparr>)
      in if reg = 6 then dcj11_note_stack_reference (R r reg) r else r)"

text \<open>The index word of modes 6 and 7; \<open>None\<close> in the result is the abort of its fetch.\<close>

definition fetch_index :: "'m bus \<Rightarrow> 'm trapf \<Rightarrow> 'm regs \<Rightarrow> (u16 option \<times> 'm regs) option" where
  "fetch_index b t r =
     do { (tmp, r) \<leftarrow> core_load_word_ifetch b t (R r 7) r;
          if fAbort r then Some (None, r)
          else Some (Some tmp, mmu_mmr1_record_delta b 7 2 (r\<lparr>R := (R r)(7 := R r 7 + 2)\<rparr>)) }"

definition decode_data :: "'m bus \<Rightarrow> 'm trapf \<Rightarrow> u16 \<Rightarrow> opsize \<Rightarrow> 'm regs \<Rightarrow> (optype \<times> u16 \<times> 'm regs) option" where
  "decode_data b t data data_type r =
     (let reg = unat (data AND 7);
          mode = unat (drop_bit 3 (data AND 0x38));
          step = operand_step mode reg data_type
      in if fAbort r then Some (TYPE_ERROR, 0, r)
         else if mode = 0 then Some (TYPE_REG, of_nat reg, r)
         else if mode = 1 then Some (TYPE_MEM, R r reg, r)
         else if mode = 2 then
           Some (if reg = 7 then TYPE_IFETCH else TYPE_MEM, R r reg, post_increment b reg step r)
         else if mode = 3 then
           (let offset = R r reg; r = post_increment b reg step r
            in mem_or_error (if reg = 7 then core_load_word_ifetch b t offset r
                             else core_load_word b t offset r))
         else if mode = 4 then
           (let r = pre_decrement b reg step r in Some (TYPE_MEM, R r reg, r))
         else if mode = 5 then
           (let r = pre_decrement b reg step r in mem_or_error (core_load_word b t (R r reg) r))
         else if mode = 6 then
           do { (ix, r) \<leftarrow> fetch_index b t r;
                case ix of None \<Rightarrow> Some (TYPE_ERROR, 0, r)
                         | Some tmp \<Rightarrow> Some (TYPE_MEM, R r reg + tmp, r) }
         else
           do { (ix, r) \<leftarrow> fetch_index b t r;
                case ix of None \<Rightarrow> Some (TYPE_ERROR, 0, r)
                         | Some tmp \<Rightarrow> mem_or_error (core_load_word b t (R r reg + tmp) r) })"

section \<open>Flow of control in core\_step\<close>

text \<open>
  The code of an instruction ends with \<^verbatim>\<open>goto step_end\<close>, with \<^verbatim>\<open>return 0\<close>, or (no case
  of a switch applies) goes on to the next switch. At \<open>step_end\<close> some instructions have
  changed the local variables that control tracing and interrupts: they are recorded
  in \<open>step_ctl\<close>.
\<close>

record step_ctl =
  ctl_skip_trace :: bool
  ctl_skip_irq :: bool
  ctl_trace_override :: "bool option"

definition no_ctl :: step_ctl where
  "no_ctl = \<lparr>ctl_skip_trace = False, ctl_skip_irq = False, ctl_trace_override = None\<rparr>"

datatype 'm flow = Next | Return "'m regs" | StepEnd step_ctl "'m regs"

definition step_end :: "'m regs \<Rightarrow> 'm flow option" where
  "step_end r = Some (StepEnd no_ctl r)"

lemma step_end_eq [simp]: "(step_end a = step_end b) = (a = b)"
  by (simp add: step_end_def)

text \<open>\<^verbatim>\<open>trap(r); goto step_end;\<close>\<close>

definition trap_end :: "'m regs option \<Rightarrow> 'm flow option" where
  "trap_end m = do { r \<leftarrow> m; step_end r }"

text \<open>\<^verbatim>\<open>if (r->fAbort) return 0;\<close> and \<^verbatim>\<open>if (r->fAbort) goto step_end;\<close>\<close>

definition unless_abort :: "'m regs \<Rightarrow> 'm flow option \<Rightarrow> 'm flow option" where
  "unless_abort r k = (if fAbort r then Some (Return r) else k)"

definition unless_abort_end :: "'m regs \<Rightarrow> 'm flow option \<Rightarrow> 'm flow option" where
  "unless_abort_end r k = (if fAbort r then step_end r else k)"

text \<open>The next switch, when no case of the one before applied.\<close>

definition or_next :: "'m flow option \<Rightarrow> 'm flow option \<Rightarrow> 'm flow option" where
  "or_next m k = do { f \<leftarrow> m; case f of Next \<Rightarrow> k | _ \<Rightarrow> Some f }"

section \<open>Operand macros\<close>

definition DECODE_DST :: "'m bus \<Rightarrow> 'm trapf \<Rightarrow> u16 \<Rightarrow> 'm regs \<Rightarrow>
    (optype \<Rightarrow> u16 \<Rightarrow> 'm regs \<Rightarrow> 'm flow option) \<Rightarrow> 'm flow option" where
  "DECODE_DST b t op r k =
     do { (ty, offset, r) \<leftarrow> decode_data b t (op AND 0x3F) TYPE_WORD r;
          if ty = TYPE_ERROR then Some (Return r) else k ty offset r }"

definition DECODE_DSTB :: "'m bus \<Rightarrow> 'm trapf \<Rightarrow> u16 \<Rightarrow> 'm regs \<Rightarrow>
    (optype \<Rightarrow> u16 \<Rightarrow> 'm regs \<Rightarrow> 'm flow option) \<Rightarrow> 'm flow option" where
  "DECODE_DSTB b t op r k =
     do { (ty, offset, r) \<leftarrow> decode_data b t (op AND 0x3F) TYPE_BYTE r;
          if ty = TYPE_ERROR then Some (Return r) else k ty offset r }"

definition DECODE_SRC :: "'m bus \<Rightarrow> 'm trapf \<Rightarrow> u16 \<Rightarrow> 'm regs \<Rightarrow>
    (optype \<Rightarrow> u16 \<Rightarrow> 'm regs \<Rightarrow> 'm flow option) \<Rightarrow> 'm flow option" where
  "DECODE_SRC b t op r k =
     do { (ty, offset, r) \<leftarrow> decode_data b t (drop_bit 6 op AND 0x3F) TYPE_WORD r;
          if ty = TYPE_ERROR then Some (Return r) else k ty offset r }"

definition DECODE_SRCB :: "'m bus \<Rightarrow> 'm trapf \<Rightarrow> u16 \<Rightarrow> 'm regs \<Rightarrow>
    (optype \<Rightarrow> u16 \<Rightarrow> 'm regs \<Rightarrow> 'm flow option) \<Rightarrow> 'm flow option" where
  "DECODE_SRCB b t op r k =
     do { (ty, offset, r) \<leftarrow> decode_data b t (drop_bit 6 op AND 0x3F) TYPE_BYTE r;
          if ty = TYPE_ERROR then Some (Return r) else k ty offset r }"

definition GET_WORD :: "'m bus \<Rightarrow> 'm trapf \<Rightarrow> optype \<Rightarrow> u16 \<Rightarrow> 'm regs \<Rightarrow>
    (u16 \<Rightarrow> 'm regs \<Rightarrow> 'm flow option) \<Rightarrow> 'm flow option" where
  "GET_WORD b t ty offset r k =
     do { (a, r) \<leftarrow> get_data_word b t ty offset r; unless_abort r (k a r) }"

definition GET_BYTE :: "'m bus \<Rightarrow> 'm trapf \<Rightarrow> optype \<Rightarrow> u16 \<Rightarrow> 'm regs \<Rightarrow>
    (u16 \<Rightarrow> 'm regs \<Rightarrow> 'm flow option) \<Rightarrow> 'm flow option" where
  "GET_BYTE b t ty offset r k =
     do { (a, r) \<leftarrow> get_data_byte b t ty offset r; unless_abort r (k (ucast a) r) }"

definition PUT_WORD :: "'m bus \<Rightarrow> 'm trapf \<Rightarrow> optype \<Rightarrow> u16 \<Rightarrow> u16 \<Rightarrow> 'm regs \<Rightarrow>
    ('m regs \<Rightarrow> 'm flow option) \<Rightarrow> 'm flow option" where
  "PUT_WORD b t ty offset a r k =
     do { r \<leftarrow> put_data_word b t ty offset a r; unless_abort r (k r) }"

definition PUT_BYTE :: "'m bus \<Rightarrow> 'm trapf \<Rightarrow> optype \<Rightarrow> u16 \<Rightarrow> u16 \<Rightarrow> 'm regs \<Rightarrow>
    ('m regs \<Rightarrow> 'm flow option) \<Rightarrow> 'm flow option" where
  "PUT_BYTE b t ty offset a r k =
     do { r \<leftarrow> put_data_byte b t ty offset (ucast a) r; unless_abort r (k r) }"

definition PUT_BYTE_MOVB :: "'m bus \<Rightarrow> 'm trapf \<Rightarrow> optype \<Rightarrow> u16 \<Rightarrow> u16 \<Rightarrow> 'm regs \<Rightarrow>
    ('m regs \<Rightarrow> 'm flow option) \<Rightarrow> 'm flow option" where
  "PUT_BYTE_MOVB b t ty offset a r k =
     do { r \<leftarrow> put_data_byte_movb b t ty offset (ucast a) r; unless_abort r (k r) }"

text \<open>
  The operand fetch that every double-operand instruction repeats: a DCJ11 with a
  register source reads the destination first, everything else the source first. The
  continuation gets the destination and both values (\<open>tmp\<close> source, \<open>tmp1\<close> destination).
\<close>

definition dst_first :: "u16 \<Rightarrow> 'm regs \<Rightarrow> bool" where
  "dst_first op r = (model r = DCJ11 \<and> drop_bit 6 op AND 0x38 = 0 \<and> op AND 0x38 \<noteq> 0)"

definition src_reg_no :: "u16 \<Rightarrow> nat" where
  "src_reg_no op = unat (drop_bit 6 op AND 7)"

definition OPERANDS_WORD :: "'m bus \<Rightarrow> 'm trapf \<Rightarrow> u16 \<Rightarrow> 'm regs \<Rightarrow>
    (optype \<Rightarrow> u16 \<Rightarrow> u16 \<Rightarrow> u16 \<Rightarrow> 'm regs \<Rightarrow> 'm flow option) \<Rightarrow> 'm flow option" where
  "OPERANDS_WORD b t op r k =
     (if dst_first op r then
        DECODE_DST b t op r (\<lambda>dst_type dst_offset r.
        GET_WORD b t dst_type dst_offset r (\<lambda>tmp1 r.
        k dst_type dst_offset (R r (src_reg_no op)) tmp1 r))
      else
        DECODE_SRC b t op r (\<lambda>src_type src_offset r.
        GET_WORD b t src_type src_offset r (\<lambda>tmp r.
        DECODE_DST b t op r (\<lambda>dst_type dst_offset r.
        GET_WORD b t dst_type dst_offset r (\<lambda>tmp1 r.
        k dst_type dst_offset tmp tmp1 r)))))"

definition OPERANDS_BYTE :: "'m bus \<Rightarrow> 'm trapf \<Rightarrow> u16 \<Rightarrow> 'm regs \<Rightarrow>
    (optype \<Rightarrow> u16 \<Rightarrow> u16 \<Rightarrow> u16 \<Rightarrow> 'm regs \<Rightarrow> 'm flow option) \<Rightarrow> 'm flow option" where
  "OPERANDS_BYTE b t op r k =
     (if dst_first op r then
        DECODE_DSTB b t op r (\<lambda>dst_type dst_offset r.
        GET_BYTE b t dst_type dst_offset r (\<lambda>tmp1 r.
        k dst_type dst_offset (R r (src_reg_no op) AND 0xFF) tmp1 r))
      else
        DECODE_SRCB b t op r (\<lambda>src_type src_offset r.
        GET_BYTE b t src_type src_offset r (\<lambda>tmp r.
        DECODE_DSTB b t op r (\<lambda>dst_type dst_offset r.
        GET_BYTE b t dst_type dst_offset r (\<lambda>tmp1 r.
        k dst_type dst_offset tmp tmp1 r)))))"

end
