(* ===== verification/ExecControl.thy ===== *)
theory ExecControl
  imports Operand
begin

text \<open>
  The instructions of \<^verbatim>\<open>core_step\<close> without a general operand: condition codes, HALT,
  WAIT, RTI, BPT, IOT, RESET, RTT, MFPT, SPL, the VM2 console instructions, branches,
  EMT/TRAP, RTS, MARK and SOB. One definition per case of the C switches; \<open>psw_before\<close>
  is the PSW at the start of the step.
\<close>

section \<open>Instructions without operands\<close>

definition exec_cc :: "u16 \<Rightarrow> 'm regs \<Rightarrow> 'm flow option" where
  "exec_cc op r =
     step_end (if op AND 0x10 \<noteq> 0 then set_flag (op AND 0xF) r else clear_flag (op AND 0xF) r)"

definition exec_HALT :: "'m bus \<Rightarrow> 'm trapf \<Rightarrow> u16 \<Rightarrow> 'm regs \<Rightarrow> 'm flow option" where
  "exec_HALT b t psw_before r =
     (if model r = DCJ11 \<and> \<not> dcj11_kernel_psw psw_before then
        (let r = dcj11_set_cpuerr DCJ11_CPUERR_HALT r
         in trap_end (core_take_vector b t 4 (R r 7) (psw r) r))
      else trap_end (handle_halt b t r))"

text \<open>WAIT suppresses the trace trap on every model of the enumeration.\<close>

definition exec_WAIT :: "'m regs \<Rightarrow> 'm flow option" where
  "exec_WAIT r = Some (StepEnd (no_ctl\<lparr>ctl_skip_trace := True\<rparr>) (r\<lparr>fWait := True\<rparr>))"

text \<open>The popped PSW of RTI and RTT: a VM2 below 0160000 keeps H, a DCJ11 outside kernel
  mode cannot gain rights.\<close>

definition return_psw :: "u16 \<Rightarrow> u16 \<Rightarrow> 'm regs \<Rightarrow> u16" where
  "return_psw psw_before popped_psw r =
     (let p = (if is_vm2 r \<and> R r 7 < 0xE000
               then (popped_psw AND NOT FLAG_H) OR (psw_before AND FLAG_H) else popped_psw)
      in if model r = DCJ11 \<and> \<not> dcj11_kernel_psw psw_before
         then dcj11_rti_rtt_protect_psw psw_before p else p)"

definition exec_RTI :: "'m bus \<Rightarrow> 'm trapf \<Rightarrow> u16 \<Rightarrow> 'm regs \<Rightarrow> 'm flow option" where
  "exec_RTI b t psw_before r =
     do { (popped_pc, r) \<leftarrow> pullw b t r;
          (popped_psw, r) \<leftarrow> pullw b t r;
          let r = r\<lparr>R := (R r)(7 := popped_pc)\<rparr>;
              r = dcj11_set_psw (return_psw psw_before popped_psw r) r
          in Some (StepEnd (if model r = DCJ11
                            then no_ctl\<lparr>ctl_trace_override := Some (psw r AND FLAG_T \<noteq> 0)\<rparr>
                            else no_ctl) r) }"

definition exec_BPT :: "'m bus \<Rightarrow> 'm trapf \<Rightarrow> 'm regs \<Rightarrow> 'm flow option" where
  "exec_BPT b t r = trap_end (core_take_vector b t 0xC (R r 7) (psw r) r)"

definition exec_IOT :: "'m bus \<Rightarrow> 'm trapf \<Rightarrow> 'm regs \<Rightarrow> 'm flow option" where
  "exec_IOT b t r = trap_end (core_take_vector b t 0x10 (R r 7) (psw r) r)"

definition exec_RESET :: "'m bus \<Rightarrow> u16 \<Rightarrow> 'm regs \<Rightarrow> 'm flow option" where
  "exec_RESET b psw_before r =
     (if model r = DCJ11 \<and> \<not> dcj11_kernel_psw psw_before then step_end r
      else
        let r = (if model r = DCJ11 then dcj11_reset_instruction_state b r else r);
            r = r\<lparr>fWait := False, fHaltSignal := False\<rparr>
        in step_end (case cb_reset b of None \<Rightarrow> r | Some cb \<Rightarrow> cb r))"

definition exec_RTT :: "'m bus \<Rightarrow> 'm trapf \<Rightarrow> u16 \<Rightarrow> 'm regs \<Rightarrow> 'm flow option" where
  "exec_RTT b t psw_before r =
     do { (popped_pc, r) \<leftarrow> pullw b t r;
          (popped_psw, r) \<leftarrow> pullw b t r;
          let r = r\<lparr>R := (R r)(7 := popped_pc)\<rparr>;
              r = dcj11_set_psw (return_psw psw_before popped_psw r) r
          in if model r = DCJ11
             then Some (StepEnd (no_ctl\<lparr>ctl_skip_trace := True, ctl_trace_override := Some False\<rparr>) r)
             else Some (StepEnd (no_ctl\<lparr>ctl_skip_trace := True\<rparr>) (r\<lparr>fTrap := True\<rparr>)) }"

definition exec_MFPT :: "'m bus \<Rightarrow> 'm trapf \<Rightarrow> 'm regs \<Rightarrow> 'm flow option" where
  "exec_MFPT b t r =
     (if model r \<noteq> DCJ11 then trap_end (illegal_trap b t r)
      else step_end (r\<lparr>R := (R r)(0 := 5)\<rparr>))"

definition exec_no_operand :: "'m bus \<Rightarrow> 'm trapf \<Rightarrow> u16 \<Rightarrow> u16 \<Rightarrow> 'm regs \<Rightarrow> 'm flow option" where
  "exec_no_operand b t op psw_before r =
     (if op = 0 then exec_HALT b t psw_before r
      else if op = 1 then exec_WAIT r
      else if op = 2 then exec_RTI b t psw_before r
      else if op = 3 then exec_BPT b t r
      else if op = 4 then exec_IOT b t r
      else if op = 5 then exec_RESET b psw_before r
      else if op = 6 then exec_RTT b t psw_before r
      else if op = 7 then exec_MFPT b t r
      else Some Next)"

definition exec_SPL :: "'m bus \<Rightarrow> 'm trapf \<Rightarrow> u16 \<Rightarrow> u16 \<Rightarrow> 'm regs \<Rightarrow> 'm flow option" where
  "exec_SPL b t op psw_before r =
     (if model r \<noteq> DCJ11 then trap_end (illegal_trap b t r)
      else if dcj11_kernel_psw psw_before
      then step_end (r\<lparr>psw := (psw r AND NOT 0xE0) OR push_bit 5 (op AND 7)\<rparr>)
      else step_end r)"

section \<open>Console instructions of the VM2\<close>

definition halt_mode_priv :: "'m regs \<Rightarrow> bool" where
  "halt_mode_priv r = (flag_is_set FLAG_H r \<and> flag_is_set FLAG_P r)"

text \<open>One poll of the interrupts, and trap entry when one is accepted.\<close>

definition poll_and_take :: "'m bus \<Rightarrow> 'm trapf \<Rightarrow> 'm regs \<Rightarrow> 'm regs option" where
  "poll_and_take b t r =
     (case core_poll_irq_any b r of
        (None, r) \<Rightarrow> Some r
      | (Some irq_vector, r) \<Rightarrow>
          (case irq_accept r irq_vector of
             None \<Rightarrow> Some r
           | Some vec \<Rightarrow> core_take_vector b t vec (R r 7) (psw r) r))"

definition exec_START :: "'m bus \<Rightarrow> 'm trapf \<Rightarrow> 'm regs \<Rightarrow> 'm flow option" where
  "exec_START b t r =
     (if \<not> halt_mode_priv r then trap_end (illegal_trap b t r)
      else trap_end (poll_and_take b t (r\<lparr>R := (R r)(7 := cpc r), psw := cps r\<rparr>)))"

definition exec_STEP :: "'m bus \<Rightarrow> 'm trapf \<Rightarrow> 'm regs \<Rightarrow> 'm flow option" where
  "exec_STEP b t r =
     (if \<not> halt_mode_priv r then trap_end (illegal_trap b t r)
      else Some (StepEnd (no_ctl\<lparr>ctl_skip_irq := True\<rparr>)
                   (r\<lparr>R := (R r)(7 := cpc r), psw := cps r, fStepDeferHalt := True\<rparr>)))"

definition exec_RSEL :: "'m bus \<Rightarrow> 'm trapf \<Rightarrow> 'm regs \<Rightarrow> 'm flow option" where
  "exec_RSEL b t r =
     (if \<not> is_vm2 r \<or> \<not> flag_is_set FLAG_H r then trap_end (illegal_trap b t r)
      else step_end (r\<lparr>R := (R r)(0 := SEL0 r)\<rparr>))"

definition exec_MFUS :: "'m bus \<Rightarrow> 'm trapf \<Rightarrow> 'm regs \<Rightarrow> 'm flow option" where
  "exec_MFUS b t r =
     (if \<not> flag_is_set FLAG_H r then trap_end (illegal_trap b t r)
      else
        let psw_saved = psw r;
            r = r\<lparr>psw := psw r AND NOT FLAG_H\<rparr>
        in do { (v, r) \<leftarrow> core_load_word b t (R r 5) r;
                let r = r\<lparr>R := (R r)(0 := v)\<rparr>;
                    r = r\<lparr>R := (R r)(5 := R r 5 + 2)\<rparr>
                in step_end (r\<lparr>psw := psw_saved\<rparr>) })"

definition exec_RCPC :: "'m bus \<Rightarrow> 'm trapf \<Rightarrow> 'm regs \<Rightarrow> 'm flow option" where
  "exec_RCPC b t r =
     (if \<not> halt_mode_priv r then trap_end (illegal_trap b t r)
      else step_end (r\<lparr>R := (R r)(0 := cpc r)\<rparr>))"

definition exec_RCPS :: "'m bus \<Rightarrow> 'm trapf \<Rightarrow> 'm regs \<Rightarrow> 'm flow option" where
  "exec_RCPS b t r =
     (if \<not> halt_mode_priv r then trap_end (illegal_trap b t r)
      else step_end (r\<lparr>R := (R r)(0 := cps r)\<rparr>))"

definition exec_MTUS :: "'m bus \<Rightarrow> 'm trapf \<Rightarrow> 'm regs \<Rightarrow> 'm flow option" where
  "exec_MTUS b t r =
     (if \<not> flag_is_set FLAG_H r then trap_end (illegal_trap b t r)
      else
        let psw_saved = psw r;
            r = r\<lparr>psw := psw r AND NOT FLAG_H\<rparr>;
            r = r\<lparr>R := (R r)(5 := R r 5 - 2)\<rparr>
        in do { r \<leftarrow> core_store_word b t (R r 5) (R r 0) r;
                unless_abort r (step_end (r\<lparr>psw := psw_saved\<rparr>)) })"

definition exec_WCPC :: "'m bus \<Rightarrow> 'm trapf \<Rightarrow> 'm regs \<Rightarrow> 'm flow option" where
  "exec_WCPC b t r =
     (if \<not> halt_mode_priv r then trap_end (illegal_trap b t r)
      else step_end (r\<lparr>cpc := R r 0\<rparr>))"

definition exec_WCPS :: "'m bus \<Rightarrow> 'm trapf \<Rightarrow> 'm regs \<Rightarrow> 'm flow option" where
  "exec_WCPS b t r =
     (if \<not> halt_mode_priv r then trap_end (illegal_trap b t r)
      else step_end (r\<lparr>cps := R r 0\<rparr>))"

definition exec_vm2 :: "'m bus \<Rightarrow> 'm trapf \<Rightarrow> u16 \<Rightarrow> 'm regs \<Rightarrow> 'm flow option" where
  "exec_vm2 b t op r =
     (if \<not> is_vm2 r then Some Next
      else if op = 0xA then exec_START b t r
      else if op = 0xE then exec_STEP b t r
      else if op = 0x10 then exec_RSEL b t r
      else if op = 0x11 then exec_MFUS b t r
      else if op = 0x12 then exec_RCPC b t r
      else if op = 0x14 then exec_RCPS b t r
      else if op = 0x19 then exec_MTUS b t r
      else if op = 0x1A then exec_WCPC b t r
      else if op = 0x1C then exec_WCPS b t r
      else Some Next)"

section \<open>Branches\<close>

definition br_offset :: "u16 \<Rightarrow> u16" where
  "br_offset op =
     (let offset = op AND 0xFF in if offset AND SIGN_B \<noteq> 0 then offset + 0xFF00 else offset)"

definition take_branch :: "u16 \<Rightarrow> 'm regs \<Rightarrow> 'm regs" where
  "take_branch op r = r\<lparr>R := (R r)(7 := R r 7 + br_offset op * 2)\<rparr>"

definition branch_if :: "bool \<Rightarrow> u16 \<Rightarrow> 'm regs \<Rightarrow> 'm flow option" where
  "branch_if c op r = step_end (if c then take_branch op r else r)"

definition n_xor_v :: "'m regs \<Rightarrow> bool" where
  "n_xor_v r = (flag_is_set FLAG_N r \<noteq> flag_is_set FLAG_V r)"

definition exec_trap_insn :: "'m bus \<Rightarrow> 'm trapf \<Rightarrow> u16 \<Rightarrow> 'm regs \<Rightarrow> 'm flow option" where
  "exec_trap_insn b t op r =
     (let vec = (if op AND 0x100 \<noteq> 0 then 0x1C else 0x18)
      in trap_end (core_take_vector b t vec (R r 7) (psw r) r))"

definition exec_branch :: "'m bus \<Rightarrow> 'm trapf \<Rightarrow> u16 \<Rightarrow> 'm regs \<Rightarrow> 'm flow option" where
  "exec_branch b t op r =
     (let c = op AND 0xFF00
      in if c = 0x100 then branch_if True op r
         else if c = 0x200 then branch_if (flag_is_clear FLAG_Z r) op r
         else if c = 0x300 then branch_if (flag_is_set FLAG_Z r) op r
         else if c = 0x8000 then branch_if (flag_is_clear FLAG_N r) op r
         else if c = 0x8100 then branch_if (flag_is_set FLAG_N r) op r
         else if c = 0x8400 then branch_if (flag_is_clear FLAG_V r) op r
         else if c = 0x8500 then branch_if (flag_is_set FLAG_V r) op r
         else if c = 0x8600 then branch_if (flag_is_clear FLAG_C r) op r
         else if c = 0x8700 then branch_if (flag_is_set FLAG_C r) op r
         else if c = 0x400 then branch_if (\<not> n_xor_v r) op r
         else if c = 0x500 then branch_if (n_xor_v r) op r
         else if c = 0x600 then branch_if (\<not> (n_xor_v r \<or> flag_is_set FLAG_Z r)) op r
         else if c = 0x700 then branch_if (n_xor_v r \<or> flag_is_set FLAG_Z r) op r
         else if c = 0x8200 then branch_if (flag_is_clear (FLAG_C OR FLAG_Z) r) op r
         else if c = 0x8300 then branch_if (\<not> flag_is_clear (FLAG_C OR FLAG_Z) r) op r
         else if c = 0x8800 \<or> c = 0x8900 then exec_trap_insn b t op r
         else Some Next)"

section \<open>RTS, MARK, SOB\<close>

definition exec_RTS :: "'m bus \<Rightarrow> 'm trapf \<Rightarrow> u16 \<Rightarrow> 'm regs \<Rightarrow> 'm flow option" where
  "exec_RTS b t op r =
     (let reg = unat (op AND 7);
          r = r\<lparr>R := (R r)(7 := R r reg)\<rparr>
      in do { (v, r) \<leftarrow> pullw b t r;
              step_end (r\<lparr>R := (R r)(reg := v)\<rparr>) })"

definition exec_MARK :: "'m bus \<Rightarrow> 'm trapf \<Rightarrow> u16 \<Rightarrow> 'm regs \<Rightarrow> 'm flow option" where
  "exec_MARK b t op r =
     (let nn = op AND 0x3F;
          r = r\<lparr>R := (R r)(6 := R r 7 + push_bit 1 nn)\<rparr>;
          r = r\<lparr>R := (R r)(7 := R r 5)\<rparr>
      in do { (v, r) \<leftarrow> pullw b t r;
              step_end (r\<lparr>R := (R r)(5 := v)\<rparr>) })"

definition exec_SOB :: "u16 \<Rightarrow> 'm regs \<Rightarrow> 'm flow option" where
  "exec_SOB op r =
     (let nn = op AND 0x3F;
          reg = unat (drop_bit 6 op AND 7);
          r = r\<lparr>R := (R r)(reg := R r reg - 1)\<rparr>
      in step_end (if R r reg \<noteq> 0 then r\<lparr>R := (R r)(7 := R r 7 - push_bit 1 nn)\<rparr> else r))"

definition exec_linkage :: "'m bus \<Rightarrow> 'm trapf \<Rightarrow> u16 \<Rightarrow> 'm regs \<Rightarrow> 'm flow option" where
  "exec_linkage b t op r =
     (if op AND 0xFFF8 = 0x80 then exec_RTS b t op r
      else if op AND 0xFFC0 = 0xD00 then exec_MARK b t op r
      else if op AND 0xFE00 = 0x7E00 then exec_SOB op r
      else Some Next)"

end
