(* ===== verification/ExecSingle.thy ===== *)
theory ExecSingle
  imports ExecControl
begin

text \<open>
  The single-operand instructions of \<^verbatim>\<open>core_step\<close>. Most of them fetch the operand,
  compute, store the result and set the condition codes: \<open>modify_word\<close> and
  \<open>modify_byte\<close> are that sequence (the macros \<^verbatim>\<open>DECODE_DST\<close>, \<^verbatim>\<open>GET_WORD\<close>, \<^verbatim>\<open>PUT_WORD\<close>), and
  an operation gives the result and the change of the flags. It gets the operand and
  the carry flag as it stands after the fetch. Word operands of byte instructions are
  zero extended, as in C.
\<close>

type_synonym 'm cc = "'m regs \<Rightarrow> 'm regs"

definition modify_word :: "'m bus \<Rightarrow> 'm trapf \<Rightarrow> (u16 \<Rightarrow> bool \<Rightarrow> u16 \<times> 'm cc) \<Rightarrow> u16 \<Rightarrow> 'm regs \<Rightarrow> 'm flow option" where
  "modify_word b t alu op r =
     DECODE_DST b t op r (\<lambda>dst_type dst_offset r.
     GET_WORD b t dst_type dst_offset r (\<lambda>tmp r.
     case alu tmp (flag_is_set FLAG_C r) of (res, cc) \<Rightarrow>
     PUT_WORD b t dst_type dst_offset res r (\<lambda>r.
     step_end (cc r))))"

definition modify_byte :: "'m bus \<Rightarrow> 'm trapf \<Rightarrow> (u16 \<Rightarrow> bool \<Rightarrow> u16 \<times> 'm cc) \<Rightarrow> u16 \<Rightarrow> 'm regs \<Rightarrow> 'm flow option" where
  "modify_byte b t alu op r =
     DECODE_DSTB b t op r (\<lambda>dst_type dst_offset r.
     GET_BYTE b t dst_type dst_offset r (\<lambda>tmp r.
     case alu tmp (flag_is_set FLAG_C r) of (res, cc) \<Rightarrow>
     PUT_BYTE b t dst_type dst_offset res r (\<lambda>r.
     step_end (cc r))))"

section \<open>Operations\<close>

definition alu_COM :: "u16 \<Rightarrow> bool \<Rightarrow> u16 \<times> 'm cc" where
  "alu_COM tmp c =
     (let tmp = NOT tmp in (tmp, PSW_SET_NZVC_WORD (tmp AND SIGN \<noteq> 0) (tmp = 0) False True))"

definition alu_COMB :: "u16 \<Rightarrow> bool \<Rightarrow> u16 \<times> 'm cc" where
  "alu_COMB tmp c =
     (let tmp = NOT tmp AND 0xFF
      in (tmp, PSW_SET_NZVC_BYTE (tmp AND SIGN_B \<noteq> 0) (tmp AND 0xFF = 0) False True))"

text \<open>INC and DEC read the carry flag after the store.\<close>

definition alu_INC :: "u16 \<Rightarrow> bool \<Rightarrow> u16 \<times> 'm cc" where
  "alu_INC tmp c =
     (let v = (tmp = MPI); tmp = tmp + 1
      in (tmp, \<lambda>r. PSW_SET_NZVC_WORD (tmp AND SIGN \<noteq> 0) (tmp = 0) v (flag_is_set FLAG_C r) r))"

definition alu_INCB :: "u16 \<Rightarrow> bool \<Rightarrow> u16 \<times> 'm cc" where
  "alu_INCB tmp c =
     (let v = (tmp = MPI_B); tmp = (tmp + 1) AND 0xFF
      in (tmp, \<lambda>r. PSW_SET_NZVC_BYTE (tmp AND SIGN_B \<noteq> 0) (tmp AND 0xFF = 0) v (flag_is_set FLAG_C r) r))"

definition alu_DEC :: "u16 \<Rightarrow> bool \<Rightarrow> u16 \<times> 'm cc" where
  "alu_DEC tmp c =
     (let v = (tmp = MNI); tmp = tmp - 1
      in (tmp, \<lambda>r. PSW_SET_NZVC_WORD (tmp AND SIGN \<noteq> 0) (tmp = 0) v (flag_is_set FLAG_C r) r))"

definition alu_DECB :: "u16 \<Rightarrow> bool \<Rightarrow> u16 \<times> 'm cc" where
  "alu_DECB tmp c =
     (let v = (tmp = MNI_B); tmp = (tmp - 1) AND 0xFF
      in (tmp, \<lambda>r. PSW_SET_NZVC_BYTE (tmp AND SIGN_B \<noteq> 0) (tmp AND 0xFF = 0) v (flag_is_set FLAG_C r) r))"

definition alu_NEG :: "u16 \<Rightarrow> bool \<Rightarrow> u16 \<times> 'm cc" where
  "alu_NEG tmp c =
     (let tmp = (NEG_1 - tmp) + 1
      in (tmp, PSW_SET_NZVC_WORD (tmp AND SIGN \<noteq> 0) (tmp = 0) (tmp = MNI) (tmp \<noteq> 0)))"

definition alu_NEGB :: "u16 \<Rightarrow> bool \<Rightarrow> u16 \<times> 'm cc" where
  "alu_NEGB tmp c =
     (let tmp = ((NEG_1_B - tmp) + 1) AND 0xFF
      in (tmp, PSW_SET_NZVC_BYTE (tmp AND SIGN_B \<noteq> 0) (tmp AND 0xFF = 0) (tmp = MNI_B) (tmp AND 0xFF \<noteq> 0)))"

definition alu_ASR :: "u16 \<Rightarrow> bool \<Rightarrow> u16 \<times> 'm cc" where
  "alu_ASR tmp c =
     (let asr_c = (tmp AND 1 \<noteq> 0);
          tmp = (tmp AND SIGN) OR drop_bit 1 tmp;
          asr_n = (tmp AND SIGN \<noteq> 0)
      in (tmp, PSW_SET_NZVC_WORD asr_n (tmp = 0) (asr_n \<noteq> asr_c) asr_c))"

definition alu_ASRB :: "u16 \<Rightarrow> bool \<Rightarrow> u16 \<times> 'm cc" where
  "alu_ASRB tmp c =
     (let asr_c = (tmp AND 1 \<noteq> 0);
          tmp = (tmp AND SIGN_B) OR drop_bit 1 tmp;
          asr_n = (tmp AND SIGN_B \<noteq> 0)
      in (tmp, PSW_SET_NZVC_BYTE asr_n (tmp AND 0xFF = 0) (asr_n \<noteq> asr_c) asr_c))"

definition alu_ASL :: "u16 \<Rightarrow> bool \<Rightarrow> u16 \<times> 'm cc" where
  "alu_ASL tmp c =
     (let asl_c = tmp AND SIGN;
          tmp = push_bit 1 tmp;
          asl_n = tmp AND SIGN
      in (tmp, PSW_SET_NZVC_WORD (asl_n \<noteq> 0) (tmp = 0) (asl_n XOR asl_c \<noteq> 0) (asl_c \<noteq> 0)))"

definition alu_ASLB :: "u16 \<Rightarrow> bool \<Rightarrow> u16 \<times> 'm cc" where
  "alu_ASLB tmp c =
     (let asl_c = tmp AND SIGN_B;
          tmp = push_bit 1 tmp AND 0xFF;
          asl_n = tmp AND SIGN_B
      in (tmp, PSW_SET_NZVC_BYTE (asl_n \<noteq> 0) (tmp AND 0xFF = 0) (asl_n XOR asl_c \<noteq> 0) (asl_c \<noteq> 0)))"

definition alu_ROR :: "u16 \<Rightarrow> bool \<Rightarrow> u16 \<times> 'm cc" where
  "alu_ROR tmp c =
     (let ror_c_new = (tmp AND 1 \<noteq> 0);
          tmp = drop_bit 1 tmp OR (if c then SIGN else 0);
          ror_n = (tmp AND SIGN \<noteq> 0)
      in (tmp, PSW_SET_NZVC_WORD ror_n (tmp = 0) (ror_n \<noteq> ror_c_new) ror_c_new))"

definition alu_RORB :: "u16 \<Rightarrow> bool \<Rightarrow> u16 \<times> 'm cc" where
  "alu_RORB tmp c =
     (let ror_c_new = (tmp AND 1 \<noteq> 0);
          tmp = drop_bit 1 tmp OR (if c then SIGN_B else 0);
          ror_n = (tmp AND SIGN_B \<noteq> 0)
      in (tmp, PSW_SET_NZVC_BYTE ror_n (tmp AND 0xFF = 0) (ror_n \<noteq> ror_c_new) ror_c_new))"

definition alu_ROL :: "u16 \<Rightarrow> bool \<Rightarrow> u16 \<times> 'm cc" where
  "alu_ROL tmp c =
     (let rol_c_new = tmp AND SIGN;
          tmp = push_bit 1 tmp OR (if c then 1 else 0);
          rol_n = tmp AND SIGN
      in (tmp, PSW_SET_NZVC_WORD (rol_n \<noteq> 0) (tmp = 0) (rol_n XOR rol_c_new \<noteq> 0) (rol_c_new \<noteq> 0)))"

definition alu_ROLB :: "u16 \<Rightarrow> bool \<Rightarrow> u16 \<times> 'm cc" where
  "alu_ROLB tmp c =
     (let rol_c_new = tmp AND SIGN_B;
          tmp = (push_bit 1 tmp OR (if c then 1 else 0)) AND 0xFF;
          rol_n = tmp AND SIGN_B
      in (tmp, PSW_SET_NZVC_BYTE (rol_n \<noteq> 0) (tmp AND 0xFF = 0) (rol_n XOR rol_c_new \<noteq> 0) (rol_c_new \<noteq> 0)))"

definition alu_ADC :: "u16 \<Rightarrow> bool \<Rightarrow> u16 \<times> 'm cc" where
  "alu_ADC tmp c =
     (let adc_v = (c \<and> tmp = MPI);
          adc_c = (c \<and> tmp = NEG_1);
          tmp = (if c then tmp + 1 else tmp)
      in (tmp, PSW_SET_NZVC_WORD (tmp AND SIGN \<noteq> 0) (tmp = 0) adc_v adc_c))"

definition alu_ADCB :: "u16 \<Rightarrow> bool \<Rightarrow> u16 \<times> 'm cc" where
  "alu_ADCB tmp c =
     (let adc_v = (c \<and> tmp = MPI_B);
          adc_c = (c \<and> tmp AND 0xFF = NEG_1_B);
          tmp = (if c then (tmp + 1) AND 0xFF else tmp)
      in (tmp, PSW_SET_NZVC_BYTE (tmp AND SIGN_B \<noteq> 0) (tmp AND 0xFF = 0) adc_v adc_c))"

definition alu_SBC :: "u16 \<Rightarrow> bool \<Rightarrow> u16 \<times> 'm cc" where
  "alu_SBC tmp c =
     (let sbc_v = (c \<and> tmp = MNI);
          sbc_c = (c \<and> tmp = 0);
          tmp = (if c then tmp - 1 else tmp)
      in (tmp, PSW_SET_NZVC_WORD (tmp AND SIGN \<noteq> 0) (tmp = 0) sbc_v sbc_c))"

definition alu_SBCB :: "u16 \<Rightarrow> bool \<Rightarrow> u16 \<times> 'm cc" where
  "alu_SBCB tmp c =
     (let sbc_v = (c \<and> tmp AND 0xFF = MNI_B);
          sbc_c = (c \<and> tmp AND 0xFF = 0);
          tmp = (if c then (tmp - 1) AND 0xFF else tmp)
      in (tmp, PSW_SET_NZVC_BYTE (tmp AND SIGN_B \<noteq> 0) (tmp AND 0xFF = 0) sbc_v sbc_c))"

definition alu_SWAB :: "u16 \<Rightarrow> bool \<Rightarrow> u16 \<times> 'm cc" where
  "alu_SWAB tmp c =
     (let tmp = drop_bit 8 tmp OR push_bit 8 tmp;
          lo = tmp AND 0xFF
      in (tmp, \<lambda>r. set_flag_if (lo = 0) FLAG_Z (set_flag_if (lo AND SIGN_B \<noteq> 0) FLAG_N
                     (clear_flag (FLAG_V OR FLAG_C) r))))"

section \<open>Instructions that do not fetch the operand, or do not store one\<close>

definition exec_JMP :: "'m bus \<Rightarrow> 'm trapf \<Rightarrow> u16 \<Rightarrow> 'm regs \<Rightarrow> 'm flow option" where
  "exec_JMP b t op r =
     (if op AND 0x38 = 0 then trap_end (trap_vector4 b t r)
      else DECODE_DST b t op r (\<lambda>dst_type dst_offset r.
           step_end (r\<lparr>R := (R r)(7 := dst_offset)\<rparr>)))"

definition exec_CLR :: "'m bus \<Rightarrow> 'm trapf \<Rightarrow> u16 \<Rightarrow> 'm regs \<Rightarrow> 'm flow option" where
  "exec_CLR b t op r =
     DECODE_DST b t op r (\<lambda>dst_type dst_offset r.
     PUT_WORD b t dst_type dst_offset 0 r (\<lambda>r.
     step_end (set_flag FLAG_Z (clear_flag (FLAG_N OR FLAG_V OR FLAG_C) r))))"

definition exec_CLRB :: "'m bus \<Rightarrow> 'm trapf \<Rightarrow> u16 \<Rightarrow> 'm regs \<Rightarrow> 'm flow option" where
  "exec_CLRB b t op r =
     DECODE_DSTB b t op r (\<lambda>dst_type dst_offset r.
     PUT_BYTE b t dst_type dst_offset 0 r (\<lambda>r.
     step_end (set_flag FLAG_Z (clear_flag (FLAG_N OR FLAG_V OR FLAG_C) r))))"

definition exec_TST :: "'m bus \<Rightarrow> 'm trapf \<Rightarrow> u16 \<Rightarrow> 'm regs \<Rightarrow> 'm flow option" where
  "exec_TST b t op r =
     DECODE_DST b t op r (\<lambda>dst_type dst_offset r.
     GET_WORD b t dst_type dst_offset r (\<lambda>tmp r.
     step_end (PSW_SET_NZVC_WORD (tmp AND SIGN \<noteq> 0) (tmp = 0) False False r)))"

definition exec_TSTB :: "'m bus \<Rightarrow> 'm trapf \<Rightarrow> u16 \<Rightarrow> 'm regs \<Rightarrow> 'm flow option" where
  "exec_TSTB b t op r =
     DECODE_DSTB b t op r (\<lambda>dst_type dst_offset r.
     GET_BYTE b t dst_type dst_offset r (\<lambda>tmp r.
     step_end (PSW_SET_NZVC_BYTE (tmp AND SIGN_B \<noteq> 0) (tmp AND 0xFF = 0) False False r)))"

definition exec_SXT :: "'m bus \<Rightarrow> 'm trapf \<Rightarrow> u16 \<Rightarrow> 'm regs \<Rightarrow> 'm flow option" where
  "exec_SXT b t op r =
     DECODE_DST b t op r (\<lambda>dst_type dst_offset r.
     let sxt_val = (if flag_is_set FLAG_N r then NEG_1 else 0)
     in PUT_WORD b t dst_type dst_offset sxt_val r (\<lambda>r.
        let r = (if sxt_val = NEG_1 then clear_flag FLAG_Z r else set_flag FLAG_Z r)
        in step_end (clear_flag FLAG_V r)))"

definition exec_MFPS :: "'m bus \<Rightarrow> 'm trapf \<Rightarrow> u16 \<Rightarrow> 'm regs \<Rightarrow> 'm flow option" where
  "exec_MFPS b t op r =
     DECODE_DSTB b t op r (\<lambda>dst_type dst_offset r.
     let tmp = psw r AND 0xFF
     in PUT_BYTE_MOVB b t dst_type dst_offset tmp r (\<lambda>r.
        step_end (clear_flag FLAG_V (set_flag_if (tmp = 0) FLAG_Z
                   (set_flag_if (tmp AND SIGN_B \<noteq> 0) FLAG_N r)))))"

definition exec_MTPS :: "'m bus \<Rightarrow> 'm trapf \<Rightarrow> u16 \<Rightarrow> u16 \<Rightarrow> 'm regs \<Rightarrow> 'm flow option" where
  "exec_MTPS b t op psw_before r =
     DECODE_DSTB b t op r (\<lambda>dst_type dst_offset r.
     GET_BYTE b t dst_type dst_offset r (\<lambda>tmp r.
     let low = tmp AND 0xEF;
         low = (if model r = DCJ11 \<and> \<not> dcj11_kernel_psw psw_before
                then (low AND 0x1F) OR (psw r AND 0xE0) else low)
     in step_end (r\<lparr>psw := (psw r AND 0xFE00) OR (psw r AND (FLAG_T OR FLAG_H)) OR low\<rparr>)))"

section \<open>Call to supervisor mode\<close>

definition exec_CSM :: "'m bus \<Rightarrow> 'm trapf \<Rightarrow> u16 \<Rightarrow> u16 \<Rightarrow> 'm regs \<Rightarrow> 'm flow option" where
  "exec_CSM b t op psw_before r =
     (if model r \<noteq> DCJ11 then trap_end (illegal_trap b t r)
      else
        let csm_enabled = (ENABLE_MMU b \<and> mmu_ssr3 r AND MMU_SSR3_CSM \<noteq> 0);
            old_mode = dcj11_psw_cur_mode psw_before
        in if \<not> csm_enabled \<or> old_mode = 0 then trap_end (illegal_trap b t r)
           else
             DECODE_DST b t op r (\<lambda>dst_type dst_offset r.
             GET_WORD b t dst_type dst_offset r (\<lambda>csm_arg r.
             let old_sp = R r 6;
                 old_psw_stack = psw r AND NOT (FLAG_N OR FLAG_Z OR FLAG_V OR FLAG_C)
             in
             do { r \<leftarrow> core_store_word_mode_space b t (old_sp - 2) old_psw_stack 1 True r;
                  unless_abort_end r (
             do { r \<leftarrow> core_store_word_mode_space b t (old_sp - 4) (R r 7) 1 True r;
                  unless_abort_end r (
             do { r \<leftarrow> core_store_word_mode_space b t (old_sp - 6) csm_arg 1 True r;
                  unless_abort_end r (
             let new_sp = old_sp - 6;
                 r = dcj11_sp_mode_init r;
                 r = r\<lparr>sp_mode := (sp_mode r)(old_mode := old_sp)\<rparr>;
                 r = r\<lparr>sp_mode := (sp_mode r)(1 := new_sp)\<rparr>;
                 new_psw = dcj11_psw_set_prev_mode (psw r) old_mode;
                 new_psw = dcj11_psw_set_cur_mode new_psw 1;
                 new_psw = new_psw AND NOT FLAG_T;
                 r = dcj11_set_psw new_psw r;
                 r = (if old_mode = 1 then r\<lparr>R := (R r)(6 := new_sp)\<rparr> else r);
                 r = r\<lparr>sp_mode := (sp_mode r)(1 := new_sp)\<rparr>
             in
             do { (v, r) \<leftarrow> core_load_word_mode_space b t 8 1 False r;
                  step_end (r\<lparr>R := (R r)(7 := v)\<rparr>) }) }) }) })))"

section \<open>Interlocked operations of the DCJ11\<close>

definition exec_TSTSET :: "'m bus \<Rightarrow> 'm trapf \<Rightarrow> u16 \<Rightarrow> 'm regs \<Rightarrow> 'm flow option" where
  "exec_TSTSET b t op r =
     (if model r \<noteq> DCJ11 then trap_end (illegal_trap b t r)
      else if op AND 0x38 = 0 then trap_end (illegal_trap b t r)
      else
        DECODE_DST b t op r (\<lambda>dst_type dst_offset r.
        GET_WORD b t dst_type dst_offset r (\<lambda>tmp r.
        let r = r\<lparr>R := (R r)(0 := tmp)\<rparr>
        in PUT_WORD b t dst_type dst_offset (tmp OR 1) r (\<lambda>r.
           let r = set_flag_if (R r 0 AND SIGN \<noteq> 0) FLAG_N r;
               r = set_flag_if (R r 0 = 0) FLAG_Z r
           in step_end (set_flag_if (tmp AND 1 \<noteq> 0) FLAG_C (clear_flag FLAG_V r))))))"

definition exec_WRTLCK :: "'m bus \<Rightarrow> 'm trapf \<Rightarrow> u16 \<Rightarrow> 'm regs \<Rightarrow> 'm flow option" where
  "exec_WRTLCK b t op r =
     (if model r \<noteq> DCJ11 then trap_end (illegal_trap b t r)
      else if op AND 0x38 = 0 then trap_end (illegal_trap b t r)
      else
        DECODE_DST b t op r (\<lambda>dst_type dst_offset r.
        let tmp = R r 0
        in PUT_WORD b t dst_type dst_offset tmp r (\<lambda>r.
           step_end (clear_flag FLAG_V (set_flag_if (tmp = 0) FLAG_Z
                      (set_flag_if (tmp AND SIGN \<noteq> 0) FLAG_N r))))))"

section \<open>Moves from and to the previous space\<close>

text \<open>\<open>decode_data\<close> of a DCJ11 in these instructions: an error goes to \<open>step_end\<close>.\<close>

definition DECODE_DST_END :: "'m bus \<Rightarrow> 'm trapf \<Rightarrow> u16 \<Rightarrow> 'm regs \<Rightarrow>
    (optype \<Rightarrow> u16 \<Rightarrow> 'm regs \<Rightarrow> 'm flow option) \<Rightarrow> 'm flow option" where
  "DECODE_DST_END b t op r k =
     do { (ty, offset, r) \<leftarrow> decode_data b t (op AND 0x3F) TYPE_WORD r;
          if ty = TYPE_ERROR then step_end r else k ty offset r }"

text \<open>The common end of MFPD and MFPI: push the word, set the condition codes.\<close>

definition mfp_push :: "'m bus \<Rightarrow> 'm trapf \<Rightarrow> u16 \<Rightarrow> 'm regs \<Rightarrow> 'm flow option" where
  "mfp_push b t mfp_tmp r =
     unless_abort_end r (
       let r = r\<lparr>R := (R r)(6 := R r 6 - 2)\<rparr>;
           r = mmu_mmr1_record_delta b 6 (-2) r;
           r = dcj11_note_stack_reference (R r 6) r
       in do { r \<leftarrow> core_store_word b t (R r 6) mfp_tmp r;
               unless_abort_end r
                 (step_end (clear_flag FLAG_V (set_flag_if (mfp_tmp = 0) FLAG_Z
                    (set_flag_if (mfp_tmp AND SIGN \<noteq> 0) FLAG_N r)))) })"

text \<open>\<open>data_space\<close> is 1 for MFPD; MFPI takes the D space only from user to user mode.\<close>

definition exec_MFP :: "'m bus \<Rightarrow> 'm trapf \<Rightarrow> bool \<Rightarrow> u16 \<Rightarrow> u16 \<Rightarrow> 'm regs \<Rightarrow> 'm flow option" where
  "exec_MFP b t data_space op psw_before r =
     (if \<not> has_prev_space_ops r then trap_end (illegal_trap b t r)
      else if model r \<noteq> DCJ11 then
        DECODE_DST b t op r (\<lambda>dst_type dst_offset r.
        do { (v, r) \<leftarrow> get_data_word b t dst_type dst_offset r; mfp_push b t v r })
      else
        let prev_mode = dcj11_psw_prev_mode_mxpi psw_before;
            cur_mode = dcj11_psw_cur_mode psw_before
        in DECODE_DST_END b t op r (\<lambda>dst_type dst_offset r.
           if dst_type = TYPE_REG then
             (case dcj11_read_mode_reg prev_mode dst_offset r of (v, r) \<Rightarrow> mfp_push b t v r)
           else
             do { (v, r) \<leftarrow> core_load_word_mode_space b t dst_offset prev_mode
                              (data_space \<or> (prev_mode = cur_mode \<and> prev_mode = 3)) r;
                  mfp_push b t v r }))"

definition exec_MFPD :: "'m bus \<Rightarrow> 'm trapf \<Rightarrow> u16 \<Rightarrow> u16 \<Rightarrow> 'm regs \<Rightarrow> 'm flow option" where
  "exec_MFPD b t op psw_before r = exec_MFP b t True op psw_before r"

definition exec_MFPI :: "'m bus \<Rightarrow> 'm trapf \<Rightarrow> u16 \<Rightarrow> u16 \<Rightarrow> 'm regs \<Rightarrow> 'm flow option" where
  "exec_MFPI b t op psw_before r = exec_MFP b t False op psw_before r"

text \<open>The store of a DCJ11 in MTPI and MTPD is not followed by a test of \<open>fAbort\<close>.\<close>

definition exec_MTP :: "'m bus \<Rightarrow> 'm trapf \<Rightarrow> bool \<Rightarrow> u16 \<Rightarrow> u16 \<Rightarrow> 'm regs \<Rightarrow> 'm flow option" where
  "exec_MTP b t data_space op psw_before r =
     (if \<not> has_prev_space_ops r then trap_end (illegal_trap b t r)
      else (if model r \<noteq> DCJ11 then DECODE_DST else DECODE_DST_END) b t op r
        (\<lambda>dst_type dst_offset r.
        do { (tmp, r) \<leftarrow> core_load_word b t (R r 6) r;
             unless_abort_end r (
             let r = r\<lparr>R := (R r)(6 := R r 6 + 2)\<rparr>;
                 r = mmu_mmr1_record_delta b 6 2 r;
                 finish = (\<lambda>r. step_end (clear_flag FLAG_V (set_flag_if (tmp = 0) FLAG_Z
                                 (set_flag_if (tmp AND SIGN \<noteq> 0) FLAG_N r))))
             in if model r \<noteq> DCJ11 then PUT_WORD b t dst_type dst_offset tmp r finish
                else
                  let prev_mode = dcj11_psw_prev_mode_mxpi psw_before
                  in if dst_type = TYPE_REG
                     then finish (dcj11_write_mode_reg prev_mode dst_offset tmp r)
                     else do { r \<leftarrow> core_store_word_mode_space b t dst_offset tmp prev_mode data_space r;
                               finish r }) }))"

definition exec_MTPI :: "'m bus \<Rightarrow> 'm trapf \<Rightarrow> u16 \<Rightarrow> u16 \<Rightarrow> 'm regs \<Rightarrow> 'm flow option" where
  "exec_MTPI b t op psw_before r = exec_MTP b t False op psw_before r"

definition exec_MTPD :: "'m bus \<Rightarrow> 'm trapf \<Rightarrow> u16 \<Rightarrow> u16 \<Rightarrow> 'm regs \<Rightarrow> 'm flow option" where
  "exec_MTPD b t op psw_before r = exec_MTP b t True op psw_before r"

section \<open>The switch\<close>

definition exec_single :: "'m bus \<Rightarrow> 'm trapf \<Rightarrow> u16 \<Rightarrow> u16 \<Rightarrow> 'm regs \<Rightarrow> 'm flow option" where
  "exec_single b t op psw_before r =
     (let c = drop_bit 6 (op AND 0xFFC0)
      in if c = 1 then exec_JMP b t op r
         else if c = 0x28 then exec_CLR b t op r
         else if c = 0x228 then exec_CLRB b t op r
         else if c = 0x29 then modify_word b t alu_COM op r
         else if c = 0x229 then modify_byte b t alu_COMB op r
         else if c = 0x2A then modify_word b t alu_INC op r
         else if c = 0x22A then modify_byte b t alu_INCB op r
         else if c = 0x2B then modify_word b t alu_DEC op r
         else if c = 0x22B then modify_byte b t alu_DECB op r
         else if c = 0x2C then modify_word b t alu_NEG op r
         else if c = 0x22C then modify_byte b t alu_NEGB op r
         else if c = 0x2F then exec_TST b t op r
         else if c = 0x22F then exec_TSTB b t op r
         else if c = 0x32 then modify_word b t alu_ASR op r
         else if c = 0x232 then modify_byte b t alu_ASRB op r
         else if c = 0x33 then modify_word b t alu_ASL op r
         else if c = 0x233 then modify_byte b t alu_ASLB op r
         else if c = 0x30 then modify_word b t alu_ROR op r
         else if c = 0x230 then modify_byte b t alu_RORB op r
         else if c = 0x31 then modify_word b t alu_ROL op r
         else if c = 0x231 then modify_byte b t alu_ROLB op r
         else if c = 0x2D then modify_word b t alu_ADC op r
         else if c = 0x22D then modify_byte b t alu_ADCB op r
         else if c = 0x2E then modify_word b t alu_SBC op r
         else if c = 0x22E then modify_byte b t alu_SBCB op r
         else if c = 3 then modify_word b t alu_SWAB op r
         else if c = 0x37 then exec_SXT b t op r
         else if c = 0x237 then exec_MFPS b t op r
         else if c = 0x234 then exec_MTPS b t op psw_before r
         else if c = 0x38 then exec_CSM b t op psw_before r
         else if c = 0x3A then exec_TSTSET b t op r
         else if c = 0x3B then exec_WRTLCK b t op r
         else if c = 0x235 then exec_MFPD b t op psw_before r
         else if c = 0x35 then exec_MFPI b t op psw_before r
         else if c = 0x36 then exec_MTPI b t op psw_before r
         else if c = 0x236 then exec_MTPD b t op psw_before r
         else Some Next)"

end
