(* ===== verification/Fis.thy ===== *)
theory Fis
  imports ExecSingle "HOL-Library.Signed_Division"
begin

text \<open>
  The FIS instructions (FADD, FSUB, FMUL, FDIV) of \<^verbatim>\<open>core/core.c\<close>. The C code converts
  both operands from the PDP-11 format to \<^verbatim>\<open>float\<close>, uses the C operators, and converts
  back. A \<^verbatim>\<open>float\<close> is an IEEE single here, held as its bit pattern; the operators are
  given by the standard: the exact result, rounded to nearest, ties to even. The
  operands are finite, since \<^verbatim>\<open>f11_to_float32\<close> never makes an infinity or a NaN.
\<close>

section \<open>IEEE single precision\<close>

fun bitlen :: "nat \<Rightarrow> nat" where
  "bitlen n = (if n = 0 then 0 else Suc (bitlen (n div 2)))"

declare bitlen.simps [simp del]

definition f32_sign :: "u32 \<Rightarrow> bool" where "f32_sign x = bit x 31"
definition f32_exp :: "u32 \<Rightarrow> nat" where "f32_exp x = unat (drop_bit 23 x AND 0xFF)"
definition f32_frac :: "u32 \<Rightarrow> nat" where "f32_frac x = unat (x AND 0x7FFFFF)"

text \<open>A finite single is its significand times two to its scale.\<close>

definition f32_sig :: "u32 \<Rightarrow> nat" where
  "f32_sig x = (if f32_exp x = 0 then f32_frac x else 0x800000 + f32_frac x)"

definition f32_scale :: "u32 \<Rightarrow> int" where
  "f32_scale x = (if f32_exp x = 0 then - 149 else int (f32_exp x) - 150)"

definition f32_pack :: "bool \<Rightarrow> nat \<Rightarrow> nat \<Rightarrow> u32" where
  "f32_pack s e f = (if s then 0x80000000 else 0) OR push_bit 23 (of_nat e) OR of_nat f"

text \<open>Round to nearest even of \<open>m / 2 ^ k\<close>; \<open>sticky\<close> says that a positive amount smaller
  than one was cut off \<open>m\<close>.\<close>

definition round_shift :: "nat \<Rightarrow> nat \<Rightarrow> bool \<Rightarrow> nat" where
  "round_shift m k sticky =
     (let q = m div 2 ^ k; rem = m mod 2 ^ k; half = 2 ^ (k - 1)
      in if half < rem \<or> (rem = half \<and> (sticky \<or> odd q)) then q + 1 else q)"

text \<open>The single nearest to \<open>m * 2 ^ e\<close>. Where there is a sticky part, \<open>m\<close> has more than 24 bits.\<close>

definition f32_round :: "bool \<Rightarrow> nat \<Rightarrow> int \<Rightarrow> bool \<Rightarrow> u32" where
  "f32_round s m e sticky =
     (if m = 0 then f32_pack s 0 0
      else
        let q = max (e + int (bitlen m) - 24) (- 149);
            sig = (if q \<le> e then m * 2 ^ nat (e - q) else round_shift m (nat (q - e)) sticky);
            (sig, q) = (if sig = 0x1000000 then (0x800000, q + 1) else (sig, q))
        in if sig < 0x800000 then f32_pack s 0 sig
           else if 105 \<le> q then f32_pack s 255 0
           else f32_pack s (nat (q + 150)) (sig - 0x800000))"

definition f32_signed :: "u32 \<Rightarrow> int" where
  "f32_signed x = (if f32_sign x then - int (f32_sig x) else int (f32_sig x))"

definition f32_add :: "u32 \<Rightarrow> u32 \<Rightarrow> u32" where
  "f32_add a b =
     (let e = min (f32_scale a) (f32_scale b);
          s = f32_signed a * 2 ^ nat (f32_scale a - e) + f32_signed b * 2 ^ nat (f32_scale b - e)
      in if s = 0 then f32_pack (f32_sign a \<and> f32_sign b) 0 0
         else f32_round (s < 0) (nat \<bar>s\<bar>) e False)"

definition f32_neg :: "u32 \<Rightarrow> u32" where "f32_neg a = a XOR 0x80000000"

definition f32_sub :: "u32 \<Rightarrow> u32 \<Rightarrow> u32" where "f32_sub a b = f32_add a (f32_neg b)"

definition f32_mul :: "u32 \<Rightarrow> u32 \<Rightarrow> u32" where
  "f32_mul a b =
     f32_round (f32_sign a \<noteq> f32_sign b) (f32_sig a * f32_sig b) (f32_scale a + f32_scale b) False"

text \<open>The divisor is not 0.\<close>

definition f32_div :: "u32 \<Rightarrow> u32 \<Rightarrow> u32" where
  "f32_div a b =
     (let n = f32_sig a * 2 ^ 50
      in f32_round (f32_sign a \<noteq> f32_sign b) (n div f32_sig b) (f32_scale a - f32_scale b - 50)
           (n mod f32_sig b \<noteq> 0))"

definition f32_is_zero :: "u32 \<Rightarrow> bool" where "f32_is_zero a = (a AND 0x7FFFFFFF = 0)"

section \<open>Conversions\<close>

definition f11_to_float32 :: "u32 \<Rightarrow> u32" where
  "f11_to_float32 f11 =
     (let sign = drop_bit 31 f11 AND 1;
          exp11 = drop_bit 23 f11 AND 0xFF;
          frac = f11 AND 0x7FFFFF;
          exp32 = uint exp11 - 2
      in if exp11 = 0 then push_bit 31 sign
         else if exp32 \<le> 0 then push_bit 31 sign
         else if 255 \<le> exp32 then push_bit 31 sign OR push_bit 23 255
         else push_bit 31 sign OR push_bit 23 (of_int exp32) OR frac)"

text \<open>The result and the error code.\<close>

definition float32_to_f11 :: "u32 \<Rightarrow> u32 \<times> u16" where
  "float32_to_f11 f =
     (let sign = drop_bit 31 f AND 1;
          exp32 = drop_bit 23 f AND 0xFF;
          frac = f AND 0x7FFFFF;
          exp11 = uint exp32 + 2
      in if exp32 = 0 then (0, 0)
         else if 256 \<le> exp11 then (push_bit 31 sign OR push_bit 23 255 OR frac, 2)
         else if exp11 \<le> 0 then (0, 0xA)
         else (push_bit 31 sign OR push_bit 23 (of_int exp11) OR frac, 0))"

section \<open>The instruction\<close>

definition fis_op :: "nat \<Rightarrow> u32 \<Rightarrow> u32 \<Rightarrow> u32" where
  "fis_op mop a b =
     (if mop = 0 then f32_add a b else if mop = 1 then f32_sub a b
      else if mop = 2 then f32_mul a b else f32_div a b)"

definition fis_store :: "'m bus \<Rightarrow> 'm trapf \<Rightarrow> nat \<Rightarrow> u16 \<Rightarrow> u32 \<Rightarrow> 'm regs \<Rightarrow> 'm flow option" where
  "fis_store b t reg addr_a res_f11 r =
     do { r \<leftarrow> core_store_word b t addr_a (ucast (drop_bit 16 res_f11)) r;
          unless_abort r (
     do { r \<leftarrow> core_store_word b t (addr_a + 2) (ucast res_f11) r;
          unless_abort r (
     let r = r\<lparr>R := (R r)(reg := addr_a)\<rparr>;
         r = (if res_f11 AND 0x80000000 \<noteq> 0 then set_flag FLAG_N r else clear_flag FLAG_N r);
         r = (if res_f11 AND 0x7FFFFFFF = 0 then set_flag FLAG_Z r else clear_flag FLAG_Z r)
     in step_end (clear_flag FLAG_C (clear_flag FLAG_V r))) }) }"

definition exec_FIS :: "'m bus \<Rightarrow> 'm trapf \<Rightarrow> u16 \<Rightarrow> 'm regs \<Rightarrow> 'm flow option" where
  "exec_FIS b t op r =
     (if op AND 0xFFE0 \<noteq> 0x7A00 then Some Next
      else if \<not> has_fis r then trap_end (handle_fis b t r)
      else
        let reg = unat (op AND 7);
            mop = unat (drop_bit 3 op AND 3);
            addr_b = R r reg;
            addr_a = addr_b + 4
        in
        do { (b_w0, r) \<leftarrow> core_load_word b t addr_b r;
             (b_w1, r) \<leftarrow> core_load_word b t (addr_b + 2) r;
             unless_abort r (
        do { (a_w0, r) \<leftarrow> core_load_word b t addr_a r;
             (a_w1, r) \<leftarrow> core_load_word b t (addr_a + 2) r;
             unless_abort r (
        let b_f32 = f11_to_float32 (push_bit 16 (ucast b_w0) OR ucast b_w1);
            a_f32 = f11_to_float32 (push_bit 16 (ucast a_w0) OR ucast a_w1)
        in if mop = 3 \<and> f32_is_zero b_f32 then trap_end (handle_fis_error b t 0xB r)
           else case float32_to_f11 (fis_op mop a_f32 b_f32) of
                  (res_f11, fis_err) \<Rightarrow>
                    if fis_err \<noteq> 0 then trap_end (handle_fis_error b t fis_err r)
                    else fis_store b t reg addr_a res_f11 r) }) })"

end
