(* ===== verification/Fp11Arith.thy ===== *)
theory Fp11Arith
  imports Regs
begin

text \<open>
  The arithmetic of \<^verbatim>\<open>core/pdp11_fp.c\<close> on 64-bit quantities held as two 32-bit halves
  (\<open>fpac_t\<close>): the macros \<^verbatim>\<open>F_*\<close>, the normalisation loops, the multiplication of
  fractions and the division loop. None of it depends on the state of the processor.
\<close>

abbreviation FPS_ER :: u32 where "FPS_ER \<equiv> 0x8000"
abbreviation FPS_ID :: u32 where "FPS_ID \<equiv> 0x4000"
abbreviation FPS_IUV :: u32 where "FPS_IUV \<equiv> 0x800"
abbreviation FPS_IU :: u32 where "FPS_IU \<equiv> 0x400"
abbreviation FPS_IV :: u32 where "FPS_IV \<equiv> 0x200"
abbreviation FPS_IC :: u32 where "FPS_IC \<equiv> 0x100"
abbreviation FPS_D :: u32 where "FPS_D \<equiv> 0x80"
abbreviation FPS_L :: u32 where "FPS_L \<equiv> 0x40"
abbreviation FPS_T :: u32 where "FPS_T \<equiv> 0x20"
abbreviation FPS_N :: u32 where "FPS_N \<equiv> 8"
abbreviation FPS_Z :: u32 where "FPS_Z \<equiv> 4"
abbreviation FPS_V :: u32 where "FPS_V \<equiv> 2"
abbreviation FPS_C :: u32 where "FPS_C \<equiv> 1"
abbreviation FPS_CC :: u32 where "FPS_CC \<equiv> 0xF"
abbreviation FPS_RW :: u32 where "FPS_RW \<equiv> 0xCFEF"

abbreviation FP_SIGN :: u32 where "FP_SIGN \<equiv> 0x80000000"
abbreviation FP_EXP :: u32 where "FP_EXP \<equiv> 0x7F800000"
abbreviation FP_HB :: u32 where "FP_HB \<equiv> 0x800000"
abbreviation FP_FRACH :: u32 where "FP_FRACH \<equiv> 0x7FFFFF"
abbreviation FP_BIAS :: int where "FP_BIAS \<equiv> 128"

text \<open>The bit left of the guarded fraction's binary point, and the one above it.\<close>

abbreviation FP_NORM_BIT :: nat where "FP_NORM_BIT \<equiv> 26"

definition zero_fac :: fpac_t where "zero_fac = \<lparr>fp_l = 0, fp_h = 0\<rparr>"
definition fround_fac :: fpac_t where "fround_fac = \<lparr>fp_l = 0x80000000, fp_h = 0\<rparr>"
definition fround_guard_fac :: fpac_t where "fround_guard_fac = \<lparr>fp_l = 0, fp_h = 4\<rparr>"
definition dround_guard_fac :: fpac_t where "dround_guard_fac = \<lparr>fp_l = 4, fp_h = 0\<rparr>"
definition fmask_fac :: fpac_t where "fmask_fac = \<lparr>fp_l = 0xFFFFFFFF, fp_h = 0x7FFFFFF\<rparr>"

definition and_mask :: "nat \<Rightarrow> u32" where
  "and_mask n = mask n"

section \<open>Macros\<close>

definition F_LOAD :: "bool \<Rightarrow> fpac_t \<Rightarrow> fpac_t" where
  "F_LOAD qd ac = \<lparr>fp_l = (if qd then fp_l ac else 0), fp_h = fp_h ac\<rparr>"

definition F_LOAD_FRAC :: "bool \<Rightarrow> fpac_t \<Rightarrow> fpac_t" where
  "F_LOAD_FRAC qd ac = \<lparr>fp_l = (if qd then fp_l ac else 0), fp_h = (fp_h ac AND FP_FRACH) OR FP_HB\<rparr>"

text \<open>\<open>F_STORE qd sr ac\<close> is the new value of \<open>ac\<close>.\<close>

definition F_STORE :: "bool \<Rightarrow> fpac_t \<Rightarrow> fpac_t \<Rightarrow> fpac_t" where
  "F_STORE qd sr ac = \<lparr>fp_l = (if qd then fp_l sr else fp_l ac), fp_h = fp_h sr\<rparr>"

definition F_GET_FRAC :: "fpac_t \<Rightarrow> fpac_t" where
  "F_GET_FRAC sr = \<lparr>fp_l = fp_l sr, fp_h = (fp_h sr AND FP_FRACH) OR FP_HB\<rparr>"

definition F_ADD :: "fpac_t \<Rightarrow> fpac_t \<Rightarrow> fpac_t" where
  "F_ADD s2 s1 =
     (let l = fp_l s1 + fp_l s2
      in \<lparr>fp_l = l, fp_h = fp_h s1 + fp_h s2 + (if l < fp_l s2 then 1 else 0)\<rparr>)"

definition F_SUB :: "fpac_t \<Rightarrow> fpac_t \<Rightarrow> fpac_t" where
  "F_SUB s2 s1 =
     \<lparr>fp_l = fp_l s1 - fp_l s2,
      fp_h = fp_h s1 - fp_h s2 - (if fp_l s1 < fp_l s2 then 1 else 0)\<rparr>"

definition F_LT :: "fpac_t \<Rightarrow> fpac_t \<Rightarrow> bool" where
  "F_LT x y = (fp_h x < fp_h y \<or> (fp_h x = fp_h y \<and> fp_l x < fp_l y))"

definition F_LT_AP :: "fpac_t \<Rightarrow> fpac_t \<Rightarrow> bool" where
  "F_LT_AP x y =
     (fp_h x AND NOT FP_SIGN < fp_h y AND NOT FP_SIGN \<or>
      (fp_h x AND NOT FP_SIGN = fp_h y AND NOT FP_SIGN \<and> fp_l x < fp_l y))"

text \<open>The shifts by a variable count are only used with counts from 1 to 63.\<close>

definition F_LSH_V :: "fpac_t \<Rightarrow> nat \<Rightarrow> fpac_t" where
  "F_LSH_V sr n =
     \<lparr>fp_l = (if 32 \<le> n then 0 else push_bit n (fp_l sr)),
      fp_h = (if 32 \<le> n then push_bit (n - 32) (fp_l sr)
              else push_bit n (fp_h sr) OR (drop_bit (32 - n) (fp_l sr) AND and_mask n))\<rparr>"

definition F_RSH_V :: "fpac_t \<Rightarrow> nat \<Rightarrow> fpac_t" where
  "F_RSH_V sr n =
     \<lparr>fp_l = (if 32 \<le> n then drop_bit (n - 32) (fp_h sr) AND and_mask (64 - n)
              else (drop_bit n (fp_l sr) AND and_mask (32 - n)) OR push_bit (32 - n) (fp_h sr)),
      fp_h = (if 32 \<le> n then 0 else drop_bit n (fp_h sr) AND and_mask (32 - n))\<rparr>"

definition F_LSH_1 :: "fpac_t \<Rightarrow> fpac_t" where
  "F_LSH_1 ds =
     \<lparr>fp_l = push_bit 1 (fp_l ds), fp_h = push_bit 1 (fp_h ds) OR (drop_bit 31 (fp_l ds) AND 1)\<rparr>"

definition F_RSH_1 :: "fpac_t \<Rightarrow> fpac_t" where
  "F_RSH_1 ds =
     \<lparr>fp_l = (drop_bit 1 (fp_l ds) AND 0x7FFFFFFF) OR push_bit 31 (fp_h ds AND 1),
      fp_h = drop_bit 1 (fp_h ds) AND 0x7FFFFFFF\<rparr>"

definition F_LSH_K :: "fpac_t \<Rightarrow> nat \<Rightarrow> fpac_t" where
  "F_LSH_K sr n =
     \<lparr>fp_l = push_bit n (fp_l sr),
      fp_h = push_bit n (fp_h sr) OR (drop_bit (32 - n) (fp_l sr) AND and_mask n)\<rparr>"

definition F_RSH_K :: "fpac_t \<Rightarrow> nat \<Rightarrow> fpac_t" where
  "F_RSH_K sr n =
     \<lparr>fp_l = (drop_bit n (fp_l sr) AND and_mask (32 - n)) OR push_bit (32 - n) (fp_h sr),
      fp_h = drop_bit n (fp_h sr) AND and_mask (32 - n)\<rparr>"

definition F_LSH_GUARD :: "fpac_t \<Rightarrow> fpac_t" where "F_LSH_GUARD ds = F_LSH_K ds 3"
definition F_RSH_GUARD :: "fpac_t \<Rightarrow> fpac_t" where "F_RSH_GUARD ds = F_RSH_K ds 3"

definition GET_BIT :: "u32 \<Rightarrow> nat \<Rightarrow> bool" where
  "GET_BIT x n = (drop_bit n x AND 1 \<noteq> 0)"

definition GET_SIGN :: "u32 \<Rightarrow> bool" where
  "GET_SIGN x = GET_BIT x 31"

definition GET_EXP :: "u32 \<Rightarrow> int" where
  "GET_EXP x = uint (drop_bit 23 x AND 0xFF)"

definition F_is_zero :: "fpac_t \<Rightarrow> bool" where
  "F_is_zero f = (fp_h f OR fp_l f = 0)"

section \<open>Normalisation\<close>

text \<open>
  The coarse steps (24, 12 and 6 places) of the sum and of the fraction of MODf, and the
  loop that shifts one place at a time until bit 26 of the high half is set. The loop ends
  for every fraction that is not zero; the model bounds it by its first argument, and
  64 turns are enough.
\<close>

definition norm_step :: "nat \<Rightarrow> u32 \<Rightarrow> fpac_t \<times> int \<Rightarrow> fpac_t \<times> int" where
  "norm_step n m fe = (case fe of (f, e) \<Rightarrow> if fp_h f AND m = 0 then (F_LSH_K f n, e - int n) else (f, e))"

definition coarse_norm :: "fpac_t \<times> int \<Rightarrow> fpac_t \<times> int" where
  "coarse_norm fe = norm_step 6 0x7E00000 (norm_step 12 0x7FF8000 (norm_step 24 0x7FFFFF8 fe))"

fun norm_loop :: "nat \<Rightarrow> fpac_t \<times> int \<Rightarrow> fpac_t \<times> int" where
  "norm_loop 0 fe = fe"
| "norm_loop (Suc n) (f, e) =
     (if \<not> GET_BIT (fp_h f) FP_NORM_BIT then norm_loop n (F_LSH_1 f, e - 1) else (f, e))"

text \<open>The loop of LDCif that looks for the leading one of the integer.\<close>

fun int_norm_loop :: "nat \<Rightarrow> nat \<Rightarrow> u32 \<Rightarrow> nat \<times> u32" where
  "int_norm_loop 0 i l = (i, l)"
| "int_norm_loop (Suc n) i l =
     (if \<not> GET_BIT l 31 then int_norm_loop n (Suc i) (push_bit 1 l) else (i, l))"

section \<open>Multiplication of fractions\<close>

text \<open>One pass of the 24 by 24 bit loop, of the 56 bit loops; \<open>mpy\<close> is one half of the
  multiplier.\<close>

fun mul24_loop :: "nat \<Rightarrow> u32 \<Rightarrow> fpac_t \<Rightarrow> fpac_t \<Rightarrow> fpac_t" where
  "mul24_loop 0 mpy mpc result = result"
| "mul24_loop (Suc n) mpy mpc result =
     (let result = (if mpy AND 1 \<noteq> 0 then result\<lparr>fp_h := fp_h result + fp_h mpc\<rparr> else result)
      in mul24_loop n (drop_bit 1 mpy) mpc (F_RSH_1 result))"

fun mul56_loop :: "nat \<Rightarrow> u32 \<Rightarrow> fpac_t \<Rightarrow> fpac_t \<Rightarrow> fpac_t" where
  "mul56_loop 0 mpy mpc result = result"
| "mul56_loop (Suc n) mpy mpc result =
     (let result = (if mpy AND 1 \<noteq> 0 then F_ADD mpc result else result)
      in mul56_loop n (drop_bit 1 mpy) mpc (F_RSH_1 result))"

definition frac_mulfp11 :: "fpac_t \<Rightarrow> fpac_t \<Rightarrow> fpac_t" where
  "frac_mulfp11 f1 f2 =
     (let mpy = f1; mpc = F_LSH_GUARD f2
      in if fp_l mpy OR fp_l mpc = 0 then mul24_loop 24 (fp_h mpy) mpc zero_fac
         else let result = (if fp_l mpy \<noteq> 0 then mul56_loop 32 (fp_l mpy) mpc zero_fac else zero_fac)
              in mul56_loop 24 (fp_h mpy) mpc result)"

section \<open>Division of fractions\<close>

text \<open>The division loop: the count left, the quotient and the dividend. The count is not 0
  when the dividend became 0 early.\<close>

fun div_loop :: "bool \<Rightarrow> fpac_t \<Rightarrow> nat \<Rightarrow> fpac_t \<Rightarrow> fpac_t \<Rightarrow> nat \<times> fpac_t \<times> fpac_t" where
  "div_loop qd divr 0 quo divd = (0, quo, divd)"
| "div_loop qd divr (Suc i) quo divd =
     (if F_is_zero divd then (Suc i, quo, divd)
      else
        let quo = F_LSH_1 quo;
            (quo, divd) = (if \<not> F_LT divd divr
                           then (if qd then quo\<lparr>fp_l := fp_l quo OR 1\<rparr> else quo\<lparr>fp_h := fp_h quo OR 1\<rparr>,
                                 F_SUB divr divd)
                           else (quo, divd))
        in div_loop qd divr i quo (F_LSH_1 divd))"

definition frac_divfp11 :: "bool \<Rightarrow> fpac_t \<Rightarrow> fpac_t \<Rightarrow> fpac_t" where
  "frac_divfp11 qd facfrac fsrcfrac =
     (case div_loop qd fsrcfrac (if qd then 59 else 27) zero_fac facfrac of
        (i, quo, divd) \<Rightarrow> if 0 < i then F_LSH_V quo i else quo)"

section \<open>Condition codes\<close>

definition setfcc :: "u32 \<Rightarrow> u32 \<Rightarrow> u32 \<Rightarrow> u32" where
  "setfcc oldst result newV =
     (let oldst = (oldst AND NOT FPS_CC) OR newV;
          oldst = (if GET_SIGN result then oldst OR FPS_N else oldst)
      in if GET_EXP result = 0 then oldst OR FPS_Z else oldst)"

end
