(* ===== verification/Fp11.thy ===== *)
theory Fp11
  imports ExecSingle Fp11Arith
begin

text \<open>
  The floating point processor of \<^verbatim>\<open>core/pdp11_fp.c\<close> (opcodes 0170000..0177777):
  exceptions, effective addresses, operand accesses, the operations, and the dispatcher
  \<^verbatim>\<open>fp11\<close>. Virtual addresses are 16 bit wide in this code (\<open>ds\<close> and \<open>exta\<close> are always 0).
  \<open>FPS\<close>, \<open>FEC\<close>, \<open>FEA\<close>, \<open>FR\<close> are the fields \<open>fpu_*\<close>. A routine with the result
  \<^verbatim>\<open>t_bool\<close> and an output parameter returns an option here.
\<close>

section \<open>Exceptions\<close>

abbreviation FEC_OP :: nat where "FEC_OP \<equiv> 2"
abbreviation FEC_DZRO :: nat where "FEC_DZRO \<equiv> 4"
abbreviation FEC_ICVT :: nat where "FEC_ICVT \<equiv> 6"
abbreviation FEC_OVFLO :: nat where "FEC_OVFLO \<equiv> 8"
abbreviation FEC_UNFLO :: nat where "FEC_UNFLO \<equiv> 10"
abbreviation FEC_UNDFV :: nat where "FEC_UNDFV \<equiv> 12"

definition fp_test_code :: "u32 list" where
  "fp_test_code = [0, 0, 0, FPS_IC, FPS_IV, FPS_IU, FPS_IUV]"

text \<open>\<open>True\<close>: the exception is disabled.\<close>

definition fpnotrap :: "nat \<Rightarrow> 'm regs \<Rightarrow> bool \<times> 'm regs" where
  "fpnotrap code r =
     (if FEC_ICVT \<le> code \<and> code \<le> FEC_UNDFV \<and> fpu_fps r AND fp_test_code ! (code div 2) = 0
      then (True, r)
      else
        let r = r\<lparr>fpu_fps := fpu_fps r OR FPS_ER, fpu_fec := of_nat code,
                  fpu_fea := ucast (fp11_backup_pc r - 2)\<rparr>;
            r = (if fpu_fps r AND FPS_ID = 0 \<and> \<not> fp11_trap_pending r
                 then r\<lparr>fp11_trap_pending := True, fp11_trap_old_pc := R r 7, fp11_trap_old_psw := psw r\<rparr>
                 else r)
        in (False, r))"

section \<open>Memory\<close>

definition ReadW :: "'m bus \<Rightarrow> 'm trapf \<Rightarrow> u16 \<Rightarrow> 'm regs \<Rightarrow> (u16 \<times> 'm regs) option" where
  "ReadW b t addr r = (if fAbort r then Some (0, r) else core_load_word b t addr r)"

definition ReadWI :: "'m bus \<Rightarrow> 'm trapf \<Rightarrow> u16 \<Rightarrow> 'm regs \<Rightarrow> (u16 \<times> 'm regs) option" where
  "ReadWI b t addr r = (if fAbort r then Some (0, r) else core_load_word_ifetch b t addr r)"

definition ReadFW :: "'m bus \<Rightarrow> 'm trapf \<Rightarrow> u16 \<Rightarrow> nat \<Rightarrow> 'm regs \<Rightarrow> (u16 \<times> 'm regs) option" where
  "ReadFW b t addr spec r = (if spec = 0x17 then ReadWI b t addr r else ReadW b t addr r)"

definition WriteW :: "'m bus \<Rightarrow> 'm trapf \<Rightarrow> u16 \<Rightarrow> u16 \<Rightarrow> 'm regs \<Rightarrow> 'm regs option" where
  "WriteW b t data addr r = (if fAbort r then Some r else core_store_word b t addr data r)"

section \<open>Effective addresses\<close>

text \<open>A DCJ11 records the change of a register other than PC until the instruction ends.\<close>

definition fp_reg_change :: "u16 \<Rightarrow> nat \<Rightarrow> 'm regs \<Rightarrow> 'm regs" where
  "fp_reg_change len reg r =
     (if model r = DCJ11 \<and> reg \<noteq> 7 then
        r\<lparr>fp11_reg_delta := (fp11_reg_delta r)(reg := fp11_reg_delta r reg + ucast len),
          fp11_reg_delta_mask := fp11_reg_delta_mask r OR push_bit reg 1\<rparr>
      else r\<lparr>R := (R r)(reg := R r reg + len)\<rparr>)"

text \<open>Modes 3, 5, 6 and 7 agree in both routines; an abort gives address 0.\<close>

definition fp_ea_mode3 :: "'m bus \<Rightarrow> 'm trapf \<Rightarrow> nat \<Rightarrow> 'm regs \<Rightarrow> (u16 \<times> 'm regs) option" where
  "fp_ea_mode3 b t reg r =
     (let adr = R r reg; r = fp_reg_change 2 reg r
      in do { (adr, r) \<leftarrow> (if reg = 7 then ReadWI b t adr r else ReadW b t adr r);
              Some (if fAbort r then 0 else adr, r) })"

definition fp_ea_mode5 :: "'m bus \<Rightarrow> 'm trapf \<Rightarrow> nat \<Rightarrow> 'm regs \<Rightarrow> (u16 \<times> 'm regs) option" where
  "fp_ea_mode5 b t reg r =
     (let adr = R r reg - 2; r = fp_reg_change (-2) reg r
      in do { (adr, r) \<leftarrow> ReadW b t adr r; Some (if fAbort r then 0 else adr, r) })"

definition fp_ea_mode6 :: "'m bus \<Rightarrow> 'm trapf \<Rightarrow> nat \<Rightarrow> 'm regs \<Rightarrow> (u16 \<times> 'm regs) option" where
  "fp_ea_mode6 b t reg r =
     do { (adr, r) \<leftarrow> ReadWI b t (R r 7) r;
          if fAbort r then Some (0, r)
          else let r = r\<lparr>R := (R r)(7 := R r 7 + 2)\<rparr> in Some (R r reg + adr, r) }"

definition fp_ea_mode7 :: "'m bus \<Rightarrow> 'm trapf \<Rightarrow> nat \<Rightarrow> 'm regs \<Rightarrow> (u16 \<times> 'm regs) option" where
  "fp_ea_mode7 b t reg r =
     do { (adr, r) \<leftarrow> ReadWI b t (R r 7) r;
          if fAbort r then Some (0, r)
          else let r = r\<lparr>R := (R r)(7 := R r 7 + 2)\<rparr>
               in do { (adr, r) \<leftarrow> ReadW b t (R r reg + adr) r; Some (if fAbort r then 0 else adr, r) } }"

definition GeteaFW :: "'m bus \<Rightarrow> 'm trapf \<Rightarrow> nat \<Rightarrow> 'm regs \<Rightarrow> (u16 \<times> 'm regs) option" where
  "GeteaFW b t spec r =
     (let reg = spec mod 8; mode = spec div 8
      in if mode = 2 then (let adr = R r reg in Some (adr, fp_reg_change 2 reg r))
         else if mode = 3 then fp_ea_mode3 b t reg r
         else if mode = 4 then (let adr = R r reg - 2 in Some (adr, fp_reg_change (-2) reg r))
         else if mode = 5 then fp_ea_mode5 b t reg r
         else if mode = 6 then fp_ea_mode6 b t reg r
         else if mode = 7 then fp_ea_mode7 b t reg r
         else Some (R r reg, r))"

definition GeteaFP :: "'m bus \<Rightarrow> 'm trapf \<Rightarrow> nat \<Rightarrow> u16 \<Rightarrow> 'm regs \<Rightarrow> (u16 \<times> 'm regs) option" where
  "GeteaFP b t spec len r =
     (let reg = spec mod 8; mode = spec div 8
      in if mode = 0 then
           Some (0, if 6 \<le> reg then (snd (fpnotrap FEC_OP r))\<lparr>fAbort := True\<rparr> else r)
         else if mode = 1 then Some (R r reg, r)
         else if mode = 2 then
           (let adr = R r reg; len = (if reg = 7 then 2 else len) in Some (adr, fp_reg_change len reg r))
         else if mode = 3 then fp_ea_mode3 b t reg r
         else if mode = 4 then (let adr = R r reg - len in Some (adr, fp_reg_change (- len) reg r))
         else if mode = 5 then fp_ea_mode5 b t reg r
         else if mode = 6 then fp_ea_mode6 b t reg r
         else fp_ea_mode7 b t reg r)"

section \<open>Operands\<close>

abbreviation LONG :: u16 where "LONG \<equiv> 4"
abbreviation QUAD :: u16 where "QUAD \<equiv> 8"
abbreviation WORD :: u16 where "WORD \<equiv> 2"

definition ReadI :: "'m bus \<Rightarrow> 'm trapf \<Rightarrow> u16 \<Rightarrow> nat \<Rightarrow> u16 \<Rightarrow> 'm regs \<Rightarrow> (u32 \<times> 'm regs) option" where
  "ReadI b t VA spec len r =
     (if len = WORD \<or> spec = 0x17 then
        do { (v, r) \<leftarrow> ReadFW b t VA spec r; Some (push_bit 16 (ucast v), r) }
      else
        do { (hi, r) \<leftarrow> ReadW b t VA r;
             if fAbort r then Some (0, r)
             else do { (lo, r) \<leftarrow> ReadW b t (VA + 2) r; Some (push_bit 16 (ucast hi) OR ucast lo, r) } })"

text \<open>The two low words of a double operand.\<close>

definition read_low :: "'m bus \<Rightarrow> 'm trapf \<Rightarrow> u16 \<Rightarrow> u16 \<Rightarrow> 'm regs \<Rightarrow> (u32 option \<times> 'm regs) option" where
  "read_low b t VA len r =
     (if len \<noteq> QUAD then Some (Some 0, r)
      else
        do { (w2, r) \<leftarrow> ReadW b t (VA + 4) r;
             if fAbort r then Some (None, r) else
        do { (w3, r) \<leftarrow> ReadW b t (VA + 6) r;
             if fAbort r then Some (None, r)
             else Some (Some (push_bit 16 (ucast w2) OR ucast w3), r) }})"

text \<open>The undefined variable: minus zero, when its trap is enabled.\<close>

definition check_undefined :: "fpac_t \<Rightarrow> 'm regs \<Rightarrow> fpac_t option \<times> 'm regs" where
  "check_undefined f r =
     (if GET_SIGN (fp_h f) \<and> GET_EXP (fp_h f) = 0
      then (case fpnotrap FEC_UNDFV r of (notrap, r) \<Rightarrow> (if notrap then Some f else None, r))
      else (Some f, r))"

definition ReadFP :: "'m bus \<Rightarrow> 'm trapf \<Rightarrow> u16 \<Rightarrow> nat \<Rightarrow> u16 \<Rightarrow> 'm regs \<Rightarrow> (fpac_t option \<times> 'm regs) option" where
  "ReadFP b t VA spec len r =
     (if fAbort r then Some (None, r)
      else if spec \<le> 7 then Some (Some (F_LOAD (len = QUAD) (fpu_fr r spec)), r)
      else if spec = 0x17 then
        do { (w0, r) \<leftarrow> ReadWI b t VA r;
             Some (check_undefined \<lparr>fp_l = 0, fp_h = push_bit 16 (ucast w0)\<rparr> r) }
      else
        do { (w0, r) \<leftarrow> ReadW b t VA r;
             if fAbort r then Some (None, r) else
        do { (w1, r) \<leftarrow> ReadW b t (VA + 2) r;
             if fAbort r then Some (None, r) else
        do { (low, r) \<leftarrow> read_low b t VA len r;
             case low of
               None \<Rightarrow> Some (None, r)
             | Some l \<Rightarrow> Some (check_undefined \<lparr>fp_l = l, fp_h = push_bit 16 (ucast w0) OR ucast w1\<rparr> r) }}})"

text \<open>The words of a value from the most significant on.\<close>

definition word_hi :: "u32 \<Rightarrow> u16" where "word_hi x = ucast (drop_bit 16 x)"
definition word_lo :: "u32 \<Rightarrow> u16" where "word_lo x = ucast x"

definition WriteI :: "'m bus \<Rightarrow> 'm trapf \<Rightarrow> u32 \<Rightarrow> u16 \<Rightarrow> nat \<Rightarrow> u16 \<Rightarrow> 'm regs \<Rightarrow> 'm regs option" where
  "WriteI b t data VA spec len r =
     (if fAbort r then Some r
      else if len = WORD \<or> spec = 0x17 then WriteW b t (word_hi data) VA r
      else if VA AND 1 \<noteq> 0 then t BUS_ERROR r
      else do { r \<leftarrow> WriteW b t (word_hi data) VA r;
                if fAbort r then Some r else WriteW b t (word_lo data) (VA + 2) r })"

definition WriteFP :: "'m bus \<Rightarrow> 'm trapf \<Rightarrow> fpac_t \<Rightarrow> u16 \<Rightarrow> nat \<Rightarrow> u16 \<Rightarrow> 'm regs \<Rightarrow> 'm regs option" where
  "WriteFP b t f VA spec len r =
     (if fAbort r then Some r
      else if spec \<le> 7 then
        Some (r\<lparr>fpu_fr := (fpu_fr r)(spec := F_STORE (len = QUAD) f (fpu_fr r spec))\<rparr>)
      else if spec = 0x17 then WriteW b t (word_hi (fp_h f)) VA r
      else if VA AND 1 \<noteq> 0 then t BUS_ERROR r
      else
        do { r \<leftarrow> WriteW b t (word_hi (fp_h f)) VA r;
             if fAbort r then Some r else
        do { r \<leftarrow> WriteW b t (word_lo (fp_h f)) (VA + 2) r;
             if fAbort r \<or> len = LONG then Some r else
        do { r \<leftarrow> WriteW b t (word_hi (fp_l f)) (VA + 4) r;
             if fAbort r then Some r else WriteW b t (word_lo (fp_l f)) (VA + 6) r }}})"


section \<open>Rounding\<close>

definition roundfp11 :: "fpac_t \<Rightarrow> 'm regs \<Rightarrow> u32 \<times> fpac_t \<times> 'm regs" where
  "roundfp11 f r =
     (let outf = F_ADD fround_fac f
      in if GET_SIGN (fp_h outf XOR fp_h f) then
           (let outf = outf\<lparr>fp_h := fp_h outf XOR FP_SIGN\<rparr>
            in case fpnotrap FEC_OVFLO r of
                 (notrap, r) \<Rightarrow> (FPS_V, if notrap then zero_fac else outf, r))
         else (0, outf, r))"

text \<open>\<open>facp\<close> carries the sign of the result; the new overflow indicator, the packed result
  and the state come back.\<close>

definition round_and_pack :: "fpac_t \<Rightarrow> int \<Rightarrow> fpac_t \<Rightarrow> bool \<Rightarrow> 'm regs \<Rightarrow> u32 \<times> fpac_t \<times> 'm regs" where
  "round_and_pack facp e fracp rv r =
     (let (frac, e) =
        (if rv \<and> fpu_fps r AND FPS_T = 0 then
           (let frac = F_ADD (if fpu_fps r AND FPS_D \<noteq> 0 then dround_guard_fac else fround_guard_fac) fracp
            in if GET_BIT (fp_h frac) (FP_NORM_BIT + 1) then (F_RSH_1 frac, e + 1) else (frac, e))
         else (fracp, e));
          frac = F_RSH_GUARD frac;
          facp = \<lparr>fp_l = fp_l frac,
                  fp_h = (fp_h facp AND FP_SIGN) OR push_bit 23 (of_int e AND 0xFF) OR
                         (fp_h frac AND FP_FRACH)\<rparr>
      in if 0xFF < e then
           (case fpnotrap FEC_OVFLO r of
              (notrap, r) \<Rightarrow> (FPS_V, if notrap then zero_fac else facp, r))
         else if e \<le> 0 then
           (case fpnotrap FEC_UNFLO r of
              (notrap, r) \<Rightarrow> (0, if notrap then zero_fac else facp, r))
         else (0, facp, r))"

section \<open>Arithmetic\<close>

text \<open>The sum of two fractions of the same sign, and of different signs.\<close>

definition add_fracs :: "fpac_t \<Rightarrow> fpac_t \<Rightarrow> int \<Rightarrow> fpac_t \<times> int" where
  "add_fracs facfrac fsrcfrac facexp =
     (let facfrac = F_ADD fsrcfrac facfrac
      in if GET_BIT (fp_h facfrac) (FP_NORM_BIT + 1) then (F_RSH_1 facfrac, facexp + 1)
         else (facfrac, facexp))"

definition norm_diff :: "fpac_t \<Rightarrow> int \<Rightarrow> int \<Rightarrow> fpac_t \<times> int" where
  "norm_diff facfrac facexp ediff =
     norm_loop 64 (if ediff \<le> 1 then coarse_norm (facfrac, facexp) else (facfrac, facexp))"

definition addfp11 :: "fpac_t \<Rightarrow> fpac_t \<Rightarrow> 'm regs \<Rightarrow> u32 \<times> fpac_t \<times> 'm regs" where
  "addfp11 fac fsrc r =
     (let (fac, fsrc) = (if F_LT_AP fac fsrc then (fsrc, fac) else (fac, fsrc));
          facexp = GET_EXP (fp_h fac);
          fsrcexp = GET_EXP (fp_h fsrc);
          ediff = facexp - fsrcexp
      in if facexp = 0 then (0, if fsrcexp \<noteq> 0 then fsrc else zero_fac, r)
         else if fsrcexp = 0 then (0, fac, r)
         else if 60 \<le> ediff then (0, fac, r)
         else
           let facfrac = F_LSH_GUARD (F_GET_FRAC fac);
               fsrcfrac = F_LSH_GUARD (F_GET_FRAC fsrc);
               fsrcfrac = (if ediff \<noteq> 0 then F_RSH_V fsrcfrac (nat ediff) else fsrcfrac)
           in if GET_SIGN (fp_h fac) \<noteq> GET_SIGN (fp_h fsrc) then
                (let facfrac = F_SUB fsrcfrac facfrac
                 in if F_is_zero facfrac then (0, zero_fac, r)
                    else case norm_diff facfrac facexp ediff of
                           (facfrac, facexp) \<Rightarrow> round_and_pack fac facexp facfrac True r)
              else case add_fracs facfrac fsrcfrac facexp of
                     (facfrac, facexp) \<Rightarrow> round_and_pack fac facexp facfrac True r)"

text \<open>The product of the fractions, normalised by at most one place.\<close>

definition mul_norm :: "fpac_t \<Rightarrow> fpac_t \<Rightarrow> fpac_t \<times> int" where
  "mul_norm fac fsrc =
     (let facexp = GET_EXP (fp_h fac) + GET_EXP (fp_h fsrc) - FP_BIAS;
          facfrac = frac_mulfp11 (F_GET_FRAC fac) (F_GET_FRAC fsrc)
      in if \<not> GET_BIT (fp_h facfrac) FP_NORM_BIT then (F_LSH_1 facfrac, facexp - 1) else (facfrac, facexp))"

definition mulfp11 :: "fpac_t \<Rightarrow> fpac_t \<Rightarrow> 'm regs \<Rightarrow> u32 \<times> fpac_t \<times> 'm regs" where
  "mulfp11 fac fsrc r =
     (if GET_EXP (fp_h fac) = 0 \<or> GET_EXP (fp_h fsrc) = 0 then (0, zero_fac, r)
      else case mul_norm fac fsrc of
             (facfrac, facexp) \<Rightarrow>
               round_and_pack (fac\<lparr>fp_h := fp_h fac XOR fp_h fsrc\<rparr>) facexp facfrac True r)"

text \<open>The fraction part of MODf, packed (the state may take an underflow).\<close>

definition mod_fraction :: "fpac_t \<Rightarrow> fpac_t \<Rightarrow> nat \<Rightarrow> 'm regs \<Rightarrow> fpac_t \<times> 'm regs" where
  "mod_fraction frac0 fsrcfrac n r =
     (if F_is_zero fsrcfrac then (zero_fac, r)
      else case norm_loop 64 (coarse_norm (F_LSH_V fsrcfrac n, FP_BIAS)) of
             (f, e) \<Rightarrow> (case round_and_pack frac0 e f True r of (v, frac, r) \<Rightarrow> (frac, r)))"

text \<open>The overflow indicator, the integer part, the fraction, and the state.\<close>

definition modfp11 :: "fpac_t \<Rightarrow> fpac_t \<Rightarrow> 'm regs \<Rightarrow> u32 \<times> fpac_t \<times> fpac_t \<times> 'm regs" where
  "modfp11 fac fsrc r =
     (if GET_EXP (fp_h fac) = 0 \<or> GET_EXP (fp_h fsrc) = 0 then (0, zero_fac, zero_fac, r)
      else case mul_norm fac fsrc of
        (facfrac, facexp) \<Rightarrow>
          let fac = fac\<lparr>fp_h := fp_h fac XOR fp_h fsrc\<rparr>;
              frac0 = \<lparr>fp_l = 0, fp_h = fp_h fac\<rparr>
          in if facexp \<le> FP_BIAS then
               (case round_and_pack frac0 facexp facfrac True r of (v, frac, r) \<Rightarrow> (v, zero_fac, frac, r))
             else if (if fpu_fps r AND FPS_D \<noteq> 0 then FP_BIAS + 56 else FP_BIAS + 24) < facexp then
               (case round_and_pack fac facexp facfrac False r of (v, fac, r) \<Rightarrow> (v, fac, zero_fac, r))
             else
               let n = nat (facexp - FP_BIAS);
                   fmask = F_RSH_V fmask_fac n;
                   fsrcfrac = \<lparr>fp_l = fp_l facfrac AND fp_l fmask, fp_h = fp_h facfrac AND fp_h fmask\<rparr>
               in case mod_fraction frac0 fsrcfrac n r of
                    (frac, r) \<Rightarrow>
                      (let facfrac = \<lparr>fp_l = fp_l facfrac AND NOT (fp_l fmask),
                                      fp_h = fp_h facfrac AND NOT (fp_h fmask)\<rparr>
                       in case round_and_pack fac facexp facfrac False r of
                            (v, fac, r) \<Rightarrow> (v, fac, frac, r)))"

definition divfp11 :: "fpac_t \<Rightarrow> fpac_t \<Rightarrow> 'm regs \<Rightarrow> u32 \<times> fpac_t \<times> 'm regs" where
  "divfp11 fac fsrc r =
     (if GET_EXP (fp_h fac) = 0 then (0, zero_fac, r)
      else
        let facfrac = F_LSH_GUARD (F_GET_FRAC fac);
            fsrcfrac = F_LSH_GUARD (F_GET_FRAC fsrc);
            facexp = GET_EXP (fp_h fac) - GET_EXP (fp_h fsrc) + FP_BIAS + 1;
            fac = fac\<lparr>fp_h := fp_h fac XOR fp_h fsrc\<rparr>;
            quo = frac_divfp11 (fpu_fps r AND FPS_D \<noteq> 0) facfrac fsrcfrac;
            (quo, facexp) = (if \<not> GET_BIT (fp_h quo) FP_NORM_BIT then (F_LSH_1 quo, facexp - 1)
                             else (quo, facexp))
        in round_and_pack fac facexp quo True r)"


section \<open>Instructions\<close>

text \<open>One definition per case of the dispatcher, with its local variables as arguments.\<close>

definition set_fps :: "u32 \<Rightarrow> 'm regs \<Rightarrow> 'm regs" where
  "set_fps v r = r\<lparr>fpu_fps := v\<rparr>"

definition set_fr :: "nat \<Rightarrow> fpac_t \<Rightarrow> 'm regs \<Rightarrow> 'm regs" where
  "set_fr ac f r = r\<lparr>fpu_fr := (fpu_fr r)(ac := f)\<rparr>"

definition qdouble :: "'m regs \<Rightarrow> bool" where
  "qdouble r = (fpu_fps r AND FPS_D \<noteq> 0)"

definition lenf_of :: "bool \<Rightarrow> u16" where
  "lenf_of qd = (if qd then QUAD else LONG)"

definition fp_special :: "u16 \<Rightarrow> 'm regs \<Rightarrow> 'm regs" where
  "fp_special IR r =
     (if IR = 0xF000 then
        set_flag_if (fpu_fps r AND FPS_C \<noteq> 0) FLAG_C (set_flag_if (fpu_fps r AND FPS_V \<noteq> 0) FLAG_V
          (set_flag_if (fpu_fps r AND FPS_Z \<noteq> 0) FLAG_Z (set_flag_if (fpu_fps r AND FPS_N \<noteq> 0) FLAG_N r)))
      else if IR = 0xF001 then set_fps (fpu_fps r AND NOT FPS_D) r
      else if IR = 0xF002 then set_fps (fpu_fps r AND NOT FPS_L) r
      else if IR = 0xF009 then set_fps (fpu_fps r OR FPS_D) r
      else if IR = 0xF00A then set_fps (fpu_fps r OR FPS_L) r
      else snd (fpnotrap FEC_OP r))"

text \<open>The integer source of LDFPS and LDEXP.\<close>

definition fp_int_source :: "'m bus \<Rightarrow> 'm trapf \<Rightarrow> nat \<Rightarrow> 'm regs \<Rightarrow> (u16 \<times> 'm regs) option" where
  "fp_int_source b t dstspec r =
     (if dstspec \<le> 7 then Some (R r dstspec, r)
      else do { (ea, r) \<leftarrow> GeteaFW b t dstspec r; ReadFW b t ea dstspec r })"

definition fp_LDFPS :: "'m bus \<Rightarrow> 'm trapf \<Rightarrow> nat \<Rightarrow> 'm regs \<Rightarrow> 'm regs option" where
  "fp_LDFPS b t dstspec r =
     do { (dst, r) \<leftarrow> fp_int_source b t dstspec r;
          Some (if fAbort r then r else set_fps (ucast dst AND FPS_RW) r) }"

definition fp_STFPS :: "'m bus \<Rightarrow> 'm trapf \<Rightarrow> nat \<Rightarrow> 'm regs \<Rightarrow> 'm regs option" where
  "fp_STFPS b t dstspec r =
     (let r = set_fps (fpu_fps r AND FPS_RW) r
      in if dstspec \<le> 7 then Some (r\<lparr>R := (R r)(dstspec := ucast (fpu_fps r))\<rparr>)
         else do { (ea, r) \<leftarrow> GeteaFW b t dstspec r;
                   if fAbort r then Some r else WriteW b t (ucast (fpu_fps r)) ea r })"

definition fp_STST :: "'m bus \<Rightarrow> 'm trapf \<Rightarrow> nat \<Rightarrow> 'm regs \<Rightarrow> 'm regs option" where
  "fp_STST b t dstspec r =
     (if dstspec \<le> 7 then Some (r\<lparr>R := (R r)(dstspec := ucast (fpu_fec r))\<rparr>)
      else do { (ea, r) \<leftarrow> GeteaFP b t dstspec LONG r;
                if fAbort r then Some r
                else WriteI b t (push_bit 16 (fpu_fec r) OR fpu_fea r) ea dstspec LONG r })"

definition fp_CLRF :: "'m bus \<Rightarrow> 'm trapf \<Rightarrow> nat \<Rightarrow> u16 \<Rightarrow> 'm regs \<Rightarrow> 'm regs option" where
  "fp_CLRF b t dstspec lenf r =
     do { (ea, r) \<leftarrow> GeteaFP b t dstspec lenf r;
          r \<leftarrow> WriteFP b t zero_fac ea dstspec lenf r;
          Some (set_fps ((fpu_fps r AND NOT FPS_CC) OR FPS_Z) r) }"

text \<open>Instructions that read a floating operand: nothing more happens when the read fails.\<close>

definition with_fsrc :: "'m bus \<Rightarrow> 'm trapf \<Rightarrow> nat \<Rightarrow> u16 \<Rightarrow> 'm regs \<Rightarrow>
    (u16 \<Rightarrow> fpac_t \<Rightarrow> 'm regs \<Rightarrow> 'm regs option) \<Rightarrow> 'm regs option" where
  "with_fsrc b t dstspec len r k =
     do { (ea, r) \<leftarrow> GeteaFP b t dstspec len r;
          (f, r) \<leftarrow> ReadFP b t ea dstspec len r;
          case f of None \<Rightarrow> Some r | Some fsrc \<Rightarrow> k ea fsrc r }"

definition fp_TSTF :: "'m bus \<Rightarrow> 'm trapf \<Rightarrow> nat \<Rightarrow> u16 \<Rightarrow> 'm regs \<Rightarrow> 'm regs option" where
  "fp_TSTF b t dstspec lenf r =
     with_fsrc b t dstspec lenf r (\<lambda>ea fsrc r. Some (set_fps (setfcc (fpu_fps r) (fp_h fsrc) 0) r))"

definition fp_ABSNEG :: "'m bus \<Rightarrow> 'm trapf \<Rightarrow> (u32 \<Rightarrow> u32) \<Rightarrow> nat \<Rightarrow> u16 \<Rightarrow> 'm regs \<Rightarrow> 'm regs option" where
  "fp_ABSNEG b t f dstspec lenf r =
     with_fsrc b t dstspec lenf r (\<lambda>ea fsrc r.
       let fsrc = (if GET_EXP (fp_h fsrc) = 0 then zero_fac else fsrc\<lparr>fp_h := f (fp_h fsrc)\<rparr>)
       in do { r \<leftarrow> WriteFP b t fsrc ea dstspec lenf r;
               Some (set_fps (setfcc (fpu_fps r) (fp_h fsrc) 0) r) })"

definition fp_ABSF :: "'m bus \<Rightarrow> 'm trapf \<Rightarrow> nat \<Rightarrow> u16 \<Rightarrow> 'm regs \<Rightarrow> 'm regs option" where
  "fp_ABSF b t = fp_ABSNEG b t (\<lambda>h. h AND NOT FP_SIGN)"

definition fp_NEGF :: "'m bus \<Rightarrow> 'm trapf \<Rightarrow> nat \<Rightarrow> u16 \<Rightarrow> 'm regs \<Rightarrow> 'm regs option" where
  "fp_NEGF b t = fp_ABSNEG b t (\<lambda>h. h XOR FP_SIGN)"

definition fp_LDF :: "'m bus \<Rightarrow> 'm trapf \<Rightarrow> nat \<Rightarrow> nat \<Rightarrow> bool \<Rightarrow> 'm regs \<Rightarrow> 'm regs option" where
  "fp_LDF b t ac dstspec qd r =
     with_fsrc b t dstspec (lenf_of qd) r (\<lambda>ea fsrc r.
       let r = set_fr ac (F_STORE qd fsrc (fpu_fr r ac)) r
       in Some (set_fps (setfcc (fpu_fps r) (fp_h fsrc) 0) r))"

definition fp_STF :: "'m bus \<Rightarrow> 'm trapf \<Rightarrow> nat \<Rightarrow> nat \<Rightarrow> bool \<Rightarrow> 'm regs \<Rightarrow> 'm regs option" where
  "fp_STF b t ac dstspec qd r =
     (let fac = F_LOAD qd (fpu_fr r ac)
      in do { (ea, r) \<leftarrow> GeteaFP b t dstspec (lenf_of qd) r;
              WriteFP b t fac ea dstspec (lenf_of qd) r })"

definition fp_LDCFF :: "'m bus \<Rightarrow> 'm trapf \<Rightarrow> nat \<Rightarrow> nat \<Rightarrow> bool \<Rightarrow> 'm regs \<Rightarrow> 'm regs option" where
  "fp_LDCFF b t ac dstspec qd r =
     with_fsrc b t dstspec (12 - lenf_of qd) r (\<lambda>ea fsrc r.
       let fsrc = (if GET_EXP (fp_h fsrc) = 0 then zero_fac else fsrc);
           (newV, fsrc, r) = (if fpu_fps r AND (FPS_D OR FPS_T) = 0 then roundfp11 fsrc r else (0, fsrc, r));
           r = set_fr ac (F_STORE qd fsrc (fpu_fr r ac)) r
       in Some (set_fps (setfcc (fpu_fps r) (fp_h fsrc) newV) r))"

definition fp_STCFF :: "'m bus \<Rightarrow> 'm trapf \<Rightarrow> nat \<Rightarrow> nat \<Rightarrow> bool \<Rightarrow> 'm regs \<Rightarrow> 'm regs option" where
  "fp_STCFF b t ac dstspec qd r =
     (let fac = F_LOAD qd (fpu_fr r ac);
          fac = (if GET_EXP (fp_h fac) = 0 then zero_fac else fac);
          (newV, fac, r) = (if fpu_fps r AND (FPS_D OR FPS_T) = FPS_D then roundfp11 fac r else (0, fac, r));
          len = 12 - lenf_of qd
      in do { (ea, r) \<leftarrow> GeteaFP b t dstspec len r;
              r \<leftarrow> WriteFP b t fac ea dstspec len r;
              Some (set_fps (setfcc (fpu_fps r) (fp_h fac) newV) r) })"

text \<open>The condition codes of a comparison of operands that are not equal.\<close>

definition cmpf_codes :: "fpac_t \<Rightarrow> fpac_t \<Rightarrow> u32 \<Rightarrow> u32" where
  "cmpf_codes fsrc fac fps =
     (let fps = (fps AND NOT FPS_CC) OR (drop_bit 28 (fp_h fsrc) AND FPS_N)
      in if \<not> GET_SIGN (fp_h fsrc XOR fp_h fac) \<and> fp_h fac \<noteq> 0 \<and> F_LT fsrc fac then fps XOR FPS_N else fps)"

definition fp_CMPF :: "'m bus \<Rightarrow> 'm trapf \<Rightarrow> nat \<Rightarrow> nat \<Rightarrow> bool \<Rightarrow> 'm regs \<Rightarrow> 'm regs option" where
  "fp_CMPF b t ac dstspec qd r =
     with_fsrc b t dstspec (lenf_of qd) r (\<lambda>ea fsrc r.
       let fac = F_LOAD qd (fpu_fr r ac);
           fsrc = (if GET_EXP (fp_h fsrc) = 0 then zero_fac else fsrc);
           fac = (if GET_EXP (fp_h fac) = 0 then zero_fac else fac)
       in if fp_h fsrc = fp_h fac \<and> fp_l fsrc = fp_l fac then
            (let r = set_fps ((fpu_fps r AND NOT FPS_CC) OR FPS_Z) r
             in Some (if F_is_zero fsrc then set_fr ac (F_STORE qd zero_fac (fpu_fr r ac)) r else r))
          else Some (set_fps (cmpf_codes fsrc fac (fpu_fps r)) r))"

text \<open>The exponent check of LDEXP: the overflow indicator, the operand and the state.\<close>

definition ldexp_check :: "u16 \<Rightarrow> fpac_t \<Rightarrow> 'm regs \<Rightarrow> u32 \<times> fpac_t \<times> 'm regs" where
  "ldexp_check dst fac r =
     (if 0x7F < dst \<and> dst \<le> 0xFF80 then
        if dst < 0x8000
        then (case fpnotrap FEC_OVFLO r of (notrap, r) \<Rightarrow> (FPS_V, if notrap then zero_fac else fac, r))
        else (case fpnotrap FEC_UNFLO r of (notrap, r) \<Rightarrow> (0, if notrap then zero_fac else fac, r))
      else (0, fac, r))"

definition fp_LDEXP :: "'m bus \<Rightarrow> 'm trapf \<Rightarrow> nat \<Rightarrow> nat \<Rightarrow> bool \<Rightarrow> 'm regs \<Rightarrow> 'm regs option" where
  "fp_LDEXP b t ac dstspec qd r =
     do { (dst, r) \<leftarrow> fp_int_source b t dstspec r;
          if fAbort r then Some r
          else
            let fac = F_LOAD qd (fpu_fr r ac);
                fac = fac\<lparr>fp_h := (fp_h fac AND NOT FP_EXP) OR push_bit 23 ((ucast dst + 0x80) AND 0xFF)\<rparr>;
                (newV, fac, r) = ldexp_check dst fac r;
                r = set_fr ac (F_STORE qd fac (fpu_fr r ac)) r
            in Some (set_fps (setfcc (fpu_fps r) (fp_h fac) newV) r) }"

text \<open>The flags of the PSW as the low bits of FPS.\<close>

definition psw_nz :: "'m regs \<Rightarrow> u32" where
  "psw_nz r = (if flag_is_set FLAG_N r then FPS_N else 0) OR (if flag_is_set FLAG_Z r then FPS_Z else 0)"

definition fp_STEXP :: "'m bus \<Rightarrow> 'm trapf \<Rightarrow> nat \<Rightarrow> nat \<Rightarrow> 'm regs \<Rightarrow> 'm regs option" where
  "fp_STEXP b t ac dstspec r =
     (let dst = (of_int (GET_EXP (fp_h (fpu_fr r ac)) - FP_BIAS) :: u16);
          r = set_flag_if (dst AND SIGN \<noteq> 0) FLAG_N r;
          r = set_flag_if (dst = 0) FLAG_Z r;
          r = clear_flag FLAG_V r;
          r = clear_flag FLAG_C r;
          r = set_fps ((fpu_fps r AND NOT FPS_CC) OR psw_nz r) r
      in if dstspec \<le> 7 then Some (r\<lparr>R := (R r)(dstspec := dst)\<rparr>)
         else do { (ea, r) \<leftarrow> GeteaFW b t dstspec r; WriteW b t dst ea r })"

text \<open>The conversion of an integer that is not 0, before rounding.\<close>

definition int_to_fac :: "bool \<Rightarrow> u32 \<Rightarrow> fpac_t" where
  "int_to_fac long l =
     (let sign = GET_BIT l 31;
          l = (if sign then (l XOR 0xFFFFFFFF) + 1 else l);
          (i, l) = int_norm_loop 32 0 l;
          e = (if long then FP_BIAS + 32 else FP_BIAS + 16) - int i
      in \<lparr>fp_l = push_bit 24 l,
          fp_h = (if sign then FP_SIGN else 0) OR push_bit 23 (of_int e) OR (drop_bit 8 l AND FP_FRACH)\<rparr>)"

definition fp_LDCIF :: "'m bus \<Rightarrow> 'm trapf \<Rightarrow> nat \<Rightarrow> nat \<Rightarrow> bool \<Rightarrow> 'm regs \<Rightarrow> 'm regs option" where
  "fp_LDCIF b t ac dstspec qd r =
     (let long = (fpu_fps r AND FPS_L \<noteq> 0);
          leni = (if long then LONG else WORD);
          finish = (\<lambda>l r.
            let (fac, r) =
                  (if l \<noteq> 0 then
                     let fac = int_to_fac long l
                     in if fpu_fps r AND (FPS_D OR FPS_T) = 0
                        then (case roundfp11 fac r of (v, fac, r) \<Rightarrow> (fac, r)) else (fac, r)
                   else (\<lparr>fp_l = l, fp_h = 0\<rparr>, r));
                r = set_fr ac (F_STORE qd fac (fpu_fr r ac)) r
            in Some (set_fps (setfcc (fpu_fps r) (fp_h fac) 0) r))
      in if dstspec \<le> 7 then finish (push_bit 16 (ucast (R r dstspec))) r
         else do { (ea, r) \<leftarrow> GeteaFP b t dstspec leni r;
                   (l, r) \<leftarrow> ReadI b t ea dstspec leni r;
                   if fAbort r then Some r else finish l r })"

text \<open>
  The integer part of a floating value as STCfi delivers it (in the high half for a word)
  and whether the conversion fails.
\<close>

definition stcfi_value :: "bool \<Rightarrow> bool \<Rightarrow> fpac_t \<Rightarrow> u32 \<times> bool" where
  "stcfi_value long qd ac =
     (let sign = GET_SIGN (fp_h ac);
          e = GET_EXP (fp_h ac);
          i = (if long then FP_BIAS + 32 else FP_BIAS + 16)
      in if e \<le> FP_BIAS then (0, False)
         else if i < e then (0, True)
         else
           let fsrc = F_RSH_V (F_LOAD_FRAC qd ac) (nat (24 + i - e));
               l = (if long then fp_l fsrc else fp_l fsrc AND NOT 0xFFFF);
               limit = (if sign then if long then 0x80000001 else 0x80010000 else 0x80000000)
           in if limit \<le> l then (0, True) else (if sign then - l else l, False))"

definition fp_STCFI :: "'m bus \<Rightarrow> 'm trapf \<Rightarrow> nat \<Rightarrow> nat \<Rightarrow> bool \<Rightarrow> 'm regs \<Rightarrow> 'm regs option" where
  "fp_STCFI b t ac dstspec qd r =
     (let long = (fpu_fps r AND FPS_L \<noteq> 0);
          leni = (if long then LONG else WORD);
          (dst, c_flag) = stcfi_value long qd (fpu_fr r ac);
          r = set_flag_if (GET_BIT dst 31) FLAG_N r;
          r = set_flag_if (dst = 0) FLAG_Z r;
          r = clear_flag FLAG_V r;
          r = (if c_flag then snd (fpnotrap FEC_ICVT r) else r);
          r = set_fps ((fpu_fps r AND NOT FPS_CC) OR psw_nz r OR (if flag_is_set FLAG_C r then FPS_C else 0)) r
      in if dstspec \<le> 7 then Some (r\<lparr>R := (R r)(dstspec := word_hi dst)\<rparr>)
         else do { (ea, r) \<leftarrow> GeteaFP b t dstspec leni r; WriteI b t dst ea dstspec leni r })"

text \<open>MULf, ADDf and SUBf: an operation on the accumulator and the source.\<close>

definition fp_arith :: "'m bus \<Rightarrow> 'm trapf \<Rightarrow> (fpac_t \<Rightarrow> fpac_t \<Rightarrow> 'm regs \<Rightarrow> u32 \<times> fpac_t \<times> 'm regs) \<Rightarrow>
    nat \<Rightarrow> nat \<Rightarrow> bool \<Rightarrow> 'm regs \<Rightarrow> 'm regs option" where
  "fp_arith b t f ac dstspec qd r =
     with_fsrc b t dstspec (lenf_of qd) r (\<lambda>ea fsrc r.
       case f (F_LOAD qd (fpu_fr r ac)) fsrc r of (newV, fac, r) \<Rightarrow>
         let r = set_fr ac (F_STORE qd fac (fpu_fr r ac)) r
         in Some (set_fps (setfcc (fpu_fps r) (fp_h fac) newV) r))"

definition subfp11 :: "fpac_t \<Rightarrow> fpac_t \<Rightarrow> 'm regs \<Rightarrow> u32 \<times> fpac_t \<times> 'm regs" where
  "subfp11 fac fsrc r =
     addfp11 fac (if GET_EXP (fp_h fsrc) \<noteq> 0 then fsrc\<lparr>fp_h := fp_h fsrc XOR FP_SIGN\<rparr> else fsrc) r"

definition fp_MODF :: "'m bus \<Rightarrow> 'm trapf \<Rightarrow> nat \<Rightarrow> nat \<Rightarrow> bool \<Rightarrow> 'm regs \<Rightarrow> 'm regs option" where
  "fp_MODF b t ac dstspec qd r =
     with_fsrc b t dstspec (lenf_of qd) r (\<lambda>ea fsrc r.
       case modfp11 (F_LOAD qd (fpu_fr r ac)) fsrc r of (newV, fac, modfrac, r) \<Rightarrow>
         let ac1 = (if ac mod 2 = 0 then ac + 1 else ac);
             r = set_fr ac1 (F_STORE qd fac (fpu_fr r ac1)) r;
             r = set_fr ac (F_STORE qd modfrac (fpu_fr r ac)) r
         in Some (set_fps (setfcc (fpu_fps r) (fp_h modfrac) newV) r))"

definition fp_DIVF :: "'m bus \<Rightarrow> 'm trapf \<Rightarrow> nat \<Rightarrow> nat \<Rightarrow> bool \<Rightarrow> 'm regs \<Rightarrow> 'm regs option" where
  "fp_DIVF b t ac dstspec qd r =
     with_fsrc b t dstspec (lenf_of qd) r (\<lambda>ea fsrc r.
       if GET_EXP (fp_h fsrc) = 0 then Some (snd (fpnotrap FEC_DZRO r))
       else case divfp11 (F_LOAD qd (fpu_fr r ac)) fsrc r of (newV, fac, r) \<Rightarrow>
         let r = set_fr ac (F_STORE qd fac (fpu_fr r ac)) r
         in Some (set_fps (setfcc (fpu_fps r) (fp_h fac) newV) r))"

section \<open>The dispatcher\<close>

definition fp11_op :: "'m bus \<Rightarrow> 'm trapf \<Rightarrow> u16 \<Rightarrow> 'm regs \<Rightarrow> 'm regs option" where
  "fp11_op b t IR r =
     (let ac = unat (drop_bit 6 IR AND 3);
          dstspec = unat (IR AND 0x3F);
          qd = qdouble r;
          op = unat (drop_bit 8 IR AND 0xF)
      in if op = 0 then
           (if ac = 0 then Some (fp_special IR r)
            else if ac = 1 then fp_LDFPS b t dstspec r
            else if ac = 2 then fp_STFPS b t dstspec r
            else fp_STST b t dstspec r)
         else if op = 1 then
           (if ac = 0 then fp_CLRF b t dstspec (lenf_of qd) r
            else if ac = 1 then fp_TSTF b t dstspec (lenf_of qd) r
            else if ac = 2 then fp_ABSF b t dstspec (lenf_of qd) r
            else fp_NEGF b t dstspec (lenf_of qd) r)
         else if op = 5 then fp_LDF b t ac dstspec qd r
         else if op = 8 then fp_STF b t ac dstspec qd r
         else if op = 0xF then fp_LDCFF b t ac dstspec qd r
         else if op = 0xC then fp_STCFF b t ac dstspec qd r
         else if op = 7 then fp_CMPF b t ac dstspec qd r
         else if op = 0xD then fp_LDEXP b t ac dstspec qd r
         else if op = 0xA then fp_STEXP b t ac dstspec r
         else if op = 0xE then fp_LDCIF b t ac dstspec qd r
         else if op = 0xB then fp_STCFI b t ac dstspec qd r
         else if op = 2 then fp_arith b t mulfp11 ac dstspec qd r
         else if op = 3 then fp_MODF b t ac dstspec qd r
         else if op = 4 then fp_arith b t addfp11 ac dstspec qd r
         else if op = 6 then fp_arith b t subfp11 ac dstspec qd r
         else fp_DIVF b t ac dstspec qd r)"

definition fp11_start :: "'m regs \<Rightarrow> 'm regs" where
  "fp11_start r =
     r\<lparr>fp11_backup_pc := R r 7, fp11_reg_delta_mask := 0,
       fp11_reg_delta := (\<lambda>i. if i < 8 then 0 else fp11_reg_delta r i),
       fp11_trap_pending := False, fp11_trap_old_pc := R r 7, fp11_trap_old_psw := psw r\<rparr>"

text \<open>The loop over the eight registers that commits the recorded changes.\<close>

fun commit_deltas :: "nat list \<Rightarrow> 'm regs \<Rightarrow> 'm regs" where
  "commit_deltas [] r = r"
| "commit_deltas (i # is) r =
     commit_deltas is
       (if bit (fp11_reg_delta_mask r) i
        then r\<lparr>R := (R r)(i := R r i + scast (fp11_reg_delta r i))\<rparr> else r)"

definition fp11_finish :: "'m bus \<Rightarrow> 'm trapf \<Rightarrow> 'm regs \<Rightarrow> 'm regs option" where
  "fp11_finish b t r =
     (let r = (if \<not> fAbort r \<and> fp11_reg_delta_mask r \<noteq> 0 then commit_deltas [0..<8] r else r);
          r = r\<lparr>fp11_reg_delta_mask := 0,
                fp11_reg_delta := (\<lambda>i. if i < 8 then 0 else fp11_reg_delta r i)\<rparr>
      in if fp11_trap_pending r \<and> \<not> fAbort r then
           do { r \<leftarrow> core_take_vector b t 0xA4 (fp11_trap_old_pc r) (fp11_trap_old_psw r) r;
                Some (r\<lparr>fp11_trap_pending := False\<rparr>) }
         else Some r)"

definition fp11 :: "'m bus \<Rightarrow> 'm trapf \<Rightarrow> u16 \<Rightarrow> 'm regs \<Rightarrow> 'm regs option" where
  "fp11 b t IR r = do { r \<leftarrow> fp11_op b t IR (fp11_start r); fp11_finish b t r }"

end
