(* ===== verification/ExecDouble.thy ===== *)
theory ExecDouble
  imports Fis Fp11
begin

text \<open>
  The instructions with a register and an operand (JSR, MUL, DIV, ASH, ASHC, XOR) and
  those with two operands. The results and condition codes are functions of the operand
  values (\<open>alu_*\<close>), as in the single-operand instructions.
\<close>

section \<open>Register and operand\<close>

definition exec_JSR :: "'m bus \<Rightarrow> 'm trapf \<Rightarrow> u16 \<Rightarrow> 'm regs \<Rightarrow> 'm flow option" where
  "exec_JSR b t op r =
     (let reg = src_reg_no op
      in DECODE_DST b t op r (\<lambda>dst_type dst_offset r.
         if dst_type = TYPE_REG
         then trap_end (if model r = DCJ11 then illegal_trap b t r else trap_vector4 b t r)
         else
           let r = r\<lparr>R := (R r)(6 := R r 6 - 2)\<rparr>;
               r = mmu_mmr1_record_delta b 6 (-2) r;
               r = dcj11_note_stack_reference (R r 6) r
           in do { r \<leftarrow> core_store_word b t (R r 6) (R r reg) r;
                   unless_abort_end r (
                     let r = r\<lparr>R := (R r)(reg := R r 7)\<rparr>
                     in step_end (r\<lparr>R := (R r)(7 := dst_offset)\<rparr>)) }))"

text \<open>The two halves of a 32-bit value in a register pair; the low half is written last.\<close>

definition put_pair :: "nat \<Rightarrow> u32 \<Rightarrow> 'm regs \<Rightarrow> 'm regs" where
  "put_pair reg v r =
     (let r = r\<lparr>R := (R r)(reg := ucast (drop_bit 16 v))\<rparr>
      in r\<lparr>R := (R r)((if reg mod 2 = 0 then reg + 1 else reg) := ucast v)\<rparr>)"

definition get_pair :: "nat \<Rightarrow> 'm regs \<Rightarrow> u32" where
  "get_pair reg r =
     push_bit 16 (ucast (R r reg)) OR ucast (R r (if reg mod 2 = 0 then reg + 1 else reg))"

definition mul_finish :: "nat \<Rightarrow> u16 \<Rightarrow> u16 \<Rightarrow> 'm regs \<Rightarrow> 'm regs" where
  "mul_finish reg src src2 r =
     (let prod = (scast src * scast src2 :: u32);
          r = put_pair reg prod r;
          r = set_flag_if (prod = 0) FLAG_Z r;
          r = set_flag_if (sint prod < 0) FLAG_N r;
          r = set_flag_if (0x7FFF < sint prod \<or> sint prod < - 0x8000) FLAG_C r
      in clear_flag FLAG_V r)"

definition exec_MUL :: "'m bus \<Rightarrow> 'm trapf \<Rightarrow> u16 \<Rightarrow> 'm regs \<Rightarrow> 'm flow option" where
  "exec_MUL b t op r =
     (if model r = K1801VM1 then trap_end (illegal_trap b t r)
      else
        let reg = src_reg_no op; src = R r reg
        in DECODE_DST b t op r (\<lambda>dst_type dst_offset r.
           do { (src2, r) \<leftarrow> get_data_word b t dst_type dst_offset r;
                if model r = DCJ11
                then unless_abort r (step_end (mul_finish reg (R r reg) src2 r))
                else step_end (mul_finish reg src src2 r) }))"

text \<open>The quotient of C truncates towards 0.\<close>

definition div_finish :: "nat \<Rightarrow> u32 \<Rightarrow> u16 \<Rightarrow> 'm regs \<Rightarrow> 'm regs" where
  "div_finish reg dividend divisor r =
     (if divisor = 0 then
        (let r = set_flag_if (model r \<noteq> DCJ11 \<and> sint (R r reg) < 0) FLAG_N r;
             r = set_flag_if (model r = DCJ11 \<or> R r reg = 0) FLAG_Z r
         in set_flag FLAG_C (set_flag FLAG_V r))
      else if dividend = 0x80000000 \<and> sint divisor = -1 then
        clear_flag FLAG_C (set_flag FLAG_V (clear_flag FLAG_Z (clear_flag FLAG_N r)))
      else
        let q64 = sint dividend sdiv sint divisor
        in if 0x7FFF < q64 \<or> q64 < - 0x8000 then
             clear_flag FLAG_C (set_flag FLAG_V (clear_flag FLAG_Z
               (set_flag_if (model r = DCJ11 \<and> q64 < 0) FLAG_N r)))
           else
             let remainder = sint dividend - sint divisor * q64;
                 r = r\<lparr>R := (R r)(reg := of_int q64)\<rparr>;
                 r = (if model r = DCJ11 \<or> reg mod 2 = 0
                      then r\<lparr>R := (R r)((if reg mod 2 = 0 then reg + 1 else reg) := of_int remainder)\<rparr>
                      else r);
                 r = set_flag_if (q64 < 0) FLAG_N r;
                 r = set_flag_if (q64 = 0) FLAG_Z r
             in clear_flag FLAG_C (clear_flag FLAG_V r))"

definition exec_DIV :: "'m bus \<Rightarrow> 'm trapf \<Rightarrow> u16 \<Rightarrow> 'm regs \<Rightarrow> 'm flow option" where
  "exec_DIV b t op r =
     (if model r = K1801VM1 then trap_end (illegal_trap b t r)
      else
        let reg = src_reg_no op; dividend = get_pair reg r
        in DECODE_DST b t op r (\<lambda>dst_type dst_offset r.
           do { (divisor, r) \<leftarrow> get_data_word b t dst_type dst_offset r;
                if model r = DCJ11
                then unless_abort r (step_end (div_finish reg (get_pair reg r) divisor r))
                else step_end (div_finish reg dividend divisor r) }))"

text \<open>The 32-bit result of ASH with V and C; \<open>src\<close> is sign extended.\<close>

definition ash_shift :: "u16 \<Rightarrow> nat \<Rightarrow> u32 \<times> bool \<times> bool" where
  "ash_shift src16 count =
     (let sign = (src16 AND SIGN \<noteq> 0); src = (scast src16 :: u32)
      in if count = 0 then (src, False, False)
         else if count \<le> 15 then
           (let dst = push_bit count src; spill = drop_bit (16 - count) src AND 0xFFFF
            in (dst, spill \<noteq> (if dst AND 0x8000 \<noteq> 0 then 0xFFFF else 0), spill AND 1 \<noteq> 0))
         else if count \<le> 31 then (0, src \<noteq> 0, push_bit (count - 16) src AND 1 \<noteq> 0)
         else if count = 32 then (if sign then 0xFFFFFFFF else 0, False, sign)
         else (arith_rshift32 src (of_nat (64 - count)), False, drop_bit (63 - count) src AND 1 \<noteq> 0))"

definition exec_ASH :: "'m bus \<Rightarrow> 'm trapf \<Rightarrow> u16 \<Rightarrow> 'm regs \<Rightarrow> 'm flow option" where
  "exec_ASH b t op r =
     (if model r = K1801VM1 then trap_end (illegal_trap b t r)
      else
        let reg = src_reg_no op; src16 = R r reg
        in DECODE_DST b t op r (\<lambda>dst_type dst_offset r.
           GET_WORD b t dst_type dst_offset r (\<lambda>shift r.
           case ash_shift (if model r = DCJ11 then R r reg else src16) (unat (shift AND 0x3F)) of
             (dst, v, c) \<Rightarrow>
               let r = set_flag_if v FLAG_V r;
                   r = set_flag_if c FLAG_C r;
                   r = r\<lparr>R := (R r)(reg := ucast dst)\<rparr>;
                   r = set_flag_if (R r reg AND SIGN \<noteq> 0) FLAG_N r
               in step_end (set_flag_if (R r reg = 0) FLAG_Z r))))"

definition ashc_shift :: "bool \<Rightarrow> u32 \<Rightarrow> nat \<Rightarrow> u32 \<times> bool \<times> bool" where
  "ashc_shift sign src count =
     (if count = 0 then (src, False, False)
      else if count \<le> 31 then
        (let dst = push_bit count src;
             spill = drop_bit (32 - count) src OR (if sign then push_bit count (NOT 0) else 0)
         in (dst, spill \<noteq> (if dst AND 0x80000000 \<noteq> 0 then 0xFFFFFFFF else 0), spill AND 1 \<noteq> 0))
      else if count = 32 then (if sign then 0xFFFFFFFF else 0, False, sign)
      else (arith_rshift32 src (of_nat (64 - count)), False, drop_bit (63 - count) src AND 1 \<noteq> 0))"

definition exec_ASHC :: "'m bus \<Rightarrow> 'm trapf \<Rightarrow> u16 \<Rightarrow> 'm regs \<Rightarrow> 'm flow option" where
  "exec_ASHC b t op r =
     (if model r = K1801VM1 then trap_end (illegal_trap b t r)
      else
        let reg = src_reg_no op; src0 = get_pair reg r
        in DECODE_DST b t op r (\<lambda>dst_type dst_offset r.
           GET_WORD b t dst_type dst_offset r (\<lambda>shift r.
           let src = (if model r = DCJ11 then get_pair reg r else src0);
               sign = (R r reg AND SIGN \<noteq> 0)
           in case ashc_shift sign src (unat (shift AND 0x3F)) of
             (dst, v, c) \<Rightarrow>
               let r = set_flag_if v FLAG_V r;
                   r = set_flag_if c FLAG_C r;
                   r = put_pair reg dst r
               in if model r = DCJ11 then
                    step_end (set_flag_if (dst = 0) FLAG_Z
                      (set_flag_if (dst AND 0x80000000 \<noteq> 0) FLAG_N r))
                  else
                    (let r = set_flag_if (R r reg AND SIGN \<noteq> 0) FLAG_N r
                     in step_end (set_flag_if (get_pair reg r = 0) FLAG_Z r)))))"

definition exec_XOR :: "'m bus \<Rightarrow> 'm trapf \<Rightarrow> u16 \<Rightarrow> 'm regs \<Rightarrow> 'm flow option" where
  "exec_XOR b t op r =
     (let reg = src_reg_no op; src_reg = R r reg
      in DECODE_DST b t op r (\<lambda>dst_type dst_offset r.
         GET_WORD b t dst_type dst_offset r (\<lambda>tmp r.
         let tmp = tmp XOR (if model r = DCJ11 then R r reg else src_reg)
         in PUT_WORD b t dst_type dst_offset tmp r (\<lambda>r.
            step_end (clear_flag FLAG_V (set_flag_if (tmp = 0) FLAG_Z
              (set_flag_if (tmp AND SIGN \<noteq> 0) FLAG_N r)))))))"

definition exec_reg_operand :: "'m bus \<Rightarrow> 'm trapf \<Rightarrow> u16 \<Rightarrow> 'm regs \<Rightarrow> 'm flow option" where
  "exec_reg_operand b t op r =
     (let c = drop_bit 9 (op AND 0xFE00)
      in if c = 4 then exec_JSR b t op r
         else if c = 0x38 then exec_MUL b t op r
         else if c = 0x39 then exec_DIV b t op r
         else if c = 0x3A then exec_ASH b t op r
         else if c = 0x3B then exec_ASHC b t op r
         else if c = 0x3C then exec_XOR b t op r
         else if c = 0x3D then exec_FIS b t op r
         else Some Next)"

section \<open>Two operands\<close>

definition exec_MOV :: "'m bus \<Rightarrow> 'm trapf \<Rightarrow> u16 \<Rightarrow> 'm regs \<Rightarrow> 'm flow option" where
  "exec_MOV b t op r =
     (let put = (\<lambda>dst_type dst_offset tmp r.
                   PUT_WORD b t dst_type dst_offset tmp r (\<lambda>r. step_end (PSW_SET_NZV_WORD tmp r)))
      in if dst_first op r then
           DECODE_DST b t op r (\<lambda>dst_type dst_offset r. put dst_type dst_offset (R r (src_reg_no op)) r)
         else
           DECODE_SRC b t op r (\<lambda>src_type src_offset r.
           GET_WORD b t src_type src_offset r (\<lambda>tmp r.
           DECODE_DST b t op r (\<lambda>dst_type dst_offset r. put dst_type dst_offset tmp r))))"

definition exec_MOVB :: "'m bus \<Rightarrow> 'm trapf \<Rightarrow> u16 \<Rightarrow> 'm regs \<Rightarrow> 'm flow option" where
  "exec_MOVB b t op r =
     (let put = (\<lambda>dst_type dst_offset tmp r.
                   PUT_BYTE_MOVB b t dst_type dst_offset tmp r (\<lambda>r. step_end (PSW_SET_NZV_BYTE tmp r)))
      in if dst_first op r then
           DECODE_DSTB b t op r (\<lambda>dst_type dst_offset r. put dst_type dst_offset (R r (src_reg_no op) AND 0xFF) r)
         else
           DECODE_SRCB b t op r (\<lambda>src_type src_offset r.
           GET_BYTE b t src_type src_offset r (\<lambda>tmp r.
           DECODE_DSTB b t op r (\<lambda>dst_type dst_offset r. put dst_type dst_offset tmp r))))"

text \<open>The flags of CMP and CMPB: \<open>tmp\<close> source, \<open>tmp1\<close> destination.\<close>

definition cc_CMP :: "u16 \<Rightarrow> u16 \<Rightarrow> 'm cc" where
  "cc_CMP tmp tmp1 r =
     (let tmp3 = (ucast tmp + ucast (NOT tmp1) + 1 :: u32);
          tmp2 = (ucast tmp3 :: u16);
          r = set_flag_if (tmp2 AND SIGN \<noteq> 0) FLAG_N r;
          r = set_flag_if (tmp2 = 0) FLAG_Z r;
          r = set_flag_if (tmp AND SIGN \<noteq> tmp1 AND SIGN \<and> tmp1 AND SIGN = tmp2 AND SIGN) FLAG_V r
      in set_flag_if (tmp3 AND CARRY = 0) FLAG_C r)"

definition cc_CMPB :: "u16 \<Rightarrow> u16 \<Rightarrow> 'm cc" where
  "cc_CMPB tmp tmp1 r =
     (let tmp3 = (ucast tmp + ucast (ucast (NOT tmp1) :: u8) + 1 :: u32);
          tmp2 = (ucast (ucast tmp3 :: u8) :: u16);
          r = set_flag_if (tmp2 AND SIGN_B \<noteq> 0) FLAG_N r;
          r = set_flag_if (tmp2 = 0) FLAG_Z r;
          r = set_flag_if (tmp AND SIGN_B \<noteq> tmp1 AND SIGN_B \<and> tmp1 AND SIGN_B = tmp2 AND SIGN_B) FLAG_V r
      in set_flag_if (tmp3 AND CARRY_B = 0) FLAG_C r)"

definition exec_CMP :: "'m bus \<Rightarrow> 'm trapf \<Rightarrow> u16 \<Rightarrow> 'm regs \<Rightarrow> 'm flow option" where
  "exec_CMP b t op r =
     OPERANDS_WORD b t op r (\<lambda>dst_type dst_offset tmp tmp1 r. step_end (cc_CMP tmp tmp1 r))"

definition exec_CMPB :: "'m bus \<Rightarrow> 'm trapf \<Rightarrow> u16 \<Rightarrow> 'm regs \<Rightarrow> 'm flow option" where
  "exec_CMPB b t op r =
     OPERANDS_BYTE b t op r (\<lambda>dst_type dst_offset tmp tmp1 r. step_end (cc_CMPB tmp tmp1 r))"

text \<open>Instructions that store a result computed from both operands, then set the codes.\<close>

definition combine_word :: "'m bus \<Rightarrow> 'm trapf \<Rightarrow> (u16 \<Rightarrow> u16 \<Rightarrow> u16 \<times> 'm cc) \<Rightarrow> u16 \<Rightarrow> 'm regs \<Rightarrow> 'm flow option" where
  "combine_word b t alu op r =
     OPERANDS_WORD b t op r (\<lambda>dst_type dst_offset tmp tmp1 r.
       case alu tmp tmp1 of (res, cc) \<Rightarrow>
         PUT_WORD b t dst_type dst_offset res r (\<lambda>r. step_end (cc r)))"

definition combine_byte :: "'m bus \<Rightarrow> 'm trapf \<Rightarrow> (u16 \<Rightarrow> u16 \<Rightarrow> u16 \<times> 'm cc) \<Rightarrow> u16 \<Rightarrow> 'm regs \<Rightarrow> 'm flow option" where
  "combine_byte b t alu op r =
     OPERANDS_BYTE b t op r (\<lambda>dst_type dst_offset tmp tmp1 r.
       case alu tmp tmp1 of (res, cc) \<Rightarrow>
         PUT_BYTE b t dst_type dst_offset res r (\<lambda>r. step_end (cc r)))"

definition alu_ADD :: "u16 \<Rightarrow> u16 \<Rightarrow> u16 \<times> 'm cc" where
  "alu_ADD tmp tmp1 =
     (let tmp3 = (ucast tmp + ucast tmp1 :: u32);
          tmp2 = (ucast tmp3 :: u16)
      in (tmp2, \<lambda>r.
           let r = set_flag_if (tmp2 AND SIGN \<noteq> 0) FLAG_N r;
               r = set_flag_if (tmp2 = 0) FLAG_Z r;
               r = set_flag_if (tmp AND SIGN = tmp1 AND SIGN \<and> tmp AND SIGN \<noteq> tmp2 AND SIGN) FLAG_V r
           in set_flag_if (tmp3 AND CARRY \<noteq> 0) FLAG_C r))"

definition alu_SUB :: "u16 \<Rightarrow> u16 \<Rightarrow> u16 \<times> 'm cc" where
  "alu_SUB tmp tmp1 =
     (let tmp3 = (ucast tmp1 + ucast (NOT tmp) + 1 :: u32);
          tmp2 = (ucast tmp3 :: u16)
      in (tmp2, \<lambda>r.
           let r = set_flag_if (tmp2 AND SIGN \<noteq> 0) FLAG_N r;
               r = set_flag_if (tmp2 = 0) FLAG_Z r;
               r = set_flag_if (tmp AND SIGN \<noteq> tmp1 AND SIGN \<and> tmp AND SIGN = tmp2 AND SIGN) FLAG_V r
           in set_flag_if (tmp3 AND CARRY = 0) FLAG_C r))"

definition alu_BIC :: "u16 \<Rightarrow> u16 \<Rightarrow> u16 \<times> 'm cc" where
  "alu_BIC tmp tmp1 = (let tmp1 = NOT tmp AND tmp1 in (tmp1, PSW_SET_NZV_WORD tmp1))"

definition alu_BICB :: "u16 \<Rightarrow> u16 \<Rightarrow> u16 \<times> 'm cc" where
  "alu_BICB tmp tmp1 = (let tmp1 = NOT tmp AND tmp1 in (tmp1, PSW_SET_NZV_BYTE tmp1))"

definition alu_BIS :: "u16 \<Rightarrow> u16 \<Rightarrow> u16 \<times> 'm cc" where
  "alu_BIS tmp tmp1 = (let tmp1 = tmp OR tmp1 in (tmp1, PSW_SET_NZV_WORD tmp1))"

definition alu_BISB :: "u16 \<Rightarrow> u16 \<Rightarrow> u16 \<times> 'm cc" where
  "alu_BISB tmp tmp1 = (let tmp1 = tmp OR tmp1 in (tmp1, PSW_SET_NZV_BYTE tmp1))"

definition exec_BIT :: "'m bus \<Rightarrow> 'm trapf \<Rightarrow> u16 \<Rightarrow> 'm regs \<Rightarrow> 'm flow option" where
  "exec_BIT b t op r =
     OPERANDS_WORD b t op r (\<lambda>dst_type dst_offset tmp tmp1 r.
       step_end (PSW_SET_NZV_WORD (tmp AND tmp1) r))"

definition exec_BITB :: "'m bus \<Rightarrow> 'm trapf \<Rightarrow> u16 \<Rightarrow> 'm regs \<Rightarrow> 'm flow option" where
  "exec_BITB b t op r =
     OPERANDS_BYTE b t op r (\<lambda>dst_type dst_offset tmp tmp1 r.
       step_end (PSW_SET_NZV_BYTE ((tmp AND tmp1) AND 0xFF) r))"

definition exec_double :: "'m bus \<Rightarrow> 'm trapf \<Rightarrow> u16 \<Rightarrow> 'm regs \<Rightarrow> 'm flow option" where
  "exec_double b t op r =
     (let c = drop_bit 12 (op AND 0xF000)
      in if c = 1 then exec_MOV b t op r
         else if c = 9 then exec_MOVB b t op r
         else if c = 2 then exec_CMP b t op r
         else if c = 0xA then exec_CMPB b t op r
         else if c = 6 then combine_word b t alu_ADD op r
         else if c = 0xE then combine_word b t alu_SUB op r
         else if c = 3 then exec_BIT b t op r
         else if c = 0xB then exec_BITB b t op r
         else if c = 4 then combine_word b t alu_BIC op r
         else if c = 0xC then combine_byte b t alu_BICB op r
         else if c = 5 then combine_word b t alu_BIS op r
         else if c = 0xD then combine_byte b t alu_BISB op r
         else if c = 0xF \<and> has_fpu r then trap_end (fp11 b t op r)
         else Some Next)"

end
