(* ===== verification/Step.thy ===== *)
theory Step
  imports ExecDouble
begin

text \<open>
  One step of the processor (\<^verbatim>\<open>core_step\<close>): the HALT signal, WAIT, the instruction fetch,
  the dispatch of the opcode over the switches of the C function, and what follows at
  \<open>step_end\<close>: the VM1 timer, the trace trap, the deferred HALT, the stack trap and the
  interrupts. The C function always returns 0; the model returns the state.
\<close>

section \<open>The instruction\<close>

definition exec_instr :: "'m bus \<Rightarrow> 'm trapf \<Rightarrow> u16 \<Rightarrow> u16 \<Rightarrow> 'm regs \<Rightarrow> 'm flow option" where
  "exec_instr b t op psw_before r =
     (if op AND 0xFFE0 = 0xA0 then exec_cc op r
      else
        or_next (exec_no_operand b t op psw_before r)
          (if op AND 0xFFF8 = 0x98 then exec_SPL b t op psw_before r
           else
             or_next (exec_vm2 b t op r)
             (or_next (exec_branch b t op r)
             (or_next (exec_linkage b t op r)
             (or_next (exec_single b t op psw_before r)
             (or_next (exec_reg_operand b t op r)
             (or_next (exec_double b t op r)
               (trap_end (illegal_trap b t r)))))))))"

section \<open>The timer of the VM1\<close>

definition vm1_timer_tick :: "'m regs \<Rightarrow> 'm regs" where
  "vm1_timer_tick r =
     (if model r = K1801VM1 \<and> TVE_CSR r AND 0x10 \<noteq> 0 then
        let r = (if TVE_COUNT r \<noteq> 0 then r\<lparr>TVE_COUNT := TVE_COUNT r - 1\<rparr> else r)
        in if TVE_COUNT r = 0 then
             let r = (if TVE_CSR r AND 4 \<noteq> 0
                      then if TVE_PENDING r then r\<lparr>TVE_CSR := TVE_CSR r OR 0x80\<rparr>
                           else r\<lparr>TVE_PENDING := True\<rparr>
                      else r)
             in if TVE_CSR r AND 2 = 0 then
                  let r = (if TVE_CSR r AND 8 \<noteq> 0 then r\<lparr>TVE_CSR := TVE_CSR r AND NOT 0x10\<rparr> else r)
                  in if TVE_LIMIT r = 0 then r\<lparr>TVE_COUNT := 0xFFFF\<rparr>
                     else r\<lparr>TVE_COUNT := TVE_LIMIT r\<rparr>
                else r
           else r
      else r)"

section \<open>Interrupts after the instruction\<close>

text \<open>
  A DCJ11 takes interrupts until none is accepted. The argument bounds the turns of
  that loop; \<open>None\<close> when they do not suffice.
\<close>

fun irq_loop :: "'m bus \<Rightarrow> 'm trapf \<Rightarrow> nat \<Rightarrow> 'm regs \<Rightarrow> 'm regs option" where
  "irq_loop b t 0 r = None"
| "irq_loop b t (Suc m) r =
     (case core_poll_irq_any b r of
        (None, r) \<Rightarrow> Some r
      | (Some irq_vector, r) \<Rightarrow>
          (case irq_accept r irq_vector of
             None \<Rightarrow> Some r
           | Some vec \<Rightarrow>
               do { r \<leftarrow> core_take_vector b t vec (R r 7) (psw r) r;
                    if fAbort r then Some r else irq_loop b t m r }))"

definition service_irqs :: "'m bus \<Rightarrow> 'm trapf \<Rightarrow> nat \<Rightarrow> 'm regs \<Rightarrow> 'm regs option" where
  "service_irqs b t m r = (if model r = DCJ11 then irq_loop b t m r else poll_and_take b t r)"

section \<open>step\_end\<close>

definition halt_or_ignore :: "'m bus \<Rightarrow> 'm trapf \<Rightarrow> 'm regs \<Rightarrow> 'm regs option" where
  "halt_or_ignore b t r =
     (let r = r\<lparr>fHaltSignal := False\<rparr>
      in if is_vm2 r \<and> flag_is_set FLAG_H r then Some (r\<lparr>fWait := False\<rparr>)
         else handle_halt b t (r\<lparr>fWait := False\<rparr>))"

text \<open>A VM2 outside HALT mode keeps the copies of PC and PSW its HALT mode reads.\<close>

definition vm2_copy :: "'m regs \<Rightarrow> 'm regs" where
  "vm2_copy r =
     (if is_vm2 r \<and> psw r AND (FLAG_P OR FLAG_H) \<noteq> (FLAG_P OR FLAG_H)
      then r\<lparr>cps := psw r, cpc := R r 7\<rparr> else r)"

definition finish_step ::
  "'m bus \<Rightarrow> 'm trapf \<Rightarrow> nat \<Rightarrow> u16 \<Rightarrow> bool \<Rightarrow> bool \<Rightarrow> step_ctl \<Rightarrow> 'm regs \<Rightarrow> 'm regs option" where
  "finish_step b t m psw_before skip_trace0 defer_halt c r =
     (let skip_trace = (skip_trace0 \<or> ctl_skip_trace c);
          r = vm1_timer_tick r;
          do_trace = (case ctl_trace_override c of
                        Some v \<Rightarrow> v | None \<Rightarrow> \<not> skip_trace \<and> psw_before AND FLAG_T \<noteq> 0)
      in if defer_halt \<and> fHaltSignal r then halt_or_ignore b t r
         else
           do { r \<leftarrow> (if do_trace then core_take_vector b t 0xC (R r 7) (psw r) r else Some r);
                (stack_trap, r) \<leftarrow> dcj11_service_stack_trap b t r;
                if stack_trap then Some r
                else do { r \<leftarrow> (if \<not> do_trace \<and> \<not> ctl_skip_irq c then service_irqs b t m r else Some r);
                          Some (vm2_copy r) } })"

section \<open>core\_step\<close>

definition fetch_and_execute ::
  "'m bus \<Rightarrow> 'm trapf \<Rightarrow> nat \<Rightarrow> u16 \<Rightarrow> bool \<Rightarrow> bool \<Rightarrow> 'm regs \<Rightarrow> 'm regs option" where
  "fetch_and_execute b t m psw_before skip_trace defer_halt r =
     (let r = r\<lparr>instr_pc := R r 7\<rparr>;
          r = mmu_mmr1_instruction_start b r;
          fetch_pc = R r 7;
          r = (if model r \<noteq> DCJ11 then r\<lparr>R := (R r)(7 := R r 7 + 2)\<rparr> else r)
      in do { (op, r) \<leftarrow> core_load_word_ifetch b t fetch_pc r;
              if fAbort r then Some (r\<lparr>fAbort := False\<rparr>)
              else
                let r = r\<lparr>ir := op\<rparr>;
                    r = (if model r = DCJ11 then r\<lparr>R := (R r)(7 := R r 7 + 2)\<rparr> else r)
                in do { f \<leftarrow> exec_instr b t op psw_before r;
                        case f of
                          StepEnd c r \<Rightarrow> finish_step b t m psw_before skip_trace defer_halt c r
                        | Return r \<Rightarrow> Some r
                        | Next \<Rightarrow> None } })"

definition wait_step :: "'m bus \<Rightarrow> 'm trapf \<Rightarrow> 'm regs \<Rightarrow> 'm regs option" where
  "wait_step b t r =
     (if model r = DCJ11 \<and> psw r AND FLAG_T \<noteq> 0 then
        (let old_psw = psw r; r = r\<lparr>fWait := False\<rparr> in core_take_vector b t 0xC (R r 7) old_psw r)
      else
        case core_poll_irq_any b r of
          (None, r) \<Rightarrow> Some r
        | (Some irq_vector, r) \<Rightarrow>
            (case irq_accept r irq_vector of
               None \<Rightarrow> Some r
             | Some vec \<Rightarrow>
                 (let old_psw = psw r; r = r\<lparr>fWait := False\<rparr>
                  in core_take_vector b t vec (R r 7) old_psw r)))"

definition step_with :: "'m bus \<Rightarrow> 'm trapf \<Rightarrow> nat \<Rightarrow> 'm regs \<Rightarrow> 'm regs option" where
  "step_with b t m r =
     (let psw_before = psw r;
          skip_trace = fTrap r;
          r = r\<lparr>fTrap := False, dcj11_explicit_psw_write := False\<rparr>;
          go = (\<lambda>defer_halt r.
                  if fWait r then wait_step b t r
                  else fetch_and_execute b t m psw_before skip_trace defer_halt r)
      in if fAbort r then Some (r\<lparr>fAbort := False\<rparr>)
         else if fHaltSignal r then
           (if is_vm2 r \<and> fStepDeferHalt r then go True (r\<lparr>fStepDeferHalt := False\<rparr>)
            else if model r = K1801VM1 \<and> psw r AND 0xC00 \<noteq> 0 then go False (r\<lparr>fHaltSignal := False\<rparr>)
            else halt_or_ignore b t r)
         else go False r)"

text \<open>\<open>n\<close> bounds the nesting of traps, \<open>m\<close> the interrupts taken in one step.\<close>

definition core_step :: "'m bus \<Rightarrow> nat \<Rightarrow> nat \<Rightarrow> 'm regs \<Rightarrow> 'm regs option" where
  "core_step b n m r = step_with b (core_trap b n) m r"

fun core_run :: "'m bus \<Rightarrow> nat \<Rightarrow> nat \<Rightarrow> nat \<Rightarrow> 'm regs \<Rightarrow> 'm regs option" where
  "core_run b n m 0 r = Some r"
| "core_run b n m (Suc k) r = do { r \<leftarrow> core_step b n m r; core_run b n m k r }"

end
