(* ===== verification/Hwstub.thy ===== *)
theory Hwstub
  imports Step
begin

text \<open>
  The machine of \<^verbatim>\<open>core/hardware.c\<close>: a block of RAM and no devices. The build option
  \<open>ENABLE_MMU\<close> is the first argument, the option for stub MMU registers the second. The
  block is the field \<open>hwstub_mem\<close>; the address of its first byte is offset 0. A NULL
  block makes the plain callbacks undefined in C: they have no result here.
\<close>

definition PHYS_MEM_SIZE :: "bool \<Rightarrow> u32" where
  "PHYS_MEM_SIZE mmu = (if mmu then 0x400000 else 0x10000)"

definition RAM_FAST_LIMIT :: u32 where "RAM_FAST_LIMIT = 0xE000"

text \<open>The memory that waits to be bound (\<open>pending_mem\<close>), with its size.\<close>

type_synonym pending = "((u32 \<Rightarrow> u8) \<times> u32) option"

definition hwstub_set_memory :: "bool \<Rightarrow> (u32 \<Rightarrow> u8) option \<Rightarrow> u32 \<Rightarrow> int \<times> pending" where
  "hwstub_set_memory mmu memory msize =
     (case memory of
        None \<Rightarrow> (-1, None)
      | Some m \<Rightarrow> if msize < PHYS_MEM_SIZE mmu then (-1, None) else (0, Some (m, msize)))"

definition hwstub_bind_memory :: "bool \<Rightarrow> (u32 \<Rightarrow> u8) \<Rightarrow> u32 \<Rightarrow> 'm regs \<Rightarrow> 'm regs" where
  "hwstub_bind_memory mmu memory msize r =
     (if msize < PHYS_MEM_SIZE mmu then r\<lparr>hwstub_mem := None, hwstub_mem_size := 0\<rparr>
      else r\<lparr>hwstub_mem := Some memory, hwstub_mem_size := msize\<rparr>)"

section \<open>Callbacks\<close>

definition hw_upd :: "u32 \<Rightarrow> u8 \<Rightarrow> (u32 \<Rightarrow> u8) \<Rightarrow> (u32 \<Rightarrow> u8)" where
  "hw_upd a v m = m(a := v)"

definition hardware_load_byte :: "'m regs \<Rightarrow> u16 \<Rightarrow> (u8 \<times> 'm regs) option" where
  "hardware_load_byte r offset = do { m \<leftarrow> hwstub_mem r; Some (m (ucast offset), r) }"

definition hardware_store_byte :: "'m regs \<Rightarrow> u16 \<Rightarrow> u8 \<Rightarrow> 'm regs option" where
  "hardware_store_byte r offset val =
     do { m \<leftarrow> hwstub_mem r; Some (r\<lparr>hwstub_mem := Some (hw_upd (ucast offset) val m)\<rparr>) }"

definition hardware_load_word :: "'m regs \<Rightarrow> u16 \<Rightarrow> (u16 \<times> 'm regs) option" where
  "hardware_load_word r offset =
     do { m \<leftarrow> hwstub_mem r;
          Some (ucast (m (ucast offset)) OR push_bit 8 (ucast (m (ucast (offset + 1)))), r) }"

definition hardware_store_word :: "'m regs \<Rightarrow> u16 \<Rightarrow> u16 \<Rightarrow> 'm regs option" where
  "hardware_store_word r offset val =
     do { m \<leftarrow> hwstub_mem r;
          Some (r\<lparr>hwstub_mem := Some (hw_upd (ucast (offset + 1)) (ucast (drop_bit 8 val))
                                       (hw_upd (ucast offset) (ucast val) m))\<rparr>) }"

definition hardware_init :: "bool \<Rightarrow> 'm regs \<Rightarrow> int \<times> 'm regs" where
  "hardware_init mmu r =
     (case hwstub_mem r of
        None \<Rightarrow> (-1, r)
      | Some m \<Rightarrow>
          if hwstub_mem_size r < PHYS_MEM_SIZE mmu then (-1, r)
          else (0, r\<lparr>hwstub_mem := Some (\<lambda>a. if a < PHYS_MEM_SIZE mmu then 0 else m a)\<rparr>))"

definition hardware_reset :: "'m regs \<Rightarrow> 'm regs" where
  "hardware_reset r = r"

definition hardware_fini :: "'m regs \<Rightarrow> 'm regs" where
  "hardware_fini r = r\<lparr>hwstub_mem := None, hwstub_mem_size := 0\<rparr>"

definition hardware_ramptr :: "'m regs \<Rightarrow> u16 \<Rightarrow> u32 option" where
  "hardware_ramptr r offset = (case hwstub_mem r of None \<Rightarrow> None | Some m \<Rightarrow> Some (ucast offset))"

section \<open>Callbacks at physical addresses (builds with the MMU)\<close>

definition pa_mask :: "u32 \<Rightarrow> u32" where
  "pa_mask offset = offset AND (PHYS_MEM_SIZE True - 1)"

definition hardware_load_byte_pa :: "'m regs \<Rightarrow> u32 \<Rightarrow> (u8 \<times> 'm regs) option" where
  "hardware_load_byte_pa r offset =
     (case hwstub_mem r of None \<Rightarrow> Some (0, r) | Some m \<Rightarrow> Some (m (pa_mask offset), r))"

definition hardware_store_byte_pa :: "'m regs \<Rightarrow> u32 \<Rightarrow> u8 \<Rightarrow> 'm regs option" where
  "hardware_store_byte_pa r offset val =
     (case hwstub_mem r of
        None \<Rightarrow> Some r | Some m \<Rightarrow> Some (r\<lparr>hwstub_mem := Some (hw_upd (pa_mask offset) val m)\<rparr>))"

definition hardware_load_word_pa :: "'m regs \<Rightarrow> u32 \<Rightarrow> (u16 \<times> 'm regs) option" where
  "hardware_load_word_pa r offset =
     (case hwstub_mem r of
        None \<Rightarrow> Some (0, r)
      | Some m \<Rightarrow> Some (ucast (m (pa_mask offset)) OR push_bit 8 (ucast (m (pa_mask (offset + 1)))), r))"

definition hardware_store_word_pa :: "'m regs \<Rightarrow> u32 \<Rightarrow> u16 \<Rightarrow> 'm regs option" where
  "hardware_store_word_pa r offset val =
     (case hwstub_mem r of
        None \<Rightarrow> Some r
      | Some m \<Rightarrow>
          Some (r\<lparr>hwstub_mem := Some (hw_upd (pa_mask (offset + 1)) (ucast (drop_bit 8 val))
                                        (hw_upd (pa_mask offset) (ucast val) m))\<rparr>))"

section \<open>Connection\<close>

text \<open>The callbacks that \<^verbatim>\<open>hwstub_connect\<close> installs. The host's RAM block is \<open>hwstub_mem\<close>.\<close>

definition hwstub_bus :: "bool \<Rightarrow> bool \<Rightarrow> 'm bus" where
  "hwstub_bus mmu stub_regs =
     \<lparr>ENABLE_MMU = mmu, MMU_STUB_REGS_WHEN_DISABLED = stub_regs,
      cb_load_byte = (\<lambda>be. hardware_load_byte), cb_store_byte = (\<lambda>be. hardware_store_byte),
      cb_load_word = (\<lambda>be. hardware_load_word), cb_store_word = (\<lambda>be. hardware_store_word),
      cb_load_byte_pa = (if mmu then Some (\<lambda>be. hardware_load_byte_pa) else None),
      cb_store_byte_pa = (if mmu then Some (\<lambda>be. hardware_store_byte_pa) else None),
      cb_load_word_pa = (if mmu then Some (\<lambda>be. hardware_load_word_pa) else None),
      cb_store_word_pa = (if mmu then Some (\<lambda>be. hardware_store_word_pa) else None),
      cb_init = Some (hardware_init mmu), cb_reset = Some hardware_reset, cb_fini = Some hardware_fini,
      cb_poll_irq = None, cb_ramptr = Some hardware_ramptr,
      host_read = (\<lambda>r p. case hwstub_mem r of None \<Rightarrow> 0 | Some m \<Rightarrow> m p),
      host_write = (\<lambda>r p v. r\<lparr>hwstub_mem := map_option (hw_upd p v) (hwstub_mem r)\<rparr>)\<rparr>"

definition hwstub_connect :: "bool \<Rightarrow> pending \<Rightarrow> 'm regs \<Rightarrow> pending \<times> 'm regs" where
  "hwstub_connect mmu pending r =
     (let r = r\<lparr>ram_fast := None, ram_fast_size := RAM_FAST_LIMIT\<rparr>
      in case (hwstub_mem r, pending) of
           (None, Some (memory, msize)) \<Rightarrow> (None, hwstub_bind_memory mmu memory msize r)
         | _ \<Rightarrow> (pending, r))"

section \<open>A machine to evaluate on\<close>

text \<open>
  The 64K machine without devices, with room for two nested traps, and a DCJ11 with given
  registers and all else zero: the inputs of the witnesses.
\<close>

abbreviation stub :: "unit bus" where "stub \<equiv> hwstub_bus False False"
abbreviation stub_trap :: "unit trapf" where "stub_trap \<equiv> core_trap stub 2"
abbreviation j11_with :: "(nat \<Rightarrow> u16) \<Rightarrow> unit regs" where
  "j11_with f \<equiv> (zero_regs DCJ11 ())\<lparr>R := f\<rparr>"

lemma zero_regs_simps [simp]:
  "model (zero_regs c x) = c" "R (zero_regs c x) = (\<lambda>i. 0)" "fAbort (zero_regs c x) = False"
  "cc_frozen (zero_regs c x) = False" "psw (zero_regs c x) = 0"
  by (simp_all add: zero_regs_def cc_frozen_def)

end
