(* ===== verification/WordInts.thy ===== *)
theory WordInts
  imports Regs
begin

text \<open>
  Words as integers: the sign bit, the borrow and the overflow of a 16-bit difference,
  products, and shifts of a value given as an integer. The arithmetic instructions are
  proved against these facts.
\<close>

section \<open>Signs and differences\<close>

lemma and_sign_neg: "(x AND 0x8000 = 0) = (\<not> sint (x::u16) < 0)"
  using uint16[of x] by (simp add: and_sign16 sint16)

lemma sign_of_int16: "(x AND 0x8000 \<noteq> 0) = (sint (x::u16) < 0)"
  using uint16[of x] by (simp add: and_sign16 sint16)

lemma borrow16: "(ucast (s::u16) + ucast (NOT (d::u16)) + 1 AND (0x10000::u32) = 0) = (uint s < uint d)"
proof -
  have "uint s - uint d + 0x10000 < 0x20000" using uint16[of s] uint16[of d] by linarith
  then show ?thesis using and_carry16[of "ucast s + ucast (NOT d) + 1"] by (simp add: wide_cmp)
qed

lemma sub_v': fixes s d :: u16
  shows "(s AND 0x8000 \<noteq> d AND 0x8000 \<and> s AND 0x8000 = (d-s) AND 0x8000) = (sint d - sint s \<noteq> sint (d - s))"
  using sub_v[of d s] by auto

lemma sint_diff_sign:
  "((sint (a - d) < 0) = (sint a - sint d = sint (a - d))) = (sint a < sint (d::u16))"
proof -
  obtain x y where [simp]: "uint a = x" "uint d = y" by blast
  have "0 \<le> x" "x < 0x10000" "0 \<le> y" "y < 0x10000" using uint16[of a] uint16[of d] by simp_all
  then show ?thesis by (auto simp: sint16 uint_sub_if')
qed

lemma sint16_range: "- 0x8000 \<le> sint (x::u16)" "sint (x::u16) < 0x8000"
  using sint_greater_eq[of x] sint_lt[of x] by simp_all

lemma sint32_range: "- 0x80000000 \<le> sint (x::u32)" "sint (x::u32) < 0x80000000"
  using sint_greater_eq[of x] sint_lt[of x] by simp_all

lemma signed_take_bit_small: "- (2 ^ n) \<le> s \<Longrightarrow> s < 2 ^ n \<Longrightarrow> signed_take_bit n s = (s::int)"
  by (rule signed_take_bit_int_eq_self)

lemma sint16_of_int: "- 0x8000 \<le> k \<Longrightarrow> k < 0x8000 \<Longrightarrow> sint (word_of_int k :: u16) = k"
  by (simp add: signed_of_int signed_take_bit_small)

lemma sint_product: "sint (scast (a::u16) * scast (b::u16) :: u32) = sint a * sint b"
proof -
  have "\<bar>sint a\<bar> \<le> 0x8000" "\<bar>sint b\<bar> \<le> 0x8000" using sint16_range[of a] sint16_range[of b] by auto
  then have "\<bar>sint a * sint b\<bar> \<le> 0x8000 * 0x8000" unfolding abs_mult by (rule mult_mono) auto
  then have "- (2 ^ 31) \<le> sint a * sint b" "sint a * sint b < 2 ^ 31" by auto
  then have "signed_take_bit 31 (sint a * sint b) = sint a * sint b" by (rule signed_take_bit_small)
  moreover have "scast a * scast b = (word_of_int (sint a * sint b) :: u32)" by simp
  ultimately show ?thesis by (simp add: signed_of_int del: of_int_mult)
qed

lemma count_lt: "unat ((w::u16) AND 0x3F) < 64"
proof -
  have "w AND 0x3F \<le> 0x3F" by (rule word_and_le1)
  then show ?thesis by (simp add: word_le_nat_alt)
qed

section \<open>Shifts of an integer in a 32-bit word\<close>

lemma drop_of_int:
  "k + m \<le> 32 \<Longrightarrow> drop_bit k (word_of_int s :: u32) AND mask m = word_of_int (take_bit m (drop_bit k s))"
  by (rule bit_word_eqI) (auto simp: bit_simps bit_word_of_int_iff)

lemma push_of_int: "push_bit n (word_of_int s :: u32) = word_of_int (s * 2 ^ n)"
  by (simp flip: push_bit_eq_mult) (rule bit_word_eqI, auto simp: bit_simps)

lemma bit_of_int_shift: "drop_bit k (word_of_int s :: u32) AND 1 \<noteq> 0 \<longleftrightarrow> k < 32 \<and> bit s k"
proof -
  have "drop_bit k (word_of_int s :: u32) AND 1 \<noteq> 0 \<longleftrightarrow> odd (drop_bit k (word_of_int s :: u32))"
    by (simp add: and_one_eq odd_iff_mod_2_eq_one)
  also have "\<dots> \<longleftrightarrow> bit (word_of_int s :: u32) k" by (simp add: bit_iff_odd_drop_bit)
  finally show ?thesis by (simp add: bit_word_of_int_iff)
qed

lemma ucast_of_int: "(ucast (word_of_int s :: u32) :: u16) = word_of_int s"
  by (rule bit_word_eqI) (simp add: bit_simps bit_word_of_int_iff)

lemma sign16_of_int: "(push_bit n (word_of_int s :: u32) AND 0x8000 \<noteq> 0) = bit (s * 2 ^ n) 15"
  using and_exp_bit[of "word_of_int (s * 2 ^ n) :: u32" 15] bit_word_of_int_iff[of "s * 2 ^ n" 15, where 'a=32]
  unfolding push_of_int by (auto split: if_splits)

lemma sign32_of_int: "(word_of_int s AND (0x80000000::u32) \<noteq> 0) = bit s 31"
  using and_exp_bit[of "word_of_int s :: u32" 31] by (simp add: bit_word_of_int_iff split: if_splits)

lemma arith_rshift: 
  assumes "0 < k" "k < 32"
  shows "arith_rshift32 (word_of_int s) (of_nat k) = word_of_int (signed_take_bit 31 s div 2 ^ k)"
proof -
  have "k < 2 ^ 16" using assms by simp
  then have k: "unat (of_nat k :: u16) = k" by (simp add: unsigned_of_nat take_bit_nat_eq_self)
  then have k0: "(of_nat k :: u16) \<noteq> 0" using assms by (metis unsigned_0 less_irrefl)
  have "signed_take_bit 31 s div 2 ^ k = drop_bit k (signed_take_bit 31 s)" by (simp add: drop_bit_eq_div)
  moreover have "bit (arith_rshift32 (word_of_int s) (of_nat k)) n = bit (drop_bit k (signed_take_bit 31 s)) n"
    if "n < 32" for n
  proof -
    consider "k + n < 31" | "k + n = 31" | "31 < k + n" by linarith
    then show ?thesis using that assms sign32_of_int[of s]
      by cases (auto simp: arith_rshift32_def k k0 bit_simps bit_word_of_int_iff min_def)
  qed
  ultimately show ?thesis by (intro bit_word_eqI) (simp add: bit_word_of_int_iff)
qed

section \<open>Which integers fit\<close>

lemma take_bit_signed:
  assumes "- (2 ^ n) \<le> h" "h < (2 ^ n :: int)"
  shows "take_bit n h = (if h < 0 then h + 2 ^ n else h)"
proof (cases "h < 0")
  case True
  have "take_bit n h = (h + 2 ^ n) mod 2 ^ n" by (simp add: take_bit_eq_mod)
  also have "\<dots> = h + 2 ^ n" using assms True by (intro mod_pos_pos_trivial) auto
  finally show ?thesis using True by simp
next
  case False
  then show ?thesis using assms by (simp add: take_bit_int_eq_self)
qed

lemma take_bit_16_ends:
  assumes "- 0x8000 \<le> (h::int)" "h < 0x8000"
  shows "take_bit 16 h = 0xFFFF \<longleftrightarrow> h = -1" "take_bit 16 h = 0 \<longleftrightarrow> h = 0"
  using assms take_bit_signed[of 16 h] by (auto split: if_splits)

lemma div_between:
  assumes "l \<le> s" "s < u" "l \<le> (0::int)" "0 < u"
  shows "l \<le> s div 2 ^ k" "s div 2 ^ k < u"
proof -
  have "min s 0 \<le> s div 2 ^ k" "s div 2 ^ k \<le> max s (-1)"
    using zdiv_mono2_neg[of s 1 "2 ^ k"] zdiv_mono2[of s 1 "2 ^ k"] neg_imp_zdiv_neg_iff[of "2 ^ k" s]
      pos_imp_zdiv_nonneg_iff[of "2 ^ k" s]
    by (auto simp: min_def max_def not_le)
  then show "l \<le> s div 2 ^ k" "s div 2 ^ k < u" using assms by linarith+
qed

lemma small_div:
  assumes "- (2 ^ k) \<le> s" "s < (2 ^ k :: int)"
  shows "s div 2 ^ k = (if s < 0 then -1 else 0)" "bit s k = (s < 0)"
proof -
  show "s div 2 ^ k = (if s < 0 then -1 else 0)"
    using int_div_pos_eq[of s "2 ^ k" "-1" "s + 2 ^ k"] assms by (auto simp: div_pos_pos_trivial)
  then show "bit s k = (s < 0)" by (simp add: bit_iff_odd)
qed

lemma fits_iff_spill:
  "(p div 2 ^ Suc w = (if bit p w then -1 else 0)) = (- (2 ^ w) \<le> p \<and> p < (2 ^ w :: int))"
proof -
  define b q m where "b = (2::int) ^ w" "q = p div b" "m = p mod b"
  have b: "0 < b" by (simp add: b_q_m_def)
  have p: "p = b * q + m" "0 \<le> m" "m < b" using b by (simp_all add: b_q_m_def(2,3))
  have "(- b \<le> p \<and> p < b) = (q = 0 \<or> q = -1)"
  proof
    assume "- b \<le> p \<and> p < b"
    then have "b * q < b * 1" "b * (- 2) < b * q" using p b by linarith+
    then have "q < 1" "- 2 < q" using b by (simp_all only: mult_less_cancel_left_pos)
    then show "q = 0 \<or> q = -1" by linarith
  qed (use p in auto)
  also have "\<dots> = (q div 2 = (if odd q then -1 else 0))" by presburger
  also have "q div 2 = p div 2 ^ Suc w" by (simp add: b_q_m_def flip: div_mult2_eq') (simp add: zdiv_zmult2_eq[symmetric] mult.commute)
  also have "odd q = bit p w" by (simp add: b_q_m_def bit_iff_odd)
  finally show ?thesis by (simp add: b_q_m_def)
qed

lemma spill_eq_div:
  assumes "n \<le> w" shows "s div 2 ^ (w - n) = (s * 2 ^ n) div (2 ^ w :: int)"
proof -
  have "(2::int) ^ w = 2 ^ (w - n) * 2 ^ n" using assms by (simp flip: power_add)
  then show ?thesis by simp
qed

end
