(* ===== verification/Arithmetic.thy ===== *)
theory Arithmetic
  imports Hwstub WordInts
begin

text \<open>
  What the arithmetic instructions compute: the results and the condition codes in terms
  of the signed (\<open>sint\<close>) and unsigned (\<open>uint\<close>) values of the operands. The instruction
  level statements take operands in registers; the functions behind them (\<open>alu_*\<close>,
  \<open>cc_CMP\<close>, \<open>mul_finish\<close>, \<open>div_finish\<close>, \<open>ash_shift\<close>, \<open>ashc_shift\<close>) are the same for operands
  in memory.
\<close>

definition dst_reg_no :: "u16 \<Rightarrow> nat" where "dst_reg_no op = unat (op AND 7)"

definition regs_only :: "u16 \<Rightarrow> bool" where "regs_only op = (op AND 0xE38 = 0)"

lemma mode_masks:
  assumes "regs_only op"
  shows "op AND 0x38 = 0" "drop_bit 6 op AND 0x38 = 0"
proof -
  have "op AND 0x38 = (op AND 0xE38) AND 0x38" by (simp add: word_bw_assocs)
  then show "op AND 0x38 = 0" using assms by (simp add: regs_only_def)
  have "drop_bit 6 op AND 0x38 = drop_bit 6 (op AND 0xE38) AND 0x38" by (simp add: drop_bit_and word_bw_assocs)
  also have "\<dots> = 0" using assms unfolding regs_only_def by (simp only: drop_bit_0 and_zero_eq) simp
  finally show "drop_bit 6 op AND 0x38 = 0" .
qed

lemma decode_register:
  "op AND 0x38 = 0 \<Longrightarrow> \<not> fAbort r \<Longrightarrow> decode_data b t (op AND 0x3F) sz r = Some (TYPE_REG, op AND 7, r)"
  by (simp add: decode_data_def Let_def word_bw_assocs)

lemma OPERANDS_WORD_registers:
  assumes "regs_only op" "\<not> fAbort r"
  shows "OPERANDS_WORD b t op r k = k TYPE_REG (op AND 7) (R r (src_reg_no op)) (R r (dst_reg_no op)) r"
  using mode_masks[OF assms(1)] assms(2)
  by (simp add: OPERANDS_WORD_def dst_first_def DECODE_SRC_def DECODE_DST_def decode_register GET_WORD_def
    get_data_word_def unless_abort_def src_reg_no_def dst_reg_no_def)

lemma PUT_WORD_register:
  "\<not> fAbort r \<Longrightarrow> PUT_WORD b t TYPE_REG (op AND 7) v r k = k (r\<lparr>R := (R r)(dst_reg_no op := v)\<rparr>)"
  by (simp add: PUT_WORD_def put_data_word_def unless_abort_def dst_reg_no_def)

lemma alu_ADD_cc:
  shows "fst (alu_ADD s d) = s + d"
  "\<not> cc_frozen r \<Longrightarrow> snd (alu_ADD s d) r =
   set_cc (sint (s + d) < 0) (s + d = 0) (sint s + sint d \<noteq> sint (s + d)) (0x10000 \<le> uint s + uint d) r"
  using uint16[of s] uint16[of d] and_carry16[of "ucast s + ucast d"]
  by (simp_all add: alu_ADD_def Let_def narrow_add wide_add set_flags_nzvc and_sign_neg add_v not_less not_le)

text \<open>C1: ADD with register operands stores the sum modulo 2^16; N and Z describe the result, V is set exactly when the sum of the signed values does not fit in 16 bits, C exactly when the sum of the unsigned values does not.\<close>
theorem ADD_registers:
  assumes "op AND 0xF000 = 0x6000" "regs_only op" "\<not> fAbort r" "\<not> cc_frozen r"
  defines "S \<equiv> R r (src_reg_no op)" and "D \<equiv> R r (dst_reg_no op)"
  shows "exec_double b t op r =
    step_end (set_cc (sint (S + D) < 0) (S + D = 0) (sint S + sint D \<noteq> sint (S + D))
      (0x10000 \<le> uint S + uint D) (r\<lparr>R := (R r)(dst_reg_no op := S + D)\<rparr>))"
  using assms(1-4) 
    by (simp add: exec_double_def Let_def combine_word_def OPERANDS_WORD_registers PUT_WORD_register S_def D_def case_prod_beta alu_ADD_cc)

theorem ADD_registers_witness:
  "exec_double stub stub_trap 0x6001 (j11_with ((\<lambda>i. 0)(0 := 0x7FFF, 1 := 1))) =
   step_end (set_cc True False True False (j11_with ((\<lambda>i. 0)(0 := 0x7FFF, 1 := 0x8000))))"
  using ADD_registers[of "0x6001" "j11_with ((\<lambda>i. 0)(0 := 0x7FFF, 1 := 1))" stub stub_trap]
  by (simp add: regs_only_def src_reg_no_def dst_reg_no_def fun_upd_twist)

lemma alu_SUB_cc:
  shows "fst (alu_SUB s d) = d - s"
  "\<not> cc_frozen r \<Longrightarrow> snd (alu_SUB s d) r =
   set_cc (sint (d - s) < 0) (d - s = 0) (sint d - sint s \<noteq> sint (d - s)) (uint d < uint s) r"
  by (simp_all add: alu_SUB_def Let_def narrow_cmp borrow16 sub_v' set_flags_nzvc and_sign_neg not_le)

lemma cc_CMP_cc:
  "\<not> cc_frozen r \<Longrightarrow> cc_CMP s d r =
   set_cc (sint (s - d) < 0) (s = d) (sint s - sint d \<noteq> sint (s - d)) (uint s < uint d) r"
  by (simp add: cc_CMP_def Let_def narrow_cmp borrow16 sub_v set_flags_nzvc and_sign_neg not_le)

text \<open>SUB with register operands stores the difference modulo 2^16; V is set exactly when the difference of the signed values does not fit in 16 bits, C is the unsigned borrow.\<close>
theorem SUB_registers:
  assumes "op AND 0xF000 = 0xE000" "regs_only op" "\<not> fAbort r" "\<not> cc_frozen r"
  defines "S \<equiv> R r (src_reg_no op)" and "D \<equiv> R r (dst_reg_no op)"
  shows "exec_double b t op r =
    step_end (set_cc (sint (D - S) < 0) (D - S = 0) (sint D - sint S \<noteq> sint (D - S))
      (uint D < uint S) (r\<lparr>R := (R r)(dst_reg_no op := D - S)\<rparr>))"
  using assms(1-4) 
    by (simp add: exec_double_def Let_def combine_word_def OPERANDS_WORD_registers PUT_WORD_register S_def D_def case_prod_beta alu_SUB_cc)

theorem SUB_registers_witness:
  "exec_double stub stub_trap 0xE001 (j11_with ((\<lambda>i. 0)(0 := 2, 1 := 1))) =
   step_end (set_cc True False False True (j11_with ((\<lambda>i. 0)(0 := 2, 1 := -1))))"
  using SUB_registers[of "0xE001" "j11_with ((\<lambda>i. 0)(0 := 2, 1 := 1))" stub stub_trap]
  by (simp add: regs_only_def src_reg_no_def dst_reg_no_def)

definition branch_relation :: "u16 \<Rightarrow> u16 \<Rightarrow> u16 \<Rightarrow> bool option" where
  "branch_relation op a d =
     (let c = op AND 0xFF00
      in if c = 0x200 then Some (a \<noteq> d)
         else if c = 0x300 then Some (a = d)
         else if c = 0x400 then Some (sint d \<le> sint a)
         else if c = 0x500 then Some (sint a < sint d)
         else if c = 0x600 then Some (sint d < sint a)
         else if c = 0x700 then Some (sint a \<le> sint d)
         else if c = 0x8200 then Some (uint d < uint a)
         else if c = 0x8300 then Some (uint a \<le> uint d)
         else if c = 0x8600 then Some (uint d \<le> uint a)
         else if c = 0x8700 then Some (uint a < uint d)
         else None)"

lemma n_xor_v_cmp:
  "n_xor_v (set_cc (sint (a - d) < 0) z (sint a - sint d \<noteq> sint (a - d)) c r) = (sint a < sint (d::u16))"
  by (simp add: n_xor_v_def set_cc_flag sint_diff_sign)

text \<open>C2: After CMP a,d every conditional branch on order is taken exactly when the relation it names holds between a and d: BGT, BGE, BLT, BLE of the signed values, BHI, BHIS, BLO, BLOS of the unsigned ones, BEQ and BNE.\<close>
theorem CMP_then_branch:
  assumes "branch_relation op a d = Some taken" "\<not> cc_frozen r"
  shows "exec_branch b t op (cc_CMP a d r) =
     step_end (if taken then take_branch op (cc_CMP a d r) else cc_CMP a d r)"
proof -
  let ?c = "op AND 0xFF00" and ?r = "cc_CMP a d r"
  have "(a = d) = (uint a = uint d)" "(a = d) = (sint a = sint d)"
    by (simp add: word_uint_eq_iff) (metis signed_word_eqI)
  then have rel: "(\<not> sint a < sint d \<and> a \<noteq> d) = (sint d < sint a)" "(sint a < sint d \<or> a = d) = (sint a \<le> sint d)"
    "(uint d \<le> uint a \<and> a \<noteq> d) = (uint d < uint a)" "(uint d \<le> uint a \<longrightarrow> a = d) = (uint a \<le> uint d)"
    by linarith+
  have flags: "n_xor_v ?r = (sint a < sint d)" "flag_is_set FLAG_Z ?r = (a = d)" "flag_is_clear FLAG_Z ?r = (a \<noteq> d)"
    "flag_is_set FLAG_C ?r = (uint a < uint d)" "flag_is_clear FLAG_C ?r = (\<not> uint a < uint d)"
    "flag_is_clear 5 ?r = (\<not> uint a < uint d \<and> a \<noteq> d)"
    using set_cc_hi by (simp_all add: cc_CMP_cc[OF assms(2)] n_xor_v_cmp set_cc_flag)
  consider "?c = 0x200" | "?c = 0x300" | "?c = 0x400" | "?c = 0x500" | "?c = 0x600" | "?c = 0x700"
    | "?c = 0x8200" | "?c = 0x8300" | "?c = 0x8600" | "?c = 0x8700"
    using assms(1) by (simp add: branch_relation_def Let_def split: if_split_asm)
  then have "branch_relation op a d = Some taken \<longrightarrow> exec_branch b t op ?r = branch_if taken op ?r"
    by cases (simp_all add: branch_relation_def exec_branch_def flags rel not_less not_le)
  then show ?thesis using assms(1) by (simp add: branch_if_def)
qed

theorem CMP_then_branch_witness:
  "exec_branch stub stub_trap 0x0502 (cc_CMP 0x8000 1 (j11_with (\<lambda>i. 0))) =
   step_end (take_branch 0x0502 (cc_CMP 0x8000 1 (j11_with (\<lambda>i. 0))))"
  using CMP_then_branch[of "0x0502" "0x8000" 1 True "j11_with (\<lambda>i. 0)" stub stub_trap]
  by (simp add: branch_relation_def)

definition shifted :: "int \<Rightarrow> nat \<Rightarrow> int" where
  "shifted s count = (if count < 32 then s * 2 ^ count else s div 2 ^ (64 - count))"

definition shifted_out :: "nat \<Rightarrow> int \<Rightarrow> nat \<Rightarrow> bool" where
  "shifted_out w s count =
     (if count = 0 then False else if count < 32 then bit (s * 2 ^ count) w else bit s (63 - count))"

lemma ash_left:
  assumes s: "- 0x8000 \<le> s" "s < 0x8000" and n: "0 < n" "n \<le> 15"
  defines "spill \<equiv> drop_bit (16 - n) (word_of_int s :: u32) AND 0xFFFF"
  shows "(spill \<noteq> (if push_bit n (word_of_int s :: u32) AND 0x8000 \<noteq> 0 then 0xFFFF else 0)) =
      (s * 2 ^ n < - 0x8000 \<or> 0x8000 \<le> s * 2 ^ n)"
    and "(spill AND 1 \<noteq> 0) = bit (s * 2 ^ n) 16"
proof -
  define h where "h = s div 2 ^ (16 - n)"
  have h: "- 0x8000 \<le> h" "h < 0x8000" using div_between[OF s, of "16 - n"] by (simp_all add: h_def)
  have hp: "h = s * 2 ^ n div 2 ^ Suc 15" using spill_eq_div[of n 16 s] n by (simp add: h_def)
  have e: "spill = word_of_int (take_bit 16 h)"
    using drop_of_int[of "16 - n" 16 s] n by (simp add: spill_def mask_eq_exp_minus_1 h_def drop_bit_eq_div)
  have ends: "(spill = 0xFFFF) = (h = -1)" "(spill = 0) = (h = 0)"
    using take_bit_16_ends[OF h] h
    by (simp_all add: e word_uint_eq_iff uint_word_of_int_eq take_bit_take_bit)
  show "(spill \<noteq> (if push_bit n (word_of_int s :: u32) AND 0x8000 \<noteq> 0 then 0xFFFF else 0)) =
      (s * 2 ^ n < - 0x8000 \<or> 0x8000 \<le> s * 2 ^ n)"
    using fits_iff_spill[of "s * 2 ^ n" 15] ends unfolding sign16_of_int hp[symmetric] by auto
  have "(spill AND 1 \<noteq> 0) = bit h 0"
    using bit_of_int_shift[of 0 "take_bit 16 h"] by (simp add: e bit_take_bit_iff)
  also have "\<dots> = bit (s * 2 ^ n) 16" by (simp add: hp bit_iff_odd)
  finally show "(spill AND 1 \<noteq> 0) = bit (s * 2 ^ n) 16" .
qed

lemma ash_shift_spec:
  assumes "count < 64" "ash_shift x count = (w, v, c)"
  shows "(ucast w :: u16) = word_of_int (shifted (sint x) count) \<and>
    v = (count < 32 \<and> (shifted (sint x) count < - 0x8000 \<or> 0x8000 \<le> shifted (sint x) count)) \<and>
    c = shifted_out 16 (sint x) count"
proof -
  define s where "s = sint x"
  have s: "- 0x8000 \<le> s" "s < 0x8000" using sint16_range[of x] by (simp_all add: s_def)
  have src: "scast x = (word_of_int s :: u32)" by (simp add: s_def)
  have sgn: "(x AND SIGN \<noteq> 0) = (s < 0)" by (simp add: s_def sign_of_int16)
  note [simp] = ash_shift_def Let_def src sgn shifted_def shifted_out_def s_def[symmetric]
  have x: "word_of_int s = x" by (simp add: s_def del: s_def[symmetric])
  consider "count = 0" | "0 < count" "count \<le> 15" | "15 < count" "count < 32" | "count = 32"
    | "32 < count" "count < 64" using assms(1) by linarith
  then show ?thesis
  proof cases
    case 1 then show ?thesis using assms(2) s by (auto simp: ucast_of_int x)
  next
    case 2 then show ?thesis using assms(2) ash_left[OF s 2] by (auto simp: ucast_of_int push_of_int simp del: of_int_mult of_int_power)
  next
    case 3
    define k where "k = count - 16"
    have k: "count = 16 + k" "k < 16" using 3 by (simp_all add: k_def)
    have p: "s * 2 ^ count = push_bit count s" by (simp add: push_bit_eq_mult)
    have w: "(word_of_int (s * 2 ^ count) :: u16) = 0"
      unfolding p using k by (intro bit_word_eqI) (simp add: bit_word_of_int_iff bit_simps)
    have c: "bit (s * 2 ^ count) 16 = (push_bit (count - 16) (word_of_int s :: u32) AND 1 \<noteq> 0)"
      using bit_of_int_shift[of 0 "push_bit k s"] unfolding p
      by (simp add: k push_bit_of_int bit_simps flip: push_bit_eq_mult)
    have z: "((word_of_int s :: u32) = 0) = (s = 0)"
      using take_bit_signed[of 32 s] s by (auto simp: word_uint_eq_iff uint_word_of_int_eq split: if_splits)
    have v: "(s * 2 ^ count < - 0x8000 \<or> 0x8000 \<le> s * 2 ^ count) = (s \<noteq> 0)"
    proof (cases s "0::int" rule: linorder_cases)
      case less
      have "s * 2 ^ count \<le> s * 0x10000"
        using less 3 power_increasing[of 16 count "2::int"] by (intro mult_left_mono_neg) auto
      then have "s * 2 ^ count < - 0x8000" using less by linarith
      then show ?thesis using less by blast
    next
      case greater
      have "s * 0x10000 \<le> s * 2 ^ count"
        using greater 3 power_increasing[of 16 count "2::int"] by (intro mult_left_mono) auto
      then have "0x8000 \<le> s * 2 ^ count" using greater by linarith
      then show ?thesis using greater by blast
    qed simp
    show ?thesis using assms(2) 3 w v c z by (auto simp del: of_int_mult of_int_power)
  next
    case 4
    then show ?thesis using assms(2) s small_div[of 32 s] small_div[of 31 s] by (auto split: if_splits)
  next
    case 5
    have "signed_take_bit 31 s = s" using s by (intro signed_take_bit_small) auto
    then have a: "arith_rshift32 (word_of_int s) (of_nat (64 - count)) = word_of_int (s div 2 ^ (64 - count))"
      using arith_rshift[of "64 - count" s] 5 by simp
    have "w = word_of_int (s div 2 ^ (64 - count))" "v = False" "c = (drop_bit (63 - count) (word_of_int s :: u32) AND 1 \<noteq> 0)"
      using assms(2) 5 a by (simp_all )
    moreover have "63 - count < 32" using 5 by linarith
    ultimately show ?thesis using 5 by (simp add: ucast_of_int bit_of_int_shift)
  qed
qed

lemma ashc_left:
  assumes s: "- 0x80000000 \<le> s" "s < 0x80000000" and n: "0 < n" "n < 32"
  defines "spill \<equiv> drop_bit (32 - n) (word_of_int s :: u32) OR (if s < 0 then push_bit n (NOT 0) else 0)"
  shows "(spill \<noteq> (if push_bit n (word_of_int s :: u32) AND 0x80000000 \<noteq> 0 then 0xFFFFFFFF else 0)) =
      (s * 2 ^ n < - 0x80000000 \<or> 0x80000000 \<le> s * 2 ^ n)"
    and "(spill AND 1 \<noteq> 0) = bit (s * 2 ^ n) 32"
proof -
  define h where "h = s div 2 ^ (32 - n)"
  have h: "- 0x80000000 \<le> h" "h < 0x80000000" using div_between[OF s, of "32 - n"] by (simp_all add: h_def)
  have hp: "h = s * 2 ^ n div 2 ^ Suc 31" using spill_eq_div[of n 32 s] n by (simp add: h_def)
  have hi: "bit s m = (s < 0)" if "31 \<le> m" for m
    using small_div(2)[of m s] power_increasing[of 31 m "2::int"] s that by force
  have e: "spill = word_of_int h"
  proof (rule bit_word_eqI)
    fix m assume "m < LENGTH(32)"
    then show "bit spill m = bit (word_of_int h :: u32) m"
      using n hi[of "32 - n + m"]
      by (cases "m < n") (auto simp: spill_def h_def bit_simps bit_word_of_int_iff simp flip: drop_bit_eq_div)
  qed
  have ends: "(spill = 0xFFFFFFFF) = (h = -1)" "(spill = 0) = (h = 0)"
    using take_bit_signed[of 32 h] h
    by (auto simp: e word_uint_eq_iff uint_word_of_int_eq split: if_splits)
  have sgn: "(push_bit n (word_of_int s :: u32) AND 0x80000000 \<noteq> 0) = bit (s * 2 ^ n) 31"
    unfolding push_of_int by (rule sign32_of_int)
  show "(spill \<noteq> (if push_bit n (word_of_int s :: u32) AND 0x80000000 \<noteq> 0 then 0xFFFFFFFF else 0)) =
      (s * 2 ^ n < - 0x80000000 \<or> 0x80000000 \<le> s * 2 ^ n)"
    using fits_iff_spill[of "s * 2 ^ n" 31] ends unfolding sgn hp[symmetric] by auto
  have "(spill AND 1 \<noteq> 0) = bit h 0"
    using bit_of_int_shift[of 0 h] by (simp add: e)
  also have "\<dots> = bit (s * 2 ^ n) 32" by (simp add: hp bit_iff_odd)
  finally show "(spill AND 1 \<noteq> 0) = bit (s * 2 ^ n) 32" .
qed

lemma ashc_shift_int:
  assumes "count < 64" "ashc_shift (s < 0) (word_of_int s) count = (w, v, c)"
    and s: "- 0x80000000 \<le> s" "s < 0x80000000"
  shows "w = word_of_int (shifted s count) \<and>
    v = (count < 32 \<and> (shifted s count < - 0x80000000 \<or> 0x80000000 \<le> shifted s count)) \<and>
    c = shifted_out 32 s count"
proof -
  note [simp] = ashc_shift_def Let_def shifted_def shifted_out_def
  note [simp del] = of_int_mult of_int_power
  consider "count = 0" | "0 < count" "count < 32" | "count = 32"
    | "32 < count" "count < 64" using assms(1) by linarith
  then show ?thesis
  proof cases
    case 1 then show ?thesis using assms(2) s by auto
  next
    case 2 then show ?thesis using assms(2) ashc_left[OF s 2] by (auto simp: push_of_int)
  next
    case 3 then show ?thesis using assms(2) s small_div[of 32 s] small_div[of 31 s]
     by (auto split: if_splits)
  next
    case 4
    have "signed_take_bit 31 s = s" using s by (intro signed_take_bit_small) auto
    then have a: "arith_rshift32 (word_of_int s) (of_nat (64 - count)) = word_of_int (s div 2 ^ (64 - count))"
      using arith_rshift[of "64 - count" s] 4 by simp
    have "w = word_of_int (s div 2 ^ (64 - count))" "v = False" "c = (drop_bit (63 - count) (word_of_int s :: u32) AND 1 \<noteq> 0)"
      using assms(2) 4 a by simp_all
    moreover have "63 - count < 32" using 4 by linarith
    ultimately show ?thesis using 4 by (simp add: bit_of_int_shift)
  qed
qed

lemma ashc_shift_spec:
  assumes "count < 64" "ashc_shift (sint x < 0) x count = (w, v, c)"
  shows "w = word_of_int (shifted (sint x) count) \<and>
    v = (count < 32 \<and> (shifted (sint x) count < - 0x80000000 \<or> 0x80000000 \<le> shifted (sint x) count)) \<and>
    c = shifted_out 32 (sint x) count"
  using ashc_shift_int[of count "sint x" w v c] assms sint32_range[of x] by simp

lemma put_pair_even:
  assumes "reg mod 2 = 0"
  shows "get_pair reg (put_pair reg v r) = v"
  using assms
  by (auto simp: get_pair_def put_pair_def Let_def intro!: bit_word_eqI simp: bit_simps)

lemma mul_finish_regs:
  "R (mul_finish reg a b r) = R (put_pair reg (scast a * scast b) r)"
  by (simp add: mul_finish_def Let_def set_flag_if_def set_flag_def clear_flag_def)

lemma cc_frozen_put_pair [simp]: "cc_frozen (put_pair reg v r) = cc_frozen r"
  by (simp add: put_pair_def Let_def)

lemma word_halves: "0x10000 * sint (ucast (drop_bit 16 w) :: u16) + uint (ucast w :: u16) = sint (w :: u32)"
proof -
  have "push_bit 16 (sint (ucast (drop_bit 16 w) :: u16)) + uint (ucast w :: u16) =
      push_bit 16 (sint (ucast (drop_bit 16 w) :: u16)) OR uint (ucast w :: u16)"
    by (rule disjunctive_add) (auto simp: bit_simps bit_uint_iff dest: bit_imp_le_length)
  also have "\<dots> = sint w"
    by (rule bit_eqI) (auto simp: bit_simps bit_uint_iff bit_sint_iff min_def not_less dest: bit_imp_le_length)
  finally show ?thesis by (simp add: push_bit_eq_mult)
qed

lemma ucast_word_of_int: "(ucast (word_of_int p :: u32) :: u16) = word_of_int p"
  by (rule bit_word_eqI) (simp add: bit_simps)

lemma put_pair_other: "i \<noteq> reg \<Longrightarrow> odd reg \<or> i \<noteq> reg + 1 \<Longrightarrow> R (put_pair reg w r) i = R r i"
  by (auto simp: put_pair_def Let_def even_iff_mod_2_eq_zero)

lemma put_pair_value:
  "even reg \<Longrightarrow> 0x10000 * sint (R (put_pair reg w r) reg) + uint (R (put_pair reg w r) (reg + 1)) = sint w"
  "odd reg \<Longrightarrow> R (put_pair reg w r) reg = ucast w"
  using word_halves[of w] by (simp_all add: put_pair_def Let_def even_iff_mod_2_eq_zero)

lemma mul_finish_cc:
  fixes a b :: u16
  assumes "\<not> cc_frozen r" and p: "p = sint a * sint b"
  shows "mul_finish reg a b r =
    set_cc (p < 0) (p = 0) False (p < - 0x8000 \<or> 0x8000 \<le> p) (put_pair reg (word_of_int p) r)"
proof -
  have w: "scast a * scast b = (word_of_int p :: u32)" by (simp add: p)
  have s: "sint (word_of_int p :: u32) = p" using sint_product[of a b] unfolding w p .
  have z: "(word_of_int p = (0::u32)) = (p = 0)" using s by (metis sint_0 of_int_0)
  have c: "(0x7FFF < p \<or> p < - 0x8000) = (p < - 0x8000 \<or> 0x8000 \<le> p)" by auto
  show ?thesis unfolding mul_finish_def Let_def w s z c
    using assms(1) by (simp add: set_flags_znvc)
qed

definition div_fits :: "u32 \<Rightarrow> u16 \<Rightarrow> bool" where
  "div_fits D d = (d \<noteq> 0 \<and> - 0x8000 \<le> sint D sdiv sint d \<and> sint D sdiv sint d < 0x8000)"

lemma div_finish_overflow:
  assumes "\<not> cc_frozen r" "\<not> div_fits D d"
  shows "R (div_finish reg D d r) = R r \<and> flag_is_set FLAG_V (div_finish reg D d r)"
proof -
  consider "d = 0" | "d \<noteq> 0" "D = 0x80000000" "sint d = -1" 
    | "d \<noteq> 0" "\<not> (D = 0x80000000 \<and> sint d = -1)" "0x7FFF < sint D sdiv sint d \<or> sint D sdiv sint d < - 0x8000"
    using assms(2) unfolding div_fits_def by linarith
  then show ?thesis using assms(1)
    by cases (simp_all add: div_finish_def Let_def V_flags)
qed

lemma div_finish_fits:
  assumes "\<not> cc_frozen r" "div_fits D d" "reg mod 2 = 0"
  shows "div_finish reg D d r =
    set_cc (sint D sdiv sint d < 0) (sint D sdiv sint d = 0) False False
      (r\<lparr>R := (R r)(reg := word_of_int (sint D sdiv sint d), reg + 1 := word_of_int (sint D smod sint d))\<rparr>)"
proof -
  have "\<not> (D = 0x80000000 \<and> sint d = -1)" using assms(2) by (auto simp: div_fits_def)
  moreover have "clear_flag FLAG_C (clear_flag FLAG_V (set_flag_if z FLAG_Z (set_flag_if n FLAG_N r0))) =
      set_cc n z False False r0" if "\<not> cc_frozen r0" for n z and r0 :: "'a regs"
    using set_flags_nzvc[OF that, where c = False and v = False] by (simp add: set_flag_if_def)
  ultimately show ?thesis using assms
    by (auto simp: div_finish_def Let_def div_fits_def minus_mult_sdiv_eq_smod)
qed

lemma div_finish_quotient:
  fixes D :: u32 and d :: u16 and reg :: nat and r :: "'m regs"
  assumes "reg mod 2 = 0" "\<not> cc_frozen r"
  defines "r' \<equiv> div_finish reg D d r"
  shows "if flag_is_set FLAG_V r' then R r' = R r \<and> \<not> div_fits D d
    else sint D = sint d * sint (R r' reg) + sint (R r' (reg + 1)) \<and>
      \<bar>sint (R r' (reg + 1))\<bar> < \<bar>sint d\<bar> \<and>
      (sint (R r' (reg + 1)) = 0 \<or> sgn (sint (R r' (reg + 1))) = sgn (sint D))"
proof (cases "div_fits D d")
  case False
  then show ?thesis using div_finish_overflow[OF assms(2), of D d reg] by (simp add: r'_def)
next
  case True
  define q m where "q = sint D sdiv sint d" "m = sint D smod sint d"
  have d: "sint d \<noteq> 0" using True by (metis div_fits_def signed_word_eqI sint_0)
  have q: "- 0x8000 \<le> q" "q < 0x8000" using True by (simp_all add: div_fits_def q_m_def)
  have m: "\<bar>m\<bar> < \<bar>sint d\<bar>" using smod_int_range[OF d, of "sint D"] by (simp add: q_m_def) linarith
  then have m16: "- 0x8000 \<le> m" "m < 0x8000" using sint16_range[of d] by linarith+
  have r': "r' = set_cc (q < 0) (q = 0) False False (r\<lparr>R := (R r)(reg := word_of_int q, reg + 1 := word_of_int m)\<rparr>)"
    using div_finish_fits[OF assms(2) True assms(1)] by (simp add: r'_def q_m_def)
  then have "sint (R r' reg) = q" "sint (R r' (reg + 1)) = m" "\<not> flag_is_set FLAG_V r'"
    using sint16_of_int[OF q] sint16_of_int[OF m16] by (simp_all add: set_cc_flag) (simp_all add: set_cc_def)
  moreover have "sint D = sint d * q + m" by (simp add: q_m_def mult_sdiv_smod_eq)
  moreover have "m = 0 \<or> sgn m = sgn (sint D)"
  proof -
    obtain k where k: "k = \<bar>sint D\<bar> mod \<bar>sint d\<bar>" by blast
    then have "0 \<le> k" "m = sgn (sint D) * k" using d by (simp_all add: q_m_def smod_int_alt_def)
    then show ?thesis by (cases "k = 0") (simp_all add: sgn_mult)
  qed
  ultimately show ?thesis using m by simp
qed

text \<open>C4: DIV of a register pair either sets V and leaves all registers as they were, because the quotient does not exist or does not fit, or leaves quotient and remainder with dividend = divisor * quotient + remainder, a remainder smaller than the divisor, of the sign of the dividend.\<close>
theorem DIV_register:
  assumes "model r \<noteq> K1801VM1" "op AND 0x38 = 0" "\<not> fAbort r" "\<not> cc_frozen r" "even (src_reg_no op)"
  defines "q \<equiv> src_reg_no op" and "D \<equiv> get_pair (src_reg_no op) r" and "d \<equiv> R r (dst_reg_no op)"
  shows "\<exists>r'. exec_DIV b t op r = step_end r' \<and>
    (if flag_is_set FLAG_V r' then R r' = R r \<and> \<not> div_fits D d
     else sint D = sint d * sint (R r' q) + sint (R r' (q + 1)) \<and>
       \<bar>sint (R r' (q + 1))\<bar> < \<bar>sint d\<bar> \<and>
       (sint (R r' (q + 1)) = 0 \<or> sgn (sint (R r' (q + 1))) = sgn (sint D)))"
proof -
  have "exec_DIV b t op r = step_end (div_finish q D d r)"
    using assms(1-3)
    by (simp add: exec_DIV_def Let_def DECODE_DST_def decode_register get_data_word_def unless_abort_def
        dst_reg_no_def q_def D_def d_def)
  then show ?thesis using div_finish_quotient[of q r D d] assms(4,5) by (auto simp: q_def)
qed

theorem DIV_register_witness:
  "\<exists>r'. exec_DIV stub stub_trap 0x7202 (j11_with ((\<lambda>i. 0)(1 := 7, 2 := -2))) = step_end r' \<and>
     (flag_is_set FLAG_V r' \<or> 7 = sint (R r' 1) - 2 * sint (R r' 0))"
proof -
  have "get_pair 0 (j11_with ((\<lambda>i. 0)(1 := 7, 2 := -2))) = 7" by (simp add: get_pair_def)
  then show ?thesis
  using DIV_register[of "j11_with ((\<lambda>i. 0)(1 := 7, 2 := -2))" "0x7202" stub stub_trap]
  by (auto simp: src_reg_no_def dst_reg_no_def split: if_split_asm)
qed

text \<open>ASH shifts the signed register value by the six-bit signed count (left: times a power of two modulo 2^16, right: floor division); V is set exactly when a left shift changes the value, C is the last bit shifted out.\<close>
theorem ASH_register:
  assumes "model r \<noteq> K1801VM1" "op AND 0x38 = 0" "\<not> fAbort r" "\<not> cc_frozen r"
  shows "exec_ASH b t op r =
    (let n = unat (R r (unat (op AND 7)) AND 0x3F);
         s = sint (R r (src_reg_no op));
         res = (word_of_int (shifted s n) :: u16)
     in step_end (set_cc (sint res < 0) (res = 0) (n < 32 \<and> (shifted s n < - 0x8000 \<or> 0x8000 \<le> shifted s n))
          (shifted_out 16 s n) (r\<lparr>R := (R r)(src_reg_no op := res)\<rparr>)))"
proof -
  define n where "n = unat (R r (unat (op AND 7)) AND 0x3F)"
  obtain w v c where a: "ash_shift (R r (src_reg_no op)) n = (w, v, c)" by (metis prod_cases3)
  show ?thesis
    using assms ash_shift_spec[OF _ a] count_lt a
    by (simp add: exec_ASH_def Let_def DECODE_DST_def decode_register GET_WORD_def get_data_word_def unless_abort_def
     n_def flags_R_comm set_cc_R_comm set_flags_vcnz sign_of_int16)
qed

theorem ASH_register_witness:
  "exec_ASH stub stub_trap 0x7401 (j11_with ((\<lambda>i. 0)(0 := -4, 1 := 0x3F))) =
   step_end (set_cc True False False False (j11_with ((\<lambda>i. 0)(0 := -2, 1 := 0x3F))))"
  using ASH_register[of "j11_with ((\<lambda>i. 0)(0 := -4, 1 := 0x3F))" "0x7401" stub stub_trap]
  by (simp add: src_reg_no_def dst_reg_no_def shifted_def shifted_out_def Let_def fun_upd_twist)

lemma modify_word_register:
  assumes "op AND 0x38 = 0" "\<not> fAbort r"
  shows "modify_word b t alu op r =
    (case alu (R r (dst_reg_no op)) (flag_is_set FLAG_C r) of
       (res, cc) \<Rightarrow> step_end (cc (r\<lparr>R := (R r)(dst_reg_no op := res)\<rparr>)))"
  using assms
  by (simp add: modify_word_def DECODE_DST_def decode_register GET_WORD_def get_data_word_def
      unless_abort_def PUT_WORD_register dst_reg_no_def case_prod_beta)

lemmas alu_cc_simps = Let_def PSW_SET_NZVC_WORD_cc and_sign_neg not_le not_less

lemma sint16_ends: "(sint (x::u16) = 0x7FFF) = (x = 0x7FFF)" "(sint (x::u16) = - 0x8000) = (x = 0x8000)"
proof -
  show "(sint (x::u16) = 0x7FFF) = (x = 0x7FFF)"
    using signed_word_eqI[of x "0x7FFF"] by auto
  show "(sint (x::u16) = - 0x8000) = (x = 0x8000)"
    using signed_word_eqI[of x "0x8000"] by auto
qed
lemma uint16_end: "(uint (x::u16) = 0xFFFF) = (x = 0xFFFF)"
  by (simp add: word_uint_eq_iff)


lemma inc_overflow: "(x = 0x7FFF) = (sint x + 1 \<noteq> sint (x + 1 :: u16))"
  using uint16[of x] sint16_ends(1)[of x] by (simp add: sint16 uint_plus_if' split: if_splits) linarith

lemma dec_overflow: "(x = 0x8000) = (sint x - 1 \<noteq> sint (x - 1 :: u16))"
  using uint16[of x] sint16_ends(2)[of x] by (auto simp add: sint16 uint_sub_if' split: if_splits)

lemma neg_overflow: "(- x = (0x8000::u16)) = (sint (- x) \<noteq> - sint x)"
proof -
  obtain y where [simp]: "uint x = y" by blast
  have "0 \<le> y" "y < 0x10000" using uint16[of x] by simp_all
  moreover have "(- x = 0x8000) = (x = 0x8000)" using minus_equation_iff[of x "0x8000"] by auto
  ultimately show ?thesis
    using sint16_ends(2)[of x] uint_sub_if'[of 0 x] by (auto simp: sint16 split: if_splits)
qed


lemma ones_complement_plus_1: "(0xFFFF - x) + 1 = - (x::u16)"
proof -
  have "(0xFFFF::u16) = -1" by simp
  then have "(0xFFFF - x) + 1 = (-1 - x) + 1" by metis
  then show ?thesis by simp
qed

lemma alu_INC_cc:
  "fst (alu_INC x c) = x + 1"
  "\<not> cc_frozen r \<Longrightarrow> snd (alu_INC x c) r =
      set_cc (sint (x + 1) < 0) (x + 1 = 0) (sint (x + 1) \<noteq> sint x + 1) (flag_is_set FLAG_C r) r"
  using inc_overflow[of x] by (auto simp: alu_INC_def alu_cc_simps)

lemma alu_DEC_cc:
  "fst (alu_DEC x c) = x - 1"
  "\<not> cc_frozen r \<Longrightarrow> snd (alu_DEC x c) r =
      set_cc (sint (x - 1) < 0) (x = 1) (sint (x - 1) \<noteq> sint x - 1) (flag_is_set FLAG_C r) r"
  using dec_overflow[of x] by (auto simp: alu_DEC_def alu_cc_simps)

lemma alu_NEG_cc:
  "fst (alu_NEG x c) = - x"
  "\<not> cc_frozen r \<Longrightarrow> snd (alu_NEG x c) r =
      set_cc (sint (- x) < 0) (x = 0) (sint (- x) \<noteq> - sint x) (x \<noteq> 0) r"
  using neg_overflow[of x] unfolding alu_NEG_def Let_def ones_complement_plus_1
  by (simp_all add: alu_cc_simps)

lemma alu_ADC_cc:
  "fst (alu_ADC x c) = x + of_bool c"
  "\<not> cc_frozen r \<Longrightarrow> snd (alu_ADC x c) r =
      set_cc (sint (x + of_bool c) < 0) (x + of_bool c = 0) (sint (x + of_bool c) \<noteq> sint x + of_bool c)
        (0x10000 \<le> uint x + of_bool c) r"
proof -
  have "(0x10000 \<le> uint x + 1) = (x = 0xFFFF)" using uint16[of x] uint16_end[of x] by linarith
  then show "\<not> cc_frozen r \<Longrightarrow> snd (alu_ADC x c) r =
      set_cc (sint (x + of_bool c) < 0) (x + of_bool c = 0) (sint (x + of_bool c) \<noteq> sint x + of_bool c)
        (0x10000 \<le> uint x + of_bool c) r"
    using inc_overflow[of x] uint16[of x] by (cases c) (auto simp: alu_ADC_def alu_cc_simps)
qed (simp add: alu_ADC_def Let_def)

lemma alu_SBC_cc:
  "fst (alu_SBC x c) = x - of_bool c"
  "\<not> cc_frozen r \<Longrightarrow> snd (alu_SBC x c) r =
      set_cc (sint (x - of_bool c) < 0) (x - of_bool c = 0) (sint (x - of_bool c) \<noteq> sint x - of_bool c)
        (uint x < of_bool c) r"
proof -
  have "(uint x < 1) = (x = 0)" proof -
    have "(uint x < 1) = (uint x = 0)" using uint16(1)[of x] by linarith
    then show ?thesis by (simp add: word_uint_eq_iff)
  qed
  then show "\<not> cc_frozen r \<Longrightarrow> snd (alu_SBC x c) r =
      set_cc (sint (x - of_bool c) < 0) (x - of_bool c = 0) (sint (x - of_bool c) \<noteq> sint x - of_bool c)
        (uint x < of_bool c) r"
    using dec_overflow[of x] uint16[of x] by (cases c) (auto simp: alu_SBC_def alu_cc_simps)
qed (simp add: alu_SBC_def Let_def)


lemma bit_sign16: "bit (0x8000::u16) n = (n = 15)"
  using bit_exp_iff[of 15 n, where 'a = "16 word"] by auto

lemma bit_sign_num: "bit (0x8000::int) n = (n = 15)" "bit (0x8000::nat) n = (n = 15)"
  using bit_exp_iff[of 15 n, where 'a = int] bit_exp_iff[of 15 n, where 'a = nat] by auto

lemma bit_double16: "bit (x * 2) n = (0 < n \<and> n < 16 \<and> bit (x::u16) (n - 1))"
  using bit_double_iff[of x n] by (auto simp: mult.commute)

section \<open>Shifts and rotations by one place\<close>

lemma alu_ASR_cc:
  "sint (fst (alu_ASR x c)) = sint x div 2"
  "\<not> cc_frozen r \<Longrightarrow> snd (alu_ASR x c) r =
      set_cc (sint x < 0) (fst (alu_ASR x c) = 0) ((sint x < 0) \<noteq> odd (sint x)) (odd (sint x)) r"
proof -
  have "fst (alu_ASR x c) = word_of_int (sint x div 2)"
  proof (rule bit_word_eqI)
    fix n assume "n < LENGTH(16)"
    then consider "n < 14" | "n = 14" | "n = 15" by fastforce
    then show "bit (fst (alu_ASR x c)) n = bit (word_of_int (sint x div 2) :: u16) n"
      by cases (auto simp: alu_ASR_def Let_def bit_simps bit_sign_num bit_word_of_int_iff dest: bit_imp_le_length simp flip: bit_Suc)
  qed
  moreover have "- 0x8000 \<le> sint x div 2" "sint x div 2 < 0x8000" using sint16_range[of x] by linarith+
  ultimately show *: "sint (fst (alu_ASR x c)) = sint x div 2"
    using sint16_of_int by metis
  have "odd (sint x) = (x AND 1 \<noteq> 0)"
    using bit_0[of "sint x"] bit_sint_iff[of x 0] by (simp add: and_one_eq odd_iff_mod_2_eq_one bit_0)
  then show "\<not> cc_frozen r \<Longrightarrow> snd (alu_ASR x c) r =
      set_cc (sint x < 0) (fst (alu_ASR x c) = 0) ((sint x < 0) \<noteq> odd (sint x)) (odd (sint x)) r"
   using * by (simp add: alu_ASR_def Let_def PSW_SET_NZVC_WORD_cc and_sign_neg)
qed
lemma alu_ASL_cc:
  "fst (alu_ASL x c) = 2 * x"
  "\<not> cc_frozen r \<Longrightarrow> snd (alu_ASL x c) r =
      set_cc (sint (2 * x) < 0) (2 * x = 0) (sint (2 * x) \<noteq> 2 * sint x) (0x8000 \<le> uint x) r"
proof -
  have d: "push_bit 1 x = 2 * x" by (simp add: push_bit_eq_mult)
  have sg: "z AND 0x8000 = (if sint z < 0 then 0x8000 else 0)" for z :: u16
    using and_exp_bit[of z 15] bit15[of z] sint16[of z] uint16[of z] by simp
  have v: "((sint (2 * x) < 0) \<noteq> (sint x < 0)) = (sint (2 * x) \<noteq> 2 * sint x)"
  proof -
    obtain y where [simp]: "uint x = y" by blast
    have "0 \<le> y" "y < 0x10000" using uint16[of x] by simp_all
    then show ?thesis using uint_plus_if'[of x x] by (auto simp: sint16 split: if_splits)
  qed
  have c: "(0x8000 \<le> uint x) = (sint x < 0)" using uint16[of x] by (simp add: sint16)
  show "fst (alu_ASL x c) = 2 * x" by (simp add: alu_ASL_def Let_def d)
  show "snd (alu_ASL x c) r =
      set_cc (sint (2 * x) < 0) (2 * x = 0) (sint (2 * x) \<noteq> 2 * sint x) (0x8000 \<le> uint x) r"
    if "\<not> cc_frozen r"
    using that unfolding alu_ASL_def Let_def d sg c v[symmetric] by (auto simp: PSW_SET_NZVC_WORD_cc)
qed

text \<open>A rotation moves the 17 bits of the operand and the carry.\<close>
lemma alu_ROR_ROL: "fst (alu_ROR (fst (alu_ROL x c)) (bit x 15)) = x"
proof (rule bit_word_eqI)
  fix n assume "n < LENGTH(16)"
  then consider "n < 15" | "n = 15" by fastforce
  then show "bit (fst (alu_ROR (fst (alu_ROL x c)) (bit x 15))) n = bit x n"
    by cases (auto simp: alu_ROR_def alu_ROL_def Let_def bit_simps bit_sign_num bit_double16)
qed

lemma alu_ROR_carry: "\<not> cc_frozen r \<Longrightarrow> flag_is_set FLAG_C (snd (alu_ROR x c) r) = odd x"
  by (simp add: alu_ROR_def Let_def PSW_SET_NZVC_WORD_cc set_cc_flag and_one_eq odd_iff_mod_2_eq_one)


lemma set_cc_fields [simp]:
  "R (set_cc n z v c r) = R r" "fAbort (set_cc n z v c r) = fAbort r" "cc_frozen (set_cc n z v c r) = cc_frozen r"
  "model (set_cc n z v c r) = model r"
  by (simp_all add: set_cc_def)

lemma flag_is_set_R [simp]: "flag_is_set f (r\<lparr>R := x\<rparr>) = flag_is_set f r"
  by (simp add: flag_is_set_def)

lemma alu_ROL_cc: "\<not> cc_frozen r \<Longrightarrow> \<exists>n z v. snd (alu_ROL x c) r = set_cc n z v (bit x 15) r"
  using and_exp_bit[of x 15] by (auto simp: alu_ROL_def Let_def PSW_SET_NZVC_WORD_cc)

lemma alu_ROR_cc: "\<not> cc_frozen r \<Longrightarrow> \<exists>n z v. snd (alu_ROR x c) r = set_cc n z v (odd x) r"
  by (auto simp: alu_ROR_def Let_def PSW_SET_NZVC_WORD_cc and_one_eq odd_iff_mod_2_eq_one)

lemma odd_ROL: "odd (fst (alu_ROL x c)) = c"
  by (auto simp: alu_ROL_def Let_def bit_simps bit_double16 simp flip: bit_0)

lemma rotate_step:
  assumes "op AND 0x38 = 0" "\<not> fAbort r" "\<not> cc_frozen r"
    and "\<And>x c r. \<not> cc_frozen r \<Longrightarrow> \<exists>n z v. snd (alu x c) r = set_cc n z v (carry x) r"
  shows "\<exists>r'. modify_word b t alu op r = step_end r' \<and>
    R r' = (R r)(dst_reg_no op := fst (alu (R r (dst_reg_no op)) (flag_is_set FLAG_C r))) \<and>
    flag_is_set FLAG_C r' = carry (R r (dst_reg_no op)) \<and> \<not> fAbort r' \<and> \<not> cc_frozen r'"
proof -
  obtain res cc where a: "alu (R r (dst_reg_no op)) (flag_is_set FLAG_C r) = (res, cc)" by fastforce
  obtain n z v where "cc (r\<lparr>R := (R r)(dst_reg_no op := res)\<rparr>) =
      set_cc n z v (carry (R r (dst_reg_no op))) (r\<lparr>R := (R r)(dst_reg_no op := res)\<rparr>)"
    using assms(4)[of "r\<lparr>R := (R r)(dst_reg_no op := res)\<rparr>" "R r (dst_reg_no op)" "flag_is_set FLAG_C r"] assms(3) a
    by auto
  then show ?thesis using assms(1-3) a by (auto simp: modify_word_register set_cc_flag)
qed

text \<open>ROL followed by ROR of the same register restores all registers and the carry: the two rotate the 17 bits of register and carry in opposite directions.\<close>
theorem ROL_then_ROR:
  fixes r :: "'m regs"
  assumes "op AND 0x38 = 0" "\<not> fAbort r" "\<not> cc_frozen r"
  shows "\<exists>r1 r2. modify_word b t alu_ROL op r = step_end r1 \<and> modify_word b t alu_ROR op r1 = step_end r2 \<and>
    R r2 = R r \<and> flag_is_set FLAG_C r2 = flag_is_set FLAG_C r"
proof -
  define d x f where "d = dst_reg_no op" "x = R r d" "f = flag_is_set FLAG_C r"
  define y where "y = fst (alu_ROL x f :: u16 \<times> 'm cc)"
  obtain r1 where r1: "modify_word b t alu_ROL op r = step_end r1" "R r1 = (R r)(d := y)"
      "flag_is_set FLAG_C r1 = bit x 15" "\<not> fAbort r1" "\<not> cc_frozen r1"
    using rotate_step[where alu = alu_ROL and carry = "\<lambda>x. bit x 15", OF assms alu_ROL_cc, of b t] by (auto simp: d_x_f_def y_def)
  obtain r2 where r2: "modify_word b t alu_ROR op r1 = step_end r2"
      "R r2 = (R r1)(d := fst (alu_ROR y (bit x 15) :: u16 \<times> 'm cc))" "flag_is_set FLAG_C r2 = odd y"
    using rotate_step[where alu = alu_ROR and carry = odd, OF assms(1) r1(4,5) alu_ROR_cc, of b t] r1(2,3) by (auto simp: d_x_f_def)
  have "fst (alu_ROR y (bit x 15) :: u16 \<times> 'm cc) = x" by (simp add: y_def alu_ROR_ROL)
  then have "R r2 = R r" using r1(2) r2(2) by (auto simp: d_x_f_def)
  then show ?thesis using r1(1) r2(1,3) by (auto simp: y_def odd_ROL d_x_f_def)
qed

theorem ROL_then_ROR_witness:
  "\<exists>r1 r2. modify_word stub stub_trap alu_ROL 0x0C41 (j11_with ((\<lambda>i. 0)(1 := 0x8001))) = step_end r1 \<and>
     modify_word stub stub_trap alu_ROR 0x0C41 r1 = step_end r2 \<and> R r2 1 = 0x8001"
  using ROL_then_ROR[of "0x0C41" "j11_with ((\<lambda>i. 0)(1 := 0x8001))" stub stub_trap] by auto

lemma ADD_step:
  assumes "op AND 0xF000 = 0x6000" "regs_only op" "\<not> fAbort r" "\<not> cc_frozen r"
  shows "\<exists>r'. exec_double b t op r = step_end r' \<and>
    R r' = (R r)(dst_reg_no op := R r (src_reg_no op) + R r (dst_reg_no op)) \<and>
    flag_is_set FLAG_C r' = (0x10000 \<le> uint (R r (src_reg_no op)) + uint (R r (dst_reg_no op))) \<and>
    \<not> fAbort r' \<and> \<not> cc_frozen r'"
  using assms by (auto simp: exec_double_def combine_word_def OPERANDS_WORD_registers
      PUT_WORD_register case_prod_beta alu_ADD_cc set_cc_flag)

lemma ADC_step:
  assumes "op AND 0xFFC0 = 0xB40" "op AND 0x38 = 0" "\<not> fAbort r" "\<not> cc_frozen r"
  shows "\<exists>r'. exec_single b t op p r = step_end r' \<and>
    R r' = (R r)(dst_reg_no op := R r (dst_reg_no op) + of_bool (flag_is_set FLAG_C r)) \<and>
    \<not> fAbort r' \<and> \<not> cc_frozen r'"
  using assms by (auto simp: exec_single_def modify_word_register case_prod_beta alu_ADC_cc)

lemma two_word_sum:
  fixes a b c d :: u16
  shows "(0x10000 * uint (c + (d + of_bool (0x10000 \<le> uint a + uint b))) + uint (a + b)) mod 2 ^ 32 =
    ((0x10000 * uint d + uint b) + (0x10000 * uint c + uint a)) mod 2 ^ 32"
proof -
  define k :: int where "k = of_bool (0x10000 \<le> uint a + uint b)"
  have lo: "uint (a + b) = uint a + uint b - 0x10000 * k"
    using uint16[of a] uint16[of b] by (simp add: k_def uint_plus_if')
  have "uint (c + (d + of_bool (0x10000 \<le> uint a + uint b))) = (uint c + (uint d + k)) mod 0x10000"
    by (simp add: k_def uint_word_ariths mod_simps)
  then have "0x10000 * uint (c + (d + of_bool (0x10000 \<le> uint a + uint b))) = (0x10000 * (uint c + (uint d + k))) mod 2 ^ 32"
    using mult_mod_right[of "0x10000" "uint c + (uint d + k)" "0x10000"] by simp
  then show ?thesis
    using mod_add_left_eq[of "0x10000 * (uint c + (uint d + k))" "2 ^ 32" "uint a + uint b - 0x10000 * k"]
    unfolding lo by (simp add: algebra_simps)
qed

text \<open>The sequence ADD low; ADC high; ADD high adds two 32-bit numbers held in register pairs modulo 2^32: the carry goes from the first instruction to the second.\<close>
theorem double_precision_ADD:
  assumes op1: "op1 AND 0xF000 = 0x6000" "regs_only op1"
    and op2: "op2 AND 0xFFC0 = 0xB40" "op2 AND 0x38 = 0"
    and op3: "op3 AND 0xF000 = 0x6000" "regs_only op3"
    and r: "\<not> fAbort r" "\<not> cc_frozen r"
    and lh: "l = dst_reg_no op1" "h = dst_reg_no op2" "h = dst_reg_no op3" "h \<noteq> l"
    and s: "src_reg_no op3 \<noteq> l" "src_reg_no op3 \<noteq> h"
  shows "\<exists>r1 r2 r3. exec_double b t op1 r = step_end r1 \<and> exec_single b t op2 p r1 = step_end r2 \<and>
    exec_double b t op3 r2 = step_end r3 \<and>
    (0x10000 * uint (R r3 h) + uint (R r3 l)) mod 2 ^ 32 =
    ((0x10000 * uint (R r h) + uint (R r l)) +
     (0x10000 * uint (R r (src_reg_no op3)) + uint (R r (src_reg_no op1)))) mod 2 ^ 32"
proof -
  obtain r1 where r1: "exec_double b t op1 r = step_end r1" "R r1 = (R r)(l := R r (src_reg_no op1) + R r l)"
    "flag_is_set FLAG_C r1 = (0x10000 \<le> uint (R r (src_reg_no op1)) + uint (R r l))" "\<not> fAbort r1" "\<not> cc_frozen r1"
    using ADD_step[OF op1 r] lh by blast
  obtain r2 where r2: "exec_single b t op2 p r1 = step_end r2" "\<not> fAbort r2" "\<not> cc_frozen r2"
    "R r2 = (R r1)(h := R r1 h + of_bool (flag_is_set FLAG_C r1))"
    using ADC_step[OF op2 r1(4,5)] lh by blast
  obtain r3 where r3: "exec_double b t op3 r2 = step_end r3"
    "R r3 = (R r2)(h := R r2 (src_reg_no op3) + R r2 h)"
    using ADD_step[OF op3 r2(2,3), of b t] lh by auto
  have lo: "R r3 l = R r (src_reg_no op1) + R r l"
    using r1(2) r2(4) r3(2) lh by simp
  have hi: "R r3 h = R r (src_reg_no op3) + (R r h + of_bool (0x10000 \<le> uint (R r (src_reg_no op1)) + uint (R r l)))"
    using r1(2,3) r2(4) r3(2) lh s by simp
  have "(0x10000 * uint (R r3 h) + uint (R r3 l)) mod 2 ^ 32 =
    ((0x10000 * uint (R r h) + uint (R r l)) +
     (0x10000 * uint (R r (src_reg_no op3)) + uint (R r (src_reg_no op1)))) mod 2 ^ 32"
    unfolding lo hi by (rule two_word_sum)
  then show ?thesis using r1(1) r2(1) r3(1) by blast
qed

theorem double_precision_ADD_witness:
  "\<exists>r1 r2 r3. exec_double stub stub_trap 0x6001 (j11_with ((\<lambda>i. 0)(0 := 0xFFFF, 1 := 1, 2 := 5, 3 := 6))) = step_end r1 \<and>
     exec_single stub stub_trap 0x0B43 0 r1 = step_end r2 \<and> exec_double stub stub_trap 0x6083 r2 = step_end r3 \<and>
     (0x10000 * uint (R r3 3) + uint (R r3 1)) mod 2 ^ 32 = 0xC0000"
proof -
  let ?f = "(\<lambda>i. 0)(0 := 0xFFFF, 1 := 1, 2 := 5, 3 := 6) :: nat \<Rightarrow> u16"
  have regs: "1 = dst_reg_no 0x6001" "3 = dst_reg_no 0x0B43" "3 = dst_reg_no 0x6083" "(3::nat) \<noteq> 1"
    "src_reg_no 0x6083 \<noteq> 1" "src_reg_no 0x6083 \<noteq> 3" "src_reg_no 0x6083 = 2" "src_reg_no 0x6001 = 0"
    by (simp_all add: dst_reg_no_def src_reg_no_def)
  have "(0x10000 * uint (?f 3) + uint (?f 1) + (0x10000 * uint (?f 2) + uint (?f 0))) mod 2 ^ 32 = 0xC0000" by simp
  then show ?thesis
    using double_precision_ADD[of "0x6001" "0x0B43" "0x6083" "j11_with ?f", OF _ _ _ _ _ _ _ _ regs(1-6), of stub stub_trap 0]
    by (simp only: regs(7,8)) (simp add: regs_only_def)
qed

text \<open>
  What the arithmetic single-operand instructions compute, as exact integers: the signed
  value of the result before it is cut to 16 bits, and the carry.
\<close>

definition unary_value :: "u16 \<Rightarrow> u16 \<Rightarrow> bool \<Rightarrow> (int \<times> bool) option" where
  "unary_value op x c =
     (let o6 = op AND 0xFFC0
      in if o6 = 0xA80 then Some (sint x + 1, c)
         else if o6 = 0xAC0 then Some (sint x - 1, c)
         else if o6 = 0xB00 then Some (- sint x, x \<noteq> 0)
         else if o6 = 0xB40 then Some (sint x + of_bool c, 0x10000 \<le> uint x + of_bool c)
         else if o6 = 0xB80 then Some (sint x - of_bool c, uint x < of_bool c)
         else if o6 = 0xCC0 then Some (2 * sint x, 0x8000 \<le> uint x)
         else None)"

text \<open>INC, DEC, NEG, ADC, SBC and ASL of a register: the result is the exact integer value cut to 16 bits, V is set exactly when that value does not fit, and C is the carry (INC and DEC keep it).\<close>
theorem unary_arithmetic:
  assumes "unary_value op (R r d) (flag_is_set FLAG_C r) = Some (v, carry)"
    and "d = dst_reg_no op" "op AND 0x38 = 0" "\<not> fAbort r" "\<not> cc_frozen r"
  defines "res \<equiv> (word_of_int v :: u16)"
  shows "exec_single b t op p r =
    step_end (set_cc (sint res < 0) (res = 0) (sint res \<noteq> v) carry (r\<lparr>R := (R r)(d := res)\<rparr>))"
proof -
  consider "op AND 0xFFC0 = 0xA80" | "op AND 0xFFC0 = 0xAC0" | "op AND 0xFFC0 = 0xB00"
    | "op AND 0xFFC0 = 0xB40" | "op AND 0xFFC0 = 0xB80" | "op AND 0xFFC0 = 0xCC0"
    using assms(1) by (simp add: unary_value_def Let_def split: if_split_asm)
  then show ?thesis using assms
    by cases (auto simp: unary_value_def exec_single_def modify_word_register case_prod_beta
     alu_INC_cc alu_DEC_cc alu_NEG_cc alu_ADC_cc alu_SBC_cc alu_ASL_cc)
qed

theorem unary_arithmetic_witness:
  "exec_single stub stub_trap 0x0A81 0 (j11_with ((\<lambda>i. 0)(1 := 0x7FFF))) =
   step_end (set_cc True False True False (j11_with ((\<lambda>i. 0)(1 := 0x8000))))"
  using unary_arithmetic[of "0x0A81" "j11_with ((\<lambda>i. 0)(1 := 0x7FFF))" 1 "0x8000" False stub stub_trap 0]
  by (simp add: unary_value_def dst_reg_no_def flag_is_set_def)

text \<open>C3: MUL of two registers on every model but the VM1 (which has no MUL and traps), with no abort pending and the condition codes not frozen: with p the exact product of the two signed 16-bit values, an even destination register R gets the high half of p and R+1 the low half (65536 * signed R + unsigned R+1 = p exactly), an odd one gets only the low 16 bits of p; no other register changes; N and Z describe p, V is 0, C is set exactly when p does not fit in 16 bits.\<close>
theorem MUL_register:
  assumes "model r \<noteq> K1801VM1" "op AND 0x38 = 0" "\<not> fAbort r" "\<not> cc_frozen r"
  defines "p \<equiv> sint (R r (src_reg_no op)) * sint (R r (dst_reg_no op))" and "s \<equiv> src_reg_no op"
  shows "\<exists>f. exec_MUL b t op r =
      step_end (set_cc (p < 0) (p = 0) False (p < - 0x8000 \<or> 0x8000 \<le> p) (r\<lparr>R := f\<rparr>)) \<and>
    (if even s then 0x10000 * sint (f s) + uint (f (s + 1)) = p \<and> (\<forall>i. i \<noteq> s \<and> i \<noteq> s + 1 \<longrightarrow> f i = R r i)
     else f s = word_of_int p \<and> (\<forall>i. i \<noteq> s \<longrightarrow> f i = R r i))"
proof -
  define f where "f = R (put_pair s (word_of_int p) r)"
  have e: "exec_MUL b t op r =
    step_end (set_cc (p < 0) (p = 0) False (p < - 0x8000 \<or> 0x8000 \<le> p) (put_pair s (word_of_int p) r))"
    using assms(1-4) mul_finish_cc[OF assms(4) p_def[THEN meta_eq_to_obj_eq], of "src_reg_no op"]
    by (simp add: s_def exec_MUL_def Let_def DECODE_DST_def decode_register get_data_word_def unless_abort_def dst_reg_no_def)
  have r: "put_pair s (word_of_int p) r = r\<lparr>R := f\<rparr>" by (simp add: f_def put_pair_def Let_def)
  have w: "sint (word_of_int p :: u32) = p"
    using sint_product[of "R r (src_reg_no op)" "R r (dst_reg_no op)"] by (simp add: p_def)
  have "even s \<Longrightarrow> 0x10000 * sint (f s) + uint (f (s + 1)) = p" "odd s \<Longrightarrow> f s = word_of_int p"
    using put_pair_value[of s "word_of_int p" r] unfolding f_def w ucast_word_of_int by blast+
  moreover have "i \<noteq> s \<Longrightarrow> odd s \<or> i \<noteq> s + 1 \<Longrightarrow> f i = R r i" for i
    unfolding f_def by (rule put_pair_other)
  ultimately show ?thesis using e unfolding r by (intro exI[of _ f]) auto
qed

theorem MUL_register_witness:
  "(\<exists>f. exec_MUL stub stub_trap 0x7001 (j11_with ((\<lambda>i. 0)(0 := 0x8000, 1 := 3))) =
     step_end (set_cc True False False True (j11_with f)) \<and> 0x10000 * sint (f 0) + uint (f 1) = - 0x18000) \<and>
   (\<exists>f. exec_MUL stub stub_trap 0x7042 (j11_with ((\<lambda>i. 0)(1 := 0x8000, 2 := 3))) =
     step_end (set_cc True False False True (j11_with f)) \<and> f 1 = 0x8000 \<and> f 2 = 3)"
proof
  have d: "src_reg_no 0x7001 = 0" "dst_reg_no 0x7001 = 1" "src_reg_no 0x7042 = 1" "dst_reg_no 0x7042 = 2"
    by (simp_all add: src_reg_no_def dst_reg_no_def)
  show "\<exists>f. exec_MUL stub stub_trap 0x7001 (j11_with ((\<lambda>i. 0)(0 := 0x8000, 1 := 3))) =
     step_end (set_cc True False False True (j11_with f)) \<and> 0x10000 * sint (f 0) + uint (f 1) = - 0x18000"
    using MUL_register[of "j11_with ((\<lambda>i. 0)(0 := 0x8000, 1 := 3))" "0x7001" stub stub_trap]
    unfolding d by (auto simp: regs_only_def)
  show "\<exists>f. exec_MUL stub stub_trap 0x7042 (j11_with ((\<lambda>i. 0)(1 := 0x8000, 2 := 3))) =
     step_end (set_cc True False False True (j11_with f)) \<and> f 1 = 0x8000 \<and> f 2 = 3"
    using MUL_register[of "j11_with ((\<lambda>i. 0)(1 := 0x8000, 2 := 3))" "0x7042" stub stub_trap]
    unfolding d by auto
qed

lemma set_cc_put_pair: "set_cc n z v c (put_pair reg w r) = put_pair reg w (set_cc n z v c r)"
  by (simp add: put_pair_def Let_def set_cc_def)

lemma flags_put_pair: "set_flag_if a f (put_pair reg w r) = put_pair reg w (set_flag_if a f r)"
  by (simp add: put_pair_def Let_def flags_R_comm)

lemma sint32_neg: "(sint (w::u32) < 0) = bit w 31"
  by (simp add: sint_uint signed_take_bit_eq_if_positive not_le bit_uint_iff signed_take_bit_negative_iff)

lemma get_pair_sint: "(sint (get_pair reg r) < 0) = (R r reg AND SIGN \<noteq> 0)"
proof -
  have "(sint (get_pair reg r) < 0) = bit (get_pair reg r) 31" by (rule sint32_neg)
  also have "\<dots> = bit (R r reg) 15" by (auto simp: get_pair_def bit_simps dest: bit_imp_le_length)
  also have "\<dots> = (R r reg AND SIGN \<noteq> 0)" using and_exp_bit[of "R r reg" 15] by simp
  finally show ?thesis .
qed

lemma sign32: "((w::u32) AND 0x80000000 \<noteq> 0) = (sint w < 0)"
  using and_exp_bit[of w 31] by (simp add: sint32_neg)

text \<open>ASHC does the same on the 32-bit value of an even register pair.\<close>
theorem ASHC_register:
  assumes "model r \<noteq> K1801VM1" "op AND 0x38 = 0" "\<not> fAbort r" "\<not> cc_frozen r" "even (src_reg_no op)"
  defines "n \<equiv> unat (R r (dst_reg_no op) AND 0x3F)" and "s \<equiv> sint (get_pair (src_reg_no op) r)"
  defines "res \<equiv> word_of_int (shifted s n) :: u32"
  shows "exec_ASHC b t op r =
    step_end (set_cc (sint res < 0) (res = 0) (n < 32 \<and> (shifted s n < - 0x80000000 \<or> 0x80000000 \<le> shifted s n))
          (shifted_out 32 s n) (put_pair (src_reg_no op) res r))"
proof -
  obtain w v c where a: "ashc_shift (s < 0) (get_pair (src_reg_no op) r) n = (w, v, c)" by (metis prod_cases3)
  have n: "n < 64" using count_lt by (simp add: n_def)
  note spec = ashc_shift_spec[OF n a[unfolded s_def]]
  show ?thesis using assms(1-5) a spec
    apply (cases "model r = DCJ11") apply (simp_all add: exec_ASHC_def Let_def DECODE_DST_def decode_register GET_WORD_def get_data_word_def unless_abort_def dst_reg_no_def
     n_def s_def res_def get_pair_sint[symmetric] put_pair_even flags_put_pair set_cc_put_pair set_flags_vcnz sign32)
  done
qed

theorem ASHC_register_witness:
  "exec_ASHC stub stub_trap 0x7602 (j11_with ((\<lambda>i. 0)(1 := 3, 2 := 0x1E))) =
   step_end (set_cc True False True False (put_pair 0 0xC0000000 (j11_with ((\<lambda>i. 0)(1 := 3, 2 := 0x1E)))))"
proof -
  have "get_pair 0 (j11_with ((\<lambda>i. 0)(1 := 3, 2 := 0x1E))) = 3" by (simp add: get_pair_def)
  then show ?thesis
    using ASHC_register[of "j11_with ((\<lambda>i. 0)(1 := 3, 2 := 0x1E))" "0x7602" stub stub_trap]
    by (simp add: src_reg_no_def dst_reg_no_def shifted_def shifted_out_def Let_def)
qed

end
