(* ===== verification/Fp11Value.thy ===== *)
theory Fp11Value
  imports Hwstub
begin

text \<open>
  The 64-bit quantities of the floating point processor as numbers: \<open>fval\<close> is the value of
  the two halves of an \<open>fpac_t\<close>. The macros \<^verbatim>\<open>F_*\<close> are the operations on 64-bit words, the
  normalisation loops end with the hidden bit in place, and the multiplication and the
  division loop deliver the exact truncated product and quotient.
\<close>

section \<open>The value of two halves\<close>

definition w64 :: "fpac_t \<Rightarrow> 64 word" where
  "w64 f = push_bit 32 (ucast (fp_h f)) OR ucast (fp_l f)"

definition fval :: "fpac_t \<Rightarrow> int" where
  "fval f = uint (fp_h f) * 2 ^ 32 + uint (fp_l f)"

lemma u32: "0 \<le> uint (x::u32)" "uint (x::u32) < 0x100000000" using uint_lt2p[of x] by simp_all

lemma bit32 [simp]: "32 \<le> n \<Longrightarrow> \<not> bit (x::u32) n" by (auto dest: bit_imp_le_length)

lemma bit_w64: "bit (w64 f) n = (if n < 32 then bit (fp_l f) n else n < 64 \<and> bit (fp_h f) (n - 32))"
  by (auto simp: w64_def bit_simps dest: bit_imp_le_length)

lemma bit_fval: "bit (fval f) n = (if n < 32 then bit (fp_l f) n else bit (fp_h f) (n - 32))"
proof -
  have "fval f = push_bit 32 (uint (fp_h f)) OR uint (fp_l f)"
    unfolding fval_def push_bit_eq_mult[symmetric]
    by (rule disjunctive_add) (auto simp: bit_simps bit_uint_iff)
  then show ?thesis by (auto simp: bit_simps bit_uint_iff dest: bit_imp_le_length)
qed

lemma uint_w64: "uint (w64 f) = fval f"
  by (rule bit_eqI) (auto simp: bit_uint_iff bit_w64 bit_fval dest: bit_imp_le_length)

lemma fval_range: "0 \<le> fval f" "fval f < 2 ^ 64"
  using uint_lt2p[of "w64 f"] by (simp_all flip: uint_w64)

lemma w64_inj: "(w64 f = w64 g) = (fp_h f = fp_h g \<and> fp_l f = fp_l g)"
proof
  assume e: "w64 f = w64 g"
  have "bit (fp_l f) n = bit (fp_l g) n" if "n < 32" for n
    using bit_w64[of f n] bit_w64[of g n] that e by simp
  moreover have "bit (fp_h f) n = bit (fp_h g) n" if "n < 32" for n
    using bit_w64[of f "n + 32"] bit_w64[of g "n + 32"] that e by simp
  ultimately show "fp_h f = fp_h g \<and> fp_l f = fp_l g" by (auto intro!: bit_word_eqI)
qed (simp add: w64_def)

lemma fval_inj: "(fval f = fval g) = (fp_h f = fp_h g \<and> fp_l f = fp_l g)"
  unfolding uint_w64[symmetric] w64_inj[symmetric] by (simp add: word_uint_eq_iff)

lemma w64_LSH_V: "0 < n \<Longrightarrow> n < 64 \<Longrightarrow> w64 (F_LSH_V f n) = push_bit n (w64 f)"
  by (rule bit_word_eqI)
    (auto simp: bit_w64 F_LSH_V_def bit_simps ac_simps and_mask_def bit_mask_iff dest: bit_imp_le_length)

lemma w64_RSH_V: "0 < n \<Longrightarrow> n < 64 \<Longrightarrow> w64 (F_RSH_V f n) = drop_bit n (w64 f)"
  by (rule bit_word_eqI)
    (auto simp: bit_w64 F_RSH_V_def bit_simps ac_simps and_mask_def bit_mask_iff dest: bit_imp_le_length)

lemma w64_LSH_K: "0 < n \<Longrightarrow> n < 32 \<Longrightarrow> w64 (F_LSH_K f n) = push_bit n (w64 f)"
  using w64_LSH_V[of n f] by (simp add: F_LSH_K_def F_LSH_V_def)

lemma w64_RSH_K: "0 < n \<Longrightarrow> n < 32 \<Longrightarrow> w64 (F_RSH_K f n) = drop_bit n (w64 f)"
  using w64_RSH_V[of n f] by (simp add: F_RSH_K_def F_RSH_V_def)

lemma LSH_1_K: "F_LSH_1 f = F_LSH_K f 1"
  by (simp add: F_LSH_1_def F_LSH_K_def and_mask_def)

lemma RSH_1_K: "F_RSH_1 f = F_RSH_K f 1"
proof -
  have sh: "push_bit 31 (h AND 1) = push_bit 31 (h :: u32)" for h
  proof (rule bit_word_eqI)
    fix n assume "n < LENGTH(32)"
    then consider "n < 31" | "n = 31" by fastforce
    then show "bit (push_bit 31 (h AND 1)) n = bit (push_bit 31 h) n" by cases (auto simp: bit_simps)
  qed
  show ?thesis unfolding F_RSH_1_def F_RSH_K_def sh by (simp add: and_mask_def mask_eq_exp_minus_1)
qed

lemma fval_push: "w64 g = push_bit n (w64 f) \<Longrightarrow> fval g = fval f * 2 ^ n mod 2 ^ 64"
proof -
  assume "w64 g = push_bit n (w64 f)"
  then have "w64 g = word_of_int (uint (w64 f) * 2 ^ n)" by (simp add: push_bit_eq_mult)
  then have "uint (w64 g) = uint (w64 f) * 2 ^ n mod 2 ^ 64"
    by (simp add: uint_word_of_int_eq take_bit_eq_mod del: of_int_mult of_int_power)
  then show ?thesis by (simp add: uint_w64)
qed

lemma fval_drop: "w64 g = drop_bit n (w64 f) \<Longrightarrow> fval g = fval f div 2 ^ n"
proof -
  assume a: "w64 g = drop_bit n (w64 f)"
  have "uint (drop_bit n (w64 f)) = drop_bit n (uint (w64 f))"
    by (rule bit_eqI) (auto simp: bit_simps bit_uint_iff dest: bit_imp_le_length)
  then show ?thesis using a by (simp add: drop_bit_eq_div flip: uint_w64)
qed

lemma fval_mod: "fval f = (uint (fp_h f) * 2 ^ 32 + uint (fp_l f)) mod 2 ^ 64"
  using fval_range[of f] by (simp add: fval_def)

lemma fval_ADD: "fval (F_ADD a b) = (fval a + fval b) mod 2 ^ 64"
proof -
  obtain ah al bh bl where v: "uint (fp_h a) = ah" "uint (fp_l a) = al" "uint (fp_h b) = bh" "uint (fp_l b) = bl" by blast
  have r: "0 \<le> ah" "ah < 2^32" "0 \<le> al" "al < 2^32" "0 \<le> bh" "bh < 2^32" "0 \<le> bl" "bl < 2^32"
    using u32 v by auto
  define c :: int where "c = (if 2^32 \<le> al + bl then 1 else 0)"
  have l: "uint (fp_l b + fp_l a) = al + bl - c * 2^32"
    using r by (simp add: uint_plus_if' v c_def)
  have carry: "(fp_l b + fp_l a < fp_l a) = (c = 1)"
    using r unfolding word_less_def l by (simp add: v c_def)
  have h: "uint (fp_h b + fp_h a + (if fp_l b + fp_l a < fp_l a then 1 else 0)) = (bh + ah + c) mod 2^32"
    unfolding carry by (simp add: c_def uint_word_ariths v mod_simps)
  have "fval (F_ADD a b) = (((bh + ah + c) mod 2^32) * 2^32 + (al + bl - c * 2^32)) mod 2^64"
    unfolding fval_mod[of "F_ADD a b"] by (simp add: F_ADD_def Let_def h l)
  also have "((bh + ah + c) mod 2^32) * 2^32 = ((bh + ah + c) * 2^32) mod 2^64"
    using mult_mod_left[of "bh + ah + c" "2^32" "2^32"] by simp
  also have "(((bh + ah + c) * 2^32) mod 2^64 + (al + bl - c * 2^32)) mod 2^64 = ((bh + ah + c) * 2^32 + (al + bl - c * 2^32)) mod 2^64"
    by (rule mod_add_left_eq)
  finally show ?thesis by (simp add: fval_def v algebra_simps)
qed

lemma fval_SUB: "fval (F_SUB a b) = (fval b - fval a) mod 2 ^ 64"
proof -
  obtain ah al bh bl where v: "uint (fp_h a) = ah" "uint (fp_l a) = al" "uint (fp_h b) = bh" "uint (fp_l b) = bl" by blast
  have r: "0 \<le> ah" "ah < 2^32" "0 \<le> al" "al < 2^32" "0 \<le> bh" "bh < 2^32" "0 \<le> bl" "bl < 2^32"
    using u32 v by auto
  define c :: int where "c = (if bl < al then 1 else 0)"
  have l: "uint (fp_l b - fp_l a) = bl - al + c * 2^32"
    using r by (simp add: uint_sub_if' v c_def)
  have carry: "(fp_l b < fp_l a) = (c = 1)" by (simp add: word_less_def v c_def)
  have h: "uint (fp_h b - fp_h a - (if fp_l b < fp_l a then 1 else 0)) = (bh - ah - c) mod 2^32"
    unfolding carry by (simp add: c_def uint_word_ariths v mod_simps)
  have "fval (F_SUB a b) = (((bh - ah - c) mod 2^32) * 2^32 + (bl - al + c * 2^32)) mod 2^64"
    unfolding fval_mod[of "F_SUB a b"] by (simp add: F_SUB_def Let_def h l)
  also have "((bh - ah - c) mod 2^32) * 2^32 = ((bh - ah - c) * 2^32) mod 2^64"
    using mult_mod_left[of "bh - ah - c" "2^32" "2^32"] by simp
  also have "(((bh - ah - c) * 2^32) mod 2^64 + (bl - al + c * 2^32)) mod 2^64 = ((bh - ah - c) * 2^32 + (bl - al + c * 2^32)) mod 2^64"
    by (rule mod_add_left_eq)
  finally show ?thesis by (simp add: fval_def v algebra_simps)
qed

lemma F_LT_fval: "F_LT x y = (fval x < fval y)"
proof -
  obtain ah al bh bl where v: "uint (fp_h x) = ah" "uint (fp_l x) = al" "uint (fp_h y) = bh" "uint (fp_l y) = bl" by blast
  have r: "0 \<le> al" "al < 2^32" "0 \<le> bl" "bl < 2^32" using u32 v by auto
  have "(ah * 2^32 + al < bh * 2^32 + bl) = (ah < bh \<or> (ah = bh \<and> al < bl))"
    using r by (cases ah bh rule: linorder_cases) auto
  then show ?thesis by (simp add: F_LT_def fval_def word_less_def word_uint_eq_iff v)
qed

section \<open>Normalisation\<close>

lemma GET_BIT_bit: "GET_BIT x n = bit x n"
  by (simp add: GET_BIT_def and_one_eq bit_iff_odd_drop_bit odd_iff_mod_2_eq_one)

lemma GET_BIT_58: "GET_BIT (fp_h f) FP_NORM_BIT = bit (fval f) 58"
  by (simp add: GET_BIT_bit bit_fval)

lemma bit_58:
  fixes x :: int
  assumes "0 \<le> x" "x < 2 ^ 59"
  shows "bit x 58 = (2 ^ 58 \<le> x)"
proof -
  have "x div 2 ^ 58 = (if 2 ^ 58 \<le> x then 1 else 0)"
    using assms div_pos_pos_trivial[of x "2^58"] div_pos_pos_trivial[of "x - 2 ^ 58" "2^58"] div_add_self2[of "2^58" "x - 2 ^ 58"]
    by auto
  then show ?thesis by (simp add: bit_iff_odd)
qed

lemma fval_LSH_K:
  assumes "0 < n" "n < 32" "fval f * 2 ^ n < 2 ^ 64"
  shows "fval (F_LSH_K f n) = fval f * 2 ^ n"
  using fval_push[OF w64_LSH_K[OF assms(1,2), of f]] assms(3) fval_range(1)[of f] by simp

lemma fval_LSH_1: "fval f * 2 < 2 ^ 64 \<Longrightarrow> fval (F_LSH_1 f) = fval f * 2"
  using fval_LSH_K[of 1 f] by (simp add: LSH_1_K)

lemma fval_RSH_1: "fval (F_RSH_1 f) = fval f div 2"
  using fval_drop[OF w64_RSH_K[of 1 f]] by (simp add: RSH_1_K)

definition shifted_by :: "nat \<Rightarrow> fpac_t \<times> int \<Rightarrow> fpac_t \<times> int \<Rightarrow> bool" where
  "shifted_by k fe ge = (fval (fst ge) = fval (fst fe) * 2 ^ k \<and> snd ge = snd fe - int k)"

lemma shifted_by_trans: "shifted_by j fe ge \<Longrightarrow> shifted_by k ge he \<Longrightarrow> shifted_by (j + k) fe he"
  by (simp add: shifted_by_def power_add)

lemma norm_loop_spec:
  assumes "0 < fval f" "fval f < 2 ^ 59" "2 ^ 58 \<le> fval f * 2 ^ n"
  shows "\<exists>k. shifted_by k (f, e) (norm_loop n (f, e)) \<and>
    2 ^ 58 \<le> fval (fst (norm_loop n (f, e))) \<and> fval (fst (norm_loop n (f, e))) < 2 ^ 59"
  using assms
proof (induction n arbitrary: f e)
  case 0
  then show ?case by (intro exI[of _ 0]) (simp add: shifted_by_def)
next
  case (Suc n)
  show ?case
  proof (cases "2 ^ 58 \<le> fval f")
    case True
    then have "norm_loop (Suc n) (f, e) = (f, e)"
      using Suc.prems bit_58[of "fval f"] by (simp add: GET_BIT_58)
    then show ?thesis using True Suc.prems by (intro exI[of _ 0]) (simp add: shifted_by_def)
  next
    case False
    then have e: "norm_loop (Suc n) (f, e) = norm_loop n (F_LSH_1 f, e - 1)"
      using Suc.prems bit_58[of "fval f"] by (simp add: GET_BIT_58)
    have v: "fval (F_LSH_1 f) = fval f * 2" using False by (intro fval_LSH_1) simp
    have "shifted_by 1 (f, e) (F_LSH_1 f, e - 1)" by (simp add: shifted_by_def v)
    moreover obtain k where "shifted_by k (F_LSH_1 f, e - 1) (norm_loop n (F_LSH_1 f, e - 1))"
       "2 ^ 58 \<le> fval (fst (norm_loop n (F_LSH_1 f, e - 1)))" "fval (fst (norm_loop n (F_LSH_1 f, e - 1))) < 2 ^ 59"
      using Suc.IH[of "F_LSH_1 f" "e - 1"] Suc.prems False by (auto simp: v)
    ultimately show ?thesis unfolding e using shifted_by_trans by blast
  qed
qed

lemma masked_small:
  assumes "h AND m = 0" "uint (h::u32) < 2 ^ 27" "m = mask 27 AND NOT (mask k)" "k < 27"
  shows "uint h < 2 ^ k"
proof -
  have "bit h n = (n < k \<and> bit h n)" for n
  proof (cases "n < k")
    case False
    show ?thesis
    proof (cases "n < 27")
      case True
      have "bit (h AND m) n = bit h n" using True False by (simp add: assms(3) bit_simps bit_mask_iff)
      then show ?thesis using False assms(1) by simp
    next
      case out: False
      have "uint h div 2 ^ n = 0" using assms(2) out power_increasing[of 27 n "2::int"]
        by (intro div_pos_pos_trivial) auto
      then have "\<not> bit (uint h) n" by (simp add: bit_iff_odd)
      then show ?thesis using False by (auto simp: bit_uint_iff dest: bit_imp_le_length)
    qed
  qed simp
  then have "h = h AND mask k" by (intro bit_word_eqI) (simp add: bit_simps bit_mask_iff, blast)
  then have "h = take_bit k h" by (simp add: take_bit_eq_mask)
  then have "uint h = take_bit k (uint h)" using assms(4) by (metis unsigned_take_bit_eq)
  then show ?thesis using take_bit_int_less_exp[of k "uint h"] by linarith
qed

lemma norm_step_spec:
  assumes "fval f < 2 ^ 59" "m = mask 27 AND NOT (mask (27 - n))" "0 < n" "n < 27"
  shows "\<exists>k. shifted_by k (f, e) (norm_step n m (f, e)) \<and> fval (fst (norm_step n m (f, e))) < 2 ^ 59"
proof (cases "fp_h f AND m = 0")
  case True
  obtain h l where hl: "uint (fp_h f) = h" "uint (fp_l f) = l" by blast
  then have "0 \<le> l" using u32 by auto
  then have "uint (fp_h f) < 2 ^ 27" using assms(1) by (simp add: fval_def hl)
  then have h: "uint (fp_h f) < 2 ^ (27 - n)" using masked_small[OF True _ assms(2)] assms(3) by simp
  have "fval f < 2 ^ (27 - n) * 2 ^ 32"
  proof -
    have "uint (fp_h f) + 1 \<le> 2 ^ (27 - n)" using h by simp
    then have "(uint (fp_h f) + 1) * 2 ^ 32 \<le> 2 ^ (27 - n) * 2 ^ 32" by (rule mult_right_mono) simp
    then show ?thesis using u32[of "fp_l f"] by (simp add: fval_def algebra_simps)
  qed
  then have "fval f * 2 ^ n < 2 ^ (27 - n) * 2 ^ 32 * 2 ^ n" by simp
  also have "\<dots> = 2 ^ 59" using assms(4) by (simp flip: power_add)
  finally have v: "fval f * 2 ^ n < 2 ^ 59" .
  then have "fval (F_LSH_K f n) = fval f * 2 ^ n" using assms(3,4) by (intro fval_LSH_K) simp_all
  then show ?thesis using True v by (intro exI[of _ n]) (simp add: norm_step_def shifted_by_def)
next
  case False
  then show ?thesis using assms(1) by (intro exI[of _ 0]) (simp add: norm_step_def shifted_by_def)
qed

lemma coarse_norm_spec:
  assumes "fval f < 2 ^ 59"
  shows "\<exists>k. shifted_by k (f, e) (coarse_norm (f, e)) \<and> fval (fst (coarse_norm (f, e))) < 2 ^ 59"
proof -
  obtain g1 e1 where g1: "norm_step 24 0x7FFFFF8 (f, e) = (g1, e1)" by fastforce
  obtain k1 where k1: "shifted_by k1 (f, e) (g1, e1)" "fval g1 < 2 ^ 59"
    using norm_step_spec[OF assms, of "0x7FFFFF8" 24 e] g1 by (auto simp: mask_eq_exp_minus_1)
  obtain g2 e2 where g2: "norm_step 12 0x7FF8000 (g1, e1) = (g2, e2)" by fastforce
  obtain k2 where k2: "shifted_by k2 (g1, e1) (g2, e2)" "fval g2 < 2 ^ 59"
    using norm_step_spec[OF k1(2), of "0x7FF8000" 12 e1] g2 by (auto simp: mask_eq_exp_minus_1)
  obtain k3 where k3: "shifted_by k3 (g2, e2) (norm_step 6 0x7E00000 (g2, e2))" "fval (fst (norm_step 6 0x7E00000 (g2, e2))) < 2 ^ 59"
    using norm_step_spec[OF k2(2), of "0x7E00000" 6 e2] by (auto simp: mask_eq_exp_minus_1)
  have "coarse_norm (f, e) = norm_step 6 0x7E00000 (g2, e2)" by (simp add: coarse_norm_def g1 g2)
  then show ?thesis using shifted_by_trans[OF shifted_by_trans[OF k1(1) k2(1)] k3(1)] k3(2) by auto
qed

text \<open>The normalisation loops of the FP11 code end with the hidden bit set and multiply the fraction by the power of two they subtract from the exponent, for every non-zero fraction.\<close>
theorem normalisation:
  assumes "0 < fval f" "fval f < 2 ^ 59" "norm_loop 64 (coarse_norm (f, e)) = (g, e')"
  shows "\<exists>k. fval g = fval f * 2 ^ k \<and> e' = e - int k \<and> 2 ^ 58 \<le> fval g \<and> fval g < 2 ^ 59"
proof -
  obtain f1 e1 where f1: "coarse_norm (f, e) = (f1, e1)" by fastforce
  obtain j where j: "shifted_by j (f, e) (f1, e1)" "fval f1 < 2 ^ 59"
    using coarse_norm_spec[OF assms(2), of e] f1 by auto
  then have "0 < fval f1" using assms(1) by (simp add: shifted_by_def zero_less_mult_iff)
  then obtain k where "shifted_by k (f1, e1) (g, e')" "2 ^ 58 \<le> fval g" "fval g < 2 ^ 59"
    using norm_loop_spec[of f1 64 e1] j(2) assms(3) f1 by auto
  then show ?thesis using shifted_by_trans[OF j(1)] by (fastforce simp: shifted_by_def)
qed

theorem normalisation_witness:
  "\<exists>k. fval (fst (norm_loop 64 (coarse_norm (\<lparr>fp_l = 5, fp_h = 0\<rparr>, 128)))) = 5 * 2 ^ k \<and>
     2 ^ 58 \<le> fval (fst (norm_loop 64 (coarse_norm (\<lparr>fp_l = 5, fp_h = 0\<rparr>, 128))))"
proof -
  have v: "fval \<lparr>fp_l = 5, fp_h = 0\<rparr> = 5" by (simp add: fval_def)
  show ?thesis
    using normalisation[of "\<lparr>fp_l = 5, fp_h = 0\<rparr>" 128] by (cases "norm_loop 64 (coarse_norm (\<lparr>fp_l = 5, fp_h = 0\<rparr>, 128))") (auto simp: v)
qed

section \<open>Multiplication of fractions\<close>

lemma fval_ADD_small: "fval a + fval b < 2 ^ 64 \<Longrightarrow> fval (F_ADD a b) = fval a + fval b"
  using fval_ADD[of a b] fval_range(1)[of a] fval_range(1)[of b] by simp






lemma fval_GUARD: "fval f < 2 ^ 56 \<Longrightarrow> fval (F_LSH_GUARD f) = fval f * 8"
  using fval_LSH_K[of 3 f] by (simp add: F_LSH_GUARD_def)


section \<open>Division of fractions\<close>

lemma fval_SUB_le: "fval a \<le> fval b \<Longrightarrow> fval (F_SUB a b) = fval b - fval a"
  using fval_SUB[of a b] fval_range(2)[of b] fval_range(1)[of a] by simp

lemma F_is_zero_fval: "F_is_zero f = (fval f = 0)"
proof -
  have "fval zero_fac = 0" by (simp add: zero_fac_def fval_def)
  then have "(fval f = 0) = (fp_h f = 0 \<and> fp_l f = 0)" using fval_inj[of f zero_fac] by (simp add: zero_fac_def)
  then show ?thesis by (auto simp: F_is_zero_def bit_eq_iff bit_simps)
qed

lemma int_div_less: "0 < y \<Longrightarrow> x < z * y \<Longrightarrow> x div y < (z::int)"
  using mult_right_mono[of z "x div y" y] pos_mod_sign[of y x] by (smt (verit) div_mult_mod_eq)

definition unit_of :: "bool \<Rightarrow> int" where "unit_of qd = (if qd then 1 else 2 ^ 32)"

definition low_clear :: "bool \<Rightarrow> fpac_t \<Rightarrow> bool" where "low_clear qd f = (qd \<or> fp_l f = 0)"

definition set_low :: "bool \<Rightarrow> fpac_t \<Rightarrow> fpac_t" where
  "set_low qd quo = (if qd then quo\<lparr>fp_l := fp_l quo OR 1\<rparr> else quo\<lparr>fp_h := fp_h quo OR 1\<rparr>)"

lemma or_one: "even (uint x) \<Longrightarrow> uint (x OR 1) = uint (x::u32) + 1"
proof -
  assume "even (uint x)"
  then have "\<not> bit x 0" using bit_uint_iff[of x 0] by (simp add: bit_0)
  then have "x + 1 = x OR 1" by (intro disjunctive_add) (metis bit_1_iff)
  moreover have "uint (x + 1) = uint x + 1"
  proof -
    have "uint x \<noteq> 2 ^ 32 - 1" using \<open>even (uint x)\<close> by auto
    then show ?thesis using u32[of x] by (simp add: uint_plus_if')
  qed
  ultimately show ?thesis by simp
qed

lemma low_LSH_1: "low_clear qd f \<Longrightarrow> low_clear qd (F_LSH_1 f)"
  by (auto simp: low_clear_def F_LSH_1_def)

lemma set_low_spec:
  assumes "low_clear qd f"
  shows "low_clear qd (set_low qd (F_LSH_1 f)) \<and> fval (set_low qd (F_LSH_1 f)) = fval (F_LSH_1 f) + unit_of qd"
proof -
  have "even (uint (fp_l (F_LSH_1 f)))" 
    using bit_uint_iff[of "fp_l (F_LSH_1 f)" 0] by (simp add: F_LSH_1_def bit_0 bit_simps)
  moreover have "\<not> qd \<Longrightarrow> even (uint (fp_h (F_LSH_1 f)))"
    using bit_uint_iff[of "fp_h (F_LSH_1 f)" 0] assms by (simp add: F_LSH_1_def bit_0 bit_simps low_clear_def)
  ultimately show ?thesis
    using low_LSH_1[OF assms] by (auto simp: set_low_def low_clear_def unit_of_def fval_def or_one algebra_simps)
qed

lemma quotient_step:
  fixes d B :: int
  assumes "0 \<le> d" "0 < B" "d < 2 * B"
  shows "(d * 2 ^ Suc n) div (2 * B) =
    of_bool (B \<le> d) * 2 ^ n + ((2 * (if B \<le> d then d - B else d)) * 2 ^ n) div (2 * B)"
proof (cases "B \<le> d")
  case True
  have "d * 2 ^ Suc n = 2 * (d - B) * 2 ^ n + 2 ^ n * (2 * B)" by (simp add: algebra_simps)
  then show ?thesis using True assms(2) by simp
qed (simp add: algebra_simps)

lemma div_loop_spec:
  assumes "low_clear qd quo" "0 < fval divr" "fval divr < 2 ^ 60" "fval divd < 2 * fval divr"
    and "(fval quo + unit_of qd) * 2 ^ n \<le> 2 ^ 60" "div_loop qd divr n quo divd = (i, q, d)"
  shows "i \<le> n \<and> fval q * 2 ^ i = fval quo * 2 ^ n + unit_of qd * ((fval divd * 2 ^ n) div (2 * fval divr))"
  using assms
proof (induction n arbitrary: quo divd)
  case 0
  have "fval divd div (2 * fval divr) = 0" using 0 fval_range(1) by (intro div_pos_pos_trivial) auto
  then show ?case using 0 by simp
next
  case (Suc n)
  have u: "0 < unit_of qd" by (simp add: unit_of_def)
  show ?case
  proof (cases "fval divd = 0")
    case True
    then show ?thesis using Suc.prems(6) by (auto simp: F_is_zero_fval)
  next
    case False
    define b where "b = (fval divr \<le> fval divd)"
    define quo1 where "quo1 = (if b then set_low qd (F_LSH_1 quo) else F_LSH_1 quo)"
    define rest where "rest = (if b then F_SUB divr divd else divd)"
    have step: "div_loop qd divr n quo1 (F_LSH_1 rest) = (i, q, d)"
      using Suc.prems(6) False
      by (simp add: F_is_zero_fval F_LT_fval quo1_def rest_def b_def set_low_def Let_def not_less split: if_splits cong: if_cong) (cases qd; simp)
    have rest: "fval rest = (if b then fval divd - fval divr else fval divd)"
      by (simp add: rest_def b_def fval_SUB_le)
    then have r2: "0 \<le> fval rest" "fval rest < fval divr" using Suc.prems(4) fval_range(1) by (auto simp: b_def)
    then have d1: "fval (F_LSH_1 rest) = 2 * fval rest" using Suc.prems(3) fval_LSH_1[of rest] by simp
    have "(fval quo + unit_of qd) * 2 * 2 ^ n = (fval quo + unit_of qd) * 2 ^ Suc n" by (simp add: mult.assoc)
    then have q0: "(fval quo + unit_of qd) * 2 * 2 ^ n \<le> 2 ^ 60" using Suc.prems(5) by linarith
    have "(fval quo + unit_of qd) * 2 * 1 \<le> (fval quo + unit_of qd) * 2 * 2 ^ n"
      using u fval_range(1)[of quo] by (intro mult_left_mono) auto
    then have "fval quo * 2 < 2 ^ 64" using q0 u by simp
    then have q1: "fval (F_LSH_1 quo) = 2 * fval quo" using fval_LSH_1 by simp
    have v1: "low_clear qd quo1 \<and> fval quo1 = 2 * fval quo + of_bool b * unit_of qd"
      using set_low_spec[OF Suc.prems(1)] low_LSH_1[OF Suc.prems(1)] by (auto simp: quo1_def q1)
    have "(fval quo1 + unit_of qd) * 2 ^ n \<le> ((fval quo + unit_of qd) * 2) * 2 ^ n"
      using v1 u by (intro mult_right_mono) auto
    then have "(fval quo1 + unit_of qd) * 2 ^ n \<le> 2 ^ 60" using q0 by linarith
    then have ih: "i \<le> n \<and> fval q * 2 ^ i = fval quo1 * 2 ^ n + unit_of qd * ((2 * fval rest * 2 ^ n) div (2 * fval divr))"
      using Suc.IH[OF _ Suc.prems(2,3) _ _ step] v1 d1 r2 by auto
    show ?thesis using ih v1 quotient_step[OF fval_range(1) Suc.prems(2,4), of n]
      by (simp add: rest b_def algebra_simps split: if_splits)
  qed
qed

lemma frac_div_exact:
  assumes "2 ^ 58 \<le> fval a" "fval a < 2 ^ 59" "2 ^ 58 \<le> fval b" "fval b < 2 ^ 59"
  shows "fval (frac_divfp11 qd a b) =
    (if qd then (fval a * 2 ^ 58) div fval b else 2 ^ 32 * ((fval a * 2 ^ 26) div fval b))"
proof -
  define n :: nat where "n = (if qd then 59 else 27)"
  obtain i q d where l: "div_loop qd b n zero_fac a = (i, q, d)" by (metis prod_cases3)
  have z: "fval zero_fac = 0" "fp_l zero_fac = 0" by (simp_all add: zero_fac_def fval_def)
  have s: "i \<le> n" "fval q * 2 ^ i = unit_of qd * ((fval a * 2 ^ n) div (2 * fval b))"
    using div_loop_spec[OF _ _ _ _ _ l] assms by (auto simp: low_clear_def z unit_of_def n_def split: if_splits)
  define Q where "Q = (fval a * 2 ^ n) div (2 * fval b)"
  have "fval a * 2 ^ n < (2 * fval b) * 2 ^ n" using assms by (intro mult_strict_right_mono) auto
  then have Q: "Q < 2 ^ n" using assms unfolding Q_def by (intro int_div_less) (simp_all add: mult.commute)
  have "unit_of qd * Q < 2 ^ 64" using Q by (auto simp: n_def unit_of_def)
  moreover have "0 \<le> fval q * 2 ^ i" using fval_range(1)[of q] by simp
  ultimately have "fval (F_LSH_V q i) = fval q * 2 ^ i" if "0 < i"
    using fval_push[OF w64_LSH_V[of i q]] s that unfolding Q_def[symmetric] by (auto simp: n_def split: if_splits)
  then have r: "fval (frac_divfp11 qd a b) = unit_of qd * Q"
    using s l by (cases "i = 0") (auto simp: frac_divfp11_def n_def Q_def)
  have Q': "Q = (fval a * 2 ^ (n - 1)) div fval b"
  proof -
    have e: "fval a * 2 ^ n = 2 * (fval a * 2 ^ (n - 1))" by (simp add: n_def)
    show ?thesis unfolding Q_def e by simp
  qed
  show ?thesis unfolding r Q' by (simp add: unit_of_def n_def)
qed

section \<open>Rounding and packing\<close>

lemma bit_59:
  fixes x :: int
  assumes "0 \<le> x" "x < 2 ^ 60"
  shows "bit x 59 = (2 ^ 59 \<le> x)"
proof -
  have "x div 2 ^ 59 = (if 2 ^ 59 \<le> x then 1 else 0)"
    using assms div_pos_pos_trivial[of x "2^59"] div_pos_pos_trivial[of "x - 2 ^ 59" "2^59"] div_add_self2[of "2^59" "x - 2 ^ 59"]
    by auto
  then show ?thesis by (simp add: bit_iff_odd)
qed

lemma GET_BIT_59: "GET_BIT (fp_h f) (FP_NORM_BIT + 1) = bit (fval f) 59"
  by (simp add: GET_BIT_bit bit_fval)

lemma fval_RSH_GUARD: "fval (F_RSH_GUARD f) = fval f div 8"
  using fval_drop[OF w64_RSH_K[of 3 f]] by (simp add: F_RSH_GUARD_def)

definition pack :: "u32 \<Rightarrow> int \<Rightarrow> fpac_t \<Rightarrow> fpac_t" where
  "pack h e frac = \<lparr>fp_l = fp_l frac,
     fp_h = (h AND FP_SIGN) OR push_bit 23 (of_int e AND 0xFF) OR (fp_h frac AND FP_FRACH)\<rparr>"

lemma masks32:
  "(0x7FFFFF::u32) = mask 23" "(0xFF::u32) = mask 8" "(0x80000000::u32) = 2 ^ 31" "(0x800000::u32) = 2 ^ 23"
  by (simp_all add: mask_eq_exp_minus_1)

lemma bit_sign31: "bit (0x80000000::int) n = (n = 31)" "bit (0x80000000::nat) n = (n = 31)"
  using bit_exp_iff[of 31 n, where 'a = int] bit_exp_iff[of 31 n, where 'a = nat] by auto

lemma bit_hidden: "bit (0x800000::int) n = (n = 23)" "bit (0x800000::nat) n = (n = 23)"
  using bit_exp_iff[of 23 n, where 'a = int] bit_exp_iff[of 23 n, where 'a = nat] by auto

lemma pack_fields:
  assumes "2 ^ 55 \<le> fval f" "fval f < 2 ^ 56" "0 \<le> e" "e \<le> 255"
  shows "F_GET_FRAC (pack h e f) = f" "GET_EXP (fp_h (pack h e f)) = e"
    "GET_SIGN (fp_h (pack h e f)) = GET_SIGN h"
proof -
  let ?p = "fp_h (pack h e f)"
  have p: "bit ?p n = (n < 32 \<and> (if n < 23 then bit (fp_h f) n else if n < 31 then bit (of_int e :: u32) (n - 23) else bit h n))" for n
    unfolding pack_def masks32 by (auto simp: bit_simps bit_mask_iff bit_sign31)
  have hf: "bit (fp_h f) n = (if n < 23 then bit (fp_h f) n else n = 23)" for n
  proof -
    obtain a l where al: "uint (fp_h f) = a" "uint (fp_l f) = l" "0 \<le> l" "l < 2 ^ 32" using u32[of "fp_l f"] by auto
    then have a: "2 ^ 23 \<le> a" "a < 2 ^ 24" using assms(1,2) by (auto simp: fval_def)
    have "a div 2 ^ n = 0" if "24 \<le> n"
      using a that power_increasing[of 24 n "2::int"] by (intro div_pos_pos_trivial) auto
    moreover have "a div 2 ^ 23 = 1" using a by auto
    ultimately have "23 \<le> n \<Longrightarrow> odd (a div 2 ^ n) = (n = 23)"
      by (cases "24 \<le> n") (auto simp: le_Suc_eq dest: le_neq_implies_less)
    moreover have "bit (fp_h f) n = bit a n" using al(1) bit_uint_iff[of "fp_h f" n] by (auto dest: bit_imp_le_length)
    ultimately show ?thesis by (simp add: bit_iff_odd)
  qed
  have "(?p AND FP_FRACH) OR FP_HB = fp_h f"
  proof (rule bit_word_eqI)
    fix n assume "n < LENGTH(32)"
    then show "bit ((?p AND FP_FRACH) OR FP_HB) n = bit (fp_h f) n"
      unfolding masks32 using hf[of n] by (cases "n < 23") (auto simp: bit_simps bit_mask_iff p bit_hidden)
  qed
  then show "F_GET_FRAC (pack h e f) = f" by (simp add: F_GET_FRAC_def pack_def)
  have te: "take_bit 8 e = e" using assms(3,4) by (simp add: take_bit_eq_mod)
  have "drop_bit 23 ?p AND 0xFF = of_int e"
  proof (rule bit_word_eqI)
    fix n assume n: "n < LENGTH(32)"
    have "bit (of_int e :: u32) n = (n < 8 \<and> bit (of_int e :: u32) n)"
      using n arg_cong[OF te, of "\<lambda>x. bit x n"] by (auto simp: bit_word_of_int_iff bit_take_bit_iff)
    then show "bit (drop_bit 23 ?p AND 0xFF) n = bit (of_int e :: u32) n"
      unfolding masks32 by (auto simp: bit_simps bit_mask_iff p add.commute)
  qed
  then show "GET_EXP ?p = e" using assms(3,4) by (simp add: GET_EXP_def uint_word_of_int_eq take_bit_eq_mod)
  show "GET_SIGN ?p = GET_SIGN h" by (simp add: GET_SIGN_def GET_BIT_bit p)
qed

lemma round_and_pack_in_range:
  assumes F: "2 ^ 58 \<le> fval f" "fval f < 2 ^ 59" and e: "1 \<le> e" "e \<le> 254"
    and T: "fpu_fps r AND FPS_T = 0"
  defines "u \<equiv> (if fpu_fps r AND FPS_D \<noteq> 0 then 3 else 35) :: nat"
  shows "\<exists>c g. c \<le> 1 \<and> round_and_pack fac e f True r = (0, g, r) \<and>
    GET_EXP (fp_h g) = e + int c \<and> GET_SIGN (fp_h g) = GET_SIGN (fp_h fac) \<and>
    fval (F_GET_FRAC g) = (fval f + 2 ^ (u - 1)) div 2 ^ (3 + c) \<and>
    (c = 1 \<longrightarrow> 2 ^ 59 \<le> fval f + 2 ^ (u - 1))"
proof -
  define rnd where "rnd = (if fpu_fps r AND FPS_D \<noteq> 0 then dround_guard_fac else fround_guard_fac)"
  have rv: "fval rnd = 2 ^ (u - 1)"
    by (simp add: rnd_def u_def dround_guard_fac_def fround_guard_fac_def fval_def)
  have u: "2 ^ (u - 1) \<le> (2 ^ 34 :: int)" by (simp add: u_def)
  have sum: "fval (F_ADD rnd f) = fval f + 2 ^ (u - 1)"
    using fval_ADD_small[of rnd f] F u by (simp add: rv)
  define c :: nat where "c = (if 2 ^ 59 \<le> fval f + 2 ^ (u - 1) then 1 else 0)"
  define g where "g = F_RSH_GUARD (if c = 1 then F_RSH_1 (F_ADD rnd f) else F_ADD rnd f)"
  have b: "GET_BIT (fp_h (F_ADD rnd f)) (FP_NORM_BIT + 1) = (c = 1)"
    using bit_59[of "fval f + 2 ^ (u - 1)"] F u fval_range(1)[of rnd] unfolding GET_BIT_59 sum by (simp add: c_def rv)
  have g: "fval g = (fval f + 2 ^ (u - 1)) div 2 ^ (3 + c)"
    by (simp add: g_def fval_RSH_GUARD fval_RSH_1 sum c_def zdiv_zmult2_eq[symmetric])
  obtain w :: int where w: "w = 2 ^ (u - 1)" "0 < w" "w \<le> 2 ^ 34" using u by simp
  have "2 ^ 55 \<le> fval g \<and> fval g < 2 ^ 56"
    using F w(2,3) unfolding g c_def w(1)[symmetric] by auto
  then have p: "F_GET_FRAC (pack (fp_h fac) (e + int c) g) = g"
      "GET_EXP (fp_h (pack (fp_h fac) (e + int c) g)) = e + int c"
      "GET_SIGN (fp_h (pack (fp_h fac) (e + int c) g)) = GET_SIGN (fp_h fac)"
    using pack_fields[of g "e + int c" "fp_h fac"] e by (auto simp: c_def)
  have "round_and_pack fac e f True r = (0, pack (fp_h fac) (e + int c) g, r)"
    using b e T by (auto simp: round_and_pack_def Let_def pack_def g_def rnd_def[symmetric] c_def split: if_splits)
  then show ?thesis using p g by (intro exI[of _ c] exI[of _ "pack (fp_h fac) (e + int c) g"]) (auto simp: c_def)
qed

lemma round_and_pack_chop:
  assumes F: "2 ^ 58 \<le> fval f" "fval f < 2 ^ 59" and e: "1 \<le> e" "e \<le> 254"
    and T: "fpu_fps r AND FPS_T \<noteq> 0"
  shows "\<exists>g. round_and_pack fac e f True r = (0, g, r) \<and>
    GET_EXP (fp_h g) = e \<and> GET_SIGN (fp_h g) = GET_SIGN (fp_h fac) \<and>
    fval (F_GET_FRAC g) = fval f div 8"
proof -
  define g where "g = F_RSH_GUARD f"
  have g: "fval g = fval f div 8" by (simp add: g_def fval_RSH_GUARD)
  have "2 ^ 55 \<le> fval g \<and> fval g < 2 ^ 56" using F unfolding g by auto
  then have p: "F_GET_FRAC (pack (fp_h fac) e g) = g" "GET_EXP (fp_h (pack (fp_h fac) e g)) = e"
      "GET_SIGN (fp_h (pack (fp_h fac) e g)) = GET_SIGN (fp_h fac)"
    using pack_fields[of g e "fp_h fac"] e by auto
  have "round_and_pack fac e f True r = (0, pack (fp_h fac) e g, r)"
    using e T by (auto simp: round_and_pack_def Let_def pack_def g_def)
  then show ?thesis using p g by auto
qed


section \<open>Correct rounding of products and quotients\<close>

lemma half_ulp:
  fixes X D H :: int
  assumes "0 < D" "0 < H"
  defines "S \<equiv> (X div D + H) div (2 * H)"
  shows "\<bar>2 * (S * (2 * H) * D - X)\<bar> \<le> 2 * H * D"
proof -
  define Q where "Q = X div D"
  have X: "Q * D \<le> X" "X < (Q + 1) * D"
    using assms(1) pos_mod_bound[of D X] pos_mod_sign[of D X] div_mult_mod_eq[of X D] unfolding Q_def distrib_right by linarith+
  have S: "S * (2 * H) \<le> Q + H" "Q + 1 \<le> S * (2 * H) + H"
    using pos_mod_bound[of "2 * H" "Q + H"] pos_mod_sign[of "2 * H" "Q + H"] div_mult_mod_eq[of "Q + H" "2 * H"] assms(2)
    unfolding S_def Q_def[symmetric] by linarith+
  have "S * (2 * H) * D \<le> (Q + H) * D" "(Q + 1) * D \<le> (S * (2 * H) + H) * D"
    using S assms(1) by (auto intro: mult_right_mono)
  then have "S * (2 * H) * D - X \<le> H * D" "X - S * (2 * H) * D \<le> H * D" using X by (simp_all add: algebra_simps)
  then show ?thesis by (simp add: abs_le_iff mult.assoc)
qed

lemma half_ulp_carry:
  fixes X D H M :: int
  assumes "0 < D" "0 < H" "M \<le> X div D + H" "X div D < M" "4 * H dvd M"
  defines "S \<equiv> (X div D + H) div (4 * H)"
  shows "\<bar>2 * (S * (4 * H) * D - X)\<bar> \<le> 4 * H * D"
proof -
  define Q where "Q = X div D"
  have X: "Q * D \<le> X" "X < (Q + 1) * D"
    using assms(1) pos_mod_bound[of D X] pos_mod_sign[of D X] div_mult_mod_eq[of X D] unfolding Q_def distrib_right by linarith+
  obtain z where z: "M = 4 * H * z" using assms(5) by blast
  have "Q + H = (Q + H - M) + z * (4 * H)" by (simp add: z)
  then have "S = z + (Q + H - M) div (4 * H)"
    using div_mult_self1[of "4 * H" "Q + H - M" z] assms(2) unfolding S_def Q_def[symmetric] by simp
  moreover have "(Q + H - M) div (4 * H) = 0" using assms(2-4) by (intro div_pos_pos_trivial) (simp_all add: Q_def)
  ultimately have S: "S * (4 * H) = M" by (simp add: z)
  have "(M - H) * D \<le> Q * D" "(Q + 1) * D \<le> M * D" using assms(1,3,4) by (auto simp: Q_def intro!: mult_right_mono)
  moreover have "0 \<le> H * D" using assms(1,2) by simp
  ultimately show ?thesis unfolding S using X by (simp add: algebra_simps)
qed

text \<open>The significand of a number (24 or 56 bits with the hidden one).\<close>

definition significand :: "bool \<Rightarrow> fpac_t \<Rightarrow> int" where
  "significand qd f = fval (F_GET_FRAC f) div unit_of qd"

lemma rounded_quotient:
  assumes F: "fval f = 2 ^ s * 2 ^ w * (X div D)" "2 ^ 58 \<le> fval f" "fval f < 2 ^ 59"
    and e: "1 \<le> e" "e \<le> 254" and T: "fpu_fps r AND FPS_T = 0"
    and qd: "qd = (fpu_fps r AND FPS_D \<noteq> 0)" and "0 < D" "s \<le> 1" "w + 3 \<le> (if qd then 3 else 35)"
  defines "m \<equiv> (if qd then 3 else 35) - w :: nat"
  shows "\<exists>c g. c \<le> 1 \<and> round_and_pack fac e f True r = (0, g, r) \<and>
    GET_EXP (fp_h g) = e + int c \<and> GET_SIGN (fp_h g) = GET_SIGN (fp_h fac) \<and>
    \<bar>2 * (significand qd g * 2 ^ (m + c - s) * D - X)\<bar> \<le> 2 ^ (m + c - s) * D"
proof -
  define u :: nat where "u = (if qd then 3 else 35)"
  obtain c g where c: "c \<le> 1" and g: "round_and_pack fac e f True r = (0, g, r)"
      "GET_EXP (fp_h g) = e + int c" "GET_SIGN (fp_h g) = GET_SIGN (fp_h fac)"
    and v: "fval (F_GET_FRAC g) = (fval f + 2 ^ (u - 1)) div 2 ^ (3 + c)"
    and carry: "c = 1 \<longrightarrow> 2 ^ 59 \<le> fval f + 2 ^ (u - 1)"
    using round_and_pack_in_range[OF F(2,3) e T, of fac] unfolding qd u_def by blast
  define H :: int where "H = 2 ^ (m - 1 - s)"
  have m: "u = w + m" "3 \<le> m" using assms(10) by (auto simp: u_def m_def)
  have uc: "u - 1 = s + w + (m - 1 - s)" "u + c = s + w + ((c + 1) + (m - 1 - s))" using m assms(9) by auto
  have pw: "(2::int) ^ (u - 1) = 2 ^ s * 2 ^ w * H" "(2::int) ^ (u + c) = 2 ^ s * 2 ^ w * (2 ^ (c + 1) * H)"
    unfolding uc H_def power_add by (simp_all add: mult.assoc)
  have sg: "significand qd g = (fval f + 2 ^ (u - 1)) div 2 ^ (u + c)"
    unfolding significand_def v by (simp add: unit_of_def u_def zdiv_zmult2_eq[symmetric] power_add mult.commute)
  have S: "significand qd g = (X div D + H) div (2 ^ (c + 1) * H)"
    unfolding sg F(1) pw distrib_left[symmetric] by (rule div_mult_mult1) simp
  have mc: "m + c - s = (c + 1) + (m - 1 - s)" using m assms(9) by auto
  have k: "(2::int) ^ (m + c - s) = 2 ^ (c + 1) * H" unfolding mc H_def by (rule power_add)
  have "\<bar>2 * (significand qd g * 2 ^ (m + c - s) * D - X)\<bar> \<le> 2 ^ (m + c - s) * D"
  proof (cases "c = 0")
    case True
    then show ?thesis using half_ulp[of D H X] assms(8) unfolding k S by (simp add: H_def)
  next
    case False
    then have c1: "c = 1" using c by simp
    define M :: int where "M = 2 ^ (59 - s - w)"
    have sw: "s + w < 59" using m assms(9,10) by (auto split: if_splits)
    then have M: "2 ^ 59 = 2 ^ s * 2 ^ w * M" by (simp add: M_def flip: power_add)
    have "M \<le> X div D + H" using carry c1 unfolding F(1) pw M distrib_left[symmetric] by simp
    moreover have "X div D < M" using F(3) unfolding F(1) M by simp
    moreover have "4 * H dvd M"
    proof -
      have "m + 1 - s = 2 + (m - 1 - s)" using m assms(9) by auto
      then have "(4::int) * H = 2 ^ (m + 1 - s)" unfolding H_def by (simp only: power_add) simp
      moreover have "m + 1 - s \<le> 59 - s - w" using m sw by (auto simp: u_def split: if_splits)
      ultimately show ?thesis by (simp add: M_def le_imp_power_dvd)
    qed
    ultimately show ?thesis using half_ulp_carry[of D H M X] assms(8) unfolding k S unfolding c1 by (simp add: H_def)
  qed
  then show ?thesis using c g by blast
qed

text \<open>
  The rounding the mode bit FPS_T selects: \<open>S\<close> stands for the exact \<open>X\<close> in units of \<open>u\<close> (the weight
  of the last place kept). Truncating, \<open>S\<close> is the last multiple that does not exceed \<open>X\<close>; otherwise
  it is at most half a unit away.
\<close>

definition rounds_to :: "bool \<Rightarrow> int \<Rightarrow> int \<Rightarrow> int \<Rightarrow> bool" where
  "rounds_to trunc S X u = (if trunc then S \<le> X \<and> X < S + u else \<bar>2 * (S - X)\<bar> \<le> u)"

lemma rounds_to_scale: "0 < z \<Longrightarrow> rounds_to trunc (x * z) (y * z) (k * z) = rounds_to trunc x y k"
  by (simp add: rounds_to_def abs_mult flip: left_diff_distrib mult.assoc distrib_right)

lemma chopped_quotient:
  assumes F: "fval f = 2 ^ s * 2 ^ w * (X div D)" "2 ^ 58 \<le> fval f" "fval f < 2 ^ 59"
    and e: "1 \<le> e" "e \<le> 254" and T: "fpu_fps r AND FPS_T \<noteq> 0" and "0 < D" "s \<le> 1" "w + 3 \<le> (if qd then 3 else 35)"
  defines "m \<equiv> (if qd then 3 else 35) - w :: nat"
  shows "\<exists>g. round_and_pack fac e f True r = (0, g, r) \<and>
    GET_EXP (fp_h g) = e \<and> GET_SIGN (fp_h g) = GET_SIGN (fp_h fac) \<and>
    rounds_to True (significand qd g * 2 ^ (m - s) * D) X (2 ^ (m - s) * D)"
proof -
  obtain g where g: "round_and_pack fac e f True r = (0, g, r)" "GET_EXP (fp_h g) = e"
      "GET_SIGN (fp_h g) = GET_SIGN (fp_h fac)" "fval (F_GET_FRAC g) = fval f div 8"
    using round_and_pack_chop[OF F(2,3) e T, of fac] by blast
  define K :: int where "K = D * 2 ^ (m - s)"
  have K: "0 < K" using assms(7) by (simp add: K_def)
  have u: "(if qd then 3 else 35) = s + w + (m - s)" using assms(8,9) by (auto simp: m_def split: if_splits)
  have "significand qd g = fval f div 2 ^ (if qd then 3 else 35)"
    unfolding significand_def g(4) by (simp add: unit_of_def zdiv_zmult2_eq[symmetric])
  also have "\<dots> = (2 ^ s * 2 ^ w * (X div D)) div (2 ^ s * 2 ^ w * 2 ^ (m - s))"
    unfolding F(1) u by (simp only: power_add)
  also have "\<dots> = X div K" by (simp add: K_def zdiv_zmult2_eq)
  finally have S: "significand qd g = X div K" .
  have "significand qd g * K \<le> X \<and> X < significand qd g * K + K"
    unfolding S using div_mult_mod_eq[of X K] pos_mod_bound[OF K, of X] pos_mod_sign[OF K, of X] by linarith
  then show ?thesis using g(1-3) by (auto simp: rounds_to_def K_def ac_simps)
qed

lemma packed_quotient:
  assumes F: "fval f = 2 ^ s * 2 ^ w * (X div D)" "2 ^ 58 \<le> fval f" "fval f < 2 ^ 59"
    and e: "1 \<le> e" "e \<le> 254"
    and qd: "qd = (fpu_fps r AND FPS_D \<noteq> 0)" and D: "0 < D" "s \<le> 1" "w + 3 \<le> (if qd then 3 else 35)"
  defines "m \<equiv> (if qd then 3 else 35) - w :: nat"
  shows "\<exists>c g. c \<le> 1 \<and> round_and_pack fac e f True r = (0, g, r) \<and>
    GET_EXP (fp_h g) = e + int c \<and> GET_SIGN (fp_h g) = GET_SIGN (fp_h fac) \<and>
    rounds_to (fpu_fps r AND FPS_T \<noteq> 0) (significand qd g * 2 ^ (m + c - s) * D) X (2 ^ (m + c - s) * D)"
proof (cases "fpu_fps r AND FPS_T = 0")
  case True
  then show ?thesis
    using rounded_quotient[OF F e True qd D, of fac] by (simp add: rounds_to_def m_def)
next
  case False
  obtain g where "round_and_pack fac e f True r = (0, g, r)" "GET_EXP (fp_h g) = e"
      "GET_SIGN (fp_h g) = GET_SIGN (fp_h fac)"
      "rounds_to True (significand qd g * 2 ^ (m - s) * D) X (2 ^ (m - s) * D)"
    using chopped_quotient[OF F e False D, of fac] unfolding m_def by blast
  then show ?thesis using False by (intro exI[of _ "0::nat"] exI[of _ g]) simp
qed

lemma hidden_range: "2 ^ 23 \<le> uint ((h AND FP_FRACH) OR FP_HB)" "uint ((h AND FP_FRACH) OR FP_HB) < 2 ^ 24"
proof -
  have "(h AND FP_FRACH) OR FP_HB = take_bit 23 h + 2 ^ 23"
    unfolding masks32 take_bit_eq_mask[symmetric]
    by (rule disjunctive_add[symmetric]) (auto simp: bit_take_bit_iff bit_hidden)
  moreover have t: "uint (take_bit 23 h) < 2 ^ 23" "0 \<le> uint (take_bit 23 h)"
    using take_bit_int_less_exp[of 23 "uint h"] by (simp_all add: unsigned_take_bit_eq)
  then have "uint (take_bit 23 h + 2 ^ 23) = uint (take_bit 23 h) + 2 ^ 23" by (simp add: uint_plus_if')
  ultimately show "2 ^ 23 \<le> uint ((h AND FP_FRACH) OR FP_HB)" "uint ((h AND FP_FRACH) OR FP_HB) < 2 ^ 24"
    using t by simp_all
qed

lemma frac_range: "2 ^ 55 \<le> fval (F_GET_FRAC f)" "fval (F_GET_FRAC f) < 2 ^ 56"
proof -
  obtain h l where hl: "uint (fp_h (F_GET_FRAC f)) = h" "uint (fp_l (F_GET_FRAC f)) = l" by blast
  then have "0 \<le> l" "l < 2 ^ 32" "2 ^ 23 \<le> h" "h < 2 ^ 24"
    using u32 hidden_range[of "fp_h f"] by (auto simp: F_GET_FRAC_def)
  then show "2 ^ 55 \<le> fval (F_GET_FRAC f)" "fval (F_GET_FRAC f) < 2 ^ 56" by (simp_all add: fval_def hl)
qed

lemma frac_significand: "qd \<or> fp_l f = 0 \<Longrightarrow> fval (F_GET_FRAC f) = significand qd f * unit_of qd"
  by (auto simp: significand_def unit_of_def fval_def F_GET_FRAC_def)

lemma significand_range:
  assumes "qd \<or> fp_l f = 0"
  shows "2 ^ (if qd then 55 else 23) \<le> significand qd f" "significand qd f < 2 ^ (if qd then 56 else 24)"
  using frac_range[of f] frac_significand[OF assms] by (auto simp: unit_of_def split: if_splits)




text \<open>C6: FP11 division rounds correctly in both formats and both rounding modes, on operands for which it neither overflows nor underflows: the dividend is not zero, the exponent difference lies in -127..125, and in the single format the low halves of the operands are 0, as the loads leave them. Then no error is reported, the sign is the exclusive or of the signs, and the quotient, in units of its last place kept, is truncated towards zero when FPS_T is set and at most half a unit from the exact quotient when FPS_T is clear.\<close>
theorem divfp11_rounds:
  assumes qd: "qd = (fpu_fps r AND FPS_D \<noteq> 0)"
    and ab: "qd \<or> fp_l a = 0" "qd \<or> fp_l b = 0" "GET_EXP (fp_h a) \<noteq> 0"
    and e: "- 127 \<le> GET_EXP (fp_h a) - GET_EXP (fp_h b)" "GET_EXP (fp_h a) - GET_EXP (fp_h b) \<le> 125"
  shows "\<exists>g k. divfp11 a b r = (0, g, r) \<and>
    GET_SIGN (fp_h g) = (GET_SIGN (fp_h a) \<noteq> GET_SIGN (fp_h b)) \<and>
    GET_EXP (fp_h g) = GET_EXP (fp_h a) - GET_EXP (fp_h b) + FP_BIAS + (if qd then 56 else 24) - int k \<and>
    rounds_to (fpu_fps r AND FPS_T \<noteq> 0) (significand qd g * significand qd b) (significand qd a * 2 ^ k) (significand qd b)"
proof -
  define A B where "A = significand qd a" "B = significand qd b"
  define p :: nat where "p = (if qd then 56 else 24)"
  define w :: nat where "w = (if qd then 0 else 32)"
  define quo where "quo = frac_divfp11 qd (F_LSH_GUARD (F_GET_FRAC a)) (F_LSH_GUARD (F_GET_FRAC b))"
  have rng: "2 ^ (p - 1) \<le> A" "A < 2 ^ p" "2 ^ (p - 1) \<le> B" "B < 2 ^ p"
    using significand_range[OF ab(1)] significand_range[OF ab(2)] by (auto simp: A_B_def p_def split: if_splits)
  define X where "X = A * 2 ^ (p + 2)"
  have B0: "0 < B" using rng(3) zero_less_power[of "2::int" "p - 1"] by linarith
  have quo: "fval quo = 2 ^ w * (X div B)"
  proof -
    have ab': "fval (F_LSH_GUARD (F_GET_FRAC a)) = A * (unit_of qd * 8)" "fval (F_LSH_GUARD (F_GET_FRAC b)) = B * (unit_of qd * 8)"
      using fval_GUARD[OF frac_range(2)] frac_significand[OF ab(1)] frac_significand[OF ab(2)] by (simp_all add: A_B_def)
    have g: "2 ^ 58 \<le> fval (F_LSH_GUARD (F_GET_FRAC x))" "fval (F_LSH_GUARD (F_GET_FRAC x)) < 2 ^ 59" for x
      using fval_GUARD[OF frac_range(2)] frac_range[of x] by simp_all
    have "fval quo = 2 ^ w * ((fval (F_LSH_GUARD (F_GET_FRAC a)) * 2 ^ (p + 2)) div fval (F_LSH_GUARD (F_GET_FRAC b)))"
      unfolding quo_def frac_div_exact[OF g g] by (simp add: w_def p_def)
    also have "\<dots> = 2 ^ w * ((X * (unit_of qd * 8)) div (B * (unit_of qd * 8)))"
      unfolding ab' by (simp add: X_def ac_simps)
    also have "(X * (unit_of qd * 8)) div (B * (unit_of qd * 8)) = X div B"
      by (rule div_mult_mult2) (simp add: unit_of_def)
    finally show ?thesis .
  qed
  have "B * 2 ^ (p + 1) \<le> X" "X < B * 2 ^ (p + 3)"
    using rng by (auto simp: X_def p_def split: if_splits)
  then have XB: "2 ^ (p + 1) \<le> X div B" "X div B < 2 ^ (p + 3)"
    using B0 zdiv_mono1[of "2 ^ (p + 1) * B" X B] int_div_less[of B X "2 ^ (p + 3)"] by (simp_all add: mult.commute)
  have W: "2 ^ w * 2 ^ (p + 1) = (2 ^ 57 :: int)" "2 ^ w * 2 ^ (p + 3) = (2 ^ 59 :: int)" by (simp_all add: w_def p_def)
  have q: "2 ^ 57 \<le> fval quo" "fval quo < 2 ^ 59"
    using XB unfolding W[symmetric] quo by (auto intro: mult_left_mono)
  define s :: nat where "s = (if bit (fval quo) 58 then 0 else 1)"
  define f where "f = (if s = 0 then quo else F_LSH_1 quo)"
  have s: "s \<le> 1" "s = (if 2 ^ 58 \<le> fval quo then 0 else 1)"
    using bit_58[of "fval quo"] q by (simp_all add: s_def)
  have f: "fval f = 2 ^ s * 2 ^ w * (X div B)"
  proof -
    have "fval f = 2 ^ s * fval quo" using fval_LSH_1[of quo] q s by (auto simp: f_def)
    then show ?thesis by (simp add: quo)
  qed
  have fr: "2 ^ 58 \<le> fval f" "fval f < 2 ^ 59" using s q unfolding f mult.assoc quo[symmetric] by auto
  define e0 where "e0 = GET_EXP (fp_h a) - GET_EXP (fp_h b) + FP_BIAS + 1 - int s"
  have e0: "1 \<le> e0" "e0 \<le> 254" using e s(1) by (auto simp: e0_def)
  have w: "w + 3 \<le> (if qd then 3 else 35 :: nat)" by (simp add: w_def)
  have m: "(if qd then 3 else 35) - w = 3" by (simp add: w_def)
  obtain c g where g: "c \<le> 1" "round_and_pack (a\<lparr>fp_h := fp_h a XOR fp_h b\<rparr>) e0 f True r = (0, g, r)"
      "GET_EXP (fp_h g) = e0 + int c" "GET_SIGN (fp_h g) = GET_SIGN (fp_h a XOR fp_h b)"
      "rounds_to (fpu_fps r AND FPS_T \<noteq> 0) (significand qd g * 2 ^ (3 + c - s) * B) X (2 ^ (3 + c - s) * B)"
    using packed_quotient[OF f fr e0 qd B0 s(1) w, of "a\<lparr>fp_h := fp_h a XOR fp_h b\<rparr>"] unfolding m by auto
  define k where "k = p + s - 1 - c"
  have sign: "GET_SIGN (fp_h a XOR fp_h b) = (GET_SIGN (fp_h a) \<noteq> GET_SIGN (fp_h b))"
    by (simp add: GET_SIGN_def GET_BIT_bit bit_xor_iff)
  have "rounds_to (fpu_fps r AND FPS_T \<noteq> 0) (significand qd g * B) (A * 2 ^ k) B"
  proof -
    have "p + 2 = k + (3 + c - s)" using s(1) g(1) by (auto simp: k_def p_def)
    then have "X = A * 2 ^ k * 2 ^ (3 + c - s)" unfolding X_def by (simp only: power_add mult.assoc)
    then have "rounds_to (fpu_fps r AND FPS_T \<noteq> 0) ((significand qd g * B) * 2 ^ (3 + c - s)) (A * 2 ^ k * 2 ^ (3 + c - s)) (B * 2 ^ (3 + c - s))"
      using g(5) by (simp add: ac_simps)
    then show ?thesis by (subst (asm) rounds_to_scale) simp_all
  qed
  moreover have "divfp11 a b r = (0, g, r)"
    using ab(3) g(2) by (auto simp: divfp11_def Let_def GET_BIT_58 qd[symmetric] quo_def[symmetric] f_def s_def e0_def split: if_splits)
  moreover have "GET_EXP (fp_h g) = GET_EXP (fp_h a) - GET_EXP (fp_h b) + FP_BIAS + (if qd then 56 else 24) - int k"
    using g(1,3) s(1) by (auto simp: e0_def k_def p_def)
  ultimately show ?thesis using g(4) sign by (auto simp: A_B_def)
qed

theorem divfp11_rounds_witness:
  "(\<exists>g k. divfp11 \<lparr>fp_l = 0, fp_h = 0x40800000\<rparr> \<lparr>fp_l = 0, fp_h = 0x40C00000\<rparr> (zero_regs DCJ11 ()) = (0, g, zero_regs DCJ11 ()) \<and>
     \<bar>2 * (significand False g * 0xC00000 - 0x800000 * 2 ^ k)\<bar> \<le> 0xC00000) \<and>
   (\<exists>g k. divfp11 \<lparr>fp_l = 0, fp_h = 0x40800000\<rparr> \<lparr>fp_l = 0, fp_h = 0x40C00000\<rparr> (set_fps FPS_T (zero_regs DCJ11 ())) =
       (0, g, set_fps FPS_T (zero_regs DCJ11 ())) \<and>
     significand False g * 0xC00000 \<le> 0x800000 * 2 ^ k \<and> 0x800000 * 2 ^ k < significand False g * 0xC00000 + 0xC00000)"
proof
  have s: "significand False \<lparr>fp_l = 0, fp_h = 0x40800000\<rparr> = 0x800000" "significand False \<lparr>fp_l = 0, fp_h = 0x40C00000\<rparr> = 0xC00000"
    by (simp_all add: significand_def F_GET_FRAC_def fval_def unit_of_def)
  show "\<exists>g k. divfp11 \<lparr>fp_l = 0, fp_h = 0x40800000\<rparr> \<lparr>fp_l = 0, fp_h = 0x40C00000\<rparr> (zero_regs DCJ11 ()) = (0, g, zero_regs DCJ11 ()) \<and>
     \<bar>2 * (significand False g * 0xC00000 - 0x800000 * 2 ^ k)\<bar> \<le> 0xC00000"
    using divfp11_rounds[of False "zero_regs DCJ11 ()" "\<lparr>fp_l = 0, fp_h = 0x40800000\<rparr>" "\<lparr>fp_l = 0, fp_h = 0x40C00000\<rparr>"]
    unfolding s by (auto simp: zero_regs_def GET_EXP_def rounds_to_def)
  show "\<exists>g k. divfp11 \<lparr>fp_l = 0, fp_h = 0x40800000\<rparr> \<lparr>fp_l = 0, fp_h = 0x40C00000\<rparr> (set_fps FPS_T (zero_regs DCJ11 ())) =
       (0, g, set_fps FPS_T (zero_regs DCJ11 ())) \<and>
     significand False g * 0xC00000 \<le> 0x800000 * 2 ^ k \<and> 0x800000 * 2 ^ k < significand False g * 0xC00000 + 0xC00000"
    using divfp11_rounds[of False "set_fps FPS_T (zero_regs DCJ11 ())" "\<lparr>fp_l = 0, fp_h = 0x40800000\<rparr>" "\<lparr>fp_l = 0, fp_h = 0x40C00000\<rparr>"]
    unfolding s by (auto simp: zero_regs_def set_fps_def GET_EXP_def rounds_to_def)
qed

section \<open>Addition\<close>

lemma GET_EXP_magnitude: "GET_EXP h = uint (h AND NOT FP_SIGN) div 2 ^ 23"
proof -
  have e: "drop_bit 23 h AND 0xFF = drop_bit 23 (h AND NOT FP_SIGN)"
  proof (rule bit_word_eqI)
    fix n assume "n < LENGTH(32)"
    have "bit (0xFF::u32) n = (n < 8 \<and> n < 32)" unfolding masks32(2) by (simp only: bit_mask_iff) auto
    moreover have "bit (NOT FP_SIGN) n = (n < 32 \<and> n \<noteq> 31)" for n unfolding masks32(3) by (auto simp: bit_simps bit_sign31)
    ultimately show "bit (drop_bit 23 h AND 0xFF) n = bit (drop_bit 23 (h AND NOT FP_SIGN)) n"
      by (auto simp: bit_and_iff bit_drop_bit_eq dest: bit_imp_le_length)
  qed
  have d: "uint (drop_bit 23 x) = uint x div 2 ^ 23" for x :: u32
  proof -
    have "uint (drop_bit 23 x) = drop_bit 23 (uint x)"
      by (rule bit_eqI) (auto simp: bit_simps bit_uint_iff dest: bit_imp_le_length)
    then show ?thesis by (simp add: drop_bit_eq_div)
  qed
  show ?thesis unfolding GET_EXP_def e by (rule d)
qed

lemma exp_le: "\<not> F_LT_AP a b \<Longrightarrow> GET_EXP (fp_h b) \<le> GET_EXP (fp_h a)"
  unfolding GET_EXP_magnitude F_LT_AP_def word_less_def by (intro zdiv_mono1) (auto simp: word_uint_eq_iff)

lemma fval_RSH_V: "0 < n \<Longrightarrow> n < 64 \<Longrightarrow> fval (F_RSH_V f n) = fval f div 2 ^ n"
  using fval_drop[OF w64_RSH_V] by blast

lemma GET_EXP_range: "0 \<le> GET_EXP h" "GET_EXP h \<le> 255"
proof -
  have "drop_bit 23 h AND 0xFF \<le> 0xFF" by (rule word_and_le1)
  then show "0 \<le> GET_EXP h" "GET_EXP h \<le> 255" by (simp_all add: GET_EXP_def word_le_def)
qed

text \<open>The larger magnitude first.\<close>
lemma addfp11_rounds_ordered:
  assumes qd: "qd = (fpu_fps r AND FPS_D \<noteq> 0)"
    and ab: "qd \<or> fp_l a = 0" "qd \<or> fp_l b = 0" "GET_EXP (fp_h b) \<noteq> 0" "GET_EXP (fp_h a) \<le> 253"
    and sign: "GET_SIGN (fp_h a) = GET_SIGN (fp_h b)" and ord: "\<not> F_LT_AP a b"
  defines "d \<equiv> nat (GET_EXP (fp_h a) - GET_EXP (fp_h b))"
  shows "\<exists>g k. addfp11 a b r = (0, g, r) \<and> GET_SIGN (fp_h g) = GET_SIGN (fp_h a) \<and>
    GET_EXP (fp_h g) = GET_EXP (fp_h b) + int k \<and>
    rounds_to (fpu_fps r AND FPS_T \<noteq> 0) (significand qd g * 2 ^ k) (significand qd a * 2 ^ d + significand qd b) (2 ^ k)"
proof -
  define A B where "A = significand qd a" "B = significand qd b"
  have le: "GET_EXP (fp_h b) \<le> GET_EXP (fp_h a)" using exp_le[OF ord] .
  then have d: "GET_EXP (fp_h a) = GET_EXP (fp_h b) + int d" by (simp add: d_def)
  have ea: "GET_EXP (fp_h a) \<noteq> 0" "0 < GET_EXP (fp_h b)" using le ab(3) GET_EXP_range(1)[of "fp_h b"] by auto
  have rB: "0 \<le> B" "B < 2 ^ 56"
    using significand_range[OF ab(2)] by (auto simp: A_B_def split: if_splits)
  show ?thesis
  proof (cases "60 \<le> d")
    case True
    have "addfp11 a b r = (0, a, r)" using True ord ea ab(3) d by (simp add: addfp11_def Let_def)
    moreover have "(2::int) ^ 57 \<le> 2 ^ d" using True by (intro power_increasing) auto
    then have "rounds_to (fpu_fps r AND FPS_T \<noteq> 0) (A * 2 ^ d) (A * 2 ^ d + B) (2 ^ d)" using rB by (simp add: rounds_to_def)
    ultimately show ?thesis using d by (auto simp: A_B_def)
  next
    case False
    define fa fb where "fa = F_LSH_GUARD (F_GET_FRAC a)" "fb = F_LSH_GUARD (F_GET_FRAC b)"
    define fb' where "fb' = (if d \<noteq> 0 then F_RSH_V fb d else fb)"
    define X where "X = fval fa * 2 ^ d + fval fb"
    have gf: "fval fa = fval (F_GET_FRAC a) * 8" "fval fb = fval (F_GET_FRAC b) * 8"
      using fval_GUARD[OF frac_range(2)] by (simp_all add: fa_fb_def)
    have r: "2 ^ 58 \<le> fval fa" "fval fa < 2 ^ 59" "2 ^ 58 \<le> fval fb" "fval fb < 2 ^ 59"
      using frac_range[of a] frac_range[of b] gf by simp_all
    have b': "fval fb' = fval fb div 2 ^ d" using False by (simp add: fb'_def fval_RSH_V)
    have "(2::int) ^ 59 * 1 \<le> 2 ^ 59 * 2 ^ d" by (intro mult_left_mono one_le_power) simp_all
    then have "fval fb < 2 ^ 59 * 2 ^ d" using r(4) by linarith
    then have "fval fb div 2 ^ d < 2 ^ 59" by (intro int_div_less) simp_all
    moreover have "0 \<le> fval fb div 2 ^ d" using r by (simp add: pos_imp_zdiv_nonneg_iff)
    ultimately have b'r: "0 \<le> fval fb'" "fval fb' < 2 ^ 59" using r unfolding b' by auto
    have sum: "fval (F_ADD fb' fa) = X div 2 ^ d"
      using fval_ADD_small[of fb' fa] b'r r by (simp add: X_def b')
    have sr: "2 ^ 58 \<le> X div 2 ^ d" "X div 2 ^ d < 2 ^ 60"
      using b'r r b' by (simp_all add: X_def)
    define t :: nat where "t = (if bit (X div 2 ^ d) 59 then 1 else 0)"
    have t: "t \<le> 1" "t = (if 2 ^ 59 \<le> X div 2 ^ d then 1 else 0)"
      using bit_59[of "X div 2 ^ d"] sr by (simp_all add: t_def)
    define f where "f = (if t = 1 then F_RSH_1 (F_ADD fb' fa) else F_ADD fb' fa)"
    have f: "fval f = 2 ^ 0 * 2 ^ 0 * (X div 2 ^ (d + t))"
      using t(1) by (auto simp: f_def fval_RSH_1 sum power_add zdiv_zmult2_eq le_Suc_eq)
    have fr: "2 ^ 58 \<le> fval f" "fval f < 2 ^ 59"
      using t sr by (auto simp: f_def fval_RSH_1 sum)
    define e0 where "e0 = GET_EXP (fp_h a) + int t"
    have e0: "1 \<le> e0" "e0 \<le> 254" using ea ab(4) t(1) d by (auto simp: e0_def)
    have D: "(0::int) < 2 ^ (d + t)" and s0: "(0::nat) \<le> 1" and w: "0 + 3 \<le> (if qd then 3 else 35 :: nat)" by simp_all
    obtain c g where g: "c \<le> 1" "round_and_pack a e0 f True r = (0, g, r)"
      "GET_EXP (fp_h g) = e0 + int c" "GET_SIGN (fp_h g) = GET_SIGN (fp_h a)"
      "rounds_to (fpu_fps r AND FPS_T \<noteq> 0) (significand qd g * 2 ^ ((if qd then 3 else 35) - 0 + c - 0) * 2 ^ (d + t)) X (2 ^ ((if qd then 3 else 35) - 0 + c - 0) * 2 ^ (d + t))"
      using packed_quotient[OF f fr e0 qd D s0 w, of a] by auto
    define k where "k = d + t + c"
    have X: "X = (A * 2 ^ d + B) * (unit_of qd * 8)"
      using frac_significand[OF ab(1)] frac_significand[OF ab(2)] by (simp add: X_def gf A_B_def algebra_simps)
    have "rounds_to (fpu_fps r AND FPS_T \<noteq> 0) (significand qd g * 2 ^ k) (A * 2 ^ d + B) (2 ^ k)"
    proof -
      have "2 ^ ((if qd then 3 else 35) - 0 + c - 0) * 2 ^ (d + t) = 2 ^ k * (unit_of qd * 8)"
        by (simp add: k_def unit_of_def power_add)
      then have "rounds_to (fpu_fps r AND FPS_T \<noteq> 0) (significand qd g * 2 ^ k * (unit_of qd * 8)) ((A * 2 ^ d + B) * (unit_of qd * 8)) (2 ^ k * (unit_of qd * 8))"
        using g(5) by (simp add: X mult.assoc)
      then show ?thesis by (subst (asm) rounds_to_scale) (simp_all add: unit_of_def)
    qed
    moreover have "addfp11 a b r = (0, g, r)"
    proof -
      have "add_fracs fa fb' (GET_EXP (fp_h a)) = (f, e0)"
        by (simp add: add_fracs_def Let_def f_def e0_def t_def sum[symmetric] GET_BIT_59[symmetric])
      then show ?thesis using ord ea ab(3) False sign d g(2)
        by (cases "d = 0") (auto simp: addfp11_def Let_def fa_fb_def[symmetric] fb'_def)
    qed
    moreover have "GET_EXP (fp_h g) = GET_EXP (fp_h b) + int k" using g(3) d by (simp add: e0_def k_def)
    ultimately show ?thesis using g(4) by (auto simp: A_B_def)
  qed
qed

lemma same_magnitude:
  assumes "\<not> F_LT_AP a b" "\<not> F_LT_AP b a"
  shows "fp_l a = fp_l b" "fp_h a AND NOT FP_SIGN = fp_h b AND NOT FP_SIGN"
  using assms by (auto simp: F_LT_AP_def not_less)

lemma sign_magnitude:
  assumes "a AND NOT FP_SIGN = b AND NOT FP_SIGN" "GET_SIGN a = GET_SIGN b"
  shows "a = b"
proof (rule bit_word_eqI)
  fix n assume n: "n < LENGTH(32)"
  show "bit a n = bit b n"
  proof (cases "n = 31")
    case False
    have "bit (x AND NOT FP_SIGN) n = bit x n" for x using n False unfolding masks32 by (simp add: bit_simps bit_sign31)
    then show ?thesis using assms(1) by metis
  qed (use assms(2) in \<open>simp add: GET_SIGN_def GET_BIT_bit\<close>)
qed

lemma GET_FRAC_magnitude:
  assumes "fp_l a = fp_l b" "fp_h a AND NOT FP_SIGN = fp_h b AND NOT FP_SIGN"
  shows "F_GET_FRAC a = F_GET_FRAC b"
proof -
  have "x AND FP_FRACH = (x AND NOT FP_SIGN) AND FP_FRACH" for x by (simp add: word_bw_assocs)
  then show ?thesis using assms by (metis F_GET_FRAC_def)
qed

text \<open>FP11 addition is commutative: exchanging the operands changes neither the result nor the status bits.\<close>
theorem addfp11_commute: "addfp11 a b r = addfp11 b a r"
proof -
  consider "F_LT_AP a b" | "F_LT_AP b a" | "\<not> F_LT_AP a b" "\<not> F_LT_AP b a" by blast
  then show ?thesis
  proof cases
    case 1
    then have "\<not> F_LT_AP b a" by (auto simp: F_LT_AP_def)
    then show ?thesis using 1 by (simp add: addfp11_def)
  next
    case 2
    then have "\<not> F_LT_AP a b" by (auto simp: F_LT_AP_def)
    then show ?thesis using 2 by (simp add: addfp11_def)
  next
    case 3
    note m = same_magnitude[OF 3]
    have e: "GET_EXP (fp_h a) = GET_EXP (fp_h b)" unfolding GET_EXP_magnitude m(2) ..
    show ?thesis
    proof (cases "GET_SIGN (fp_h a) = GET_SIGN (fp_h b)")
      case True
      then have "a = b" using m(1) sign_magnitude[OF m(2)] by simp
      then show ?thesis by simp
    next
      case False
      have "F_is_zero (F_SUB x x)" for x by (simp add: F_is_zero_def F_SUB_def)
      then show ?thesis using 3 e False GET_FRAC_magnitude[OF m] by (simp add: addfp11_def Let_def)
    qed
  qed
qed

text \<open>C7: FP11 addition of two nonzero numbers of the same sign, in either order, rounds correctly in both formats and both rounding modes when no overflow is possible: the exponents lie in 1..253 and in the single format the low halves are 0, as the loads leave them. Then no error is reported, the sign is kept, and the sum, in units of its last place kept, is the exact sum truncated towards zero when FPS_T is set and at most half a unit from it when FPS_T is clear.\<close>
theorem addfp11_rounds:
  assumes qd: "qd = (fpu_fps r AND FPS_D \<noteq> 0)" and ab: "qd \<or> fp_l a = 0" "qd \<or> fp_l b = 0"
    and e: "1 \<le> GET_EXP (fp_h a)" "GET_EXP (fp_h a) \<le> 253" "1 \<le> GET_EXP (fp_h b)" "GET_EXP (fp_h b) \<le> 253"
    and sign: "GET_SIGN (fp_h a) = GET_SIGN (fp_h b)"
  defines "m \<equiv> min (GET_EXP (fp_h a)) (GET_EXP (fp_h b))"
  shows "\<exists>g k. addfp11 a b r = (0, g, r) \<and> GET_SIGN (fp_h g) = GET_SIGN (fp_h a) \<and>
    GET_EXP (fp_h g) = m + int k \<and>
    rounds_to (fpu_fps r AND FPS_T \<noteq> 0) (significand qd g * 2 ^ k)
      (significand qd a * 2 ^ nat (GET_EXP (fp_h a) - m) + significand qd b * 2 ^ nat (GET_EXP (fp_h b) - m)) (2 ^ k)"
proof (cases "F_LT_AP a b")
  case False
  then show ?thesis
    using addfp11_rounds_ordered[of qd r a b] exp_le[OF False] qd ab e sign by (simp add: m_def min_absorb2)
next
  case True
  then have ba: "\<not> F_LT_AP b a" by (auto simp: F_LT_AP_def)
  show ?thesis unfolding addfp11_commute[of a b]
    using addfp11_rounds_ordered[of qd r b a] exp_le[OF ba] qd ab e sign ba by (simp add: m_def min_absorb1 add.commute)
qed

theorem addfp11_rounds_witness:
  "\<exists>g k. addfp11 \<lparr>fp_l = 0, fp_h = 0x40FFFFFF\<rparr> \<lparr>fp_l = 0, fp_h = 0x41800000\<rparr> (zero_regs DCJ11 ()) = (0, g, zero_regs DCJ11 ()) \<and>
     \<bar>2 * (significand False g * 2 ^ k - (0xFFFFFF + 0x800000 * 2 ^ 2))\<bar> \<le> 2 ^ k"
proof -
  have s: "significand False \<lparr>fp_l = 0, fp_h = 0x41800000\<rparr> = 0x800000" "significand False \<lparr>fp_l = 0, fp_h = 0x40FFFFFF\<rparr> = 0xFFFFFF"
    by (simp_all add: significand_def F_GET_FRAC_def fval_def unit_of_def)
  have e: "GET_EXP 0x41800000 = 131" "GET_EXP 0x40FFFFFF = 129" by (simp_all add: GET_EXP_def)
  show ?thesis
    using addfp11_rounds[of False "zero_regs DCJ11 ()" "\<lparr>fp_l = 0, fp_h = 0x40FFFFFF\<rparr>" "\<lparr>fp_l = 0, fp_h = 0x41800000\<rparr>"]
    unfolding s by (auto simp: zero_regs_def e GET_SIGN_def GET_BIT_def rounds_to_def)
qed

section \<open>Conversion of integers\<close>

lemma GET_BIT_31: "GET_BIT l 31 = (2 ^ 31 \<le> uint (l::u32))"
  using bit_ge_exp[of l 31] u32[of l] by (simp add: GET_BIT_bit)

lemma int_norm_loop_spec:
  assumes "0 < uint l" "2 ^ 31 \<le> uint l * 2 ^ n" "int_norm_loop n i l = (j, m)"
  shows "i \<le> j \<and> uint m = uint l * 2 ^ (j - i) \<and> 2 ^ 31 \<le> uint m"
  using assms
proof (induction n arbitrary: i l)
  case (Suc n)
  show ?case
  proof (cases "2 ^ 31 \<le> uint l")
    case False
    then have "int_norm_loop n (Suc i) (push_bit 1 l) = (j, m)" using Suc.prems(3) by (simp add: GET_BIT_31)
    moreover have p: "uint (push_bit 1 l) = uint l * 2"
    proof -
      have "uint (l * 2) = uint l * 2" using False u32[of l] by (simp add: uint_word_ariths)
      then show ?thesis by (simp add: push_bit_eq_mult)
    qed
    ultimately have "Suc i \<le> j \<and> uint m = uint l * 2 * 2 ^ (j - Suc i) \<and> 2 ^ 31 \<le> uint m"
      using Suc.IH[of "push_bit 1 l" "Suc i"] Suc.prems(1,2) by simp
    moreover have "Suc i \<le> j \<Longrightarrow> (2::int) * 2 ^ (j - Suc i) = 2 ^ (j - i)" by (simp flip: power_Suc add: Suc_diff_Suc)
    ultimately show ?thesis by (auto simp: mult.assoc)
  next
    case True
    then show ?thesis using Suc.prems(3) by (simp add: GET_BIT_31)
  qed
qed simp

lemma negate: "(l XOR 0xFFFFFFFF) + 1 = - (l::u32)"
proof -
  have m: "(0xFFFFFFFF::u32) = - 1" by simp
  show ?thesis unfolding m bit.xor_one_right by (rule minus_eq_not_plus_1[symmetric])
qed

lemma uint_neg: "l \<noteq> 0 \<Longrightarrow> uint (- l) = 2 ^ 32 - uint (l::u32)"
  using uint_sub_if'[of 0 l] u32(1)[of l] by (auto simp: word_uint_eq_iff)

lemma fval_aligned: "fval \<lparr>fp_l = push_bit 24 m, fp_h = drop_bit 8 m\<rparr> = uint m * 2 ^ 24"
proof -
  have "fval \<lparr>fp_l = push_bit 24 m, fp_h = drop_bit 8 m\<rparr> = push_bit 24 (uint m)"
    by (rule bit_eqI) (auto simp: bit_fval bit_simps bit_uint_iff dest: bit_imp_le_length)
  then show ?thesis by (simp add: push_bit_eq_mult)
qed

lemma uint_take_bit: "uint (take_bit n (x::u32)) = uint x mod 2 ^ n"
  by (subst unsigned_take_bit_eq) (rule take_bit_eq_mod)

lemma and_zero_not: "a AND m = 0 \<Longrightarrow> a AND NOT m = (a::u32)"
proof -
  assume "a AND m = 0"
  moreover have "(a AND NOT m) OR (a AND m) = a" by (rule bit_word_eqI) (auto simp: bit_simps)
  ultimately show ?thesis by simp
qed

lemma int_to_fac_pack:
  assumes "l \<noteq> 0"
  defines "a \<equiv> (if GET_BIT l 31 then - l else l)"
  shows "\<exists>i m. i < 32 \<and> uint m = uint a * 2 ^ i \<and> 2 ^ 31 \<le> uint m \<and>
    int_to_fac long l =
      pack (if GET_BIT l 31 then FP_SIGN else 0) ((if long then FP_BIAS + 32 else FP_BIAS + 16) - int i)
        \<lparr>fp_l = push_bit 24 m, fp_h = drop_bit 8 m\<rparr>"
proof -
  obtain i m where n: "int_norm_loop 32 0 a = (i, m)" by fastforce
  have "a \<noteq> 0" using assms(1) by (auto simp: a_def)
  then have a: "0 < uint a" using u32(1)[of a] by (simp add: word_uint_eq_iff less_le)
  then have m: "uint m = uint a * 2 ^ i" "2 ^ 31 \<le> uint m" using int_norm_loop_spec[OF a _ n] by simp_all
  have "2 ^ i \<le> uint m" using a unfolding m(1) by simp
  then have i: "i < 32" using u32[of m] power_increasing_iff[of "2::int" 32 i] by (simp add: not_le[symmetric])
  define e :: int where "e = (if long then FP_BIAS + 32 else FP_BIAS + 16) - int i"
  have "0 \<le> e" "e < 256" using i by (auto simp: e_def)
  then have "(of_int e :: u32) = take_bit 8 (of_int e)"
    unfolding word_uint_eq_iff uint_take_bit by (simp add: uint_word_of_int_eq take_bit_eq_mod)
  then have "of_int e AND 0xFF = (of_int e :: u32)" by (simp add: take_bit_eq_mask mask_eq_exp_minus_1)
  then have "int_to_fac long l = pack (if GET_BIT l 31 then FP_SIGN else 0) e \<lparr>fp_l = push_bit 24 m, fp_h = drop_bit 8 m\<rparr>"
    using n unfolding int_to_fac_def pack_def negate Let_def a_def[symmetric] e_def by simp
  then show ?thesis using i m unfolding e_def by blast
qed

lemma low_word: "fval g = uint a \<Longrightarrow> fp_l g = (a::u32)"
proof -
  assume "fval g = uint a"
  then have "fval g mod 2 ^ 32 = uint a" using u32[of a] by simp
  moreover have "fval g mod 2 ^ 32 = uint (fp_l g)" using u32[of "fp_l g"] by (simp add: fval_def)
  ultimately show ?thesis by (simp add: word_uint_eq_iff)
qed

lemma low_half: "(a AND 0xFFFF = (0::u32)) = (2 ^ 16 dvd uint a)"
proof -
  have "a AND 0xFFFF = take_bit 16 a" by (simp add: take_bit_eq_mask mask_eq_exp_minus_1)
  then have "(a AND 0xFFFF = 0) = (uint (take_bit 16 a) = 0)" by (simp add: word_uint_eq_iff)
  also have "uint (take_bit 16 a) = uint a mod 2 ^ 16" by (rule uint_take_bit)
  finally show ?thesis by (simp add: dvd_eq_mod_eq_0)
qed

lemma low_half_clear:
  assumes "a AND 0xFFFF = (0::u32)"
  shows "a AND NOT 0xFFFF = a" "- a AND 0xFFFF = 0" "a \<noteq> 0 \<Longrightarrow> 2 ^ 16 \<le> uint a"
proof -
  show "a AND NOT 0xFFFF = a" using assms by (rule and_zero_not)
  show "- a AND 0xFFFF = 0"
  proof (cases "a = 0")
    case False
    have "(2::int) ^ 16 dvd 2 ^ 32" by (rule le_imp_power_dvd) simp
    then show ?thesis using assms unfolding low_half uint_neg[OF False] by (rule dvd_diff)
  qed simp
  show "2 ^ 16 \<le> uint a" if "a \<noteq> 0"
  proof -
    have "0 < uint a" using that u32(1)[of a] by (simp add: word_uint_eq_iff less_le)
    then show ?thesis using assms unfolding low_half by (rule zdvd_imp_le[rotated])
  qed
qed

text \<open>The conversion routines are inverse to each other where the format holds the integer.\<close>
lemma double_roundtrip:
  assumes "l \<noteq> 0" "long \<or> l AND 0xFFFF = 0"
  shows "stcfi_value long True (int_to_fac long l) = (l, False)"
proof -
  define a where "a = (if GET_BIT l 31 then - l else l)"
  obtain i m where m: "i < 32" "uint m = uint a * 2 ^ i" "2 ^ 31 \<le> uint m"
    and p: "int_to_fac long l = pack (if GET_BIT l 31 then FP_SIGN else 0) ((if long then FP_BIAS + 32 else FP_BIAS + 16) - int i)
        \<lparr>fp_l = push_bit 24 m, fp_h = drop_bit 8 m\<rparr>"
    using int_to_fac_pack[OF assms(1), of long] unfolding a_def by blast
  define f where "f = \<lparr>fp_l = push_bit 24 m, fp_h = drop_bit 8 m\<rparr>"
  define e where "e = (if long then FP_BIAS + 32 else FP_BIAS + 16) - int i"
  have i16: "\<not> long \<Longrightarrow> i < 16"
  proof -
    assume "\<not> long"
    then have "a AND 0xFFFF = 0" "a \<noteq> 0" using assms low_half_clear(2) by (auto simp: a_def)
    then have "2 ^ 16 * 2 ^ i \<le> uint m" using low_half_clear(3) unfolding m(2) by (intro mult_right_mono) auto
    then have "(2::int) ^ (16 + i) < 2 ^ 32" using u32[of m] by (simp add: power_add)
    then show "i < 16" by (subst (asm) power_strict_increasing_iff) auto
  qed
  have f: "2 ^ 55 \<le> fval f" "fval f < 2 ^ 56" using m u32[of m] by (simp_all add: f_def fval_aligned)
  have e: "0 \<le> e" "e \<le> 255" "FP_BIAS < e" using m(1) i16 by (auto simp: e_def)
  note pf = pack_fields[OF f e(1,2), of "if GET_BIT l 31 then FP_SIGN else 0", folded f_def e_def]
  have sgn: "GET_SIGN (if GET_BIT l 31 then FP_SIGN else 0) = GET_BIT l 31" by (simp add: GET_SIGN_def GET_BIT_def)
  have ld: "F_LOAD_FRAC True x = F_GET_FRAC x" for x by (simp add: F_LOAD_FRAC_def F_GET_FRAC_def)
  have "fval (F_RSH_V f (24 + i)) = uint a"
    using m(1) by (simp add: fval_RSH_V f_def fval_aligned m(2) power_add)
  then have l: "fp_l (F_RSH_V f (24 + i)) = a" by (rule low_word)
  have n: "nat (24 + (if long then FP_BIAS + 32 else FP_BIAS + 16) - e) = 24 + i" by (simp add: e_def)
  have keep: "\<not> long \<Longrightarrow> a AND NOT 0xFFFF = a" using assms(2) low_half_clear by (auto simp: a_def)
  have "uint a \<le> 2 ^ 31 \<and> (\<not> GET_BIT l 31 \<longrightarrow> uint a < 2 ^ 31)"
    using u32[of l] uint_neg[OF assms(1)] by (auto simp: a_def GET_BIT_31)
  then have lim: "\<not> (if GET_BIT l 31 then if long then 0x80000001 else 0x80010000 else 0x80000000) \<le> a"
    by (auto simp: word_le_def)
  show ?thesis
    unfolding p f_def[symmetric] e_def[symmetric] stcfi_value_def Let_def pf sgn ld n l
    using e keep lim by (auto simp: a_def e_def)
qed

text \<open>A 16-bit integer needs only the high half of the fraction, so the single format holds it too.\<close>

lemma int_to_fac_low:
  assumes "l AND 0xFFFF = 0"
  shows "fp_l (int_to_fac long l) = 0"
proof (cases "l = 0")
  case True
  have "snd (int_norm_loop n k 0) = 0" for n k by (induction n arbitrary: k) simp_all
  then show ?thesis using True by (simp add: int_to_fac_def Let_def GET_BIT_def case_prod_beta)
next
  case False
  define a where "a = (if GET_BIT l 31 then - l else l)"
  obtain i m where m: "uint m = uint a * 2 ^ i"
    and p: "int_to_fac long l = pack (if GET_BIT l 31 then FP_SIGN else 0) ((if long then FP_BIAS + 32 else FP_BIAS + 16) - int i)
        \<lparr>fp_l = push_bit 24 m, fp_h = drop_bit 8 m\<rparr>"
    using int_to_fac_pack[OF False, of long] unfolding a_def by blast
  have "a AND 0xFFFF = 0" using assms low_half_clear(2) by (auto simp: a_def)
  then have "2 ^ 16 dvd uint m" unfolding low_half m by simp
  then have "take_bit 16 m = 0" unfolding word_uint_eq_iff uint_take_bit by (simp add: dvd_eq_mod_eq_0)
  then have z: "\<not> bit m n" if "n < 16" for n
    using that bit_take_bit_iff[of 16 m n] by simp
  have "push_bit 24 m = 0" by (rule bit_word_eqI) (use z in \<open>auto simp: bit_simps\<close>)
  then show ?thesis unfolding p pack_def by simp
qed

lemma stcfi_single: "fp_l f = 0 \<Longrightarrow> stcfi_value long False \<lparr>fp_l = x, fp_h = fp_h f\<rparr> = stcfi_value long True f"
proof -
  assume "fp_l f = 0"
  then have "F_LOAD_FRAC False \<lparr>fp_l = x, fp_h = fp_h f\<rparr> = F_LOAD_FRAC True f" by (simp add: F_LOAD_FRAC_def)
  then show ?thesis unfolding stcfi_value_def Let_def by simp
qed

lemma roundfp11_clear: "fp_l f = 0 \<Longrightarrow> roundfp11 f r = (0, f\<lparr>fp_l := 0x80000000\<rparr>, r)"
  by (simp add: roundfp11_def F_ADD_def fround_fac_def GET_SIGN_def GET_BIT_def)

lemma setfcc_keeps: "m AND 0xF = 0 \<Longrightarrow> setfcc old f 0 AND m = old AND m"
proof -
  assume m: "m AND 0xF = 0"
  have "8 AND m = 8 AND (m AND 0xF)" "4 AND m = 4 AND (m AND 0xF)" by (simp_all add: word_bw_comms(1)[of m] flip: word_bw_assocs(1))
  then have "8 AND m = 0" "4 AND m = 0" unfolding m by simp_all
  moreover have "(old AND x) AND m = old AND (m AND x)" for x by (simp add: word_bw_assocs word_bw_comms word_bw_lcs)
  then have "(old AND NOT 0xF) AND m = old AND m" unfolding and_zero_not[OF m] by (simp only: and_zero_not[OF m])
  ultimately show ?thesis by (simp add: setfcc_def Let_def word_ao_dist)
qed

lemma fp_LDCIF_register:
  assumes "s \<le> 7" "qd = (fpu_fps r AND FPS_D \<noteq> 0)"
  shows "\<exists>f c. fp_LDCIF b t ac s qd r = Some (r\<lparr>fpu_fr := (fpu_fr r)(ac := f), fpu_fps := setfcc (fpu_fps r) c 0\<rparr>) \<and>
    stcfi_value (fpu_fps r AND FPS_L \<noteq> 0) qd f = (push_bit 16 (ucast (R r s)), False)"
proof -
  define l :: u32 where "l = push_bit 16 (ucast (R r s))"
  define long where "long = (fpu_fps r AND FPS_L \<noteq> 0)"
  have l: "l AND 0xFFFF = 0"
  proof -
    have "take_bit 16 l = 0" unfolding l_def by (rule bit_word_eqI) (simp add: bit_simps)
    then show ?thesis by (simp add: take_bit_eq_mask mask_eq_exp_minus_1)
  qed
  define f where "f = (if l = 0 then \<lparr>fp_l = 0, fp_h = 0\<rparr> else int_to_fac long l)"
  have f: "fp_l f = 0" using int_to_fac_low[OF l] by (simp add: f_def)
  have c: "stcfi_value long True f = (l, False)"
  proof (cases "l = 0")
    case True
    then show ?thesis by (simp add: f_def stcfi_value_def GET_EXP_def Let_def)
  next
    case False
    then show ?thesis using double_roundtrip[OF False, of long] l by (simp add: f_def)
  qed
  define g where "g = (if l \<noteq> 0 \<and> fpu_fps r AND (FPS_D OR FPS_T) = 0 then f\<lparr>fp_l := 0x80000000\<rparr> else f)"
  have e: "fp_LDCIF b t ac s qd r =
      Some (r\<lparr>fpu_fr := (fpu_fr r)(ac := F_STORE qd g (fpu_fr r ac)), fpu_fps := setfcc (fpu_fps r) (fp_h g) 0\<rparr>)"
  proof -
    have z: "f = (if l \<noteq> 0 then int_to_fac long l else \<lparr>fp_l = l, fp_h = 0\<rparr>)" by (simp add: f_def)
    have "(case (if l \<noteq> 0
        then let fac = int_to_fac long l
             in if fpu_fps r AND (FPS_D OR FPS_T) = 0 then (case roundfp11 fac r of (v, fac, r) \<Rightarrow> (fac, r)) else (fac, r)
        else (\<lparr>fp_l = l, fp_h = 0\<rparr>, r)) of (x, y) \<Rightarrow> h x y) = h g r" for h :: "fpac_t \<Rightarrow> 'a regs \<Rightarrow> 'a regs option"
      using roundfp11_clear[OF f, of r] unfolding g_def z by (cases "l = 0") simp_all
    then show ?thesis
      using assms(1) unfolding fp_LDCIF_def Let_def l_def[symmetric] long_def[symmetric] set_fr_def set_fps_def by simp
  qed
  have "stcfi_value long qd (F_STORE qd g (fpu_fr r ac)) = (l, False)"
  proof (cases qd)
    case True
    have "fpu_fps r AND FPS_D = (fpu_fps r AND (FPS_D OR FPS_T)) AND FPS_D" by (simp add: word_bw_assocs)
    then have "fpu_fps r AND (FPS_D OR FPS_T) \<noteq> 0" using True assms(2) by auto
    then have "g = f" by (simp add: g_def)
    moreover have "F_STORE True f x = f" for x by (cases f) (simp add: F_STORE_def)
    ultimately show ?thesis using c True by simp
  next
    case False
    then show ?thesis using c stcfi_single[OF f] by (simp add: F_STORE_def g_def)
  qed
  then show ?thesis using e unfolding l_def long_def by blast
qed

lemma register_operand:
  fixes op :: u16
  assumes "op AND 0xF38 = k" "k AND 0x38 = 0"
  shows "op AND 0x3F = op AND 7" "drop_bit 8 op AND 0xF = drop_bit 8 k AND 0xF"
proof -
  have "op AND 0x38 = (op AND 0xF38) AND 0x38" by (simp add: word_bw_assocs)
  then have "op AND 0x38 = 0" using assms by simp
  moreover have "op AND 0x3F = (op AND 0x38) OR (op AND 7)" by (simp flip: bit.conj_disj_distrib)
  ultimately show "op AND 0x3F = op AND 7" by simp
  have d: "drop_bit 8 x AND 0xF = drop_bit 8 (x AND 0xF00)" for x :: u16 by (simp only: drop_bit_and) simp
  have "op AND 0xF00 = (op AND 0xF38) AND 0xF00" by (simp add: word_bw_assocs)
  then show "drop_bit 8 op AND 0xF = drop_bit 8 k AND 0xF" unfolding d assms(1) by simp
qed

text \<open>C8: The instruction LDCif from a general register to an accumulator, followed by STCfi from that accumulator to a general register, copies the 16-bit integer exactly: for every value (0 and -32768 included), either floating format, either rounding mode and either integer length (a register operand is the high half of a long integer), every other general register keeps its value and neither instruction raises a floating exception.\<close>
theorem integer_roundtrip:
  assumes ld: "ld AND 0xF38 = 0xE00" and st: "st AND 0xF38 = 0xB00" and ac: "ld AND 0xC0 = st AND 0xC0"
  shows "\<exists>r1 r2. fp11 b t ld r = Some r1 \<and> fp11 b t st r1 = Some r2 \<and>
    R r2 = (R r)(unat (st AND 7) := R r (unat (ld AND 7))) \<and>
    fpu_fec r2 = fpu_fec r \<and> \<not> fp11_trap_pending r2"
proof -
  define ac where "ac = unat (drop_bit 6 ld AND 3)"
  define qd where "qd = (fpu_fps r AND FPS_D \<noteq> 0)"
  note d = register_operand[OF ld, simplified] register_operand[OF st, simplified]
  have r0: "R (fp11_start r) = R r" "fpu_fps (fp11_start r) = fpu_fps r" "fpu_fec (fp11_start r) = fpu_fec r"
    for r :: "'a regs" by (simp_all add: fp11_start_def)
  have fin: "fp11_finish b t r = Some (r\<lparr>fp11_reg_delta_mask := 0, fp11_reg_delta := (\<lambda>i. if i < 8 then 0 else fp11_reg_delta r i)\<rparr>)"
    if "fp11_reg_delta_mask r = 0" "\<not> fp11_trap_pending r" for r using that by (simp add: fp11_finish_def)
  have same: "unat (drop_bit 6 st AND 3) = ac"
  proof -
    have "drop_bit 6 x AND 3 = drop_bit 6 (x AND 0xC0)" for x :: u16 by (simp only: drop_bit_and) simp
    then show ?thesis unfolding ac_def by (simp only: ac)
  qed
  have le: "unat (x AND 7) \<le> 7" for x :: u16 using word_and_le1[of x 7] by (simp add: word_le_nat_alt)
  have ops: "fp11_op b t ld r = fp_LDCIF b t ac (unat (ld AND 7)) (qdouble r) r"
    "fp11_op b t st r = fp_STCFI b t ac (unat (st AND 7)) (qdouble r) r" for r
    unfolding fp11_op_def Let_def d same ac_def[symmetric] by simp_all
  obtain f c where f: "fp_LDCIF b t ac (unat (ld AND 7)) (qdouble (fp11_start r)) (fp11_start r) =
      Some ((fp11_start r)\<lparr>fpu_fr := (fpu_fr (fp11_start r))(ac := f), fpu_fps := setfcc (fpu_fps r) c 0\<rparr>)"
    and v: "stcfi_value (fpu_fps r AND FPS_L \<noteq> 0) qd f = (push_bit 16 (ucast (R r (unat (ld AND 7)))), False)"
    using fp_LDCIF_register[OF le, of qd "fp11_start r" b t ac ld] by (auto simp: qdouble_def qd_def r0)
  obtain r1 where r1: "fp11 b t ld r = Some r1" "R r1 = R r" "fpu_fps r1 = setfcc (fpu_fps r) c 0"
      "fpu_fr r1 ac = f" "fpu_fec r1 = fpu_fec r"
  proof -
    define r' where "r' = (fp11_start r)\<lparr>fpu_fr := (fpu_fr (fp11_start r))(ac := f), fpu_fps := setfcc (fpu_fps r) c 0\<rparr>"
    have "fp11 b t ld r = fp11_finish b t r'" using f by (simp add: fp11_def ops r'_def)
    moreover have "fp11_reg_delta_mask r' = 0" "\<not> fp11_trap_pending r'" by (simp_all add: r'_def fp11_start_def)
    ultimately show ?thesis using that by (simp add: fin r0 r'_def)
  qed
  have m: "fpu_fps r1 AND FPS_L = fpu_fps r AND FPS_L" "fpu_fps r1 AND FPS_D = fpu_fps r AND FPS_D"
    unfolding r1(3) by (simp_all add: setfcc_keeps)
  have q: "qdouble (fp11_start r1) = qd" "fpu_fps (fp11_start r1) AND FPS_L = fpu_fps r AND FPS_L"
      "fpu_fr (fp11_start r1) ac = f" using m r1(4) by (simp_all add: qdouble_def qd_def fp11_start_def)
  have w: "word_hi (push_bit 16 (ucast x)) = x" for x :: u16
    unfolding word_hi_def by (rule bit_word_eqI) (auto simp: bit_simps)
  have flags: "R (set_fps z r) = R r" "fpu_fec (set_fps z r) = fpu_fec r" "fp11_trap_pending (set_fps z r) = fp11_trap_pending r"
      "fp11_reg_delta_mask (set_fps z r) = fp11_reg_delta_mask r"
      "fpu_fec (set_flag_if x k r) = fpu_fec r" "fp11_trap_pending (set_flag_if x k r) = fp11_trap_pending r"
      "fp11_reg_delta_mask (set_flag_if x k r) = fp11_reg_delta_mask r"
      "fpu_fec (clear_flag k r) = fpu_fec r" "fp11_trap_pending (clear_flag k r) = fp11_trap_pending r"
      "fp11_reg_delta_mask (clear_flag k r) = fp11_reg_delta_mask r" for z x k and r :: "'a regs"
    by (simp_all add: set_fps_def set_flag_if_def set_flag_def clear_flag_def)
  have start: "fpu_fec (fp11_start r1) = fpu_fec r1" "\<not> fp11_trap_pending (fp11_start r1)"
      "fp11_reg_delta_mask (fp11_start r1) = 0" by (simp_all add: fp11_start_def)
  obtain r2 where "fp_STCFI b t ac (unat (st AND 7)) qd (fp11_start r1) = Some r2"
      "R r2 = (R r)(unat (st AND 7) := R r (unat (ld AND 7)))" "fpu_fec r2 = fpu_fec r"
      "\<not> fp11_trap_pending r2" "fp11_reg_delta_mask r2 = 0"
    unfolding fp_STCFI_def Let_def q v using le[of st] by (simp add: w flags start r0 r1(2,5))
  then have "fp11 b t st r1 = Some (r2\<lparr>fp11_reg_delta_mask := 0, fp11_reg_delta := (\<lambda>i. if i < 8 then 0 else fp11_reg_delta r2 i)\<rparr>) \<and>
      R r2 = (R r)(unat (st AND 7) := R r (unat (ld AND 7))) \<and> fpu_fec r2 = fpu_fec r \<and> \<not> fp11_trap_pending r2"
    by (simp add: fp11_def ops q fin)
  then show ?thesis using r1(1) by force
qed

theorem integer_roundtrip_witness:
  "\<exists>r1 r2. fp11 stub stub_trap 0xFE01 (zero_regs DCJ11 ()\<lparr>R := (\<lambda>i. 0)(1 := 0x8000)\<rparr>) = Some r1 \<and>
     fp11 stub stub_trap 0xFB02 r1 = Some r2 \<and> R r2 1 = 0x8000 \<and> R r2 2 = 0x8000 \<and> \<not> fp11_trap_pending r2"
  using integer_roundtrip[of "0xFE01" "0xFB02" stub stub_trap "zero_regs DCJ11 ()\<lparr>R := (\<lambda>i. 0)(1 := 0x8000)\<rparr>"] by auto

section \<open>The macros as operations on 64-bit words\<close>

text \<open>The F_ADD, F_SUB, F_LT and F_LSH/F_RSH macros, which work on a pair of 32-bit halves, compute the 64-bit sum, difference, comparison and shifts of the concatenated value.\<close>
theorem macros_on_64_bits:
  "fval (F_ADD a b) = (fval a + fval b) mod 2 ^ 64 \<and> fval (F_SUB a b) = (fval b - fval a) mod 2 ^ 64 \<and>
   F_LT a b = (fval a < fval b) \<and> fval (F_LSH_1 a) = fval a * 2 mod 2 ^ 64 \<and> fval (F_RSH_1 a) = fval a div 2 \<and>
   (0 < n \<and> n < 64 \<longrightarrow> fval (F_LSH_V a n) = fval a * 2 ^ n mod 2 ^ 64 \<and> fval (F_RSH_V a n) = fval a div 2 ^ n)"
  using fval_push[OF w64_LSH_K[of 1 a]] fval_push[OF w64_LSH_V[of n a]] fval_RSH_V[of n a]
  by (simp add: fval_ADD fval_SUB F_LT_fval fval_RSH_1 LSH_1_K)

theorem macros_on_64_bits_witness:
  "fval (F_LSH_V \<lparr>fp_l = 0x80000000, fp_h = 1\<rparr> 33) = 0"
  using macros_on_64_bits[of "\<lparr>fp_l = 0x80000000, fp_h = 1\<rparr>" "\<lparr>fp_l = 0, fp_h = 0\<rparr>" 33] by (simp add: fval_def)

end
