(* ===== verification/StepInv.thy ===== *)
theory StepInv
  imports Step
begin

text \<open>
  What an access or a trap keeps. The locale machine_inv fixes the callbacks of a machine and
  a predicate on its state that the register blocks and the callbacks keep; inside it every
  access, push, trap entry and the bounded nest of trap routines is shown to keep it too,
  and (when the callbacks are total) to return. \<open>runs\<close> is the weakest precondition of an
  operation that may fail to return.
\<close>

definition core_fields where
  "core_fields r = (model r, (J11_CPUERR r, J11_PIRQ r, J11_STKLIM r), (mmu_ssr3 r, mmu_par r, mmu_pdr r, mmu_tlb r),
     (ram_fast r, ram_fast_size r, hwstub_mem r, hwstub_mem_size r), mach r)"

definition pdr_status :: "u16 set" where "pdr_status = {MMU_PDR_A, MMU_PDR_W, MMU_PDR_A OR MMU_PDR_W}"

text \<open>
  What a routine \<open>t\<close> for nested traps has to do: keep the invariant (and return, in the
  total case). MMU faults are only raised with translation on; \<open>phys_ok\<close> is what the
  physical accesses need, whose callbacks may raise bus errors when \<open>cbs\<close> holds.
\<close>

definition trap_ok :: "'m bus \<Rightarrow> bool \<Rightarrow> ('m regs \<Rightarrow> bool) \<Rightarrow> 'm trapf \<Rightarrow> bool" where
  "trap_ok b tot I t =
     ((\<forall>r. I r \<longrightarrow> runs tot (t BUS_ERROR r) I) \<and>
      (\<forall>va pc f m s g r. I r \<longrightarrow> mmu_on b r \<longrightarrow> runs tot (t (MMU_FAULT va pc f m s g) r) I))"

definition push_ok :: "'m bus \<Rightarrow> bool \<Rightarrow> bool \<Rightarrow> ('m regs \<Rightarrow> bool) \<Rightarrow> 'm trapf \<Rightarrow> bool" where
  "push_ok b tot cbs I t =
     ((cbs \<longrightarrow> trap_ok b tot I t) \<and>
      (\<not> cbs \<longrightarrow> (\<forall>r. I r \<longrightarrow> model r = DCJ11 \<longrightarrow> dcj11_vector_push_active r \<longrightarrow>
         runs tot (t BUS_ERROR r) (\<lambda>r. I r \<and> fAbort r))))"

lemma runs_wp2: "runs tot m (\<lambda>(v, r). I r) \<Longrightarrow> (\<And>v r'. I r' \<Longrightarrow> Q (v, r')) \<Longrightarrow> runs tot m Q"
  by (erule runs_weaken) auto

lemma runs_wp1: "runs tot m I \<Longrightarrow> (\<And>r'. I r' \<Longrightarrow> Q r') \<Longrightarrow> runs tot m Q"
  by (erule runs_weaken) auto

lemma mmu_on_simps [simp]:
  "mmu_on b (pdr_or m s g x r) = mmu_on b r"
  by (simp add: mmu_on_def pdr_or_def)

lemma mmu_on_note [simp]: "mmu_on b (mmu_note_write_pdrw b m s g r) = mmu_on b r"
  by (simp add: mmu_note_write_pdrw_def Let_def)

locale machine_inv =
  fixes b :: "'m bus" and I :: "'m regs \<Rightarrow> bool" and tot cbs :: bool
  assumes frame: "core_fields r' = core_fields r \<Longrightarrow> I r' = I r"
    and cpuerr [simp]: "I r \<Longrightarrow> I (dcj11_set_cpuerr bits r)"
    and pdr: "bits \<in> pdr_status \<Longrightarrow> I r \<Longrightarrow> I (pdr_or mode space seg bits r)"
    and host [simp]: "I r \<Longrightarrow> I (host_write b r p v)"
    and regblock: "I r \<Longrightarrow> dcj11_reg_block_store_word a w r = Some r' \<Longrightarrow> I r'"
    and mmuregs: "I r \<Longrightarrow> mmu_io_write_word b a w r = Some r' \<Longrightarrow> I r'"
    and reset_instruction [simp]: "I r \<Longrightarrow> I (dcj11_reset_instruction_state b r)"
    and reset: "I r \<Longrightarrow> cb_reset b = Some f \<Longrightarrow> I (f r)"
    and poll: "I r \<Longrightarrow> cb_poll_irq b = Some g \<Longrightarrow> I (snd (g r))"
    and no_cbs: "\<not> cbs \<Longrightarrow> \<not> ENABLE_MMU b"
    and no_cbs_host: "\<not> cbs \<Longrightarrow> model (host_write b r p v) = model r \<and>
      dcj11_vector_push_active (host_write b r p v) = dcj11_vector_push_active r"
    and no_cbs_store: "\<not> cbs \<Longrightarrow> cb_store_word b be r a w = Some r' \<Longrightarrow>
      model r' = model r \<and> dcj11_vector_push_active r' = dcj11_vector_push_active r"
    and cb_lb: "(cbs \<Longrightarrow> \<forall>r. I r \<longrightarrow> runs tot (be r) I) \<Longrightarrow> I r \<Longrightarrow> runs tot (cb_load_byte b be r a) (\<lambda>(v, r). I r)"
    and cb_sb: "(cbs \<Longrightarrow> \<forall>r. I r \<longrightarrow> runs tot (be r) I) \<Longrightarrow> I r \<Longrightarrow> runs tot (cb_store_byte b be r a v) I"
    and cb_lw: "(cbs \<Longrightarrow> \<forall>r. I r \<longrightarrow> runs tot (be r) I) \<Longrightarrow> I r \<Longrightarrow> runs tot (cb_load_word b be r a) (\<lambda>(v, r). I r)"
    and cb_sw: "(cbs \<Longrightarrow> \<forall>r. I r \<longrightarrow> runs tot (be r) I) \<Longrightarrow> I r \<Longrightarrow> runs tot (cb_store_word b be r a w) I"
    and cb_lb_pa: "(cbs \<Longrightarrow> \<forall>r. I r \<longrightarrow> runs tot (be r) I) \<Longrightarrow> I r \<Longrightarrow> cb_load_byte_pa b = Some lb \<Longrightarrow> runs tot (lb be r pa) (\<lambda>(v, r). I r)"
    and cb_sb_pa: "(cbs \<Longrightarrow> \<forall>r. I r \<longrightarrow> runs tot (be r) I) \<Longrightarrow> I r \<Longrightarrow> cb_store_byte_pa b = Some sb \<Longrightarrow> runs tot (sb be r pa v) I"
    and cb_lw_pa: "(cbs \<Longrightarrow> \<forall>r. I r \<longrightarrow> runs tot (be r) I) \<Longrightarrow> I r \<Longrightarrow> cb_load_word_pa b = Some lw \<Longrightarrow> runs tot (lw be r pa) (\<lambda>(v, r). I r)"
    and cb_sw_pa: "(cbs \<Longrightarrow> \<forall>r. I r \<longrightarrow> runs tot (be r) I) \<Longrightarrow> I r \<Longrightarrow> cb_store_word_pa b = Some sw \<Longrightarrow> runs tot (sw be r pa w) I"
begin

text \<open>Fields the invariant does not speak about.\<close>

lemma free_fields [simp]:
  "I (r\<lparr>R := x1\<rparr>) = I r" "I (r\<lparr>psw := x2\<rparr>) = I r" "I (r\<lparr>ir := x3\<rparr>) = I r" "I (r\<lparr>instr_pc := x4\<rparr>) = I r"
  "I (r\<lparr>rset_bank := x5\<rparr>) = I r" "I (r\<lparr>rset_bank_init := x6\<rparr>) = I r" "I (r\<lparr>sp_mode := x7\<rparr>) = I r"
  "I (r\<lparr>sp_mode_init := x8\<rparr>) = I r" "I (r\<lparr>dcj11_yellow_pending := x9\<rparr>) = I r"
  "I (r\<lparr>dcj11_stack_trap_active := y1\<rparr>) = I r" "I (r\<lparr>dcj11_explicit_psw_write := y2\<rparr>) = I r"
  "I (r\<lparr>dcj11_vector_push_active := y3\<rparr>) = I r" "I (r\<lparr>dcj11_vector_old_pc := y4\<rparr>) = I r"
  "I (r\<lparr>dcj11_vector_old_psw := y5\<rparr>) = I r" "I (r\<lparr>cps := y6\<rparr>) = I r" "I (r\<lparr>cpc := y7\<rparr>) = I r"
  "I (r\<lparr>TVE_LIMIT := z1\<rparr>) = I r" "I (r\<lparr>TVE_COUNT := z2\<rparr>) = I r" "I (r\<lparr>TVE_CSR := z3\<rparr>) = I r"
  "I (r\<lparr>TVE_PENDING := z4\<rparr>) = I r" "I (r\<lparr>VM1_RAP_PRESENT := z5\<rparr>) = I r" "I (r\<lparr>fTrap := z6\<rparr>) = I r"
  "I (r\<lparr>fWait := z7\<rparr>) = I r" "I (r\<lparr>fAbort := z8\<rparr>) = I r" "I (r\<lparr>fHaltSignal := z9\<rparr>) = I r"
  "I (r\<lparr>fStepDeferHalt := w1\<rparr>) = I r" "I (r\<lparr>fpu_fr := w2\<rparr>) = I r" "I (r\<lparr>fpu_fps := w3\<rparr>) = I r"
  "I (r\<lparr>fpu_fea := w4\<rparr>) = I r" "I (r\<lparr>fpu_fec := w5\<rparr>) = I r" "I (r\<lparr>fp11_reg_delta_mask := w6\<rparr>) = I r"
  "I (r\<lparr>fp11_reg_delta := w7\<rparr>) = I r" "I (r\<lparr>fp11_trap_pending := w8\<rparr>) = I r" "I (r\<lparr>fp11_trap_old_pc := w9\<rparr>) = I r"
  "I (r\<lparr>fp11_trap_old_psw := v1\<rparr>) = I r" "I (r\<lparr>fp11_backup_pc := v2\<rparr>) = I r"
  "I (r\<lparr>mmu_ssr0 := v3\<rparr>) = I r" "I (r\<lparr>mmu_ssr1 := v4\<rparr>) = I r" "I (r\<lparr>mmu_ssr2 := v5\<rparr>) = I r"
  by (rule frame; simp add: core_fields_def)+

lemma pdr_bits [simp]:
  "I r \<Longrightarrow> I (pdr_or mode space seg MMU_PDR_A r)" "I r \<Longrightarrow> I (pdr_or mode space seg MMU_PDR_W r)"
  "I r \<Longrightarrow> I (pdr_or mode space seg (MMU_PDR_A OR MMU_PDR_W) r)" "I r \<Longrightarrow> I (pdr_or mode space seg 0xC0 r)"
  using pdr[of "MMU_PDR_A" r mode space seg] pdr[of "MMU_PDR_W" r mode space seg] pdr[of "MMU_PDR_A OR MMU_PDR_W" r mode space seg]
  by (auto simp: pdr_status_def)

lemma flags_I [simp]: "I (set_flag f r) = I r" "I (clear_flag f r) = I r" "I (set_flag_if c f r) = I r"
  "I (PSW_SET_NZV_WORD w r) = I r" "I (PSW_SET_NZV_BYTE w r) = I r" "I (PSW_SET_NZVC_WORD n z v c r) = I r"
  "I (PSW_SET_NZVC_BYTE n z v c r) = I r"
  by (simp_all add: set_flag_def clear_flag_def set_flag_if_def PSW_SET_NZV_WORD_def PSW_SET_NZV_BYTE_def
      PSW_SET_NZVC_WORD_def PSW_SET_NZVC_BYTE_def Let_def)

lemma switch_I [simp]: "I (switch_regset_loop o' n' rs r) = I r"
  by (induction rs arbitrary: r) (simp_all add: Let_def)

lemma set_psw_I [simp]: "I (dcj11_set_psw p r) = I r" "I (dcj11_sp_mode_init r) = I r"
  "I (dcj11_write_mode_reg mode reg v r) = I r" "I (snd (dcj11_read_mode_reg mode reg r)) = I r"
  by (simp_all add: dcj11_set_psw_def dcj11_switch_regset_def dcj11_switch_stack_mode_def dcj11_regset_init_def
      dcj11_sp_mode_init_def dcj11_write_mode_reg_def dcj11_read_mode_reg_def Let_def)

lemma note_I [simp]: "I r \<Longrightarrow> I (dcj11_note_stack_reference a r)"
  "I (mmu_mmr1_instruction_start b r) = I r" "I (mmu_mmr1_record_delta b reg delta r) = I r"
  "I (mmu_record_fault b fault mode space seg r) = I r"
  "I r \<Longrightarrow> I (mmu_note_write_pdrw b mode sp seg r)" "I r \<Longrightarrow> I (mmu_note_internal_reg_write b va fk r)"
  by (simp_all add: dcj11_note_stack_reference_def mmu_mmr1_instruction_start_def mmu_mmr1_record_delta_def
      mmu_record_fault_def mmu_note_write_pdrw_def mmu_note_internal_reg_write_def Let_def)

lemma poll_I: "I r \<Longrightarrow> I (snd (core_poll_irq_any b r))"
  using poll by (auto simp: core_poll_irq_any_def split: option.splits)


lemma vm1_block_I: "vm1_reg_block_store_word a w r = Some r' \<Longrightarrow> I r' = I r"
  by (auto simp: vm1_reg_block_store_word_def split: if_splits)

lemma reg_stores_I:
  "dcj11_reg_block_store_byte a x r = Some r' \<Longrightarrow> I r \<Longrightarrow> I r'"
  "mmu_io_write_byte b a x r = Some r' \<Longrightarrow> I r \<Longrightarrow> I r'"
  "vm1_reg_block_store_byte a x r = Some r' \<Longrightarrow> I r \<Longrightarrow> I r'"
  by (auto simp: dcj11_reg_block_store_byte_def mmu_io_write_byte_def vm1_reg_block_store_byte_def Let_def vm1_block_I
      intro: regblock mmuregs split: if_splits option.splits)

lemma va_reg_stores_I:
  "(\<And>r. I r \<Longrightarrow> I (note r)) \<Longrightarrow> va_reg_store_word b note a w r = Some r' \<Longrightarrow> I r \<Longrightarrow> I r'"
  "(\<And>r. I r \<Longrightarrow> I (note r)) \<Longrightarrow> va_reg_store_byte b note a x r = Some r' \<Longrightarrow> I r \<Longrightarrow> I r'"
  by (auto simp: va_reg_store_word_def va_reg_store_byte_def vm1_block_I
      intro: regblock mmuregs reg_stores_I split: if_splits option.splits)

lemma translate_I:
  "page_translate b va w m s g r = (x, r') \<Longrightarrow> I r \<Longrightarrow> I r'"
  by (auto simp: page_translate_def Let_def split: if_splits)

lemma translate_ex_I:
  "translate_va_ex b va w i k r = (x, r') \<Longrightarrow> I r \<Longrightarrow> I r'"
  "translate_va_mode_space b va w mode ds r = (x, r') \<Longrightarrow> I r \<Longrightarrow> I r'"
  by (auto simp: translate_va_ex_def translate_va_mode_space_def Let_def split: if_splits intro: translate_I)

lemma page_fault_on: "page_translate b va w m s g r = (x, r') \<Longrightarrow> mmu_on b r' = mmu_on b r"
  by (auto simp: page_translate_def Let_def split: if_splits)

lemma translate_fault_on:
  "translate_va_ex b va w i k r = (XFault f m s g, r') \<Longrightarrow> mmu_on b r'"
  "translate_va_mode_space b va w mode ds r = (XFault f m s g, r') \<Longrightarrow> mmu_on b r'"
  by (auto simp: translate_va_ex_def translate_va_mode_space_def Let_def split: if_splits dest: page_fault_on)

text \<open>Physical accesses.\<close>

lemma raw_loads:
  assumes t: "cbs \<Longrightarrow> trap_ok b tot I t" and I: "I r"
  shows "(\<And>v r'. I r' \<Longrightarrow> Q (v, r')) \<Longrightarrow> runs tot (raw_load_byte_phys b t pa r) Q"
    "(\<And>v r'. I r' \<Longrightarrow> Q' (v, r')) \<Longrightarrow> runs tot (raw_load_word_phys b t pa r) Q'"
proof -
  have be: "\<forall>r. I r \<longrightarrow> runs tot (t BUS_ERROR r) I" if cbs using t[OF that] by (simp add: trap_ok_def)
  note lb = runs_wp2[OF cb_lb[OF be I]] and lbp = runs_wp2[OF cb_lb_pa[OF be I]]
  note lw = runs_wp2[OF cb_lw[OF be I]] and lwp = runs_wp2[OF cb_lw_pa[OF be I]]
  show "runs tot (raw_load_byte_phys b t pa r) Q" if "\<And>v r'. I r' \<Longrightarrow> Q (v, r')"
    using that I unfolding raw_load_byte_phys_def Let_def
    by (auto intro!: lb lbp split: option.split)
  show "runs tot (raw_load_word_phys b t pa r) Q'" if "\<And>v r'. I r' \<Longrightarrow> Q' (v, r')"
    using that I unfolding raw_load_word_phys_def Let_def
    by (auto intro!: lw lwp split: option.split)
qed

lemma raw_stores:
  assumes t: "cbs \<Longrightarrow> trap_ok b tot I t" and I: "I r" and Q: "\<And>r'. I r' \<Longrightarrow> Q r'"
  shows "runs tot (raw_store_byte_phys b t pa x r) Q" "runs tot (raw_store_word_phys b t pa w r) Q"
proof -
  have be: "\<forall>r. I r \<longrightarrow> runs tot (t BUS_ERROR r) I" if cbs using t[OF that] by (simp add: trap_ok_def)
  note sb = runs_wp1[OF cb_sb[OF be I]] and sbp = runs_wp1[OF cb_sb_pa[OF be I]]
  note sw = runs_wp1[OF cb_sw[OF be I]] and swp = runs_wp1[OF cb_sw_pa[OF be I]]
  show "runs tot (raw_store_byte_phys b t pa x r) Q"
    unfolding raw_store_byte_phys_def Let_def
    using I by (auto intro!: sb sbp Q intro: reg_stores_I split: option.split)
  show "runs tot (raw_store_word_phys b t pa w r) Q"
    unfolding raw_store_word_phys_def Let_def
    using I by (auto intro!: sw swp Q intro: regblock mmuregs split: option.split)
qed


text \<open>Virtual accesses.\<close>

lemma host_word_I [simp]: "I r \<Longrightarrow> I (host_write_word b r p w)"
  by (simp add: host_write_word_def)

lemma fast_loads_I:
  "fast_load_byte b i a r = Some (v, r') \<Longrightarrow> I r \<Longrightarrow> I r'"
  "fast_load_word b i a r = Some (w, r') \<Longrightarrow> I r \<Longrightarrow> I r'"
  by (auto simp: fast_load_byte_def fast_load_word_def Let_def split: if_splits option.splits prod.splits)

lemma fast_stores_I:
  "fast_store_byte b a v r = Some r' \<Longrightarrow> I r \<Longrightarrow> I r'"
  "fast_store_word b a w r = Some r' \<Longrightarrow> I r \<Longrightarrow> I r'"
  by (auto simp: fast_store_byte_def fast_store_word_def Let_def split: if_splits option.splits prod.splits)

lemma trap_bus: "trap_ok b tot I t \<Longrightarrow> I r \<Longrightarrow> (\<And>r'. I r' \<Longrightarrow> Q r') \<Longrightarrow> runs tot (t BUS_ERROR r) Q"
  by (rule runs_wp1[where I = I]) (auto simp: trap_ok_def)

lemma trap_mmu:
  "trap_ok b tot I t \<Longrightarrow> I r \<Longrightarrow> mmu_on b r \<Longrightarrow> (\<And>r'. I r' \<Longrightarrow> Q r') \<Longrightarrow>
   runs tot (t (MMU_FAULT va pc f m s g) r) Q"
  by (rule runs_wp1[where I = I]) (auto simp: trap_ok_def)

lemma address_error_wp:
  "trap_ok b tot I t \<Longrightarrow> I r \<Longrightarrow> (\<And>r'. I r' \<Longrightarrow> Q r') \<Longrightarrow> runs tot (address_error t r) Q"
  unfolding address_error_def by (rule trap_bus) auto

lemma load_byte_wp:
  assumes t: "trap_ok b tot I t" and I: "I r" and Q: "\<And>v r'. I r' \<Longrightarrow> Q (v, r')"
  shows "runs tot (core_load_byte_ex b t i k a r) Q"
  unfolding core_load_byte_ex_def core_load_byte_slow_def using I
  by (auto split: option.split prod.split xlate.split dest: fast_loads_I
      intro!: Q runs_bind trap_mmu[OF t] raw_loads[OF t] intro: translate_ex_I translate_fault_on)

lemma store_byte_wp:
  assumes t: "trap_ok b tot I t" and I: "I r" and Q: "\<And>r'. I r' \<Longrightarrow> Q r'"
  shows "runs tot (core_store_byte_ex b t k a v r) Q"
  unfolding core_store_byte_ex_def core_store_byte_slow_def using I
  by (auto split: option.split prod.split xlate.split dest: fast_stores_I va_reg_stores_I(2)[rotated]
      intro!: Q trap_mmu[OF t] raw_stores[OF t] intro: translate_ex_I translate_fault_on)

lemma load_word_wp:
  assumes t: "trap_ok b tot I t" and I: "I r" and Q: "\<And>v r'. I r' \<Longrightarrow> Q (v, r')"
  shows "runs tot (core_load_word_ex b t i k a r) Q"
  unfolding core_load_word_ex_def core_load_word_slow_def using I
  by (auto split: option.split prod.split xlate.split dest: fast_loads_I
      intro!: Q runs_bind address_error_wp[OF t] trap_mmu[OF t] raw_loads[OF t] intro: translate_ex_I translate_fault_on)

lemma store_word_wp:
  assumes t: "trap_ok b tot I t" and I: "I r" and Q: "\<And>r'. I r' \<Longrightarrow> Q r'"
  shows "runs tot (core_store_word_ex b t k a w r) Q"
  unfolding core_store_word_ex_def core_store_word_slow_def using I
  by (auto split: option.split prod.split xlate.split dest: fast_stores_I va_reg_stores_I(1)[rotated]
      intro!: Q address_error_wp[OF t] trap_mmu[OF t] raw_stores[OF t] intro: translate_ex_I translate_fault_on)

lemma load_mode_wp:
  assumes t: "trap_ok b tot I t" and I: "I r" and Q: "\<And>v r'. I r' \<Longrightarrow> Q (v, r')"
  shows "runs tot (core_load_word_mode_space b t a mode ds r) Q"
  unfolding core_load_word_mode_space_def using I
  by (auto split: option.split prod.split xlate.split simp: Let_def
      intro!: Q runs_bind address_error_wp[OF t] trap_mmu[OF t] raw_loads[OF t] intro: translate_ex_I translate_fault_on)

lemma store_mode_wp:
  assumes t: "trap_ok b tot I t" and I: "I r" and Q: "\<And>r'. I r' \<Longrightarrow> Q r'"
  shows "runs tot (core_store_word_mode_space b t a w mode ds r) Q"
  unfolding core_store_word_mode_space_def using I
  by (auto split: option.split prod.split xlate.split simp: Let_def dest: va_reg_stores_I(1)[rotated]
      intro!: Q address_error_wp[OF t] trap_mmu[OF t] raw_stores[OF t] intro: translate_ex_I translate_fault_on)


lemma dcj11_psw_active [simp]:
  "dcj11_vector_push_active (dcj11_set_psw p r) = dcj11_vector_push_active r"
  "model (dcj11_set_psw p r) = model r"
proof -
  have "dcj11_vector_push_active (switch_regset_loop x y rs r) = dcj11_vector_push_active r" "model (switch_regset_loop x y rs r) = model r"
    for x y rs and r :: "'m regs" by (induction rs arbitrary: r) (simp_all add: Let_def)
  then show "dcj11_vector_push_active (dcj11_set_psw p r) = dcj11_vector_push_active r" "model (dcj11_set_psw p r) = model r"
    by (simp_all add: dcj11_set_psw_def dcj11_switch_regset_def dcj11_switch_stack_mode_def dcj11_regset_init_def
      dcj11_sp_mode_init_def Let_def)
qed

lemma dcj11_block_active:
  "dcj11_reg_block_store_word a w r = Some r' \<Longrightarrow> dcj11_vector_push_active r' = dcj11_vector_push_active r"
  by (auto simp: dcj11_reg_block_store_word_def Let_def split: if_splits)

lemma mmu_io_write_off: "mmu_io_write_word b a w r = Some r' \<Longrightarrow> \<not> ENABLE_MMU b \<Longrightarrow> r' = r"
  by (auto simp: mmu_io_write_word_def Let_def split: if_splits option.splits prod.splits)

lemma note_active [simp]:
  "dcj11_vector_push_active (dcj11_note_stack_reference a r) = dcj11_vector_push_active r"
  "model (dcj11_note_stack_reference a r) = model r"
  "dcj11_vector_push_active (dcj11_set_cpuerr w r) = dcj11_vector_push_active r"
  "model (dcj11_set_cpuerr w r) = model r"
  by (simp_all add: dcj11_note_stack_reference_def dcj11_set_cpuerr_def Let_def)

text \<open>The pushes of a trap entry: an odd stack pointer may abort them, once.\<close>

lemma store_push:
  assumes p: "push_ok b tot cbs I t" and I: "I r" and act: "model r = DCJ11 \<longrightarrow> dcj11_vector_push_active r"
  shows "runs tot (core_store_word b t a w r)
    (\<lambda>r'. I r' \<and> (cbs \<or> fAbort r' \<or> (model r' = DCJ11 \<longrightarrow> dcj11_vector_push_active r')))"
proof (cases cbs)
  case True
  then show ?thesis unfolding core_store_word_def
    using p I by (auto intro!: store_word_wp simp: push_ok_def)
next
  case False
  have off: "\<not> ENABLE_MMU b" using no_cbs[OF False] .
  have err: "runs tot (t BUS_ERROR r') (\<lambda>r. I r \<and> fAbort r)"
    if "I r'" "model r' = DCJ11" "dcj11_vector_push_active r'" for r'
    using p that False by (simp add: push_ok_def)
  have cb: "runs tot (cb_store_word b (t BUS_ERROR) r x w) (\<lambda>r'. I r' \<and> model r' = model r \<and>
      dcj11_vector_push_active r' = dcj11_vector_push_active r)" for x
  proof (cases "cb_store_word b (t BUS_ERROR) r x w")
    case (Some r')
    with no_cbs_store[OF False this] show ?thesis using cb_sw[of "t BUS_ERROR" r x w] False I by simp
  qed (use cb_sw[of "t BUS_ERROR" r x w] False I in simp)
  define J where "J r' = (I r' \<and> (model r' = DCJ11 \<longrightarrow> dcj11_vector_push_active r'))" for r'
  have J: "J r" using I act by (simp add: J_def)
  have fast: "J r'" if "fast_store_word b a w r = Some r'" for r'
    using that J off by (auto simp: J_def fast_store_word_def host_write_word_def no_cbs_host[OF False] split: if_splits option.splits)
  have regs: "J r'" if "va_reg_store_word b (mmu_note_internal_reg_write b a False) a w r = Some r'" for r'
    using that J off
    by (auto simp: J_def va_reg_store_word_def mmu_note_internal_reg_write_def mmu_on_def
        vm1_reg_block_store_word_def
        split: if_splits option.splits dest: dcj11_block_active regblock[OF I] mmu_io_write_off)
  have pa: "(ucast a :: u32) \<le> 0xFFFF" using uint16(2)[of a] by (simp add: word_le_def unsigned_ucast_eq take_bit_eq_mod)
  have raw: "runs tot (raw_store_word_phys b t (ucast a) w r) J"
    using off pa J unfolding raw_store_word_phys_def dcj11_io_alias_offset_def
    by (auto simp: J_def intro!: runs_weaken[OF cb] split: option.split)
  have slow: "runs tot (core_store_word_slow b t False a w r) J"
    unfolding core_store_word_slow_def using regs off
    by (auto simp: translate_va_ex_def mmu_on_def intro!: raw split: option.split)
  have "runs tot (core_store_word_ex b t False a w r) (\<lambda>r'. J r' \<or> (I r' \<and> fAbort r'))"
    unfolding core_store_word_ex_def using fast
    by (auto simp: address_error_def J I act intro!: runs_weaken[OF err] runs_weaken[OF slow] split: option.split)
  then show ?thesis unfolding core_store_word_def by (rule runs_weaken) (auto simp: J_def)
qed


lemma load_vector_wp:
  assumes p: "push_ok b tot cbs I t" and I: "I r" and Q: "\<And>v r'. I r' \<Longrightarrow> Q (v, r')"
  shows "runs tot (core_load_word_vector b t a r) Q"
proof -
  have t: "trap_ok b tot I t" if cbs using p that by (simp add: push_ok_def)
  show ?thesis
  proof (cases "ENABLE_MMU b")
    case True
    then have "trap_ok b tot I t" using t no_cbs by auto
    then show ?thesis unfolding core_load_word_vector_def Let_def using I Q t
      by (auto intro!: load_mode_wp raw_loads)
  next
    case False
    then show ?thesis unfolding core_load_word_vector_def Let_def using I Q t
      by (auto intro!: raw_loads)
  qed
qed

lemma core_take_vector_wp:
  assumes p: "push_ok b tot cbs I t" and I: "I r" and Q: "\<And>r'. I r' \<Longrightarrow> Q r'"
  shows "runs tot (core_take_vector b t vec pc p r) Q"
proof -
  have pushes: "runs tot (pushw b t w r) (\<lambda>r'. I r' \<and> (cbs \<or> fAbort r' \<or> (model r' = DCJ11 \<longrightarrow> dcj11_vector_push_active r')))"
    if "I r" "cbs \<or> (model r = DCJ11 \<longrightarrow> dcj11_vector_push_active r)" for w r
  proof (cases cbs)
    case True
    then show ?thesis using p that unfolding pushw_def Let_def core_store_word_def
      by (auto simp: push_ok_def intro!: store_word_wp)
  next
    case False
    then show ?thesis using that unfolding pushw_def Let_def
      by (intro store_push[OF p]) auto
  qed
  show ?thesis
    unfolding core_take_vector_def Let_def
    by (rule runs_bind load_vector_wp[OF p] I runs_prod runs_if runs_SomeI Q | simp add: I)+
      (auto intro!: runs_weaken[OF pushes] runs_bind Q)
qed


text \<open>Traps.\<close>

lemma push_ok_phys: "push_ok b tot cbs I t \<Longrightarrow> cbs \<Longrightarrow> trap_ok b tot I t"
  by (simp add: push_ok_def)

lemma red_stack_wp:
  assumes p: "push_ok b tot cbs I t" and I: "I r"
  shows "runs tot (dcj11_take_red_stack_abort b t r) (\<lambda>(taken, r'). I r' \<and> (taken \<longrightarrow> fAbort r'))"
  unfolding dcj11_take_red_stack_abort_def Let_def
  by (rule runs_bind raw_loads[OF push_ok_phys[OF p]] raw_stores[OF push_ok_phys[OF p]] runs_prod runs_if runs_SomeI
      | assumption | simp add: I)+

lemma traps_wp:
  assumes p: "push_ok b tot cbs I t" and I: "I r"
  shows "runs tot (bus_error_trap b t r) (\<lambda>r. I r \<and> fAbort r)"
    "runs tot (mmu_fault_trap b t va pc f m s g r) (\<lambda>r. I r \<and> fAbort r)"
proof -
  note red = runs_weaken[OF red_stack_wp[OF p I]] and vec = core_take_vector_wp[OF p]
  show "runs tot (bus_error_trap b t r) (\<lambda>r. I r \<and> fAbort r)"
    "runs tot (mmu_fault_trap b t va pc f m s g r) (\<lambda>r. I r \<and> fAbort r)"
    unfolding bus_error_trap_def mmu_fault_trap_def Let_def
    by (auto intro!: runs_bind red vec split: if_splits)
qed

lemma red_stack_only:
  assumes "\<not> cbs" "I r" "model r = DCJ11" "dcj11_vector_push_active r"
  shows "runs tot (bus_error_trap b t r) (\<lambda>r. I r \<and> fAbort r)"
proof -
  have red: "runs tot (dcj11_take_red_stack_abort b t r) (\<lambda>(taken, r'). I r' \<and> taken \<and> fAbort r')"
    unfolding dcj11_take_red_stack_abort_def Let_def
    by (rule runs_bind raw_loads raw_stores runs_prod runs_if runs_SomeI
      | assumption | simp add: assms)+
  show ?thesis unfolding bus_error_trap_def Let_def
    by (auto intro!: runs_bind runs_weaken[OF red])
qed

lemma push_ok_trap: "trap_ok b tot I t \<Longrightarrow> cbs \<Longrightarrow> push_ok b tot cbs I t"
  by (simp add: push_ok_def)

lemma core_trap_push:
  assumes "cbs \<Longrightarrow> trap_ok b tot I (core_trap b (Suc n))"
  shows "push_ok b tot cbs I (core_trap b (Suc n))"
  using assms red_stack_only[where t = "core_trap b n"] by (simp add: push_ok_def)

lemma core_trap_ok_push: "push_ok b tot cbs I (core_trap b n) \<Longrightarrow> trap_ok b tot I (core_trap b (Suc n))"
  unfolding trap_ok_def by (auto intro!: runs_weaken[OF traps_wp(1)] runs_weaken[OF traps_wp(2)])

text \<open>Enough fuel: any in a partial sweep, two nested traps when the callbacks raise none.\<close>

lemma core_trap_partial: "\<not> tot \<Longrightarrow> cbs \<Longrightarrow> trap_ok b tot I (core_trap b n)"
proof (induction n)
  case 0 then show ?case by (simp add: trap_ok_def)
next
  case (Suc n)
  show ?case by (intro core_trap_ok_push push_ok_trap Suc)
qed

lemma core_trap_total:
  assumes "\<not> cbs" "2 \<le> n" shows "trap_ok b tot I (core_trap b n)"
proof -
  obtain m where "n = Suc (Suc m)" using assms(2) by (metis Suc_le_D numeral_2_eq_2 Suc_le_mono)
  then show ?thesis using core_trap_ok_push[OF core_trap_push] assms(1) by simp
qed

lemma trap_ok_push: assumes "trap_ok b tot I (core_trap b n)" "cbs \<or> 1 \<le> n"
  shows "push_ok b tot cbs I (core_trap b n)"
proof (cases cbs)
  case False
  then obtain m where "n = Suc m" using assms(2) by (cases n) auto
  then show ?thesis using core_trap_push False by simp
qed (use assms(1) push_ok_trap in blast)

end

end
