(* ===== verification/StepFlow.thy ===== *)
theory StepFlow
  imports StepInv
begin

text \<open>
  The same for whole instructions and steps. The locale machine_trap adds a trap routine
  that keeps the predicate; inside it every case of the dispatcher, the FP11 instructions
  and core_step are shown to keep it, one rule per definition, and no opcode falls through
  all the switches.
\<close>

definition flow_ok :: "('m regs \<Rightarrow> bool) \<Rightarrow> 'm flow \<Rightarrow> bool" where
  "flow_ok I f = (case f of Next \<Rightarrow> True | Return r \<Rightarrow> I r | StepEnd c r \<Rightarrow> I r)"

lemma flow_ok_simps [simp]: "flow_ok I Next" "flow_ok I (Return r) = I r" "flow_ok I (StepEnd c r) = I r"
  by (simp_all add: flow_ok_def)

text \<open>The dispatcher ends with a trap: no opcode falls through all switches.\<close>

lemma ends_not_Next [simp]: "step_end r \<noteq> Some Next" "trap_end m \<noteq> Some Next"
  by (simp_all add: step_end_def trap_end_def bind_eq_Some_conv)

lemma or_next_Next: "or_next m k = Some Next \<Longrightarrow> k = Some Next"
  unfolding or_next_def bind_eq_Some_conv by (metis (no_types, lifting) flow.exhaust flow.simps flow.distinct option.inject)

lemma exec_instr_not_Next: "exec_instr b t op p r \<noteq> Some Next"
  by (auto simp: exec_instr_def exec_cc_def exec_SPL_def dest!: or_next_Next split: if_splits)

text \<open>The same with a routine for nested traps that may be used.\<close>

locale machine_trap = machine_inv b I tot cbs for b :: "'m bus" and I :: "'m regs \<Rightarrow> bool" and tot cbs :: bool +
  fixes t :: "'m trapf"
  assumes t: "trap_ok b tot I t" and p: "push_ok b tot cbs I t"
begin

lemmas vector = core_take_vector_wp[OF p]
lemmas load_vec = load_vector_wp[OF p]

lemma mem:
  assumes "I r"
  shows "(\<And>v r'. I r' \<Longrightarrow> Q (v, r')) \<Longrightarrow> runs tot (core_load_byte b t a r) Q"
    "(\<And>v r'. I r' \<Longrightarrow> Q (v, r')) \<Longrightarrow> runs tot (core_load_byte_ex b t i k a r) Q"
    "(\<And>v r'. I r' \<Longrightarrow> Q' (v, r')) \<Longrightarrow> runs tot (core_load_word b t a r) Q'"
    "(\<And>v r'. I r' \<Longrightarrow> Q' (v, r')) \<Longrightarrow> runs tot (core_load_word_ifetch b t a r) Q'"
    "(\<And>v r'. I r' \<Longrightarrow> Q' (v, r')) \<Longrightarrow> runs tot (core_load_word_mode_space b t a mode ds r) Q'"
    "(\<And>r'. I r' \<Longrightarrow> P r') \<Longrightarrow> runs tot (core_store_byte b t a x r) P"
    "(\<And>r'. I r' \<Longrightarrow> P r') \<Longrightarrow> runs tot (core_store_word b t a w r) P"
    "(\<And>r'. I r' \<Longrightarrow> P r') \<Longrightarrow> runs tot (core_store_word_mode_space b t a w mode ds r) P"
  using assms unfolding core_load_byte_def core_load_word_def core_load_word_ifetch_def
    core_store_byte_def core_store_word_def
  by (auto intro!: load_byte_wp[OF t] load_word_wp[OF t] store_byte_wp[OF t] store_word_wp[OF t]
      load_mode_wp[OF t] store_mode_wp[OF t])

lemma stack:
  "I r \<Longrightarrow> (\<And>r'. I r' \<Longrightarrow> P r') \<Longrightarrow> runs tot (pushw b t w r) P"
  "I r \<Longrightarrow> (\<And>v r'. I r' \<Longrightarrow> Q (v, r')) \<Longrightarrow> runs tot (pullw b t r) Q"
  by (auto simp: pushw_def pullw_def Let_def intro!: runs_bind mem)

lemma traps:
  assumes "I r" "\<And>r'. I r' \<Longrightarrow> P r'"
  shows "runs tot (illegal_trap b t r) P" "runs tot (trap_vector4 b t r) P"
    "runs tot (handle_halt b t r) P" "runs tot (handle_fis b t r) P" "runs tot (handle_fis_error b t e r) P"
  using assms
  by (auto simp: illegal_trap_def trap_vector4_def handle_halt_def handle_halt_vm1_def handle_halt_vm2_def
      handle_halt_dcj11_def handle_fis_def handle_fis_error_def Let_def
      intro!: runs_bind vector mem load_vec stack)

lemma service_stack_wp:
  assumes "I r" "\<And>v r'. I r' \<Longrightarrow> Q (v, r')"
  shows "runs tot (dcj11_service_stack_trap b t r) Q"
  using assms by (auto simp: dcj11_service_stack_trap_def Let_def intro!: runs_bind vector)

text \<open>Operands.\<close>

lemma inc_dec_I [simp]: "I r \<Longrightarrow> I (post_increment b reg s r)" "I r \<Longrightarrow> I (pre_decrement b reg s r)"
  by (auto simp: post_increment_def pre_decrement_def Let_def)

lemma fetch_index_wp: "I r \<Longrightarrow> (\<And>v r'. I r' \<Longrightarrow> Q (v, r')) \<Longrightarrow> runs tot (fetch_index b t r) Q"
  by (auto simp: fetch_index_def intro!: runs_bind mem)

lemma mem_or_error_wp:
  "runs tot m (\<lambda>(v, r). I r) \<Longrightarrow> (\<And>ty a r'. I r' \<Longrightarrow> Q (ty, a, r')) \<Longrightarrow> runs tot (mem_or_error m) Q"
  unfolding mem_or_error_def by (rule runs_bind, erule runs_weaken) auto

lemma decode_wp:
  assumes I: "I r" and Q: "\<And>ty a r'. I r' \<Longrightarrow> Q (ty, a, r')"
  shows "runs tot (decode_data b t d ty r) Q"
  unfolding decode_data_def Let_def
  using I by (auto intro!: Q mem_or_error_wp mem runs_bind fetch_index_wp split: option.split)

lemma operand_wp:
  assumes "I r"
  shows "(\<And>v r'. I r' \<Longrightarrow> Q (v, r')) \<Longrightarrow> runs tot (get_data_byte b t ty a r) Q"
    "(\<And>v r'. I r' \<Longrightarrow> Q' (v, r')) \<Longrightarrow> runs tot (get_data_word b t ty a r) Q'"
    "(\<And>r'. I r' \<Longrightarrow> P r') \<Longrightarrow> runs tot (put_data_byte b t ty a x r) P"
    "(\<And>r'. I r' \<Longrightarrow> P r') \<Longrightarrow> runs tot (put_data_byte_movb b t ty a x r) P"
    "(\<And>r'. I r' \<Longrightarrow> P r') \<Longrightarrow> runs tot (put_data_word b t ty a w r) P"
  using assms by (auto simp: get_data_byte_def get_data_word_def put_data_byte_def put_data_byte_movb_def
      put_data_word_def intro!: mem)

lemma flow_wp:
  "I r \<Longrightarrow> runs tot (step_end r) (flow_ok I)"
  "I r \<Longrightarrow> runs tot k (flow_ok I) \<Longrightarrow> runs tot (unless_abort r k) (flow_ok I)"
  "I r \<Longrightarrow> runs tot k (flow_ok I) \<Longrightarrow> runs tot (unless_abort_end r k) (flow_ok I)"
  "runs tot m I \<Longrightarrow> runs tot (trap_end m) (flow_ok I)"
  by (auto simp: step_end_def unless_abort_def unless_abort_end_def trap_end_def intro!: runs_bind
      elim!: runs_weaken)

lemma or_next_wp: "runs tot m (flow_ok I) \<Longrightarrow> runs tot k (flow_ok I) \<Longrightarrow> runs tot (or_next m k) (flow_ok I)"
  unfolding or_next_def by (rule runs_bind, erule runs_weaken) (auto split: flow.split)

lemma macros_wp:
  assumes "I r"
  shows "(\<And>ty a r. I r \<Longrightarrow> runs tot (k ty a r) (flow_ok I)) \<Longrightarrow> runs tot (DECODE_DST b t op r k) (flow_ok I)"
    "(\<And>ty a r. I r \<Longrightarrow> runs tot (k ty a r) (flow_ok I)) \<Longrightarrow> runs tot (DECODE_DSTB b t op r k) (flow_ok I)"
    "(\<And>ty a r. I r \<Longrightarrow> runs tot (k ty a r) (flow_ok I)) \<Longrightarrow> runs tot (DECODE_SRC b t op r k) (flow_ok I)"
    "(\<And>ty a r. I r \<Longrightarrow> runs tot (k ty a r) (flow_ok I)) \<Longrightarrow> runs tot (DECODE_SRCB b t op r k) (flow_ok I)"
    "(\<And>ty a r. I r \<Longrightarrow> runs tot (k ty a r) (flow_ok I)) \<Longrightarrow> runs tot (DECODE_DST_END b t op r k) (flow_ok I)"
    "(\<And>v r. I r \<Longrightarrow> runs tot (k1 v r) (flow_ok I)) \<Longrightarrow> runs tot (GET_WORD b t ty a r k1) (flow_ok I)"
    "(\<And>v r. I r \<Longrightarrow> runs tot (k1 v r) (flow_ok I)) \<Longrightarrow> runs tot (GET_BYTE b t ty a r k1) (flow_ok I)"
    "(\<And>r. I r \<Longrightarrow> runs tot (k2 r) (flow_ok I)) \<Longrightarrow> runs tot (PUT_WORD b t ty a w r k2) (flow_ok I)"
    "(\<And>r. I r \<Longrightarrow> runs tot (k2 r) (flow_ok I)) \<Longrightarrow> runs tot (PUT_BYTE b t ty a w r k2) (flow_ok I)"
    "(\<And>r. I r \<Longrightarrow> runs tot (k2 r) (flow_ok I)) \<Longrightarrow> runs tot (PUT_BYTE_MOVB b t ty a w r k2) (flow_ok I)"
  using assms
  by (auto simp: DECODE_DST_def DECODE_DSTB_def DECODE_SRC_def DECODE_SRCB_def DECODE_DST_END_def GET_WORD_def GET_BYTE_def PUT_WORD_def
      PUT_BYTE_def PUT_BYTE_MOVB_def intro!: runs_bind decode_wp operand_wp flow_wp)

lemma operands_wp:
  assumes "I r" "\<And>ty a x y r. I r \<Longrightarrow> runs tot (k ty a x y r) (flow_ok I)"
  shows "runs tot (OPERANDS_WORD b t op r k) (flow_ok I)" "runs tot (OPERANDS_BYTE b t op r k) (flow_ok I)"
  using assms by (auto simp: OPERANDS_WORD_def OPERANDS_BYTE_def intro!: macros_wp)


text \<open>Instructions.\<close>

lemmas instr = flow_wp macros_wp operands_wp runs_bind mem stack traps vector

lemma poll_and_take_wp: "I r \<Longrightarrow> (\<And>r'. I r' \<Longrightarrow> Q r') \<Longrightarrow> runs tot (poll_and_take b t r) Q"
  using poll_I[of r] by (auto simp: poll_and_take_def split: prod.split option.split intro!: vector)

lemma control_wp:
  assumes "I r"
  shows "runs tot (exec_cc op r) (flow_ok I)" "runs tot (exec_no_operand b t op pb r) (flow_ok I)"
    "runs tot (exec_SPL b t op pb r) (flow_ok I)" "runs tot (exec_vm2 b t op r) (flow_ok I)"
    "runs tot (exec_branch b t op r) (flow_ok I)" "runs tot (exec_linkage b t op r) (flow_ok I)"
proof -
  show "runs tot (exec_cc op r) (flow_ok I)" using assms by (simp add: exec_cc_def flow_wp)
  have "runs tot (exec_HALT b t pb r) (flow_ok I)" "runs tot (exec_WAIT r) (flow_ok I)"
    "runs tot (exec_RTI b t pb r) (flow_ok I)" "runs tot (exec_BPT b t r) (flow_ok I)"
    "runs tot (exec_IOT b t r) (flow_ok I)" "runs tot (exec_RESET b pb r) (flow_ok I)"
    "runs tot (exec_RTT b t pb r) (flow_ok I)" "runs tot (exec_MFPT b t r) (flow_ok I)"
    using assms
    by (auto simp: exec_HALT_def exec_WAIT_def exec_RTI_def exec_BPT_def exec_IOT_def exec_RESET_def exec_RTT_def
        exec_MFPT_def Let_def reset intro!: instr split: option.split)
  then show "runs tot (exec_no_operand b t op pb r) (flow_ok I)" by (simp add: exec_no_operand_def)
  show "runs tot (exec_SPL b t op pb r) (flow_ok I)"
    using assms by (auto simp: exec_SPL_def intro!: instr)
  have "runs tot (exec_START b t r) (flow_ok I)" "runs tot (exec_STEP b t r) (flow_ok I)"
    "runs tot (exec_RSEL b t r) (flow_ok I)" "runs tot (exec_MFUS b t r) (flow_ok I)"
    "runs tot (exec_RCPC b t r) (flow_ok I)" "runs tot (exec_RCPS b t r) (flow_ok I)"
    "runs tot (exec_MTUS b t r) (flow_ok I)" "runs tot (exec_WCPC b t r) (flow_ok I)"
    "runs tot (exec_WCPS b t r) (flow_ok I)"
    using assms
    by (auto simp: exec_START_def exec_STEP_def exec_RSEL_def exec_MFUS_def exec_RCPC_def exec_RCPS_def
        exec_MTUS_def exec_WCPC_def exec_WCPS_def Let_def intro!: instr poll_and_take_wp)
  then show "runs tot (exec_vm2 b t op r) (flow_ok I)" by (simp add: exec_vm2_def)
  have "runs tot (exec_trap_insn b t op r) (flow_ok I)" using assms by (auto simp: exec_trap_insn_def intro!: instr)
  moreover have "runs tot (branch_if c op r) (flow_ok I)" for c
    using assms by (auto simp: branch_if_def take_branch_def intro!: instr)
  ultimately show "runs tot (exec_branch b t op r) (flow_ok I)" by (simp add: exec_branch_def Let_def)
  have "runs tot (exec_RTS b t op r) (flow_ok I)" "runs tot (exec_MARK b t op r) (flow_ok I)"
    "runs tot (exec_SOB op r) (flow_ok I)"
    using assms by (auto simp: exec_RTS_def exec_MARK_def exec_SOB_def Let_def intro!: instr)
  then show "runs tot (exec_linkage b t op r) (flow_ok I)" by (simp add: exec_linkage_def)
qed

lemma modify_wp:
  assumes "I r" "\<And>v c r. I r \<Longrightarrow> I (snd (alu v c) r)"
  shows "runs tot (modify_word b t alu op r) (flow_ok I)" "runs tot (modify_byte b t alu op r) (flow_ok I)"
proof -
  show "runs tot (modify_word b t alu op r) (flow_ok I)" unfolding modify_word_def
    by (rule macros_wp assms runs_prod flow_wp | assumption | metis assms(2) snd_conv)+
  show "runs tot (modify_byte b t alu op r) (flow_ok I)" unfolding modify_byte_def
    by (rule macros_wp assms runs_prod flow_wp | assumption | metis assms(2) snd_conv)+
qed

lemma alu1_I [simp]:
  "I r \<Longrightarrow> I (snd (alu_COM v c) r)" "I r \<Longrightarrow> I (snd (alu_COMB v c) r)" "I r \<Longrightarrow> I (snd (alu_INC v c) r)"
  "I r \<Longrightarrow> I (snd (alu_INCB v c) r)" "I r \<Longrightarrow> I (snd (alu_DEC v c) r)" "I r \<Longrightarrow> I (snd (alu_DECB v c) r)"
  "I r \<Longrightarrow> I (snd (alu_NEG v c) r)" "I r \<Longrightarrow> I (snd (alu_NEGB v c) r)" "I r \<Longrightarrow> I (snd (alu_ASR v c) r)"
  "I r \<Longrightarrow> I (snd (alu_ASRB v c) r)" "I r \<Longrightarrow> I (snd (alu_ASL v c) r)" "I r \<Longrightarrow> I (snd (alu_ASLB v c) r)"
  "I r \<Longrightarrow> I (snd (alu_ROR v c) r)" "I r \<Longrightarrow> I (snd (alu_RORB v c) r)" "I r \<Longrightarrow> I (snd (alu_ROL v c) r)"
  "I r \<Longrightarrow> I (snd (alu_ROLB v c) r)" "I r \<Longrightarrow> I (snd (alu_ADC v c) r)" "I r \<Longrightarrow> I (snd (alu_ADCB v c) r)"
  "I r \<Longrightarrow> I (snd (alu_SBC v c) r)" "I r \<Longrightarrow> I (snd (alu_SBCB v c) r)" "I r \<Longrightarrow> I (snd (alu_SWAB v c) r)"
  by (simp_all add: alu_COM_def alu_COMB_def alu_INC_def alu_INCB_def alu_DEC_def alu_DECB_def alu_NEG_def
      alu_NEGB_def alu_ASR_def alu_ASRB_def alu_ASL_def alu_ASLB_def alu_ROR_def alu_RORB_def alu_ROL_def
      alu_ROLB_def alu_ADC_def alu_ADCB_def alu_SBC_def alu_SBCB_def alu_SWAB_def Let_def)

lemma single_parts:
  assumes "I r"
  shows "runs tot (exec_JMP b t op r) (flow_ok I)" "runs tot (exec_CLR b t op r) (flow_ok I)"
    "runs tot (exec_CLRB b t op r) (flow_ok I)" "runs tot (exec_TST b t op r) (flow_ok I)"
    "runs tot (exec_TSTB b t op r) (flow_ok I)" "runs tot (exec_SXT b t op r) (flow_ok I)"
    "runs tot (exec_MFPS b t op r) (flow_ok I)" "runs tot (exec_MTPS b t op pb r) (flow_ok I)"
    "runs tot (exec_TSTSET b t op r) (flow_ok I)" "runs tot (exec_WRTLCK b t op r) (flow_ok I)"
  using assms
  by (auto simp: exec_JMP_def exec_CLR_def exec_CLRB_def exec_TST_def exec_TSTB_def exec_SXT_def exec_MFPS_def
      exec_MTPS_def exec_TSTSET_def exec_WRTLCK_def Let_def intro!: instr)

lemma CSM_wp: "I r \<Longrightarrow> runs tot (exec_CSM b t op pb r) (flow_ok I)"
  by (auto simp: exec_CSM_def Let_def intro!: instr)

lemma prev_space_wp:
  assumes "I r" shows "runs tot (exec_MFP b t ds op pb r) (flow_ok I)" "runs tot (exec_MTP b t ds op pb r) (flow_ok I)"
proof -
  have push: "runs tot (mfp_push b t v r) (flow_ok I)" if "I r" for v r
    using that by (auto simp: mfp_push_def Let_def intro!: instr)
  have rd: "I r''" if "dcj11_read_mode_reg m a r' = (v, r'')" "I r'" for m a r' v r''
    using that set_psw_I(4)[of m a r'] by simp
  show "runs tot (exec_MFP b t ds op pb r) (flow_ok I)"
    using assms by (auto simp: exec_MFP_def Let_def intro!: instr operand_wp push intro: rd split: prod.split)
  show "runs tot (exec_MTP b t ds op pb r) (flow_ok I)"
    using assms by (auto simp: exec_MTP_def Let_def intro!: instr)
qed

lemma single_wp: "I r \<Longrightarrow> runs tot (exec_single b t op pb r) (flow_ok I)"
  by (simp add: exec_single_def Let_def single_parts modify_wp CSM_wp prev_space_wp exec_MFPD_def exec_MFPI_def
      exec_MTPI_def exec_MTPD_def)


text \<open>FIS and FP11.\<close>

lemma FIS_wp: "I r \<Longrightarrow> runs tot (exec_FIS b t op r) (flow_ok I)"
proof -
  have store: "runs tot (fis_store b t reg a w r) (flow_ok I)" if "I r" for reg a w r
    using that by (auto simp: fis_store_def Let_def intro!: instr)
  assume "I r"
  then show ?thesis by (auto simp: exec_FIS_def Let_def intro!: instr store split: prod.split)
qed

lemma fp_state [simp]: "I (snd (fpnotrap c r)) = I r" "I (fp_reg_change l reg r) = I r" "I (set_fps v r) = I r"
  "I (set_fr ac f r) = I r" "I (fp_special IR r) = I r" "I (fp11_start r) = I r" "I (commit_deltas is r) = I r"
proof -
  show trap: "I (snd (fpnotrap c r)) = I r" for c r by (simp add: fpnotrap_def Let_def)
  show "I (fp_reg_change l reg r) = I r" "I (set_fps v r) = I r" "I (set_fr ac f r) = I r" "I (fp11_start r) = I r" for r
    by (simp_all add: fp_reg_change_def set_fps_def set_fr_def fp11_start_def)
  then show "I (fp_special IR r) = I r" by (simp add: fp_special_def trap set_fps_def)
  show "I (commit_deltas is r) = I r" by (induction "is" arbitrary: r) simp_all
qed

lemma fpnotrap_I: "fpnotrap c r = (x, r') \<Longrightarrow> I r' = I r"
  using fp_state(1)[of c r] by simp

lemma check_undefined_I: "I (snd (check_undefined f r)) = I r"
  by (auto simp: check_undefined_def fpnotrap_I split: prod.split)

lemma fp_access:
  assumes "I r" "\<And>v r'. I r' \<Longrightarrow> Q (v, r')"
  shows "runs tot (ReadW b t a r) Q" "runs tot (ReadWI b t a r) Q" "runs tot (ReadFW b t a s r) Q"
  using assms by (auto simp: ReadW_def ReadWI_def ReadFW_def intro!: mem)

lemma fp_write: "I r \<Longrightarrow> (\<And>r'. I r' \<Longrightarrow> Q r') \<Longrightarrow> runs tot (WriteW b t d a r) Q"
  by (auto simp: WriteW_def intro!: mem)

lemma fp_ea:
  assumes "I r" "\<And>v r'. I r' \<Longrightarrow> Q (v, r')"
  shows "runs tot (GeteaFW b t s r) Q" "runs tot (GeteaFP b t s len r) Q"
  using assms
  by (auto simp: GeteaFW_def GeteaFP_def fp_ea_mode3_def fp_ea_mode5_def fp_ea_mode6_def fp_ea_mode7_def Let_def
      intro!: runs_bind fp_access)

lemma bus_wp: "I r \<Longrightarrow> (\<And>r'. I r' \<Longrightarrow> Q r') \<Longrightarrow> runs tot (t BUS_ERROR r) Q"
  by (rule trap_bus[OF t])

lemma fp_operand:
  assumes "I r"
  shows "(\<And>v r'. I r' \<Longrightarrow> Q (v, r')) \<Longrightarrow> runs tot (ReadI b t a s len r) Q"
    "(\<And>v r'. I r' \<Longrightarrow> Q' (v, r')) \<Longrightarrow> runs tot (ReadFP b t a s len r) Q'"
    "(\<And>r'. I r' \<Longrightarrow> P r') \<Longrightarrow> runs tot (WriteI b t d a s len r) P"
    "(\<And>r'. I r' \<Longrightarrow> P r') \<Longrightarrow> runs tot (WriteFP b t f a s len r) P"
proof -
  show "(\<And>v r'. I r' \<Longrightarrow> Q (v, r')) \<Longrightarrow> runs tot (ReadI b t a s len r) Q"
    using assms by (auto simp: ReadI_def intro!: runs_bind fp_access)
  have und: "Q' (check_undefined f r)" if "\<And>v r'. I r' \<Longrightarrow> Q' (v, r')" "I r" for f and r
    using that check_undefined_I[of f r] by (cases "check_undefined f r") simp
  show "(\<And>v r'. I r' \<Longrightarrow> Q' (v, r')) \<Longrightarrow> runs tot (ReadFP b t a s len r) Q'"
    using assms by (auto simp: ReadFP_def read_low_def intro!: runs_bind fp_access und)
  show "(\<And>r'. I r' \<Longrightarrow> P r') \<Longrightarrow> runs tot (WriteI b t d a s len r) P"
    using assms by (auto simp: WriteI_def intro!: runs_bind fp_write bus_wp)
  show "(\<And>r'. I r' \<Longrightarrow> P r') \<Longrightarrow> runs tot (WriteFP b t f a s len r) P"
    using assms by (auto simp: WriteFP_def intro!: runs_bind fp_write bus_wp)
qed

lemma with_fsrc_wp:
  assumes "I r" "\<And>ea f r. I r \<Longrightarrow> runs tot (k ea f r) I"
  shows "runs tot (with_fsrc b t s len r k) I"
  using assms by (auto simp: with_fsrc_def split: option.split intro!: runs_bind fp_ea fp_operand)

lemma pack_I: "round_and_pack f e g rv r = (v, h, r') \<Longrightarrow> I r' = I r"
  by (auto simp: round_and_pack_def Let_def split: if_splits prod.splits dest: fpnotrap_I)

lemma roundfp11_I: "roundfp11 f r = (v, h, r') \<Longrightarrow> I r' = I r"
  by (auto simp: roundfp11_def Let_def split: if_splits prod.splits dest: fpnotrap_I)

lemma arith_I:
  "addfp11 f g r = (v, h, r') \<Longrightarrow> I r' = I r" "mulfp11 f g r = (v, h, r') \<Longrightarrow> I r' = I r"
  "divfp11 f g r = (v, h, r') \<Longrightarrow> I r' = I r" "subfp11 f g r = (v, h, r') \<Longrightarrow> I r' = I r"
proof -
  show add: "addfp11 f g r = (v, h, r') \<Longrightarrow> I r' = I r" for f g
    by (auto simp: addfp11_def Let_def split: if_splits prod.splits dest: pack_I)
  show "subfp11 f g r = (v, h, r') \<Longrightarrow> I r' = I r" unfolding subfp11_def by (rule add)
  show "mulfp11 f g r = (v, h, r') \<Longrightarrow> I r' = I r" "divfp11 f g r = (v, h, r') \<Longrightarrow> I r' = I r"
    by (auto simp: mulfp11_def divfp11_def Let_def split: if_splits prod.splits dest: pack_I)
qed

lemma mod_I: "modfp11 f g r = (v, h, h', r') \<Longrightarrow> I r' = I r"
  by (auto simp: modfp11_def mod_fraction_def Let_def split: if_splits prod.splits dest!: pack_I)


lemma fp_insns1:
  assumes "I r"
  shows "runs tot (fp_LDFPS b t s r) I" "runs tot (fp_STFPS b t s r) I" "runs tot (fp_STST b t s r) I"
    "runs tot (fp_CLRF b t s len r) I" "runs tot (fp_TSTF b t s len r) I" "runs tot (fp_ABSF b t s len r) I"
    "runs tot (fp_NEGF b t s len r) I" "runs tot (fp_LDF b t ac s qd r) I" "runs tot (fp_STF b t ac s qd r) I"
    "runs tot (fp_STEXP b t ac s r) I" "runs tot (fp_CMPF b t ac s qd r) I"
  using assms
  by (auto simp: fp_LDFPS_def fp_int_source_def fp_STFPS_def fp_STST_def fp_CLRF_def fp_TSTF_def fp_ABSF_def fp_NEGF_def
      fp_ABSNEG_def fp_LDF_def fp_STF_def fp_STEXP_def fp_CMPF_def Let_def
      intro!: runs_bind fp_ea fp_access fp_operand fp_write with_fsrc_wp)

lemma fp_insns2:
  assumes "I r"
  shows "runs tot (fp_LDCFF b t ac s qd r) I" "runs tot (fp_STCFF b t ac s qd r) I"
  using assms
  by (auto simp: fp_LDCFF_def fp_STCFF_def Let_def dest: roundfp11_I split: prod.split if_split
      intro!: runs_bind fp_ea fp_operand with_fsrc_wp)

lemma ldexp_I: "ldexp_check d f r = (v, h, r') \<Longrightarrow> I r' = I r"
  by (auto simp: ldexp_check_def split: if_splits prod.splits dest: fpnotrap_I)

lemma fp_insns3:
  assumes "I r"
  shows "runs tot (fp_LDEXP b t ac s qd r) I" "runs tot (fp_LDCIF b t ac s qd r) I" "runs tot (fp_STCFI b t ac s qd r) I"
  using assms
  by (auto simp: fp_LDEXP_def fp_int_source_def fp_LDCIF_def fp_STCFI_def Let_def dest: ldexp_I roundfp11_I
      split: prod.split if_split intro!: runs_bind fp_ea fp_access fp_operand)

lemma fp_insns4:
  assumes "I r"
  shows "(\<And>f g r v h r'. arith f g r = (v, h, r') \<Longrightarrow> I r' = I r) \<Longrightarrow> runs tot (fp_arith b t arith ac s qd r) I"
    "runs tot (fp_MODF b t ac s qd r) I" "runs tot (fp_DIVF b t ac s qd r) I"
  using assms
  by (auto simp: fp_arith_def fp_MODF_def fp_DIVF_def Let_def dest: mod_I arith_I split: prod.split if_split
      intro!: with_fsrc_wp)

lemma fp11_wp: assumes I: "I r" shows "runs tot (fp11 b t IR r) I"
proof -
  have op: "runs tot (fp11_op b t IR r) I" if "I r" for r
    using that by (simp add: fp11_op_def Let_def fp_insns1 fp_insns2 fp_insns3 fp_insns4 arith_I)
  have "runs tot (fp11_finish b t r) I" if "I r" for r
    using that by (auto simp: fp11_finish_def Let_def intro!: runs_bind vector)
  with op show ?thesis unfolding fp11_def using I by (auto intro!: runs_bind runs_weaken[OF op])
qed

text \<open>Two operands.\<close>

lemma finish_I [simp]: "I (put_pair reg v r) = I r" "I (mul_finish reg x y r) = I r" "I (div_finish reg d y r) = I r"
  "I (cc_CMP x y r) = I r" "I (cc_CMPB x y r) = I r"
proof -
  show pair: "I (put_pair reg v r) = I r" for r v by (simp add: put_pair_def Let_def)
  show "I (mul_finish reg x y r) = I r" "I (div_finish reg d y r) = I r" "I (cc_CMP x y r) = I r" "I (cc_CMPB x y r) = I r"
    by (simp_all add: mul_finish_def div_finish_def cc_CMP_def cc_CMPB_def pair Let_def)
qed

lemma reg_operand_parts:
  assumes "I r"
  shows "runs tot (exec_JSR b t op r) (flow_ok I)" "runs tot (exec_MUL b t op r) (flow_ok I)"
    "runs tot (exec_DIV b t op r) (flow_ok I)" "runs tot (exec_XOR b t op r) (flow_ok I)"
  using assms
  by (auto simp: exec_JSR_def exec_MUL_def exec_DIV_def exec_XOR_def Let_def
      intro!: instr operand_wp split: if_split)

lemma shifts_wp:
  assumes "I r"
  shows "runs tot (exec_ASH b t op r) (flow_ok I)" "runs tot (exec_ASHC b t op r) (flow_ok I)"
  using assms by (auto simp: exec_ASH_def exec_ASHC_def Let_def intro!: instr split: prod.split)

lemma combine_wp:
  assumes "I r" "\<And>x y r. I r \<Longrightarrow> I (snd (alu x y) r)"
  shows "runs tot (combine_word b t alu op r) (flow_ok I)" "runs tot (combine_byte b t alu op r) (flow_ok I)"
proof -
  show "runs tot (combine_word b t alu op r) (flow_ok I)" unfolding combine_word_def
    by (rule operands_wp macros_wp assms runs_prod flow_wp | assumption | metis assms(2) snd_conv)+
  show "runs tot (combine_byte b t alu op r) (flow_ok I)" unfolding combine_byte_def
    by (rule operands_wp macros_wp assms runs_prod flow_wp | assumption | metis assms(2) snd_conv)+
qed

lemma alu2_I [simp]:
  "I r \<Longrightarrow> I (snd (alu_ADD x y) r)" "I r \<Longrightarrow> I (snd (alu_SUB x y) r)" "I r \<Longrightarrow> I (snd (alu_BIC x y) r)"
  "I r \<Longrightarrow> I (snd (alu_BICB x y) r)" "I r \<Longrightarrow> I (snd (alu_BIS x y) r)" "I r \<Longrightarrow> I (snd (alu_BISB x y) r)"
  by (simp_all add: alu_ADD_def alu_SUB_def alu_BIC_def alu_BICB_def alu_BIS_def alu_BISB_def Let_def)

lemma double_wp:
  assumes "I r" shows "runs tot (exec_reg_operand b t op r) (flow_ok I)" "runs tot (exec_double b t op r) (flow_ok I)"
proof -
  show "runs tot (exec_reg_operand b t op r) (flow_ok I)"
    using assms by (simp add: exec_reg_operand_def Let_def reg_operand_parts shifts_wp FIS_wp)
  have "runs tot (exec_MOV b t op r) (flow_ok I)" "runs tot (exec_MOVB b t op r) (flow_ok I)"
    "runs tot (exec_CMP b t op r) (flow_ok I)" "runs tot (exec_CMPB b t op r) (flow_ok I)"
    "runs tot (exec_BIT b t op r) (flow_ok I)" "runs tot (exec_BITB b t op r) (flow_ok I)"
    "runs tot (trap_end (fp11 b t op r)) (flow_ok I)"
    using assms by (auto simp: exec_MOV_def exec_MOVB_def exec_CMP_def exec_CMPB_def exec_BIT_def exec_BITB_def Let_def
        intro!: flow_wp macros_wp operands_wp fp11_wp)
  then show "runs tot (exec_double b t op r) (flow_ok I)"
    using assms by (simp add: exec_double_def Let_def combine_wp)
qed

lemma exec_instr_wp: "I r \<Longrightarrow> runs tot (exec_instr b t op pb r) (flow_ok I)"
  by (simp add: exec_instr_def control_wp single_wp double_wp or_next_wp flow_wp traps)


text \<open>The step.\<close>

lemma tick_I [simp]: "I (vm1_timer_tick r) = I r" "I (vm2_copy r) = I r"
  by (simp_all add: vm1_timer_tick_def vm2_copy_def Let_def)

lemma irq_loop_wp: "\<not> tot \<Longrightarrow> I r \<Longrightarrow> runs tot (irq_loop b t m r) I"
proof (induction m arbitrary: r)
  case (Suc m)
  show ?case using Suc.IH[OF Suc.prems(1)] Suc.prems(2) poll_I[OF Suc.prems(2)]
    by (auto split: prod.split option.split intro!: runs_bind vector)
qed simp

lemma service_irqs_wp:
  "\<not> tot \<or> (\<forall>r. I r \<longrightarrow> model r \<noteq> DCJ11) \<Longrightarrow> I r \<Longrightarrow> (\<And>r'. I r' \<Longrightarrow> Q r') \<Longrightarrow> runs tot (service_irqs b t m r) Q"
  by (auto simp: service_irqs_def intro!: poll_and_take_wp runs_weaken[OF irq_loop_wp])

lemma finish_step_wp:
  assumes "\<not> tot \<or> (\<forall>r. I r \<longrightarrow> model r \<noteq> DCJ11)" "I r"
  shows "runs tot (finish_step b t m pb st dh c r) I"
  using assms(2) unfolding finish_step_def halt_or_ignore_def Let_def
  by (auto intro!: runs_bind vector service_stack_wp service_irqs_wp[OF assms(1)] traps split: option.split)

lemma fetch_wp:
  assumes m: "\<not> tot \<or> (\<forall>r. I r \<longrightarrow> model r \<noteq> DCJ11)" and "I r"
  shows "runs tot (fetch_and_execute b t m pb st dh r) I"
proof -
  have exec: "runs tot (exec_instr b t op pb r \<bind> (\<lambda>f. case f of StepEnd c r \<Rightarrow> finish_step b t m pb st dh c r
      | Return r \<Rightarrow> Some r | Next \<Rightarrow> None)) I" if "I r" for op r
    using exec_instr_wp[OF that, of op pb] exec_instr_not_Next[of b t op pb r] finish_step_wp[OF m]
    by (cases "exec_instr b t op pb r") (auto split: flow.split)
  show ?thesis using assms(2) unfolding fetch_and_execute_def Let_def
    by (auto intro!: runs_bind mem exec)
qed

lemma step_wp:
  assumes m: "\<not> tot \<or> (\<forall>r. I r \<longrightarrow> model r \<noteq> DCJ11)" and "I r"
  shows "runs tot (step_with b t m r) I"
proof -
  have wait: "runs tot (wait_step b t r) I" if "I r" for r
    using that poll_I[of r] unfolding wait_step_def Let_def
    by (auto intro!: vector split: prod.split option.split)
  show ?thesis using assms(2) unfolding step_with_def halt_or_ignore_def Let_def
    by (auto intro!: wait fetch_wp[OF m] traps)
qed

end

end
