(* ===== verification/Invariants.thy ===== *)
theory Invariants
  imports StepFlow Hwstub
begin

text \<open>
  The step locales of StepInv and StepFlow on the machine without devices: without MMU
  every instruction returns (the nesting of traps is bounded by two) and every step of a
  VM1 or VM2 does; with or without MMU every step keeps the unimplemented register bits
  0 and the translation cache coherent with the PARs and PDRs.
\<close>


section \<open>What the operations leave alone\<close>

lemma set_psw_fields [simp]:
  "core_fields (dcj11_set_psw p r) = core_fields r"
proof -
  have "core_fields (switch_regset_loop x y rs r) = core_fields r" for x y rs and r :: "'m regs"
    by (induction rs arbitrary: r) (simp_all add: core_fields_def Let_def)
  then show ?thesis
    by (simp add: dcj11_set_psw_def dcj11_switch_regset_def dcj11_switch_stack_mode_def dcj11_regset_init_def
        dcj11_sp_mode_init_def Let_def core_fields_def)
qed

lemma core_fieldsD:
  assumes "core_fields r' = core_fields r"
  shows "model r' = model r" "J11_CPUERR r' = J11_CPUERR r" "J11_PIRQ r' = J11_PIRQ r" "J11_STKLIM r' = J11_STKLIM r"
    "mmu_ssr3 r' = mmu_ssr3 r" "mmu_par r' = mmu_par r" "mmu_pdr r' = mmu_pdr r" "mmu_tlb r' = mmu_tlb r"
    "ram_fast r' = ram_fast r" "ram_fast_size r' = ram_fast_size r" "hwstub_mem r' = hwstub_mem r"
    "hwstub_mem_size r' = hwstub_mem_size r"
  using assms by (simp_all add: core_fields_def)

lemmas set_psw_field [simp] = core_fieldsD[OF set_psw_fields]

lemma tlb_flush_fields [simp]:
  "model (tlb_flush_list is r) = model r" "J11_CPUERR (tlb_flush_list is r) = J11_CPUERR r"
  "J11_PIRQ (tlb_flush_list is r) = J11_PIRQ r" "J11_STKLIM (tlb_flush_list is r) = J11_STKLIM r"
  "mmu_ssr3 (tlb_flush_list is r) = mmu_ssr3 r" "mmu_par (tlb_flush_list is r) = mmu_par r"
  "mmu_pdr (tlb_flush_list is r) = mmu_pdr r" "ram_fast (tlb_flush_list is r) = ram_fast r"
  "ram_fast_size (tlb_flush_list is r) = ram_fast_size r" "hwstub_mem (tlb_flush_list is r) = hwstub_mem r"
  by (induction "is" arbitrary: r rule: list.induct; auto simp: mmu_tlb_update_def Let_def)+

lemma tlb_update_fields [simp]:
  "model (mmu_tlb_update m s g r) = model r" "J11_CPUERR (mmu_tlb_update m s g r) = J11_CPUERR r"
  "J11_PIRQ (mmu_tlb_update m s g r) = J11_PIRQ r" "J11_STKLIM (mmu_tlb_update m s g r) = J11_STKLIM r"
  "mmu_ssr3 (mmu_tlb_update m s g r) = mmu_ssr3 r" "mmu_par (mmu_tlb_update m s g r) = mmu_par r"
  "mmu_pdr (mmu_tlb_update m s g r) = mmu_pdr r" "ram_fast (mmu_tlb_update m s g r) = ram_fast r"
  "ram_fast_size (mmu_tlb_update m s g r) = ram_fast_size r" "hwstub_mem (mmu_tlb_update m s g r) = hwstub_mem r"
  by (simp_all add: mmu_tlb_update_def Let_def)

section \<open>The machine without devices returns\<close>

text \<open>The RAM block is there and the processor is one of a given kind.\<close>

definition has_memory :: "(cpu \<Rightarrow> bool) \<Rightarrow> 'm regs \<Rightarrow> bool" where
  "has_memory P r = (hwstub_mem r \<noteq> None \<and> P (model r))"

lemma reg_stores_memory:
  "dcj11_reg_block_store_word a w r = Some r' \<Longrightarrow> hwstub_mem r' = hwstub_mem r \<and> model r' = model r"
  "mmu_io_write_word b a w r = Some r' \<Longrightarrow> hwstub_mem r' = hwstub_mem r \<and> model r' = model r"
  by (auto simp: dcj11_reg_block_store_word_def mmu_io_write_word_def mmu_write_ssr0_def mmu_write_parpdr_def
      mmu_tlb_flush_all_def Let_def split: if_splits option.splits prod.splits)

lemma callbacks_memory:
  "hwstub_mem r \<noteq> None \<Longrightarrow> runs tot (hardware_load_byte r a) (\<lambda>(v, r'). r' = r)"
  "hwstub_mem r \<noteq> None \<Longrightarrow> runs tot (hardware_load_word r a) (\<lambda>(w, r'). r' = r)"
  "hwstub_mem r \<noteq> None \<Longrightarrow> runs tot (hardware_store_byte r a x) (\<lambda>r'. hwstub_mem r' \<noteq> None \<and> model r' = model r)"
  "hwstub_mem r \<noteq> None \<Longrightarrow> runs tot (hardware_store_word r a w) (\<lambda>r'. hwstub_mem r' \<noteq> None \<and> model r' = model r)"
  by (auto simp: hardware_load_byte_def hardware_load_word_def hardware_store_byte_def hardware_store_word_def)

lemmas hwstub_callbacks = hardware_load_byte_def hardware_load_word_def hardware_store_byte_def hardware_store_word_def
  hardware_load_byte_pa_def hardware_load_word_pa_def hardware_store_byte_pa_def hardware_store_word_pa_def
  hardware_reset_def

lemma has_memory_stores:
  "has_memory P r \<Longrightarrow> dcj11_reg_block_store_word a w r = Some r' \<Longrightarrow> has_memory P r'"
  "has_memory P r \<Longrightarrow> mmu_io_write_word b a w r = Some r' \<Longrightarrow> has_memory P r'"
  using reg_stores_memory(1)[of a w r r'] reg_stores_memory(2)[of b a w r r'] by (auto simp: has_memory_def)

lemma has_memory_simps:
  "has_memory P (dcj11_set_cpuerr w r) = has_memory P r" "has_memory P (pdr_or m s g w r) = has_memory P r"
  "\<not> ENABLE_MMU b \<Longrightarrow> has_memory P (dcj11_reset_instruction_state b r) = has_memory P r"
  "has_memory P (r\<lparr>hwstub_mem := Some y\<rparr>) = P (model r)"
  by (simp_all add: has_memory_def dcj11_set_cpuerr_def pdr_or_def dcj11_reset_instruction_state_def)

interpretation host: machine_inv "hwstub_bus False stubs" "has_memory P" True False for stubs P
proof
  fix r r' :: "'m regs" assume "core_fields r' = core_fields r"
  then show "has_memory P r' = has_memory P r" by (simp add: has_memory_def core_fields_def)
next
  fix r :: "'m regs" and x p v assume "has_memory P r"
  then show "has_memory P (host_write (hwstub_bus False stubs) r p v)" by (auto simp: has_memory_def hwstub_bus_def)
next
  fix r :: "'m regs" and be a x assume "has_memory P r"
  then show "runs True (cb_load_byte (hwstub_bus False stubs) be r a) (\<lambda>(v, r). has_memory P r)"
    "runs True (cb_store_byte (hwstub_bus False stubs) be r a x) (has_memory P)"
    by (auto simp: has_memory_def hwstub_bus_def hwstub_callbacks)
next
  fix r :: "'m regs" and be a x assume "has_memory P r"
  then show "runs True (cb_load_word (hwstub_bus False stubs) be r a) (\<lambda>(v, r). has_memory P r)"
    "runs True (cb_store_word (hwstub_bus False stubs) be r a x) (has_memory P)"
    by (auto simp: has_memory_def hwstub_bus_def hwstub_callbacks)
next
  fix r r' :: "'m regs" and be a w
  assume "cb_store_word (hwstub_bus False stubs) be r a w = Some r'"
  then show "model r' = model r \<and> dcj11_vector_push_active r' = dcj11_vector_push_active r"
    by (auto simp: hwstub_bus_def hardware_store_word_def bind_eq_Some_conv)
next
  fix r r' :: "'m regs" and a w assume r: "has_memory P r"
  show "dcj11_reg_block_store_word a w r = Some r' \<Longrightarrow> has_memory P r'"
    "mmu_io_write_word (hwstub_bus False stubs) a w r = Some r' \<Longrightarrow> has_memory P r'"
    using r by (blast intro: has_memory_stores)+
qed (simp_all add: has_memory_simps hwstub_bus_def hardware_reset_def)

interpretation host: machine_trap "hwstub_bus False stubs" "has_memory P" True False "core_trap (hwstub_bus False stubs) (n + 2)"
  for stubs P n
proof
  show "trap_ok (hwstub_bus False stubs) True (has_memory P) (core_trap (hwstub_bus False stubs) (n + 2))"
    by (rule host.core_trap_total) simp_all
  then show "push_ok (hwstub_bus False stubs) True False (has_memory P) (core_trap (hwstub_bus False stubs) (n + 2))"
    by (rule host.trap_ok_push) simp
qed

text \<open>On the machine without MMU every instruction of every model returns, whatever the registers and the memory hold: the trap routines that call each other nest at most twice, and no opcode falls through the switches of the dispatcher.\<close>
theorem exec_instr_returns:
  assumes "hwstub_mem r \<noteq> None" "2 \<le> n"
  shows "\<exists>f. exec_instr (hwstub_bus False stubs) (core_trap (hwstub_bus False stubs) n) op psw_before r = Some f \<and> f \<noteq> Next"
proof -
  obtain k where n: "n = k + 2" using assms(2) by (metis le_add_diff_inverse2)
  show ?thesis using host.exec_instr_wp[of "\<lambda>_. True" r stubs k op psw_before] assms(1)
      exec_instr_not_Next[of "hwstub_bus False stubs" "core_trap (hwstub_bus False stubs) n" op psw_before r]
    by (auto simp: has_memory_def runs_total n)
qed

theorem exec_instr_returns_witness:
  "\<exists>f. exec_instr (hwstub_bus False False) (core_trap (hwstub_bus False False) 2) 0x0A17 0
      ((zero_regs DCJ11 ())\<lparr>hwstub_mem := Some (\<lambda>_. 0), R := (\<lambda>_. 0xFFFF)\<rparr>) = Some f \<and> f \<noteq> Next"
  by (rule exec_instr_returns) simp_all

text \<open>C11: A VM1 or VM2 on the machine without devices runs any number of steps: every step of every program returns (a DCJ11 takes interrupts in a loop that has no bound).\<close>
theorem core_run_returns:
  assumes "hwstub_mem r \<noteq> None" "model r \<noteq> DCJ11" "2 \<le> n"
  shows "\<exists>r'. core_run (hwstub_bus False stubs) n m k r = Some r' \<and> hwstub_mem r' \<noteq> None"
  using assms(1,2)
proof (induction k arbitrary: r)
  case (Suc k)
  obtain j where n: "n = j + 2" using assms(3) by (metis le_add_diff_inverse2)
  show ?case using host.step_wp[of "\<lambda>c. c \<noteq> DCJ11" r stubs j m] Suc
    by (auto simp: has_memory_def core_step_def runs_total n)
qed simp

theorem core_run_returns_witness:
  "\<exists>r'. core_run (hwstub_bus False False) 2 0 100 ((zero_regs K1801VM2 ())\<lparr>hwstub_mem := Some (\<lambda>_. 0)\<rparr>) = Some r' \<and> hwstub_mem r' \<noteq> None"
  by (rule core_run_returns) (simp_all)

section \<open>Well-formed registers and a coherent translation cache\<close>

text \<open>
  The bits that are not implemented stay 0. There is no register for the pages of mode 2,
  the illegal mode: they give no access.
\<close>

definition registers_ok :: "'m regs \<Rightarrow> bool" where
  "registers_ok r = (within DCJ11_CPUERR_MASK (J11_CPUERR r) \<and> within DCJ11_PIRQ_RW (J11_PIRQ r) \<and>
     within 0xFFFE (J11_STKLIM r) \<and> within MMU_SSR3_J_MASK (mmu_ssr3 r) \<and>
     (\<forall>m < 4. \<forall>s < 2. \<forall>g < 8. within 0xFFCE (mmu_pdr r m s g)) \<and>
     (\<forall>s < 2. \<forall>g < 8. mmu_pdr r 2 s g AND 6 = 0))"

text \<open>
  A cached entry is the one its PAR and PDR give now, except that the permission to write
  may be missing: a write that sets the W bit of a PDR does not renew the entry.
\<close>

definition entry_ok :: "mmu_tlb_entry_t \<Rightarrow> mmu_tlb_entry_t \<Rightarrow> bool" where
  "entry_ok e fresh = (host_base e = host_base fresh \<and> valid_max e = valid_max fresh \<and>
     (valid_min_flags e = valid_min_flags fresh \<or>
      valid_min_flags e = valid_min_flags fresh AND NOT MMU_TLB_WRITE_ALLOWED))"

definition fresh_entry :: "'m regs \<Rightarrow> nat \<Rightarrow> nat \<Rightarrow> nat \<Rightarrow> mmu_tlb_entry_t" where
  "fresh_entry r m s g = mmu_tlb_entry_for (mmu_pdr r m s g AND MMU_PDR_J_MASK)
     (mmu_par r m s g AND MMU_PAR_J_MASK) (mmu_ssr3 r) (ram_fast r) (ram_fast_size r)"

definition tlb_ok :: "'m regs \<Rightarrow> bool" where
  "tlb_ok r = (\<forall>m < 4. \<forall>s < 2. \<forall>g < 8. entry_ok (mmu_tlb r m s g) (fresh_entry r m s g))"

text \<open>The cached RAM pointer is the start of the block and its window ends below the I/O page.\<close>

definition window_ok :: "'m regs \<Rightarrow> bool" where
  "window_ok r = ((ram_fast r = None \<or> ram_fast r = Some 0) \<and> ram_fast_size r \<le> RAM_FAST_LIMIT)"

text \<open>The invariant, for a given condition on the pointer and the window; \<open>state_ok\<close> is the one of
  a machine whose window ends below the I/O page.\<close>

definition cpu_ok :: "(u32 option \<Rightarrow> u32 \<Rightarrow> bool) \<Rightarrow> 'm regs \<Rightarrow> bool" where
  "cpu_ok W r = (registers_ok r \<and> tlb_ok r \<and> W (ram_fast r) (ram_fast_size r))"

definition ram_window :: "u32 option \<Rightarrow> u32 \<Rightarrow> bool" where
  "ram_window p n = ((p = None \<or> p = Some 0) \<and> n \<le> RAM_FAST_LIMIT)"

abbreviation state_ok :: "'m regs \<Rightarrow> bool" where
  "state_ok \<equiv> cpu_ok ram_window"

lemma state_ok_def: "state_ok r = (registers_ok r \<and> tlb_ok r \<and> window_ok r)"
  by (simp add: cpu_ok_def ram_window_def window_ok_def)

lemma upd3_simps [simp]:
  "upd3 i j k x f i j k = x"
  "(i', j', k') \<noteq> (i, j, k) \<Longrightarrow> upd3 i j k x f i' j' k' = f i' j' k'"
  by (auto simp: upd3_def)

lemma entry_ok_refl [simp]: "entry_ok e e" by (simp add: entry_ok_def)

lemma write_flag:
  "x AND NOT MMU_TLB_WRITE_ALLOWED = x \<Longrightarrow> (x OR MMU_TLB_WRITE_ALLOWED) AND NOT MMU_TLB_WRITE_ALLOWED = x"
  by (simp add: word_ao_dist)

lemma entry_same_fields:
  assumes "p AND 6 = q AND 6" "drop_bit 3 p AND 1 = drop_bit 3 q AND 1" "drop_bit 8 p AND 0x7F = drop_bit 8 q AND 0x7F"
    "q AND MMU_PDR_W \<noteq> 0 \<Longrightarrow> p AND MMU_PDR_W \<noteq> 0"
    and ok: "entry_ok x (mmu_tlb_entry_for q par ssr3 ramf rsize)"
  shows "entry_ok x (mmu_tlb_entry_for p par ssr3 ramf rsize)"
proof -
  define len where "len = push_bit 6 (drop_bit 8 q AND 0x7F)"
  have len: "len AND NOT MMU_TLB_WRITE_ALLOWED = len" by (simp add: len_def u16_eq_bits bit_simps)
  show ?thesis
    using ok assms(4) write_flag[OF len]
    unfolding mmu_tlb_entry_for_def mmu_acf_read_ok_def mmu_acf_write_ok_def assms(1-3) Let_def entry_ok_def len_def[symmetric]
    by (cases "q AND MMU_PDR_W = 0"; cases "p AND MMU_PDR_W = 0"; cases "drop_bit 3 q AND 1 = 0") (auto simp: len[simplified])
qed

lemma entry_after_status:
  assumes "e \<in> pdr_status" "entry_ok x (mmu_tlb_entry_for (pdr AND MMU_PDR_J_MASK) par ssr3 ramf rsize)"
  shows "entry_ok x (mmu_tlb_entry_for ((pdr OR e) AND MMU_PDR_J_MASK) par ssr3 ramf rsize)"
  by (rule entry_same_fields[OF _ _ _ _ assms(2)]) (use assms(1) in \<open>auto simp: pdr_status_def u16_eq_bits bit_simps\<close>)

lemma tlb_ok_pdr_or: "bits \<in> pdr_status \<Longrightarrow> tlb_ok r \<Longrightarrow> tlb_ok (pdr_or m s g bits r)"
  unfolding tlb_ok_def fresh_entry_def pdr_or_def
  by (auto simp: upd3_def intro: entry_after_status)

text \<open>Renewing an entry, and all entries.\<close>

lemma tlb_update_entry:
  "mmu_tlb (mmu_tlb_update m s g r) = upd3 m s g (fresh_entry r m s g) (mmu_tlb r)"
  "fresh_entry (mmu_tlb_update m s g r) = fresh_entry r"
  by (auto simp: mmu_tlb_update_def fresh_entry_def Let_def fun_eq_iff)

lemma flush_entries:
  "mmu_tlb (tlb_flush_list is r) m s g = (if (m, s, g) \<in> set is then fresh_entry r m s g else mmu_tlb r m s g)"
  "fresh_entry (tlb_flush_list is r) = fresh_entry r"
proof -
  have "fresh_entry (tlb_flush_list is r) = fresh_entry r \<and>
     mmu_tlb (tlb_flush_list is r) m s g = (if (m, s, g) \<in> set is then fresh_entry r m s g else mmu_tlb r m s g)" 
  proof (induction "is" r rule: tlb_flush_list.induct)
    case (2 mode space seg "is" r)
    then show ?case by (auto simp: tlb_update_entry upd3_def)
  qed simp
  then show "mmu_tlb (tlb_flush_list is r) m s g = (if (m, s, g) \<in> set is then fresh_entry r m s g else mmu_tlb r m s g)"
    "fresh_entry (tlb_flush_list is r) = fresh_entry r" by auto
qed

lemma tlb_indices_all: "m < 4 \<Longrightarrow> s < 2 \<Longrightarrow> g < 8 \<Longrightarrow> (m, s, g) \<in> set tlb_indices"
  by (auto simp: tlb_indices_def image_iff simp del: upt_conv_Cons)

lemma tlb_ok_flush_all [simp]: "tlb_ok (mmu_tlb_flush_all r)"
  by (simp add: tlb_ok_def mmu_tlb_flush_all_def flush_entries tlb_indices_all)

lemma tlb_ok_update:
  "(\<And>m' s' g'. (m', s', g') \<noteq> (m, s, g) \<Longrightarrow> mmu_par r m' s' g' = mmu_par r0 m' s' g' \<and> mmu_pdr r m' s' g' = mmu_pdr r0 m' s' g') \<Longrightarrow>
   mmu_tlb r = mmu_tlb r0 \<Longrightarrow> mmu_ssr3 r = mmu_ssr3 r0 \<Longrightarrow> ram_fast r = ram_fast r0 \<Longrightarrow> ram_fast_size r = ram_fast_size r0 \<Longrightarrow>
   tlb_ok r0 \<Longrightarrow> tlb_ok (mmu_tlb_update m s g r)"
  unfolding tlb_ok_def tlb_update_entry
  by (auto simp: upd3_def fresh_entry_def)


text \<open>The operations keep the invariant.\<close>

lemma state_ok_fields: "core_fields r' = core_fields r \<Longrightarrow> cpu_ok W r' = cpu_ok W r"
  by (simp add: cpu_ok_def registers_ok_def tlb_ok_def fresh_entry_def core_fields_def)

lemma state_ok_mem [simp]: "cpu_ok W (r\<lparr>hwstub_mem := x\<rparr>) = cpu_ok W r"
  by (simp add: cpu_ok_def registers_ok_def tlb_ok_def fresh_entry_def)

lemma tlb_ok_other [simp]:
  "tlb_ok (r\<lparr>J11_CPUERR := x\<rparr>) = tlb_ok r" "tlb_ok (r\<lparr>J11_PIRQ := x\<rparr>) = tlb_ok r" "tlb_ok (r\<lparr>J11_STKLIM := x\<rparr>) = tlb_ok r"
  by (simp_all add: tlb_ok_def fresh_entry_def)

lemma state_ok_cpuerr: "cpu_ok W r \<Longrightarrow> cpu_ok W (dcj11_set_cpuerr w r)"
  by (simp add: cpu_ok_def registers_ok_def dcj11_set_cpuerr_def)

lemma pdr_status_acf: "bits \<in> pdr_status \<Longrightarrow> p AND 6 = 0 \<Longrightarrow> (p OR bits) AND 6 = 0"
  by (auto simp: pdr_status_def word_ao_dist)

lemma pdr_status_within: "bits \<in> pdr_status \<Longrightarrow> within 0xFFCE bits"
  by (auto simp: pdr_status_def within_def)

lemma state_ok_pdr: "bits \<in> pdr_status \<Longrightarrow> cpu_ok W r \<Longrightarrow> cpu_ok W (pdr_or m s g bits r)"
  using tlb_ok_pdr_or[of bits r m s g]
  by (auto simp: cpu_ok_def registers_ok_def pdr_or_def upd3_def intro: within_or pdr_status_within pdr_status_acf)

lemma state_ok_put:
  "cpu_ok W r \<Longrightarrow> cpu_ok W (r\<lparr>J11_CPUERR := 0\<rparr>)"
  "cpu_ok W r \<Longrightarrow> cpu_ok W (r\<lparr>J11_PIRQ := w AND DCJ11_PIRQ_RW\<rparr>)"
  "cpu_ok W r \<Longrightarrow> cpu_ok W (r\<lparr>J11_STKLIM := w AND 0xFFFE\<rparr>)"
  by (simp_all add: cpu_ok_def registers_ok_def)

lemma state_ok_free:
  "cpu_ok W (r\<lparr>J11_MEMERR := x\<rparr>) = cpu_ok W r" "cpu_ok W (r\<lparr>J11_CCR := x\<rparr>) = cpu_ok W r"
  "cpu_ok W (r\<lparr>dcj11_explicit_psw_write := y\<rparr>) = cpu_ok W r"
  "cpu_ok W (r\<lparr>mmu_ssr0 := x\<rparr>) = cpu_ok W r"
  by (rule state_ok_fields; simp add: core_fields_def)+

lemmas state_ok_psw = state_ok_fields[OF set_psw_fields]

lemma state_ok_regblock: "cpu_ok W r \<Longrightarrow> dcj11_reg_block_store_word a w r = Some r' \<Longrightarrow> cpu_ok W r'"
  by (auto simp: dcj11_reg_block_store_word_def Let_def state_ok_free state_ok_psw state_ok_put split: if_splits)

lemma state_ok_flush: "registers_ok r \<Longrightarrow> W (ram_fast r) (ram_fast_size r) \<Longrightarrow> cpu_ok W (mmu_tlb_flush_all r)"
  by (simp add: cpu_ok_def) (simp add: registers_ok_def mmu_tlb_flush_all_def)

lemma pdr_within: "within 0xFFCE ((w AND MMU_PDR_J_MASK) AND x)"
  by (simp add: within_def u16_eq_bits bit_simps)

lemma decode_not_mode2: "mmu_decode_parpdr a = Some (m, s, p, g) \<Longrightarrow> m \<noteq> 2"
  by (auto simp: mmu_decode_parpdr_def mmu_dec_table_def split: if_splits)

lemma state_ok_parpdr: assumes "cpu_ok W r" "m \<noteq> 2" shows "cpu_ok W (mmu_write_parpdr m s p g w r)"
proof -
  have "tlb_ok (mmu_write_parpdr m s p g w r)"
    unfolding mmu_write_parpdr_def Let_def
    by (rule tlb_ok_update[where ?r0.0 = r]) (use assms in \<open>auto simp: cpu_ok_def\<close>)
  then show ?thesis using assms unfolding cpu_ok_def mmu_write_parpdr_def Let_def
    by (auto simp: registers_ok_def upd3_def pdr_within)
qed

lemma state_ok_mmuregs: "cpu_ok W r \<Longrightarrow> mmu_io_write_word b a w r = Some r' \<Longrightarrow> cpu_ok W r'"
  by (auto simp: mmu_io_write_word_def mmu_write_ssr0_def Let_def state_ok_free
      intro!: state_ok_flush state_ok_parpdr split: if_splits option.splits prod.splits dest: decode_not_mode2)
    (auto simp: cpu_ok_def registers_ok_def)


lemma state_ok_reset: "cpu_ok W r \<Longrightarrow> cpu_ok W (dcj11_reset_instruction_state b r)"
proof -
  assume r: "cpu_ok W r"
  then have "registers_ok (r\<lparr>J11_PIRQ := 0, mmu_ssr0 := 0, mmu_ssr3 := 0\<rparr>)" "W (ram_fast r) (ram_fast_size r)"
    by (auto simp: cpu_ok_def registers_ok_def)
  with r state_ok_put(2)[OF r, of 0] show ?thesis
    by (auto simp: dcj11_reset_instruction_state_def Let_def intro: state_ok_flush)
qed

interpretation sound: machine_inv "hwstub_bus mmu stubs" state_ok False True for mmu stubs
proof
  fix r r' :: "'m regs" assume "core_fields r' = core_fields r"
  then show "state_ok r' = state_ok r" by (rule state_ok_fields)
next
  fix r r' :: "'m regs" and a w assume r: "state_ok r"
  show "dcj11_reg_block_store_word a w r = Some r' \<Longrightarrow> state_ok r'"
    "mmu_io_write_word (hwstub_bus mmu stubs) a w r = Some r' \<Longrightarrow> state_ok r'"
    using r by (blast intro: state_ok_regblock state_ok_mmuregs)+
next
  fix r :: "'m regs" and be a x assume "state_ok r"
  then show "runs False (cb_load_byte (hwstub_bus mmu stubs) be r a) (\<lambda>(v, r). state_ok r)"
    "runs False (cb_store_byte (hwstub_bus mmu stubs) be r a x) state_ok"
    by (cases "hwstub_mem r"; simp add: hwstub_bus_def hwstub_callbacks)+
next
  fix r :: "'m regs" and be a x assume "state_ok r"
  then show "runs False (cb_load_word (hwstub_bus mmu stubs) be r a) (\<lambda>(v, r). state_ok r)"
    "runs False (cb_store_word (hwstub_bus mmu stubs) be r a x) state_ok"
    by (cases "hwstub_mem r"; simp add: hwstub_bus_def hwstub_callbacks)+
next
  fix r :: "'m regs" and be lb pa assume "state_ok r" "cb_load_byte_pa (hwstub_bus mmu stubs :: 'm bus) = Some lb"
  then show "runs False (lb be r pa) (\<lambda>(v, r). state_ok r)"
    by (cases mmu; cases "hwstub_mem r"; auto simp add: hwstub_bus_def hwstub_callbacks)
next
  fix r :: "'m regs" and be lb pa assume "state_ok r" "cb_load_word_pa (hwstub_bus mmu stubs :: 'm bus) = Some lb"
  then show "runs False (lb be r pa) (\<lambda>(v, r). state_ok r)"
    by (cases mmu; cases "hwstub_mem r"; auto simp add: hwstub_bus_def hwstub_callbacks)
next
  fix r :: "'m regs" and be sb pa v assume "state_ok r" "cb_store_byte_pa (hwstub_bus mmu stubs :: 'm bus) = Some sb"
  then show "runs False (sb be r pa v) state_ok"
    by (cases mmu; cases "hwstub_mem r"; auto simp add: hwstub_bus_def hwstub_callbacks)
next
  fix r :: "'m regs" and be sb pa v assume "state_ok r" "cb_store_word_pa (hwstub_bus mmu stubs :: 'm bus) = Some sb"
  then show "runs False (sb be r pa v) state_ok"
    by (cases mmu; cases "hwstub_mem r"; auto simp add: hwstub_bus_def hwstub_callbacks)
qed (simp_all add: state_ok_cpuerr state_ok_pdr state_ok_reset hwstub_bus_def hardware_reset_def)

interpretation sound: machine_trap "hwstub_bus mmu stubs" state_ok False True "core_trap (hwstub_bus mmu stubs) n" for mmu stubs n
proof
  show "trap_ok (hwstub_bus mmu stubs) False state_ok (core_trap (hwstub_bus mmu stubs) n)"
    by (rule sound.core_trap_partial) simp_all
  then show "push_ok (hwstub_bus mmu stubs) False True state_ok (core_trap (hwstub_bus mmu stubs) n)"
    by (rule sound.push_ok_trap) simp
qed

lemma core_run_state_ok:
  "state_ok r \<Longrightarrow> core_run (hwstub_bus mmu stubs) n m k r = Some r' \<Longrightarrow> state_ok r'"
proof (induction k arbitrary: r)
  case (Suc k)
  then obtain r1 where "core_step (hwstub_bus mmu stubs) n m r = Some r1" "core_run (hwstub_bus mmu stubs) n m k r1 = Some r'"
    by (auto simp: bind_eq_Some_conv)
  then show ?case using Suc sound.step_wp[of r mmu stubs n m] by (auto simp: core_step_def)
qed simp

text \<open>After reset the invariant holds, whatever the registers held before.\<close>

lemma hwstub_fields [simp]:
  "ENABLE_MMU (hwstub_bus mmu stubs) = mmu" "cb_reset (hwstub_bus mmu stubs) = Some hardware_reset"
  "cb_ramptr (hwstub_bus mmu stubs) = Some hardware_ramptr" "cb_poll_irq (hwstub_bus mmu stubs) = None"
  "cb_load_byte (hwstub_bus mmu stubs) = (\<lambda>be. hardware_load_byte)"
  "cb_store_byte (hwstub_bus mmu stubs) = (\<lambda>be. hardware_store_byte)"
  "cb_load_word (hwstub_bus mmu stubs) = (\<lambda>be. hardware_load_word)"
  "cb_store_word (hwstub_bus mmu stubs) = (\<lambda>be. hardware_store_word)"
  by (simp_all add: hwstub_bus_def)

lemma no_access_entry:
  "mmu_tlb_entry_for 0 par ssr3 ramf rsize = \<lparr>host_base = None, valid_min_flags = 0, valid_max = 0\<rparr>"
  by (simp add: mmu_tlb_entry_for_def mmu_acf_read_ok_def Let_def)

lemma core_reset_state_ok:
  assumes "ram_fast_size r \<le> RAM_FAST_LIMIT" "model r \<noteq> K1801VM1" "core_reset (hwstub_bus True stubs) t r = Some r'"
  shows "state_ok r'"
proof -
  define r0 where "r0 = core_reset_fields (hwstub_bus True stubs) r"
  have pdr: "mmu_pdr r0 m s g = 0" "mmu_tlb r0 m s g = \<lparr>host_base = None, valid_min_flags = 0, valid_max = 0\<rparr>"
    if "m < 4" "s < 2" "g < 8" for m s g
    using that by (simp_all add: r0_def core_reset_fields_def hwstub_bus_def Let_def mmu_tlb_flush_all_def flush_entries
        fresh_entry_def tlb_indices_all no_access_entry)
  have regs: "J11_CPUERR r0 = 0" "J11_PIRQ r0 = 0" "J11_STKLIM r0 = DCJ11_STACK_YEL_LIMIT" "mmu_ssr3 r0 = 0"
    "model r0 = model r" "ram_fast_size r0 = ram_fast_size r" 
    by (simp_all add: r0_def core_reset_fields_def hwstub_bus_def Let_def mmu_tlb_flush_all_def)
  have r': "mmu_pdr r' = mmu_pdr r0" "mmu_tlb r' = mmu_tlb r0" "J11_CPUERR r' = J11_CPUERR r0" "J11_PIRQ r' = J11_PIRQ r0"
    "J11_STKLIM r' = J11_STKLIM r0" "mmu_ssr3 r' = mmu_ssr3 r0"
    "ram_fast r' = None \<or> ram_fast r' = Some 0" "ram_fast_size r' = 0 \<or> ram_fast_size r' = ram_fast_size r0"
    using assms(2,3) regs(5)
    by (auto simp: core_reset_def hardware_reset_def cache_ram_pointer_def hardware_ramptr_def
        r0_def[symmetric] Let_def split: if_splits option.splits)
  then show ?thesis using assms(1) regs pdr
    by (auto simp: state_ok_def registers_ok_def window_ok_def tlb_ok_def fresh_entry_def no_access_entry within_def)
qed

text \<open>A DCJ11 whose RAM is full of NOP instructions, the input of a witness.\<close>

definition nop_machine :: "unit regs" where
  "nop_machine = (zero_regs DCJ11 ())\<lparr>hwstub_mem := Some (\<lambda>a. if even (unat a) then 0xA0 else 0),
     ram_fast_size := RAM_FAST_LIMIT\<rparr>"

text \<open>C10: From reset on, through any number of steps of any program on the machine with MMU, the unimplemented bits of the internal registers stay 0 and every entry of the translation cache is the one its PAR and PDR give (only a permission to write may be missing).\<close>
theorem reset_then_run:
  assumes "model r \<noteq> K1801VM1" "ram_fast_size r \<le> RAM_FAST_LIMIT"
    and "core_reset (hwstub_bus True stubs) t r = Some r0" "core_run (hwstub_bus True stubs) n m k r0 = Some r'"
  shows "registers_ok r' \<and> tlb_ok r'"
  using core_run_state_ok[OF core_reset_state_ok assms(4)] assms(1-3) by (simp add: state_ok_def)

theorem reset_then_run_witness:
  "\<exists>r0 r'. core_reset (hwstub_bus True False) (core_trap (hwstub_bus True False) 1) nop_machine = Some r0 \<and>
     core_run (hwstub_bus True False) 1 1 1 r0 = Some r' \<and> registers_ok r' \<and> tlb_ok r'"
proof -
  have "core_reset (hwstub_bus True False) (core_trap (hwstub_bus True False) 1) nop_machine \<bind>
      core_run (hwstub_bus True False) 1 1 1 \<noteq> None" by code_simp
  then obtain r0 r' where "core_reset (hwstub_bus True False) (core_trap (hwstub_bus True False) 1) nop_machine = Some r0"
      "core_run (hwstub_bus True False) 1 1 1 r0 = Some r'"
    by (auto simp: bind_eq_Some_conv)
  moreover from this have "registers_ok r' \<and> tlb_ok r'"
    by (rule reset_then_run[rotated 2]) (simp_all add: nop_machine_def)
  ultimately show ?thesis by blast
qed

end
