(* ===== verification/Translation.thy ===== *)
theory Translation
  imports Invariants
begin

text \<open>
  Address translation as arithmetic on integers, the translation cache as a correct copy
  of it, and the fast path of the memory accesses (the cached RAM pointer, or a hit in the
  cache) as equal to the path behind it, on every state that satisfies the invariant of
  Invariants.
\<close>

section \<open>Physical addresses\<close>


definition pa_modulus :: "u16 \<Rightarrow> int" where
  "pa_modulus ssr3 = (if ssr3 AND MMU_SSR3_M22E \<noteq> 0 then 2 ^ 22 else 2 ^ 18)"

lemma uint_and_mask: "uint (x AND mask n) = uint (x::'a::len word) mod 2 ^ n"
proof -
  have "uint (x AND mask n) = uint (take_bit n x)" by (simp only: take_bit_eq_mask)
  also have "\<dots> = take_bit n (uint x)" by (rule unsigned_take_bit_eq)
  also have "\<dots> = uint x mod 2 ^ n" by (rule take_bit_eq_mod)
  finally show ?thesis .
qed

lemma uint_drop: "uint (drop_bit n x) = uint (x::'a::len word) div 2 ^ n"
proof -
  have "uint (drop_bit n x) = drop_bit n (take_bit LENGTH('a) (uint x))" by (rule unsigned_drop_bit_eq)
  also have "\<dots> = uint x div 2 ^ n" by (simp only: drop_bit_eq_div take_bit_int_eq_self[OF uint_ge_0 uint_lt2p])
  finally show ?thesis .
qed

lemma finalize_uint: "uint (mmu_phys_finalize pa ssr3) = uint pa mod pa_modulus ssr3"
proof -
  have "uint (pa AND mask 22) = uint pa mod 2 ^ 22" "uint (pa AND mask 18) = uint pa mod 2 ^ 18" by (rule uint_and_mask)+
  then show ?thesis by (simp add: mmu_phys_finalize_def pa_modulus_def mask_eq_exp_minus_1)
qed

text \<open>The place of an address in its page: block and offset in the block.\<close>

lemma va_parts:
  "uint (drop_bit 6 va AND 0x7F) = uint (va::u16) mod 8192 div 64" "uint (va AND 0x3F) = uint va mod 64"
  "uint (va AND 0x1FFF) = uint va mod 8192"
proof -
  have "uint (drop_bit 6 va AND mask 7) = uint va div 2 ^ 6 mod 2 ^ 7" by (simp only: uint_and_mask uint_drop)
  also have "\<dots> = uint va mod 8192 div 64" using zmod_zmult2_eq[of 128 "uint va" 64] by simp
  finally show "uint (drop_bit 6 va AND 0x7F) = uint va mod 8192 div 64" by (simp add: mask_eq_exp_minus_1)
  show "uint (va AND 0x3F) = uint va mod 64" "uint (va AND 0x1FFF) = uint va mod 8192"
    using uint_and_mask[of va 6] uint_and_mask[of va 13] by (simp_all add: mask_eq_exp_minus_1)
qed

lemma block_wrap:
  assumes "M dvd 0x400000" shows "((x::int) mod 0x10000 * 64 + l) mod M = (x * 64 + l) mod M"
proof -
  have "x mod 0x10000 * 64 = x * 64 mod 0x400000" using mod_mult_mult2[of x 64 "0x10000"] by simp
  then have "(x mod 0x10000 * 64) mod M = (x * 64) mod M" using mod_mod_cancel[OF assms] by simp
  then show ?thesis by (rule mod_add_cong) simp
qed

lemma page_address:
  assumes "uint block < 128" "uint low < 64"
  shows "uint (mmu_phys_finalize (push_bit 6 (ucast ((par + block) AND MMU_PAR_J_MASK)) OR ucast (low::u16)) ssr3) =
    (uint par * 64 + (uint block * 64 + uint low)) mod pa_modulus ssr3"
proof -
  define s where "s = (uint par + uint block) mod 0x10000"
  have s: "uint (par + block) = s" "0 \<le> s" "s < 0x10000" by (simp_all add: s_def uint_word_ariths)
  have wide: "uint (ucast (par + block) :: u32) = s" "uint (ucast low :: u32) = uint low"
    using s(1) by (simp_all add: unsigned_ucast_eq take_bit_eq_mod) (use s uint16[of low] in auto)
  have m: "(par + block) AND MMU_PAR_J_MASK = par + block"
    by (simp only: u16_eq_bits) (simp add: bit_simps)
  have dis: "push_bit 6 (ucast (par + block)) AND (ucast low :: u32) = 0"
  proof -
    have "low = take_bit 6 low" using assms(2) using uint16(1)[of low] by (simp add: word_uint_eq_iff unsigned_take_bit_eq take_bit_int_eq_self)
    then have "\<not> bit low n" if "6 \<le> n" for n by (metis bit_take_bit_iff leD that)
    then show ?thesis by (auto simp: bit_eq_iff bit_simps)
  qed
  have "uint (push_bit 6 (ucast (par + block)) OR (ucast low :: u32)) = s * 64 + uint low"
    using dis s wide assms(2)
    by (simp add: disjunctive_add_eq_or[symmetric] uint_plus_if' push_bit_eq_mult uint_word_ariths)
  then show ?thesis unfolding finalize_uint m
    using block_wrap[of "pa_modulus ssr3" "uint par + uint block" "uint low"] by (simp add: s_def pa_modulus_def algebra_simps)
qed

lemma va_address:
  "uint (mmu_phys_finalize (push_bit 6 (ucast ((par + (drop_bit 6 va AND 0x7F)) AND MMU_PAR_J_MASK)) OR ucast (va AND 0x3F)) ssr3) =
     (uint par * 64 + uint va mod 8192) mod pa_modulus ssr3"
proof -
  have "uint va mod 64 = uint va mod 8192 mod 64" by (simp add: mod_mod_cancel)
  then have "uint va mod 8192 div 64 * 64 + uint va mod 64 = uint va mod 8192"
    using div_mult_mod_eq[of "uint va mod 8192" 64] by simp
  moreover have "uint va mod 8192 div 64 < 128" using pos_mod_bound[of 8192 "uint va"] by simp
  ultimately show ?thesis using page_address[of "drop_bit 6 va AND 0x7F" "va AND 0x3F" par ssr3]
    by (simp add: va_parts(1,2))
qed

text \<open>One page: the fault or the physical address, and the status bits of the PDR.\<close>

definition access_ok :: "u16 \<Rightarrow> bool \<Rightarrow> bool" where
  "access_ok pdr wr = (pdr AND 6 = 6 \<or> (pdr AND 6 = 2 \<and> \<not> wr))"

definition outside_page :: "u16 \<Rightarrow> int \<Rightarrow> bool" where
  "outside_page pdr block =
     (let len = uint (drop_bit 8 pdr AND 0x7F) in if bit pdr 3 then block < len else len < block)"

lemma page_translate_cases:
  "page_translate b va wr m s g r =
     (let pdr = mmu_pdr r m s g
      in if outside_page pdr (uint va mod 8192 div 64)
         then (XFault MMU_FAULT_LENGTH m s g, if wr then mmu_note_write_pdrw b m (s \<noteq> 0) g r else r)
         else if access_ok pdr wr
         then (XOk (word_of_int ((uint (mmu_par r m s g) * 64 + uint va mod 8192) mod pa_modulus (mmu_ssr3 r))),
               r\<lparr>mmu_pdr := upd3 m s g (pdr OR (if wr then MMU_PDR_A OR MMU_PDR_W else MMU_PDR_A)) (mmu_pdr r)\<rparr>)
         else (XFault (if pdr AND 6 = 2 then MMU_FAULT_PROTECT else MMU_FAULT_NONRES) m s g,
               if wr then mmu_note_write_pdrw b m (s \<noteq> 0) g r else r))"
proof -
  have f: "(p AND MMU_PDR_J_MASK) AND 6 = p AND 6" "drop_bit 8 (p AND MMU_PDR_J_MASK) AND 0x7F = drop_bit 8 p AND 0x7F"
    "drop_bit 3 (p AND MMU_PDR_J_MASK) AND 1 = (if bit p 3 then 1 else 0)" for p
    by (simp_all add: u16_eq_bits bit_simps)
  have par: "p AND MMU_PAR_J_MASK = p" for p by (simp only: u16_eq_bits) (simp add: bit_simps)
  have pa: "mmu_phys_finalize (push_bit 6 (ucast ((p + (drop_bit 6 va AND 0x7F)) AND MMU_PAR_J_MASK)) OR ucast (va AND 0x3F)) x =
      word_of_int ((uint p * 64 + uint va mod 8192) mod pa_modulus x)" for p x
    using va_address[of p va x] by (metis word_of_int_uint)
  show ?thesis
    unfolding page_translate_def Let_def mmu_acf_write_ok_def mmu_acf_read_ok_def mmu_acf_write_is_protect_def f
      outside_page_def access_ok_def pdr_or_def
    by (auto simp: word_less_def va_parts(1) pa[unfolded par] par)
qed

text \<open>
  What a page does with an access: the fault, if any, and else the physical address; and the
  status bits the access sets in the PDR. A write marks the page W even when it faults.
\<close>

definition page_fault :: "u16 \<Rightarrow> bool \<Rightarrow> u16 \<Rightarrow> mmu_fault" where
  "page_fault pdr wr va =
     (if outside_page pdr (uint va mod 8192 div 64) then MMU_FAULT_LENGTH
      else if access_ok pdr wr then MMU_FAULT_NONE
      else if pdr AND 6 = 2 then MMU_FAULT_PROTECT else MMU_FAULT_NONRES)"

definition marked :: "nat \<Rightarrow> nat \<Rightarrow> nat \<Rightarrow> u16 \<Rightarrow> 'm regs \<Rightarrow> 'm regs" where
  "marked m s g bits r = r\<lparr>mmu_pdr := upd3 m s g (mmu_pdr r m s g OR bits) (mmu_pdr r)\<rparr>"

lemma page_translate_spec:
  "page_translate b va wr m s g r =
     (let pdr = mmu_pdr r m s g; fault = page_fault pdr wr va
      in if fault = MMU_FAULT_NONE
         then (XOk (word_of_int ((uint (mmu_par r m s g) * 64 + uint va mod 8192) mod pa_modulus (mmu_ssr3 r))),
               marked m s g (if wr then MMU_PDR_A OR MMU_PDR_W else MMU_PDR_A) r)
         else (XFault fault m s g, if wr then mmu_note_write_pdrw b m (s \<noteq> 0) g r else r))"
  by (simp add: page_translate_cases Let_def page_fault_def marked_def)

text \<open>The page the write of a faulting access marks is the page of the access.\<close>

lemma note_write_marks:
  assumes "mmu_on b r" "m < 4" "g < 8" "s = (if sp \<and> mmu_split_enabled r m then 1 else 0)"
  shows "mmu_note_write_pdrw b m (s \<noteq> 0) g r = marked m s g MMU_PDR_W r"
  using assms by (auto simp: mmu_note_write_pdrw_def Let_def pdr_or_def marked_def)

text \<open>C12: The translation of an address on a DCJ11 with the MMU on: the page is that of the current mode (kernel for a forced kernel access), of data space when the access is not a fetch and the mode has split spaces, and of the top three bits of the address. Mode 2 is non-resident; a length fault occurs exactly when the block lies outside the page as its direction says; else a protection or non-resident fault exactly when the access code forbids the access; else the physical address is 64 * PAR + the offset in the page, modulo 2^22 or 2^18. A successful read sets A in the PDR of the page and a successful write A and W; a faulting read leaves the state alone, and a faulting write still sets W in the PDR of the page.\<close>
theorem page_translation:
  fixes b :: "'m bus" and r :: "'m regs" and va :: u16 and wr ifetch fk :: bool
  assumes on: "mmu_on b r"
  defines "m \<equiv> (if fk then 0 else mmu_mode_from_psw (psw r))"
  defines "s \<equiv> (if (fk \<or> \<not> ifetch) \<and> mmu_split_enabled r m then 1 else 0)" and "g \<equiv> nat (uint va div 8192)"
  defines "fault \<equiv> (if m = 2 then MMU_FAULT_NONRES else page_fault (mmu_pdr r m s g) wr va)"
  shows "translate_va_ex b va wr ifetch fk r =
    (if fault = MMU_FAULT_NONE
     then (XOk (word_of_int ((uint (mmu_par r m s g) * 64 + uint va mod 8192) mod pa_modulus (mmu_ssr3 r))),
           r\<lparr>mmu_pdr := upd3 m s g (mmu_pdr r m s g OR (if wr then MMU_PDR_A OR MMU_PDR_W else MMU_PDR_A)) (mmu_pdr r)\<rparr>)
     else (XFault fault m s g,
           if wr then r\<lparr>mmu_pdr := upd3 m s g (mmu_pdr r m s g OR MMU_PDR_W) (mmu_pdr r)\<rparr> else r))"
proof -
  have "uint (drop_bit 13 va AND mask 3) = uint va div 2 ^ 13 mod 2 ^ 3" by (simp only: uint_and_mask uint_drop)
  also have "\<dots> = uint va div 8192" using uint16[of va] by (simp, intro mod_pos_pos_trivial) (auto simp: pos_imp_zdiv_nonneg_iff)
  finally have g: "va_seg va = g"
    by (simp add: va_seg_def g_def unat_eq_nat_uint mask_eq_exp_minus_1)
  have "drop_bit 13 va AND 7 \<le> 7" "drop_bit 14 (psw r) AND 3 \<le> 3" by (rule word_and_le1)+
  then have lt: "va_seg va < 8" "m < 4" by (auto simp: va_seg_def m_def mmu_mode_from_psw_def word_le_nat_alt)
  note w = note_write_marks[OF on lt(2,1)[unfolded g] s_def[THEN meta_eq_to_obj_eq], unfolded marked_def]
  have sp: "(if fk then if mmu_split_enabled r 0 then 1 else 0 else if ifetch then 0 else if mmu_split_enabled r m then 1 else 0) = s"
    by (auto simp: s_def m_def)
  show ?thesis
    using on unfolding translate_va_ex_def Let_def g m_def[symmetric] sp page_translate_spec w fault_def
    by (simp add: marked_def)
qed

theorem page_translation_witness:
  "translate_va_ex (hwstub_bus True False) 0x0105 True False False
     (zero_regs DCJ11 ()\<lparr>mmu_ssr0 := 1, mmu_pdr := upd3 0 0 0 0x7F02 (\<lambda>_ _ _. 0)\<rparr>) =
   (XFault MMU_FAULT_PROTECT 0 0 0,
    zero_regs DCJ11 ()\<lparr>mmu_ssr0 := 1, mmu_pdr := upd3 0 0 0 0x7F42 (upd3 0 0 0 0x7F02 (\<lambda>_ _ _. 0))\<rparr>) \<and>
   translate_va_ex (hwstub_bus True False) 0x0105 False False False
     (zero_regs DCJ11 ()\<lparr>mmu_ssr0 := 1, mmu_pdr := upd3 0 0 0 0x7F02 (\<lambda>_ _ _. 0)\<rparr>) =
   (XOk 0x0105,
    zero_regs DCJ11 ()\<lparr>mmu_ssr0 := 1, mmu_pdr := upd3 0 0 0 0x7F82 (upd3 0 0 0 0x7F02 (\<lambda>_ _ _. 0))\<rparr>)"
proof -
  let ?r = "zero_regs DCJ11 ()\<lparr>mmu_ssr0 := 1, mmu_pdr := upd3 0 0 0 0x7F02 (\<lambda>_ _ _. 0)\<rparr>"
  have on: "mmu_on (hwstub_bus True False) ?r" by (simp add: mmu_on_def hwstub_bus_def zero_regs_def)
  have m: "mmu_mode_from_psw (psw ?r) = 0" "\<not> mmu_split_enabled ?r 0" "mmu_pdr ?r 0 0 0 = 0x7F02" "mmu_par ?r 0 0 0 = 0"
      "mmu_ssr3 ?r = 0"
    by (simp_all add: mmu_mode_from_psw_def mmu_split_enabled_def zero_regs_def upd3_def)
  have f: "page_fault 0x7F02 True 0x0105 = MMU_FAULT_PROTECT" "page_fault 0x7F02 False 0x0105 = MMU_FAULT_NONE"
    by (simp_all add: page_fault_def outside_page_def access_ok_def Let_def)
  show ?thesis
    using page_translation[OF on, where fk = False and ifetch = False and va = "0x0105" and wr = True]
      page_translation[OF on, where fk = False and ifetch = False and va = "0x0105" and wr = False] m f
    by (simp add: pa_modulus_def)
qed

section \<open>A hit in the cache is a translation\<close>

lemma no_wrap:
  assumes "(x + 8191) mod M - x mod M = 8191" "0 < M" "0 \<le> o'" "o' \<le> (8191::int)"
  shows "(x + o') mod M = x mod M + o'"
proof -
  have "x mod M + 8191 < M" using assms(1) pos_mod_bound[OF assms(2), of "x + 8191"] by linarith
  then have "(x mod M + o') mod M = x mod M + o'"
    using assms(2-4) pos_mod_sign[OF assms(2), of x] by (intro mod_pos_pos_trivial) linarith+
  then show ?thesis by (simp add: mod_simps)
qed

lemma len_bounds:
  assumes "uint (len::u16) < 128"
  shows "uint (push_bit 6 len) = uint len * 64" "uint (push_bit 6 len OR 0x3F) = uint len * 64 + 63"
    "(push_bit 6 len) AND 0x1FFF = push_bit 6 len" "((push_bit 6 len) OR MMU_TLB_WRITE_ALLOWED) AND 0x1FFF = push_bit 6 len"
    "(push_bit 6 len) AND MMU_TLB_WRITE_ALLOWED = 0"
proof -
  show u: "uint (push_bit 6 len) = uint len * 64" using assms by (simp add: push_bit_eq_mult uint_word_ariths)
  have "len = take_bit 7 len" using assms uint16(1)[of len] by (simp add: word_uint_eq_iff unsigned_take_bit_eq take_bit_int_eq_self)
  then have b: "\<not> bit len n" if "7 \<le> n" for n by (metis bit_take_bit_iff leD that)
  have dis: "push_bit 6 len AND 0x3F = 0" by (simp add: u16_eq_bits bit_simps)
  show "uint (push_bit 6 len OR 0x3F) = uint len * 64 + 63"
    using dis u assms by (simp add: disjunctive_add_eq_or[symmetric] uint_plus_if')
  show "(push_bit 6 len) AND 0x1FFF = push_bit 6 len" "((push_bit 6 len) OR MMU_TLB_WRITE_ALLOWED) AND 0x1FFF = push_bit 6 len"
    "(push_bit 6 len) AND MMU_TLB_WRITE_ALLOWED = 0"
    using b by (simp_all add: u16_eq_bits bit_simps)
qed

lemma len_field: "uint (drop_bit 8 (pdr::u16) AND 0x7F) < 128"
  using uint_and_mask[of "drop_bit 8 pdr" 7] by (simp add: mask_eq_exp_minus_1)

lemma uint_diff: "x \<le> y \<Longrightarrow> uint (y - x) = uint y - uint (x::'a::len word)"
  by (simp add: uint_sub_if' word_le_def)

lemma entry_window:
  assumes e: "entry_ok x (mmu_tlb_entry_for pdr par ssr3 ramf rsize)" and h: "host_base x = Some base" and w: "ramf = None \<or> ramf = Some 0"
    and sz: "rsize \<le> RAM_FAST_LIMIT"
  defines "B \<equiv> uint par * 64 mod pa_modulus ssr3"
  shows "mmu_acf_read_ok pdr" "uint base = B" "(uint par * 64 + 8191) mod pa_modulus ssr3 - B = 8191" "B + 8192 \<le> 0xE000"
proof -
  have hb: "host_base (mmu_tlb_entry_for pdr par ssr3 ramf rsize) = Some base" using e h by (simp add: entry_ok_def)
  then show "mmu_acf_read_ok pdr" by (auto simp: mmu_tlb_entry_for_def Let_def split: if_splits)
  have seg: "uint (push_bit 6 (ucast par) :: u32) = uint par * 64"
    using uint16[of par] by (simp add: push_bit_eq_mult uint_word_ariths unsigned_ucast_eq take_bit_eq_mod)
  then have segl: "uint (push_bit 6 (ucast par) + 0x1FFF :: u32) = uint par * 64 + 8191"
    using uint16[of par] by (simp add: uint_plus_if')
  have c: "mmu_phys_finalize (push_bit 6 (ucast par)) ssr3 \<le> mmu_phys_finalize (push_bit 6 (ucast par) + 0x1FFF) ssr3"
    "mmu_phys_finalize (push_bit 6 (ucast par) + 0x1FFF) ssr3 - mmu_phys_finalize (push_bit 6 (ucast par)) ssr3 = 0x1FFF"
    "mmu_phys_finalize (push_bit 6 (ucast par)) ssr3 + 0x2000 \<le> rsize" "base = mmu_phys_finalize (push_bit 6 (ucast par)) ssr3"
    using hb w by (auto simp: mmu_tlb_entry_for_def Let_def split: if_splits option.splits)
  have B: "uint (mmu_phys_finalize (push_bit 6 (ucast par)) ssr3) = B" by (simp add: finalize_uint seg B_def)
  then show "uint base = B" using c(4) by simp
  show "(uint par * 64 + 8191) mod pa_modulus ssr3 - B = 8191"
    using uint_diff[OF c(1)] unfolding c(2) finalize_uint segl seg by (simp add: B_def)
  have "0 < pa_modulus ssr3" "pa_modulus ssr3 \<le> 0x400000" by (simp_all add: pa_modulus_def)
  then have "B < 0x400000" "0 \<le> B"
    using pos_mod_bound[of "pa_modulus ssr3" "uint par * 64"] pos_mod_sign[of "pa_modulus ssr3" "uint par * 64"]
    unfolding B_def by linarith+
  then show "B + 8192 \<le> 0xE000" using c(3) sz B by (simp add: word_le_def uint_plus_if' RAM_FAST_LIMIT_def)
qed


lemma entry_lengths:
  assumes e: "entry_ok x (mmu_tlb_entry_for pdr par ssr3 ramf rsize)" and h: "host_base x \<noteq> None"
  defines "len \<equiv> uint (drop_bit 8 pdr AND 0x7F)"
  shows "uint (valid_min_flags x AND MMU_TLB_VALID_MIN_MASK) = (if drop_bit 3 pdr AND 1 \<noteq> 0 then len * 64 else 0)"
    "uint (valid_max x) = (if drop_bit 3 pdr AND 1 \<noteq> 0 then 8191 else len * 64 + 63)"
    "valid_min_flags x AND MMU_TLB_WRITE_ALLOWED \<noteq> 0 \<Longrightarrow> mmu_acf_write_ok pdr"
proof -
  note L = len_bounds[OF len_field[of pdr]]
  let ?f = "mmu_tlb_entry_for pdr par ssr3 ramf rsize"
  have acf: "mmu_acf_read_ok pdr" using e h by (auto simp: entry_ok_def mmu_tlb_entry_for_def Let_def split: if_splits)
  have vmax: "valid_max x = valid_max ?f" and vmin: "valid_min_flags x = valid_min_flags ?f \<or> valid_min_flags x = valid_min_flags ?f AND NOT MMU_TLB_WRITE_ALLOWED"
    using e by (auto simp: entry_ok_def)
  have clear: "(y AND NOT MMU_TLB_WRITE_ALLOWED) AND 0x1FFF = y AND 0x1FFF" for y :: u16 by (simp add: word_bw_assocs)
  define vm where "vm = (if drop_bit 3 pdr AND 1 \<noteq> 0 then push_bit 6 (drop_bit 8 pdr AND 0x7F) else 0)"
  have f: "valid_min_flags ?f = (if pdr AND MMU_PDR_W \<noteq> 0 \<and> mmu_acf_write_ok pdr then vm OR MMU_TLB_WRITE_ALLOWED else vm)"
    "valid_max ?f = (if drop_bit 3 pdr AND 1 \<noteq> 0 then 0x1FFF else push_bit 6 (drop_bit 8 pdr AND 0x7F) OR 0x3F)"
    using acf by (simp_all add: mmu_tlb_entry_for_def Let_def vm_def)
  have vm: "vm AND 0x1FFF = vm" "(vm OR MMU_TLB_WRITE_ALLOWED) AND 0x1FFF = vm" "vm AND MMU_TLB_WRITE_ALLOWED = 0"
    "uint vm = (if drop_bit 3 pdr AND 1 \<noteq> 0 then len * 64 else 0)"
    using L by (auto simp: vm_def len_def)
  have "valid_min_flags x AND MMU_TLB_VALID_MIN_MASK = valid_min_flags ?f AND MMU_TLB_VALID_MIN_MASK"
    using vmin clear[of "valid_min_flags ?f"] by auto
  also have "\<dots> = vm" using vm unfolding f by simp
  finally show "uint (valid_min_flags x AND MMU_TLB_VALID_MIN_MASK) = (if drop_bit 3 pdr AND 1 \<noteq> 0 then len * 64 else 0)" using vm by simp
  show "uint (valid_max x) = (if drop_bit 3 pdr AND 1 \<noteq> 0 then 8191 else len * 64 + 63)" using L vmax f by (simp add: len_def)
  have "valid_min_flags ?f AND MMU_TLB_WRITE_ALLOWED \<noteq> 0" if "valid_min_flags x AND MMU_TLB_WRITE_ALLOWED \<noteq> 0"
    using that vmin by (auto simp: word_bw_assocs)
  then show "valid_min_flags x AND MMU_TLB_WRITE_ALLOWED \<noteq> 0 \<Longrightarrow> mmu_acf_write_ok pdr"
    using vm(3) unfolding f by (auto split: if_splits)
qed

lemma tlb_hit_translates:
  assumes e: "entry_ok (mmu_tlb r m s g) (fresh_entry r m s g)" and w: "window_ok r"
    and hit: "mmu_tlb_ptr r m s g (va AND 0x1FFF) width wr = Some p" and width: "width = 1 \<or> width = 2"
  shows "page_translate b va wr m s g r = (XOk p, pdr_or m s g (if wr then MMU_PDR_A OR MMU_PDR_W else MMU_PDR_A) r)"
    "uint p + uint width \<le> 0xE000"
proof -
  define pdr par where "pdr = mmu_pdr r m s g AND MMU_PDR_J_MASK" "par = mmu_par r m s g AND MMU_PAR_J_MASK"
  obtain base where base: "host_base (mmu_tlb r m s g) = Some base" using hit by (auto simp: mmu_tlb_ptr_def Let_def split: option.splits)
  note E = e[unfolded fresh_entry_def, folded pdr_par_def]
  define po where "po = uint va mod 8192"
  have po: "0 \<le> po" "po < 8192" "uint (va AND 0x1FFF) = po" by (simp_all add: po_def va_parts)
  have last: "uint ((va AND 0x1FFF) + width - 1) = po + uint width - 1"
    using width po uint16[of va] by (auto simp: uint_plus_if')
  have ptr: "p = base + ucast (va AND 0x1FFF)" "\<not> va AND 0x1FFF < valid_min_flags (mmu_tlb r m s g) AND MMU_TLB_VALID_MIN_MASK"
    "\<not> valid_max (mmu_tlb r m s g) < (va AND 0x1FFF) + width - 1"
    "wr \<Longrightarrow> valid_min_flags (mmu_tlb r m s g) AND MMU_TLB_WRITE_ALLOWED \<noteq> 0"
    using hit base by (auto simp: mmu_tlb_ptr_def Let_def split: if_splits)
  have W: "ram_fast r = None \<or> ram_fast r = Some 0" "ram_fast_size r \<le> RAM_FAST_LIMIT" using w by (auto simp: window_ok_def)
  note win = entry_window[OF E base W] and len = entry_lengths[OF E, unfolded base, simplified]
  define block where "block = uint (drop_bit 6 va AND 0x7F)"
  have block: "block = po div 64" by (simp add: block_def po_def va_parts)
  define plf where "plf = uint (drop_bit 8 pdr AND 0x7F)"
  have in_page: "if drop_bit 3 pdr AND 1 \<noteq> 0 then plf \<le> block else block \<le> plf"
    using ptr(2,3) len(1,2) last po width by (auto simp: word_less_def block plf_def split: if_splits)
  have pa: "uint (mmu_phys_finalize (push_bit 6 (ucast ((par + (drop_bit 6 va AND 0x7F)) AND MMU_PAR_J_MASK)) OR ucast (va AND 0x3F)) (mmu_ssr3 r)) =
     (uint par * 64 + po) mod pa_modulus (mmu_ssr3 r)"
  proof -
    have "uint va mod 64 = po mod 64" by (simp add: po_def mod_mod_cancel)
    then have "po div 64 * 64 + uint va mod 64 = po" using div_mult_mod_eq[of po 64] by simp
    then show ?thesis using page_address[of "drop_bit 6 va AND 0x7F" "va AND 0x3F" par "mmu_ssr3 r"] po block
      by (simp add: va_parts(2) block_def)
  qed
  have up: "uint p = uint base + po"
    using ptr(1) win(2,4) po pos_mod_sign[of "pa_modulus (mmu_ssr3 r)" "uint par * 64"]
    by (simp add: uint_plus_if' unsigned_ucast_eq take_bit_eq_mod pa_modulus_def split: if_splits)
  have eq: "mmu_phys_finalize (push_bit 6 (ucast ((par + (drop_bit 6 va AND 0x7F)) AND MMU_PAR_J_MASK)) OR ucast (va AND 0x3F)) (mmu_ssr3 r) = p"
    unfolding word_uint_eq_iff pa up win(2)
    by (rule no_wrap[OF win(3)]) (use po in \<open>auto simp: pa_modulus_def\<close>)
  have "po + uint width - 1 \<le> 8191"
    using ptr(3) len(2) last len_field[of pdr] by (auto simp: word_less_def split: if_splits)
  then show "uint p + uint width \<le> 0xE000" using up win(2,4) by auto
  show "page_translate b va wr m s g r = (XOk p, pdr_or m s g (if wr then MMU_PDR_A OR MMU_PDR_W else MMU_PDR_A) r)"
    using in_page win(1) len(3) ptr(4) eq
    unfolding page_translate_def Let_def pdr_par_def[symmetric]
    by (auto simp: word_less_def block_def[symmetric] plf_def[symmetric] pdr_or_def split: if_splits)
qed


section \<open>The fast path agrees with the slow path\<close>

text \<open>Addresses below the I/O page reach no register.\<close>

lemma even_below: "uint (a::u16) < 0xE000 \<Longrightarrow> uint (a AND 0xFFFE) < 0xE000"
  using word_and_le2[of a "0xFFFE"] by (simp add: word_le_def word_less_def)

lemma below_io:
  assumes "uint a < 0xE000"
  shows "dcj11_reg_block_load_word r a = None" "dcj11_reg_block_store_word a w r = None"
    "dcj11_reg_block_load_byte r a = None" "dcj11_reg_block_store_byte a x r = None"
    "mmu_io_read_word b r a = None" "mmu_io_write_word b a w r = None"
    "mmu_io_read_byte b r a = None" "mmu_io_write_byte b a x r = None"
    "vm1_reg_block_load_word r a = None" "vm1_reg_block_store_word a w r = None"
    "vm1_reg_block_load_byte r a = None" "vm1_reg_block_store_byte a x r = None"
proof -
  have ne: "a AND 0xFFFE \<noteq> c" "a \<noteq> c" if "0xE000 \<le> uint c" for c using even_below[OF assms] that assms by auto
  have dec: "mmu_dec (a AND 0xFFFE) mmu_dec_table = None"
    using even_below[OF assms] by (simp add: mmu_dec_table_def word_le_def)
  have dec': "mmu_decode_parpdr (a AND 0xFFFE) = None" by (simp add: mmu_decode_parpdr_def dec word_bw_assocs)
  show w: "dcj11_reg_block_load_word r a = None" "dcj11_reg_block_store_word a w r = None"
    using ne by (simp_all add: dcj11_reg_block_load_word_def dcj11_reg_block_store_word_def Let_def)
  show "dcj11_reg_block_load_byte r a = None" "dcj11_reg_block_store_byte a x r = None"
    using ne w by (simp_all add: dcj11_reg_block_load_byte_def dcj11_reg_block_store_byte_def)
  show m: "mmu_io_read_word b r a = None" "mmu_io_write_word b a w r = None"
    using ne dec' by (simp_all add: mmu_io_read_word_def mmu_io_write_word_def Let_def)
  show "mmu_io_read_byte b r a = None"  "mmu_io_write_byte b a x r = None"
    using ne dec' by (simp_all add: mmu_io_read_byte_def mmu_io_write_byte_def mmu_io_read_word_def Let_def mmu_is_reg_address_def word_bw_assocs)
  show v: "vm1_reg_block_load_word r a = None" "vm1_reg_block_store_word a w r = None"
    using ne by (simp_all add: vm1_reg_block_load_word_def vm1_reg_block_store_word_def)
  show "vm1_reg_block_load_byte r a = None" "vm1_reg_block_store_byte a x r = None"
    using v by (simp_all add: vm1_reg_block_load_byte_def vm1_reg_block_store_byte_def)
qed

lemma raw_below_io:
  assumes p: "uint p < 0xE000" and m: "hwstub_mem r = Some mem"
  shows "raw_load_byte_phys (hwstub_bus mmu stubs) t p r = Some (mem p, r)"
    "raw_store_byte_phys (hwstub_bus mmu stubs) t p x r = Some (host_write (hwstub_bus mmu stubs) r p x)"
    "uint p + 1 < 0xE000 \<Longrightarrow> raw_load_word_phys (hwstub_bus mmu stubs) t p r = Some (host_read_word (hwstub_bus mmu stubs) r p, r)"
    "uint p + 1 < 0xE000 \<Longrightarrow> raw_store_word_phys (hwstub_bus mmu stubs) t p w r = Some (host_write_word (hwstub_bus mmu stubs) r p w)"
proof -
  have no_alias: "dcj11_io_alias_offset b r p = None" for b
    using p by (auto simp: dcj11_io_alias_offset_def word_le_def word_less_def)
  have small: "p \<le> 0xFFFF" using p by (simp add: word_le_def)
  have wide: "ucast (ucast p :: u16) = p" using p by (simp add: word_uint_eq_iff unsigned_ucast_eq take_bit_eq_mod uint_mod_distrib)
  show "raw_load_byte_phys (hwstub_bus mmu stubs) t p r = Some (mem p, r)"
    "raw_store_byte_phys (hwstub_bus mmu stubs) t p x r = Some (host_write (hwstub_bus mmu stubs) r p x)"
    using m small by (simp_all add: raw_load_byte_phys_def raw_store_byte_phys_def no_alias hardware_load_byte_def hardware_store_byte_def wide)
      (simp add: hwstub_bus_def m)
  assume p1: "uint p + 1 < 0xE000"
  have wide1: "ucast (ucast p + 1 :: u16) = p + 1"
    using p1 by (simp add: word_uint_eq_iff unsigned_ucast_eq take_bit_eq_mod uint_mod_distrib uint_plus_if')
  have ff: "(0xFF :: u16) = mask 8" by (simp add: mask_eq_exp_minus_1)
  have bytes: "ucast (w AND 0xFF) = (ucast w :: u8)" "ucast (drop_bit 8 w AND 0xFF) = (ucast (drop_bit 8 w) :: u8)" for w :: u16
    unfolding ff by (auto simp: bit_eq_iff bit_simps)
  show "raw_load_word_phys (hwstub_bus mmu stubs) t p r = Some (host_read_word (hwstub_bus mmu stubs) r p, r)"
    "raw_store_word_phys (hwstub_bus mmu stubs) t p w r = Some (host_write_word (hwstub_bus mmu stubs) r p w)"
    using m small by (simp_all add: raw_load_word_phys_def raw_store_word_phys_def no_alias hardware_load_word_def hardware_store_word_def wide wide1
        host_read_word_def host_write_word_def) (simp_all add: hwstub_bus_def m bytes)
qed


text \<open>What the fast path presumes: an access outside the I/O page, and with translation on
  a hit in the cache.\<close>

lemma cur_page_ranges:
  assumes "cur_page r a = (m, s, g)"
  shows "m < 4" "s < 2" "g < 8" "g = va_seg a"
proof -
  have "drop_bit 13 a AND mask 3 = drop_bit 13 a"
    unfolding word_uint_eq_iff uint_and_mask uint_drop using uint16[of a] by (auto intro!: mod_pos_pos_trivial simp: pos_imp_zdiv_nonneg_iff)
  then have seg: "drop_bit 13 a AND 7 = drop_bit 13 a" by (simp add: mask_eq_exp_minus_1)
  have "unat (drop_bit 13 a AND 7) \<le> 7" "unat (drop_bit 14 (psw r) AND 3) \<le> 3"
    using word_and_le1[of "drop_bit 13 a" 7] word_and_le1[of "drop_bit 14 (psw r)" 3] by (simp_all add: word_le_nat_alt)
  then show "m < 4" "s < 2" "g < 8" "g = va_seg a"
    using assms seg by (auto simp: cur_page_def mmu_mode_from_psw_def va_seg_def Let_def split: if_splits)
qed

lemma fast_hit:
  assumes ok: "state_ok r" and page: "cur_page r a = (m, s, g)" and hit: "tlb_hit b (m, s, g) a width wr r = Some p"
    and width: "width = 1 \<or> width = 2"
  shows "translate_va_ex b a wr False False r = (XOk p, pdr_or m s g (if wr then MMU_PDR_A OR MMU_PDR_W else MMU_PDR_A) r)"
    "uint p + uint width \<le> 0xE000" "mmu_on b r"
proof -
  show on: "mmu_on b r" using hit by (auto simp: tlb_hit_def split: if_splits)
  have ptr: "mmu_tlb_ptr r m s g (a AND 0x1FFF) width wr = Some p" using hit on by (simp add: tlb_hit_def)
  note rng = cur_page_ranges[OF page]
  have e: "entry_ok (mmu_tlb r m s g) (fresh_entry r m s g)" and w: "window_ok r"
    using ok rng by (auto simp: state_ok_def tlb_ok_def)
  show "uint p + uint width \<le> 0xE000" by (rule tlb_hit_translates(2)[OF e w ptr width])
  have "host_base (mmu_tlb r m s g) \<noteq> None" using ptr by (auto simp: mmu_tlb_ptr_def Let_def split: option.splits)
  then have "host_base (fresh_entry r m s g) \<noteq> None" using e by (simp add: entry_ok_def)
  then have "mmu_acf_read_ok (mmu_pdr r m s g AND MMU_PDR_J_MASK)"
    by (auto simp: fresh_entry_def mmu_tlb_entry_for_def Let_def split: if_splits)
  then have "m \<noteq> 2" using ok rng(2,3) by (auto simp: state_ok_def registers_ok_def mmu_acf_read_ok_def word_bw_assocs)
  then show "translate_va_ex b a wr False False r = (XOk p, pdr_or m s g (if wr then MMU_PDR_A OR MMU_PDR_W else MMU_PDR_A) r)"
    using tlb_hit_translates(1)[OF e w ptr width, of b] on page rng(4)
    by (auto simp: translate_va_ex_def cur_page_def Let_def split: if_splits)
qed

lemma va_reg_off: "uint a < 0xE000 \<Longrightarrow> va_reg_load_byte b a r = None" "uint a < 0xE000 \<Longrightarrow> va_reg_load_word b a r = None"
  "uint a < 0xE000 \<Longrightarrow> va_reg_store_byte b f a x r = None" "uint a < 0xE000 \<Longrightarrow> va_reg_store_word b f a w r = None"
  by (simp_all add: va_reg_load_byte_def va_reg_load_word_def va_reg_store_byte_def va_reg_store_word_def below_io)

lemma va_reg_on: "mmu_on b r \<Longrightarrow> va_reg_load_byte b a r = None" "mmu_on b r \<Longrightarrow> va_reg_load_word b a r = None"
  "mmu_on b r \<Longrightarrow> va_reg_store_byte b f a x r = None" "mmu_on b r \<Longrightarrow> va_reg_store_word b f a w r = None"
  by (auto simp: va_reg_load_byte_def va_reg_load_word_def va_reg_store_byte_def va_reg_store_word_def mmu_on_def)

lemma window:
  assumes "state_ok r" "ram_fast r = Some ram" "(ucast (a::u16) :: u32) + c < ram_fast_size r" "c = 0 \<or> c = 1"
  shows "ram = 0" "uint a + uint c < 0xE000"
  using assms uint16[of a] by (auto simp: state_ok_def window_ok_def RAM_FAST_LIMIT_def word_le_def word_less_def uint_plus_if'
    unsigned_ucast_eq take_bit_eq_mod)

lemma wide_pa: "uint (a::u16) < 0xE000 \<Longrightarrow> uint (ucast a :: u32) < 0xE000" "uint (ucast a :: u32) = uint a"
  using uint16[of a] by (simp_all add: unsigned_ucast_eq take_bit_eq_mod)

lemma pdr_or_mem [simp]: "hwstub_mem (pdr_or m s g x r) = hwstub_mem r"
  by (simp add: pdr_or_def)

lemma host_read_mem: "hwstub_mem r = Some mem \<Longrightarrow> host_read (hwstub_bus mmu stubs) r p = mem p"
  by (simp add: hwstub_bus_def)

lemma fast_off:
  assumes ok: "state_ok r" and mem: "hwstub_mem r = Some mem"
  shows "fast_load_byte (hwstub_bus False stubs) i a r = Some x \<Longrightarrow> core_load_byte_slow (hwstub_bus False stubs) t i False a r = Some x"
    "fast_load_word (hwstub_bus False stubs) i a r = Some y \<Longrightarrow> core_load_word_slow (hwstub_bus False stubs) t i False a r = Some y"
    "fast_store_byte (hwstub_bus False stubs) a v r = Some r' \<Longrightarrow> core_store_byte_slow (hwstub_bus False stubs) t False a v r = Some r'"
    "fast_store_word (hwstub_bus False stubs) a w r = Some r' \<Longrightarrow> core_store_word_slow (hwstub_bus False stubs) t False a w r = Some r'"
proof -
  have off: "mmu_on (hwstub_bus False stubs) r = False" by (simp add: mmu_on_def)
  note slow = core_load_byte_slow_def core_load_word_slow_def core_store_byte_slow_def core_store_word_slow_def va_reg_off
    translate_va_ex_def off raw_below_io[OF _ mem] wide_pa host_read_mem[OF mem] dcj11_io_alias_offset_def
  { assume "fast_load_byte (hwstub_bus False stubs) i a r = Some x"
    then obtain ram where r: "ram_fast r = Some ram" "ucast a < ram_fast_size r" and x: "x = (host_read (hwstub_bus False stubs) r (ram + ucast a), r)"
      by (auto simp: fast_load_byte_def split: option.splits if_splits)
    then show "core_load_byte_slow (hwstub_bus False stubs) t i False a r = Some x"
      using window[OF ok r(1), of a 0] by (simp add: slow) }
  { assume "fast_load_word (hwstub_bus False stubs) i a r = Some y"
    then obtain ram where r: "ram_fast r = Some ram" "ucast a + 1 < ram_fast_size r" and y: "y = (host_read_word (hwstub_bus False stubs) r (ram + ucast a), r)"
      by (auto simp: fast_load_word_def split: option.splits if_splits)
    then show "core_load_word_slow (hwstub_bus False stubs) t i False a r = Some y"
      using window[OF ok r, of ] by (simp add: slow) }
  { assume "fast_store_byte (hwstub_bus False stubs) a v r = Some r'"
    then obtain ram where r: "ram_fast r = Some ram" "ucast a < ram_fast_size r" and x: "r' = host_write (hwstub_bus False stubs) r (ram + ucast a) v"
      by (auto simp: fast_store_byte_def split: option.splits if_splits)
    then show "core_store_byte_slow (hwstub_bus False stubs) t False a v r = Some r'"
      using window[OF ok r(1), of a 0] by (simp add: slow) }
  { assume "fast_store_word (hwstub_bus False stubs) a w r = Some r'"
    then obtain ram where r: "ram_fast r = Some ram" "ucast a + 1 < ram_fast_size r" and y: "r' = host_write_word (hwstub_bus False stubs) r (ram + ucast a) w"
      by (auto simp: fast_store_word_def split: option.splits if_splits)
    then show "core_store_word_slow (hwstub_bus False stubs) t False a w r = Some r'"
      using window[OF ok r] by (simp add: slow) }
qed

lemma fast_on:
  assumes ok: "state_ok r" and mem: "hwstub_mem r = Some mem"
  shows "fast_load_byte (hwstub_bus True stubs) i a r = Some x \<Longrightarrow> core_load_byte_slow (hwstub_bus True stubs) t i False a r = Some x"
    "fast_load_word (hwstub_bus True stubs) i a r = Some y \<Longrightarrow> core_load_word_slow (hwstub_bus True stubs) t i False a r = Some y"
    "fast_store_byte (hwstub_bus True stubs) a v r = Some r' \<Longrightarrow> core_store_byte_slow (hwstub_bus True stubs) t False a v r = Some r'"
    "fast_store_word (hwstub_bus True stubs) a w r = Some r' \<Longrightarrow> core_store_word_slow (hwstub_bus True stubs) t False a w r = Some r'"
proof -
  let ?b = "hwstub_bus True stubs"
  obtain m s g where page: "cur_page r a = (m, s, g)" by (cases "cur_page r a")
  note hit = fast_hit[OF ok page]
  note slow = core_load_byte_slow_def core_load_word_slow_def core_store_byte_slow_def core_store_word_slow_def va_reg_on
    raw_below_io host_read_mem mem
  { assume "fast_load_byte ?b i a r = Some x"
    then obtain p where i: "\<not> i" and h: "tlb_hit ?b (m, s, g) a 1 False r = Some p" and x: "x = (host_read ?b (pdr_or m s g MMU_PDR_A r) p, pdr_or m s g MMU_PDR_A r)"
      by (auto simp: fast_load_byte_def page Let_def split: option.splits if_splits)
    show "core_load_byte_slow ?b t i False a r = Some x"
      using hit[OF h] i x by (simp add: slow) }
  { assume "fast_load_word ?b i a r = Some y"
    then obtain p where i: "\<not> i" and h: "tlb_hit ?b (m, s, g) a 2 False r = Some p" and y: "y = (host_read_word ?b (pdr_or m s g MMU_PDR_A r) p, pdr_or m s g MMU_PDR_A r)"
      by (auto simp: fast_load_word_def page Let_def split: option.splits if_splits)
    show "core_load_word_slow ?b t i False a r = Some y"
      using hit[OF h] i y by (simp add: slow) }
  { assume "fast_store_byte ?b a v r = Some r'"
    then obtain p where h: "tlb_hit ?b (m, s, g) a 1 True r = Some p" and x: "r' = host_write ?b (pdr_or m s g (MMU_PDR_A OR MMU_PDR_W) r) p v"
      by (auto simp: fast_store_byte_def page Let_def split: option.splits if_splits)
    show "core_store_byte_slow ?b t False a v r = Some r'"
      using hit[OF h] x by (simp add: slow) }
  { assume "fast_store_word ?b a w r = Some r'"
    then obtain p where h: "tlb_hit ?b (m, s, g) a 2 True r = Some p" and y: "r' = host_write_word ?b (pdr_or m s g (MMU_PDR_A OR MMU_PDR_W) r) p w"
      by (auto simp: fast_store_word_def page Let_def split: option.splits if_splits)
    show "core_store_word_slow ?b t False a w r = Some r'"
      using hit[OF h] y by (simp add: slow) }
qed

text \<open>A DCJ11 with translation on and its first kernel page mapped: the input of a witness.\<close>

definition mapped_machine :: "unit regs" where
  "mapped_machine = mmu_tlb_flush_all
     ((zero_regs DCJ11 ())\<lparr>hwstub_mem := Some (\<lambda>a. ucast a), ram_fast := Some 0, ram_fast_size := RAM_FAST_LIMIT,
        mmu_ssr0 := 1, mmu_pdr := upd3 0 0 0 0x7F06 (\<lambda>m s g. 0), mmu_par := upd3 0 0 0 0x10 (\<lambda>m s g. 0)\<rparr>)"

text \<open>C9: On the machine of core/hardware.c (RAM only, no devices; built with or without the MMU), in every state that satisfies the invariant and has its memory bound: when the fast path of a load or store (the cached RAM pointer, or a hit in the translation cache with the MMU on) gives an answer, the path behind it (register decoding, translation, physical access) gives the same value and the same state, so the optimisation cannot be observed there. On the LSI-11 machine it can be, see the findings on ram_fast_size and the 18-bit I/O page.\<close>
theorem fast_path_is_slow_path:
  assumes "state_ok r" "hwstub_mem r \<noteq> None"
  shows "(\<forall>x. fast_load_byte (hwstub_bus mmu stubs) i a r = Some x \<longrightarrow> core_load_byte_slow (hwstub_bus mmu stubs) t i False a r = Some x) \<and>
    (\<forall>x. fast_load_word (hwstub_bus mmu stubs) i a r = Some x \<longrightarrow> core_load_word_slow (hwstub_bus mmu stubs) t i False a r = Some x) \<and>
    (\<forall>r'. fast_store_byte (hwstub_bus mmu stubs) a v r = Some r' \<longrightarrow> core_store_byte_slow (hwstub_bus mmu stubs) t False a v r = Some r') \<and>
    (\<forall>r'. fast_store_word (hwstub_bus mmu stubs) a w r = Some r' \<longrightarrow> core_store_word_slow (hwstub_bus mmu stubs) t False a w r = Some r')"
  using assms fast_on[of r _ stubs] fast_off[of r _ stubs] by (cases mmu) auto

theorem fast_path_is_slow_path_witness:
  "\<exists>v r'. fast_load_word (hwstub_bus True False) False 0x100 mapped_machine = Some (v, r') \<and> v = 0x100 \<and>
     core_load_word_slow (hwstub_bus True False) (core_trap (hwstub_bus True False) 1) False False 0x100 mapped_machine = Some (v, r')"
proof -
  have ok: "state_ok mapped_machine" unfolding mapped_machine_def
    by (rule state_ok_flush) (simp_all add: registers_ok_def ram_window_def zero_regs_def upd3_def within_def)
  have mem: "hwstub_mem mapped_machine \<noteq> None" by (simp add: mapped_machine_def mmu_tlb_flush_all_def)
  have "map_option fst (fast_load_word (hwstub_bus True False) False 0x100 mapped_machine) = Some 0x100" by code_simp
  then show ?thesis using fast_path_is_slow_path[OF ok mem, where mmu = True and stubs = False and i = False and a = "0x100"] by (auto)
qed

end
