(* ===== verification/Banks.thy ===== *)
theory Banks
  imports Translation
begin

text \<open>
  The stack pointers and register sets of a DCJ11: a change of the PSW as one assignment,
  and the way back.
\<close>

section \<open>Switching stacks and register sets there and back\<close>

lemma below_6: "(i::nat) < 6 = (i = 0 \<or> i = 1 \<or> i = 2 \<or> i = 3 \<or> i = 4 \<or> i = 5)"
  by auto

lemma regset_switch:
  assumes "new_sel \<noteq> old_sel"
  shows "switch_regset_loop old_sel new_sel [0, 1, 2, 3, 4, 5] r =
    r\<lparr>R := (\<lambda>i. if i < 6 then rset_bank r new_sel i else R r i),
      rset_bank := (rset_bank r)(old_sel := (\<lambda>i. if i < 6 then R r i else rset_bank r old_sel i))\<rparr>"
  using assms by (auto simp: Let_def fun_eq_iff below_6)

text \<open>The two switches of a DCJ11 as one assignment each.\<close>

definition sp_bank :: "'m regs \<Rightarrow> nat \<Rightarrow> u16" where
  "sp_bank r = (if sp_mode_init r then sp_mode r else (\<lambda>m. if m < 4 then R r 6 else sp_mode r m))"

definition reg_bank :: "'m regs \<Rightarrow> nat \<Rightarrow> nat \<Rightarrow> u16" where
  "reg_bank r = (if rset_bank_init r then rset_bank r
     else (\<lambda>bank reg. if bank < 2 \<and> reg < 6 then R r reg else rset_bank r bank reg))"

lemma psw_regset_less: "dcj11_psw_regset p < 2"
  using word_and_le1[of "drop_bit 11 p" 1] by (simp add: dcj11_psw_regset_def word_le_nat_alt)

lemma psw_mode_less: "dcj11_psw_cur_mode p < 4"
  by (simp add: dcj11_psw_cur_mode_def psw_mode_normalize_def Let_def)

lemma stack_switch:
  "model r = DCJ11 \<Longrightarrow> dcj11_switch_stack_mode p q r =
     (let m = dcj11_psw_cur_mode p; n = dcj11_psw_cur_mode q
      in if m = n then r
         else r\<lparr>sp_mode := (sp_bank r)(m := R r 6), sp_mode_init := True, R := (R r)(6 := sp_bank r n)\<rparr>)"
  by (simp add: dcj11_switch_stack_mode_def dcj11_sp_mode_init_def sp_bank_def Let_def)

lemma bank_switch:
  fixes p q :: u16
  assumes "model r = DCJ11"
  defines "s \<equiv> dcj11_switch_regset p q r" and "m \<equiv> dcj11_psw_regset p" and "n \<equiv> dcj11_psw_regset q"
  shows "R s = (\<lambda>i. if i < 6 \<and> m \<noteq> n then reg_bank r n i else R r i)"
    "rset_bank s = (if m = n then rset_bank r else (reg_bank r)(m := (\<lambda>i. if i < 6 then R r i else reg_bank r m i)))"
    "rset_bank_init s = (m \<noteq> n \<or> rset_bank_init r)" "sp_mode s = sp_mode r" "sp_mode_init s = sp_mode_init r"
proof -
  have u: "dcj11_switch_regset p q r = (if m = n then r else switch_regset_loop m n [0, 1, 2, 3, 4, 5] (dcj11_regset_init r))"
    using assms(1) by (simp add: dcj11_switch_regset_def m_def n_def Let_def del: switch_regset_loop.simps)
  show "R s = (\<lambda>i. if i < 6 \<and> m \<noteq> n then reg_bank r n i else R r i)"
    "rset_bank s = (if m = n then rset_bank r else (reg_bank r)(m := (\<lambda>i. if i < 6 then R r i else reg_bank r m i)))"
    "rset_bank_init s = (m \<noteq> n \<or> rset_bank_init r)" "sp_mode s = sp_mode r" "sp_mode_init s = sp_mode_init r"
    using assms(1) unfolding s_def u
    by (auto simp: regset_switch dcj11_regset_init_def reg_bank_def fun_eq_iff simp del: switch_regset_loop.simps One_nat_def)
qed

text \<open>The registers and banks after a change of the PSW.\<close>

lemma set_psw_banks:
  assumes "model r = DCJ11"
  defines "m \<equiv> \<lambda>p. dcj11_psw_cur_mode p" and "n \<equiv> \<lambda>p. dcj11_psw_regset p"
  shows "R (dcj11_set_psw q r) i =
      (if i < 6 then if n (psw r) = n q then R r i else reg_bank r (n q) i
       else if i = 6 then if m (psw r) = m q then R r 6 else sp_bank r (m q) else R r i)"
    "sp_mode (dcj11_set_psw q r) = (if m (psw r) = m q then sp_mode r else (sp_bank r)(m (psw r) := R r 6))"
    "sp_mode_init (dcj11_set_psw q r) = (m (psw r) \<noteq> m q \<or> sp_mode_init r)"
    "rset_bank (dcj11_set_psw q r) = (if n (psw r) = n q then rset_bank r
       else (reg_bank r)(n (psw r) := (\<lambda>i. if i < 6 then R r i else reg_bank r (n (psw r)) i)))"
    "rset_bank_init (dcj11_set_psw q r) = (n (psw r) \<noteq> n q \<or> rset_bank_init r)"
proof -
  define s where "s = dcj11_switch_stack_mode (psw r) q r"
  have s: "model s = DCJ11" "rset_bank s = rset_bank r" "rset_bank_init s = rset_bank_init r"
    "R s i = (if i = 6 then if m (psw r) = m q then R r 6 else sp_bank r (m q) else R r i)"
    "sp_mode s = (if m (psw r) = m q then sp_mode r else (sp_bank r)(m (psw r) := R r 6))"
    "sp_mode_init s = (m (psw r) \<noteq> m q \<or> sp_mode_init r)" for i
    using assms(1) by (simp_all add: s_def stack_switch m_def Let_def)
  have bank: "reg_bank s = reg_bank r" using s by (auto simp: reg_bank_def fun_eq_iff)
  note eq = dcj11_set_psw_def s_def[symmetric] bank_switch Let_def bank s assms(1) n_def
  show "R (dcj11_set_psw q r) i =
      (if i < 6 then if n (psw r) = n q then R r i else reg_bank r (n q) i
       else if i = 6 then if m (psw r) = m q then R r 6 else sp_bank r (m q) else R r i)"
    "sp_mode (dcj11_set_psw q r) = (if m (psw r) = m q then sp_mode r else (sp_bank r)(m (psw r) := R r 6))"
    "sp_mode_init (dcj11_set_psw q r) = (m (psw r) \<noteq> m q \<or> sp_mode_init r)"
    "rset_bank_init (dcj11_set_psw q r) = (n (psw r) \<noteq> n q \<or> rset_bank_init r)"
    by (simp_all add: eq)
  show "rset_bank (dcj11_set_psw q r) = (if n (psw r) = n q then rset_bank r
       else (reg_bank r)(n (psw r) := (\<lambda>i. if i < 6 then R r i else reg_bank r (n (psw r)) i)))"
    by (simp add: eq fun_eq_iff)
qed

lemma set_psw_there_and_back:
  assumes r2: "\<And>i. i < 7 \<Longrightarrow> R r2 i = R (dcj11_set_psw q r) i" "psw r2 = q" "model r2 = model r"
    "sp_mode r2 = sp_mode (dcj11_set_psw q r)" "sp_mode_init r2 = sp_mode_init (dcj11_set_psw q r)"
    "rset_bank r2 = rset_bank (dcj11_set_psw q r)" "rset_bank_init r2 = rset_bank_init (dcj11_set_psw q r)"
  shows "R (dcj11_set_psw (psw r) r2) i = (if i < 7 then R r i else R r2 i)"
proof (cases "model r = DCJ11")
  case False
  then show ?thesis using r2(1,3) by (simp add: dcj11_set_psw_def Let_def)
next
  case True
  have r2': "model r2 = DCJ11" using True r2(3) by simp
  consider "i < 6" | "i = 6" | "7 \<le> i" by linarith
  then show ?thesis
  proof cases
    case 1
    then show ?thesis using r2(1)[of i] r2(2,6,7)
      by (simp add: set_psw_banks[OF True] set_psw_banks[OF r2'] reg_bank_def)
  next
    case 2
    then show ?thesis using r2(1)[of 6] r2(2,4,5)
      by (simp add: set_psw_banks[OF True] set_psw_banks[OF r2'] sp_bank_def)
  qed (simp add: set_psw_banks[OF r2'])
qed

end
