(* ===== verification/RamBus.thy ===== *)
theory RamBus
  imports Banks
begin

text \<open>
  Words of memory as the instructions see them: the interface of a memory, the stack and
  trap operations proved over it, its interpretation on the machine without devices, and
  the two ways back: RTI after a trap, RTS after JSR.
\<close>

section \<open>Words of memory as the instructions see them\<close>

text \<open>
  The interface of a memory: at the addresses \<open>good\<close>, in the states \<open>ok\<close>, the loads and
  stores of the processor are lookup and update of one function from addresses to words,
  and do nothing else.
\<close>

lemma set_psw_rest [simp]:
  "psw (dcj11_set_psw p r) = p" "fAbort (dcj11_set_psw p r) = fAbort r" "mmu_ssr0 (dcj11_set_psw p r) = mmu_ssr0 r"
  "mach (dcj11_set_psw p r) = mach r"
proof -
  have "fAbort (switch_regset_loop x y rs r) = fAbort r \<and> mmu_ssr0 (switch_regset_loop x y rs r) = mmu_ssr0 r \<and>
      mach (switch_regset_loop x y rs r) = mach r" for x y rs and r :: "'m regs"
    by (induction rs arbitrary: r) (simp_all add: Let_def)
  then show "psw (dcj11_set_psw p r) = p" "fAbort (dcj11_set_psw p r) = fAbort r" "mmu_ssr0 (dcj11_set_psw p r) = mmu_ssr0 r"
    "mach (dcj11_set_psw p r) = mach r"
    by (simp_all add: dcj11_set_psw_def dcj11_switch_regset_def dcj11_switch_stack_mode_def dcj11_regset_init_def
        dcj11_sp_mode_init_def Let_def)
qed

lemma set_psw_high: "8 \<le> i \<Longrightarrow> R (dcj11_set_psw p r) i = R r i"
proof -
  assume "8 \<le> i"
  then show ?thesis using set_psw_banks(1)[of r p i] by (cases "model r = DCJ11") (simp_all add: dcj11_set_psw_def Let_def)
qed

definition cpu_view where
  "cpu_view r = (R r, psw r, model r, (fAbort r, fTrap r, fWait r), (rset_bank r, rset_bank_init r, sp_mode r, sp_mode_init r),
     (dcj11_stack_trap_active r, dcj11_vector_push_active r, dcj11_explicit_psw_write r), J11_STKLIM r)"

locale word_memory =
  fixes b :: "'m bus" and t :: "'m trapf" and ok :: "'m regs \<Rightarrow> bool" and good :: "u16 \<Rightarrow> bool"
    and word_at :: "'m regs \<Rightarrow> u16 \<Rightarrow> u16" and put :: "u16 \<Rightarrow> u16 \<Rightarrow> 'm regs \<Rightarrow> 'm regs"
  assumes load: "ok r \<Longrightarrow> good a \<Longrightarrow> core_load_word b t a r = Some (word_at r a, r)"
    and ifetch: "ok r \<Longrightarrow> good a \<Longrightarrow> core_load_word_ifetch b t a r = Some (word_at r a, r)"
    and vector: "ok r \<Longrightarrow> good a \<Longrightarrow> core_load_word_vector b t a r = Some (word_at r a, r)"
    and store: "ok r \<Longrightarrow> good a \<Longrightarrow> core_store_word b t a w r = Some (put a w r)"
    and same: "ok r \<Longrightarrow> good a \<Longrightarrow> word_at (put a w r) a = w"
    and other: "ok r \<Longrightarrow> good a \<Longrightarrow> good a' \<Longrightarrow> a' \<noteq> a \<Longrightarrow> word_at (put a w r) a' = word_at r a'"
    and ok_put: "ok r \<Longrightarrow> good a \<Longrightarrow> ok (put a w r)"
    and put_view: "cpu_view (put a w r) = cpu_view r"
    and free: "hwstub_mem r' = hwstub_mem r \<Longrightarrow> ram_fast r' = ram_fast r \<Longrightarrow> ram_fast_size r' = ram_fast_size r \<Longrightarrow>
      mach r' = mach r \<Longrightarrow> model r' = model r \<Longrightarrow> mmu_ssr0 r' = mmu_ssr0 r \<Longrightarrow> ok r' = ok r \<and> word_at r' = word_at r"
begin

lemma put_fields [simp]:
  "R (put a w r) = R r" "psw (put a w r) = psw r" "model (put a w r) = model r" "fAbort (put a w r) = fAbort r"
  "sp_mode (put a w r) = sp_mode r" "sp_mode_init (put a w r) = sp_mode_init r" "rset_bank (put a w r) = rset_bank r"
  "rset_bank_init (put a w r) = rset_bank_init r" "dcj11_explicit_psw_write (put a w r) = dcj11_explicit_psw_write r"
  "J11_STKLIM (put a w r) = J11_STKLIM r" "dcj11_stack_trap_active (put a w r) = dcj11_stack_trap_active r"
  using put_view[of a w r] by (simp_all add: cpu_view_def)

lemma put_init [simp]: "fTrap (put a w r) = fTrap r" "fWait (put a w r) = fWait r"
  using put_view[of a w r] by (simp_all add: cpu_view_def)

lemma field_free:
  "ok (r\<lparr>R := x1\<rparr>) = ok r \<and> word_at (r\<lparr>R := x1\<rparr>) = word_at r"
  "ok (r\<lparr>psw := x2\<rparr>) = ok r \<and> word_at (r\<lparr>psw := x2\<rparr>) = word_at r"
  "ok (r\<lparr>dcj11_vector_push_active := x3\<rparr>) = ok r \<and> word_at (r\<lparr>dcj11_vector_push_active := x3\<rparr>) = word_at r"
  "ok (r\<lparr>dcj11_vector_old_pc := x4\<rparr>) = ok r \<and> word_at (r\<lparr>dcj11_vector_old_pc := x4\<rparr>) = word_at r"
  "ok (r\<lparr>dcj11_vector_old_psw := x5\<rparr>) = ok r \<and> word_at (r\<lparr>dcj11_vector_old_psw := x5\<rparr>) = word_at r"
  "ok (r\<lparr>mmu_ssr1 := x6\<rparr>) = ok r \<and> word_at (r\<lparr>mmu_ssr1 := x6\<rparr>) = word_at r"
  "ok (dcj11_note_stack_reference a r) = ok r \<and> word_at (dcj11_note_stack_reference a r) = word_at r"
  "ok (dcj11_set_psw p r) = ok r \<and> word_at (dcj11_set_psw p r) = word_at r"
  by (rule free; simp add: dcj11_note_stack_reference_def dcj11_set_cpuerr_def Let_def)+

lemmas field_simps [simp] = field_free[THEN conjunct1] field_free[THEN conjunct2]

lemma note_stack [simp]:
  "R (dcj11_note_stack_reference a r) = R r" "psw (dcj11_note_stack_reference a r) = psw r"
  "model (dcj11_note_stack_reference a r) = model r" "fAbort (dcj11_note_stack_reference a r) = fAbort r"
  "sp_mode (dcj11_note_stack_reference a r) = sp_mode r" "sp_mode_init (dcj11_note_stack_reference a r) = sp_mode_init r"
  "rset_bank (dcj11_note_stack_reference a r) = rset_bank r" "rset_bank_init (dcj11_note_stack_reference a r) = rset_bank_init r"
  by (simp_all add: dcj11_note_stack_reference_def dcj11_set_cpuerr_def Let_def)

lemma push:
  "ok r \<Longrightarrow> good (R r 6 - 2) \<Longrightarrow> pushw b t v r =
     Some (put (R r 6 - 2) v (dcj11_note_stack_reference (R r 6 - 2) (r\<lparr>R := (R r)(6 := R r 6 - 2)\<rparr>)))"
  by (simp add: pushw_def Let_def store)

lemma pull:
  "ok r \<Longrightarrow> good (R r 6) \<Longrightarrow> pullw b t r = Some (word_at r (R r 6), r\<lparr>R := (R r)(6 := R r 6 + 2)\<rparr>)"
  by (simp add: pullw_def load)

text \<open>Trap entry: the new PSW and PC come from the vector, the old ones lie on the stack.\<close>

lemma take_vector:
  fixes p pc :: u16
  assumes ok: "ok r" and a: "\<not> fAbort r" and vec: "good vec" "good (vec + 2)"
  defines "r1 \<equiv> dcj11_set_psw (trap_psw r p (word_at r (vec + 2))) r"
  assumes stack: "good (R r1 6 - 2)" "good (R r1 6 - 4)"
  shows "\<exists>r'. core_take_vector b t vec pc p r = Some r' \<and> ok r' \<and> \<not> fAbort r' \<and> model r' = model r \<and>
    R r' = (R r1)(6 := R r1 6 - 4, 7 := word_at r vec) \<and> psw r' = trap_psw r p (word_at r (vec + 2)) \<and>
    word_at r' (R r1 6 - 2) = p \<and> word_at r' (R r1 6 - 4) = pc \<and>
    sp_mode r' = sp_mode r1 \<and> sp_mode_init r' = sp_mode_init r1 \<and>
    rset_bank r' = rset_bank r1 \<and> rset_bank_init r' = rset_bank_init r1"
proof -
  have ne: "R r1 6 - 2 \<noteq> R r1 6 - 4" by simp
  have r1: "ok r1" "\<not> fAbort r1" "word_at r1 = word_at r" "model r1 = model r" "psw r1 = trap_psw r p (word_at r (vec + 2))"
    using ok a by (simp_all add: r1_def)
  define r2 where "r2 = (if model r1 = DCJ11 then r1\<lparr>dcj11_vector_old_pc := pc, dcj11_vector_old_psw := p,
                     dcj11_vector_push_active := True\<rparr> else r1)"
  have r2: "ok r2" "\<not> fAbort r2" "word_at r2 = word_at r" "model r2 = model r" "psw r2 = trap_psw r p (word_at r (vec + 2))"
    "R r2 = R r1" "sp_mode r2 = sp_mode r1" "sp_mode_init r2 = sp_mode_init r1" "rset_bank r2 = rset_bank r1"
    "rset_bank_init r2 = rset_bank_init r1"
    using r1 by (simp_all add: r2_def)
  obtain r3 where r3: "pushw b t p r2 = Some r3" "ok r3" "\<not> fAbort r3" "model r3 = model r" "psw r3 = psw r2"
    "R r3 = (R r1)(6 := R r1 6 - 2)" "word_at r3 (R r1 6 - 2) = p" "sp_mode r3 = sp_mode r1" "sp_mode_init r3 = sp_mode_init r1"
    "rset_bank r3 = rset_bank r1" "rset_bank_init r3 = rset_bank_init r1"
    using r2 stack by (simp add: push ok_put same)
  obtain r4 where r4: "pushw b t pc r3 = Some r4" "ok r4" "\<not> fAbort r4" "model r4 = model r" "psw r4 = psw r2"
    "R r4 = (R r1)(6 := R r1 6 - 4)" "word_at r4 (R r1 6 - 2) = p" "word_at r4 (R r1 6 - 4) = pc" "sp_mode r4 = sp_mode r1"
    "sp_mode_init r4 = sp_mode_init r1" "rset_bank r4 = rset_bank r1" "rset_bank_init r4 = rset_bank_init r1"
    using r3 stack ne by (simp add: push ok_put same other)
  have "core_take_vector b t vec pc p r = Some (r4\<lparr>dcj11_vector_push_active := False, R := (R r4)(7 := word_at r vec)\<rparr>)"
    unfolding core_take_vector_def using ok a vec r3(1,3) r4(1,3)
    by (simp add: vector Let_def r1_def[symmetric] r2_def[symmetric])
  then show ?thesis using r4 r2(5) by simp
qed

text \<open>RTI after trap entry is back where the trap came from.\<close>

lemma handler_psw_kernel: "model r = DCJ11 \<Longrightarrow> dcj11_kernel_psw (trap_psw r p v)"
proof -
  assume "model r = DCJ11"
  then have "drop_bit 14 (trap_psw r p v) AND 3 = 0"
    by (simp only: u16_eq_bits) (simp add: trap_psw_def is_vm2_def dcj11_psw_set_cur_mode_def dcj11_psw_set_prev_mode_def Let_def
        psw_mode_normalize_def bit_simps)
  then show ?thesis by (simp add: dcj11_kernel_psw_def psw_mode_normalize_def)
qed

lemma handler_psw_H:
  "is_vm2 r \<Longrightarrow> p AND FLAG_H = 0 \<Longrightarrow> (p AND NOT FLAG_H) OR (trap_psw r p v AND FLAG_H) = p"
proof -
  assume v: "is_vm2 r" "p AND FLAG_H = 0"
  then have "trap_psw r p v AND FLAG_H = 0" by (simp add: trap_psw_def) (simp add: u16_eq_bits bit_simps)
  moreover have "p AND NOT FLAG_H = p" using v(2) by (simp only: u16_eq_bits) (simp add: bit_simps)
  ultimately show ?thesis by simp
qed

lemma trap_return:
  assumes ok: "ok r" and a: "\<not> fAbort r" and vec: "good vec" "good (vec + 2)"
  defines "q \<equiv> trap_psw r (psw r) (word_at r (vec + 2))"
  assumes stack: "good (R (dcj11_set_psw q r) 6 - 2)" "good (R (dcj11_set_psw q r) 6 - 4)"
    and H: "is_vm2 r \<Longrightarrow> psw r AND FLAG_H = 0 \<or> 0xE000 \<le> R r 7"
  shows "\<exists>r' c r''. core_take_vector b t vec (R r 7) (psw r) r = Some r' \<and> R r' 7 = word_at r vec \<and> psw r' = q \<and>
    exec_RTI b t (psw r') r' = Some (StepEnd c r'') \<and> R r'' = R r \<and> psw r'' = psw r"
proof -
  define sp where "sp = R (dcj11_set_psw q r) 6"
  obtain r' where tr: "core_take_vector b t vec (R r 7) (psw r) r = Some r'" and ok': "ok r'" and m: "model r' = model r"
    and R': "R r' = (R (dcj11_set_psw q r))(6 := sp - 4, 7 := word_at r vec)" and q: "psw r' = q"
    and st: "word_at r' (sp - 2) = psw r" "word_at r' (sp - 4) = R r 7"
    and bk: "sp_mode r' = sp_mode (dcj11_set_psw q r)" "sp_mode_init r' = sp_mode_init (dcj11_set_psw q r)"
      "rset_bank r' = rset_bank (dcj11_set_psw q r)" "rset_bank_init r' = rset_bank_init (dcj11_set_psw q r)"
    using take_vector[OF ok a vec, of "psw r" "R r 7"] stack unfolding q_def[symmetric] sp_def[symmetric] by blast
  define r2 where "r2 = r'\<lparr>R := (R r')(6 := sp, 7 := R r 7)\<rparr>"
  have vm2: "is_vm2 r' = is_vm2 r" by (simp add: m is_vm2_def)
  have ret: "return_psw q (psw r) r2 = psw r"
    using H handler_psw_kernel[of r "psw r"] handler_psw_H[of r "psw r" "word_at r (vec + 2)"] m vm2
    by (auto simp: return_psw_def r2_def Let_def is_vm2_def q_def not_less)
  have i: "R (dcj11_set_psw (psw r) r2) i = R r i" for i
    using set_psw_there_and_back[of r2 q r i] set_psw_high[of i q r] R' q m bk
    by (cases "i < 7"; cases "i = 7") (auto simp: r2_def sp_def)
  have g: "good (sp - 4)" "good (sp - 2)" using stack by (simp_all add: sp_def)
  have "sp - 4 + 2 = sp - 2" "sp - 2 + 2 = sp" by simp_all
  then have "\<exists>c. exec_RTI b t (psw r') r' = Some (StepEnd c (dcj11_set_psw (psw r) r2))"
    using ret by (auto simp: exec_RTI_def pull ok' R' g st q Let_def r2_def fun_upd_twist)
  then show ?thesis using tr R' q i by (auto simp: fun_eq_iff)
qed

end

section \<open>The machine without devices has such a memory\<close>

definition ram_ok :: "'m regs \<Rightarrow> bool" where
  "ram_ok r = (hwstub_mem r \<noteq> None \<and> window_ok r)"

definition ram_addr :: "u16 \<Rightarrow> bool" where
  "ram_addr a = (a AND 1 = 0 \<and> a < 0xE000)"

definition ram_word :: "bool \<Rightarrow> 'm regs \<Rightarrow> u16 \<Rightarrow> u16" where
  "ram_word stubs r a = host_read_word (hwstub_bus False stubs) r (ucast a)"

definition ram_put :: "bool \<Rightarrow> u16 \<Rightarrow> u16 \<Rightarrow> 'm regs \<Rightarrow> 'm regs" where
  "ram_put stubs a w r = host_write_word (hwstub_bus False stubs) r (ucast a) w"

lemma ram_addr_facts:
  assumes "ram_addr a"
  shows "uint a < 0xE000" "a AND 1 = 0" "uint (ucast a :: u32) < 0xE000" "uint (ucast a :: u32) + 1 < 0xE000" "a AND 0xFFFE = a" "even (uint a)"
proof -
  have e: "a AND 1 = 0" and l: "uint a < 0xE000" using assms by (simp_all add: ram_addr_def word_less_def)
  have "a AND mask 1 = 0" using e by (simp add: mask_eq_exp_minus_1)
  then have "uint (a AND mask 1) = 0" by simp
  then have "uint a mod 2 = 0" unfolding uint_and_mask by simp
  then show "even (uint a)" by presburger
  then show "uint (ucast a :: u32) + 1 < 0xE000" using l by (simp add: wide_pa(2)) presburger
  show "a AND 0xFFFE = a" using e by (simp only: u16_eq_bits) (simp add: bit_simps)
qed (use assms wide_pa[of a] in \<open>simp_all add: ram_addr_def word_less_def\<close>)

lemma word_bytes: "(ucast (ucast (w AND 0xFF :: u16) :: u8) OR push_bit 8 (ucast (ucast (drop_bit 8 w AND 0xFF) :: u8)) :: u16) = w"
  by (simp only: u16_eq_bits) (simp add: bit_simps)

lemma even_neighbours:
  assumes "ram_addr a" "ram_addr a'" "a' \<noteq> a"
  shows "(ucast a :: u32) \<noteq> ucast a'" "(ucast a :: u32) + 1 \<noteq> ucast a'" "(ucast a :: u32) \<noteq> ucast a' + 1"
    "(ucast a :: u32) + 1 \<noteq> ucast a' + 1"
proof -
  obtain x where x: "uint a = 2 * x" using ram_addr_facts(6)[OF assms(1)] by (rule evenE)
  obtain y where y: "uint a' = 2 * y" using ram_addr_facts(6)[OF assms(2)] by (rule evenE)
  have ne: "uint a' \<noteq> uint a" using assms(3) by (simp add: word_uint_eq_iff)
  show "(ucast a :: u32) \<noteq> ucast a'" "(ucast a :: u32) + 1 \<noteq> ucast a'" "(ucast a :: u32) \<noteq> ucast a' + 1"
    "(ucast a :: u32) + 1 \<noteq> ucast a' + 1"
    using ram_addr_facts(3)[OF assms(1)] ram_addr_facts(3)[OF assms(2)] ne x y
    by (simp_all add: word_uint_eq_iff uint_plus_if' wide_pa(2))
qed

interpretation ram: word_memory "hwstub_bus False stubs" t ram_ok ram_addr "ram_word stubs" "ram_put stubs"
  for stubs and t :: "'m trapf"
proof
  fix r :: "'m regs" and a w assume r: "ram_ok r" and a: "ram_addr a"
  obtain mem where m: "hwstub_mem r = Some mem" using r by (auto simp: ram_ok_def)
  have ram: "ram_fast r = None \<or> ram_fast r = Some 0" using r by (simp add: ram_ok_def window_ok_def)
  have off: "mmu_on (hwstub_bus False stubs) r = False" by (simp add: mmu_on_def)
  note raw = raw_below_io(3,4)[OF ram_addr_facts(3)[OF a] m, OF ram_addr_facts(4)[OF a]]
  note access = core_load_word_ex_def core_store_word_ex_def fast_load_word_def fast_store_word_def
    core_load_word_slow_def core_store_word_slow_def va_reg_off[OF ram_addr_facts(1)[OF a]] translate_va_ex_def off raw
    dcj11_io_alias_offset_def ram_addr_facts[OF a] ram_word_def ram_put_def
  show "core_load_word (hwstub_bus False stubs) t a r = Some (ram_word stubs r a, r)"
    "core_load_word_ifetch (hwstub_bus False stubs) t a r = Some (ram_word stubs r a, r)"
    "core_load_word_vector (hwstub_bus False stubs) t a r = Some (ram_word stubs r a, r)"
    "core_store_word (hwstub_bus False stubs) t a w r = Some (ram_put stubs a w r)"
    by (rule disjE[OF ram]; simp add: core_load_word_def core_load_word_ifetch_def core_load_word_vector_def core_store_word_def access)+
  show "ram_word stubs (ram_put stubs a w r) a = w"
    using m by (simp add: ram_word_def ram_put_def host_read_word_def host_write_word_def hwstub_bus_def hw_upd_def word_bytes)
  show "ram_ok (ram_put stubs a w r)"
    using r m by (simp add: ram_ok_def ram_put_def host_write_word_def hwstub_bus_def window_ok_def)
  fix a' assume "ram_addr a'" "a' \<noteq> a"
  then show "ram_word stubs (ram_put stubs a w r) a' = ram_word stubs r a'"
    using m even_neighbours[OF a, of a'] by (simp add: ram_word_def ram_put_def host_read_word_def host_write_word_def hwstub_bus_def hw_upd_def)
next
  fix a w and r :: "'m regs"
  show "cpu_view (ram_put stubs a w r) = cpu_view r"
    by (simp add: cpu_view_def ram_put_def host_write_word_def hwstub_bus_def)
next
  fix r r' :: "'m regs"
  assume "hwstub_mem r' = hwstub_mem r" "ram_fast r' = ram_fast r" "ram_fast_size r' = ram_fast_size r"
  then show "ram_ok r' = ram_ok r \<and> ram_word stubs r' = ram_word stubs r"
    by (simp add: ram_ok_def window_ok_def ram_word_def host_read_word_def hwstub_bus_def fun_eq_iff)
qed

lemma ram_ok_zero: "ram_ok ((zero_regs m x)\<lparr>hwstub_mem := Some f, R := rs\<rparr>)"
  by (simp add: ram_ok_def window_ok_def zero_regs_def)

section \<open>Traps and their return, subroutines and their return\<close>

text \<open>C13: RTI undoes trap entry on the machine of core/hardware.c (RAM only, no devices, MMU not built in), when no abort is pending and the vector and the two stack words lie in its RAM; on a VM2 also only when it is in USER mode (H = 0) or the PC is at least 0160000, since its RTI to a lower PC leaves H as the handler has it. Under these conditions, on every model, core_take_vector goes to the PC of the vector with the PSW of trap_psw, and the RTI of the handler restores all registers (the stack pointer and register set of the old mode on a DCJ11 included), the PC and the whole PSW. (LsiCpu.lsi_trap_then_RTI states it of the RAM of the LSI-11, for the models other than the VM2.)\<close>
theorem trap_then_RTI:
  fixes stubs :: bool
  defines "b \<equiv> hwstub_bus False stubs"
  assumes "ram_ok r" "\<not> fAbort r" "ram_addr vec" "ram_addr (vec + 2)"
    and q: "q = trap_psw r (psw r) (ram_word stubs r (vec + 2))"
    and "ram_addr (R (dcj11_set_psw q r) 6 - 2)" "ram_addr (R (dcj11_set_psw q r) 6 - 4)"
    and "is_vm2 r \<Longrightarrow> psw r AND FLAG_H = 0 \<or> 0xE000 \<le> R r 7"
  shows "\<exists>r' c r''. core_take_vector b t vec (R r 7) (psw r) r = Some r' \<and> R r' 7 = ram_word stubs r vec \<and> psw r' = q \<and>
    exec_RTI b t (psw r') r' = Some (StepEnd c r'') \<and> R r'' = R r \<and> psw r'' = psw r"
  unfolding b_def q by (rule ram.trap_return) (use assms in simp_all)

theorem trap_then_RTI_witness:
  "\<exists>r' c r''. core_take_vector (hwstub_bus False False) (\<lambda>_. Some) 0x1C 0x200 0xC010
        ((zero_regs DCJ11 ())\<lparr>hwstub_mem := Some (\<lambda>a. if a = 0x1C then 0x40 else 0), psw := 0xC010,
           R := (\<lambda>i. if i = 7 then 0x200 else 0x1000)\<rparr>) = Some r' \<and>
     exec_RTI (hwstub_bus False False) (\<lambda>_. Some) (psw r') r' = Some (StepEnd c r'') \<and>
     R r'' 6 = 0x1000 \<and> R r'' 7 = 0x200 \<and> psw r'' = 0xC010"
proof -
  define r where "r = (zero_regs DCJ11 ())\<lparr>hwstub_mem := Some (\<lambda>a. if a = 0x1C then 0x40 else 0), psw := 0xC010,
           R := (\<lambda>i. if i = 7 then 0x200 else 0x1000)\<rparr>"
  define q where "q = trap_psw r (psw r) (ram_word False r (0x1C + 2))"
  have ok: "ram_ok r" "\<not> fAbort r" "ram_addr 0x1C" "ram_addr (0x1C + 2)" "R r 7 = 0x200" "R r 6 = 0x1000" "psw r = 0xC010"
    by (simp_all add: r_def ram_ok_def window_ok_def zero_regs_def ram_addr_def)
  have sp: "R (dcj11_set_psw q r) 6 = 0x1000" unfolding q_def r_def by code_simp
  have vm: "\<not> is_vm2 r" by (simp add: r_def is_vm2_def zero_regs_def)
  have st: "ram_addr (0x1000 - 2)" "ram_addr (0x1000 - 4)" by (simp_all add: ram_addr_def)
  show ?thesis unfolding r_def[symmetric]
    using trap_then_RTI[OF ok(1-4) q_def, of "\<lambda>_. Some"] sp ok(5-7) st vm by auto
qed


end
