(* ===== verification/IrqPoll.thy ===== *)
theory IrqPoll
  imports RegBlocks
begin

text \<open>
  Interrupt requests of the LSI-11 emulator (lsi11/irq.c, lsi11/irq_latch.h): the table of
  sources, the arbitration of irq_poll, and the request latch most devices use. A function
  pointer of the C table is an option, \<open>None\<close> for NULL; the devices are a parameter of the
  table (the state \<open>'d\<close> the functions work on).
\<close>

section \<open>The request latch of a device\<close>

record irq_latch_t =
  l_done :: bool
  l_ie :: bool
  irq_req :: bool
  irq_armed :: bool

definition irq_latch_reset :: "irq_latch_t \<Rightarrow> irq_latch_t" where
  "irq_latch_reset l = \<lparr>l_done = False, l_ie = False, irq_req = False, irq_armed = True\<rparr>"

definition irq_latch_event_set_done :: "irq_latch_t \<Rightarrow> irq_latch_t" where
  "irq_latch_event_set_done l =
     (if l_done l then l
      else let l = l\<lparr>l_done := True\<rparr>
           in if l_ie l \<and> irq_armed l then l\<lparr>irq_req := True, irq_armed := False\<rparr> else l)"

definition irq_latch_ack :: "irq_latch_t \<Rightarrow> irq_latch_t" where
  "irq_latch_ack l = l\<lparr>irq_req := False\<rparr>"

definition irq_latch_sw_clear_done :: "irq_latch_t \<Rightarrow> irq_latch_t" where
  "irq_latch_sw_clear_done l = l\<lparr>l_done := False, irq_req := False, irq_armed := True\<rparr>"

definition irq_latch_set_ie :: "bool \<Rightarrow> irq_latch_t \<Rightarrow> irq_latch_t" where
  "irq_latch_set_ie ie l = l\<lparr>l_ie := ie\<rparr>"

lemmas latch_defs = irq_latch_reset_def irq_latch_event_set_done_def irq_latch_ack_def irq_latch_sw_clear_done_def
  irq_latch_set_ie_def

text \<open>A request is only ever up while DONE is, and a latch without DONE is armed.\<close>

definition latch_ok :: "irq_latch_t \<Rightarrow> bool" where
  "latch_ok l = ((irq_req l \<longrightarrow> l_done l) \<and> (\<not> l_done l \<longrightarrow> irq_armed l))"

lemma latch_ok_simps [simp]:
  "latch_ok (irq_latch_reset l)" "latch_ok l \<Longrightarrow> latch_ok (irq_latch_event_set_done l)"
  "latch_ok l \<Longrightarrow> latch_ok (irq_latch_ack l)" "latch_ok (irq_latch_sw_clear_done l)"
  "latch_ok l \<Longrightarrow> latch_ok (irq_latch_set_ie ie l)"
  "latch_ok l \<Longrightarrow> latch_ok (l\<lparr>l_ie := b\<rparr>)" "latch_ok l \<Longrightarrow> l_done l \<Longrightarrow> latch_ok (l\<lparr>irq_req := True\<rparr>)"
  by (auto simp: latch_defs latch_ok_def Let_def)

section \<open>The table of sources\<close>

record 'd irq_source_t =
  irq_vector :: u16
  irq_priority :: u8
  irq_pending :: "('d \<Rightarrow> bool) option"
  irq_ack :: "('d \<Rightarrow> 'd) option"

definition MAX_IRQ :: nat where "MAX_IRQ = 32"

definition irq_register :: "'d irq_source_t option \<Rightarrow> 'd irq_source_t list \<Rightarrow> int \<times> 'd irq_source_t list" where
  "irq_register s g_irq =
     (case s of
        None \<Rightarrow> (-1, g_irq)
      | Some s \<Rightarrow>
          if Option.is_none (irq_pending s) \<or> Option.is_none (irq_ack s) then (-1, g_irq)
          else if length g_irq \<ge> MAX_IRQ then (-1, g_irq)
          else (0, g_irq @ [s]))"

definition encode_vec :: "'m regs \<Rightarrow> u16 \<Rightarrow> u8 \<Rightarrow> u16" where
  "encode_vec r v pri = (if model r = DCJ11 then v OR push_bit 9 (ucast (pri AND 7)) else v)"

text \<open>The calls through the pointers of the table; registered sources have both.\<close>

definition call_pending :: "'d irq_source_t \<Rightarrow> 'd \<Rightarrow> bool" where
  "call_pending s d = (case irq_pending s of None \<Rightarrow> False | Some f \<Rightarrow> f d)"

definition call_ack :: "'d irq_source_t \<Rightarrow> 'd \<Rightarrow> 'd" where
  "call_ack s d = (case irq_ack s of None \<Rightarrow> d | Some f \<Rightarrow> f d)"

text \<open>
  The loop of \<^verbatim>\<open>irq_poll\<close>: the pending source of the highest priority, the first of several;
  on a DCJ11 a source that the priority of the PSW masks is passed over. \<open>best\<close> is what the
  C code keeps as an index and its priority.
\<close>

definition irq_masked :: "'m regs \<Rightarrow> 'd irq_source_t \<Rightarrow> bool" where
  "irq_masked r s =
     (model r = DCJ11 \<and> irq_priority s \<noteq> 0 \<and> unat (drop_bit 5 (psw r) AND 7) \<ge> unat (irq_priority s))"

fun irq_poll_loop :: "'m regs \<Rightarrow> 'd \<Rightarrow> 'd irq_source_t list \<Rightarrow> 'd irq_source_t option \<Rightarrow> 'd irq_source_t option" where
  "irq_poll_loop r d [] best = best"
| "irq_poll_loop r d (s # ss) best =
     (if \<not> call_pending s d then irq_poll_loop r d ss best
      else if irq_masked r s then irq_poll_loop r d ss best
      else irq_poll_loop r d ss
             (case best of None \<Rightarrow> Some s
              | Some b \<Rightarrow> if irq_priority s > irq_priority b then Some s else best))"

definition irq_poll :: "'m regs \<Rightarrow> 'd irq_source_t list \<Rightarrow> 'd \<Rightarrow> u16 option \<times> 'd" where
  "irq_poll r g_irq d =
     (case irq_poll_loop r d g_irq None of
        None \<Rightarrow> (None, d)
      | Some s \<Rightarrow>
          (let v = irq_vector s; pri = irq_priority s
           in if model r = K1801VM1 \<and> psw r AND 0x200 \<noteq> 0 then (None, d)
              else if model r = K1801VM1 \<and> v = 0xE002 \<and> psw r AND 0x400 \<noteq> 0 then (None, d)
              else if model r = K1801VM1 \<and> v \<noteq> 0xE002 \<and> psw r AND 0x80 \<noteq> 0 then (None, d)
              else if is_vm2 r \<and> psw r AND 0x80 \<noteq> 0 then (None, d)
              else (Some (encode_vec r v pri), call_ack s d)))"

section \<open>Arbitration\<close>

definition deliverable :: "'m regs \<Rightarrow> 'd \<Rightarrow> 'd irq_source_t \<Rightarrow> bool" where
  "deliverable r d s = (call_pending s d \<and> \<not> irq_masked r s)"

text \<open>The loop finds the first source of the highest priority among the deliverable ones.\<close>

definition first_best :: "('a \<Rightarrow> u8) \<Rightarrow> 'a list \<Rightarrow> 'a \<Rightarrow> bool" where
  "first_best pri xs x = (\<exists>ys zs. xs = ys @ x # zs \<and> (\<forall>y \<in> set ys. pri y < pri x) \<and> (\<forall>z \<in> set zs. pri z \<le> pri x))"

lemma first_best_Nil [simp]: "\<not> first_best pri [] x"
  by (simp add: first_best_def)

lemma first_best_Cons:
  "first_best pri (y # xs) x = ((y = x \<and> (\<forall>z \<in> set xs. pri z \<le> pri x)) \<or> (pri y < pri x \<and> first_best pri xs x))"
  (is "?l = (?a \<or> ?b)")
proof
  assume ?l
  then obtain ys zs where e: "y # xs = ys @ x # zs" "\<forall>y \<in> set ys. pri y < pri x" "\<forall>z \<in> set zs. pri z \<le> pri x"
    unfolding first_best_def by blast
  then show "?a \<or> ?b" by (cases ys) (auto simp: first_best_def)
next
  assume "?a \<or> ?b"
  then show ?l
  proof
    assume ?a then show ?l unfolding first_best_def by (intro exI[of _ "[]"] exI[of _ xs]) simp
  next
    assume b: ?b
    then obtain ys zs where "xs = ys @ x # zs" "\<forall>y \<in> set ys. pri y < pri x" "\<forall>z \<in> set zs. pri z \<le> pri x"
      unfolding first_best_def by blast
    then show ?l using b unfolding first_best_def by (intro exI[of _ "y # ys"] exI[of _ zs]) simp
  qed
qed

lemma first_best_mem: "first_best pri xs x \<Longrightarrow> x \<in> set xs \<and> (\<forall>y \<in> set xs. pri y \<le> pri x)"
  by (induction xs) (auto simp: first_best_Cons)

lemma first_best_exists: "xs \<noteq> [] \<Longrightarrow> \<exists>x. first_best pri xs x"
proof (induction xs)
  case (Cons y xs)
  show ?case
  proof (cases "\<forall>z \<in> set xs. pri z \<le> pri y")
    case True
    then show ?thesis by (auto simp: first_best_Cons)
  next
    case False
    then obtain z where z: "z \<in> set xs" "pri y < pri z" by (auto simp: not_le)
    then have "xs \<noteq> []" by auto
    then obtain x where x: "first_best pri xs x" using Cons by blast
    then have "pri z \<le> pri x" using first_best_mem[OF x] z by blast
    then show ?thesis using x z(2) by (auto simp: first_best_Cons intro: less_le_trans)
  qed
qed simp

lemma best_Cons2:
  "first_best pri (b # x # xs) s = first_best pri ((if pri x > pri b then x else b) # xs) s"
  by (auto simp: first_best_Cons)

lemma loop_step:
  "irq_poll_loop r d (x # ss) best = irq_poll_loop r d ss
     (if deliverable r d x then Some (case best of None \<Rightarrow> x | Some b \<Rightarrow> if irq_priority x > irq_priority b then x else b) else best)"
  by (auto simp: deliverable_def split: option.split)

lemma loop_best:
  "\<exists>s. irq_poll_loop r d ss (Some b) = Some s \<and> first_best irq_priority (b # filter (deliverable r d) ss) s"
proof (induction ss arbitrary: b)
  case Nil
  show ?case by (simp add: first_best_Cons)
next
  case (Cons x ss)
  show ?case
    using Cons[of "if deliverable r d x \<and> irq_priority x > irq_priority b then x else b"]
    by (auto simp: loop_step best_Cons2 simp del: irq_poll_loop.simps split: if_splits)
qed

lemma loop_None:
  "irq_poll_loop r d ss None = None \<longleftrightarrow> filter (deliverable r d) ss = []"
  "irq_poll_loop r d ss None = Some s \<Longrightarrow> first_best irq_priority (filter (deliverable r d) ss) s"
proof (induction ss)
  case (Cons x ss)
  { case 1
    show ?case using Cons loop_best[of r d ss x] by (auto simp: loop_step simp del: irq_poll_loop.simps) }
  { case 2
    then show ?case using Cons loop_best[of r d ss x]
      by (auto simp: loop_step simp del: irq_poll_loop.simps split: if_splits) }
qed simp_all

text \<open>Registration keeps the bound of the table and that all its pointers can be called.\<close>

definition sources_ok :: "'d irq_source_t list \<Rightarrow> bool" where
  "sources_ok g = (length g \<le> MAX_IRQ \<and> (\<forall>s \<in> set g. irq_pending s \<noteq> None \<and> irq_ack s \<noteq> None))"

lemma sources_ok_Nil [simp]: "sources_ok []"
  by (simp add: sources_ok_def)

lemma sources_ok_register: "sources_ok g \<Longrightarrow> sources_ok (snd (irq_register s g))"
  by (auto simp: sources_ok_def irq_register_def Option.is_none_def split: option.splits)

section \<open>Granted is accepted\<close>

text \<open>What the devices of the emulator register: priorities 0 to 7, even vectors, vectors below
  01000 (0160002, the VM1's timer vector, apart).\<close>

definition source_wf :: "'d irq_source_t \<Rightarrow> bool" where
  "source_wf s = (irq_priority s \<le> 7 \<and> irq_vector s AND 1 = 0 \<and> irq_vector s < 0x200)"

definition cpu_masks :: "'m regs \<Rightarrow> u16 \<Rightarrow> bool" where
  "cpu_masks r v =
     (if model r = K1801VM1 then psw r AND 0x200 \<noteq> 0 \<or> (if v = 0xE002 then psw r AND 0x400 \<noteq> 0 else psw r AND 0x80 \<noteq> 0)
      else is_vm2 r \<and> psw r AND 0x80 \<noteq> 0)"

lemma irq_poll_cases:
  "irq_poll r g d =
     (case irq_poll_loop r d g None of None \<Rightarrow> (None, d)
      | Some s \<Rightarrow> if cpu_masks r (irq_vector s) then (None, d) else (Some (encode_vec r (irq_vector s) (irq_priority s)), call_ack s d))"
  by (auto simp: irq_poll_def cpu_masks_def Let_def is_vm2_def split: option.splits)

text \<open>Interrupt arbitration: irq_poll grants the first registered source of the highest priority among those pending and not masked by the priority of a DCJ11, unless the processor masks its vector; when it grants none, nothing is acknowledged.\<close>
theorem irq_poll_arbitrates:
  "case irq_poll r g d of
     (Some v, d') \<Rightarrow> (\<exists>s. first_best irq_priority (filter (deliverable r d) g) s \<and> \<not> cpu_masks r (irq_vector s) \<and>
        v = encode_vec r (irq_vector s) (irq_priority s) \<and> d' = call_ack s d)
   | (None, d') \<Rightarrow> d' = d \<and> (filter (deliverable r d) g = [] \<or>
        (\<exists>s. first_best irq_priority (filter (deliverable r d) g) s \<and> cpu_masks r (irq_vector s)))"
  using loop_None[of r d g] by (auto simp: irq_poll_cases split: option.split)

lemma encode_parts:
  fixes v :: u16 and p :: u8
  assumes "v < 0x200" "v AND 1 = 0" "p \<le> 7"
  shows "(v OR push_bit 9 (ucast (p AND 7))) AND 0x1FF = v" "v AND 0x1FFE = v" "v AND 0xFFFE = v"
    "unat (drop_bit 9 (v OR push_bit 9 (ucast (p AND 7))) AND 7) = unat p"
proof -
  have "drop_bit 9 v = 0" using assms(1) by (simp add: unat_eq_zero[symmetric] unat_drop_bit_eq drop_bit_eq_div[where 'a = nat] word_less_nat_alt)
  then have v: "\<not> bit v n" if "9 \<le> n" for n
    using that by (auto simp: bit_drop_bit_eq le_iff_add dest: arg_cong[where f = "\<lambda>x. bit x (n - 9)"])
  have "drop_bit 3 p = 0" using assms(3) by (simp add: unat_eq_zero[symmetric] unat_drop_bit_eq drop_bit_eq_div[where 'a = nat] word_le_nat_alt)
  then have p: "\<not> bit p n" if "3 \<le> n" for n
    using that by (auto simp: bit_drop_bit_eq le_iff_add dest: arg_cong[where f = "\<lambda>x. bit x (n - 3)"])
  have v0: "\<not> bit v 0" using assms(2) by (simp add: u16_eq_bits bit_simps)
  show "(v OR push_bit 9 (ucast (p AND 7))) AND 0x1FF = v" "v AND 0x1FFE = v" "v AND 0xFFFE = v"
    using v[of 9] v[of 10] v[of 11] v[of 12] v[of 13] v[of 14] v[of 15] v0
    by (simp only: u16_eq_bits; simp add: bit_simps)+
  have "drop_bit 9 (v OR push_bit 9 (ucast (p AND 7))) AND 7 = ucast p"
    using v[of 9] v[of 10] v[of 11] v[of 12] v[of 13] v[of 14] v[of 15] p[of 3] p[of 4] p[of 5] p[of 6] p[of 7]
    by (simp only: u16_eq_bits; simp add: bit_simps p)
  then show "unat (drop_bit 9 (v OR push_bit 9 (ucast (p AND 7))) AND 7) = unat p"
    using unsigned_less[of p, where 'a = nat] by (simp add: unsigned_ucast_eq take_bit_eq_mod)
qed

lemma granted_accepted:
  assumes "irq_poll r g d = (Some v, d')" "\<forall>s \<in> set g. source_wf s"
  shows "\<exists>s \<in> set g. call_pending s d \<and> d' = call_ack s d \<and> irq_accept r v = Some (irq_vector s)"
proof -
  obtain s where s: "irq_poll_loop r d g None = Some s" "\<not> cpu_masks r (irq_vector s)"
      "v = encode_vec r (irq_vector s) (irq_priority s)" "d' = call_ack s d"
    using assms(1) by (auto simp: irq_poll_cases split: option.splits if_splits)
  have d: "s \<in> set g" "deliverable r d s" using first_best_mem[OF loop_None(2)[OF s(1)]] by auto
  have wf: "irq_vector s < 0x200" "irq_vector s AND 1 = 0" "irq_priority s \<le> 7" using assms(2) d(1) by (auto simp: source_wf_def)
  have "irq_accept r v = Some (irq_vector s)"
    using s(2) d(2) encode_parts[OF wf] wf
    by (cases "model r") (auto simp: s(3) irq_accept_def cpu_masks_def encode_vec_def is_vm2_def Let_def flag_is_set_def deliverable_def irq_masked_def
        unat_eq_zero)
  then show ?thesis using d s(4) by (auto simp: deliverable_def)
qed

theorem granted_is_accepted:
  assumes "irq_poll r g d = (Some v, d')" "\<forall>s \<in> set g. source_wf s"
  shows "\<exists>s \<in> set g. call_pending s d \<and> d' = call_ack s d \<and> irq_accept r v = Some (irq_vector s)"
  by (rule granted_accepted[OF assms])

text \<open>Two sources that are pending at once, the input of the witnesses.\<close>

definition two_sources :: "bool irq_source_t list" where
  "two_sources = [\<lparr>irq_vector = 0x30, irq_priority = 4, irq_pending = Some id, irq_ack = Some Not\<rparr>,
     \<lparr>irq_vector = 0x40, irq_priority = 6, irq_pending = Some id, irq_ack = Some Not\<rparr>]"

theorem granted_is_accepted_witness:
  "\<exists>v. irq_poll (zero_regs DCJ11 ()) two_sources True = (Some v, False) \<and> irq_accept (zero_regs DCJ11 ()) v = Some 0x40"
proof -
  have p: "irq_poll (zero_regs DCJ11 ()) two_sources True = (Some 0xC40, False)"
    by (simp add: irq_poll_def two_sources_def call_pending_def call_ack_def irq_masked_def zero_regs_def encode_vec_def is_vm2_def)
  have wf: "\<forall>s \<in> set two_sources. source_wf s" by (simp add: two_sources_def source_wf_def)
  have a: "irq_accept (zero_regs DCJ11 ()) 0xC40 = Some 0x40"
    by (simp add: irq_accept_def zero_regs_def is_vm2_def)
  show ?thesis using granted_is_accepted[OF p wf] p a by auto
qed

end
