(* ===== verification/LsiDevices.thy ===== *)
theory LsiDevices
  imports IrqPoll
begin

text \<open>
  The character devices and registers of the LSI-11 emulator: the console DL11
  (lsi11/dev\_dl11.c), the printer LP11 (dev\_lp11.c), the switch register (dev\_sr.c) and the
  two register pairs of a VM1 (dev\_vm1sel.c, dev\_vm1sav.c). The host terminal of util\_term.c
  is the record \<open>term\<close>: what the user has typed and not yet been read, and what was written.
\<close>

section \<open>The host terminal\<close>

record "term" =
  t_in :: "u8 list"
  t_out :: "u8 list"

definition util_term_getc_nonblock :: "term \<Rightarrow> int \<times> term" where
  "util_term_getc_nonblock tm = (case t_in tm of [] \<Rightarrow> (-1, tm) | c # cs \<Rightarrow> (uint c, tm\<lparr>t_in := cs\<rparr>))"

definition util_term_putc :: "u8 \<Rightarrow> term \<Rightarrow> term" where
  "util_term_putc c tm = tm\<lparr>t_out := t_out tm @ [c]\<rparr>"

section \<open>DL11, the console\<close>

record dl11 =
  rx_l :: irq_latch_t
  tx_l :: irq_latch_t
  rx_buf :: u8
  tx_ready_ns :: "64 word"
  tx_busy :: bool
  dl11_alias_enabled :: bool
  dl11_8bit_mode :: bool
  dl11_nl_to_cr :: bool
  tcsr_misc :: u8

abbreviation CSR_DONE :: u8 where "CSR_DONE \<equiv> 0x80"
abbreviation CSR_IE :: u8 where "CSR_IE \<equiv> 0x40"
abbreviation CSR_MISC :: u8 where "CSR_MISC \<equiv> 0x05"

definition dl11_norm :: "u16 \<Rightarrow> u16" where
  "dl11_norm a = (if a AND 0xFFF8 = 0xFD40 then 0xFF70 OR (a AND 7) else a)"

definition dl11_mask_char :: "dl11 \<Rightarrow> u8 \<Rightarrow> u8" where
  "dl11_mask_char d v = (if dl11_8bit_mode d then v else v AND 0x7F)"

definition latch_csr :: "irq_latch_t \<Rightarrow> u8" where
  "latch_csr l = (if l_done l then CSR_DONE else 0) OR (if l_ie l then CSR_IE else 0)"

definition dl11_read8 :: "u16 \<Rightarrow> dl11 \<Rightarrow> u8 \<times> dl11" where
  "dl11_read8 a d =
     (let a = dl11_norm a
      in if a = 0xFF70 then (latch_csr (rx_l d), d)
         else if a = 0xFF72 then (rx_buf d, d\<lparr>rx_l := irq_latch_sw_clear_done (rx_l d)\<rparr>)
         else if a = 0xFF74 then (latch_csr (tx_l d) OR (tcsr_misc d AND CSR_MISC), d)
         else (0, d))"

text \<open>A rising IE with DONE up requests at once (the two CSR cases share this).\<close>

definition csr_write_ie :: "u8 \<Rightarrow> irq_latch_t \<Rightarrow> irq_latch_t" where
  "csr_write_ie v l =
     (if v AND CSR_IE \<noteq> 0
      then (if \<not> l_ie l \<and> l_done l then l\<lparr>irq_req := True\<rparr> else l)\<lparr>l_ie := True\<rparr>
      else l\<lparr>l_ie := False\<rparr>)"

definition dl11_write8 :: "u16 \<Rightarrow> u8 \<Rightarrow> dl11 \<Rightarrow> term \<Rightarrow> dl11 \<times> term" where
  "dl11_write8 a v d tm =
     (let a = dl11_norm a
      in if a = 0xFF70 then
           (let l = csr_write_ie v (rx_l d)
            in (d\<lparr>rx_l := if v AND 1 \<noteq> 0 then irq_latch_sw_clear_done l else l\<rparr>, tm))
         else if a = 0xFF72 then (d\<lparr>rx_l := irq_latch_sw_clear_done (rx_l d)\<rparr>, tm)
         else if a = 0xFF74 then
           (d\<lparr>tcsr_misc := v AND CSR_MISC, tx_l := csr_write_ie v (tx_l d)\<rparr>, tm)
         else if a = 0xFF76 then
           (let d = d\<lparr>tx_l := irq_latch_sw_clear_done (tx_l d)\<rparr>;
                tm = util_term_putc (dl11_mask_char d v) tm
            in (d\<lparr>tx_l := irq_latch_event_set_done (tx_l d), tx_busy := False, tx_ready_ns := 0\<rparr>, tm))
         else (d, tm))"

definition dl11_rx_irq_pending :: "dl11 \<Rightarrow> bool" where
  "dl11_rx_irq_pending d = irq_req (rx_l d)"

definition dl11_rx_irq_ack :: "dl11 \<Rightarrow> dl11" where
  "dl11_rx_irq_ack d = d\<lparr>rx_l := irq_latch_ack (rx_l d)\<rparr>"

definition dl11_tx_irq_pending :: "dl11 \<Rightarrow> bool" where
  "dl11_tx_irq_pending d = irq_req (tx_l d)"

definition dl11_tx_irq_ack :: "dl11 \<Rightarrow> dl11" where
  "dl11_tx_irq_ack d = d\<lparr>tx_l := irq_latch_ack (tx_l d)\<rparr>"

definition dl11_reset :: "dl11 \<Rightarrow> dl11" where
  "dl11_reset d =
     d\<lparr>rx_l := irq_latch_reset (rx_l d), rx_buf := 0,
       tx_l := irq_latch_event_set_done (irq_latch_reset (tx_l d)),
       tx_busy := False, tx_ready_ns := 0, tcsr_misc := 0\<rparr>"

definition dl11_set_alias :: "bool \<Rightarrow> dl11 \<Rightarrow> dl11" where
  "dl11_set_alias on d = d\<lparr>dl11_alias_enabled := on\<rparr>"

definition dl11_set_8bit :: "bool \<Rightarrow> dl11 \<Rightarrow> dl11" where
  "dl11_set_8bit on d = d\<lparr>dl11_8bit_mode := on\<rparr>"

definition dl11_set_nl_to_cr :: "bool \<Rightarrow> dl11 \<Rightarrow> dl11" where
  "dl11_set_nl_to_cr on d = d\<lparr>dl11_nl_to_cr := on\<rparr>"

text \<open>One poll at host time \<open>now\<close> (\<^verbatim>\<open>lsi11_now_ns\<close>).\<close>

definition dl11_poll :: "64 word \<Rightarrow> dl11 \<Rightarrow> term \<Rightarrow> dl11 \<times> term" where
  "dl11_poll now d tm =
     (let d = (if tx_busy d \<and> now \<ge> tx_ready_ns d
               then d\<lparr>tx_busy := False, tx_l := irq_latch_event_set_done (tx_l d)\<rparr> else d)
      in if l_done (rx_l d) then (d, tm)
         else let (c, tm) = util_term_getc_nonblock tm
              in if c \<le> 0 then (d, tm)
                 else let c = (if dl11_nl_to_cr d \<and> c = 10 then 13 else c)
                      in (d\<lparr>rx_buf := dl11_mask_char d (word_of_int c), rx_l := irq_latch_event_set_done (rx_l d)\<rparr>, tm))"

section \<open>LP11, the printer\<close>

definition lp11_read8 :: "u16 \<Rightarrow> irq_latch_t \<Rightarrow> u8 \<times> irq_latch_t" where
  "lp11_read8 a lp = (if a = 0xFF4C then (latch_csr lp, lp) else (0, lp))"

definition lp11_write8 :: "u16 \<Rightarrow> u8 \<Rightarrow> irq_latch_t \<Rightarrow> term \<Rightarrow> irq_latch_t \<times> term" where
  "lp11_write8 a v lp tm =
     (if a = 0xFF4C then
        (let old_ie = l_ie lp; new_ie = (v AND CSR_IE \<noteq> 0);
             lp = irq_latch_set_ie new_ie lp
         in (if \<not> old_ie \<and> new_ie \<and> l_done lp then lp\<lparr>irq_req := True\<rparr> else lp, tm))
      else if a = 0xFF4E then
        (irq_latch_event_set_done (irq_latch_sw_clear_done lp), util_term_putc v tm)
      else (lp, tm))"

definition lp11_irq_pending :: "irq_latch_t \<Rightarrow> bool" where
  "lp11_irq_pending lp = irq_req lp"

definition lp11_irq_ack :: "irq_latch_t \<Rightarrow> irq_latch_t" where
  "lp11_irq_ack lp = irq_latch_ack lp"

definition lp11_reset :: "irq_latch_t \<Rightarrow> irq_latch_t" where
  "lp11_reset lp = irq_latch_event_set_done ((irq_latch_reset lp)\<lparr>l_done := False, irq_armed := True\<rparr>)"

section \<open>Switch register, and the registers of a VM1\<close>

definition sr_read8 :: "u16 \<Rightarrow> u16 \<Rightarrow> u8" where
  "sr_read8 a sr_value =
     (if a = 0xFF78 then ucast (sr_value AND 0xFF)
      else if a = 0xFF79 then ucast (drop_bit 8 sr_value AND 0xFF) else 0)"

definition sr_write8 :: "u16 \<Rightarrow> u8 \<Rightarrow> u16 \<Rightarrow> u16" where
  "sr_write8 a v sr_value = sr_value"

definition sr_reset :: "u16 \<Rightarrow> u16" where "sr_reset sr_value = 0"

definition sr_set :: "u16 \<Rightarrow> u16 \<Rightarrow> u16" where "sr_set v sr_value = v"

record vm1sel =
  reg_sel1_in :: u16
  reg_sel1_out :: u16
  reg_sel2_in :: u16
  reg_sel2_out :: u16

definition vm1sel_read8 :: "u16 \<Rightarrow> vm1sel \<Rightarrow> u8" where
  "vm1sel_read8 a s =
     (if a = 0xFFCC then ucast (reg_sel2_in s AND 0xFF)
      else if a = 0xFFCD then ucast (drop_bit 8 (reg_sel2_in s))
      else if a = 0xFFCE then ucast (reg_sel1_in s AND 0xFF)
      else if a = 0xFFCF then ucast (drop_bit 8 (reg_sel1_in s)) else 0)"

definition vm1sel_write8 :: "u16 \<Rightarrow> u8 \<Rightarrow> vm1sel \<Rightarrow> vm1sel" where
  "vm1sel_write8 a v s =
     (if a = 0xFFCC then s\<lparr>reg_sel2_out := (reg_sel2_in s AND 0xFF00) OR ucast v\<rparr>
      else if a = 0xFFCD then s\<lparr>reg_sel2_out := (reg_sel2_out s AND 0xFF) OR push_bit 8 (ucast v)\<rparr>
      else if a = 0xFFCE then s\<lparr>reg_sel1_out := (reg_sel1_in s AND 0xFF00) OR ucast v\<rparr>
      else if a = 0xFFCF then s\<lparr>reg_sel1_out := (reg_sel1_out s AND 0xFF) OR push_bit 8 (ucast v)\<rparr>
      else s)"

definition vm1sel_reset :: "vm1sel \<Rightarrow> vm1sel" where
  "vm1sel_reset s = \<lparr>reg_sel1_in = 0, reg_sel1_out = 0, reg_sel2_in = 0, reg_sel2_out = 0\<rparr>"

record vm1sav =
  reg_old_pc :: u16
  reg_old_psw :: u16

definition vm1sav_read8 :: "u16 \<Rightarrow> vm1sav \<Rightarrow> u8" where
  "vm1sav_read8 a s =
     (if a = 0xFFBC then ucast (reg_old_pc s AND 0xFF)
      else if a = 0xFFBD then ucast (drop_bit 8 (reg_old_pc s))
      else if a = 0xFFBE then ucast (reg_old_psw s AND 0xFF)
      else if a = 0xFFBF then ucast (drop_bit 8 (reg_old_psw s)) else 0)"

definition vm1sav_write8 :: "u16 \<Rightarrow> u8 \<Rightarrow> vm1sav \<Rightarrow> vm1sav" where
  "vm1sav_write8 a v s =
     (if a = 0xFFBC then s\<lparr>reg_old_pc := (reg_old_pc s AND 0xFF00) OR ucast v\<rparr>
      else if a = 0xFFBD then s\<lparr>reg_old_pc := (reg_old_pc s AND 0xFF) OR push_bit 8 (ucast v)\<rparr>
      else if a = 0xFFBE then s\<lparr>reg_old_psw := (reg_old_psw s AND 0xFF00) OR ucast v\<rparr>
      else if a = 0xFFBF then s\<lparr>reg_old_psw := (reg_old_psw s AND 0xFF) OR push_bit 8 (ucast v)\<rparr>
      else s)"

definition vm1sav_reset :: "vm1sav \<Rightarrow> vm1sav" where
  "vm1sav_reset s = \<lparr>reg_old_pc = 0, reg_old_psw = 0\<rparr>"

section \<open>The console as two queues\<close>

text \<open>
  What can happen to the console: accesses of the program, polls of the emulator at some
  host time, and acknowledgements of its two interrupts. \<open>dl11_exec\<close> gives the byte a read
  of the receiver buffer delivers while DONE is up.
\<close>

datatype dl11_op = DlRead u16 | DlWrite u16 u8 | DlPoll "64 word" | DlAckRx | DlAckTx

definition dl11_exec :: "dl11_op \<Rightarrow> dl11 \<times> term \<Rightarrow> u8 list \<times> dl11 \<times> term" where
  "dl11_exec ev s = (case s of (d, tm) \<Rightarrow>
     (case ev of
        DlRead a \<Rightarrow> (let (v, d') = dl11_read8 a d
                     in (if dl11_norm a = 0xFF72 \<and> l_done (rx_l d) then [v] else [], d', tm))
      | DlWrite a v \<Rightarrow> ([], dl11_write8 a v d tm)
      | DlPoll now \<Rightarrow> ([], dl11_poll now d tm)
      | DlAckRx \<Rightarrow> ([], dl11_rx_irq_ack d, tm)
      | DlAckTx \<Rightarrow> ([], dl11_tx_irq_ack d, tm)))"

fun dl11_run :: "dl11_op list \<Rightarrow> dl11 \<times> term \<Rightarrow> u8 list \<times> dl11 \<times> term" where
  "dl11_run [] s = ([], s)"
| "dl11_run (ev # evs) s = (let (v, s) = dl11_exec ev s; (vs, s) = dl11_run evs s in (v @ vs, s))"

text \<open>Writes that drop the received character: to the buffer, and RE in the status register.\<close>

definition rx_drops :: "dl11_op \<Rightarrow> bool" where
  "rx_drops ev = (case ev of DlWrite a v \<Rightarrow> dl11_norm a = 0xFF72 \<or> (dl11_norm a = 0xFF70 \<and> v AND 1 \<noteq> 0) | _ \<Rightarrow> False)"

definition tx_bytes :: "dl11_op \<Rightarrow> u8 list" where
  "tx_bytes ev = (case ev of DlWrite a v \<Rightarrow> if dl11_norm a = 0xFF76 then [v] else [] | _ \<Rightarrow> [])"

definition rx_pending :: "dl11 \<Rightarrow> u8 list" where
  "rx_pending d = (if l_done (rx_l d) then [rx_buf d] else [])"

definition zero_dl11 :: dl11 where
  "zero_dl11 = (let l = \<lparr>l_done = False, l_ie = False, irq_req = False, irq_armed = False\<rparr>
     in \<lparr>rx_l = l, tx_l = l, rx_buf = 0, tx_ready_ns = 0, tx_busy = False, dl11_alias_enabled = True,
         dl11_8bit_mode = False, dl11_nl_to_cr = False, tcsr_misc = 0\<rparr>)"

text \<open>What the program gets for a typed character.\<close>

definition rx_char :: "dl11 \<Rightarrow> u8 \<Rightarrow> u8" where
  "rx_char d c = dl11_mask_char d (if dl11_nl_to_cr d \<and> c = 10 then 13 else c)"

definition dl11_modes :: "dl11 \<Rightarrow> bool \<times> bool" where
  "dl11_modes d = (dl11_8bit_mode d, dl11_nl_to_cr d)"

lemma modes_chars: "dl11_modes d' = dl11_modes d \<Longrightarrow> dl11_mask_char d' = dl11_mask_char d \<and> rx_char d' = rx_char d"
  by (auto simp: dl11_modes_def dl11_mask_char_def rx_char_def fun_eq_iff)

lemma latch_done [simp]:
  "l_done (irq_latch_event_set_done l)" "\<not> l_done (irq_latch_sw_clear_done l)" "l_done (csr_write_ie v l) = l_done l"
  "l_done (irq_latch_ack l) = l_done l"
  by (simp_all add: latch_defs csr_write_ie_def Let_def)

lemma dl11_poll_char:
  assumes "dl11_poll now d tm = (d', tm')"
  obtains "l_done (rx_l d)" "tm' = tm" "rx_l d' = rx_l d" "rx_buf d' = rx_buf d"
  | "\<not> l_done (rx_l d)" "t_in tm = []" "tm' = tm" "rx_l d' = rx_l d" "rx_buf d' = rx_buf d"
  | cs where "\<not> l_done (rx_l d)" "t_in tm = 0 # cs" "tm' = tm\<lparr>t_in := cs\<rparr>" "rx_l d' = rx_l d" "rx_buf d' = rx_buf d"
  | c cs where "\<not> l_done (rx_l d)" "t_in tm = c # cs" "c \<noteq> 0" "tm' = tm\<lparr>t_in := cs\<rparr>" "l_done (rx_l d')" "rx_buf d' = rx_char d c"
proof -
  define e where "e = (if tx_busy d \<and> now \<ge> tx_ready_ns d then d\<lparr>tx_busy := False, tx_l := irq_latch_event_set_done (tx_l d)\<rparr> else d)"
  have e: "rx_l e = rx_l d" "rx_buf e = rx_buf d" "dl11_nl_to_cr e = dl11_nl_to_cr d" "dl11_mask_char e = dl11_mask_char d"
    by (auto simp: e_def dl11_mask_char_def fun_eq_iff)
  have p: "(d', tm') = (if l_done (rx_l d) then (e, tm) else let (c, tm) = util_term_getc_nonblock tm
              in if c \<le> 0 then (e, tm)
                 else let c = (if dl11_nl_to_cr e \<and> c = 10 then 13 else c)
                      in (e\<lparr>rx_buf := dl11_mask_char e (word_of_int c), rx_l := irq_latch_event_set_done (rx_l e)\<rparr>, tm))"
    using assms by (simp add: dl11_poll_def e_def[symmetric] e(1))
  have ten: "(uint (c :: u8) = 10) = (c = 10)" for c by (simp add: word_uint_eq_iff)
  show thesis
  proof (cases "l_done (rx_l d)")
    case True then show ?thesis using p e that(1) by simp
  next
    case False
    show ?thesis
    proof (cases "t_in tm")
      case Nil then show ?thesis using False p e that(2) by (simp add: util_term_getc_nonblock_def)
    next
      case (Cons c cs)
      show ?thesis
      proof (cases "c = 0")
        case True then show ?thesis using False Cons p e that(3) by (simp add: util_term_getc_nonblock_def)
      next
        case 0: False
        then have "0 < uint c" using unsigned_greater_eq[of c] by (simp add: word_uint_eq_iff less_le)
        then show ?thesis using False 0 Cons p e by (intro that(4)) (auto simp: util_term_getc_nonblock_def Let_def rx_char_def ten)
      qed
    qed
  qed
qed

lemma dl11_read_rx:
  "dl11_read8 a d = (v, d') \<Longrightarrow> rx_pending d = (if dl11_norm a = 0xFF72 \<and> l_done (rx_l d) then [v] else []) @ rx_pending d' \<and>
     dl11_modes d' = dl11_modes d \<and> tx_l d' = tx_l d"
  by (auto simp: dl11_read8_def Let_def rx_pending_def dl11_modes_def split: if_splits)

lemma dl11_write_rx:
  "dl11_write8 a v d tm = (d', tm') \<Longrightarrow> \<not> rx_drops (DlWrite a v) \<Longrightarrow> rx_pending d' = rx_pending d \<and> t_in tm' = t_in tm"
  by (auto simp: dl11_write8_def Let_def rx_pending_def rx_drops_def util_term_putc_def split: if_splits)

lemma dl11_write_tx:
  "dl11_write8 a v d tm = (d', tm') \<Longrightarrow> dl11_modes d' = dl11_modes d \<and>
     t_out tm' = t_out tm @ map (dl11_mask_char d) (tx_bytes (DlWrite a v)) \<and> (l_done (tx_l d) \<longrightarrow> l_done (tx_l d'))"
  by (auto simp: dl11_write8_def Let_def dl11_modes_def tx_bytes_def util_term_putc_def dl11_mask_char_def split: if_splits)

lemma dl11_poll_modes: "dl11_poll now d tm = (d', tm') \<Longrightarrow> dl11_modes d' = dl11_modes d \<and> t_out tm' = t_out tm \<and> (l_done (tx_l d) \<longrightarrow> l_done (tx_l d'))"
  by (auto simp: dl11_poll_def Let_def dl11_modes_def util_term_getc_nonblock_def split: if_splits list.splits)

lemma ack_modes [simp]:
  "dl11_modes (dl11_rx_irq_ack d) = dl11_modes d" "dl11_modes (dl11_tx_irq_ack d) = dl11_modes d"
  "l_done (tx_l (dl11_rx_irq_ack d)) = l_done (tx_l d)" "l_done (tx_l (dl11_tx_irq_ack d)) = l_done (tx_l d)"
  by (simp_all add: dl11_modes_def dl11_rx_irq_ack_def dl11_tx_irq_ack_def)

lemma dl11_exec_step:
  assumes "dl11_exec ev (d, tm) = (vs, d', tm')"
  shows "dl11_modes d' = dl11_modes d" "t_out tm' = t_out tm @ map (dl11_mask_char d) (tx_bytes ev)"
    "l_done (tx_l d) \<Longrightarrow> l_done (tx_l d')"
    "\<not> rx_drops ev \<Longrightarrow> \<exists>used. t_in tm = used @ t_in tm' \<and>
       rx_pending d @ map (rx_char d) (filter (\<lambda>c. c \<noteq> 0) used) = vs @ rx_pending d'"
proof -
  show "dl11_modes d' = dl11_modes d" "t_out tm' = t_out tm @ map (dl11_mask_char d) (tx_bytes ev)"
    "l_done (tx_l d) \<Longrightarrow> l_done (tx_l d')"
    using assms by (auto simp: dl11_exec_def tx_bytes_def ack_modes split: dl11_op.splits prod.splits
        dest: dl11_read_rx dl11_write_tx dl11_poll_modes)
  assume nd: "\<not> rx_drops ev"
  show "\<exists>used. t_in tm = used @ t_in tm' \<and> rx_pending d @ map (rx_char d) (filter (\<lambda>c. c \<noteq> 0) used) = vs @ rx_pending d'"
  proof (cases ev)
    case (DlRead a)
    then show ?thesis using assms dl11_read_rx by (intro exI[of _ "[]"]) (auto simp: dl11_exec_def split: prod.splits)
  next
    case (DlWrite a v)
    then show ?thesis using assms dl11_write_rx[of a v d tm] nd by (intro exI[of _ "[]"]) (auto simp: dl11_exec_def)
  next
    case (DlPoll now)
    then have p: "dl11_poll now d tm = (d', tm')" and vs: "vs = []" using assms by (auto simp: dl11_exec_def)
    show ?thesis
    proof (cases rule: dl11_poll_char[OF p])
      case (3 cs) then show ?thesis by (intro exI[of _ "[0]"]) (simp add: vs rx_pending_def)
    next
      case (4 c cs) then show ?thesis by (intro exI[of _ "[c]"]) (simp add: vs rx_pending_def)
    qed (simp_all add: vs rx_pending_def)
  qed (use assms in \<open>auto simp: dl11_exec_def rx_pending_def dl11_rx_irq_ack_def dl11_tx_irq_ack_def intro!: exI[of _ "[]"]\<close>)
qed

text \<open>C17: The DL11 console implements two queues of characters: over any sequence of register accesses, polls and acknowledges in which the program neither writes RBUF nor writes RCSR with bit 0 (RE) set (both discard the character waiting), the terminal gets exactly the bytes written to TBUF, in order and cut to 7 bits unless the console is in 8-bit mode; and the values read from RBUF while a character is ready, with the one still waiting, are exactly the characters taken from the terminal, in order, none lost and none twice, except that NULs are dropped, each again cut to 7 bits unless in 8-bit mode and a newline turned into a carriage return where that option is set.\<close>
theorem console_queues:
  assumes "dl11_run evs (d, tm) = (vs, d', tm')" "\<not> (\<exists>ev \<in> set evs. rx_drops ev)"
  shows "t_out tm' = t_out tm @ map (dl11_mask_char d) (concat (map tx_bytes evs)) \<and>
    (\<exists>used. t_in tm = used @ t_in tm' \<and> rx_pending d @ map (rx_char d) (filter (\<lambda>c. c \<noteq> 0) used) = vs @ rx_pending d')"
  using assms
proof (induction evs arbitrary: d tm vs)
  case (Cons ev evs)
  obtain v d1 tm1 vs1 where e: "dl11_exec ev (d, tm) = (v, d1, tm1)" "dl11_run evs (d1, tm1) = (vs1, d', tm')" "vs = v @ vs1"
    using Cons.prems(1) by (auto simp: Let_def split: prod.splits)
  note s = dl11_exec_step[OF e(1)] modes_chars[OF dl11_exec_step(1)[OF e(1)]]
  obtain u where u: "t_in tm = u @ t_in tm1" "rx_pending d @ map (rx_char d) (filter (\<lambda>c. c \<noteq> 0) u) = v @ rx_pending d1"
    using s(4) Cons.prems(2) by auto
  obtain u1 where u1: "t_in tm1 = u1 @ t_in tm'" "rx_pending d1 @ map (rx_char d) (filter (\<lambda>c. c \<noteq> 0) u1) = vs1 @ rx_pending d'"
    and t1: "t_out tm' = t_out tm1 @ map (dl11_mask_char d) (concat (map tx_bytes evs))"
    using Cons.IH[OF e(2)] Cons.prems(2) s(5) by auto
  have "rx_pending d @ map (rx_char d) (filter (\<lambda>c. c \<noteq> 0) (u @ u1)) = vs @ rx_pending d'"
    using u(2) u1(2) e(3) by (metis append.assoc filter_append map_append)
  then show ?case using u(1) u1(1) s(2) t1 by (intro conjI exI[of _ "u @ u1"]) simp_all
qed auto

theorem console_queues_witness:
  "\<exists>d' tm'. dl11_run [DlPoll 0, DlRead 0xFF72, DlWrite 0xFF76 0xC1, DlPoll 0]
       (dl11_reset zero_dl11, \<lparr>t_in = [0x41, 0x42], t_out = []\<rparr>) = ([0x41], d', tm') \<and>
     t_out tm' = [0x41] \<and> rx_pending d' = [0x42]"
proof -
  let ?evs = "[DlPoll 0, DlRead 0xFF72, DlWrite 0xFF76 0xC1, DlPoll 0]"
  obtain d' tm' where r: "dl11_run ?evs (dl11_reset zero_dl11, \<lparr>t_in = [0x41, 0x42], t_out = []\<rparr>) = ([0x41], d', tm')"
    and e: "t_in tm' = []"
    by (simp add: dl11_exec_def dl11_poll_def dl11_reset_def zero_dl11_def latch_defs util_term_getc_nonblock_def
        dl11_read8_def dl11_write8_def dl11_norm_def util_term_putc_def dl11_mask_char_def Let_def)
  have "\<not> (\<exists>ev \<in> set ?evs. rx_drops ev)" by (simp add: rx_drops_def dl11_norm_def)
  from console_queues[OF r this] show ?thesis using r e
    by (auto simp: tx_bytes_def dl11_norm_def dl11_mask_char_def dl11_reset_def zero_dl11_def Let_def rx_pending_def rx_char_def latch_defs)
qed

section \<open>The request latches of the console\<close>

lemma latch_ok_csr [simp]: "latch_ok l \<Longrightarrow> latch_ok (csr_write_ie v l)"
  by (auto simp: csr_write_ie_def latch_ok_def)

definition dl11_ok :: "dl11 \<Rightarrow> bool" where
  "dl11_ok d = (latch_ok (rx_l d) \<and> latch_ok (tx_l d) \<and> l_done (tx_l d))"

lemma dl11_ok_reset: "dl11_ok (dl11_reset d)"
  by (simp add: dl11_ok_def dl11_reset_def)

lemma dl11_ok_exec: "dl11_exec ev (d, tm) = (vs, d', tm') \<Longrightarrow> dl11_ok d \<Longrightarrow> dl11_ok d'"
  by (auto simp: dl11_exec_def dl11_ok_def dl11_read8_def dl11_write8_def dl11_poll_def dl11_rx_irq_ack_def dl11_tx_irq_ack_def Let_def
      split: dl11_op.splits prod.splits if_splits)

text \<open>C18: From reset on, whatever the program and the terminal do, the interrupt latches of the console are consistent: a requested interrupt always stands for a ready device.\<close>
theorem console_latches:
  assumes "dl11_run evs (dl11_reset d, tm) = (vs, d', tm')"
  shows "dl11_ok d'"
proof -
  have "dl11_run evs (e, tm) = (vs, d', tm') \<Longrightarrow> dl11_ok e \<Longrightarrow> dl11_ok d'" for e
  proof (induction evs arbitrary: e tm vs)
    case (Cons ev evs)
    then show ?case using dl11_ok_exec by (auto simp: Let_def split: prod.splits)
  qed simp
  then show ?thesis using assms dl11_ok_reset by blast
qed

theorem console_latches_witness:
  "dl11_ok (fst (snd (dl11_run [DlWrite 0xFF70 0x40, DlPoll 0] (dl11_reset zero_dl11, \<lparr>t_in = [0x41], t_out = []\<rparr>))))"
proof (cases "dl11_run [DlWrite 0xFF70 0x40, DlPoll 0] (dl11_reset zero_dl11, \<lparr>t_in = [0x41], t_out = []\<rparr>)")
  case (fields vs d' tm')
  show ?thesis using console_latches[OF fields] fields by simp
qed

text \<open>With the receiver interrupt enabled a typed character is offered: NULs are skipped, one a
  poll, and the poll that finds the character raises the request.\<close>

text \<open>C19: A character typed at the terminal arrives: with an empty receiver and interrupts enabled, polling takes any NUL characters away, then raises the receive interrupt with the character in RBUF.\<close>
theorem console_receives:
  assumes "t_in tm = replicate k 0 @ c # cs" "c \<noteq> 0" "\<not> l_done (rx_l d)" "l_ie (rx_l d)" "latch_ok (rx_l d)"
  shows "\<exists>d' tm'. dl11_run (replicate (k + 1) (DlPoll now)) (d, tm) = ([], d', tm') \<and>
    dl11_rx_irq_pending d' \<and> fst (dl11_read8 0xFF72 d') = rx_char d c \<and> t_in tm' = cs"
  using assms
proof (induction k arbitrary: d tm)
  case 0
  obtain d' tm' where p: "dl11_poll now d tm = (d', tm')" by fastforce
  have "dl11_rx_irq_pending d'"
    using p 0 by (auto simp: dl11_poll_def util_term_getc_nonblock_def dl11_rx_irq_pending_def latch_defs latch_ok_def Let_def
        word_uint_eq_iff split: if_splits)
  then show ?case using p 0 by (cases rule: dl11_poll_char[OF p]) (auto simp: dl11_exec_def dl11_read8_def dl11_norm_def)
next
  case (Suc k)
  obtain d' tm' where p: "dl11_poll now d tm = (d', tm')" by fastforce
  have s: "rx_l d' = rx_l d" "t_in tm' = replicate k 0 @ c # cs" "dl11_modes d' = dl11_modes d"
    using Suc.prems dl11_poll_modes[OF p] by (cases rule: dl11_poll_char[OF p]; auto)+
  obtain e tm2 where ih: "dl11_run (replicate (k + 1) (DlPoll now)) (d', tm') = ([], e, tm2)" "dl11_rx_irq_pending e"
      "fst (dl11_read8 0xFF72 e) = rx_char d' c" "t_in tm2 = cs"
    using Suc.IH[OF s(2)] Suc.prems s(1) by metis
  have "dl11_run (replicate (Suc k + 1) (DlPoll now)) (d, tm) = ([], e, tm2)"
  proof -
    have "replicate (Suc k + 1) (DlPoll now) = DlPoll now # replicate (k + 1) (DlPoll now)" by simp
    then show ?thesis by (simp only: dl11_run.simps ih(1) dl11_exec_def p prod.case Let_def dl11_op.case append.simps)
  qed
  then show ?case using ih modes_chars[OF s(3)] by simp
qed

theorem console_receives_witness:
  "\<exists>d' tm'. dl11_run (replicate (1 + 1) (DlPoll 0)) (zero_dl11\<lparr>rx_l := \<lparr>l_done = False, l_ie = True, irq_req = False, irq_armed = True\<rparr>\<rparr>,
        \<lparr>t_in = [0, 0x41], t_out = []\<rparr>) = ([], d', tm') \<and>
     dl11_rx_irq_pending d' \<and> fst (dl11_read8 0xFF72 d') = 0x41 \<and> t_in tm' = []"
  using console_receives[of "\<lparr>t_in = [0, 0x41], t_out = []\<rparr>" 1 "0x41" "[]"
      "zero_dl11\<lparr>rx_l := \<lparr>l_done = False, l_ie = True, irq_req = False, irq_armed = True\<rparr>\<rparr>" 0]
  by (simp add: latch_ok_def zero_dl11_def rx_char_def dl11_mask_char_def Let_def)

section \<open>The registers of a VM1\<close>

theorem vm1sav_words:
  assumes "a = 0xFFBC \<or> a = 0xFFBE"
  shows "vm1sav_read8 a (vm1sav_write8 (a + 1) h (vm1sav_write8 a l s)) = l \<and>
    vm1sav_read8 (a + 1) (vm1sav_write8 (a + 1) h (vm1sav_write8 a l s)) = h \<and>
    vm1sav_write8 a l (vm1sav_write8 (a + 1) h s) = vm1sav_write8 (a + 1) h (vm1sav_write8 a l s)"
proof -
  have m: "(0xFF00 :: u16) = NOT (mask 8)" "(0xFF :: u16) = mask 8" by (simp_all add: mask_eq_exp_minus_1)
  have [simp]: "(ucast (((w AND 0xFF00) OR ucast l) AND 0xFF) :: u8) = l"
    "(ucast (drop_bit 8 ((w AND 0xFF) OR push_bit 8 (ucast h))) :: u8) = h"
    "(ucast (((w AND 0xFF) OR push_bit 8 (ucast h)) AND 0xFF) :: u8) = ucast (w AND 0xFF)"
    "(ucast (drop_bit 8 (push_bit 8 (ucast h :: u16))) :: u8) = h"
    "(w AND 0xFF00) AND 0xFF = 0" "(((w AND 0xFF) OR push_bit 8 (ucast h)) AND 0xFF00) OR ucast l = (((w AND 0xFF00) OR ucast l) AND 0xFF) OR push_bit 8 (ucast h)"
    for w :: u16
    unfolding m by (auto simp: bit_eq_iff bit_simps dest: bit_imp_le_length)
  show ?thesis using assms by (auto simp: vm1sav_read8_def vm1sav_write8_def)
qed

theorem vm1sav_words_witness:
  "vm1sav_read8 0xFFBC (vm1sav_write8 (0xFFBC + 1) 0x12 (vm1sav_write8 0xFFBC 0x34 (vm1sav_reset undefined))) = 0x34"
  using vm1sav_words[of "0xFFBC"] by blast

text \<open>The output registers at 0177714 and 0177716 take the other byte of a low-byte write
  from the input register: the high byte written before is lost.\<close>

theorem vm1sel_low_byte_write:
  "reg_sel1_out (vm1sel_write8 0xFFCE l (vm1sel_write8 0xFFCF h (vm1sel_reset s))) = ucast l \<and>
   reg_sel2_out (vm1sel_write8 0xFFCC l (vm1sel_write8 0xFFCD h (vm1sel_reset s))) = ucast l"
  by (simp add: vm1sel_write8_def vm1sel_reset_def)

end
