(* ===== verification/Kw11.thy ===== *)
theory Kw11
  imports IrqPoll
begin

text \<open>
  The clocks of the LSI-11 emulator (lsi11/dev\_kw11.c): the line clock KW11-L and the
  programmable clock KW11-P, driven by the host time or by the number of executed
  instructions. The two traces are not modelled; the host time is an argument.
\<close>

section \<open>State\<close>

record kw11 =
  kwl_done :: bool
  kwl_ie :: bool
  kwl_irq_req :: bool
  kwl_last_tick_ns :: "64 word"
  kwl_clock_init :: bool
  kwp_csr :: u16
  kwp_csb :: u16
  kwp_ctr :: u16
  kwp_irq_req :: bool
  kwp_irq_armed :: bool
  kwp_last_tick_ns :: "64 word"
  kwp_clock_init :: bool
  kw11_l_visible :: int
  kw11_p_visible :: int
  kw11_step_clock :: bool
  kw11_steps_per_tick :: u32
  kwl_steps_accum :: "64 word"

abbreviation KW11P_RUN :: u16 where "KW11P_RUN \<equiv> 0x01"
abbreviation KW11P_RATE_MASK :: u16 where "KW11P_RATE_MASK \<equiv> 0x06"
abbreviation KW11P_REPEAT :: u16 where "KW11P_REPEAT \<equiv> 0x08"
abbreviation KW11P_UP :: u16 where "KW11P_UP \<equiv> 0x10"
abbreviation KW11P_FIX :: u16 where "KW11P_FIX \<equiv> 0x20"
abbreviation KW11P_IE :: u16 where "KW11P_IE \<equiv> 0x40"
abbreviation KW11P_DONE :: u16 where "KW11P_DONE \<equiv> 0x80"
abbreviation KW11P_ERR :: u16 where "KW11P_ERR \<equiv> 0x100"

definition kw11_l_visible_effective :: "kw11 \<Rightarrow> int" where
  "kw11_l_visible_effective k = (if kw11_l_visible k \<ge> 0 then kw11_l_visible k else 1)"

definition kw11_p_visible_effective :: "kw11 \<Rightarrow> int" where
  "kw11_p_visible_effective k = (if kw11_p_visible k \<ge> 0 then kw11_p_visible k else 0)"

definition kw11_set_visibility :: "bool \<Rightarrow> bool \<Rightarrow> kw11 \<Rightarrow> kw11" where
  "kw11_set_visibility enable_l enable_p k =
     k\<lparr>kw11_l_visible := (if enable_l then 1 else 0), kw11_p_visible := (if enable_p then 1 else 0)\<rparr>"

definition kw11_set_step_clock :: "bool \<Rightarrow> kw11 \<Rightarrow> kw11" where
  "kw11_set_step_clock on k = k\<lparr>kw11_step_clock := on\<rparr>"

section \<open>The programmable clock\<close>

definition kwp_sw_clear_done :: "kw11 \<Rightarrow> kw11" where
  "kwp_sw_clear_done k = k\<lparr>kwp_csr := kwp_csr k AND NOT KW11P_DONE, kwp_irq_req := False, kwp_irq_armed := True\<rparr>"

definition kwp_sw_clear_err :: "kw11 \<Rightarrow> kw11" where
  "kwp_sw_clear_err k = k\<lparr>kwp_csr := kwp_csr k AND NOT KW11P_ERR\<rparr>"

definition kwp_terminal_event :: "kw11 \<Rightarrow> kw11" where
  "kwp_terminal_event k =
     (let k = (if kwp_csr k AND KW11P_DONE \<noteq> 0 then k\<lparr>kwp_csr := kwp_csr k OR KW11P_ERR\<rparr>
               else let k = k\<lparr>kwp_csr := kwp_csr k OR KW11P_DONE\<rparr>
                    in if kwp_csr k AND KW11P_IE \<noteq> 0 \<and> kwp_irq_armed k
                       then k\<lparr>kwp_irq_req := True, kwp_irq_armed := False\<rparr> else k)
      in if kwp_csr k AND KW11P_REPEAT \<noteq> 0 then k\<lparr>kwp_ctr := kwp_csb k\<rparr>
         else k\<lparr>kwp_csr := kwp_csr k AND NOT KW11P_RUN, kwp_ctr := 0\<rparr>)"

definition kwp_step_one :: "kw11 \<Rightarrow> kw11" where
  "kwp_step_one k =
     (let prev = kwp_ctr k
      in if kwp_csr k AND KW11P_UP \<noteq> 0 then
           (let k = k\<lparr>kwp_ctr := kwp_ctr k + 1\<rparr> in if kwp_ctr k = 0 then kwp_terminal_event k else k)
         else
           (let k = k\<lparr>kwp_ctr := kwp_ctr k - 1\<rparr> in if prev = 0 then kwp_terminal_event k else k))"

fun kwp_advance_pulses :: "nat \<Rightarrow> kw11 \<Rightarrow> kw11" where
  "kwp_advance_pulses 0 k = k"
| "kwp_advance_pulses (Suc pulses) k =
     (if kwp_csr k AND KW11P_RUN \<noteq> 0 then kwp_advance_pulses pulses (kwp_step_one k) else k)"

definition kwp_period_ns :: "kw11 \<Rightarrow> 64 word" where
  "kwp_period_ns k =
     (let rate = kwp_csr k AND KW11P_RATE_MASK
      in if rate = 0 then 10000 else if rate = 2 then 100000 else if rate = 4 then 16666667 else 0)"

definition kwp_write_csr_low :: "u8 \<Rightarrow> kw11 \<Rightarrow> kw11" where
  "kwp_write_csr_low v k =
     (let old = kwp_csr k;
          control_mask = KW11P_RUN OR KW11P_RATE_MASK OR KW11P_REPEAT OR KW11P_UP OR KW11P_FIX OR KW11P_IE;
          k = k\<lparr>kwp_csr := (kwp_csr k AND NOT control_mask) OR (ucast v AND control_mask)\<rparr>;
          k = (if ucast v AND KW11P_DONE = 0 then kwp_sw_clear_done k else k);
          k = (if kwp_csr k AND KW11P_IE = 0 then k\<lparr>kwp_irq_req := False\<rparr> else k);
          k = (if old AND KW11P_RUN = 0 \<and> kwp_csr k AND KW11P_RUN \<noteq> 0
               then k\<lparr>kwp_ctr := kwp_csb k, kwp_clock_init := False, kwp_last_tick_ns := 0\<rparr> else k)
      in if kwp_csr k AND KW11P_FIX \<noteq> 0
         then (let k = kwp_step_one k in k\<lparr>kwp_csr := kwp_csr k AND NOT KW11P_FIX\<rparr>) else k)"

definition kwp_write_csr_high :: "u8 \<Rightarrow> kw11 \<Rightarrow> kw11" where
  "kwp_write_csr_high v k = (if v AND 1 = 0 then kwp_sw_clear_err k else k)"

section \<open>Accesses and interrupts\<close>

definition kw11_read8 :: "u16 \<Rightarrow> kw11 \<Rightarrow> u8 \<times> kw11" where
  "kw11_read8 a k =
     (if a = 0xFF66 then
        ((if kwl_done k then 0x80 else 0) OR (if kwl_ie k then 0x40 else 0), k\<lparr>kwl_done := False, kwl_irq_req := False\<rparr>)
      else if a = 0xFF67 then (0, k)
      else if a = 0xF560 then (ucast (kwp_csr k AND 0xFF), k)
      else if a = 0xF561 then (ucast (drop_bit 8 (kwp_csr k) AND 1), k)
      else if a = 0xF562 then (ucast (kwp_csb k AND 0xFF), k)
      else if a = 0xF563 then (ucast (drop_bit 8 (kwp_csb k) AND 0xFF), k)
      else if a = 0xF564 then (ucast (kwp_ctr k AND 0xFF), k)
      else if a = 0xF565 then (ucast (drop_bit 8 (kwp_ctr k) AND 0xFF), k)
      else (0, k))"

definition kw11_write8 :: "u16 \<Rightarrow> u8 \<Rightarrow> kw11 \<Rightarrow> kw11" where
  "kw11_write8 a v k =
     (if a = 0xFF66 then
        (let k = k\<lparr>kwl_ie := v AND 0x40 \<noteq> 0\<rparr>;
             k = (if v AND 0x80 = 0 then k\<lparr>kwl_done := False, kwl_irq_req := False\<rparr> else k)
         in if kwl_ie k \<and> kwl_done k then k\<lparr>kwl_irq_req := True\<rparr> else k)
      else if a = 0xFF67 then k
      else if a = 0xF560 then kwp_write_csr_low v k
      else if a = 0xF561 then kwp_write_csr_high v k
      else if a = 0xF562 then k\<lparr>kwp_csb := (kwp_csb k AND 0xFF00) OR ucast v\<rparr>
      else if a = 0xF563 then k\<lparr>kwp_csb := (kwp_csb k AND 0xFF) OR push_bit 8 (ucast v)\<rparr>
      else if a = 0xF564 then k\<lparr>kwp_ctr := (kwp_ctr k AND 0xFF00) OR ucast v\<rparr>
      else if a = 0xF565 then k\<lparr>kwp_ctr := (kwp_ctr k AND 0xFF) OR push_bit 8 (ucast v)\<rparr>
      else k)"

definition kw11_irq_pending :: "kw11 \<Rightarrow> bool" where
  "kw11_irq_pending k = (if kwp_irq_req k then True else kwl_irq_req k)"

definition kw11_irq_ack :: "kw11 \<Rightarrow> kw11" where
  "kw11_irq_ack k = (if kwp_irq_req k then k\<lparr>kwp_irq_req := False\<rparr> else k\<lparr>kwl_irq_req := False\<rparr>)"

definition kw11_reset :: "kw11 \<Rightarrow> kw11" where
  "kw11_reset k =
     k\<lparr>kwl_done := True, kwl_ie := False, kwl_irq_req := False, kwl_clock_init := False, kwl_last_tick_ns := 0,
       kwl_steps_accum := 0, kwp_csr := 0, kwp_csb := 0, kwp_ctr := 0, kwp_irq_req := False, kwp_irq_armed := True,
       kwp_clock_init := False, kwp_last_tick_ns := 0\<rparr>"

section \<open>Polls\<close>

definition kwl_tick :: "kw11 \<Rightarrow> kw11" where
  "kwl_tick k = (let k = k\<lparr>kwl_done := True\<rparr> in if kwl_ie k then k\<lparr>kwl_irq_req := True\<rparr> else k)"

definition kwl_poll_realtime :: "64 word \<Rightarrow> kw11 \<Rightarrow> kw11" where
  "kwl_poll_realtime t k =
     (let period = 16666667 :: 64 word
      in if \<not> kwl_clock_init k then k\<lparr>kwl_clock_init := True, kwl_last_tick_ns := t\<rparr>
         else if t < kwl_last_tick_ns k then k\<lparr>kwl_last_tick_ns := t\<rparr>
         else let elapsed = t - kwl_last_tick_ns k
              in if elapsed \<ge> period
                 then kwl_tick (k\<lparr>kwl_last_tick_ns := kwl_last_tick_ns k + elapsed div period * period\<rparr>)
                 else k)"

definition kwp_poll_realtime :: "64 word \<Rightarrow> kw11 \<Rightarrow> kw11" where
  "kwp_poll_realtime t k =
     (if kwp_csr k AND KW11P_RUN = 0 then k
      else if \<not> kwp_clock_init k then k\<lparr>kwp_clock_init := True, kwp_last_tick_ns := t\<rparr>
      else if t < kwp_last_tick_ns k then k\<lparr>kwp_last_tick_ns := t\<rparr>
      else let period_ns = kwp_period_ns k
           in if period_ns = 0 then k
              else let elapsed = t - kwp_last_tick_ns k
                   in if elapsed < period_ns then k
                      else let pulses = elapsed div period_ns
                           in kwp_advance_pulses (unat pulses)
                                (k\<lparr>kwp_last_tick_ns := kwp_last_tick_ns k + pulses * period_ns\<rparr>))"

definition kw11_poll_realtime :: "64 word \<Rightarrow> kw11 \<Rightarrow> kw11" where
  "kw11_poll_realtime t k = kwp_poll_realtime t (kwl_poll_realtime t k)"

definition kw11_poll_steps :: "64 word \<Rightarrow> u32 \<Rightarrow> kw11 \<Rightarrow> kw11" where
  "kw11_poll_steps t cpu_steps k =
     (if \<not> kw11_step_clock k then kw11_poll_realtime t k
      else let cpu_steps = (if cpu_steps = 0 then 1 else cpu_steps);
               k = k\<lparr>kwl_steps_accum := kwl_steps_accum k + ucast cpu_steps\<rparr>
           in if kwl_steps_accum k \<ge> ucast (kw11_steps_per_tick k)
              then kwl_tick (k\<lparr>kwl_steps_accum := kwl_steps_accum k mod ucast (kw11_steps_per_tick k)\<rparr>)
              else k)"

definition kw11_poll :: "64 word \<Rightarrow> kw11 \<Rightarrow> kw11" where
  "kw11_poll t k = kw11_poll_steps t 1 k"

section \<open>The programmable clock counts its buffer\<close>

lemma kwp_advance_add: "kwp_advance_pulses (m + n) k = kwp_advance_pulses n (kwp_advance_pulses m k)"
proof (induction m arbitrary: k)
  case (Suc m)
  show ?case
  proof (cases "kwp_csr k AND KW11P_RUN \<noteq> 0")
    case False
    then show ?thesis by (cases n) simp_all
  qed (simp add: Suc)
qed simp

lemma countdown:
  assumes "kwp_csr k AND KW11P_RUN \<noteq> 0" "kwp_csr k AND KW11P_UP = 0" "m \<le> unat (kwp_ctr k)"
  shows "kwp_advance_pulses m k = k\<lparr>kwp_ctr := kwp_ctr k - of_nat m\<rparr>"
  using assms
proof (induction m arbitrary: k)
  case (Suc m)
  then have ne: "kwp_ctr k \<noteq> 0" by auto
  then have "unat (kwp_ctr k - 1) = unat (kwp_ctr k) - 1" by (simp add: unat_minus_one)
  then have "kwp_advance_pulses m (k\<lparr>kwp_ctr := kwp_ctr k - 1\<rparr>) = k\<lparr>kwp_ctr := kwp_ctr k - 1 - of_nat m\<rparr>"
    using Suc.IH[of "k\<lparr>kwp_ctr := kwp_ctr k - 1\<rparr>"] Suc.prems by simp
  then show ?case using Suc.prems ne by (simp add: kwp_step_one_def Let_def diff_diff_add)
qed simp

lemma terminal_free: "kwp_terminal_event (k\<lparr>kwp_ctr := x\<rparr>) = kwp_terminal_event k"
  by (simp add: kwp_terminal_event_def Let_def)

text \<open>A down count from \<open>ctr\<close> ends after \<open>ctr + 1\<close> pulses.\<close>

lemma countdown_ends:
  assumes "kwp_csr k AND KW11P_RUN \<noteq> 0" "kwp_csr k AND KW11P_UP = 0"
  shows "kwp_advance_pulses (unat (kwp_ctr k) + 1) k = kwp_terminal_event k"
proof -
  have "kwp_advance_pulses (unat (kwp_ctr k)) k = k\<lparr>kwp_ctr := 0\<rparr>"
    using countdown[OF assms] by simp
  moreover have "kwp_advance_pulses (unat (kwp_ctr k) + 1) k = kwp_advance_pulses 1 (kwp_advance_pulses (unat (kwp_ctr k)) k)"
    by (rule kwp_advance_add)
  ultimately show ?thesis using assms by (simp add: kwp_step_one_def Let_def terminal_free)
qed

lemma countup:
  assumes "kwp_csr k AND KW11P_RUN \<noteq> 0" "kwp_csr k AND KW11P_UP \<noteq> 0" "unat (kwp_ctr k) + m < 0x10000"
  shows "kwp_advance_pulses m k = k\<lparr>kwp_ctr := kwp_ctr k + of_nat m\<rparr>"
  using assms
proof (induction m arbitrary: k)
  case (Suc m)
  then have u: "unat (kwp_ctr k + 1) = unat (kwp_ctr k) + 1" by (simp add: unat_word_ariths)
  then have "kwp_ctr k + 1 \<noteq> 0" by (metis add_is_0 unat_0 one_neq_zero)
  then show ?case using Suc.IH[of "k\<lparr>kwp_ctr := kwp_ctr k + 1\<rparr>"] Suc.prems u
    by (simp add: kwp_step_one_def Let_def add.assoc)
qed simp

text \<open>An up count from \<open>ctr\<close> ends when the counter wraps around, after \<open>65536 - ctr\<close> pulses.\<close>

lemma countup_ends:
  assumes "kwp_csr k AND KW11P_RUN \<noteq> 0" "kwp_csr k AND KW11P_UP \<noteq> 0"
  shows "kwp_advance_pulses (0x10000 - unat (kwp_ctr k)) k = kwp_terminal_event k"
proof -
  define m where "m = 0xFFFF - unat (kwp_ctr k)"
  have lt: "unat (kwp_ctr k) < 0x10000" using unsigned_less[of "kwp_ctr k", where 'a = nat] by simp
  then have m: "0x10000 - unat (kwp_ctr k) = m + 1" "unat (kwp_ctr k) + m = 0xFFFF" by (simp_all add: m_def)
  have "of_nat (unat (kwp_ctr k) + m) = (0xFFFF :: u16)" unfolding m(2) by simp
  then have c: "kwp_ctr k + of_nat m = 0xFFFF" by simp
  have "kwp_advance_pulses m k = k\<lparr>kwp_ctr := 0xFFFF\<rparr>"
    using countup[OF assms, of m] m(2) unfolding c by simp
  moreover have "kwp_advance_pulses (m + 1) k = kwp_advance_pulses 1 (kwp_advance_pulses m k)"
    by (rule kwp_advance_add)
  ultimately show ?thesis using assms unfolding m(1) by (simp add: kwp_step_one_def Let_def terminal_free)
qed

text \<open>The pulses from the preset to the end of the count, in the direction the control register gives.\<close>

definition pulses_per_interval :: "kw11 \<Rightarrow> nat" where
  "pulses_per_interval k =
     (if kwp_csr k AND KW11P_UP \<noteq> 0 then 0x10000 - unat (kwp_csb k) else unat (kwp_csb k) + 1)"

lemma interval_ends:
  assumes "kwp_csr k AND KW11P_RUN \<noteq> 0" "kwp_ctr k = kwp_csb k"
  shows "kwp_advance_pulses (pulses_per_interval k) k = kwp_terminal_event k"
  using countdown_ends[OF assms(1)] countup_ends[OF assms(1)] unfolding pulses_per_interval_def assms(2) by simp

lemma terminal_repeat:
  assumes "kwp_csr k AND KW11P_REPEAT \<noteq> 0"
  shows "kwp_ctr (kwp_terminal_event k) = kwp_csb k" "kwp_csb (kwp_terminal_event k) = kwp_csb k"
    "kwp_csr (kwp_terminal_event k) = kwp_csr k OR KW11P_DONE OR (if kwp_csr k AND KW11P_DONE \<noteq> 0 then KW11P_ERR else 0)"
    "kwp_irq_req (kwp_terminal_event k) =
       (kwp_irq_req k \<or> kwp_csr k AND KW11P_DONE = 0 \<and> kwp_csr k AND KW11P_IE \<noteq> 0 \<and> kwp_irq_armed k)"
proof -
  have b: "bit (kwp_csr k) 3" using assms by (simp add: u16_eq_bits bit_simps)
  have r: "(kwp_csr k OR KW11P_DONE) AND KW11P_REPEAT \<noteq> 0" "(kwp_csr k OR KW11P_ERR) AND KW11P_REPEAT \<noteq> 0"
    using b by (simp_all add: u16_eq_bits bit_simps)
  have d: "kwp_csr k OR KW11P_DONE = kwp_csr k" if "kwp_csr k AND KW11P_DONE \<noteq> 0"
    using that by (simp only: u16_eq_bits) (simp add: bit_simps)
  have d2: "kwp_csr k OR 0x180 = kwp_csr k OR KW11P_ERR" if "kwp_csr k AND KW11P_DONE \<noteq> 0"
    using that by (simp only: u16_eq_bits) (simp add: bit_simps)
  have ie: "((kwp_csr k OR KW11P_DONE) AND KW11P_IE = 0) = (kwp_csr k AND KW11P_IE = 0)"
    by (simp only: u16_eq_bits) (simp add: bit_simps)
  show "kwp_ctr (kwp_terminal_event k) = kwp_csb k" "kwp_csb (kwp_terminal_event k) = kwp_csb k"
    "kwp_csr (kwp_terminal_event k) = kwp_csr k OR KW11P_DONE OR (if kwp_csr k AND KW11P_DONE \<noteq> 0 then KW11P_ERR else 0)"
    "kwp_irq_req (kwp_terminal_event k) =
       (kwp_irq_req k \<or> kwp_csr k AND KW11P_DONE = 0 \<and> kwp_csr k AND KW11P_IE \<noteq> 0 \<and> kwp_irq_armed k)"
    using r d d2 ie by (auto simp: kwp_terminal_event_def Let_def)
qed

definition p_repeating :: "kw11 \<Rightarrow> bool" where
  "p_repeating k = (kwp_csr k AND KW11P_RUN \<noteq> 0 \<and> kwp_csr k AND KW11P_REPEAT \<noteq> 0)"

lemma pulses_terminal: "p_repeating k \<Longrightarrow> pulses_per_interval (kwp_terminal_event k) = pulses_per_interval k"
proof -
  have "((w OR KW11P_DONE OR KW11P_ERR) AND KW11P_UP = 0) = (w AND KW11P_UP = 0)" "((w OR KW11P_DONE) AND KW11P_UP = 0) = (w AND KW11P_UP = 0)" for w
    by (simp only: u16_eq_bits; simp add: bit_simps)+
  then show "p_repeating k \<Longrightarrow> ?thesis"
    using terminal_repeat(2,3)[of k] by (simp add: p_repeating_def pulses_per_interval_def)
qed

lemma p_repeating_terminal: "p_repeating k \<Longrightarrow> p_repeating (kwp_terminal_event k)"
  using terminal_repeat(3)[of k] by (auto simp: p_repeating_def u16_eq_bits bit_simps)

lemma terminals_repeat:
  assumes "p_repeating k" "kwp_ctr k = kwp_csb k"
  defines "e \<equiv> \<lambda>q. (kwp_terminal_event ^^ q) k"
  shows "p_repeating (e q)" "kwp_ctr (e q) = kwp_csb k" "kwp_csb (e q) = kwp_csb k"
    "pulses_per_interval (e q) = pulses_per_interval k"
    "(kwp_csr (e q) AND KW11P_DONE \<noteq> 0) = (kwp_csr k AND KW11P_DONE \<noteq> 0 \<or> 1 \<le> q)"
    "(kwp_csr (e q) AND KW11P_ERR \<noteq> 0) = (kwp_csr k AND KW11P_ERR \<noteq> 0 \<or> 2 \<le> q \<or> 1 \<le> q \<and> kwp_csr k AND KW11P_DONE \<noteq> 0)"
proof -
  have inv: "p_repeating (e q) \<and> kwp_ctr (e q) = kwp_csb k \<and> kwp_csb (e q) = kwp_csb k" for q
    unfolding e_def by (induction q) (use assms(1,2) p_repeating_terminal terminal_repeat(1,2) in \<open>auto simp: p_repeating_def\<close>)
  then show "p_repeating (e q)" "kwp_ctr (e q) = kwp_csb k" "kwp_csb (e q) = kwp_csb k" by simp_all
  show "pulses_per_interval (e q) = pulses_per_interval k"
    using inv pulses_terminal by (induction q) (simp_all add: e_def)
  have step: "kwp_csr (e (Suc q)) = kwp_csr (e q) OR KW11P_DONE OR (if kwp_csr (e q) AND KW11P_DONE \<noteq> 0 then KW11P_ERR else 0)" for q
    using terminal_repeat(3)[of "e q"] inv[of q] by (simp add: e_def p_repeating_def)
  have bits: "((w OR KW11P_DONE OR KW11P_ERR) AND KW11P_DONE) \<noteq> 0" "((w OR KW11P_DONE) AND KW11P_DONE) \<noteq> 0"
    "((w OR KW11P_DONE OR KW11P_ERR) AND KW11P_ERR) \<noteq> 0" "((w OR KW11P_DONE) AND KW11P_ERR = 0) = (w AND KW11P_ERR = 0)" for w
    by (simp only: u16_eq_bits; simp add: bit_simps)+
  have d: "(kwp_csr (e q) AND KW11P_DONE \<noteq> 0) = (kwp_csr k AND KW11P_DONE \<noteq> 0 \<or> 1 \<le> q)" for q
  proof (cases q)
    case (Suc p) then show ?thesis using step[of p] bits(1,2)[of "kwp_csr (e p)"] by auto
  qed (simp add: e_def)
  then show "(kwp_csr (e q) AND KW11P_DONE \<noteq> 0) = (kwp_csr k AND KW11P_DONE \<noteq> 0 \<or> 1 \<le> q)" .
  show "(kwp_csr (e q) AND KW11P_ERR \<noteq> 0) = (kwp_csr k AND KW11P_ERR \<noteq> 0 \<or> 2 \<le> q \<or> 1 \<le> q \<and> kwp_csr k AND KW11P_DONE \<noteq> 0)"
  proof (induction q)
    case (Suc q)
    show ?case
    proof (cases "kwp_csr (e q) AND KW11P_DONE \<noteq> 0")
      case True then show ?thesis using step[of q] bits(3)[of "kwp_csr (e q)"] d[of q] by auto
    next
      case False then show ?thesis using step[of q] bits(4)[of "kwp_csr (e q)"] d[of q] Suc by auto
    qed
  qed (simp add: e_def)
qed

text \<open>C22: The KW11-P running in repeated-interval mode (RUN and REPEAT set), from a counter at its preset: with n pulses per interval, the preset + 1 when it counts down (UP clear) and 65536 - the preset when it counts up (UP set), after q * n pulses the counter is back at its preset, the mode unchanged, DONE is set as soon as one interval has passed, and ERR as soon as an interval ends with DONE still set.\<close>
theorem interval_timer:
  assumes "p_repeating k" "kwp_ctr k = kwp_csb k"
  shows "let k' = kwp_advance_pulses (q * (if kwp_csr k AND KW11P_UP \<noteq> 0 then 0x10000 - unat (kwp_csb k) else unat (kwp_csb k) + 1)) k
    in kwp_ctr k' = kwp_csb k \<and> p_repeating k' \<and>
       (kwp_csr k' AND KW11P_DONE \<noteq> 0) = (kwp_csr k AND KW11P_DONE \<noteq> 0 \<or> 1 \<le> q) \<and>
       (kwp_csr k' AND KW11P_ERR \<noteq> 0) = (kwp_csr k AND KW11P_ERR \<noteq> 0 \<or> 2 \<le> q \<or> 1 \<le> q \<and> kwp_csr k AND KW11P_DONE \<noteq> 0)"
proof -
  have "kwp_advance_pulses (q * pulses_per_interval k) k = (kwp_terminal_event ^^ q) k"
  proof (induction q)
    case (Suc q)
    define e where "e = (kwp_terminal_event ^^ q) k"
    have c: "kwp_csr e AND KW11P_RUN \<noteq> 0" "kwp_ctr e = kwp_csb e" "pulses_per_interval e = pulses_per_interval k"
      using terminals_repeat(1-4)[OF assms, of q] by (auto simp: p_repeating_def e_def)
    have "kwp_advance_pulses (pulses_per_interval k) e = kwp_terminal_event e"
      using interval_ends[OF c(1,2)] unfolding c(3) .
    moreover have "Suc q * pulses_per_interval k = q * pulses_per_interval k + pulses_per_interval k" by simp
    ultimately show ?case by (simp only: kwp_advance_add Suc e_def[symmetric] funpow.simps comp_apply)
  qed simp
  then show ?thesis
    using terminals_repeat(1,2,5,6)[OF assms, of q] unfolding pulses_per_interval_def by (simp add: Let_def)
qed

definition zero_kw11 :: kw11 where
  "zero_kw11 = \<lparr>kwl_done = False, kwl_ie = False, kwl_irq_req = False, kwl_last_tick_ns = 0, kwl_clock_init = False,
     kwp_csr = 0, kwp_csb = 0, kwp_ctr = 0, kwp_irq_req = False, kwp_irq_armed = True, kwp_last_tick_ns = 0,
     kwp_clock_init = False, kw11_l_visible = -1, kw11_p_visible = -1, kw11_step_clock = False,
     kw11_steps_per_tick = 16667, kwl_steps_accum = 0\<rparr>"

theorem interval_timer_witness:
  "kwp_csr (kwp_advance_pulses (2 * (unat (9::u16) + 1)) (zero_kw11\<lparr>kwp_csr := 0x9, kwp_csb := 9, kwp_ctr := 9\<rparr>)) AND KW11P_ERR \<noteq> 0 \<and>
   kwp_csr (kwp_advance_pulses 16 (zero_kw11\<lparr>kwp_csr := 0x19, kwp_csb := 0xFFF0, kwp_ctr := 0xFFF0\<rparr>)) AND KW11P_DONE \<noteq> 0"
  using interval_timer[of "zero_kw11\<lparr>kwp_csr := 0x9, kwp_csb := 9, kwp_ctr := 9\<rparr>" 2]
    interval_timer[of "zero_kw11\<lparr>kwp_csr := 0x19, kwp_csb := 0xFFF0, kwp_ctr := 0xFFF0\<rparr>" 1]
  by (simp add: p_repeating_def zero_kw11_def Let_def)

section \<open>The line clock counts instructions\<close>

definition step_clock_ok :: "kw11 \<Rightarrow> bool" where
  "step_clock_ok k = (kw11_step_clock k \<and> kwl_steps_accum k < ucast (kw11_steps_per_tick k))"

fun kw11_steps :: "64 word \<Rightarrow> u32 list \<Rightarrow> kw11 \<Rightarrow> kw11" where
  "kw11_steps t [] k = k"
| "kw11_steps t (c # cs) k = kw11_steps t cs (kw11_poll_steps t c k)"

lemma poll_steps_one:
  fixes c :: u32 and t :: "64 word"
  assumes ok: "step_clock_ok k"
  defines "n \<equiv> unat (kw11_steps_per_tick k)" and "s \<equiv> unat (kwl_steps_accum k) + max 1 (unat c)" and "k' \<equiv> kw11_poll_steps t c k"
  shows "step_clock_ok k'" "kw11_steps_per_tick k' = kw11_steps_per_tick k" "unat (kwl_steps_accum k') = s mod n"
    "kwl_done k' = (kwl_done k \<or> s \<ge> n)" "kwl_ie k' = kwl_ie k"
    "kw11_irq_pending k' = (kw11_irq_pending k \<or> kwl_ie k \<and> s \<ge> n)"
proof -
  define c' where "c' = (if c = 0 then 1 else c)"
  have c': "unat c' = max 1 (unat c)" using unat_gt_0[of c] by (auto simp: c'_def max_def Suc_le_eq)
  have wide: "unat (ucast w :: 64 word) = unat w" for w :: u32
    using unsigned_less[of w, where 'a = nat] by (simp add: unsigned_ucast_eq take_bit_eq_mod)
  have lt: "unat (kwl_steps_accum k) < n" using ok by (simp add: step_clock_ok_def word_less_nat_alt wide n_def)
  have n: "n < 2 ^ 32" using unsigned_less[of "kw11_steps_per_tick k", where 'a = nat] by (simp add: n_def)
  have "unat c' < 2 ^ 32" using unsigned_less[of c', where 'a = nat] by simp
  then have sum: "unat (kwl_steps_accum k + ucast c') = s"
    using lt n by (simp add: unat_word_ariths wide c' s_def)
  have p: "k' = (if n \<le> s then kwl_tick (k\<lparr>kwl_steps_accum := (kwl_steps_accum k + ucast c') mod ucast (kw11_steps_per_tick k)\<rparr>)
      else k\<lparr>kwl_steps_accum := kwl_steps_accum k + ucast c'\<rparr>)"
    using ok sum by (simp add: k'_def kw11_poll_steps_def step_clock_ok_def c'_def[symmetric] Let_def word_le_nat_alt wide n_def)
  have m: "unat ((kwl_steps_accum k + ucast c') mod ucast (kw11_steps_per_tick k)) = s mod n"
    by (simp add: unat_mod sum wide n_def)
  have "s mod n < n" using lt by simp
  then show "step_clock_ok k'" "kw11_steps_per_tick k' = kw11_steps_per_tick k" "unat (kwl_steps_accum k') = s mod n"
    "kwl_done k' = (kwl_done k \<or> s \<ge> n)" "kwl_ie k' = kwl_ie k"
    "kw11_irq_pending k' = (kw11_irq_pending k \<or> kwl_ie k \<and> s \<ge> n)"
    using ok sum m by (auto simp: p kwl_tick_def Let_def step_clock_ok_def word_less_nat_alt wide n_def kw11_irq_pending_def)
qed

text \<open>The KW11-L clocked by instructions: over any sequence of polls, the accumulator is the total number of steps modulo the steps per tick, and DONE and the interrupt request are raised exactly when a whole tick has passed.\<close>
theorem line_clock_by_steps:
  fixes cs :: "u32 list"
  assumes "step_clock_ok k"
  shows "let s = unat (kwl_steps_accum k) + sum_list (map (\<lambda>c. max 1 (unat c)) cs); n = unat (kw11_steps_per_tick k);
       k' = kw11_steps t cs k
     in unat (kwl_steps_accum k') = s mod n \<and> kwl_done k' = (kwl_done k \<or> s \<ge> n) \<and>
       kw11_irq_pending k' = (kw11_irq_pending k \<or> kwl_ie k \<and> s \<ge> n)"
  using assms
proof (induction cs arbitrary: k)
  case Nil
  have "unat (kwl_steps_accum k) < unat (kw11_steps_per_tick k)"
    using Nil unsigned_less[of "kw11_steps_per_tick k", where 'a = nat]
    by (simp add: step_clock_ok_def word_less_nat_alt unsigned_ucast_eq take_bit_eq_mod)
  then show ?case by simp
next
  case (Cons c cs)
  define n where "n = unat (kw11_steps_per_tick k)"
  define s where "s = unat (kwl_steps_accum k) + max 1 (unat c)"
  define m where "m = sum_list (map (\<lambda>c. max 1 (unat c)) cs)"
  have n: "0 < n"
  proof (rule ccontr)
    assume "\<not> 0 < n"
    then have "kw11_steps_per_tick k = 0" by (simp add: n_def unat_eq_zero)
    then show False using Cons.prems by (simp add: step_clock_ok_def)
  qed
  note one = poll_steps_one[OF Cons.prems, of t c, folded n_def s_def]
  have split: "(s \<ge> n \<or> s mod n + m \<ge> n) = (s + m \<ge> n)"
    using n by (cases "s \<ge> n") auto
  have e: "unat (kwl_steps_accum k) + sum_list (map (\<lambda>c. max 1 (unat c)) (c # cs)) = s + m"
    by (simp add: s_def m_def)
  show ?case
    using Cons.IH[OF one(1)] one(2-6) split unfolding e n_def[symmetric] m_def[symmetric] Let_def
    by (auto simp: mod_add_left_eq n_def[symmetric])
qed

theorem line_clock_by_steps_witness:
  "kwl_done (kw11_steps 0 [10000, 6667] (zero_kw11\<lparr>kw11_step_clock := True\<rparr>))"
  using line_clock_by_steps[of "zero_kw11\<lparr>kw11_step_clock := True\<rparr>" "[10000, 6667]" 0]
  by (simp add: step_clock_ok_def zero_kw11_def Let_def)

end
