(* ===== verification/LsiBus.thy ===== *)
theory LsiBus
  imports LsiDevices Kw11
begin

text \<open>
  The bus of the LSI-11 emulator: the device table (lsi11/devio.c), memory and I/O page
  decoding (bus.c) and the UNIBUS map (ubmap.c), over the state \<open>lsi\<close> of the whole machine.
  The tables of the C code hold pointers to the access functions of the devices; here they
  hold the name of the device, and \<open>dev_read8\<close>, \<open>dev_write8\<close> are the calls through the
  pointers. The multiplexer and the disk and tape controllers are reached only through the
  record \<open>other_devs\<close>, an argument. An access outside an allocated array is \<open>None\<close>.
\<close>

section \<open>State\<close>

datatype bus_machine_t = BUS_MACHINE_LSI11_1104 | BUS_MACHINE_PDP1184

datatype lsi11_machine_t = LSI11_MACHINE_1104 | LSI11_MACHINE_1184

datatype other_dev = DZ11 | RL11 | RK11 | RH11 | RQ11 | XP11 | TQ11

datatype io_dev = IO_UBMAP | IO_DL11 | IO_KW11 | IO_LP11 | IO_SR | IO_VM1SEL | IO_VM1SAV | IO_OTHER other_dev

datatype irq_dev = IRQ_DL11_RX | IRQ_DL11_TX | IRQ_KW11 | IRQ_LP11 | IRQ_OTHER other_dev nat

record io_range_t =
  io_start :: u16
  io_end :: u16
  io_read8 :: "io_dev option"
  io_write8 :: "io_dev option"

record lsi11_device_mask_t =
  m_dl11 :: bool
  m_dz11 :: bool
  m_kw11 :: bool
  m_lp11 :: bool
  m_rl11 :: bool
  m_rk11 :: bool
  m_rh11 :: bool
  m_rq11 :: bool
  m_xp11 :: bool
  m_tq11 :: bool
  m_sr :: bool
  m_vm1sel :: bool
  m_vm1sav :: bool

record 'x lsi =
  g_machine :: bus_machine_t
  g_ram_kb :: u32
  g_ram :: "(u32 \<Rightarrow> u8) option"
  g_ram_bytes :: int
  vm2_user_bytes :: u32
  vm2_halt_bytes :: u32
  g_vm2_halt_ram :: "(u32 \<Rightarrow> u8) option"
  g_vm2_halt_ram_bytes :: int
  g_pdp1184_io_16bit :: bool
  g_pdp1184_m22e :: bool
  g_ranges :: "io_range_t list"
  g_irq :: "irq_dev list"
  ubmap_regs :: "nat \<Rightarrow> u32"
  ubmap_registered :: bool
  ubmap_enabled_flag :: bool
  dl :: dl11
  lp :: irq_latch_t
  kw :: kw11
  sr :: u16
  vmsel :: vm1sel
  vmsav :: vm1sav
  tty :: "term"
  machine_profile :: lsi11_machine_t
  machine_ram_kb :: u32
  dl11_alias_on :: bool
  term_raw_active :: bool
  device_mask :: lsi11_device_mask_t
  others :: 'x

text \<open>The devices that are not modelled, and what the host environment decides: whether the
  terminal can be opened, and the value of \<^verbatim>\<open>LSI11_KW11_STEPS_PER_TICK\<close> when it is valid.\<close>

record 'x other_devs =
  o_read8 :: "other_dev \<Rightarrow> u16 \<Rightarrow> 'x lsi \<Rightarrow> u8 \<times> 'x lsi"
  o_write8 :: "other_dev \<Rightarrow> u16 \<Rightarrow> u8 \<Rightarrow> 'x lsi \<Rightarrow> 'x lsi"
  o_irq :: "other_dev \<Rightarrow> nat \<Rightarrow> 'x lsi irq_source_t"
  o_init :: "other_dev \<Rightarrow> 'x lsi \<Rightarrow> int \<times> 'x lsi"
  o_reset :: "other_dev \<Rightarrow> 'x lsi \<Rightarrow> 'x lsi"
  o_poll :: "other_dev \<Rightarrow> 'x lsi \<Rightarrow> 'x lsi"
  o_shutdown :: "other_dev \<Rightarrow> 'x lsi \<Rightarrow> 'x lsi"
  o_term_opens :: bool
  o_kw11_steps :: "u32 option"

section \<open>UNIBUS map\<close>

abbreviation UBM_BASE :: u16 where "UBM_BASE \<equiv> 0xF080"
abbreviation PDP11_22BIT_PHYS_MASK :: u32 where "PDP11_22BIT_PHYS_MASK \<equiv> 0x3FFFFF"

definition ubmap_read8 :: "u16 \<Rightarrow> 'x lsi \<Rightarrow> u8" where
  "ubmap_read8 addr s =
     (let rel = addr - UBM_BASE; entry = unat (drop_bit 2 rel); lane = rel AND 3; v = ubmap_regs s entry
      in if lane = 0 then ucast (v AND 0xFE)
         else if lane = 1 then ucast (drop_bit 8 v AND 0xFF)
         else if lane = 2 then ucast (drop_bit 16 v AND 0x3F)
         else 0)"

definition ubmap_put :: "nat \<Rightarrow> u32 \<Rightarrow> 'x lsi \<Rightarrow> 'x lsi" where
  "ubmap_put entry v s = s\<lparr>ubmap_regs := (ubmap_regs s)(entry := (v AND PDP11_22BIT_PHYS_MASK) AND NOT 1)\<rparr>"

definition ubmap_write8 :: "u16 \<Rightarrow> u8 \<Rightarrow> 'x lsi \<Rightarrow> 'x lsi" where
  "ubmap_write8 addr val s =
     (let rel = addr - UBM_BASE; entry = unat (drop_bit 2 rel); lane = rel AND 3; v = ubmap_regs s entry
      in if lane = 0 then ubmap_put entry ((v AND NOT 0xFF) OR ucast (val AND 0xFE)) s
         else if lane = 1 then ubmap_put entry ((v AND NOT 0xFF00) OR push_bit 8 (ucast val)) s
         else if lane = 2 then ubmap_put entry ((v AND NOT 0x3F0000) OR push_bit 16 (ucast val AND 0x3F)) s
         else s)"

definition ubmap_reset :: "'x lsi \<Rightarrow> 'x lsi" where
  "ubmap_reset s = s\<lparr>ubmap_regs := (\<lambda>i. if i < 32 then 0 else ubmap_regs s i), ubmap_enabled_flag := False\<rparr>"

definition ubmap_set_enabled :: "bool \<Rightarrow> 'x lsi \<Rightarrow> 'x lsi" where
  "ubmap_set_enabled on s = s\<lparr>ubmap_enabled_flag := on\<rparr>"

definition ubmap_map_addr :: "u32 \<Rightarrow> 'x lsi \<Rightarrow> u32" where
  "ubmap_map_addr unibus_addr s =
     (if g_machine s \<noteq> BUS_MACHINE_PDP1184 then unibus_addr AND 0x3FFFF
      else if \<not> ubmap_enabled_flag s then unibus_addr AND 0x3FFFF
      else let page = drop_bit 13 unibus_addr AND 0x1F; off = unibus_addr AND 0x1FFF
           in if page = 0x1F then (0x3FE000 + off) AND PDP11_22BIT_PHYS_MASK
              else (ubmap_regs s (unat page) + off) AND PDP11_22BIT_PHYS_MASK)"

section \<open>Calls through the device table\<close>

definition dev_read8 :: "'x other_devs \<Rightarrow> io_dev \<Rightarrow> u16 \<Rightarrow> 'x lsi \<Rightarrow> u8 \<times> 'x lsi" where
  "dev_read8 e dev a s =
     (case dev of
        IO_UBMAP \<Rightarrow> (ubmap_read8 a s, s)
      | IO_DL11 \<Rightarrow> (let (v, d) = dl11_read8 a (dl s) in (v, s\<lparr>dl := d\<rparr>))
      | IO_KW11 \<Rightarrow> (let (v, k) = kw11_read8 a (kw s) in (v, s\<lparr>kw := k\<rparr>))
      | IO_LP11 \<Rightarrow> (let (v, l) = lp11_read8 a (lp s) in (v, s\<lparr>lp := l\<rparr>))
      | IO_SR \<Rightarrow> (sr_read8 a (sr s), s)
      | IO_VM1SEL \<Rightarrow> (vm1sel_read8 a (vmsel s), s)
      | IO_VM1SAV \<Rightarrow> (vm1sav_read8 a (vmsav s), s)
      | IO_OTHER d \<Rightarrow> o_read8 e d a s)"

definition dev_write8 :: "'x other_devs \<Rightarrow> io_dev \<Rightarrow> u16 \<Rightarrow> u8 \<Rightarrow> 'x lsi \<Rightarrow> 'x lsi" where
  "dev_write8 e dev a v s =
     (case dev of
        IO_UBMAP \<Rightarrow> ubmap_write8 a v s
      | IO_DL11 \<Rightarrow> (let (d, tm) = dl11_write8 a v (dl s) (tty s) in s\<lparr>dl := d, tty := tm\<rparr>)
      | IO_KW11 \<Rightarrow> s\<lparr>kw := kw11_write8 a v (kw s)\<rparr>
      | IO_LP11 \<Rightarrow> (let (l, tm) = lp11_write8 a v (lp s) (tty s) in s\<lparr>lp := l, tty := tm\<rparr>)
      | IO_SR \<Rightarrow> s\<lparr>sr := sr_write8 a v (sr s)\<rparr>
      | IO_VM1SEL \<Rightarrow> s\<lparr>vmsel := vm1sel_write8 a v (vmsel s)\<rparr>
      | IO_VM1SAV \<Rightarrow> s\<lparr>vmsav := vm1sav_write8 a v (vmsav s)\<rparr>
      | IO_OTHER d \<Rightarrow> o_write8 e d a v s)"

section \<open>The device table\<close>

definition MAX_RANGES :: nat where "MAX_RANGES = 64"

definition range_valid :: "io_range_t option \<Rightarrow> bool" where
  "range_valid r = (case r of None \<Rightarrow> False | Some r \<Rightarrow> io_read8 r \<noteq> None \<and> io_write8 r \<noteq> None \<and> io_start r \<le> io_end r)"

definition devio_register :: "io_range_t option \<Rightarrow> 'x lsi \<Rightarrow> int \<times> 'x lsi" where
  "devio_register r s =
     (if \<not> range_valid r then (-1, s)
      else if length (g_ranges s) \<ge> MAX_RANGES then (-1, s)
      else (0, s\<lparr>g_ranges := g_ranges s @ [the r]\<rparr>))"

definition in_range :: "u16 \<Rightarrow> io_range_t \<Rightarrow> bool" where
  "in_range addr r = (addr \<ge> io_start r \<and> addr \<le> io_end r)"

text \<open>The first range that holds the address (the common loop of the three functions).\<close>

definition range_of :: "u16 \<Rightarrow> 'x lsi \<Rightarrow> io_range_t option" where
  "range_of addr s = find (in_range addr) (g_ranges s)"

definition devio_has :: "u16 \<Rightarrow> 'x lsi \<Rightarrow> bool" where
  "devio_has addr s = (\<exists>r \<in> set (g_ranges s). in_range addr r)"

definition devio_read8 :: "'x other_devs \<Rightarrow> u16 \<Rightarrow> 'x lsi \<Rightarrow> u8 \<times> 'x lsi" where
  "devio_read8 e addr s =
     (case range_of addr s of
        None \<Rightarrow> (0, s)
      | Some r \<Rightarrow> (case io_read8 r of None \<Rightarrow> (0, s) | Some dev \<Rightarrow> dev_read8 e dev addr s))"

definition devio_write8 :: "'x other_devs \<Rightarrow> u16 \<Rightarrow> u8 \<Rightarrow> 'x lsi \<Rightarrow> 'x lsi" where
  "devio_write8 e addr v s =
     (case range_of addr s of
        None \<Rightarrow> s
      | Some r \<Rightarrow> (case io_write8 r of None \<Rightarrow> s | Some dev \<Rightarrow> dev_write8 e dev addr v s))"

section \<open>Configuration\<close>

definition bus_vm2_reset_config :: "'x lsi \<Rightarrow> 'x lsi" where
  "bus_vm2_reset_config s = s\<lparr>vm2_user_bytes := 0x10000, vm2_halt_bytes := 0\<rparr>"

definition bus_reset_config :: "'x lsi \<Rightarrow> 'x lsi" where
  "bus_reset_config s =
     bus_vm2_reset_config
       (s\<lparr>g_machine := BUS_MACHINE_LSI11_1104, g_ram_kb := 56, g_pdp1184_io_16bit := True, g_pdp1184_m22e := False\<rparr>)"

text \<open>The text of the error messages is not modelled: the first component is the return code.\<close>

definition bus_configure :: "bus_machine_t \<Rightarrow> u32 \<Rightarrow> 'x lsi \<Rightarrow> int \<times> 'x lsi" where
  "bus_configure machine ram_kb s =
     (case machine of
        BUS_MACHINE_LSI11_1104 \<Rightarrow>
          (0, s\<lparr>g_machine := BUS_MACHINE_LSI11_1104, g_ram_kb := 56, g_pdp1184_io_16bit := True\<rparr>)
      | BUS_MACHINE_PDP1184 \<Rightarrow>
          (let ram_kb = (if ram_kb = 0 then 4096 else ram_kb)
           in if ram_kb mod 4 \<noteq> 0 then (-1, s)
              else (0, s\<lparr>g_machine := BUS_MACHINE_PDP1184, g_ram_kb := ram_kb, g_pdp1184_io_16bit := True,
                         g_pdp1184_m22e := False\<rparr>)))"

definition bus_set_pdp1184_io_16bit :: "bool \<Rightarrow> 'x lsi \<Rightarrow> 'x lsi" where
  "bus_set_pdp1184_io_16bit on s = s\<lparr>g_pdp1184_io_16bit := on\<rparr>"

definition bus_set_pdp1184_m22e :: "bool \<Rightarrow> 'x lsi \<Rightarrow> 'x lsi" where
  "bus_set_pdp1184_m22e on s = s\<lparr>g_pdp1184_m22e := on\<rparr>"

definition bus_vm2_configure :: "u32 \<Rightarrow> u32 \<Rightarrow> 'x lsi \<Rightarrow> int \<times> 'x lsi" where
  "bus_vm2_configure user_ram_bytes halt_ram_bytes s =
     (let user_ram_bytes = (if user_ram_bytes = 0 then 0x10000 else user_ram_bytes)
      in if user_ram_bytes > 0x10000 then (-1, s)
         else if halt_ram_bytes > 0x10000 then (-1, s)
         else (0, s\<lparr>vm2_user_bytes := user_ram_bytes, vm2_halt_bytes := halt_ram_bytes\<rparr>))"

text \<open>Allocation succeeds (the C code calls \<^verbatim>\<open>abort\<close> when it does not); both arrays are cleared.\<close>

definition zero_array :: "u32 \<Rightarrow> u8" where
  "zero_array = (\<lambda>i. 0)"

definition bus_init :: "'x lsi \<Rightarrow> 'x lsi" where
  "bus_init s =
     (let need = uint (g_ram_kb s) * 1024; halt_need = uint (vm2_halt_bytes s);
          s = s\<lparr>g_ram := Some zero_array, g_ram_bytes := need\<rparr>
      in if halt_need = 0 then s\<lparr>g_vm2_halt_ram := None, g_vm2_halt_ram_bytes := 0\<rparr>
         else s\<lparr>g_vm2_halt_ram := Some zero_array, g_vm2_halt_ram_bytes := halt_need\<rparr>)"

section \<open>Decoding of addresses\<close>

definition io_alias :: "u32 \<Rightarrow> u16" where
  "io_alias addr = 0xE000 OR (ucast addr AND 0x1FFF)"

definition in_18bit_io :: "u32 \<Rightarrow> bool" where
  "in_18bit_io addr = (addr \<ge> 0x3E000 \<and> addr \<le> 0x3FFFF)"

definition in_22bit_io :: "u32 \<Rightarrow> bool" where
  "in_22bit_io addr = (addr \<ge> 0x3FE000 \<and> addr \<le> 0x3FFFFF)"

definition io_decode_addr :: "u32 \<Rightarrow> 'x lsi \<Rightarrow> u16 option" where
  "io_decode_addr addr s =
     (let a16 = ucast addr :: u16
      in if addr \<le> 0xFFFF \<and> a16 < 0xE000 then None
         else if addr \<le> 0xFFFF \<and> g_machine s = BUS_MACHINE_LSI11_1104 \<and> devio_has a16 s then Some a16
         else if addr \<le> 0xFFFF \<and> g_machine s = BUS_MACHINE_PDP1184 \<and> g_pdp1184_io_16bit s \<and> devio_has a16 s
         then Some a16
         else case g_machine s of
           BUS_MACHINE_PDP1184 \<Rightarrow>
             if \<not> g_pdp1184_m22e s \<and> in_18bit_io addr \<and> devio_has (io_alias addr) s then Some (io_alias addr)
             else if g_pdp1184_m22e s \<and> in_22bit_io addr \<and> devio_has (io_alias addr) s then Some (io_alias addr)
             else None
         | BUS_MACHINE_LSI11_1104 \<Rightarrow>
             if in_22bit_io addr \<and> devio_has (io_alias addr) s then Some (io_alias addr) else None)"

definition io_is_decoded :: "u32 \<Rightarrow> 'x lsi \<Rightarrow> bool" where
  "io_is_decoded addr s = (io_decode_addr addr s \<noteq> None)"

definition bus_addr_is_ram :: "u32 \<Rightarrow> 'x lsi \<Rightarrow> bool" where
  "bus_addr_is_ram addr s =
     (if io_is_decoded addr s then False
      else if g_machine s = BUS_MACHINE_LSI11_1104 then (ucast addr :: u16) \<le> 0xDFFF
      else if g_pdp1184_io_16bit s \<and> addr \<ge> 0xE000 \<and> addr \<le> 0xFFFF then False
      else if g_pdp1184_io_16bit s \<and> in_18bit_io addr then False
      else if \<not> g_pdp1184_io_16bit s \<and> g_pdp1184_m22e s \<and> in_22bit_io addr then False
      else if \<not> g_pdp1184_io_16bit s \<and> \<not> g_pdp1184_m22e s \<and> in_18bit_io addr then False
      else uint addr < g_ram_bytes s)"

fun bus_range_is_ram :: "u32 \<Rightarrow> nat \<Rightarrow> 'x lsi \<Rightarrow> bool" where
  "bus_range_is_ram addr 0 s = True"
| "bus_range_is_ram addr (Suc len) s = (bus_addr_is_ram addr s \<and> bus_range_is_ram (addr + 1) len s)"

definition bus_is_nxm :: "u32 \<Rightarrow> 'x lsi \<Rightarrow> bool" where
  "bus_is_nxm addr s =
     (if io_is_decoded addr s then False else if bus_addr_is_ram addr s then False else True)"

section \<open>Bus accesses\<close>

definition ram_get :: "u32 \<Rightarrow> 'x lsi \<Rightarrow> u8 option" where
  "ram_get i s = (case g_ram s of None \<Rightarrow> None | Some m \<Rightarrow> if uint i < g_ram_bytes s then Some (m i) else None)"

definition ram_set :: "u32 \<Rightarrow> u8 \<Rightarrow> 'x lsi \<Rightarrow> 'x lsi option" where
  "ram_set i v s =
     (case g_ram s of None \<Rightarrow> None | Some m \<Rightarrow> if uint i < g_ram_bytes s then Some (s\<lparr>g_ram := Some (m(i := v))\<rparr>) else None)"

definition halt_get :: "u32 \<Rightarrow> 'x lsi \<Rightarrow> u8 option" where
  "halt_get i s =
     (case g_vm2_halt_ram s of None \<Rightarrow> None | Some m \<Rightarrow> if uint i < g_vm2_halt_ram_bytes s then Some (m i) else None)"

definition halt_set :: "u32 \<Rightarrow> u8 \<Rightarrow> 'x lsi \<Rightarrow> 'x lsi option" where
  "halt_set i v s =
     (case g_vm2_halt_ram s of None \<Rightarrow> None
      | Some m \<Rightarrow> if uint i < g_vm2_halt_ram_bytes s then Some (s\<lparr>g_vm2_halt_ram := Some (m(i := v))\<rparr>) else None)"

definition word_of :: "u8 \<Rightarrow> u8 \<Rightarrow> u16" where
  "word_of lo hi = ucast lo OR push_bit 8 (ucast hi)"

definition bus_read8 :: "'x other_devs \<Rightarrow> u32 \<Rightarrow> 'x lsi \<Rightarrow> (u8 \<times> 'x lsi) option" where
  "bus_read8 e addr s =
     (case io_decode_addr addr s of
        Some io_addr \<Rightarrow> Some (devio_read8 e io_addr s)
      | None \<Rightarrow> if bus_addr_is_ram addr s then map_option (\<lambda>v. (v, s)) (ram_get addr s) else Some (0, s))"

definition bus_write8 :: "'x other_devs \<Rightarrow> u32 \<Rightarrow> u8 \<Rightarrow> 'x lsi \<Rightarrow> 'x lsi option" where
  "bus_write8 e addr v s =
     (case io_decode_addr addr s of
        Some io_addr \<Rightarrow> Some (devio_write8 e io_addr v s)
      | None \<Rightarrow> if bus_addr_is_ram addr s then ram_set addr v s else Some s)"

definition bus_read16 :: "'x other_devs \<Rightarrow> u32 \<Rightarrow> 'x lsi \<Rightarrow> (u16 \<times> 'x lsi) option" where
  "bus_read16 e addr s =
     (case io_decode_addr addr s of
        Some io_addr \<Rightarrow>
          (let (lo, s) = devio_read8 e io_addr s; (hi, s) = devio_read8 e (io_addr + 1) s in Some (word_of lo hi, s))
      | None \<Rightarrow>
          if bus_addr_is_ram addr s
          then do { lo \<leftarrow> ram_get addr s; hi \<leftarrow> ram_get (addr + 1) s; Some (word_of lo hi, s) }
          else Some (0, s))"

definition bus_write16 :: "'x other_devs \<Rightarrow> u32 \<Rightarrow> u16 \<Rightarrow> 'x lsi \<Rightarrow> 'x lsi option" where
  "bus_write16 e addr v s =
     (case io_decode_addr addr s of
        Some io_addr \<Rightarrow>
          Some (devio_write8 e (io_addr + 1) (ucast (drop_bit 8 v AND 0xFF))
                  (devio_write8 e io_addr (ucast (v AND 0xFF)) s))
      | None \<Rightarrow>
          if bus_addr_is_ram addr s
          then do { s \<leftarrow> ram_set addr (ucast (v AND 0xFF)) s;
                    ram_set (addr + 1) (ucast (drop_bit 8 v AND 0xFF)) s }
          else Some s)"

section \<open>The two banks of a VM2\<close>

definition vm2_bankable_ram_addr :: "u16 \<Rightarrow> bool" where
  "vm2_bankable_ram_addr addr = (addr < 0xE000)"

definition bus_vm2_cpu_is_nxm :: "u16 \<Rightarrow> bool \<Rightarrow> 'x lsi \<Rightarrow> bool" where
  "bus_vm2_cpu_is_nxm addr halt_mode s =
     (if io_is_decoded (ucast addr) s then False
      else if \<not> bus_addr_is_ram (ucast addr) s then True
      else if \<not> vm2_bankable_ram_addr addr then False
      else if halt_mode then (if vm2_halt_bytes s = 0 then True else (ucast addr :: u32) \<ge> vm2_halt_bytes s)
      else (ucast addr :: u32) \<ge> vm2_user_bytes s)"

definition bus_vm2_cpu_read8 :: "'x other_devs \<Rightarrow> u16 \<Rightarrow> bool \<Rightarrow> 'x lsi \<Rightarrow> (u8 \<times> 'x lsi) option" where
  "bus_vm2_cpu_read8 e addr halt_mode s =
     (case io_decode_addr (ucast addr) s of
        Some io_addr \<Rightarrow> Some (devio_read8 e io_addr s)
      | None \<Rightarrow>
          if bus_vm2_cpu_is_nxm addr halt_mode s then Some (0, s)
          else if halt_mode \<and> vm2_bankable_ram_addr addr \<and> \<not> Option.is_none (g_vm2_halt_ram s)
          then map_option (\<lambda>v. (v, s)) (halt_get (ucast addr) s)
          else map_option (\<lambda>v. (v, s)) (ram_get (ucast addr) s))"

definition bus_vm2_cpu_write8 :: "'x other_devs \<Rightarrow> u16 \<Rightarrow> bool \<Rightarrow> u8 \<Rightarrow> 'x lsi \<Rightarrow> 'x lsi option" where
  "bus_vm2_cpu_write8 e addr halt_mode v s =
     (case io_decode_addr (ucast addr) s of
        Some io_addr \<Rightarrow> Some (devio_write8 e io_addr v s)
      | None \<Rightarrow>
          if bus_vm2_cpu_is_nxm addr halt_mode s then Some s
          else if halt_mode \<and> vm2_bankable_ram_addr addr \<and> \<not> Option.is_none (g_vm2_halt_ram s)
          then halt_set (ucast addr) v s
          else ram_set (ucast addr) v s)"

definition bus_vm2_cpu_read16 :: "'x other_devs \<Rightarrow> u16 \<Rightarrow> bool \<Rightarrow> 'x lsi \<Rightarrow> (u16 \<times> 'x lsi) option" where
  "bus_vm2_cpu_read16 e addr halt_mode s =
     do { (lo, s) \<leftarrow> bus_vm2_cpu_read8 e addr halt_mode s;
          (hi, s) \<leftarrow> bus_vm2_cpu_read8 e (addr + 1) halt_mode s;
          Some (word_of lo hi, s) }"

definition bus_vm2_cpu_write16 :: "'x other_devs \<Rightarrow> u16 \<Rightarrow> bool \<Rightarrow> u16 \<Rightarrow> 'x lsi \<Rightarrow> 'x lsi option" where
  "bus_vm2_cpu_write16 e addr halt_mode v s =
     do { s \<leftarrow> bus_vm2_cpu_write8 e addr halt_mode (ucast (v AND 0xFF)) s;
          bus_vm2_cpu_write8 e (addr + 1) halt_mode (ucast (drop_bit 8 v AND 0xFF)) s }"

text \<open>The host address of a RAM byte, as an index into the array.\<close>

definition bus_ram_ptr :: "u32 \<Rightarrow> 'x lsi \<Rightarrow> u32 option" where
  "bus_ram_ptr addr s = (if bus_addr_is_ram addr s then Some addr else None)"

end
