(* ===== verification/LsiMemory.thy ===== *)
theory LsiMemory
  imports LsiBus
begin

text \<open>
  What the bus promises: no access leaves the allocated arrays, memory is memory (a read
  gives what was written there and writes disturb nothing else), a word is two bytes, every
  address is a device, RAM or nothing, the two banks of a VM2 are separate, and the UNIBUS
  map keeps 22-bit even addresses.
\<close>

section \<open>A concrete machine\<close>

text \<open>A machine without the unmodelled devices: the input of the witnesses.\<close>

definition no_others :: "unit other_devs" where
  "no_others = \<lparr>o_read8 = (\<lambda>d a s. (0, s)), o_write8 = (\<lambda>d a v s. s),
     o_irq = (\<lambda>d n. \<lparr>irq_vector = 0, irq_priority = 0, irq_pending = Some (\<lambda>s. False), irq_ack = Some (\<lambda>s. s)\<rparr>),
     o_init = (\<lambda>d s. (0, s)), o_reset = (\<lambda>d s. s), o_poll = (\<lambda>d s. s), o_shutdown = (\<lambda>d s. s),
     o_term_opens = True, o_kw11_steps = None\<rparr>"

definition blank_lsi :: "unit lsi" where
  "blank_lsi = (let l = \<lparr>l_done = False, l_ie = False, irq_req = False, irq_armed = False\<rparr> in
     \<lparr>g_machine = BUS_MACHINE_LSI11_1104, g_ram_kb = 56, g_ram = None, g_ram_bytes = 0, vm2_user_bytes = 0x10000, vm2_halt_bytes = 0,
      g_vm2_halt_ram = None, g_vm2_halt_ram_bytes = 0, g_pdp1184_io_16bit = True, g_pdp1184_m22e = False, g_ranges = [], g_irq = [],
      ubmap_regs = (\<lambda>i. 0), ubmap_registered = False, ubmap_enabled_flag = False, dl = zero_dl11, lp = l, kw = zero_kw11, sr = 0,
      vmsel = \<lparr>reg_sel1_in = 0, reg_sel1_out = 0, reg_sel2_in = 0, reg_sel2_out = 0\<rparr>, vmsav = \<lparr>reg_old_pc = 0, reg_old_psw = 0\<rparr>,
      tty = \<lparr>t_in = [], t_out = []\<rparr>, machine_profile = LSI11_MACHINE_1104, machine_ram_kb = 56, dl11_alias_on = True,
      term_raw_active = False,
      device_mask = \<lparr>m_dl11 = True, m_dz11 = True, m_kw11 = True, m_lp11 = True, m_rl11 = True, m_rk11 = True, m_rh11 = True,
         m_rq11 = False, m_xp11 = False, m_tq11 = False, m_sr = True, m_vm1sel = False, m_vm1sav = False\<rparr>,
      others = ()\<rparr>)"

section \<open>No access leaves the arrays\<close>

text \<open>The machine after \<^verbatim>\<open>bus_configure\<close>, \<^verbatim>\<open>bus_vm2_configure\<close> and \<^verbatim>\<open>bus_init\<close>.\<close>

definition bus_ok :: "'x lsi \<Rightarrow> bool" where
  "bus_ok s =
     (g_ram s \<noteq> None \<and> g_ram_bytes s = uint (g_ram_kb s) * 1024 \<and>
      (g_machine s = BUS_MACHINE_LSI11_1104 \<longrightarrow> g_ram_kb s = 56) \<and>
      (g_vm2_halt_ram s \<noteq> None \<longrightarrow> g_vm2_halt_ram_bytes s = uint (vm2_halt_bytes s)))"

text \<open>The addresses the processor of the machine can put on the bus.\<close>

definition bus_addr_ok :: "u32 \<Rightarrow> 'x lsi \<Rightarrow> bool" where
  "bus_addr_ok a s = (g_machine s = BUS_MACHINE_LSI11_1104 \<longrightarrow> a \<le> 0xFFFF)"

lemma bus_ok_init:
  assumes "g_machine s = BUS_MACHINE_LSI11_1104 \<longrightarrow> g_ram_kb s = 56"
  shows "bus_ok (bus_init s)"
  using assms by (auto simp: bus_ok_def bus_init_def Let_def)

lemma low_16: "(a :: u32) \<le> 0xFFFF \<Longrightarrow> uint (ucast a :: u16) = uint a"
  by (simp add: unsigned_ucast_eq take_bit_eq_mod word_le_def)

lemma ram_in_bounds:
  assumes "bus_ok s" "bus_addr_ok a s" "bus_addr_is_ram a s"
  shows "uint a < g_ram_bytes s"
  using assms low_16[of a]
  by (auto simp: bus_ok_def bus_addr_ok_def bus_addr_is_ram_def word_le_def split: if_splits)

lemma ram_decoded: "bus_addr_is_ram a s \<Longrightarrow> io_decode_addr a s = None"
  by (auto simp: bus_addr_is_ram_def io_is_decoded_def split: if_splits)

lemma ram_access:
  assumes "bus_ok s" "bus_addr_ok a s" "bus_addr_is_ram a s"
  obtains m where "g_ram s = Some m" "uint a < g_ram_bytes s"
    "bus_read8 e a s = Some (m a, s)" "bus_write8 e a v s = Some (s\<lparr>g_ram := Some (m(a := v))\<rparr>)"
proof -
  obtain m where m: "g_ram s = Some m" using assms(1) by (auto simp: bus_ok_def)
  note b = ram_in_bounds[OF assms]
  show ?thesis
    by (rule that[OF m b]) (simp_all add: bus_read8_def bus_write8_def ram_decoded[OF assms(3)] assms(3) ram_get_def ram_set_def m b)
qed

text \<open>An even RAM address is followed by a RAM address.\<close>

lemma even_next_word:
  assumes "even (uint (a :: u32))"
  shows "uint (a + 1) = uint a + 1"
proof -
  have "uint a < 4294967296" using uint_lt2p[of a] by simp
  moreover have "uint a \<noteq> 4294967295" using assms by presburger
  ultimately show "uint (a + 1) = uint a + 1" by (simp add: uint_plus_if')
qed

lemma even_next_ram:
  assumes "bus_ok s" "bus_addr_ok a s" "bus_addr_is_ram a s" "even (uint a)"
  shows "uint (a + 1) < g_ram_bytes s"
proof -
  have "g_ram_bytes s mod 2 = 0" using assms(1) by (auto simp: bus_ok_def)
  then show ?thesis using assms(4) ram_in_bounds[OF assms(1-3)] even_next_word[OF assms(4)] by presburger
qed

text \<open>C20: No access of the bus leaves the allocated memory: on a configured machine every byte access, and every word access at an even address, of every address the processor can issue is defined.\<close>
theorem bus_accesses_defined:
  assumes "bus_ok s" "bus_addr_ok a s"
  shows "bus_read8 e a s \<noteq> None \<and> bus_write8 e a v s \<noteq> None \<and>
    (even (uint a) \<longrightarrow> bus_read16 e a s \<noteq> None \<and> bus_write16 e a w s \<noteq> None)"
proof (cases "bus_addr_is_ram a s")
  case False
  then show ?thesis by (auto simp: bus_read8_def bus_write8_def bus_read16_def bus_write16_def Let_def split: option.splits prod.splits)
next
  case True
  obtain m where m: "g_ram s = Some m" "uint a < g_ram_bytes s" using ram_access[OF assms True] by metis
  have "uint (a + 1) < g_ram_bytes s" if "even (uint a)" using even_next_ram[OF assms True that] .
  then show ?thesis using m True
    by (auto simp: bus_read8_def bus_write8_def bus_read16_def bus_write16_def ram_decoded ram_get_def ram_set_def)
qed

theorem bus_accesses_defined_witness:
  "bus_write16 no_others 0x1000 0x1234 (bus_init blank_lsi) \<noteq> None"
  using bus_accesses_defined[of "bus_init blank_lsi" "0x1000" no_others 0 "0x1234"]
  by (simp add: bus_ok_init bus_addr_ok_def blank_lsi_def Let_def)

section \<open>Memory is memory\<close>

lemma decode_ram [simp]:
  "io_decode_addr a (s\<lparr>g_ram := x\<rparr>) = io_decode_addr a s" "bus_addr_is_ram a (s\<lparr>g_ram := x\<rparr>) = bus_addr_is_ram a s"
  "io_decode_addr a (s\<lparr>g_vm2_halt_ram := y\<rparr>) = io_decode_addr a s"
  "bus_addr_is_ram a (s\<lparr>g_vm2_halt_ram := y\<rparr>) = bus_addr_is_ram a s"
proof -
  have [simp]: "devio_has x (s\<lparr>g_ram := m\<rparr>) = devio_has x s" "devio_has x (s\<lparr>g_vm2_halt_ram := m\<rparr>) = devio_has x s" for x m
    by (simp_all add: devio_has_def)
  show "io_decode_addr a (s\<lparr>g_ram := x\<rparr>) = io_decode_addr a s" "io_decode_addr a (s\<lparr>g_vm2_halt_ram := y\<rparr>) = io_decode_addr a s"
    by (cases "g_machine s"; simp add: io_decode_addr_def Let_def)+
  then show "bus_addr_is_ram a (s\<lparr>g_ram := x\<rparr>) = bus_addr_is_ram a s"
    "bus_addr_is_ram a (s\<lparr>g_vm2_halt_ram := y\<rparr>) = bus_addr_is_ram a s"
    by (simp_all add: bus_addr_is_ram_def io_is_decoded_def)
qed
lemma bus_ok_ram [simp]: "bus_ok (s\<lparr>g_ram := Some m\<rparr>) = (g_ram_bytes s = uint (g_ram_kb s) * 1024 \<and>
      (g_machine s = BUS_MACHINE_LSI11_1104 \<longrightarrow> g_ram_kb s = 56) \<and>
      (g_vm2_halt_ram s \<noteq> None \<longrightarrow> g_vm2_halt_ram_bytes s = uint (vm2_halt_bytes s)))"
  by (simp add: bus_ok_def)

lemma write_ok: "bus_ok s \<Longrightarrow> bus_ok (s\<lparr>g_ram := Some m\<rparr>)"
  by (simp add: bus_ok_def)

theorem bus_read_after_write:
  assumes "bus_ok s" "bus_addr_ok a s" "bus_addr_ok a' s" "bus_addr_is_ram a s" "bus_addr_is_ram a' s"
  shows "\<exists>s' v'. bus_write8 e a v s = Some s' \<and> bus_read8 e a s' = Some (v, s') \<and>
    (a' \<noteq> a \<longrightarrow> bus_read8 e a' s = Some (v', s) \<and> bus_read8 e a' s' = Some (v', s'))"
proof -
  obtain m where m: "g_ram s = Some m" "uint a < g_ram_bytes s" using ram_access[OF assms(1,2,4)] by metis
  have b': "uint a' < g_ram_bytes s" using ram_in_bounds[OF assms(1,3,5)] .
  note d = ram_decoded[OF assms(4)] ram_decoded[OF assms(5)]
  show ?thesis
    using assms(4,5) m b' by (simp add: bus_read8_def bus_write8_def d ram_get_def ram_set_def)
qed

text \<open>A word of RAM is its two bytes, the low one at the even address.\<close>

lemma word_of_bytes [simp]: "word_of (ucast w) (ucast (drop_bit 8 w)) = w"
  unfolding word_of_def by (simp only: u16_eq_bits) (simp add: bit_simps)

text \<open>A word access of RAM is the two byte accesses, low byte at the even address, for reads and for writes, and a word read back is the word written.\<close>
theorem bus_word_is_two_bytes:
  assumes "bus_ok s" "bus_addr_ok a s" "bus_addr_is_ram a s" "bus_addr_is_ram (a + 1) s" "bus_addr_ok (a + 1) s" "even (uint a)"
  shows "\<exists>lo hi s1 s2. bus_read8 e a s = Some (lo, s) \<and> bus_read8 e (a + 1) s = Some (hi, s) \<and>
    bus_read16 e a s = Some (word_of lo hi, s) \<and>
    bus_write8 e a (ucast w) s = Some s1 \<and> bus_write8 e (a + 1) (ucast (drop_bit 8 w)) s1 = Some s2 \<and>
    bus_write16 e a w s = Some s2 \<and> bus_read16 e a s2 = Some (w, s2)"
proof -
  obtain m where m: "g_ram s = Some m" "uint a < g_ram_bytes s" using ram_access[OF assms(1-3)] by metis
  have b: "uint (a + 1) < g_ram_bytes s" using ram_in_bounds[OF assms(1,5,4)] .
  note d = ram_decoded[OF assms(3)] ram_decoded[OF assms(4)]
  show ?thesis
    using assms(3,4) m b
    by (simp add: bus_read8_def bus_write8_def bus_read16_def bus_write16_def d ram_get_def ram_set_def low_bytes)
qed

theorem bus_word_is_two_bytes_witness:
  "\<exists>s2. bus_write16 no_others 0x1000 0x1234 (bus_init blank_lsi) = Some s2 \<and> bus_read16 no_others 0x1000 s2 = Some (0x1234, s2)"
proof -
  have "bus_addr_is_ram 0x1000 (bus_init blank_lsi)" "bus_addr_is_ram (0x1000 + 1) (bus_init blank_lsi)" by code_simp+
  then show ?thesis
    using bus_word_is_two_bytes[of "bus_init blank_lsi" "0x1000" no_others "0x1234"]
    by (auto simp: bus_ok_init bus_addr_ok_def blank_lsi_def Let_def)
qed

section \<open>Device, RAM or nothing\<close>

text \<open>Every address is exactly one of the three.\<close>

lemma io_page_or: "(0xE000 :: u16) \<le> 0xE000 OR x"
  by (simp add: le_word_or2)

theorem bus_address_classes:
  "case io_decode_addr a s of
     None \<Rightarrow> bus_addr_is_ram a s \<noteq> bus_is_nxm a s
   | Some io \<Rightarrow> \<not> bus_addr_is_ram a s \<and> \<not> bus_is_nxm a s \<and> 0xE000 \<le> io \<and> devio_has io s"
proof (cases "io_decode_addr a s")
  case None
  then show ?thesis by (simp add: bus_is_nxm_def io_is_decoded_def)
next
  case (Some io)
  then have "0xE000 \<le> io \<and> devio_has io s"
    by (auto simp: io_decode_addr_def io_alias_def io_page_or Let_def not_less split: if_splits bus_machine_t.splits)
  then show ?thesis using Some by (simp add: bus_is_nxm_def bus_addr_is_ram_def io_is_decoded_def)
qed

section \<open>The banks of a VM2\<close>

lemma vm2_low:
  fixes x :: u16
  assumes "x < 0xE000" "g_machine t = BUS_MACHINE_LSI11_1104"
  shows "io_decode_addr (ucast x) t = None" "bus_addr_is_ram (ucast x) t"
    "bus_vm2_cpu_is_nxm x h t = (if h then vm2_halt_bytes t = 0 \<or> ucast x \<ge> vm2_halt_bytes t else ucast x \<ge> vm2_user_bytes t)"
proof -
  show d: "io_decode_addr (ucast x) t = None" using assms(1) by (simp add: io_decode_addr_def wide16)
  show r: "bus_addr_is_ram (ucast x) t"
    using assms by (simp add: bus_addr_is_ram_def io_is_decoded_def d wide16 word_le_nat_alt word_less_nat_alt)
  show "bus_vm2_cpu_is_nxm x h t = (if h then vm2_halt_bytes t = 0 \<or> ucast x \<ge> vm2_halt_bytes t else ucast x \<ge> vm2_user_bytes t)"
    using assms(1) by (simp add: bus_vm2_cpu_is_nxm_def io_is_decoded_def d r vm2_bankable_ram_addr_def)
qed

text \<open>The bank an access goes to, as an access to one array.\<close>

lemma vm2_access:
  assumes "x < 0xE000" "g_machine t = BUS_MACHINE_LSI11_1104" "\<not> bus_vm2_cpu_is_nxm x h t" "g_vm2_halt_ram t \<noteq> None"
  shows "bus_vm2_cpu_read8 e x h t = map_option (\<lambda>v. (v, t)) (if h then halt_get (ucast x) t else ram_get (ucast x) t)"
    "bus_vm2_cpu_write8 e x h v t = (if h then halt_set (ucast x) v t else ram_set (ucast x) v t)"
  using assms vm2_low(1)[OF assms(1,2)]
  by (simp_all add: bus_vm2_cpu_read8_def bus_vm2_cpu_write8_def vm2_bankable_ram_addr_def Option.is_none_def)

lemma vm2_nxm_access:
  assumes "x < 0xE000" "g_machine t = BUS_MACHINE_LSI11_1104" "bus_vm2_cpu_is_nxm x h t"
  shows "bus_vm2_cpu_read8 e x h t = Some (0, t)" "bus_vm2_cpu_write8 e x h v t = Some t"
  using assms vm2_low(1)[OF assms(1,2)] by (simp_all add: bus_vm2_cpu_read8_def bus_vm2_cpu_write8_def)

text \<open>C21: The USER and the HALT memory of a VM2 are separate: a write in one mode leaves every read in the other mode as it was, and is read back in its own mode whenever the address exists there.\<close>
theorem vm2_banks_separate:
  assumes "g_machine s = BUS_MACHINE_LSI11_1104" "g_vm2_halt_ram s \<noteq> None"
    and w: "bus_vm2_cpu_write8 e a h v s = Some s'" and a: "a < 0xE000" "a' < 0xE000"
  shows "map_option fst (bus_vm2_cpu_read8 e a' (\<not> h) s') = map_option fst (bus_vm2_cpu_read8 e a' (\<not> h) s) \<and>
    (\<not> bus_vm2_cpu_is_nxm a h s \<longrightarrow> bus_vm2_cpu_read8 e a h s' = Some (v, s'))"
proof (cases "bus_vm2_cpu_is_nxm a h s")
  case True
  then have "s' = s" using w vm2_nxm_access(2)[OF a(1) assms(1) True, of e v] by simp
  then show ?thesis using True by simp
next
  case False
  have s': "g_machine s' = g_machine s" "vm2_halt_bytes s' = vm2_halt_bytes s" "vm2_user_bytes s' = vm2_user_bytes s"
    "g_vm2_halt_ram s' \<noteq> None" "halt_get i s' = (if h \<and> i = ucast a then Some v else halt_get i s)"
    "ram_get i s' = (if \<not> h \<and> i = ucast a then Some v else ram_get i s)" for i
    using w assms(2) unfolding vm2_access(2)[OF a(1) assms(1) False assms(2)]
    by (auto simp: halt_set_def ram_set_def halt_get_def ram_get_def split: if_splits option.splits)
  have m': "g_machine s' = BUS_MACHINE_LSI11_1104" using s'(1) assms(1) by simp
  have nxm: "bus_vm2_cpu_is_nxm x k s' = bus_vm2_cpu_is_nxm x k s" if "x < 0xE000" for x k
    by (simp only: vm2_low(3)[OF that m'] vm2_low(3)[OF that assms(1)] s'(2,3))
  have "map_option fst (bus_vm2_cpu_read8 e a' (\<not> h) s') = map_option fst (bus_vm2_cpu_read8 e a' (\<not> h) s)"
  proof (cases "bus_vm2_cpu_is_nxm a' (\<not> h) s")
    case True
    then show ?thesis using vm2_nxm_access(1)[OF a(2) assms(1) True] vm2_nxm_access(1)[OF a(2) m', of "\<not> h"] nxm[OF a(2)] by simp
  next
    case False
    then show ?thesis
      using vm2_access(1)[OF a(2) assms(1) False assms(2)] vm2_access(1)[OF a(2) m' _ s'(4), of "\<not> h"] nxm[OF a(2)] s'(5,6)
      by (simp add: option.map_comp comp_def)
  qed
  moreover have "bus_vm2_cpu_read8 e a h s' = Some (v, s')"
    using vm2_access(1)[OF a(1) m' _ s'(4), of h] nxm[OF a(1)] False s'(5,6) by simp
  ultimately show ?thesis by simp
qed

theorem vm2_banks_separate_witness:
  "\<exists>s s'. bus_vm2_cpu_write8 no_others 0x100 True 7 s = Some s' \<and> bus_vm2_cpu_read8 no_others 0x100 True s' = Some (7, s') \<and>
     map_option fst (bus_vm2_cpu_read8 no_others 0x100 False s') = Some 0"
proof -
  define s where "s = bus_init (blank_lsi\<lparr>vm2_halt_bytes := 0x1000\<rparr>)"
  have "map_option (\<lambda>_. ()) (bus_vm2_cpu_write8 no_others 0x100 True 7 s) = Some ()" "\<not> bus_vm2_cpu_is_nxm 0x100 True s"
    "g_machine s = BUS_MACHINE_LSI11_1104" "\<not> Option.is_none (g_vm2_halt_ram s)"
    "map_option fst (bus_vm2_cpu_read8 no_others 0x100 False s) = Some 0" unfolding s_def by code_simp+
  then show ?thesis
    using vm2_banks_separate[of s no_others "0x100" True 7 _ "0x100"] by (fastforce simp: Option.is_none_def)
qed

section \<open>UNIBUS map\<close>

definition ubmap_ok :: "'x lsi \<Rightarrow> bool" where
  "ubmap_ok s = (\<forall>i. ubmap_regs s i AND 0x3FFFFE = ubmap_regs s i)"

lemma ubm_address:
  assumes "entry < 32" "k < 4"
  shows "unat (drop_bit 2 (UBM_BASE + of_nat (4 * entry) + of_nat k - UBM_BASE)) = entry"
    "(UBM_BASE + of_nat (4 * entry) + of_nat k - UBM_BASE) AND 3 = of_nat k"
proof -
  have e: "UBM_BASE + of_nat (4 * entry) + of_nat k - UBM_BASE = of_nat (4 * entry + k)" by simp
  have u: "unat (of_nat (4 * entry + k) :: u16) = 4 * entry + k"
    using assms by (simp only: unat_of_nat) (simp add: take_bit_eq_mod)
  have m: "(3 :: u16) = mask 2" by (simp add: mask_eq_exp_minus_1)
  have "unat (w AND 3) = unat w mod 4" for w :: u16
    by (simp only: m take_bit_eq_mask[symmetric] unsigned_take_bit_eq) (simp add: take_bit_eq_mod)
  then have "unat (of_nat (4 * entry + k) AND 3 :: u16) = unat (of_nat k :: u16)"
    using assms(2) u by (simp add: unat_of_nat take_bit_eq_mod del: of_nat_add of_nat_mult)
  then show "(UBM_BASE + of_nat (4 * entry) + of_nat k - UBM_BASE) AND 3 = of_nat k"
    unfolding e by (simp only: word_unat_eq_iff)
  show "unat (drop_bit 2 (UBM_BASE + of_nat (4 * entry) + of_nat k - UBM_BASE)) = entry"
    unfolding e using assms(2) u by (simp add: unat_drop_bit_eq drop_bit_eq_div[where 'a = nat] del: of_nat_add of_nat_mult)
qed

lemma ubm_lanes:
  assumes "entry < 32"
  defines "base \<equiv> UBM_BASE + of_nat (4 * entry)"
  shows "ubmap_read8 base s = ucast (ubmap_regs s entry AND 0xFE)"
    "ubmap_read8 (base + 1) s = ucast (drop_bit 8 (ubmap_regs s entry) AND 0xFF)"
    "ubmap_read8 (base + 2) s = ucast (drop_bit 16 (ubmap_regs s entry) AND 0x3F)"
    "ubmap_write8 base v s = ubmap_put entry ((ubmap_regs s entry AND NOT 0xFF) OR ucast (v AND 0xFE)) s"
    "ubmap_write8 (base + 1) v s = ubmap_put entry ((ubmap_regs s entry AND NOT 0xFF00) OR push_bit 8 (ucast v)) s"
    "ubmap_write8 (base + 2) v s = ubmap_put entry ((ubmap_regs s entry AND NOT 0x3F0000) OR push_bit 16 (ucast v AND 0x3F)) s"
  using ubm_address[OF assms(1), of 0] ubm_address[OF assms(1), of 1] ubm_address[OF assms(1), of 2]
  by (simp_all only: ubmap_read8_def ubmap_write8_def Let_def base_def of_nat_0 of_nat_1 of_nat_numeral add_0_right) simp_all

text \<open>What a map register holds after its three bytes are written, and what its bytes read.\<close>

definition ubm_value :: "u8 \<Rightarrow> u8 \<Rightarrow> u8 \<Rightarrow> u32" where
  "ubm_value b0 b1 b2 = ucast (b0 AND 0xFE) OR push_bit 8 (ucast b1) OR push_bit 16 (ucast (b2 AND 0x3F))"

lemma ubm_value_written:
  "((((((((v AND NOT 0xFF) OR ucast (b0 AND 0xFE)) AND PDP11_22BIT_PHYS_MASK) AND NOT 1) AND NOT 0xFF00) OR push_bit 8 (ucast b1))
      AND PDP11_22BIT_PHYS_MASK) AND NOT 1 AND NOT 0x3F0000 OR push_bit 16 (ucast b2 AND 0x3F)) AND PDP11_22BIT_PHYS_MASK AND NOT 1 =
   ubm_value b0 b1 b2"
  unfolding ubm_value_def by (simp only: u32_eq_bits) (simp add: bit_simps)

lemma ubm_value_lanes:
  "ucast (ubm_value b0 b1 b2 AND 0xFE) = b0 AND 0xFE" "ucast (drop_bit 8 (ubm_value b0 b1 b2) AND 0xFF) = b1"
  "ucast (drop_bit 16 (ubm_value b0 b1 b2) AND 0x3F) = b2 AND 0x3F"
  unfolding ubm_value_def by (simp only: u8_eq_bits; simp add: bit_simps)+

text \<open>The registers of the UNIBUS map: writing the three byte lanes of an entry stores the 22-bit even address they form, leaves the other entries, and the lanes are read back without the unimplemented bits.\<close>
theorem ubmap_registers:
  assumes "entry < 32"
  shows "let base = UBM_BASE + of_nat (4 * entry);
      s' = ubmap_write8 (base + 2) b2 (ubmap_write8 (base + 1) b1 (ubmap_write8 base b0 s))
    in ubmap_regs s' = (ubmap_regs s)(entry := ubm_value b0 b1 b2) \<and>
       ubmap_read8 base s' = b0 AND 0xFE \<and> ubmap_read8 (base + 1) s' = b1 \<and> ubmap_read8 (base + 2) s' = b2 AND 0x3F"
proof -
  have "ubmap_regs (ubmap_write8 (UBM_BASE + of_nat (4 * entry) + 2) b2 (ubmap_write8 (UBM_BASE + of_nat (4 * entry) + 1) b1
      (ubmap_write8 (UBM_BASE + of_nat (4 * entry)) b0 s))) = (ubmap_regs s)(entry := ubm_value b0 b1 b2)"
    unfolding ubm_lanes[OF assms] using ubm_value_written[of "ubmap_regs s entry" b0 b1 b2] by (simp add: ubmap_put_def and.assoc)
  then show ?thesis unfolding Let_def ubm_lanes(1-3)[OF assms] by (simp add: ubm_value_lanes)
qed

theorem ubmap_registers_witness:
  "ubmap_regs (ubmap_write8 (UBM_BASE + of_nat (4 * 3) + 2) 0xFF (ubmap_write8 (UBM_BASE + of_nat (4 * 3) + 1) 0x12
      (ubmap_write8 (UBM_BASE + of_nat (4 * 3)) 0x35 (undefined :: unit lsi)))) 3 = 0x3F1234"
proof -
  have "ubm_value 0x35 0x12 0xFF = 0x3F1234" by (simp add: ubm_value_def)
  then show ?thesis using ubmap_registers[of 3 "0xFF" "0x12" "0x35" "undefined :: unit lsi"] unfolding Let_def by simp
qed

text \<open>Mapped addresses have 22 bits, and page 31 is always the I/O page.\<close>

text \<open>Every UNIBUS address is mapped into the 22-bit physical address space, and with the map enabled the last page is mapped to the I/O page, to the same device register.\<close>
theorem ubmap_range:
  "ubmap_map_addr ua s < 0x400000 \<and>
   (if ubmap_enabled_flag s \<and> g_machine s = BUS_MACHINE_PDP1184 \<and> drop_bit 13 ua AND 0x1F = 0x1F
    then in_22bit_io (ubmap_map_addr ua s) \<and> io_alias (ubmap_map_addr ua s) = 0xE000 OR ucast ua else True)"
proof -
  have m: "x AND PDP11_22BIT_PHYS_MASK < 0x400000" "x AND 0x3FFFF < 0x400000" for x :: u32
    by (rule le_less_trans[OF word_and_le1]; simp)+
  have sum: "(0x3FE000 + (ua AND 0x1FFF)) AND PDP11_22BIT_PHYS_MASK = 0x3FE000 OR (ua AND 0x1FFF)"
  proof -
    have "(0x3FE000 :: u32) AND (ua AND 0x1FFF) = 0" by (simp only: u32_eq_bits) (simp add: bit_simps)
    then have "0x3FE000 + (ua AND 0x1FFF) = 0x3FE000 OR (ua AND 0x1FFF)" by (rule disjunctive_add_eq_or)
    moreover have "(0x3FE000 OR (ua AND 0x1FFF)) AND PDP11_22BIT_PHYS_MASK = 0x3FE000 OR (ua AND 0x1FFF)"
      by (simp only: u32_eq_bits) (simp add: bit_simps)
    ultimately show ?thesis by simp
  qed
  have io: "in_22bit_io (0x3FE000 OR (ua AND 0x1FFF))"
  proof -
    have "(0x3FE000 OR (ua AND 0x1FFF)) AND PDP11_22BIT_PHYS_MASK = 0x3FE000 OR (ua AND 0x1FFF)"
      by (simp only: u32_eq_bits) (simp add: bit_simps)
    then have "0x3FE000 OR (ua AND 0x1FFF) \<le> PDP11_22BIT_PHYS_MASK" by (metis word_and_le1)
    then show ?thesis by (simp add: in_22bit_io_def le_word_or2)
  qed
  have alias_ua: "io_alias (0x3FE000 OR (ua AND 0x1FFF)) = 0xE000 OR ucast ua" if "drop_bit 13 ua AND 0x1F = 0x1F"
    unfolding io_alias_def using that by (simp only: u16_eq_bits u32_eq_bits) (simp add: bit_simps)
  show ?thesis using m m(1)[of "0x3FE000 + (ua AND 0x1FFF)", unfolded sum] sum io alias_ua by (simp add: ubmap_map_addr_def Let_def)
qed

end
