(* ===== verification/LsiMachine.thy ===== *)
theory LsiMachine
  imports LsiMemory Traps
begin

text \<open>
  The LSI-11 machine around the processor (lsi11/adapter\_core.c and the two functions of
  lsi11/main.c that copy MMU settings to the bus): configuration, initialisation and reset of
  the devices, the callbacks the processor is connected to, the delivery of interrupts, and
  the polls between steps. The traces are not modelled.
\<close>

section \<open>Configuration\<close>

definition lsi11_reset_device_mask_for_profile :: "'x lsi \<Rightarrow> 'x lsi" where
  "lsi11_reset_device_mask_for_profile s =
     s\<lparr>device_mask :=
        \<lparr>m_dl11 = True, m_dz11 = True, m_kw11 = True, m_lp11 = True, m_rl11 = True, m_rk11 = True, m_rh11 = True,
         m_rq11 = False, m_xp11 = False, m_tq11 = False, m_sr = True, m_vm1sel = False, m_vm1sav = False\<rparr>\<rparr>"

definition lsi11_machine_configure :: "lsi11_machine_t \<Rightarrow> u32 \<Rightarrow> 'x lsi \<Rightarrow> int \<times> 'x lsi" where
  "lsi11_machine_configure machine ram_kb s =
     (case machine of
        LSI11_MACHINE_1104 \<Rightarrow>
          (let (rc, s) = bus_configure BUS_MACHINE_LSI11_1104 0 s
           in if rc \<noteq> 0 then (rc, s)
              else (0, lsi11_reset_device_mask_for_profile
                         (s\<lparr>machine_profile := LSI11_MACHINE_1104, machine_ram_kb := g_ram_kb s, dl11_alias_on := True\<rparr>)))
      | LSI11_MACHINE_1184 \<Rightarrow>
          (let (rc, s) = bus_configure BUS_MACHINE_PDP1184 ram_kb s
           in if rc \<noteq> 0 then (rc, s)
              else (0, lsi11_reset_device_mask_for_profile
                         (s\<lparr>machine_profile := LSI11_MACHINE_1184, machine_ram_kb := g_ram_kb s, dl11_alias_on := False\<rparr>))))"

definition lsi11_set_dl11_alias :: "bool \<Rightarrow> 'x lsi \<Rightarrow> 'x lsi" where
  "lsi11_set_dl11_alias on s = s\<lparr>dl11_alias_on := on\<rparr>"

definition lsi11_set_device_enabled :: "string option \<Rightarrow> bool \<Rightarrow> 'x lsi \<Rightarrow> int \<times> 'x lsi" where
  "lsi11_set_device_enabled name v s =
     (case name of
        None \<Rightarrow> (-1, s)
      | Some n \<Rightarrow>
          (let m = device_mask s; put = (\<lambda>m. (0, s\<lparr>device_mask := m\<rparr>))
           in if n = ''dl11'' then put (m\<lparr>m_dl11 := v\<rparr>)
              else if n = ''dz11'' \<or> n = ''dz'' then put (m\<lparr>m_dz11 := v\<rparr>)
              else if n = ''kw11'' then put (m\<lparr>m_kw11 := v\<rparr>)
              else if n = ''lp11'' then put (m\<lparr>m_lp11 := v\<rparr>)
              else if n = ''rl11'' then put (m\<lparr>m_rl11 := v\<rparr>)
              else if n = ''rk11'' then put (m\<lparr>m_rk11 := v\<rparr>)
              else if n = ''rh11'' then put (m\<lparr>m_rh11 := v\<rparr>)
              else if n = ''rq11'' \<or> n = ''rq'' then put (m\<lparr>m_rq11 := v\<rparr>)
              else if n = ''xp11'' \<or> n = ''xp'' \<or> n = ''rp'' then put (m\<lparr>m_xp11 := v\<rparr>)
              else if n = ''tq11'' then put (m\<lparr>m_tq11 := v\<rparr>)
              else if n = ''sr'' then put (m\<lparr>m_sr := v\<rparr>)
              else if n = ''vm1sel'' then put (m\<lparr>m_vm1sel := v\<rparr>)
              else if n = ''vm1sav'' then put (m\<lparr>m_vm1sav := v\<rparr>)
              else (-1, s)))"

definition lsi11_device_enabled :: "string option \<Rightarrow> 'x lsi \<Rightarrow> bool" where
  "lsi11_device_enabled name s =
     (case name of
        None \<Rightarrow> False
      | Some n \<Rightarrow>
          (let m = device_mask s
           in if n = ''dl11'' then m_dl11 m
              else if n = ''dz11'' \<or> n = ''dz'' then m_dz11 m
              else if n = ''kw11'' then m_kw11 m
              else if n = ''lp11'' then m_lp11 m
              else if n = ''rl11'' then m_rl11 m
              else if n = ''rk11'' then m_rk11 m
              else if n = ''rh11'' then m_rh11 m
              else if n = ''rq11'' \<or> n = ''rq'' then m_rq11 m
              else if n = ''xp11'' \<or> n = ''xp'' \<or> n = ''rp'' then m_xp11 m
              else if n = ''tq11'' then m_tq11 m
              else if n = ''sr'' then m_sr m
              else if n = ''vm1sel'' then m_vm1sel m
              else if n = ''vm1sav'' then m_vm1sav m
              else False))"

section \<open>Bus callbacks of the processor\<close>

definition vm2_halt_mode :: "'x lsi regs \<Rightarrow> bool" where
  "vm2_halt_mode r = (is_vm2 r \<and> psw r AND FLAG_H \<noteq> 0)"

definition nxm_addr_is_iopage :: "u32 \<Rightarrow> bool" where
  "nxm_addr_is_iopage addr = (in_18bit_io addr \<or> in_22bit_io addr)"

text \<open>The bus error trap of the core, which the callbacks call.\<close>

type_synonym 'x bus_error = "'x lsi regs \<Rightarrow> 'x lsi regs option"

definition nxm_trap :: "'x bus_error \<Rightarrow> u32 \<Rightarrow> 'x lsi regs \<Rightarrow> 'x lsi regs option" where
  "nxm_trap be addr r =
     be (if model r = DCJ11
         then r\<lparr>J11_CPUERR := (J11_CPUERR r OR (if nxm_addr_is_iopage addr then 0x10 else 0x20)) AND 0xFC\<rparr> else r)"

definition on_bus :: "('x lsi \<Rightarrow> ('a \<times> 'x lsi) option) \<Rightarrow> 'x lsi regs \<Rightarrow> ('a \<times> 'x lsi regs) option" where
  "on_bus f r = do { (v, s) \<leftarrow> f (mach r); Some (v, r\<lparr>mach := s\<rparr>) }"

definition to_bus :: "('x lsi \<Rightarrow> 'x lsi option) \<Rightarrow> 'x lsi regs \<Rightarrow> 'x lsi regs option" where
  "to_bus f r = do { s \<leftarrow> f (mach r); Some (r\<lparr>mach := s\<rparr>) }"

definition lsi_load_byte :: "'x other_devs \<Rightarrow> 'x bus_error \<Rightarrow> 'x lsi regs \<Rightarrow> u16 \<Rightarrow> (u8 \<times> 'x lsi regs) option" where
  "lsi_load_byte e be r addr =
     (if is_vm2 r then
        (if bus_vm2_cpu_is_nxm addr (vm2_halt_mode r) (mach r)
         then do { r \<leftarrow> nxm_trap be (ucast addr) r; Some (0, r) }
         else on_bus (bus_vm2_cpu_read8 e addr (vm2_halt_mode r)) r)
      else if bus_is_nxm (ucast addr) (mach r) then do { r \<leftarrow> nxm_trap be (ucast addr) r; Some (0, r) }
      else on_bus (bus_read8 e (ucast addr)) r)"

definition lsi_store_byte :: "'x other_devs \<Rightarrow> 'x bus_error \<Rightarrow> 'x lsi regs \<Rightarrow> u16 \<Rightarrow> u8 \<Rightarrow> 'x lsi regs option" where
  "lsi_store_byte e be r addr v =
     (if is_vm2 r then
        (if bus_vm2_cpu_is_nxm addr (vm2_halt_mode r) (mach r) then nxm_trap be (ucast addr) r
         else to_bus (bus_vm2_cpu_write8 e addr (vm2_halt_mode r) v) r)
      else if bus_is_nxm (ucast addr) (mach r) then nxm_trap be (ucast addr) r
      else to_bus (bus_write8 e (ucast addr) v) r)"

definition lsi_load_word :: "'x other_devs \<Rightarrow> 'x bus_error \<Rightarrow> 'x lsi regs \<Rightarrow> u16 \<Rightarrow> (u16 \<times> 'x lsi regs) option" where
  "lsi_load_word e be r addr =
     (if is_vm2 r then
        (if bus_vm2_cpu_is_nxm addr (vm2_halt_mode r) (mach r) \<or> bus_vm2_cpu_is_nxm (addr + 1) (vm2_halt_mode r) (mach r)
         then do { r \<leftarrow> nxm_trap be (ucast addr) r; Some (0, r) }
         else on_bus (bus_vm2_cpu_read16 e addr (vm2_halt_mode r)) r)
      else if bus_is_nxm (ucast addr) (mach r) \<or> bus_is_nxm (ucast addr + 1) (mach r)
      then do { r \<leftarrow> nxm_trap be (ucast addr) r; Some (0, r) }
      else on_bus (bus_read16 e (ucast addr)) r)"

definition lsi_store_word :: "'x other_devs \<Rightarrow> 'x bus_error \<Rightarrow> 'x lsi regs \<Rightarrow> u16 \<Rightarrow> u16 \<Rightarrow> 'x lsi regs option" where
  "lsi_store_word e be r addr v =
     (if is_vm2 r then
        (if bus_vm2_cpu_is_nxm addr (vm2_halt_mode r) (mach r) \<or> bus_vm2_cpu_is_nxm (addr + 1) (vm2_halt_mode r) (mach r)
         then nxm_trap be (ucast addr) r
         else to_bus (bus_vm2_cpu_write16 e addr (vm2_halt_mode r) v) r)
      else if bus_is_nxm (ucast addr) (mach r) \<or> bus_is_nxm (ucast addr + 1) (mach r) then nxm_trap be (ucast addr) r
      else to_bus (bus_write16 e (ucast addr) v) r)"

definition lsi_load_byte_pa :: "'x other_devs \<Rightarrow> 'x bus_error \<Rightarrow> 'x lsi regs \<Rightarrow> u32 \<Rightarrow> (u8 \<times> 'x lsi regs) option" where
  "lsi_load_byte_pa e be r addr =
     (if bus_is_nxm addr (mach r) then do { r \<leftarrow> nxm_trap be addr r; Some (0, r) } else on_bus (bus_read8 e addr) r)"

definition lsi_store_byte_pa :: "'x other_devs \<Rightarrow> 'x bus_error \<Rightarrow> 'x lsi regs \<Rightarrow> u32 \<Rightarrow> u8 \<Rightarrow> 'x lsi regs option" where
  "lsi_store_byte_pa e be r addr v =
     (if bus_is_nxm addr (mach r) then nxm_trap be addr r else to_bus (bus_write8 e addr v) r)"

definition lsi_load_word_pa :: "'x other_devs \<Rightarrow> 'x bus_error \<Rightarrow> 'x lsi regs \<Rightarrow> u32 \<Rightarrow> (u16 \<times> 'x lsi regs) option" where
  "lsi_load_word_pa e be r addr =
     (if bus_is_nxm addr (mach r) \<or> bus_is_nxm (addr + 1) (mach r) then do { r \<leftarrow> nxm_trap be addr r; Some (0, r) }
      else on_bus (bus_read16 e addr) r)"

definition lsi_store_word_pa :: "'x other_devs \<Rightarrow> 'x bus_error \<Rightarrow> 'x lsi regs \<Rightarrow> u32 \<Rightarrow> u16 \<Rightarrow> 'x lsi regs option" where
  "lsi_store_word_pa e be r addr v =
     (if bus_is_nxm addr (mach r) \<or> bus_is_nxm (addr + 1) (mach r) then nxm_trap be addr r
      else to_bus (bus_write16 e addr v) r)"

section \<open>Initialisation\<close>

text \<open>Steps that may fail, one after the other: the first failure is the result.\<close>

fun init_all :: "('x lsi \<Rightarrow> int \<times> 'x lsi) list \<Rightarrow> 'x lsi \<Rightarrow> int \<times> 'x lsi" where
  "init_all [] s = (0, s)"
| "init_all (f # fs) s = (let (rc, s) = f s in if rc \<noteq> 0 then (-1, s) else init_all fs s)"

definition when_enabled :: "(lsi11_device_mask_t \<Rightarrow> bool) \<Rightarrow> ('x lsi \<Rightarrow> int \<times> 'x lsi) \<Rightarrow> 'x lsi \<Rightarrow> int \<times> 'x lsi" where
  "when_enabled m f s = (if m (device_mask s) then f s else (0, s))"

definition done_with :: "('x lsi \<Rightarrow> 'x lsi) \<Rightarrow> 'x lsi \<Rightarrow> int \<times> 'x lsi" where
  "done_with f s = (0, f s)"

definition io_range :: "u16 \<Rightarrow> u16 \<Rightarrow> io_dev \<Rightarrow> io_range_t option" where
  "io_range a b dev = Some \<lparr>io_start = a, io_end = b, io_read8 = Some dev, io_write8 = Some dev\<rparr>"

text \<open>The sources of interrupts behind the names in the table, and registration by name.\<close>

definition irq_source :: "'x other_devs \<Rightarrow> irq_dev \<Rightarrow> 'x lsi irq_source_t" where
  "irq_source e d =
     (case d of
        IRQ_DL11_RX \<Rightarrow> \<lparr>irq_vector = 0x30, irq_priority = 4, irq_pending = Some (\<lambda>s. dl11_rx_irq_pending (dl s)),
                        irq_ack = Some (\<lambda>s. s\<lparr>dl := dl11_rx_irq_ack (dl s)\<rparr>)\<rparr>
      | IRQ_DL11_TX \<Rightarrow> \<lparr>irq_vector = 0x34, irq_priority = 4, irq_pending = Some (\<lambda>s. dl11_tx_irq_pending (dl s)),
                        irq_ack = Some (\<lambda>s. s\<lparr>dl := dl11_tx_irq_ack (dl s)\<rparr>)\<rparr>
      | IRQ_KW11 \<Rightarrow> \<lparr>irq_vector = 0x40, irq_priority = 6, irq_pending = Some (\<lambda>s. kw11_irq_pending (kw s)),
                     irq_ack = Some (\<lambda>s. s\<lparr>kw := kw11_irq_ack (kw s)\<rparr>)\<rparr>
      | IRQ_LP11 \<Rightarrow> \<lparr>irq_vector = 0x80, irq_priority = 4, irq_pending = Some (\<lambda>s. lp11_irq_pending (lp s)),
                     irq_ack = Some (\<lambda>s. s\<lparr>lp := lp11_irq_ack (lp s)\<rparr>)\<rparr>
      | IRQ_OTHER d n \<Rightarrow> o_irq e d n)"

definition irq_table :: "'x other_devs \<Rightarrow> 'x lsi \<Rightarrow> 'x lsi irq_source_t list" where
  "irq_table e s = map (irq_source e) (g_irq s)"

definition lsi_irq_register :: "'x other_devs \<Rightarrow> irq_dev \<Rightarrow> 'x lsi \<Rightarrow> int \<times> 'x lsi" where
  "lsi_irq_register e d s =
     (let rc = fst (irq_register (Some (irq_source e d)) (irq_table e s))
      in if rc = 0 then (0, s\<lparr>g_irq := g_irq s @ [d]\<rparr>) else (rc, s))"

definition ubmap_init :: "'x lsi \<Rightarrow> int \<times> 'x lsi" where
  "ubmap_init s =
     (if g_machine s \<noteq> BUS_MACHINE_PDP1184 then (0, s)
      else let (rc, s) = (if ubmap_registered s then (0, s) else devio_register (io_range 0xF080 0xF0FF IO_UBMAP) s)
           in if rc \<noteq> 0 then (-1, s) else (0, ubmap_reset (s\<lparr>ubmap_registered := True\<rparr>)))"

definition dl11_init :: "'x other_devs \<Rightarrow> 'x lsi \<Rightarrow> int \<times> 'x lsi" where
  "dl11_init e = init_all
     [devio_register (io_range 0xFF70 0xFF77 IO_DL11),
      (\<lambda>s. if dl11_alias_enabled (dl s) then devio_register (io_range 0xFD40 0xFD47 IO_DL11) s else (0, s)),
      lsi_irq_register e IRQ_DL11_RX, lsi_irq_register e IRQ_DL11_TX,
      done_with (\<lambda>s. s\<lparr>dl := dl11_reset (dl s)\<rparr>)]"

definition lp11_init :: "'x other_devs \<Rightarrow> 'x lsi \<Rightarrow> int \<times> 'x lsi" where
  "lp11_init e = init_all
     [devio_register (io_range 0xFF4C 0xFF4F IO_LP11), lsi_irq_register e IRQ_LP11,
      done_with (\<lambda>s. s\<lparr>lp := lp11_reset (lp s)\<rparr>)]"

definition sr_init :: "'x lsi \<Rightarrow> int \<times> 'x lsi" where
  "sr_init = init_all [devio_register (io_range 0xFF78 0xFF79 IO_SR), done_with (\<lambda>s. s\<lparr>sr := sr_reset (sr s)\<rparr>)]"

definition vm1sel_init :: "'x lsi \<Rightarrow> int \<times> 'x lsi" where
  "vm1sel_init = init_all
     [devio_register (io_range 0xFFCC 0xFFCF IO_VM1SEL), done_with (\<lambda>s. s\<lparr>vmsel := vm1sel_reset (vmsel s)\<rparr>)]"

definition vm1sav_init :: "'x lsi \<Rightarrow> int \<times> 'x lsi" where
  "vm1sav_init = init_all
     [devio_register (io_range 0xFFBC 0xFFBF IO_VM1SAV), done_with (\<lambda>s. s\<lparr>vmsav := vm1sav_reset (vmsav s)\<rparr>)]"

definition kw11_init :: "'x other_devs \<Rightarrow> 'x lsi \<Rightarrow> int \<times> 'x lsi" where
  "kw11_init e s =
     (let l_on = kw11_l_visible_effective (kw s) \<noteq> 0; p_on = kw11_p_visible_effective (kw s) \<noteq> 0;
          s = (case o_kw11_steps e of None \<Rightarrow> s | Some v \<Rightarrow> s\<lparr>kw := (kw s)\<lparr>kw11_steps_per_tick := v\<rparr>\<rparr>)
      in init_all
           [(\<lambda>s. if l_on then devio_register (io_range 0xFF66 0xFF67 IO_KW11) s else (0, s)),
            (\<lambda>s. if p_on then devio_register (io_range 0xF560 0xF565 IO_KW11) s else (0, s)),
            (\<lambda>s. if \<not> l_on \<and> \<not> p_on then (0, s) else lsi_irq_register e IRQ_KW11 s),
            done_with (\<lambda>s. s\<lparr>kw := kw11_reset (kw s)\<rparr>)] s)"

text \<open>The state of the machine part of \<^verbatim>\<open>impl_init\<close>; \<open>vm1\<close> is whether the processor is a VM1.\<close>

definition impl_init_devices :: "'x other_devs \<Rightarrow> bool \<Rightarrow> 'x lsi \<Rightarrow> int \<times> 'x lsi" where
  "impl_init_devices e vm1 s =
     (let s = bus_init s;
          s = s\<lparr>dl := dl11_set_alias (dl11_alias_on s) (dl s)\<rparr>
      in init_all
           [ubmap_init,
            done_with (\<lambda>s. s\<lparr>device_mask := (device_mask s)\<lparr>m_vm1sel := vm1, m_vm1sav := vm1\<rparr>, term_raw_active := False\<rparr>),
            (\<lambda>s. if m_dl11 (device_mask s) \<or> m_lp11 (device_mask s)
                 then (if o_term_opens e then (0, s\<lparr>term_raw_active := True\<rparr>) else (-1, s)) else (0, s)),
            when_enabled m_dl11 (dl11_init e), when_enabled m_dz11 (o_init e DZ11), when_enabled m_kw11 (kw11_init e),
            when_enabled m_rl11 (o_init e RL11), when_enabled m_rk11 (o_init e RK11), when_enabled m_rh11 (o_init e RH11),
            when_enabled m_rq11 (o_init e RQ11), when_enabled m_xp11 (o_init e XP11), when_enabled m_tq11 (o_init e TQ11),
            when_enabled m_lp11 (lp11_init e), when_enabled m_sr sr_init, when_enabled m_vm1sel vm1sel_init,
            when_enabled m_vm1sav vm1sav_init] s)"

definition impl_init :: "'x other_devs \<Rightarrow> 'x lsi regs \<Rightarrow> int \<times> 'x lsi regs" where
  "impl_init e r = (let (rc, s) = impl_init_devices e (model r = K1801VM1) (mach r) in (rc, r\<lparr>mach := s\<rparr>))"

section \<open>Reset, shutdown, polls\<close>

definition reset_if :: "(lsi11_device_mask_t \<Rightarrow> bool) \<Rightarrow> ('x lsi \<Rightarrow> 'x lsi) \<Rightarrow> 'x lsi \<Rightarrow> 'x lsi" where
  "reset_if m f s = (if m (device_mask s) then f s else s)"

definition impl_reset_devices :: "'x other_devs \<Rightarrow> 'x lsi \<Rightarrow> 'x lsi" where
  "impl_reset_devices e s =
     fold (\<lambda>f s. f s)
       [reset_if m_dl11 (\<lambda>s. s\<lparr>dl := dl11_reset (dl s)\<rparr>), reset_if m_dz11 (o_reset e DZ11),
        reset_if m_kw11 (\<lambda>s. s\<lparr>kw := kw11_reset (kw s)\<rparr>), reset_if m_rl11 (o_reset e RL11),
        reset_if m_rk11 (o_reset e RK11), reset_if m_rh11 (o_reset e RH11), reset_if m_rq11 (o_reset e RQ11),
        reset_if m_xp11 (o_reset e XP11), reset_if m_tq11 (o_reset e TQ11),
        reset_if m_lp11 (\<lambda>s. s\<lparr>lp := lp11_reset (lp s)\<rparr>), reset_if m_sr (\<lambda>s. s\<lparr>sr := sr_reset (sr s)\<rparr>),
        reset_if m_vm1sel (\<lambda>s. s\<lparr>vmsel := vm1sel_reset (vmsel s)\<rparr>),
        reset_if m_vm1sav (\<lambda>s. s\<lparr>vmsav := vm1sav_reset (vmsav s)\<rparr>)] s"

definition impl_reset :: "'x other_devs \<Rightarrow> 'x lsi regs \<Rightarrow> 'x lsi regs" where
  "impl_reset e r =
     (let r = r\<lparr>mach := ubmap_reset (mach r)\<rparr>;
          r = (if model r = DCJ11
               then (if machine_profile (mach r) = LSI11_MACHINE_1184 then r\<lparr>J11_MAINT := 0x225, J11_HITMISS := 8\<rparr>
                     else r\<lparr>J11_MAINT := 0, J11_HITMISS := 0\<rparr>)
               else r)
      in r\<lparr>mach := impl_reset_devices e (mach r)\<rparr>)"

definition impl_fini :: "'x other_devs \<Rightarrow> 'x lsi regs \<Rightarrow> 'x lsi regs" where
  "impl_fini e r = r\<lparr>mach := (o_shutdown e DZ11 (mach r))\<lparr>term_raw_active := False\<rparr>\<rparr>"

definition lsi_poll_irq :: "'x other_devs \<Rightarrow> 'x lsi regs \<Rightarrow> u16 option \<times> 'x lsi regs" where
  "lsi_poll_irq e r = (let (v, s) = irq_poll r (irq_table e (mach r)) (mach r) in (v, r\<lparr>mach := s\<rparr>))"

definition lsi_ramptr :: "'x lsi regs \<Rightarrow> u16 \<Rightarrow> u32 option" where
  "lsi_ramptr r offset = bus_ram_ptr (ucast offset) (mach r)"

text \<open>\<open>now\<close> is the host time; the LP11 has nothing to poll.\<close>

definition lsi11_poll_devices_steps :: "'x other_devs \<Rightarrow> 64 word \<Rightarrow> u32 \<Rightarrow> 'x lsi \<Rightarrow> 'x lsi" where
  "lsi11_poll_devices_steps e now cpu_steps s =
     fold (\<lambda>f s. f s)
       [reset_if m_dl11 (\<lambda>s. let (d, tm) = dl11_poll now (dl s) (tty s) in s\<lparr>dl := d, tty := tm\<rparr>),
        reset_if m_dz11 (o_poll e DZ11),
        reset_if m_kw11 (\<lambda>s. s\<lparr>kw := kw11_poll_steps now cpu_steps (kw s)\<rparr>),
        reset_if m_rl11 (o_poll e RL11), reset_if m_rk11 (o_poll e RK11), reset_if m_rh11 (o_poll e RH11),
        reset_if m_rq11 (o_poll e RQ11), reset_if m_xp11 (o_poll e XP11), reset_if m_tq11 (o_poll e TQ11)] s"

definition ubmap_sync_from_cpu :: "bool \<Rightarrow> lsi11_machine_t \<Rightarrow> 'x lsi regs \<Rightarrow> 'x lsi regs" where
  "ubmap_sync_from_cpu mmu machine r =
     (if machine \<noteq> LSI11_MACHINE_1184 \<or> model r \<noteq> DCJ11 then r\<lparr>mach := ubmap_set_enabled False (mach r)\<rparr>
      else if mmu then r\<lparr>mach := ubmap_set_enabled (mmu_ssr3 r AND 0x20 \<noteq> 0) (mach r)\<rparr>
      else r\<lparr>mach := ubmap_set_enabled False (mach r)\<rparr>)"

definition bus_iowin_sync_from_cpu :: "bool \<Rightarrow> lsi11_machine_t \<Rightarrow> 'x lsi regs \<Rightarrow> 'x lsi regs" where
  "bus_iowin_sync_from_cpu mmu machine r =
     (let on = mmu \<and> machine = LSI11_MACHINE_1184 \<and> model r = DCJ11 \<and> mmu_ssr0 r AND 1 \<noteq> 0;
          io16 = \<not> on; m22e = on \<and> mmu_ssr3 r AND 0x10 \<noteq> 0
      in r\<lparr>mach := bus_set_pdp1184_m22e m22e (bus_set_pdp1184_io_16bit io16 (mach r))\<rparr>)"

section \<open>The processor connected\<close>

definition lsi_bus :: "'x other_devs \<Rightarrow> bool \<Rightarrow> bool \<Rightarrow> 'x lsi bus" where
  "lsi_bus e mmu stubs =
     \<lparr>ENABLE_MMU = mmu, MMU_STUB_REGS_WHEN_DISABLED = stubs,
      cb_load_byte = lsi_load_byte e, cb_store_byte = lsi_store_byte e,
      cb_load_word = lsi_load_word e, cb_store_word = lsi_store_word e,
      cb_load_byte_pa = Some (lsi_load_byte_pa e), cb_store_byte_pa = Some (lsi_store_byte_pa e),
      cb_load_word_pa = Some (lsi_load_word_pa e), cb_store_word_pa = Some (lsi_store_word_pa e),
      cb_init = Some (impl_init e), cb_reset = Some (impl_reset e), cb_fini = Some (impl_fini e),
      cb_poll_irq = Some (lsi_poll_irq e), cb_ramptr = Some lsi_ramptr,
      host_read = (\<lambda>r p. case g_ram (mach r) of None \<Rightarrow> 0 | Some m \<Rightarrow> m p),
      host_write = (\<lambda>r p v. r\<lparr>mach := (mach r)\<lparr>g_ram := map_option (\<lambda>m. m(p := v)) (g_ram (mach r))\<rparr>\<rparr>)\<rparr>"

definition lsi11_hw_connect :: "'x lsi regs \<Rightarrow> 'x lsi regs" where
  "lsi11_hw_connect r = r\<lparr>ram_fast := None, ram_fast_size := 0\<rparr>"

end
