(* ===== verification/LsiCpu.thy ===== *)
theory LsiCpu
  imports RamBus LsiMachine
begin

text \<open>
  The processor on the LSI-11 machine: the main loop of lsi11/main.c, the processor's
  invariant over it with any devices, memory as the instructions see it, interrupts from the
  devices to the processor, and the two places where the cached RAM pointer is not the
  memory of the machine.
\<close>

section \<open>The main loop\<close>

text \<open>
  Up to \<open>k\<close> steps (64, or what is left of \<^verbatim>\<open>-max-steps\<close>), then a poll of the devices; tracing
  and breakpoints are left out. \<open>n\<close> bounds the nesting of traps and \<open>m\<close> the interrupts one
  step takes; a list of host times gives the rounds.
\<close>

fun lsi_chunk :: "'x other_devs \<Rightarrow> bool \<Rightarrow> bool \<Rightarrow> lsi11_machine_t \<Rightarrow> nat \<Rightarrow> nat \<Rightarrow> nat \<Rightarrow> u32 \<Rightarrow> int \<Rightarrow> 'x lsi regs \<Rightarrow>
    (u32 \<times> int \<times> 'x lsi regs) option" where
  "lsi_chunk e mmu stubs machine n m 0 steps max_steps r = Some (steps, max_steps, r)"
| "lsi_chunk e mmu stubs machine n m (Suc k) steps max_steps r =
     do { r \<leftarrow> core_step (lsi_bus e mmu stubs) n m (bus_iowin_sync_from_cpu mmu machine r);
          let steps = steps + 1; max_steps = (if max_steps > 0 then max_steps - 1 else max_steps)
          in if fAbort r \<or> max_steps = 0 then Some (steps, max_steps, r)
             else lsi_chunk e mmu stubs machine n m k steps max_steps r }"

fun lsi_main_loop :: "'x other_devs \<Rightarrow> bool \<Rightarrow> bool \<Rightarrow> lsi11_machine_t \<Rightarrow> nat \<Rightarrow> nat \<Rightarrow> bool \<Rightarrow> 64 word list \<Rightarrow> int \<Rightarrow> 'x lsi regs \<Rightarrow>
    'x lsi regs option" where
  "lsi_main_loop e mmu stubs machine n m exit_on_abort [] max_steps r = Some r"
| "lsi_main_loop e mmu stubs machine n m exit_on_abort (now # ts) max_steps r =
     (if max_steps = 0 then Some r
      else do { (steps, max_steps, r) \<leftarrow> lsi_chunk e mmu stubs machine n m
                  (if max_steps > 0 \<and> 64 > max_steps then nat max_steps else 64) 0 max_steps r;
                let r = ubmap_sync_from_cpu mmu machine r;
                    r = r\<lparr>mach := lsi11_poll_devices_steps e now steps (mach r)\<rparr>
                in if fAbort r \<and> exit_on_abort then Some r
                   else lsi_main_loop e mmu stubs machine n m exit_on_abort ts max_steps (r\<lparr>fAbort := False\<rparr>) })"

section \<open>The processor's invariant, whatever the devices do\<close>

lemma cpu_ok_mach [simp]: "cpu_ok W (r\<lparr>mach := s\<rparr>) = cpu_ok W r" "cpu_ok W (r\<lparr>fAbort := a\<rparr>) = cpu_ok W r"
  by (simp_all add: cpu_ok_def registers_ok_def tlb_ok_def fresh_entry_def)

lemma cpu_ok_nxm: "cpu_ok W r \<Longrightarrow> cpu_ok W (r\<lparr>J11_CPUERR := (J11_CPUERR r OR x) AND 0xFC\<rparr>)"
  by (simp add: cpu_ok_def registers_ok_def)

lemma nxm_trap_runs:
  "\<forall>r. cpu_ok W r \<longrightarrow> runs False (be r) (cpu_ok W) \<Longrightarrow> cpu_ok W r \<Longrightarrow> runs False (nxm_trap be a r) (cpu_ok W)"
  unfolding nxm_trap_def using cpu_ok_nxm[of W r] by simp

lemma on_bus_runs: "cpu_ok W r \<Longrightarrow> runs False (on_bus f r) (\<lambda>(v, r). cpu_ok W r)" "cpu_ok W r \<Longrightarrow> runs False (to_bus g r) (cpu_ok W)"
  unfolding on_bus_def to_bus_def by (auto simp: runs_def split: option.splits bind_splits)

lemmas lsi_callback_defs = lsi_load_byte_def lsi_store_byte_def lsi_load_word_def lsi_store_word_def
  lsi_load_byte_pa_def lsi_store_byte_pa_def lsi_load_word_pa_def lsi_store_word_pa_def

lemma lsi_callbacks_runs:
  assumes "\<forall>r. cpu_ok W r \<longrightarrow> runs False (be r) (cpu_ok W)" "cpu_ok W r"
  shows "runs False (lsi_load_byte e be r a) (\<lambda>(v, r). cpu_ok W r)" "runs False (lsi_store_byte e be r a x) (cpu_ok W)"
    "runs False (lsi_load_word e be r a) (\<lambda>(v, r). cpu_ok W r)" "runs False (lsi_store_word e be r a w) (cpu_ok W)"
    "runs False (lsi_load_byte_pa e be r p) (\<lambda>(v, r). cpu_ok W r)" "runs False (lsi_store_byte_pa e be r p x) (cpu_ok W)"
    "runs False (lsi_load_word_pa e be r p) (\<lambda>(v, r). cpu_ok W r)" "runs False (lsi_store_word_pa e be r p w) (cpu_ok W)"
  unfolding lsi_callback_defs
  by (auto intro!: runs_bind runs_weaken[OF nxm_trap_runs[OF assms]] nxm_trap_runs[OF assms] on_bus_runs assms(2))

lemma lsi_bus_fields [simp]:
  "ENABLE_MMU (lsi_bus e mmu stubs) = mmu" "cb_reset (lsi_bus e mmu stubs) = Some (impl_reset e)"
  "cb_ramptr (lsi_bus e mmu stubs) = Some lsi_ramptr" "cb_poll_irq (lsi_bus e mmu stubs) = Some (lsi_poll_irq e)"
  "cb_load_byte (lsi_bus e mmu stubs) = lsi_load_byte e" "cb_store_byte (lsi_bus e mmu stubs) = lsi_store_byte e"
  "cb_load_word (lsi_bus e mmu stubs) = lsi_load_word e" "cb_store_word (lsi_bus e mmu stubs) = lsi_store_word e"
  "cb_load_byte_pa (lsi_bus e mmu stubs) = Some (lsi_load_byte_pa e)" "cb_store_byte_pa (lsi_bus e mmu stubs) = Some (lsi_store_byte_pa e)"
  "cb_load_word_pa (lsi_bus e mmu stubs) = Some (lsi_load_word_pa e)" "cb_store_word_pa (lsi_bus e mmu stubs) = Some (lsi_store_word_pa e)"
  by (simp_all add: lsi_bus_def)

lemma cpu_ok_impl_reset: "cpu_ok W (impl_reset e r) = cpu_ok W r"
  by (simp add: impl_reset_def Let_def cpu_ok_def registers_ok_def tlb_ok_def fresh_entry_def)

interpretation lsi: machine_inv "lsi_bus e mmu stubs" "cpu_ok W" False True for e mmu stubs W
proof
  fix r r' :: "'a lsi regs" assume "core_fields r' = core_fields r"
  then show "cpu_ok W r' = cpu_ok W r" by (rule state_ok_fields)
next
  fix r r' :: "'a lsi regs" and a w assume r: "cpu_ok W r"
  show "dcj11_reg_block_store_word a w r = Some r' \<Longrightarrow> cpu_ok W r'"
    "mmu_io_write_word (lsi_bus e mmu stubs) a w r = Some r' \<Longrightarrow> cpu_ok W r'"
    using r by (blast intro: state_ok_regblock state_ok_mmuregs)+
next
  fix r :: "'a lsi regs" and p v assume "cpu_ok W r"
  then show "cpu_ok W (host_write (lsi_bus e mmu stubs) r p v)" by (simp add: lsi_bus_def)
next
  fix r :: "'a lsi regs" and f assume "cpu_ok W r" "cb_reset (lsi_bus e mmu stubs) = Some f"
  then show "cpu_ok W (f r)" by (auto simp: cpu_ok_impl_reset)
next
  fix r :: "'a lsi regs" and g assume "cpu_ok W r" "cb_poll_irq (lsi_bus e mmu stubs) = Some g"
  then show "cpu_ok W (snd (g r))" by (auto simp: lsi_poll_irq_def Let_def split: prod.split)
qed (auto simp: state_ok_cpuerr state_ok_pdr state_ok_reset intro: lsi_callbacks_runs)

interpretation lsi: machine_trap "lsi_bus e mmu stubs" "cpu_ok W" False True "core_trap (lsi_bus e mmu stubs) n" for e mmu stubs W n
proof
  show "trap_ok (lsi_bus e mmu stubs) False (cpu_ok W) (core_trap (lsi_bus e mmu stubs) n)"
    by (rule lsi.core_trap_partial) simp_all
  then show "push_ok (lsi_bus e mmu stubs) False True (cpu_ok W) (core_trap (lsi_bus e mmu stubs) n)"
    by (rule lsi.push_ok_trap) simp
qed

lemma lsi_step_ok: "cpu_ok W r \<Longrightarrow> core_step (lsi_bus e mmu stubs) n m r = Some r' \<Longrightarrow> cpu_ok W r'"
  using lsi.step_wp[of W r e mmu stubs n m] by (simp add: core_step_def)

lemma lsi_chunk_ok:
  "cpu_ok W r \<Longrightarrow> lsi_chunk e mmu stubs machine n m k steps max_steps r = Some (steps', max_steps', r') \<Longrightarrow> cpu_ok W r'"
proof (induction k arbitrary: steps max_steps r)
  case (Suc k)
  obtain r1 where s: "core_step (lsi_bus e mmu stubs) n m (bus_iowin_sync_from_cpu mmu machine r) = Some r1"
    using Suc.prems(2) by (auto simp: bind_eq_Some_conv)
  have "cpu_ok W (bus_iowin_sync_from_cpu mmu machine r)"
    using Suc.prems(1) by (simp add: bus_iowin_sync_from_cpu_def Let_def)
  from lsi_step_ok[OF this s] show ?case
    using Suc.prems(2) Suc.IH[of r1] s by (auto simp: Let_def split: if_splits)
qed simp

lemma lsi_main_loop_ok:
  "cpu_ok W r \<Longrightarrow> lsi_main_loop e mmu stubs machine n m ea ts max_steps r = Some r' \<Longrightarrow> cpu_ok W r'"
proof (induction ts arbitrary: max_steps r)
  case (Cons now ts)
  show ?case
  proof (cases "max_steps = 0")
    case False
    obtain st mx r1 where c: "lsi_chunk e mmu stubs machine n m (if max_steps > 0 \<and> 64 > max_steps then nat max_steps else 64) 0 max_steps r = Some (st, mx, r1)"
      using Cons.prems(2) False by (auto simp: bind_eq_Some_conv)
    note ok = lsi_chunk_ok[OF Cons.prems(1) c]
    define r2 where "r2 = (ubmap_sync_from_cpu mmu machine r1)
      \<lparr>mach := lsi11_poll_devices_steps e now st (mach (ubmap_sync_from_cpu mmu machine r1))\<rparr>"
    have ok2: "cpu_ok W r2" "cpu_ok W (r2\<lparr>fAbort := False\<rparr>)"
      using ok by (simp_all add: r2_def ubmap_sync_from_cpu_def)
    have "(if fAbort r2 \<and> ea then Some r2 else lsi_main_loop e mmu stubs machine n m ea ts mx (r2\<lparr>fAbort := False\<rparr>)) = Some r'"
      using Cons.prems(2) False by (simp only: lsi_main_loop.simps c r2_def Let_def bind.bind_lunit prod.case if_False)
    then show ?thesis using ok2(1) Cons.IH[OF ok2(2)] by (auto split: if_splits)
  qed (use Cons.prems in simp)
qed simp

text \<open>After reset the invariant holds, whatever the registers held before.\<close>

lemma lsi_reset_ok:
  assumes "model r = DCJ11" "core_reset (lsi_bus e True stubs) t r = Some r'"
  shows "cpu_ok (\<lambda>p n. True) r'"
proof -
  define r0 where "r0 = core_reset_fields (lsi_bus e True stubs) r"
  have pdr: "mmu_pdr r0 m s g = 0" "mmu_tlb r0 m s g = \<lparr>host_base = None, valid_min_flags = 0, valid_max = 0\<rparr>"
    if "m < 4" "s < 2" "g < 8" for m s g
    using that by (simp_all add: r0_def core_reset_fields_def Let_def mmu_tlb_flush_all_def flush_entries
        fresh_entry_def tlb_indices_all no_access_entry)
  have regs: "J11_CPUERR r0 = 0" "J11_PIRQ r0 = 0" "J11_STKLIM r0 = DCJ11_STACK_YEL_LIMIT" "mmu_ssr3 r0 = 0" "model r0 = DCJ11"
    using assms(1) by (simp_all add: r0_def core_reset_fields_def Let_def mmu_tlb_flush_all_def)
  have reset: "core_fields ((impl_reset e r0)\<lparr>mach := x\<rparr>) = core_fields (r0\<lparr>mach := x\<rparr>)" for x
    by (simp add: impl_reset_def Let_def core_fields_def)
  have r': "mmu_pdr r' = mmu_pdr r0" "mmu_tlb r' = mmu_tlb r0" "J11_CPUERR r' = J11_CPUERR r0" "J11_PIRQ r' = J11_PIRQ r0"
    "J11_STKLIM r' = J11_STKLIM r0" "mmu_ssr3 r' = mmu_ssr3 r0"
    using assms(2) regs(5) reset
    by (auto simp: core_reset_def cache_ram_pointer_def r0_def[symmetric] Let_def core_fields_def is_vm2_def
        split: if_splits option.splits)
  show ?thesis using regs pdr
    by (auto simp: cpu_ok_def registers_ok_def tlb_ok_def fresh_entry_def no_access_entry within_def r')
qed

text \<open>The 4 MB machine, its memory full of NOP instructions.\<close>

definition nop_lsi :: "unit lsi" where
  "nop_lsi = (snd (lsi11_machine_configure LSI11_MACHINE_1184 0 blank_lsi))
     \<lparr>g_ram := Some (\<lambda>i. if i AND 1 = 0 then 0xA0 else 0), g_ram_bytes := 0x400000\<rparr>"

text \<open>C15: On the whole LSI-11 machine with a DCJ11 and its MMU, from reset on and through any run of the main loop (chunks of steps, device polls, interrupts, with any disk, tape and multiplexer controllers behind the device table), the unimplemented bits of the internal registers stay 0 and every entry of the translation cache is the one its PAR and PDR give.\<close>
theorem lsi_machine_invariant:
  assumes "model r = DCJ11" "core_reset (lsi_bus e True stubs) t r = Some r0"
    and "lsi_main_loop e True stubs machine n m ea ts max_steps r0 = Some r'"
  shows "registers_ok r' \<and> tlb_ok r'"
  using lsi_main_loop_ok[OF lsi_reset_ok[OF assms(1,2)] assms(3)] by (simp add: cpu_ok_def)

theorem lsi_machine_invariant_witness:
  "\<exists>r0 r'. core_reset (lsi_bus no_others True False) (core_trap (lsi_bus no_others True False) 1)
        ((zero_regs DCJ11 nop_lsi)\<lparr>ram_fast_size := 0x400000\<rparr>) = Some r0 \<and>
     lsi_main_loop no_others True False LSI11_MACHINE_1184 1 1 True [0] 1 r0 = Some r' \<and> registers_ok r' \<and> tlb_ok r'"
proof -
  have "map_option psw (core_reset (lsi_bus no_others True False) (core_trap (lsi_bus no_others True False) 1)
        ((zero_regs DCJ11 nop_lsi)\<lparr>ram_fast_size := 0x400000\<rparr>) \<bind>
      (\<lambda>r. core_step (lsi_bus no_others True False) 1 1 (bus_iowin_sync_from_cpu True LSI11_MACHINE_1184 r))) = Some 0xE0" by code_simp
  then obtain r0 r1 where r0: "core_reset (lsi_bus no_others True False) (core_trap (lsi_bus no_others True False) 1)
        ((zero_regs DCJ11 nop_lsi)\<lparr>ram_fast_size := 0x400000\<rparr>) = Some r0"
      and r1: "core_step (lsi_bus no_others True False) 1 1 (bus_iowin_sync_from_cpu True LSI11_MACHINE_1184 r0) = Some r1"
    by (auto simp: bind_eq_Some_conv)
  have "lsi_main_loop no_others True False LSI11_MACHINE_1184 1 1 True [0] 1 r0 \<noteq> None"
    by (simp add: r1[unfolded One_nat_def] Let_def)
  then obtain r' where r': "lsi_main_loop no_others True False LSI11_MACHINE_1184 1 1 True [0] 1 r0 = Some r'" by blast
  have "registers_ok r' \<and> tlb_ok r'"
    by (rule lsi_machine_invariant[OF _ r0 r']) simp
  then show ?thesis using r0 r' by blast
qed

section \<open>Interrupts from the devices\<close>

text \<open>What a device acknowledges, the processor takes: the vector that lsi_poll_irq delivers is
  accepted, and it is the one of a source that was pending.\<close>

text \<open>C16: No interrupt is lost between the devices and the processor: when the interrupt callback delivers a vector, exactly one source of the table that was pending has been acknowledged and nothing else changed, and the processor accepts that very vector (on a DCJ11 with the priority packed into it).\<close>
theorem lsi_interrupts_are_taken:
  assumes "lsi_poll_irq e r = (Some v, r')" "\<forall>d n. source_wf (o_irq e d n)"
  shows "\<exists>s \<in> set (irq_table e (mach r)). call_pending s (mach r) \<and> mach r' = call_ack s (mach r) \<and>
    irq_accept r' v = Some (irq_vector s) \<and> r' = r\<lparr>mach := mach r'\<rparr>"
proof -
  have r': "irq_poll r (irq_table e (mach r)) (mach r) = (Some v, mach r')" "r' = r\<lparr>mach := mach r'\<rparr>"
    using assms(1) by (auto simp: lsi_poll_irq_def Let_def split: prod.splits)
  have "source_wf (irq_source e d)" for d
    using assms(2) by (cases d) (simp_all add: irq_source_def source_wf_def)
  then have "\<forall>s \<in> set (irq_table e (mach r)). source_wf s" by (auto simp: irq_table_def)
  from granted_accepted[OF r'(1) this] obtain s where s: "s \<in> set (irq_table e (mach r))" "call_pending s (mach r)"
    "mach r' = call_ack s (mach r)" "irq_accept r v = Some (irq_vector s)" by auto
  moreover have "irq_accept r' v = irq_accept r v"
    by (subst r'(2)) (simp add: irq_accept_def is_vm2_def flag_is_set_def Let_def)
  ultimately show ?thesis using r'(2) by auto
qed

theorem lsi_interrupts_are_taken_witness:
  "\<exists>r r' v. lsi_poll_irq no_others r = (Some v, r') \<and> irq_accept r' v = Some 0x34"
proof -
  define r where "r = (zero_regs DCJ11 (blank_lsi\<lparr>g_irq := [IRQ_DL11_RX, IRQ_DL11_TX], dl := zero_dl11\<lparr>tx_l := \<lparr>l_done = True, l_ie = True, irq_req = True, irq_armed = True\<rparr>\<rparr>\<rparr>))"
  have "fst (lsi_poll_irq no_others r) = Some 0x834" unfolding r_def by code_simp
  then obtain r' where p: "lsi_poll_irq no_others r = (Some 0x834, r')" by (metis prod.collapse)
  have wf: "\<forall>d n. source_wf (o_irq no_others d n)" by (simp add: no_others_def source_wf_def)
  have "irq_accept r 0x834 = Some 0x34" unfolding r_def by code_simp
  moreover obtain s where "irq_accept r' 0x834 = Some (irq_vector s)" "r' = r\<lparr>mach := mach r'\<rparr>" "s \<in> set (irq_table no_others (mach r))" "call_pending s (mach r)"
    using lsi_interrupts_are_taken[OF p wf] by blast
  ultimately have "irq_accept r' 0x834 = Some 0x34"
    by (auto simp: r_def irq_table_def irq_source_def call_pending_def blank_lsi_def Let_def zero_dl11_def dl11_rx_irq_pending_def zero_regs_def)
  then show ?thesis using p by blast
qed

section \<open>Memory as the instructions see it\<close>

text \<open>On the 56 KB machine the RAM is a memory in the sense of RamBus, for every processor but a
  VM2, whose memory depends on its mode.\<close>

definition lsi_ram_ok :: "'x lsi regs \<Rightarrow> bool" where
  "lsi_ram_ok r = (bus_ok (mach r) \<and> g_machine (mach r) = BUS_MACHINE_LSI11_1104 \<and> \<not> is_vm2 r \<and> window_ok r)"

definition lsi_word :: "'x lsi regs \<Rightarrow> u16 \<Rightarrow> u16" where
  "lsi_word r a = (case g_ram (mach r) of None \<Rightarrow> 0 | Some m \<Rightarrow> word_of (m (ucast a)) (m (ucast a + 1)))"

definition lsi_put :: "u16 \<Rightarrow> u16 \<Rightarrow> 'x lsi regs \<Rightarrow> 'x lsi regs" where
  "lsi_put a w r = r\<lparr>mach := (mach r)\<lparr>g_ram :=
     map_option (\<lambda>m. m(ucast a := ucast w, ucast a + 1 := ucast (drop_bit 8 w))) (g_ram (mach r))\<rparr>\<rparr>"

lemma lsi_bus_word:
  assumes "ram_addr a" "bus_ok s" "g_machine s = BUS_MACHINE_LSI11_1104" "g_ram s = Some m"
  shows "\<not> bus_is_nxm (ucast a) s" "\<not> bus_is_nxm (ucast a + 1) s"
    "bus_read16 e (ucast a) s = Some (word_of (m (ucast a)) (m (ucast a + 1)), s)"
    "bus_write16 e (ucast a) w s = Some (s\<lparr>g_ram := Some (m(ucast a := ucast w, ucast a + 1 := ucast (drop_bit 8 w)))\<rparr>)"
proof -
  have u1: "uint (ucast a + 1 :: u32) = uint a + 1" "uint (ucast a :: u32) = uint a" "uint a < 0xE000"
    using ram_addr_facts[OF assms(1)] wide_pa(2)[of a] by (simp_all add: uint_plus_if')
  have "even (uint a)" by (rule ram_addr_facts(6)[OF assms(1)])
  then have lt: "uint a + 1 < 0xE000" using u1(3) by presburger
  have low1: "(ucast (ucast a + 1 :: u32) :: u16) = a + 1"
    using u1 lt by (simp add: word_uint_eq_iff unsigned_ucast_eq take_bit_eq_mod uint_plus_if')
  note low = low1 wide16(3)[of a]
  have a1: "a + 1 < 0xE000" "a < 0xE000" using lt u1(3) by (simp_all add: word_less_def uint_plus_if')
  have le: "(ucast a + 1 :: u32) \<le> 0xFFFF" "(ucast a :: u32) \<le> 0xFFFF" using u1 lt by (simp_all add: word_le_def)
  have d: "io_decode_addr (ucast a) s = None" "io_decode_addr (ucast a + 1) s = None"
    using a1 low le by (simp_all add: io_decode_addr_def)
  have r: "bus_addr_is_ram (ucast a) s" "bus_addr_is_ram (ucast a + 1) s"
    using a1 low d assms(3) by (auto simp: bus_addr_is_ram_def io_is_decoded_def word_le_def word_less_def)
  show "\<not> bus_is_nxm (ucast a) s" "\<not> bus_is_nxm (ucast a + 1) s" using r by (simp_all add: bus_is_nxm_def)
  have b: "g_ram_bytes s = 0xE000" using assms(2,3) by (simp add: bus_ok_def)
  show "bus_read16 e (ucast a) s = Some (word_of (m (ucast a)) (m (ucast a + 1)), s)"
    "bus_write16 e (ucast a) w s = Some (s\<lparr>g_ram := Some (m(ucast a := ucast w, ucast a + 1 := ucast (drop_bit 8 w)))\<rparr>)"
    using d r u1 lt by (simp_all add: bus_read16_def bus_write16_def ram_get_def ram_set_def assms(4) b low_bytes)
qed

interpretation lsi_ram: word_memory "lsi_bus e False stubs" t lsi_ram_ok ram_addr lsi_word lsi_put
  for e stubs and t :: "'x lsi trapf"
proof
  fix r :: "'x lsi regs" and a w assume r: "lsi_ram_ok r" and a: "ram_addr a"
  obtain m where m: "g_ram (mach r) = Some m" using r by (auto simp: lsi_ram_ok_def bus_ok_def)
  have vm: "\<not> is_vm2 r" "bus_ok (mach r)" "g_machine (mach r) = BUS_MACHINE_LSI11_1104" using r by (simp_all add: lsi_ram_ok_def)
  have ram: "ram_fast r = None \<or> ram_fast r = Some 0" using r by (simp add: lsi_ram_ok_def window_ok_def)
  have off: "mmu_on (lsi_bus e False stubs) r = False" by (simp add: mmu_on_def)
  have pa: "(ucast a :: u32) \<le> 0xFFFF" using wide16(2)[of a] .
  note word = lsi_bus_word[OF a vm(2,3) m]
  have ld: "lsi_load_word e be r a = Some (lsi_word r a, r)" for be
    using vm word by (simp add: lsi_load_word_def on_bus_def lsi_word_def m)
  have st: "lsi_store_word e be r a w = Some (lsi_put a w r)" for be
    using vm word by (simp add: lsi_store_word_def to_bus_def lsi_put_def m)
  have raw: "raw_load_word_phys (lsi_bus e False stubs) t (ucast a) r = Some (lsi_word r a, r)"
    "raw_store_word_phys (lsi_bus e False stubs) t (ucast a) w r = Some (lsi_put a w r)"
    using ld st pa wide16(3)[of a] ram_addr_facts(3)[OF a]
    by (auto simp: raw_load_word_phys_def raw_store_word_phys_def dcj11_io_alias_offset_def word_le_def word_less_def)
  have host: "host_read_word (lsi_bus e False stubs) r (ucast a) = lsi_word r a"
    "host_write_word (lsi_bus e False stubs) r (ucast a) w = lsi_put a w r"
    by (simp_all add: host_read_word_def host_write_word_def lsi_bus_def lsi_word_def lsi_put_def m word_of_def low_bytes)
  note access = core_load_word_ex_def core_store_word_ex_def fast_load_word_def fast_store_word_def
    core_load_word_slow_def core_store_word_slow_def va_reg_off[OF ram_addr_facts(1)[OF a]] translate_va_ex_def off raw
    dcj11_io_alias_offset_def ram_addr_facts[OF a] host
  show "core_load_word (lsi_bus e False stubs) t a r = Some (lsi_word r a, r)"
    "core_load_word_ifetch (lsi_bus e False stubs) t a r = Some (lsi_word r a, r)"
    "core_load_word_vector (lsi_bus e False stubs) t a r = Some (lsi_word r a, r)"
    "core_store_word (lsi_bus e False stubs) t a w r = Some (lsi_put a w r)"
    by (rule disjE[OF ram]; simp add: core_load_word_def core_load_word_ifetch_def core_load_word_vector_def core_store_word_def access)+
  show "lsi_word (lsi_put a w r) a = w"
    by (simp add: lsi_word_def lsi_put_def m)
  show "lsi_ram_ok (lsi_put a w r)"
    using r m by (simp add: lsi_ram_ok_def lsi_put_def bus_ok_def window_ok_def is_vm2_def)
  fix a' assume "ram_addr a'" "a' \<noteq> a"
  then show "lsi_word (lsi_put a w r) a' = lsi_word r a'"
    using even_neighbours[OF a, of a'] by (simp add: lsi_word_def lsi_put_def m)
next
  fix a w and r :: "'x lsi regs"
  show "cpu_view (lsi_put a w r) = cpu_view r" by (simp add: cpu_view_def lsi_put_def)
next
  fix r r' :: "'x lsi regs"
  assume "ram_fast r' = ram_fast r" "ram_fast_size r' = ram_fast_size r" "mach r' = mach r" "model r' = model r"
  then show "lsi_ram_ok r' = lsi_ram_ok r \<and> lsi_word r' = lsi_word r"
    by (simp add: lsi_ram_ok_def window_ok_def is_vm2_def lsi_word_def fun_eq_iff)
qed

theorem lsi_trap_then_RTI:
  assumes "lsi_ram_ok r" "\<not> fAbort r" "ram_addr vec" "ram_addr (vec + 2)"
    and q: "q = trap_psw r (psw r) (lsi_word r (vec + 2))"
    and "ram_addr (R (dcj11_set_psw q r) 6 - 2)" "ram_addr (R (dcj11_set_psw q r) 6 - 4)"
  shows "\<exists>r' c r''. core_take_vector (lsi_bus e False stubs) t vec (R r 7) (psw r) r = Some r' \<and> R r' 7 = lsi_word r vec \<and>
    psw r' = q \<and> exec_RTI (lsi_bus e False stubs) t (psw r') r' = Some (StepEnd c r'') \<and> R r'' = R r \<and> psw r'' = psw r"
  unfolding q by (rule lsi_ram.trap_return) (use assms in \<open>simp_all add: lsi_ram_ok_def\<close>)

theorem lsi_trap_then_RTI_witness:
  "\<exists>r' c r''. core_take_vector (lsi_bus no_others False False) (\<lambda>_. Some) 0x30 0x200 0x10
        ((zero_regs K1801VM1 (bus_init blank_lsi))\<lparr>psw := 0x10, R := (\<lambda>i. if i = 7 then 0x200 else 0x1000)\<rparr>) = Some r' \<and>
     exec_RTI (lsi_bus no_others False False) (\<lambda>_. Some) (psw r') r' = Some (StepEnd c r'') \<and>
     R r'' 6 = 0x1000 \<and> R r'' 7 = 0x200 \<and> psw r'' = 0x10"
proof -
  define r where "r = (zero_regs K1801VM1 (bus_init blank_lsi))\<lparr>psw := 0x10, R := (\<lambda>i. if i = 7 then 0x200 else 0x1000)\<rparr>"
  have ok: "lsi_ram_ok r" "\<not> fAbort r" "ram_addr 0x30" "ram_addr (0x30 + 2)" "R r 7 = 0x200" "R r 6 = 0x1000" "psw r = 0x10" "model r = K1801VM1"
    by (simp_all add: r_def lsi_ram_ok_def window_ok_def bus_ok_init zero_regs_def ram_addr_def blank_lsi_def Let_def is_vm2_def)
      (simp add: bus_init_def Let_def)
  have sp: "ram_addr (R (dcj11_set_psw q r) 6 - 2)" "ram_addr (R (dcj11_set_psw q r) 6 - 4)" for q
    using ok(6,8) by (simp_all add: dcj11_set_psw_def Let_def ram_addr_def)
  show ?thesis unfolding r_def[symmetric]
    using lsi_trap_then_RTI[OF ok(1-4) refl sp] ok(5-7) by fastforce
qed

section \<open>The cached RAM pointer against the bus\<close>

text \<open>A VM2 in HALT mode: the bus has a memory of its own for this mode, the fast path reads
  (and writes) the memory of USER mode.\<close>

text \<open>C23: On a VM2 in HALT mode with its own HALT memory, an instruction fetch through the cached RAM pointer reads the USER memory, while the bus callback reads the HALT memory: the fast path is not the memory of the machine here.\<close>
theorem vm2_halt_bank_bypassed:
  assumes "is_vm2 r" "psw r AND FLAG_H \<noteq> 0" "bus_ok (mach r)" "g_machine (mach r) = BUS_MACHINE_LSI11_1104"
    and "ram_fast r = Some 0" "ram_fast_size r = 0xE000" "g_ram (mach r) = Some user" "g_vm2_halt_ram (mach r) = Some halt"
    and "ram_addr a" "uint a + 1 < uint (vm2_halt_bytes (mach r))"
  shows "core_load_word_ifetch (lsi_bus e False stubs) t a r = Some (word_of (user (ucast a)) (user (ucast a + 1)), r) \<and>
    lsi_load_word e be r a = Some (word_of (halt (ucast a)) (halt (ucast a + 1)), r)"
proof -
  have u: "uint a < 0xE000" "even (uint a)" using ram_addr_facts(1,6)[OF assms(9)] by simp_all
  then have lt: "uint a + 1 < 0xE000" by presburger
  have a1: "a < 0xE000" "a + 1 < 0xE000" "uint (ucast a :: u32) = uint a" "uint (ucast (a + 1) :: u32) = uint a + 1"
    using u lt wide_pa(2)[of a] wide_pa(2)[of "a + 1"] by (simp_all add: word_less_def uint_plus_if')
  have next_a: "(ucast (a + 1) :: u32) = ucast a + 1"
    using a1(3,4) lt by (simp add: word_uint_eq_iff uint_plus_if')
  have model: "model r \<noteq> DCJ11" using assms(1) by (auto simp: is_vm2_def)
  have fast: "core_load_word_ifetch (lsi_bus e False stubs) t a r = Some (word_of (user (ucast a)) (user (ucast a + 1)), r)"
    using assms(5,6,7) model lt a1 ram_addr_facts(2)[OF assms(9)]
    by (simp add: core_load_word_ifetch_def core_load_word_ex_def fast_load_word_def word_less_def uint_plus_if' host_read_word_def
        word_of_def) (simp add: lsi_bus_def)
  have "0 \<le> uint a" by simp
  then have "0 < uint (vm2_halt_bytes (mach r))" using assms(10) by linarith
  then have hb0: "vm2_halt_bytes (mach r) \<noteq> 0" by auto
  have hb: "ucast a < vm2_halt_bytes (mach r)" "ucast (a + 1) < vm2_halt_bytes (mach r)"
    using assms(10) a1 by (auto simp: word_less_def)
  have hm: "vm2_halt_mode r" using assms(1,2) by (simp add: vm2_halt_mode_def)
  have nx: "\<not> bus_vm2_cpu_is_nxm a True (mach r)" "\<not> bus_vm2_cpu_is_nxm (a + 1) True (mach r)"
    using hb hb0 by (simp_all add: vm2_low(3)[OF a1(1) assms(4)] vm2_low(3)[OF a1(2) assms(4)] not_le)
  have h: "g_vm2_halt_ram (mach r) \<noteq> None" using assms(8) by simp
  have bytes: "g_vm2_halt_ram_bytes (mach r) = uint (vm2_halt_bytes (mach r))" using assms(3,8) by (simp add: bus_ok_def)
  have "bus_vm2_cpu_read16 e a True (mach r) = Some (word_of (halt (ucast a)) (halt (ucast a + 1)), mach r)"
    using assms(10) a1(3,4)
    by (simp add: bus_vm2_cpu_read16_def vm2_access(1)[OF a1(1) assms(4) nx(1) h] vm2_access(1)[OF a1(2) assms(4) nx(2) h]
        halt_get_def assms(8) bytes next_a)
  then have "lsi_load_word e be r a = Some (word_of (halt (ucast a)) (halt (ucast a + 1)), r)"
    using assms(1) hm nx by (simp add: lsi_load_word_def on_bus_def)
  with fast show ?thesis by blast
qed

theorem vm2_halt_bank_bypassed_witness:
  "\<exists>r. core_load_word_ifetch (lsi_bus no_others False False) (\<lambda>_. Some) 0x100 r = Some (0x1111, r) \<and>
     lsi_load_word no_others Some r 0x100 = Some (0x2222, r)"
proof -
  define r where "r = (zero_regs K1801VM2 ((bus_init blank_lsi)\<lparr>g_ram := Some (\<lambda>_. 0x11), vm2_halt_bytes := 0x1000,
      g_vm2_halt_ram := Some (\<lambda>_. 0x22), g_vm2_halt_ram_bytes := 0x1000\<rparr>))\<lparr>psw := 0x1E0, ram_fast := Some 0, ram_fast_size := 0xE000\<rparr>"
  have "core_load_word_ifetch (lsi_bus no_others False False) (\<lambda>_. Some) 0x100 r = Some (word_of 0x11 0x11, r) \<and>
     lsi_load_word no_others Some r 0x100 = Some (word_of 0x22 0x22, r)"
    by (rule vm2_halt_bank_bypassed[of r "\<lambda>_. 0x11" "\<lambda>_. 0x22"])
      (simp_all add: r_def is_vm2_def bus_ok_def bus_init_def Let_def blank_lsi_def ram_addr_def zero_regs_def)
  then show ?thesis by (auto simp: word_of_def)
qed

text \<open>The page of the devices, mapped by a kernel with 18-bit addresses on a machine with more
  than 256 KB: the cached translation leads to RAM, the walk to the device.\<close>

definition io18_machine :: "unit lsi regs" where
  "io18_machine = mmu_tlb_flush_all
     ((zero_regs DCJ11 (snd (dl11_init no_others (bus_set_pdp1184_io_16bit False nop_lsi))))
        \<lparr>ram_fast := Some 0, ram_fast_size := 0x400000, mmu_ssr0 := 1,
         mmu_pdr := upd3 0 0 7 0x7F06 (\<lambda>m s g. 0), mmu_par := upd3 0 0 7 0xF80 (\<lambda>m s g. 0)\<rparr>)"

theorem io_page_18bit_bypassed:
  "map_option fst (core_load_word_slow (lsi_bus no_others True False) t False False 0xFF74 io18_machine) = Some 0x80 \<and>
   map_option fst (core_load_word (lsi_bus no_others True False) t 0xFF74 io18_machine) = Some 0xA0"
proof
  show "map_option fst (core_load_word_slow (lsi_bus no_others True False) t False False 0xFF74 io18_machine) = Some 0x80" by code_simp
  show "map_option fst (core_load_word (lsi_bus no_others True False) t 0xFF74 io18_machine) = Some 0xA0" by code_simp
qed

section \<open>Initialisation\<close>

text \<open>The machine of the default configuration comes up with the device table and the interrupt
  sources of its enabled devices; no two ranges overlap.\<close>

theorem lsi_init_1104:
  "let (rc, r) = impl_init no_others (zero_regs K1801VM1 blank_lsi); s = mach r
   in rc = 0 \<and> map (\<lambda>x. (io_start x, io_end x, io_read8 x)) (g_ranges s) =
        [(0xFF70, 0xFF77, Some IO_DL11), (0xFD40, 0xFD47, Some IO_DL11), (0xFF66, 0xFF67, Some IO_KW11), (0xFF4C, 0xFF4F, Some IO_LP11),
         (0xFF78, 0xFF79, Some IO_SR), (0xFFCC, 0xFFCF, Some IO_VM1SEL), (0xFFBC, 0xFFBF, Some IO_VM1SAV)] \<and>
      g_irq s = [IRQ_DL11_RX, IRQ_DL11_TX, IRQ_KW11, IRQ_LP11]"
  by code_simp

end
