(* ===== verification/HostFile.thy ===== *)
theory HostFile
  imports Prelude
begin

text \<open>
  The image files of the disk controllers (lsi11/emu\_file.c, the build on \<^verbatim>\<open>stdio\<close>): a file is its
  bytes, the position of the stream and its indicator of the end of file. A stream can be written
  when it was opened with \<open>r+b\<close>, and it can be positioned unless it is a pipe. Whether the host opens
  a file is an argument of the functions that open one; the host has room for what is written.
\<close>

section \<open>Streams\<close>

record emu_file =
  f_bytes :: "u8 list"
  f_pos :: nat
  f_eof :: bool
  f_writable :: bool
  f_seekable :: bool

definition emu_fread :: "nat \<Rightarrow> emu_file \<Rightarrow> u8 list \<times> emu_file" where
  "emu_fread n f =
     (let bs = take n (drop (f_pos f) (f_bytes f))
      in (bs, f\<lparr>f_pos := f_pos f + length bs, f_eof := (length bs < n \<or> f_eof f)\<rparr>))"

text \<open>A write behind the end fills the gap with zeros.\<close>

definition put_at :: "nat \<Rightarrow> u8 list \<Rightarrow> u8 list \<Rightarrow> u8 list" where
  "put_at p bs xs = take p xs @ replicate (p - length xs) 0 @ bs @ drop (p + length bs) xs"

definition emu_fwrite :: "u8 list \<Rightarrow> emu_file \<Rightarrow> nat \<times> emu_file" where
  "emu_fwrite bs f =
     (if f_writable f
      then (length bs, f\<lparr>f_bytes := put_at (f_pos f) bs (f_bytes f), f_pos := f_pos f + length bs\<rparr>)
      else (0, f))"

definition emu_fseek_set :: "nat \<Rightarrow> emu_file \<Rightarrow> int \<times> emu_file" where
  "emu_fseek_set off f = (if f_seekable f then (0, f\<lparr>f_pos := off, f_eof := False\<rparr>) else (-1, f))"

definition emu_fseek_end :: "emu_file \<Rightarrow> int \<times> emu_file" where
  "emu_fseek_end f = (if f_seekable f then (0, f\<lparr>f_pos := length (f_bytes f), f_eof := False\<rparr>) else (-1, f))"

definition emu_ftell :: "emu_file \<Rightarrow> nat" where
  "emu_ftell f = f_pos f"

definition emu_feof :: "emu_file \<Rightarrow> bool" where
  "emu_feof f = f_eof f"

definition emu_clearerr :: "emu_file \<Rightarrow> emu_file" where
  "emu_clearerr f = f\<lparr>f_eof := False\<rparr>"

section \<open>What is written is there\<close>

lemma put_at_inside: "p \<le> length xs \<Longrightarrow> put_at p bs xs = take p xs @ bs @ drop (p + length bs) xs"
  by (simp add: put_at_def)

lemma length_put_at: "p + length bs \<le> length xs \<Longrightarrow> length (put_at p bs xs) = length xs"
  by (simp add: put_at_def)

lemma put_at_nth:
  assumes "p + length bs \<le> length xs" "i < length xs"
  shows "put_at p bs xs ! i = (if p \<le> i \<and> i < p + length bs then bs ! (i - p) else xs ! i)"
  using assms by (auto simp: put_at_def nth_append min_def)

lemma take_drop_put_at: "p \<le> length xs \<Longrightarrow> take (length bs) (drop p (put_at p bs xs)) = bs"
  by (simp add: put_at_inside)

lemma put_at_append: "p \<le> length xs \<Longrightarrow> put_at (p + length as) bs (put_at p as xs) = put_at p (as @ bs) xs"
  by (simp add: put_at_inside take_append ac_simps)

lemma put_at_Nil: "p \<le> length xs \<Longrightarrow> put_at p [] xs = xs"
  by (simp add: put_at_inside)

end
