(* ===== verification/Rk11.thy ===== *)
theory Rk11
  imports LsiBus HostFile
begin

text \<open>
  The RK11 disk controller of the LSI-11 emulator (lsi11/dev\_rk11.c): registers, the eight drives and
  their image files, the address of a sector in an image, transfers between an image and the memory
  of the machine, and the commands, which a poll executes. Bits of the registers are written as
  numbers, next to their names in the C code. An access of the bus outside an array is \<open>None\<close>.
\<close>

section \<open>State\<close>

record rk11 =
  rkds :: u16
  rker :: u16
  rkcs :: u16
  rkwc :: u16
  rkba :: u16
  rkda :: u16
  rkdb :: u16
  rkmex :: u8
  rk_write_lock :: "nat \<Rightarrow> bool"
  rk_l :: irq_latch_t
  rk_fp :: "nat \<Rightarrow> emu_file option"
  rk_img_read_only :: "nat \<Rightarrow> bool"
  sector_one_based :: bool

abbreviation RKCS_GO :: u16 where "RKCS_GO \<equiv> 0x1"
abbreviation RKCS_FUNC_MASK :: u16 where "RKCS_FUNC_MASK \<equiv> 0xE"
abbreviation RKCS_MEX_MASK :: u16 where "RKCS_MEX_MASK \<equiv> 0x30"
abbreviation RKCS_IDE :: u16 where "RKCS_IDE \<equiv> 0x40"
abbreviation RKCS_RDY :: u16 where "RKCS_RDY \<equiv> 0x80"
abbreviation RKCS_FMT :: u16 where "RKCS_FMT \<equiv> 0x400"
abbreviation RKCS_IBA :: u16 where "RKCS_IBA \<equiv> 0x800"
abbreviation RKCS_SCP :: u16 where "RKCS_SCP \<equiv> 0x2000"
abbreviation RKCS_HE :: u16 where "RKCS_HE \<equiv> 0x4000"
abbreviation RKCS_ERR :: u16 where "RKCS_ERR \<equiv> 0x8000"
abbreviation RKER_WCE :: u16 where "RKER_WCE \<equiv> 0x1"
abbreviation RKER_NXS :: u16 where "RKER_NXS \<equiv> 0x20"
abbreviation RKER_NXC :: u16 where "RKER_NXC \<equiv> 0x40"
abbreviation RKER_NXD :: u16 where "RKER_NXD \<equiv> 0x80"
abbreviation RKER_DLT :: u16 where "RKER_DLT \<equiv> 0x200"
abbreviation RKER_NXM :: u16 where "RKER_NXM \<equiv> 0x400"
abbreviation RKER_PGE :: u16 where "RKER_PGE \<equiv> 0x800"
abbreviation RKER_SKE :: u16 where "RKER_SKE \<equiv> 0x1000"
abbreviation RKER_WLK :: u16 where "RKER_WLK \<equiv> 0x2000"
abbreviation RKER_OVR :: u16 where "RKER_OVR \<equiv> 0x4000"
abbreviation RKER_DRE :: u16 where "RKER_DRE \<equiv> 0x8000"
abbreviation RKER_SOFT_MASK :: u16 where "RKER_SOFT_MASK \<equiv> 0x3"
abbreviation RKER_HARD_MASK :: u16 where "RKER_HARD_MASK \<equiv> 0xFFE0"
abbreviation RK_SECTORS_PER_TRACK :: nat where "RK_SECTORS_PER_TRACK \<equiv> 12"
abbreviation RK_WORDS_PER_SECTOR :: nat where "RK_WORDS_PER_SECTOR \<equiv> 256"
abbreviation RK_MAX_CYL :: u16 where "RK_MAX_CYL \<equiv> 202"
abbreviation RK_MAX_SURF :: u16 where "RK_MAX_SURF \<equiv> 1"
abbreviation RK11_MAX_DRIVES :: nat where "RK11_MAX_DRIVES \<equiv> 8"

section \<open>Drives and disk addresses\<close>

definition rk_drive_valid :: "u16 \<Rightarrow> bool" where
  "rk_drive_valid drive = (unat drive < RK11_MAX_DRIVES)"

definition rk_drive_fp :: "u16 \<Rightarrow> rk11 \<Rightarrow> emu_file option" where
  "rk_drive_fp drive k = (if \<not> rk_drive_valid drive then None else rk_fp k (unat drive))"

definition rk_drive_read_only :: "u16 \<Rightarrow> rk11 \<Rightarrow> bool" where
  "rk_drive_read_only drive k = (if \<not> rk_drive_valid drive then False else rk_img_read_only k (unat drive))"

definition rk_drive_attached :: "u16 \<Rightarrow> rk11 \<Rightarrow> bool" where
  "rk_drive_attached drive k = (rk_drive_fp drive k \<noteq> None)"

definition rk_get_drive :: "u16 \<Rightarrow> u16" where "rk_get_drive da = drop_bit 13 (da AND 0xE000)"
definition rk_get_sector :: "u16 \<Rightarrow> u16" where "rk_get_sector da = da AND 0xF"
definition rk_get_surf :: "u16 \<Rightarrow> u16" where "rk_get_surf da = drop_bit 4 (da AND 0x10)"
definition rk_get_cyl :: "u16 \<Rightarrow> u16" where "rk_get_cyl da = drop_bit 5 (da AND 0x1FE0)"

definition rk_set_da :: "u16 \<Rightarrow> u16 \<Rightarrow> u16 \<Rightarrow> u16 \<Rightarrow> u16" where
  "rk_set_da drive cyl surf sec =
     push_bit 13 (drive AND 7) OR push_bit 5 (cyl AND 0xFF) OR push_bit 4 (surf AND 1) OR (sec AND 0xF)"

definition rk_da_to_lba :: "u16 \<Rightarrow> rk11 \<Rightarrow> u32 option" where
  "rk_da_to_lba da k =
     (let cyl = ucast (rk_get_cyl da) :: u32; surf = ucast (rk_get_surf da) :: u32; sec = ucast (rk_get_sector da) :: u32;
          sec = (if sector_one_based k then (if sec = 0 then 12 else sec) - 1 else sec)
      in if sec \<ge> 12 then None
         else if surf > 1 then None
         else if cyl > 202 then None
         else Some ((cyl * 2 + surf) * 12 + sec))"

definition rk_next_sector :: "u16 \<Rightarrow> u16 option" where
  "rk_next_sector da =
     (let drive = rk_get_drive da; cyl = rk_get_cyl da; surf = rk_get_surf da; sec = rk_get_sector da + 1
      in if sec \<ge> 12
         then if surf + 1 > RK_MAX_SURF
              then if cyl + 1 > RK_MAX_CYL then None
                   else Some (rk_set_da drive (cyl + 1) 0 0)
              else Some (rk_set_da drive cyl (surf + 1) 0)
         else Some (rk_set_da drive cyl surf sec))"

section \<open>Status registers\<close>

definition rk_clear_soft_errors :: "rk11 \<Rightarrow> rk11" where
  "rk_clear_soft_errors k = k\<lparr>rker := rker k AND NOT RKER_SOFT_MASK\<rparr>"

definition rk_clear_hard_errors :: "rk11 \<Rightarrow> rk11" where
  "rk_clear_hard_errors k = k\<lparr>rker := rker k AND NOT RKER_HARD_MASK\<rparr>"

definition rk_has_hard_error :: "rk11 \<Rightarrow> bool" where
  "rk_has_hard_error k = (rker k AND RKER_HARD_MASK \<noteq> 0)"

definition rk_sync_rkcs :: "rk11 \<Rightarrow> rk11" where
  "rk_sync_rkcs k =
     (let ro = (if l_done (rk_l k) then RKCS_RDY else 0);
          ro = (if rkcs k AND RKCS_SCP \<noteq> 0 then ro OR RKCS_SCP else ro);
          ro = (if rk_has_hard_error k then ro OR RKCS_HE else ro);
          ro = (if rker k \<noteq> 0 then ro OR RKCS_ERR else ro);
          cs = (rkcs k AND NOT (RKCS_RDY OR RKCS_SCP OR RKCS_HE OR RKCS_ERR)) OR ro;
          cs = (cs AND NOT RKCS_MEX_MASK) OR push_bit 4 (ucast (rkmex k AND 3));
          cs = (if l_ie (rk_l k) then cs OR RKCS_IDE else cs AND NOT RKCS_IDE)
      in k\<lparr>rkcs := cs\<rparr>)"

definition rk_sync_rkds :: "rk11 \<Rightarrow> rk11" where
  "rk_sync_rkds k =
     (let drive = rk_get_drive (rkda k); sec = rk_get_sector (rkda k);
          v = (sec AND 0xF) OR 0x10 OR 0x100 OR 0x800 OR push_bit 13 (drive AND 7);
          v = (if rk_drive_attached drive k then v OR 0x80 else v);
          v = (if l_done (rk_l k) then v OR 0x40 else v);
          v = (if rk_drive_read_only drive k \<or> rk_write_lock k (unat drive) then v OR 0x20 else v)
      in k\<lparr>rkds := v\<rparr>)"

definition rk_sync_status :: "rk11 \<Rightarrow> rk11" where
  "rk_sync_status k = rk_sync_rkds (rk_sync_rkcs k)"

definition rk_set_error :: "u16 \<Rightarrow> rk11 \<Rightarrow> rk11" where
  "rk_set_error b k = rk_sync_status (k\<lparr>rker := rker k OR b\<rparr>)"

section \<open>Direct memory access\<close>

definition rk_pa :: "u8 \<Rightarrow> u16 \<Rightarrow> 'x lsi \<Rightarrow> u32" where
  "rk_pa mex ba s =
     (let uba = (push_bit 16 (ucast (mex AND 3)) OR ucast ba) AND 0x3FFFF
      in if g_machine s = BUS_MACHINE_PDP1184 then ubmap_map_addr uba s else uba)"

definition rk_ba_inc :: "u16 \<Rightarrow> u8 \<Rightarrow> u16 \<times> u8" where
  "rk_ba_inc ba mex = (let ba' = ba + 2 in (ba', if ba' < ba then (mex + 1) AND 3 else mex))"

text \<open>The first component is the return code; a word that was not read is 0.\<close>

definition rk_dma_read_word :: "'x other_devs \<Rightarrow> u32 \<Rightarrow> 'x lsi \<Rightarrow> (int \<times> u16 \<times> 'x lsi) option" where
  "rk_dma_read_word e pa s =
     (if \<not> bus_range_is_ram pa 2 s then Some (-1, 0, s)
      else if bus_is_nxm pa s \<or> bus_is_nxm (pa + 1) s then Some (-1, 0, s)
      else do { (w, s) \<leftarrow> bus_read16 e pa s; Some (0, w, s) })"

definition rk_dma_write_word :: "'x other_devs \<Rightarrow> u32 \<Rightarrow> u16 \<Rightarrow> 'x lsi \<Rightarrow> (int \<times> 'x lsi) option" where
  "rk_dma_write_word e pa w s =
     (if \<not> bus_range_is_ram pa 2 s then Some (-1, s)
      else if bus_is_nxm pa s \<or> bus_is_nxm (pa + 1) s then Some (-1, s)
      else do { s \<leftarrow> bus_write16 e pa w s; Some (0, s) })"

section \<open>Transfers\<close>

definition rk_finish_command :: "rk11 \<Rightarrow> rk11" where
  "rk_finish_command k =
     rk_sync_status (k\<lparr>rkcs := rkcs k AND NOT RKCS_GO, rk_l := irq_latch_event_set_done (rk_l k)\<rparr>)"

definition rk_do_control_reset :: "rk11 \<Rightarrow> rk11" where
  "rk_do_control_reset k =
     (let k = rk_clear_soft_errors (rk_clear_hard_errors k);
          k = k\<lparr>rk_write_lock := (\<lambda>i. if i < RK11_MAX_DRIVES then False else rk_write_lock k i),
                rkwc := 0, rkba := 0, rkda := 0, rkdb := 0, rkmex := 0\<rparr>;
          k = k\<lparr>rkcs := (rkcs k AND (RKCS_IDE OR 0x100 OR 0x200 OR RKCS_FMT OR RKCS_IBA)) AND NOT RKCS_SCP\<rparr>
      in rk_finish_command k)"

definition rk_validate_da_for_xfer :: "u16 \<Rightarrow> rk11 \<Rightarrow> int \<times> rk11" where
  "rk_validate_da_for_xfer da k =
     (let drive = rk_get_drive da; cyl = rk_get_cyl da; sec = rk_get_sector da
      in if \<not> rk_drive_valid drive \<or> \<not> rk_drive_attached drive k then (-1, rk_set_error RKER_NXD k)
         else if cyl > RK_MAX_CYL then (-1, rk_set_error RKER_NXC k)
         else if sec \<ge> 12 then (-1, rk_set_error RKER_NXS k)
         else if rk_get_surf da > RK_MAX_SURF then (-1, rk_set_error RKER_SKE k)
         else (0, k))"

datatype rk_xfer_mode = RK_XFER_READ | RK_XFER_WRITE | RK_XFER_WCHK | RK_XFER_RCHK

text \<open>The local variables of the loop.\<close>

record rk_cursor =
  cur_wc :: u16
  cur_ba :: u16
  cur_mex :: u8
  cur_da :: u16
  w_in_sector :: nat

text \<open>The stream of the drive: \<^verbatim>\<open>fp\<close> is not \<^verbatim>\<open>NULL\<close> in the loop.\<close>

definition rk_with_fp :: "nat \<Rightarrow> (emu_file \<Rightarrow> 'a \<times> emu_file) \<Rightarrow> rk11 \<Rightarrow> ('a \<times> rk11) option" where
  "rk_with_fp d op k =
     (case rk_fp k d of None \<Rightarrow> None
      | Some f \<Rightarrow> (let (r, f) = op f in Some (r, k\<lparr>rk_fp := (rk_fp k)(d := Some f)\<rparr>)))"

text \<open>A word from the image, and a word into it: \<open>None\<close> inside is a read or write of less than a byte.\<close>

definition rk_img_read :: "nat \<Rightarrow> rk11 \<Rightarrow> (u16 option \<times> rk11) option" where
  "rk_img_read d k =
     do { (lo, k) \<leftarrow> rk_with_fp d (emu_fread 1) k;
          if length lo \<noteq> 1 then Some (None, k)
          else do { (hi, k) \<leftarrow> rk_with_fp d (emu_fread 1) k;
                    if length hi \<noteq> 1 then Some (None, k) else Some (Some (word_of (hd lo) (hd hi)), k) } }"

definition rk_img_write :: "nat \<Rightarrow> u16 \<Rightarrow> rk11 \<Rightarrow> (bool \<times> rk11) option" where
  "rk_img_write d w k =
     do { (n, k) \<leftarrow> rk_with_fp d (emu_fwrite [ucast (w AND 0xFF)]) k;
          if n \<noteq> 1 then Some (False, k)
          else do { (n, k) \<leftarrow> rk_with_fp d (emu_fwrite [ucast (drop_bit 8 w AND 0xFF)]) k; Some (n = 1, k) } }"


text \<open>The part of an iteration that depends on the mode; \<open>False\<close> is a \<^verbatim>\<open>break\<close>.\<close>

definition rk_xfer_data ::
  "'x other_devs \<Rightarrow> rk_xfer_mode \<Rightarrow> nat \<Rightarrow> u32 \<Rightarrow> u16 \<Rightarrow> rk11 \<Rightarrow> 'x lsi \<Rightarrow> (bool \<times> rk11 \<times> 'x lsi) option" where
  "rk_xfer_data e mode d pa w k s =
     (case mode of
        RK_XFER_READ \<Rightarrow>
          do { (rc, s) \<leftarrow> rk_dma_write_word e pa w s;
               if rc \<noteq> 0 then Some (False, rk_set_error RKER_NXM k, s) else Some (True, k, s) }
      | RK_XFER_WRITE \<Rightarrow>
          do { (rc, w, s) \<leftarrow> rk_dma_read_word e pa s;
               if rc \<noteq> 0 then Some (False, rk_set_error RKER_NXM k, s)
               else do { (done, k) \<leftarrow> rk_img_write d w k;
                         if done then Some (True, k, s) else Some (False, rk_set_error RKER_DLT k, s) } }
      | RK_XFER_WCHK \<Rightarrow>
          do { (rc, mw, s) \<leftarrow> rk_dma_read_word e pa s;
               if rc \<noteq> 0 then Some (False, rk_set_error RKER_NXM k, s)
               else Some (True, if mw \<noteq> w then rk_set_error RKER_WCE k else k, s) }
      | RK_XFER_RCHK \<Rightarrow> Some (True, k, s))"

definition rk_xfer_advance :: "rk_cursor \<Rightarrow> rk11 \<Rightarrow> bool \<times> rk_cursor \<times> rk11" where
  "rk_xfer_advance c k =
     (let (ba, mex) = (if rkcs k AND RKCS_IBA = 0 then rk_ba_inc (cur_ba c) (cur_mex c) else (cur_ba c, cur_mex c));
          c = c\<lparr>cur_ba := ba, cur_mex := mex, cur_wc := cur_wc c + 1, w_in_sector := w_in_sector c + 1\<rparr>
      in if w_in_sector c \<ge> RK_WORDS_PER_SECTOR
         then let c = c\<lparr>w_in_sector := 0\<rparr>
              in case rk_next_sector (cur_da c) of
                   None \<Rightarrow> (False, c, if cur_wc c \<noteq> 0 then rk_set_error RKER_OVR k else k)
                 | Some da \<Rightarrow> (True, c\<lparr>cur_da := da\<rparr>, k)
         else (True, c, k))"

text \<open>The iteration after the word of the image has been read.\<close>

definition rk_xfer_rest ::
  "'x other_devs \<Rightarrow> rk_xfer_mode \<Rightarrow> nat \<Rightarrow> u32 \<Rightarrow> u16 \<Rightarrow> rk_cursor \<Rightarrow> rk11 \<Rightarrow> 'x lsi \<Rightarrow> (bool \<times> rk_cursor \<times> rk11 \<times> 'x lsi) option" where
  "rk_xfer_rest e mode d pa w c k s =
     do { (go, k, s) \<leftarrow> rk_xfer_data e mode d pa w k s;
          if go then (let (go, c, k) = rk_xfer_advance c k in Some (go, c, k, s)) else Some (False, c, k, s) }"

definition rk_xfer_word ::
  "'x other_devs \<Rightarrow> rk_xfer_mode \<Rightarrow> nat \<Rightarrow> rk_cursor \<Rightarrow> rk11 \<Rightarrow> 'x lsi \<Rightarrow> (bool \<times> rk_cursor \<times> rk11 \<times> 'x lsi) option" where
  "rk_xfer_word e mode d c k s =
     (let pa = rk_pa (cur_mex c) (cur_ba c) s
      in case rk_da_to_lba (cur_da c) k of
           None \<Rightarrow> Some (False, c, rk_set_error RKER_NXS k, s)
         | Some lba \<Rightarrow>
             do { (rc, k) \<leftarrow> (if w_in_sector c = 0 then rk_with_fp d (emu_fseek_set (unat (lba * 0x200))) k else Some (0, k));
                  if rc \<noteq> 0 then Some (False, c, rk_set_error RKER_DLT k, s)
                  else do { (w, k) \<leftarrow> (if mode = RK_XFER_WRITE then Some (Some 0, k) else rk_img_read d k);
                            case w of
                              None \<Rightarrow> Some (False, c, rk_set_error RKER_DLT k, s)
                            | Some w \<Rightarrow> rk_xfer_rest e mode d pa w c k s } })"

partial_function (option) rk_words ::
  "'x other_devs \<Rightarrow> rk_xfer_mode \<Rightarrow> nat \<Rightarrow> rk_cursor \<Rightarrow> rk11 \<Rightarrow> 'x lsi \<Rightarrow> (rk_cursor \<times> rk11 \<times> 'x lsi) option" where
  "rk_words e mode d c k s =
     (if cur_wc c = 0 then Some (c, k, s)
      else do { (go, c, k, s) \<leftarrow> rk_xfer_word e mode d c k s;
                if go then rk_words e mode d c k s else Some (c, k, s) })"

definition rk_transfer :: "'x other_devs \<Rightarrow> rk_xfer_mode \<Rightarrow> rk11 \<Rightarrow> 'x lsi \<Rightarrow> (rk11 \<times> 'x lsi) option" where
  "rk_transfer e mode k s =
     (let drive = rk_get_drive (rkda k);
          c = \<lparr>cur_wc = rkwc k, cur_ba = rkba k, cur_mex = rkmex k, cur_da = rkda k, w_in_sector = 0\<rparr>;
          (rc, k) = rk_validate_da_for_xfer (rkda k) k
      in if rc \<noteq> 0 then Some (rk_finish_command k, s)
         else if rk_drive_fp drive k = None then Some (rk_finish_command (rk_set_error RKER_DRE k), s)
         else if (mode = RK_XFER_WRITE \<or> mode = RK_XFER_WCHK) \<and> (rk_drive_read_only drive k \<or> rk_write_lock k (unat drive))
         then Some (rk_finish_command (rk_set_error RKER_WLK k), s)
         else do { (c, k, s) \<leftarrow> rk_words e mode (unat drive) c k s;
                   let k = rk_sync_status (k\<lparr>rkwc := cur_wc c, rkba := cur_ba c, rkmex := cur_mex c AND 3, rkda := cur_da c\<rparr>);
                   Some (rk_finish_command k, s) })"

section \<open>Commands and registers\<close>

definition rk_exec_command :: "'x other_devs \<Rightarrow> rk11 \<Rightarrow> 'x lsi \<Rightarrow> (rk11 \<times> 'x lsi) option" where
  "rk_exec_command e k s =
     (let fn = rkcs k AND RKCS_FUNC_MASK
      in if rkcs k AND RKCS_GO = 0 then Some (k, s)
         else if fn = 0 then Some (rk_do_control_reset k, s)
         else if fn = 8 then
           (let (rc, k) = rk_validate_da_for_xfer (rkda k) k
            in if rc \<noteq> 0 then Some (rk_finish_command k, s)
               else Some (rk_finish_command (k\<lparr>rkcs := rkcs k OR RKCS_SCP\<rparr>), s))
         else if fn = 12 then
           (if \<not> rk_drive_valid (rk_get_drive (rkda k)) then Some (rk_finish_command (rk_set_error RKER_NXD k), s)
            else Some (rk_finish_command
                         (k\<lparr>rkda := rk_set_da (rk_get_drive (rkda k)) 0 0 0, rkcs := rkcs k OR RKCS_SCP\<rparr>), s))
         else if fn = 14 then
           (if \<not> rk_drive_valid (rk_get_drive (rkda k)) then Some (rk_finish_command (rk_set_error RKER_NXD k), s)
            else Some (rk_finish_command
                         (k\<lparr>rk_write_lock := (rk_write_lock k)(unat (rk_get_drive (rkda k)) := True)\<rparr>), s))
         else if fn = 4 then rk_transfer e RK_XFER_READ k s
         else if fn = 2 then rk_transfer e RK_XFER_WRITE k s
         else if fn = 6 then
           (if rkcs k AND RKCS_FMT \<noteq> 0 then Some (rk_finish_command (rk_set_error RKER_PGE k), s)
            else rk_transfer e RK_XFER_WCHK k s)
         else if fn = 10 then
           (if rkcs k AND RKCS_FMT \<noteq> 0 then Some (rk_finish_command (rk_set_error RKER_PGE k), s)
            else rk_transfer e RK_XFER_RCHK k s)
         else Some (rk_finish_command (rk_set_error RKER_PGE k), s))"

definition byte_of :: "u16 \<Rightarrow> u16 \<Rightarrow> u8" where
  "byte_of addr v = (if addr AND 1 \<noteq> 0 then ucast (drop_bit 8 v AND 0xFF) else ucast (v AND 0xFF))"

definition set_byte_of :: "u16 \<Rightarrow> u8 \<Rightarrow> u16 \<Rightarrow> u16" where
  "set_byte_of addr b old =
     (if addr AND 1 \<noteq> 0 then (old AND 0xFF) OR push_bit 8 (ucast b) else (old AND 0xFF00) OR ucast b)"

definition rk_read8 :: "u16 \<Rightarrow> rk11 \<Rightarrow> u8 \<times> rk11" where
  "rk_read8 addr k =
     (let base = addr AND 0xFFFE; k = rk_sync_status k
      in if base = 0xFF00 then (byte_of addr (rkds k), k)
         else if base = 0xFF02 then (byte_of addr (rker k), k)
         else if base = 0xFF04 then (byte_of addr (rkcs k), k)
         else if base = 0xFF06 then (byte_of addr (rkwc k), k)
         else if base = 0xFF08 then (byte_of addr (rkba k), k)
         else if base = 0xFF0A then (byte_of addr (rkda k), k)
         else if base = 0xFF0E then (byte_of addr (rkdb k), k)
         else (0, k))"

definition rk_write_cs_low :: "u8 \<Rightarrow> rk11 \<Rightarrow> rk11" where
  "rk_write_cs_low b k =
     (let m = RKCS_FUNC_MASK OR RKCS_MEX_MASK OR RKCS_IDE;
          cs = (rkcs k AND NOT m) OR (ucast b AND m);
          k = k\<lparr>rkcs := cs, rkmex := ucast (drop_bit 4 (cs AND RKCS_MEX_MASK)),
                rk_l := irq_latch_set_ie (cs AND RKCS_IDE \<noteq> 0) (rk_l k)\<rparr>;
          k = (if b AND 1 \<noteq> 0
               then if l_done (rk_l k)
                    then let k = rk_clear_soft_errors (k\<lparr>rkcs := (rkcs k OR RKCS_GO) AND NOT RKCS_SCP\<rparr>)
                         in k\<lparr>rk_l := irq_latch_sw_clear_done (rk_l k)\<rparr>
                    else k
               else k\<lparr>rkcs := rkcs k AND NOT RKCS_GO\<rparr>)
      in rk_sync_status k)"

definition rk_write8 :: "u16 \<Rightarrow> u8 \<Rightarrow> rk11 \<Rightarrow> rk11" where
  "rk_write8 addr b k =
     (let base = addr AND 0xFFFE; k = rk_sync_status k
      in if base = 0xFF00 \<or> base = 0xFF02 then k
         else if base = 0xFF06 then k\<lparr>rkwc := set_byte_of addr b (rkwc k)\<rparr>
         else if base = 0xFF08 then k\<lparr>rkba := set_byte_of addr b (rkba k)\<rparr>
         else if base = 0xFF0A then
           (if \<not> l_done (rk_l k) then k else rk_sync_status (k\<lparr>rkda := set_byte_of addr b (rkda k)\<rparr>))
         else if base = 0xFF0E then k\<lparr>rkdb := set_byte_of addr b (rkdb k)\<rparr>
         else if base = 0xFF04 then
           (if addr AND 1 \<noteq> 0
            then let m = 0x100 OR 0x200 OR RKCS_FMT OR RKCS_IBA
                 in rk_sync_status (k\<lparr>rkcs := (rkcs k AND NOT m) OR (push_bit 8 (ucast b) AND m)\<rparr>)
            else rk_write_cs_low b k)
         else k)"

definition rk11_irq_pending :: "rk11 \<Rightarrow> bool" where "rk11_irq_pending k = irq_req (rk_l k)"
definition rk11_irq_ack :: "rk11 \<Rightarrow> rk11" where "rk11_irq_ack k = k\<lparr>rk_l := irq_latch_ack (rk_l k)\<rparr>"

definition rk11_reset :: "rk11 \<Rightarrow> rk11" where
  "rk11_reset k =
     rk_sync_status
       (k\<lparr>rkds := 0, rker := 0, rkcs := 0, rkwc := 0, rkba := 0, rkda := 0, rkdb := 0, rkmex := 0,
          rk_write_lock := (\<lambda>i. if i < RK11_MAX_DRIVES then False else rk_write_lock k i),
          rk_l := irq_latch_event_set_done (irq_latch_reset (rk_l k))\<rparr>)"

definition rk11_poll :: "'x other_devs \<Rightarrow> rk11 \<Rightarrow> 'x lsi \<Rightarrow> (rk11 \<times> 'x lsi) option" where
  "rk11_poll e k s = rk_exec_command e k s"

section \<open>Images\<close>

text \<open>What the host gives when the file is opened for update and, if it cannot be, for reading. The
  path is not \<^verbatim>\<open>NULL\<close>; the unit is kept in 16 bits.\<close>

definition rk11_open_image_unit :: "u32 \<Rightarrow> emu_file option \<Rightarrow> emu_file option \<Rightarrow> rk11 \<Rightarrow> int \<times> rk11" where
  "rk11_open_image_unit unit rw ro k =
     (let drive = ucast unit :: u16; d = unat drive
      in if \<not> rk_drive_valid drive then (-1, rk_sync_status k)
         else let k = k\<lparr>rk_fp := (rk_fp k)(d := None), rk_img_read_only := (rk_img_read_only k)(d := False)\<rparr>
              in case rw of
                   Some f \<Rightarrow> (0, rk_sync_status (k\<lparr>rk_fp := (rk_fp k)(d := Some f)\<rparr>))
                 | None \<Rightarrow>
                     (case ro of
                        None \<Rightarrow> (-1, rk_sync_status k)
                      | Some f \<Rightarrow>
                          (0, rk_sync_status (k\<lparr>rk_img_read_only := (rk_img_read_only k)(d := True),
                                                rk_fp := (rk_fp k)(d := Some f)\<rparr>))))"

definition rk11_open_image :: "emu_file option \<Rightarrow> emu_file option \<Rightarrow> rk11 \<Rightarrow> int \<times> rk11" where
  "rk11_open_image rw ro k = rk11_open_image_unit 0 rw ro k"

definition rk11_close_image :: "rk11 \<Rightarrow> rk11" where
  "rk11_close_image k =
     rk_sync_status
       (k\<lparr>rk_fp := (\<lambda>i. if i < RK11_MAX_DRIVES then None else rk_fp k i),
          rk_img_read_only := (\<lambda>i. if i < RK11_MAX_DRIVES then False else rk_img_read_only k i),
          rk_write_lock := (\<lambda>i. if i < RK11_MAX_DRIVES then False else rk_write_lock k i)\<rparr>)"

definition rk11_set_sector_base :: "bool \<Rightarrow> rk11 \<Rightarrow> rk11" where
  "rk11_set_sector_base one_based k = k\<lparr>sector_one_based := one_based\<rparr>"

text \<open>The return code and what arrives in memory.\<close>

definition rk11_boot_copy_unit :: "u32 \<Rightarrow> nat \<Rightarrow> rk11 \<Rightarrow> int \<times> u8 list \<times> rk11" where
  "rk11_boot_copy_unit unit len k =
     (if unit \<ge> 8 then (-1, [], k)
      else case rk_fp k (unat unit) of
             None \<Rightarrow> (-1, [], k)
           | Some f \<Rightarrow>
               (let (rc, f) = emu_fseek_set 0 f; k' = (\<lambda>f. k\<lparr>rk_fp := (rk_fp k)(unat unit := Some f)\<rparr>)
                in if rc \<noteq> 0 then (-1, [], k' f)
                   else let (bs, f) = emu_fread len f in (if length bs = len then 0 else -1, bs, k' f)))"

definition rk11_boot_copy :: "nat \<Rightarrow> rk11 \<Rightarrow> int \<times> u8 list \<times> rk11" where
  "rk11_boot_copy len k = rk11_boot_copy_unit 0 len k"

end
