(* ===== verification/Rl11.thy ===== *)
theory Rl11
  imports Rk11
begin

text \<open>
  The RL11 disk controller of the LSI-11 emulator (lsi11/dev\_rl11.c) with four RL01 or RL02 drives:
  registers, seek, the header words with their CRC, and transfers through the buffer of a sector. A
  poll executes the command; the host's clock is its argument. Direct memory access is that of the
  RK11, with another address. An access of the bus outside an array is \<open>None\<close>.
\<close>

section \<open>State\<close>

datatype rl_type = RL11_TYPE_AUTO | RL11_TYPE_RL01 | RL11_TYPE_RL02 | RL11_TYPE_OTHER

record rl_drive =
  d_fp :: "emu_file option"
  d_type :: rl_type
  d_read_only :: bool
  d_cyl :: u16
  d_head :: u16
  d_rot_sector :: u16
  d_status_latch :: u16

record rl11 =
  rlcs :: u16
  rlba :: u16
  rlda :: u16
  rlmp :: u16
  rlbae :: u16
  rl_err_code :: u8
  rl_drive_error :: bool
  rl_busy :: bool
  rl_ready_ns :: "64 word"
  rl_l :: irq_latch_t
  rl_drv :: "nat \<Rightarrow> rl_drive"
  rl_rhdr_fifo :: "u16 list"
  rl_rhdr_len :: nat
  rl_rhdr_idx :: nat

abbreviation RLCS_FUNC_MASK :: u16 where "RLCS_FUNC_MASK \<equiv> 0xE"
abbreviation RLCS_BA_MASK :: u16 where "RLCS_BA_MASK \<equiv> 0x30"
abbreviation RLCS_IE :: u16 where "RLCS_IE \<equiv> 0x40"
abbreviation RLCS_CRDY :: u16 where "RLCS_CRDY \<equiv> 0x80"
abbreviation RLCS_DS_MASK :: u16 where "RLCS_DS_MASK \<equiv> 0x300"
abbreviation RLCS_E_OPI :: u8 where "RLCS_E_OPI \<equiv> 1"
abbreviation RLCS_E_DCRC :: u8 where "RLCS_E_DCRC \<equiv> 2"
abbreviation RLCS_E_DLT :: u8 where "RLCS_E_DLT \<equiv> 4"
abbreviation RLCS_E_HNF :: u8 where "RLCS_E_HNF \<equiv> 5"
abbreviation RLCS_E_NXM :: u8 where "RLCS_E_NXM \<equiv> 8"
abbreviation RLMP_DSE :: u16 where "RLMP_DSE \<equiv> 0x100"
abbreviation RLMP_VC :: u16 where "RLMP_VC \<equiv> 0x200"
abbreviation RLMP_WL :: u16 where "RLMP_WL \<equiv> 0x2000"
abbreviation RLDA_SA_MASK :: u16 where "RLDA_SA_MASK \<equiv> 0x3F"
abbreviation RLDA_HS :: u16 where "RLDA_HS \<equiv> 0x40"
abbreviation RLDA_CA_MASK :: u16 where "RLDA_CA_MASK \<equiv> 0xFF80"
abbreviation RL_MAX_DRIVES :: nat where "RL_MAX_DRIVES \<equiv> 4"

definition rl_image_bytes_for_type :: "rl_type \<Rightarrow> nat" where
  "rl_image_bytes_for_type ty = (let cyl = (if ty = RL11_TYPE_RL02 then 512 else 256) in cyl * 2 * 40 * 256)"

definition rl_max_cyl_for_type :: "rl_type \<Rightarrow> u16" where
  "rl_max_cyl_for_type ty = (if ty = RL11_TYPE_RL02 then 512 - 1 else 256 - 1)"

definition rl_selected_drive_index :: "rl11 \<Rightarrow> nat" where
  "rl_selected_drive_index k = unat (drop_bit 8 (rlcs k AND RLCS_DS_MASK))"

definition rl_selected_drive :: "rl11 \<Rightarrow> rl_drive option" where
  "rl_selected_drive k = (let idx = rl_selected_drive_index k in if idx \<ge> RL_MAX_DRIVES then None else Some (rl_drv k idx))"

text \<open>A drive of the selected pointer with an image, and its update.\<close>

definition rl_ready_drive :: "rl11 \<Rightarrow> (nat \<times> rl_drive \<times> emu_file) option" where
  "rl_ready_drive k =
     (case rl_selected_drive k of None \<Rightarrow> None
      | Some d \<Rightarrow> (case d_fp d of None \<Rightarrow> None | Some f \<Rightarrow> Some (rl_selected_drive_index k, d, f)))"

definition rl_upd :: "nat \<Rightarrow> rl_drive \<Rightarrow> rl11 \<Rightarrow> rl11" where
  "rl_upd i d k = k\<lparr>rl_drv := (rl_drv k)(i := d)\<rparr>"

section \<open>Status\<close>

definition rl_ba_ext_get :: "rl11 \<Rightarrow> u8" where "rl_ba_ext_get k = ucast (rlbae k AND 0x3F)"

definition rl_ba_ext_set :: "u8 \<Rightarrow> rl11 \<Rightarrow> rl11" where
  "rl_ba_ext_set ext k =
     (let bae = ucast (ext AND 0x3F) in k\<lparr>rlbae := bae, rlcs := (rlcs k AND NOT RLCS_BA_MASK) OR push_bit 4 (bae AND 3)\<rparr>)"

definition rl_clear_errors :: "rl11 \<Rightarrow> rl11" where
  "rl_clear_errors k = k\<lparr>rl_err_code := 0, rl_drive_error := False\<rparr>"

definition rl_set_error :: "u8 \<Rightarrow> bool \<Rightarrow> rl11 \<Rightarrow> rl11" where
  "rl_set_error ecode drive_error k =
     (let k = k\<lparr>rl_err_code := ecode AND 0xF\<rparr> in if drive_error then k\<lparr>rl_drive_error := True\<rparr> else k)"

definition rl_sync_cs :: "rl11 \<Rightarrow> rl11" where
  "rl_sync_cs k =
     (let rw = rlcs k AND (RLCS_FUNC_MASK OR RLCS_DS_MASK);
          rw = (if l_ie (rl_l k) then rw OR RLCS_IE else rw);
          rw = (if l_done (rl_l k) then rw OR RLCS_CRDY else rw);
          drdy = (if rl_ready_drive k \<noteq> None \<and> \<not> rl_busy k then 1 else 0);
          rw = rw OR drdy OR push_bit 10 (ucast (rl_err_code k AND 0xF));
          rw = (if rl_drive_error k then rw OR 0x4000 else rw);
          rw = (if rl_drive_error k \<or> rl_err_code k \<noteq> 0 then rw OR 0x8000 else rw)
      in k\<lparr>rlcs := rw OR push_bit 4 (rlbae k AND 3)\<rparr>)"

definition rl_rhdr_reset_fifo :: "rl11 \<Rightarrow> rl11" where
  "rl_rhdr_reset_fifo k = k\<lparr>rl_rhdr_len := 0, rl_rhdr_idx := 0\<rparr>"

definition rl_rhdr_peek_word :: "rl11 \<Rightarrow> u16" where
  "rl_rhdr_peek_word k =
     (if rl_rhdr_len k > 0 \<and> rl_rhdr_idx k < rl_rhdr_len k then rl_rhdr_fifo k ! rl_rhdr_idx k else rlmp k)"

definition rl_rhdr_advance_word :: "rl11 \<Rightarrow> rl11" where
  "rl_rhdr_advance_word k =
     (if rl_rhdr_len k > 0 \<and> rl_rhdr_idx k < rl_rhdr_len k
      then let k = k\<lparr>rl_rhdr_idx := rl_rhdr_idx k + 1\<rparr>
           in if rl_rhdr_idx k < rl_rhdr_len k then k\<lparr>rlmp := rl_rhdr_fifo k ! rl_rhdr_idx k\<rparr> else rl_rhdr_reset_fifo k
      else k)"

section \<open>Addresses and CRC\<close>

definition rl_pa :: "u16 \<Rightarrow> u8 \<Rightarrow> 'x lsi \<Rightarrow> u32" where
  "rl_pa ba ext s =
     (if g_machine s = BUS_MACHINE_PDP1184
      then ubmap_map_addr ((push_bit 16 (ucast (ext AND 3)) OR ucast ba) AND 0x3FFFF) s
      else push_bit 16 (ucast (ext AND 0x3F)) OR ucast ba)"

definition rl_ba_inc :: "u16 \<Rightarrow> u8 \<Rightarrow> u16 \<times> u8" where
  "rl_ba_inc ba ext = (let ba' = ba + 2 in (ba', if ba' < ba then (ext + 1) AND 0x3F else ext))"

definition crc_bit :: "u32 \<times> u32 \<Rightarrow> u32 \<times> u32" where
  "crc_bit = (\<lambda>(crc, d).
     let crc = (crc AND NOT 1) OR ((crc AND 1) XOR (d AND 1));
         crc = (if crc AND 1 \<noteq> 0 then drop_bit 1 crc XOR 0xA001 else drop_bit 1 crc)
     in (crc, drop_bit 1 d))"

definition crc_word :: "u16 \<Rightarrow> u32 \<Rightarrow> u32" where
  "crc_word w crc = fst ((crc_bit ^^ 16) (crc, ucast w))"

definition rl_calc_crc16 :: "u16 list \<Rightarrow> u16" where
  "rl_calc_crc16 ws = ucast (fold crc_word ws 0)"

definition rl_read_sector :: "u32 \<Rightarrow> u8 list \<Rightarrow> emu_file \<Rightarrow> int \<times> u8 list \<times> emu_file" where
  "rl_read_sector lba buf f =
     (let (rc, f) = emu_fseek_set (unat (lba * 256)) f
      in if rc \<noteq> 0 then (-1, buf, f)
         else let (bs, f) = emu_fread 256 f; buf = bs @ drop (length bs) buf
              in if length bs = 256 then (0, buf, f)
                 else if emu_feof f then (0, bs @ replicate (256 - length bs) 0, emu_clearerr f)
                 else (-1, buf, f))"

definition rl_write_sector :: "u32 \<Rightarrow> u8 list \<Rightarrow> emu_file \<Rightarrow> int \<times> emu_file" where
  "rl_write_sector lba buf f =
     (let (rc, f) = emu_fseek_set (unat (lba * 256)) f
      in if rc \<noteq> 0 then (-1, f) else let (n, f) = emu_fwrite buf f in (if n = 256 then 0 else -1, f))"

definition rl_dma_read_word :: "'x other_devs \<Rightarrow> u16 \<Rightarrow> u8 \<Rightarrow> 'x lsi \<Rightarrow> (int \<times> u16 \<times> 'x lsi) option" where
  "rl_dma_read_word e ba ext s = rk_dma_read_word e (rl_pa ba ext s) s"

definition rl_dma_write_word :: "'x other_devs \<Rightarrow> u16 \<Rightarrow> u8 \<Rightarrow> u16 \<Rightarrow> 'x lsi \<Rightarrow> (int \<times> 'x lsi) option" where
  "rl_dma_write_word e ba ext w s = rk_dma_write_word e (rl_pa ba ext s) w s"

definition rl_da_to_lba :: "rl_drive \<Rightarrow> u16 \<Rightarrow> u32 option" where
  "rl_da_to_lba d da =
     (let sec = da AND RLDA_SA_MASK; head = (if da AND RLDA_HS \<noteq> 0 then 1 else 0 :: u16);
          cyl = drop_bit 7 (da AND RLDA_CA_MASK)
      in if sec \<ge> 40 then None
         else if head \<ge> 2 then None
         else if cyl > rl_max_cyl_for_type (d_type d) then None
         else Some ((ucast cyl * 2 + ucast head) * 40 + ucast sec))"

definition rl_status_word :: "rl_drive option \<Rightarrow> u16" where
  "rl_status_word d =
     (let st = 0x5 OR 0x8 OR 0x10
      in case d of None \<Rightarrow> st OR RLMP_DSE
         | Some d \<Rightarrow>
             if d_fp d = None then st OR RLMP_DSE
             else let st = (if d_head d \<noteq> 0 then st OR 0x40 else st);
                      st = (if d_type d = RL11_TYPE_RL02 then st OR 0x80 else st);
                      st = (if d_read_only d then st OR RLMP_WL else st)
                  in st OR d_status_latch d)"

section \<open>Commands without data\<close>

definition rl_finish_command :: "rl11 \<Rightarrow> rl11" where
  "rl_finish_command k = rl_sync_cs (k\<lparr>rl_busy := False, rl_l := irq_latch_event_set_done (rl_l k)\<rparr>)"

definition rl_fail :: "u8 \<Rightarrow> rl11 \<Rightarrow> rl11" where
  "rl_fail ecode k = rl_finish_command (rl_set_error ecode False k)"

definition rl_exec_noop :: "rl11 \<Rightarrow> rl11" where "rl_exec_noop k = rl_finish_command k"

definition rl_exec_get_status :: "rl11 \<Rightarrow> rl11" where
  "rl_exec_get_status k =
     (let da_flags = rlda k AND 0xF
      in if da_flags AND 3 \<noteq> 3 then rl_fail RLCS_E_OPI k
         else if da_flags AND 4 \<noteq> 0 then rl_fail RLCS_E_OPI k
         else case rl_ready_drive k of
                None \<Rightarrow> rl_finish_command (rl_set_error RLCS_E_HNF False k\<lparr>rlmp := RLMP_DSE\<rparr>)
              | Some (i, d, f) \<Rightarrow>
                  (let (d, k) = (if rlda k AND 8 \<noteq> 0
                                 then let d = d\<lparr>d_status_latch := d_status_latch d AND NOT (RLMP_VC OR 0x400 OR 0x800 OR 0x1000)\<rparr>
                                      in (d, rl_upd i d k\<lparr>rl_drive_error := False\<rparr>)
                                 else (d, k))
                   in rl_finish_command (k\<lparr>rlmp := rl_status_word (Some d)\<rparr>)))"

definition rl_exec_seek :: "rl11 \<Rightarrow> rl11" where
  "rl_exec_seek k =
     (case rl_ready_drive k of
        None \<Rightarrow> rl_fail RLCS_E_HNF k
      | Some (i, d, f) \<Rightarrow>
          if rlda k AND 1 = 0 \<or> rlda k AND 2 \<noteq> 0 then rl_fail RLCS_E_OPI k
          else let diff = drop_bit 7 (rlda k AND 0xFF80); cyl = d_cyl d;
                   d = d\<lparr>d_head := (if rlda k AND 0x10 \<noteq> 0 then 1 else 0)\<rparr>;
                   d = (if rlda k AND 4 \<noteq> 0
                        then let nc = ucast cyl + ucast diff :: u32
                             in if nc > ucast (rl_max_cyl_for_type (d_type d)) then d\<lparr>d_cyl := rl_max_cyl_for_type (d_type d)\<rparr>
                                else d\<lparr>d_cyl := ucast nc\<rparr>
                        else if diff > cyl then d\<lparr>d_cyl := 0\<rparr> else d\<lparr>d_cyl := cyl - diff\<rparr>)
               in rl_finish_command (rl_upd i d k))"

definition rl_exec_read_header :: "rl11 \<Rightarrow> rl11" where
  "rl_exec_read_header k =
     (case rl_ready_drive k of
        None \<Rightarrow> rl_fail RLCS_E_HNF k
      | Some (i, d, f) \<Rightarrow>
          (let sec = d_rot_sector d mod 40;
               w1 = push_bit 7 (d_cyl d AND 0x1FF) OR push_bit 6 (if d_head d \<noteq> 0 then 1 else 0) OR (sec AND RLDA_SA_MASK);
               k = k\<lparr>rl_rhdr_fifo := [w1, 0, rl_calc_crc16 [w1, 0]], rl_rhdr_len := 3, rl_rhdr_idx := 0, rlmp := w1\<rparr>
           in rl_finish_command (rl_upd i (d\<lparr>d_rot_sector := (d_rot_sector d + 1) mod 40\<rparr>) k)))"

section \<open>Transfers\<close>

datatype rl_xfer_mode = RL_XFER_WRITE | RL_XFER_READ | RL_XFER_WCHK

text \<open>The local variables of the loop; the buffer is filled before it is used.\<close>

record rl_cursor =
  wc_xfer :: u16
  wc_done :: u16
  l_ba :: u16
  l_ext :: u8
  l_da :: u16
  w_in_sec :: nat
  had_error :: bool
  secbuf :: "u8 list"
  sec_lba :: u32
  sec_valid :: bool
  sec_dirty :: bool
  sec_word :: nat

text \<open>The image of drive \<open>i\<close>: \<^verbatim>\<open>d->fp\<close> is not \<^verbatim>\<open>NULL\<close> in the loop.\<close>

definition rl_with_fp :: "nat \<Rightarrow> (emu_file \<Rightarrow> 'a \<times> emu_file) \<Rightarrow> rl11 \<Rightarrow> ('a \<times> rl11) option" where
  "rl_with_fp i op k =
     (case d_fp (rl_drv k i) of None \<Rightarrow> None
      | Some f \<Rightarrow> (let (r, f) = op f in Some (r, rl_upd i (rl_drv k i\<lparr>d_fp := Some f\<rparr>) k)))"

text \<open>The error path of an iteration: the code, \<^verbatim>\<open>had_error\<close>, and \<^verbatim>\<open>break\<close>.\<close>

definition rl_break :: "u8 \<Rightarrow> rl_cursor \<Rightarrow> rl11 \<Rightarrow> bool \<times> rl_cursor \<times> rl11" where
  "rl_break ecode c k = (False, c\<lparr>had_error := True\<rparr>, rl_set_error ecode False k)"

definition rl_flush :: "nat \<Rightarrow> rl_cursor \<Rightarrow> rl11 \<Rightarrow> (bool \<times> rl_cursor \<times> rl11) option" where
  "rl_flush i c k =
     (if sec_dirty c
      then do { (rc, k) \<leftarrow> rl_with_fp i (rl_write_sector (sec_lba c) (secbuf c)) k;
                if rc \<noteq> 0 then Some (rl_break RLCS_E_DLT c k) else Some (True, c\<lparr>sec_dirty := False\<rparr>, k) }
      else Some (True, c, k))"

definition rl_read_into :: "nat \<Rightarrow> u32 \<Rightarrow> rl_cursor \<Rightarrow> rl11 \<Rightarrow> (int \<times> rl_cursor \<times> rl11) option" where
  "rl_read_into i lba c k =
     do { ((rc, buf), k) \<leftarrow> rl_with_fp i (\<lambda>f. let (rc, buf, f) = rl_read_sector lba (secbuf c) f in ((rc, buf), f)) k;
          Some (rc, c\<lparr>secbuf := buf\<rparr>, k) }"

definition rl_load_sector :: "nat \<Rightarrow> u32 \<Rightarrow> rl_cursor \<Rightarrow> rl11 \<Rightarrow> (bool \<times> rl_cursor \<times> rl11) option" where
  "rl_load_sector i lba c k =
     (if \<not> sec_valid c \<or> sec_lba c \<noteq> lba
      then do { (go, c, k) \<leftarrow> rl_flush i c k;
                if \<not> go then Some (False, c, k)
                else do { (rc, c, k) \<leftarrow> rl_read_into i lba c k;
                          if rc \<noteq> 0 then Some (rl_break RLCS_E_DLT c k)
                          else Some (True, c\<lparr>sec_lba := lba, sec_valid := True, sec_word := 0\<rparr>, k) } }
      else Some (True, c, k))"

definition rl_xfer_data ::
  "'x other_devs \<Rightarrow> rl_xfer_mode \<Rightarrow> rl_cursor \<Rightarrow> rl11 \<Rightarrow> 'x lsi \<Rightarrow> ((bool \<times> rl_cursor \<times> rl11) \<times> 'x lsi) option" where
  "rl_xfer_data e mode c k s =
     (let off = sec_word c * 2; w = word_of (secbuf c ! off) (secbuf c ! (off + 1))
      in case mode of
           RL_XFER_READ \<Rightarrow>
             do { (rc, s) \<leftarrow> rl_dma_write_word e (l_ba c) (l_ext c) w s;
                  Some (if rc \<noteq> 0 then rl_break RLCS_E_NXM c k else (True, c, k), s) }
         | RL_XFER_WRITE \<Rightarrow>
             do { (rc, w, s) \<leftarrow> rl_dma_read_word e (l_ba c) (l_ext c) s;
                  Some (if rc \<noteq> 0 then rl_break RLCS_E_NXM c k
                        else (True, c\<lparr>secbuf := (secbuf c)[off := ucast (w AND 0xFF), off + 1 := ucast (drop_bit 8 w AND 0xFF)],
                                      sec_dirty := True\<rparr>, k), s) }
         | RL_XFER_WCHK \<Rightarrow>
             do { (rc, mw, s) \<leftarrow> rl_dma_read_word e (l_ba c) (l_ext c) s;
                  Some (if rc \<noteq> 0 then rl_break RLCS_E_NXM c k
                        else if mw \<noteq> w then rl_break RLCS_E_DCRC c k else (True, c, k), s) })"

definition rl_xfer_advance :: "nat \<Rightarrow> rl_cursor \<Rightarrow> rl11 \<Rightarrow> (bool \<times> rl_cursor \<times> rl11) option" where
  "rl_xfer_advance i c k =
     (let (ba, ext) = rl_ba_inc (l_ba c) (l_ext c);
          c = c\<lparr>wc_xfer := wc_xfer c - 1, wc_done := wc_done c + 1, l_ba := ba, l_ext := ext,
                sec_word := sec_word c + 1, w_in_sec := w_in_sec c + 1\<rparr>
      in if w_in_sec c \<ge> 128
         then let sec = l_da c AND RLDA_SA_MASK; head = (if l_da c AND RLDA_HS \<noteq> 0 then 1 else 0 :: u16);
                  cyl = drop_bit 7 (l_da c AND RLDA_CA_MASK)
              in do { (go, c, k) \<leftarrow> rl_flush i c k;
                      if \<not> go then Some (False, c, k)
                      else Some (True, c\<lparr>sec_valid := False, sec_word := 0, w_in_sec := 0,
                             l_da := push_bit 7 cyl OR (if head \<noteq> 0 then RLDA_HS else 0) OR ((sec + 1) AND RLDA_SA_MASK)\<rparr>, k) }
         else Some (True, c, k))"

definition rl_xfer_word ::
  "'x other_devs \<Rightarrow> rl_xfer_mode \<Rightarrow> nat \<Rightarrow> rl_cursor \<Rightarrow> rl11 \<Rightarrow> 'x lsi \<Rightarrow> ((bool \<times> rl_cursor \<times> rl11) \<times> 'x lsi) option" where
  "rl_xfer_word e mode i c k s =
     (case rl_da_to_lba (rl_drv k i) (l_da c) of
        None \<Rightarrow> Some (rl_break RLCS_E_HNF c k, s)
      | Some lba \<Rightarrow>
          do { (go, c, k) \<leftarrow> rl_load_sector i lba c k;
               if \<not> go then Some ((False, c, k), s)
               else do { ((go, c, k), s) \<leftarrow> rl_xfer_data e mode c k s;
                         if \<not> go then Some ((False, c, k), s)
                         else do { r \<leftarrow> rl_xfer_advance i c k; Some (r, s) } } })"

partial_function (option) rl_words ::
  "'x other_devs \<Rightarrow> rl_xfer_mode \<Rightarrow> nat \<Rightarrow> rl_cursor \<Rightarrow> rl11 \<Rightarrow> 'x lsi \<Rightarrow> (rl_cursor \<times> rl11 \<times> 'x lsi) option" where
  "rl_words e mode i c k s =
     (if wc_xfer c = 0 then Some (c, k, s)
      else do { ((go, c, k), s) \<leftarrow> rl_xfer_word e mode i c k s;
                if go then rl_words e mode i c k s else Some (c, k, s) })"

text \<open>The rest of the last sector is filled with zeros (bytes \<open>2 * sec_word\<close> onwards, two per word).\<close>

definition rl_zero_fill :: "rl_cursor \<Rightarrow> rl_cursor" where
  "rl_zero_fill c =
     (let n = 128 - w_in_sec c; off = 2 * sec_word c
      in c\<lparr>secbuf := take off (secbuf c) @ replicate (2 * n) 0 @ drop (off + 2 * n) (secbuf c),
           sec_word := sec_word c + n, w_in_sec := w_in_sec c + n, sec_dirty := True\<rparr>)"

definition rl_fill_sector :: "rl_xfer_mode \<Rightarrow> nat \<Rightarrow> rl_cursor \<Rightarrow> rl11 \<Rightarrow> (rl_cursor \<times> rl11) option" where
  "rl_fill_sector mode i c k =
     (if \<not> had_error c \<and> mode = RL_XFER_WRITE \<and> w_in_sec c > 0
      then if sec_valid c then Some (rl_zero_fill c, k)
           else case rl_da_to_lba (rl_drv k i) (l_da c) of
                  None \<Rightarrow> Some (c\<lparr>had_error := True\<rparr>, rl_set_error RLCS_E_DLT False k)
                | Some lba \<Rightarrow>
                    do { (rc, c, k) \<leftarrow> rl_read_into i lba c k;
                         if rc \<noteq> 0 then Some (c\<lparr>had_error := True\<rparr>, rl_set_error RLCS_E_DLT False k)
                         else Some (rl_zero_fill (c\<lparr>sec_lba := lba, sec_word := w_in_sec c\<rparr>), k) }
      else Some (c, k))"

definition rl_last_flush :: "nat \<Rightarrow> rl_cursor \<Rightarrow> rl11 \<Rightarrow> (rl_cursor \<times> rl11) option" where
  "rl_last_flush i c k =
     (if sec_dirty c
      then do { (rc, k) \<leftarrow> rl_with_fp i (rl_write_sector (sec_lba c) (secbuf c)) k;
                Some (if rc \<noteq> 0 then (c\<lparr>had_error := True\<rparr>, rl_set_error RLCS_E_DLT False k) else (c, k)) }
      else Some (c, k))"

text \<open>The registers and the position of the drive after the transfer.\<close>

definition rl_sectors_done :: "rl_cursor \<Rightarrow> u16" where
  "rl_sectors_done c = of_nat ((unat (wc_done c) + 127) div 128)"

definition rl_xfer_end :: "nat \<Rightarrow> bool \<Rightarrow> u16 \<Rightarrow> u16 \<Rightarrow> rl_cursor \<Rightarrow> rl11 \<Rightarrow> rl11" where
  "rl_xfer_end i is_rdnhc wc_req maxwc c k =
     (let k = k\<lparr>rlmp := rlmp k + wc_done c\<rparr>;
          k = (if \<not> had_error c \<and> wc_req > maxwc then rl_set_error RLCS_E_OPI False k
               else if \<not> had_error c \<and> rlmp k \<noteq> 0 then rl_set_error RLCS_E_HNF False k else k);
          k = rl_ba_ext_set (l_ext c) (k\<lparr>rlba := l_ba c AND 0xFFFE\<rparr>);
          k = k\<lparr>rlda := rlda k + rl_sectors_done c\<rparr>;
          d = rl_drv k i;
          d = (if is_rdnhc then let sec = d_rot_sector d + rl_sectors_done c in d\<lparr>d_rot_sector := (if sec \<ge> 40 then 0 else sec)\<rparr>
               else let sec = rlda k AND RLDA_SA_MASK
                    in d\<lparr>d_head := (if rlda k AND RLDA_HS \<noteq> 0 then 1 else 0), d_cyl := drop_bit 7 (rlda k AND RLDA_CA_MASK),
                         d_rot_sector := (if sec \<ge> 40 then 0 else sec)\<rparr>)
      in rl_finish_command (rl_upd i d k))"

text \<open>The transfer of the words from disk address \<open>da\<close> on, at most to the end of the track.\<close>

definition rl_xfer_from ::
  "'x other_devs \<Rightarrow> rl_xfer_mode \<Rightarrow> bool \<Rightarrow> nat \<Rightarrow> u16 \<Rightarrow> rl11 \<Rightarrow> 'x lsi \<Rightarrow> (rl11 \<times> 'x lsi) option" where
  "rl_xfer_from e mode is_rdnhc i da k s =
     (let maxwc = (40 - (da AND RLDA_SA_MASK)) * 128; wc_req = - rlmp k;
          c = \<lparr>wc_xfer = (if wc_req > maxwc then maxwc else wc_req), wc_done = 0, l_ba = rlba k, l_ext = rl_ba_ext_get k, l_da = da,
               w_in_sec = 0, had_error = False, secbuf = replicate 256 0, sec_lba = 0, sec_valid = False, sec_dirty = False, sec_word = 0\<rparr>
      in do { (c, k, s) \<leftarrow> rl_words e mode i c k s;
              (c, k) \<leftarrow> rl_fill_sector mode i c k;
              (c, k) \<leftarrow> rl_last_flush i c k;
              Some (rl_xfer_end i is_rdnhc wc_req maxwc c k, s) })"

definition rl_exec_xfer :: "'x other_devs \<Rightarrow> rl_xfer_mode \<Rightarrow> rl11 \<Rightarrow> 'x lsi \<Rightarrow> (rl11 \<times> 'x lsi) option" where
  "rl_exec_xfer e mode k s =
     (let is_rdnhc = (mode = RL_XFER_READ \<and> rlcs k AND RLCS_FUNC_MASK = 0xE)
      in case rl_ready_drive k of
           None \<Rightarrow> Some (rl_fail RLCS_E_HNF k, s)
         | Some (i, d, f) \<Rightarrow>
             if mode = RL_XFER_WRITE \<and> d_read_only d
             then Some (rl_finish_command (rl_set_error RLCS_E_OPI True (rl_upd i (d\<lparr>d_status_latch := d_status_latch d OR RLMP_WL\<rparr>) k)), s)
             else if is_rdnhc then
               (if d_rot_sector d \<ge> 40 then Some (rl_fail RLCS_E_HNF k, s)
                else rl_xfer_from e mode True i
                       (push_bit 7 (d_cyl d) OR (if d_head d \<noteq> 0 then RLDA_HS else 0) OR (d_rot_sector d AND RLDA_SA_MASK)) k s)
             else if rlda k AND RLDA_SA_MASK \<ge> 40 \<or> rlda k AND RLDA_CA_MASK \<noteq> push_bit 7 (d_cyl d) AND RLDA_CA_MASK
             then Some (rl_fail RLCS_E_HNF k, s)
             else rl_xfer_from e mode False i (rlda k) k s)"

section \<open>Registers\<close>

definition rl_exec_command :: "'x other_devs \<Rightarrow> rl11 \<Rightarrow> 'x lsi \<Rightarrow> (rl11 \<times> 'x lsi) option" where
  "rl_exec_command e k s =
     (let fn = rlcs k AND RLCS_FUNC_MASK
      in if fn = 0 then Some (rl_exec_noop k, s)
         else if fn = 2 then rl_exec_xfer e RL_XFER_WCHK k s
         else if fn = 4 then Some (rl_exec_get_status k, s)
         else if fn = 6 then Some (rl_exec_seek k, s)
         else if fn = 8 then Some (rl_exec_read_header k, s)
         else if fn = 10 then rl_exec_xfer e RL_XFER_WRITE k s
         else if fn = 12 \<or> fn = 14 then rl_exec_xfer e RL_XFER_READ k s
         else Some (rl_fail RLCS_E_OPI k, s))"

definition rl_read8 :: "u16 \<Rightarrow> rl11 \<Rightarrow> u8 \<times> rl11" where
  "rl_read8 addr k =
     (let base = addr AND 0xFFFE; k = rl_sync_cs k
      in if base = 0xF900 then (byte_of addr (rlcs k), k)
         else if base = 0xF902 then (byte_of addr (rlba k), k)
         else if base = 0xF904 then (byte_of addr (rlda k), k)
         else if base = 0xF906 then
           (let v = rl_rhdr_peek_word k in (byte_of addr v, if addr AND 1 \<noteq> 0 then rl_rhdr_advance_word k else k))
         else if base = 0xF908 then (byte_of addr (rlbae k AND 0x3F), k)
         else (0, k))"

text \<open>A write to the control register; \<open>now\<close> is the host's clock.\<close>

definition rl_write_cs_low :: "64 word \<Rightarrow> u8 \<Rightarrow> rl11 \<Rightarrow> rl11" where
  "rl_write_cs_low now b k =
     (let m = RLCS_FUNC_MASK OR RLCS_BA_MASK OR RLCS_IE; cs = (rlcs k AND NOT m) OR (ucast b AND m);
          k = k\<lparr>rlcs := cs, rlbae := (rlbae k AND NOT 3) OR drop_bit 4 (ucast b AND RLCS_BA_MASK),
                rl_l := irq_latch_set_ie (cs AND RLCS_IE \<noteq> 0) (rl_l k)\<rparr>
      in if b AND 0x80 = 0 \<and> l_done (rl_l k)
         then rl_sync_cs (rl_rhdr_reset_fifo (rl_clear_errors
                (k\<lparr>rl_l := irq_latch_sw_clear_done (rl_l k), rl_busy := True, rl_ready_ns := now\<rparr>)))
         else rl_sync_cs k)"

definition rl_write8 :: "64 word \<Rightarrow> u16 \<Rightarrow> u8 \<Rightarrow> rl11 \<Rightarrow> rl11" where
  "rl_write8 now addr b k =
     (let base = addr AND 0xFFFE
      in if base = 0xF900 then
           (if addr AND 1 \<noteq> 0
            then rl_sync_cs (k\<lparr>rlcs := (rlcs k AND NOT RLCS_DS_MASK) OR (push_bit 8 (ucast b) AND RLCS_DS_MASK)\<rparr>)
            else rl_write_cs_low now b k)
         else if base = 0xF902 then k\<lparr>rlba := set_byte_of addr b (rlba k) AND 0xFFFE\<rparr>
         else if base = 0xF904 then k\<lparr>rlda := set_byte_of addr b (rlda k)\<rparr>
         else if base = 0xF906 then rl_rhdr_reset_fifo (k\<lparr>rlmp := set_byte_of addr b (rlmp k)\<rparr>)
         else if base = 0xF908 then rl_sync_cs (rl_ba_ext_set (ucast (set_byte_of addr b (rlbae k))) k)
         else k)"

definition rl11_irq_pending :: "rl11 \<Rightarrow> bool" where "rl11_irq_pending k = irq_req (rl_l k)"
definition rl11_irq_ack :: "rl11 \<Rightarrow> rl11" where "rl11_irq_ack k = k\<lparr>rl_l := irq_latch_ack (rl_l k)\<rparr>"

definition rl11_reset :: "rl11 \<Rightarrow> rl11" where
  "rl11_reset k =
     (let k = k\<lparr>rl_drv := (\<lambda>i. if i < RL_MAX_DRIVES
                               then rl_drv k i\<lparr>d_cyl := 0, d_head := 0, d_rot_sector := 0, d_status_latch := 0\<rparr> else rl_drv k i),
                rlcs := 0, rlba := 0, rlda := 0, rlmp := 0, rlbae := 0, rl_busy := False\<rparr>;
          k = rl_rhdr_reset_fifo (rl_clear_errors k)
      in rl_sync_cs (k\<lparr>rl_l := irq_latch_event_set_done (irq_latch_reset (rl_l k))\<rparr>))"

definition rl11_poll :: "'x other_devs \<Rightarrow> 64 word \<Rightarrow> rl11 \<Rightarrow> 'x lsi \<Rightarrow> (rl11 \<times> 'x lsi) option" where
  "rl11_poll e now k s =
     (if \<not> rl_busy k then Some (k, s) else if now < rl_ready_ns k then Some (k, s) else rl_exec_command e k s)"

section \<open>Images\<close>

text \<open>What the host gives when the file is opened for update and, if it cannot be, for reading.\<close>

definition rl11_open_image_typed_unit ::
  "u32 \<Rightarrow> emu_file option \<Rightarrow> emu_file option \<Rightarrow> rl_type \<Rightarrow> rl11 \<Rightarrow> int \<times> rl11" where
  "rl11_open_image_typed_unit unit rw ro ty k =
     (if unit \<ge> 4 then (-1, rl_sync_cs k)
      else let i = unat unit; k = rl_upd i (rl_drv k i\<lparr>d_fp := None\<rparr>) k; read_only = (rw = None)
           in case (if rw = None then ro else rw) of
                None \<Rightarrow> (-1, rl_sync_cs k)
              | Some f \<Rightarrow>
                  (let (rc, f) = emu_fseek_end f;
                       (sz, f) = (if rc = 0 then (emu_ftell f, snd (emu_fseek_set 0 f)) else (0, f));
                       dtype = (if ty = RL11_TYPE_AUTO
                                then if sz > 0 \<and> sz > rl_image_bytes_for_type RL11_TYPE_RL01 then RL11_TYPE_RL02 else RL11_TYPE_RL01
                                else ty)
                   in if dtype \<noteq> RL11_TYPE_RL01 \<and> dtype \<noteq> RL11_TYPE_RL02 then (-1, k)
                      else (0, rl_sync_cs (rl_upd i \<lparr>d_fp = Some f, d_type = dtype, d_read_only = read_only, d_cyl = 0, d_head = 0,
                                 d_rot_sector = 0, d_status_latch = (if read_only then RLMP_WL else 0) OR RLMP_VC\<rparr> k))))"

definition rl11_open_image :: "emu_file option \<Rightarrow> emu_file option \<Rightarrow> rl11 \<Rightarrow> int \<times> rl11" where
  "rl11_open_image rw ro k = rl11_open_image_typed_unit 0 rw ro RL11_TYPE_AUTO k"

definition rl11_open_image_typed :: "emu_file option \<Rightarrow> emu_file option \<Rightarrow> rl_type \<Rightarrow> rl11 \<Rightarrow> int \<times> rl11" where
  "rl11_open_image_typed rw ro ty k = rl11_open_image_typed_unit 0 rw ro ty k"

definition rl11_close_image :: "rl11 \<Rightarrow> rl11" where
  "rl11_close_image k =
     rl_sync_cs (k\<lparr>rl_drv := (\<lambda>i. if i < RL_MAX_DRIVES
        then \<lparr>d_fp = None, d_type = RL11_TYPE_AUTO, d_read_only = False, d_cyl = 0, d_head = 0, d_rot_sector = 0, d_status_latch = 0\<rparr>
        else rl_drv k i)\<rparr>)"

text \<open>The return code and what arrives in memory.\<close>

definition rl11_boot_copy :: "nat \<Rightarrow> rl11 \<Rightarrow> int \<times> u8 list \<times> rl11" where
  "rl11_boot_copy len k =
     (case d_fp (rl_drv k 0) of
        None \<Rightarrow> (-1, [], k)
      | Some f \<Rightarrow>
          (let (rc, f) = emu_fseek_set 0 f; k' = (\<lambda>f. rl_upd 0 (rl_drv k 0\<lparr>d_fp := Some f\<rparr>) k)
           in if rc \<noteq> 0 then (-1, [], k' f)
              else let (bs, f) = emu_fread len f in (if length bs = len then 0 else -1, bs, k' f)))"

end
