(* ===== verification/LsiDma.thy ===== *)
theory LsiDma
  imports LsiMemory Rk11
begin

text \<open>
  Direct memory access of the disk controllers: a word of RAM as the controllers read and write it,
  transfers of lists of words, and the addresses that leave the memory of an LSI-11.
\<close>

section \<open>Words of RAM\<close>

definition dma_word :: "u32 \<Rightarrow> 'x lsi \<Rightarrow> bool" where
  "dma_word pa s =
     (bus_addr_is_ram pa s \<and> bus_addr_is_ram (pa + 1) s \<and> uint pa < g_ram_bytes s \<and> uint (pa + 1) < g_ram_bytes s \<and>
      g_ram s \<noteq> None)"

definition mem_word :: "u32 \<Rightarrow> 'x lsi \<Rightarrow> u16" where
  "mem_word pa s = word_of (the (g_ram s) pa) (the (g_ram s) (pa + 1))"

definition put_word :: "u32 \<Rightarrow> u16 \<Rightarrow> 'x lsi \<Rightarrow> 'x lsi" where
  "put_word pa w s = s\<lparr>g_ram := Some ((the (g_ram s))(pa := ucast w, pa + 1 := ucast (drop_bit 8 w)))\<rparr>"

lemma range_2: "bus_range_is_ram pa 2 s = (bus_addr_is_ram pa s \<and> bus_addr_is_ram (pa + 1) s)"
  by (simp add: numeral_2_eq_2)

lemma ram_not_nxm: "bus_addr_is_ram pa s \<Longrightarrow> \<not> bus_is_nxm pa s"
  by (simp add: bus_is_nxm_def)

lemma dma_read: "dma_word pa s \<Longrightarrow> rk_dma_read_word e pa s = Some (0, mem_word pa s, s)"
  by (auto simp: dma_word_def rk_dma_read_word_def range_2 ram_not_nxm bus_read16_def ram_decoded ram_get_def mem_word_def)

lemma dma_write: "dma_word pa s \<Longrightarrow> rk_dma_write_word e pa w s = Some (0, put_word pa w s)"
  by (auto simp: dma_word_def rk_dma_write_word_def range_2 ram_not_nxm bus_write16_def ram_decoded ram_set_def put_word_def low_bytes)

lemma dma_not_ram: "\<not> bus_range_is_ram pa 2 s \<Longrightarrow> rk_dma_read_word e pa s = Some (-1, 0, s) \<and> rk_dma_write_word e pa w s = Some (-1, s)"
  by (simp add: rk_dma_read_word_def rk_dma_write_word_def)

lemma put_word_frame [simp]:
  "dma_word x (put_word pa w s) = dma_word x s" "g_machine (put_word pa w s) = g_machine s"
  "bus_addr_is_ram x (put_word pa w s) = bus_addr_is_ram x s" "bus_ok s \<Longrightarrow> bus_ok (put_word pa w s)"
  if "g_ram s \<noteq> None"
  using that by (auto simp: put_word_def dma_word_def bus_ok_def)

lemma rk_pa_put_word [simp]: "rk_pa mex ba (put_word pa w s) = rk_pa mex ba s"
  by (simp add: rk_pa_def put_word_def ubmap_map_addr_def Let_def)

text \<open>Two words that share no byte.\<close>

definition apart :: "u32 \<Rightarrow> u32 \<Rightarrow> bool" where
  "apart a b = (a \<noteq> b \<and> a + 1 \<noteq> b \<and> a \<noteq> b + 1)"

lemma mem_put_word: "mem_word pa (put_word pa w s) = w" "apart pa x \<Longrightarrow> mem_word x (put_word pa w s) = mem_word x s"
  by (auto simp: mem_word_def put_word_def apart_def)

section \<open>Lists of words\<close>

fun put_words :: "u32 list \<Rightarrow> u16 list \<Rightarrow> 'x lsi \<Rightarrow> 'x lsi" where
  "put_words (pa # pas) (w # ws) s = put_words pas ws (put_word pa w s)"
| "put_words _ _ s = s"

lemma put_words_mem:
  assumes "length pas = length ws" "\<forall>pa \<in> set pas. apart pa x"
  shows "mem_word x (put_words pas ws s) = mem_word x s"
  using assms by (induction pas ws s rule: put_words.induct) (auto simp: mem_put_word)

lemma put_words_nth:
  assumes "length pas = length ws" "sorted_wrt apart pas" "i < length pas"
  shows "mem_word (pas ! i) (put_words pas ws s) = ws ! i"
  using assms
proof (induction pas ws s arbitrary: i rule: put_words.induct)
  case (1 pa pas w ws s)
  show ?case
  proof (cases i)
    case 0
    have "\<forall>x \<in> set pas. apart x pa" using 1(3) by (auto simp: apart_def)
    then show ?thesis using 0 1(2) by (simp add: put_words_mem mem_put_word)
  next
    case (Suc j)
    then show ?thesis using 1 by simp
  qed
qed auto

lemma put_words_other:
  assumes "length pas = length ws" "\<forall>pa \<in> set pas. x \<noteq> pa \<and> x \<noteq> pa + 1" "g_ram s \<noteq> None"
  shows "the (g_ram (put_words pas ws s)) x = the (g_ram s) x"
  using assms by (induction pas ws s rule: put_words.induct) (auto simp: put_word_def)

text \<open>The words in a string of bytes, and the bytes of words.\<close>

fun le_words :: "u8 list \<Rightarrow> u16 list" where
  "le_words (lo # hi # bs) = word_of lo hi # le_words bs"
| "le_words _ = []"

fun le_bytes :: "u16 list \<Rightarrow> u8 list" where
  "le_bytes [] = []"
| "le_bytes (w # ws) = ucast w # ucast (drop_bit 8 w) # le_bytes ws"

lemma le_words_bytes [simp]: "le_words (le_bytes ws) = ws"
  by (induction ws) auto

lemma length_le_bytes [simp]: "length (le_bytes ws) = 2 * length ws"
  by (induction ws) auto

end
