(* ===== verification/Rk11Copy.thy ===== *)
theory Rk11Copy
  imports LsiDma
begin

text \<open>
  What the RK11 promises: every poll returns, sectors follow each other in the image, and a transfer
  copies words between the memory and the image.
\<close>

section \<open>Disk addresses\<close>

lemma da_fields:
  "rk_get_cyl da < 256" "rk_get_surf da < 2" "rk_get_sector da < 16" "rk_get_drive da < 8"
proof -
  have "da AND 0x1FE0 \<le> 0x1FE0" "da AND 0x10 \<le> 0x10" "da AND 0xF \<le> 0xF" "da AND 0xE000 \<le> 0xE000" by (rule word_and_le1)+
  then show "rk_get_cyl da < 256" "rk_get_surf da < 2" "rk_get_sector da < 16" "rk_get_drive da < 8"
    unfolding rk_get_cyl_def rk_get_surf_def rk_get_sector_def rk_get_drive_def word_less_nat_alt word_le_nat_alt unat_drop_bit_eq
    by (simp_all add: drop_bit_eq_div[where 'a = nat])
qed

lemma set_da_fields:
  assumes "drive < 8" "cyl < 256" "surf < 2" "sec < 16"
  shows "rk_get_drive (rk_set_da drive cyl surf sec) = drive" "rk_get_cyl (rk_set_da drive cyl surf sec) = cyl"
    "rk_get_surf (rk_set_da drive cyl surf sec) = surf" "rk_get_sector (rk_set_da drive cyl surf sec) = sec"
proof -
  have b: "drive = drive AND 7" "cyl = cyl AND 0xFF" "surf = surf AND 1" "sec = sec AND 0xF"
    using assms less_mask_eq[of drive 3] less_mask_eq[of cyl 8] less_mask_eq[of surf 1] less_mask_eq[of sec 4]
    by (simp_all add: mask_eq_exp_minus_1)
  have "rk_get_drive (rk_set_da drive cyl surf sec) = drive AND 7" "rk_get_cyl (rk_set_da drive cyl surf sec) = cyl AND 0xFF"
    "rk_get_surf (rk_set_da drive cyl surf sec) = surf AND 1" "rk_get_sector (rk_set_da drive cyl surf sec) = sec AND 0xF"
    unfolding rk_get_cyl_def rk_get_surf_def rk_get_sector_def rk_get_drive_def rk_set_da_def
    by (simp only: u16_eq_bits; simp add: bit_simps)+
  then show "rk_get_drive (rk_set_da drive cyl surf sec) = drive" "rk_get_cyl (rk_set_da drive cyl surf sec) = cyl"
    "rk_get_surf (rk_set_da drive cyl surf sec) = surf" "rk_get_sector (rk_set_da drive cyl surf sec) = sec"
    using b by metis+
qed

text \<open>The number of a sector in the image as a number; \<open>rk_da_to_lba\<close> gives it on valid addresses.\<close>

definition rk_lba :: "u16 \<Rightarrow> nat" where
  "rk_lba da = (unat (rk_get_cyl da) * 2 + unat (rk_get_surf da)) * 12 + unat (rk_get_sector da)"

definition rk_da_ok :: "u16 \<Rightarrow> bool" where
  "rk_da_ok da = (rk_get_sector da < 12 \<and> rk_get_cyl da \<le> RK_MAX_CYL)"

lemma rk_lba_less: "rk_da_ok da \<Longrightarrow> rk_lba da < 4872"
  using da_fields[of da] by (simp add: rk_lba_def rk_da_ok_def word_less_nat_alt word_le_nat_alt)

lemma rk_da_to_lba_eq:
  assumes "\<not> sector_one_based k"
  shows "rk_da_to_lba da k = (if rk_da_ok da then Some (of_nat (rk_lba da)) else None)"
proof -
  have w: "ucast x \<ge> (12 :: u32) \<longleftrightarrow> x \<ge> 12" "ucast x > (1 :: u32) \<longleftrightarrow> x > 1" "ucast x > (202 :: u32) \<longleftrightarrow> x > 202" for x :: u16
    by (simp_all add: word_less_nat_alt word_le_nat_alt unat_ucast_up)
  have "(ucast (rk_get_cyl da) * 2 + ucast (rk_get_surf da)) * 12 + ucast (rk_get_sector da) = (of_nat (rk_lba da) :: u32)"
    by (simp add: rk_lba_def)
  moreover have "\<not> rk_get_surf da > 1" using da_fields(2)[of da] by (simp add: word_less_nat_alt)
  ultimately show ?thesis
    using assms by (auto simp: rk_da_to_lba_def Let_def w rk_da_ok_def not_less not_le)
qed

text \<open>The next sector is the next in the image, and there is none after the last.\<close>

lemma rk_next_sector_lba:
  assumes "rk_da_ok da"
  shows "case rk_next_sector da of
           None \<Rightarrow> rk_lba da = 4871
         | Some da' \<Rightarrow> rk_da_ok da' \<and> rk_lba da' = rk_lba da + 1 \<and> rk_get_drive da' = rk_get_drive da"
proof -
  note f = da_fields[of da]
  have sec: "unat (rk_get_sector da + 1) = unat (rk_get_sector da) + 1" "rk_get_sector da + 1 \<ge> 12 \<longleftrightarrow> unat (rk_get_sector da) = 11"
    "rk_get_sector da + 1 < 16"
    using assms f(3) by (auto simp: rk_da_ok_def word_less_nat_alt word_le_nat_alt unat_word_ariths)
  have surf: "unat (rk_get_surf da + 1) = unat (rk_get_surf da) + 1" "rk_get_surf da + 1 > RK_MAX_SURF \<longleftrightarrow> unat (rk_get_surf da) = 1"
    using f(2) by (auto simp: word_less_nat_alt unat_word_ariths)
  have cyl: "unat (rk_get_cyl da + 1) = unat (rk_get_cyl da) + 1" "rk_get_cyl da + 1 > RK_MAX_CYL \<longleftrightarrow> unat (rk_get_cyl da) = 202"
    using assms f(1) by (auto simp: rk_da_ok_def word_less_nat_alt word_le_nat_alt unat_word_ariths)
  have small: "rk_get_surf da + 1 < 2" if "unat (rk_get_surf da) \<noteq> 1" using that f(2) surf(1) by (simp add: word_less_nat_alt)
  have cyl': "rk_get_cyl da + 1 < 256" if "unat (rk_get_cyl da) \<noteq> 202"
    using that assms cyl(1) by (simp add: rk_da_ok_def word_less_nat_alt word_le_nat_alt)
  note s = set_da_fields[OF f(4)]
  have ok: "unat (rk_get_cyl da) \<le> 202" "unat (rk_get_surf da) < 2" using assms f(2) by (auto simp: rk_da_ok_def word_less_nat_alt word_le_nat_alt)
  consider "unat (rk_get_sector da) \<noteq> 11" | "unat (rk_get_sector da) = 11" "unat (rk_get_surf da) \<noteq> 1"
    | "unat (rk_get_sector da) = 11" "unat (rk_get_surf da) = 1" "unat (rk_get_cyl da) \<noteq> 202"
    | "unat (rk_get_sector da) = 11" "unat (rk_get_surf da) = 1" "unat (rk_get_cyl da) = 202" by blast
  then show ?thesis
  proof cases
    case 1
    then have "rk_get_sector da + 1 < 12" using sec(2) by (simp add: not_le[symmetric])
    then show ?thesis using 1 assms s[OF f(1,2) sec(3)] sec by (simp add: rk_next_sector_def Let_def rk_lba_def rk_da_ok_def)
  next
    case 2
    show ?thesis using 2 assms s[OF f(1) small[OF 2(2)], of 0] sec surf
      by (simp add: rk_next_sector_def Let_def rk_lba_def rk_da_ok_def)
  next
    case 3
    show ?thesis using 3 ok s[OF cyl'[OF 3(3)], of 0 0] sec surf cyl
      by (simp add: rk_next_sector_def Let_def rk_lba_def rk_da_ok_def not_less)
  next
    case 4
    then show ?thesis using sec surf cyl by (simp add: rk_next_sector_def Let_def rk_lba_def)
  qed
qed


section \<open>Every poll returns\<close>

text \<open>A DMA access either is an access to a word of RAM or is refused, on the addresses a machine has.\<close>

lemma dma_total:
  assumes "bus_ok s" "bus_addr_ok pa s" "bus_range_is_ram pa 2 s"
  shows "dma_word pa s"
proof -
  have r: "bus_addr_is_ram pa s" "bus_addr_is_ram (pa + 1) s" using assms(3) by (simp_all add: range_2)
  have "bus_addr_ok (pa + 1) s"
  proof (cases "g_machine s")
    case BUS_MACHINE_LSI11_1104
    then have "uint pa \<le> 0xFFFF" "uint (ucast pa :: u16) \<le> 0xDFFF"
      using assms(2) r(1) by (auto simp: bus_addr_ok_def bus_addr_is_ram_def word_le_def split: if_splits)
    then have "uint pa \<le> 0xDFFF" using low_16[of pa] by (simp add: word_le_def)
    then have "uint (pa + 1) \<le> 0xFFFF" by (simp add: uint_plus_if')
    then show ?thesis by (simp add: bus_addr_ok_def word_le_def)
  qed (simp add: bus_addr_ok_def)
  then show ?thesis
    using assms(1) r ram_in_bounds[OF assms(1,2) r(1)] ram_in_bounds[OF assms(1) _ r(2)] by (simp add: dma_word_def bus_ok_def)
qed

lemma rk_pa_lsi: "g_machine s = BUS_MACHINE_LSI11_1104 \<Longrightarrow> rk_pa 0 ba s = ucast ba"
proof -
  have "(0x3FFFF :: u32) = mask 18" by (simp add: mask_eq_exp_minus_1)
  then have "(ucast ba :: u32) AND 0x3FFFF = ucast ba" by (auto simp: bit_eq_iff bit_simps dest: bit_imp_le_length)
  then show "g_machine s = BUS_MACHINE_LSI11_1104 \<Longrightarrow> rk_pa 0 ba s = ucast ba" by (simp add: rk_pa_def Let_def)
qed

text \<open>What an iteration needs, and an address that was accepted does not carry into the extension.\<close>

definition rk_live :: "rk_xfer_mode \<Rightarrow> nat \<Rightarrow> rk_cursor \<Rightarrow> rk11 \<Rightarrow> 'x lsi \<Rightarrow> bool" where
  "rk_live mode d c k s =
     (bus_ok s \<and> rk_fp k d \<noteq> None \<and> (g_machine s = BUS_MACHINE_LSI11_1104 \<longrightarrow> mode = RK_XFER_RCHK \<or> cur_mex c = 0))"

definition rk_img_moved :: "nat \<Rightarrow> rk11 \<Rightarrow> rk11 \<Rightarrow> bool" where
  "rk_img_moved d k k' = (\<exists>f. k' = k\<lparr>rk_fp := (rk_fp k)(d := Some f)\<rparr>)"

lemma rk_img_moved_trans: "rk_img_moved d k k' \<Longrightarrow> rk_img_moved d k' k'' \<Longrightarrow> rk_img_moved d k k''"
  by (auto simp: rk_img_moved_def)

lemma with_fp_runs: "rk_fp k d \<noteq> None \<Longrightarrow> runs True (rk_with_fp d op k) (\<lambda>(x, k'). rk_img_moved d k k' \<and> rk_fp k' d \<noteq> None)"
  by (auto simp: rk_with_fp_def rk_img_moved_def split: prod.splits option.splits)

lemma img_read_runs: "rk_fp k d \<noteq> None \<Longrightarrow> runs True (rk_img_read d k) (\<lambda>(x, k'). rk_img_moved d k k' \<and> rk_fp k' d \<noteq> None)"
  unfolding rk_img_read_def
  by (rule runs_bind, rule runs_weaken[OF with_fp_runs], assumption)
    (auto intro!: runs_bind runs_weaken[OF with_fp_runs] intro: rk_img_moved_trans split: prod.splits)

lemma img_write_runs: "rk_fp k d \<noteq> None \<Longrightarrow> runs True (rk_img_write d w k) (\<lambda>(x, k'). rk_img_moved d k k' \<and> rk_fp k' d \<noteq> None)"
  unfolding rk_img_write_def
  by (rule runs_bind, rule runs_weaken[OF with_fp_runs], assumption)
    (auto intro!: runs_bind runs_weaken[OF with_fp_runs] intro: rk_img_moved_trans split: prod.splits)

lemma rk_set_error_fp [simp]: "rk_fp (rk_set_error b k) = rk_fp k" "rk_l (rk_set_error b k) = rk_l k" "rkcs (rk_set_error b k) AND RKCS_IBA = rkcs k AND RKCS_IBA"
  by (simp_all add: rk_set_error_def rk_sync_status_def rk_sync_rkds_def rk_sync_rkcs_def Let_def)
    (simp only: u16_eq_bits, simp add: bit_simps)


lemma rk_pa_ok:
  assumes "rk_live mode d c k s" "mode \<noteq> RK_XFER_RCHK"
  shows "bus_addr_ok (rk_pa (cur_mex c) (cur_ba c) s) s"
  using assms by (auto simp: rk_live_def bus_addr_ok_def rk_pa_lsi wide16)

text \<open>On an LSI-11 an accepted address is below the I/O page, so the next one is in the same 64 KB.\<close>

lemma rk_ba_inc_low:
  assumes "g_machine s = BUS_MACHINE_LSI11_1104" "bus_range_is_ram (rk_pa 0 ba s) 2 s"
  shows "snd (rk_ba_inc ba 0) = 0"
proof -
  have "ba \<le> 0xDFFF" using assms by (auto simp: rk_pa_lsi range_2 bus_addr_is_ram_def wide16 split: if_splits)
  then have "\<not> ba + 2 < ba" by (simp add: word_less_nat_alt word_le_nat_alt unat_word_ariths)
  then show ?thesis by (simp add: rk_ba_inc_def Let_def)
qed

lemma dma_runs:
  assumes "bus_ok s" "bus_addr_ok pa s"
  shows "runs True (rk_dma_read_word e pa s) (\<lambda>(rc, w, s'). s' = s \<and> (rc = 0 \<longrightarrow> bus_range_is_ram pa 2 s))"
    "runs True (rk_dma_write_word e pa v s)
       (\<lambda>(rc, s'). bus_ok s' \<and> g_machine s' = g_machine s \<and> (rc = 0 \<longrightarrow> bus_range_is_ram pa 2 s))"
proof -
  have "g_ram s \<noteq> None" using assms(1) by (simp add: bus_ok_def)
  then show "runs True (rk_dma_read_word e pa s) (\<lambda>(rc, w, s'). s' = s \<and> (rc = 0 \<longrightarrow> bus_range_is_ram pa 2 s))"
    "runs True (rk_dma_write_word e pa v s)
       (\<lambda>(rc, s'). bus_ok s' \<and> g_machine s' = g_machine s \<and> (rc = 0 \<longrightarrow> bus_range_is_ram pa 2 s))"
    using assms(1) dma_total[OF assms] dma_read[of pa s e] dma_write[of pa s e v] dma_not_ram[of pa s e v]
    by (cases "bus_range_is_ram pa 2 s"; simp)+
qed

lemma rk_xfer_data_runs:
  assumes "rk_live mode d c k s"
  shows "runs True (rk_xfer_data e mode d (rk_pa (cur_mex c) (cur_ba c) s) w k s)
    (\<lambda>(go, k', s'). bus_ok s' \<and> g_machine s' = g_machine s \<and> rk_fp k' d \<noteq> None \<and> rk_l k' = rk_l k \<and>
       (go \<longrightarrow> mode = RK_XFER_RCHK \<or> bus_range_is_ram (rk_pa (cur_mex c) (cur_ba c) s) 2 s))"
proof -
  note l = assms[unfolded rk_live_def]
  have fp: "rk_fp k d \<noteq> None" and ok: "bus_ok s" using l by auto
  note a = dma_runs[OF ok rk_pa_ok[OF assms]]
  have img: "runs True (rk_img_write d v k) (\<lambda>(x, k'). rk_fp k' d \<noteq> None \<and> rk_l k' = rk_l k)" for v
    by (rule runs_weaken[OF img_write_runs[OF fp]]) (auto simp: rk_img_moved_def)
  show ?thesis
  proof (cases mode)
    case RK_XFER_READ
    then show ?thesis using fp by (auto simp: rk_xfer_data_def intro!: runs_bind runs_weaken[OF a(2)])
  next
    case RK_XFER_WRITE
    then show ?thesis using fp ok
      by (auto simp: rk_xfer_data_def intro!: runs_bind runs_weaken[OF a(1)] runs_weaken[OF img])
  next
    case RK_XFER_WCHK
    then show ?thesis using fp ok by (auto simp: rk_xfer_data_def intro!: runs_bind runs_weaken[OF a(1)])
  next
    case RK_XFER_RCHK
    then show ?thesis using fp ok by (simp add: rk_xfer_data_def)
  qed
qed

lemma rk_xfer_advance_live:
  assumes "rk_live mode d c k s" "bus_ok s'" "g_machine s' = g_machine s" "rk_fp k' d \<noteq> None"
    "mode = RK_XFER_RCHK \<or> bus_range_is_ram (rk_pa (cur_mex c) (cur_ba c) s) 2 s"
  shows "case rk_xfer_advance c k' of (go, c'', k'') \<Rightarrow>
    rk_live mode d c'' k'' s' \<and> cur_wc c'' = cur_wc c + 1 \<and> rk_l k'' = rk_l k'"
  using assms rk_ba_inc_low[of s "cur_ba c"]
  by (auto simp: rk_xfer_advance_def rk_live_def Let_def split: prod.splits option.splits)

definition rk_word_done :: "rk_xfer_mode \<Rightarrow> nat \<Rightarrow> rk_cursor \<Rightarrow> irq_latch_t \<Rightarrow> 'x lsi \<Rightarrow> bool \<times> rk_cursor \<times> rk11 \<times> 'x lsi \<Rightarrow> bool" where
  "rk_word_done mode d c l s = (\<lambda>(go, c', k', s').
     rk_l k' = l \<and> bus_ok s' \<and> g_machine s' = g_machine s \<and> (go \<longrightarrow> rk_live mode d c' k' s' \<and> cur_wc c' = cur_wc c + 1))"

lemma rk_xfer_rest_runs:
  fixes s :: "'x lsi"
  assumes "rk_live mode d c k s"
  shows "runs True (rk_xfer_rest e mode d (rk_pa (cur_mex c) (cur_ba c) s) w c k s) (rk_word_done mode d c (rk_l k) s)"
  unfolding rk_xfer_rest_def
proof (rule runs_bind, rule runs_weaken[OF rk_xfer_data_runs[OF assms]])
  fix x :: "bool \<times> rk11 \<times> 'x lsi"
  assume x: "case x of (go, k', s') \<Rightarrow> bus_ok s' \<and> g_machine s' = g_machine s \<and> rk_fp k' d \<noteq> None \<and>
    rk_l k' = rk_l k \<and> (go \<longrightarrow> mode = RK_XFER_RCHK \<or> bus_range_is_ram (rk_pa (cur_mex c) (cur_ba c) s) 2 s)"
  obtain go k' s' where [simp]: "x = (go, k', s')" by (cases x)
  show "runs True (case x of (go, k, s) \<Rightarrow> if go then (let (go, c, k) = rk_xfer_advance c k in Some (go, c, k, s)) else Some (False, c, k, s))
    (rk_word_done mode d c (rk_l k) s)"
    using x rk_xfer_advance_live[OF assms, of s' k'] by (auto simp: rk_word_done_def split: prod.splits)
qed

lemma rk_xfer_word_runs:
  assumes "rk_live mode d c k s"
  shows "runs True (rk_xfer_word e mode d c k s) (rk_word_done mode d c (rk_l k) s)"
proof (cases "rk_da_to_lba (cur_da c) k")
  case None
  then show ?thesis using assms by (simp add: rk_xfer_word_def rk_word_done_def rk_live_def)
next
  case (Some lba)
  have fp: "rk_fp k d \<noteq> None" and ok: "bus_ok s" using assms by (auto simp: rk_live_def)
  have seek: "runs True (if w_in_sector c = 0 then rk_with_fp d (emu_fseek_set off) k else Some (0, k))
    (\<lambda>(rc, k'). rk_fp k' d \<noteq> None \<and> rk_l k' = rk_l k)" for off
    using fp by (auto intro!: runs_weaken[OF with_fp_runs] simp: rk_img_moved_def)
  have read: "runs True (if mode = RK_XFER_WRITE then Some (Some 0, k1) else rk_img_read d k1) (\<lambda>(w, k'). rk_fp k' d \<noteq> None \<and> rk_l k' = rk_l k1)"
    if "rk_fp k1 d \<noteq> None" for k1
    using that by (auto intro!: runs_weaken[OF img_read_runs] simp: rk_img_moved_def)
  have live: "rk_live mode d c k2 s" if "rk_fp k2 d \<noteq> None" for k2 using assms that by (simp add: rk_live_def)
  have stop: "rk_word_done mode d c l s (False, c, k2, s) = (rk_l k2 = l)" for k2 l using ok by (simp add: rk_word_done_def)
  have tail: "runs True ((if mode = RK_XFER_WRITE then Some (Some 0, k1) else rk_img_read d k1) \<bind>
      (\<lambda>(w, k). case w of None \<Rightarrow> Some (False, c, rk_set_error RKER_DLT k, s)
        | Some w \<Rightarrow> rk_xfer_rest e mode d (rk_pa (cur_mex c) (cur_ba c) s) w c k s)) (rk_word_done mode d c (rk_l k) s)"
    if "rk_fp k1 d \<noteq> None" "rk_l k1 = rk_l k" for k1
  proof (rule runs_bind, rule runs_weaken[OF read[OF that(1)]], clarify)
    fix w f and k2 :: rk11 assume k2: "rk_l k2 = rk_l k1" "rk_fp k2 d = Some f"
    then have "runs True (rk_xfer_rest e mode d (rk_pa (cur_mex c) (cur_ba c) s) v c k2 s) (rk_word_done mode d c (rk_l k) s)" for v
      using rk_xfer_rest_runs[OF live, of k2 e v] that(2) by simp
    then show "runs True (case w of None \<Rightarrow> Some (False, c, rk_set_error RKER_DLT k2, s)
        | Some w \<Rightarrow> rk_xfer_rest e mode d (rk_pa (cur_mex c) (cur_ba c) s) w c k2 s) (rk_word_done mode d c (rk_l k) s)"
      using k2 that(2) by (simp add: stop split: option.splits)
  qed
  show ?thesis
    unfolding rk_xfer_word_def Some Let_def option.case
    by (rule runs_bind, rule runs_weaken[OF seek], clarify, rule runs_if) (simp add: stop, rule tail, simp_all)
qed

lemma rk_words_returns:
  assumes "rk_live mode d c k s"
  shows "runs True (rk_words e mode d c k s) (\<lambda>(c', k', s'). bus_ok s' \<and> rk_l k' = rk_l k)"
  using assms
proof (induction "unat (- cur_wc c)" arbitrary: c k s rule: less_induct)
  case less
  show ?case
  proof (cases "cur_wc c = 0")
    case True
    then show ?thesis using less(2) by (subst rk_words.simps) (simp add: rk_live_def)
  next
    case False
    have dec: "unat (- (cur_wc c + 1)) < unat (- cur_wc c)"
      using False by (metis add.commute add_uminus_conv_diff minus_add_distrib measure_unat neg_equal_0_iff_equal)
    have ih: "runs True (rk_words e mode d c' k' s') (\<lambda>(c', k'', s''). bus_ok s'' \<and> rk_l k'' = rk_l k)"
      if "cur_wc c' = cur_wc c + 1" "rk_live mode d c' k' s'" "rk_l k' = rk_l k" for c' k' s'
      using less(1)[of c' k' s'] that dec by simp
    show ?thesis
      using False
      by (subst rk_words.simps) (auto intro!: runs_bind runs_weaken[OF rk_xfer_word_runs[OF less(2)]] ih simp: rk_word_done_def)
  qed
qed


lemma rk_sync_status_simps [simp]:
  "rkcs (rk_sync_status k) AND RKCS_GO = rkcs k AND RKCS_GO" "rk_l (rk_sync_status k) = rk_l k" "rker (rk_sync_status k) = rker k"
  "rkwc (rk_sync_status k) = rkwc k" "rkba (rk_sync_status k) = rkba k" "rkda (rk_sync_status k) = rkda k"
  "rkmex (rk_sync_status k) = rkmex k" "rk_fp (rk_sync_status k) = rk_fp k" "rk_write_lock (rk_sync_status k) = rk_write_lock k"
  "rk_img_read_only (rk_sync_status k) = rk_img_read_only k" "sector_one_based (rk_sync_status k) = sector_one_based k"
  by (simp_all add: rk_sync_status_def rk_sync_rkds_def rk_sync_rkcs_def Let_def)
    (simp only: u16_eq_bits, simp add: bit_simps)

definition rk_completed :: "irq_latch_t \<Rightarrow> rk11 \<times> 'x lsi \<Rightarrow> bool" where
  "rk_completed l = (\<lambda>(k, s). rk_l k = irq_latch_event_set_done l \<and> rkcs k AND RKCS_GO = 0 \<and> bus_ok s)"

lemma rk_completed_finish [simp]: "rk_l k = l \<Longrightarrow> rk_completed l (rk_finish_command k, s) = bus_ok s"
  by (simp add: rk_completed_def rk_finish_command_def and.assoc)

lemma rk_validate_keeps: "rk_validate_da_for_xfer da k = (rc, k') \<Longrightarrow> rk_l k' = rk_l k \<and> rkmex k' = rkmex k"
  by (auto simp: rk_validate_da_for_xfer_def rk_set_error_def Let_def split: if_splits)

lemma rk_clear_errors_l [simp]: "rk_l (rk_clear_soft_errors k) = rk_l k" "rk_l (rk_clear_hard_errors k) = rk_l k"
  by (simp_all add: rk_clear_soft_errors_def rk_clear_hard_errors_def)

lemma rk_transfer_returns:
  assumes "bus_ok s" "g_machine s = BUS_MACHINE_LSI11_1104 \<longrightarrow> rkmex k = 0"
  shows "runs True (rk_transfer e mode k s) (rk_completed (rk_l k))"
proof -
  have live: "rk_live mode (unat d) \<lparr>cur_wc = x, cur_ba = y, cur_mex = rkmex k, cur_da = z, w_in_sector = 0\<rparr> k' s"
    if "rk_drive_fp d k' = Some f" for x y z d k' f
    using assms that by (auto simp: rk_live_def rk_drive_fp_def split: if_splits)
  show ?thesis
    using assms(1)
    by (auto simp: rk_transfer_def Let_def split: prod.splits intro!: runs_bind runs_weaken[OF rk_words_returns[OF live]]
        dest: rk_validate_keeps)
qed

lemma rk_poll_runs:
  assumes "bus_ok s" "g_machine s = BUS_MACHINE_LSI11_1104 \<longrightarrow> rkmex k = 0"
  shows "runs True (rk11_poll e k s)
    (\<lambda>(k', s'). if rkcs k AND RKCS_GO = 0 then k' = k \<and> s' = s else rk_completed (rk_l k) (k', s'))"
  using assms rk_transfer_returns[OF assms]
  by (auto simp: rk11_poll_def rk_exec_command_def rk_do_control_reset_def Let_def split: prod.splits dest: rk_validate_keeps)

text \<open>C25: Every command of the RK11 ends: on a configured machine (an LSI-11 with the address extension clear, or a PDP-11/84 with any UNIBUS map) a poll returns whatever the registers, the image and the memory hold, no transfer leaves the memory of the machine, and a command that was started is completed: DONE is set, the interrupt is requested if it is enabled, and GO is clear.\<close>
theorem rk_poll_returns:
  assumes "bus_ok s" "g_machine s = BUS_MACHINE_LSI11_1104 \<longrightarrow> rkmex k = 0"
  shows "\<exists>k' s'. rk11_poll e k s = Some (k', s') \<and> bus_ok s' \<and>
    (if rkcs k AND RKCS_GO = 0 then k' = k \<and> s' = s
     else rk_l k' = irq_latch_event_set_done (rk_l k) \<and> l_done (rk_l k') \<and> rkcs k' AND RKCS_GO = 0)"
proof -
  have "l_done (irq_latch_event_set_done l)" for l by (simp add: irq_latch_event_set_done_def Let_def)
  then show ?thesis using rk_poll_runs[OF assms, of e] assms(1) by (auto simp: runs_total rk_completed_def split: if_splits)
qed

section \<open>Transfers copy words\<close>

text \<open>The physical addresses of a transfer.\<close>

primrec rk_addrs :: "nat \<Rightarrow> u16 \<Rightarrow> u8 \<Rightarrow> 'x lsi \<Rightarrow> u32 list" where
  "rk_addrs 0 ba mex s = []"
| "rk_addrs (Suc n) ba mex s = rk_pa mex ba s # rk_addrs n (fst (rk_ba_inc ba mex)) (snd (rk_ba_inc ba mex)) s"

lemma length_rk_addrs [simp]: "length (rk_addrs n ba mex s) = n"
  by (induction n arbitrary: ba mex) auto

lemma rk_addrs_put_word [simp]: "rk_addrs n ba mex (put_word pa w s) = rk_addrs n ba mex s"
  by (induction n arbitrary: ba mex) auto

text \<open>The cursor stands at byte \<open>off\<close> of the image, and so does the stream inside a sector.\<close>

definition rk_size :: nat where "rk_size = 512 * 4872"

definition rk_at :: "nat \<Rightarrow> rk_cursor \<Rightarrow> emu_file \<Rightarrow> bool" where
  "rk_at off c f =
     (rk_da_ok (cur_da c) \<and> w_in_sector c < 256 \<and> off = 512 * rk_lba (cur_da c) + 2 * w_in_sector c \<and>
      (0 < w_in_sector c \<longrightarrow> f_pos f = off))"

lemma rk_at_size: "rk_at off c f \<Longrightarrow> off + 2 \<le> rk_size"
  using rk_lba_less[of "cur_da c"] by (auto simp: rk_at_def rk_size_def)

lemma rk_xfer_advance_at:
  assumes "rk_at off c f" "rkcs k AND RKCS_IBA = 0" "f_pos f' = off + 2" "off + 2 < rk_size \<or> cur_wc c + 1 = 0"
  shows "case rk_xfer_advance c k of (go, c', k') \<Rightarrow>
    k' = k \<and> cur_wc c' = cur_wc c + 1 \<and> cur_ba c' = fst (rk_ba_inc (cur_ba c) (cur_mex c)) \<and>
    cur_mex c' = snd (rk_ba_inc (cur_ba c) (cur_mex c)) \<and> go = (off + 2 < rk_size) \<and> (go \<longrightarrow> rk_at (off + 2) c' f')"
proof (cases "w_in_sector c = 255")
  case False
  then have w: "w_in_sector c + 1 < 256" using assms(1) by (simp add: rk_at_def)
  then have "off + 2 < rk_size" using assms(1) rk_lba_less[of "cur_da c"] by (auto simp: rk_at_def rk_size_def)
  then show ?thesis
    using assms w by (auto simp: rk_xfer_advance_def rk_at_def Let_def split: prod.splits)
next
  case True
  note n = rk_next_sector_lba[of "cur_da c"]
  show ?thesis
  proof (cases "rk_next_sector (cur_da c)")
    case None
    then have "off + 2 = rk_size" using True assms(1) n by (auto simp: rk_at_def rk_size_def)
    then show ?thesis
      using assms True None by (auto simp: rk_xfer_advance_def Let_def split: prod.splits)
  next
    case (Some da)
    then have "off + 2 < rk_size" using True assms(1) n rk_lba_less[of da] by (auto simp: rk_at_def rk_size_def)
    then show ?thesis
      using assms True Some n by (auto simp: rk_xfer_advance_def rk_at_def Let_def split: prod.splits)
  qed
qed

lemma img_read_at:
  assumes "rk_fp k d = Some f" "f_pos f + 2 \<le> length (f_bytes f)"
  shows "rk_img_read d k = Some (Some (word_of (f_bytes f ! f_pos f) (f_bytes f ! (f_pos f + 1))),
    k\<lparr>rk_fp := (rk_fp k)(d := Some (f\<lparr>f_pos := f_pos f + 2\<rparr>))\<rparr>)"
proof -
  have t: "take 1 (drop p bs) = [bs ! p]" if "p < length bs" for p and bs :: "u8 list"
    using that by (simp add: take_Suc Cons_nth_drop_Suc[symmetric])
  have p: "f_pos f < length (f_bytes f)" "Suc (f_pos f) < length (f_bytes f)" using assms(2) by auto
  show ?thesis
    using assms(1) t[OF p(1)] t[OF p(2)] p by (simp add: rk_img_read_def rk_with_fp_def emu_fread_def Let_def)
qed

lemma img_write_at:
  assumes "rk_fp k d = Some f" "f_writable f" "f_pos f \<le> length (f_bytes f)"
  shows "rk_img_write d w k =
    Some (True, k\<lparr>rk_fp := (rk_fp k)(d := Some (f\<lparr>f_bytes := put_at (f_pos f) (le_bytes [w]) (f_bytes f), f_pos := f_pos f + 2\<rparr>))\<rparr>)"
  using assms put_at_append[of "f_pos f" "f_bytes f" "[ucast w]" "[ucast (drop_bit 8 w)]"]
  by (simp add: rk_img_write_def rk_with_fp_def emu_fwrite_def low_bytes)


text \<open>One word from the image to the memory, and one from the memory to the image.\<close>

lemma seek_at:
  assumes "rk_at off c f" "rk_fp k d = Some f" "f_seekable f"
  obtains f1 k1 where "f_bytes f1 = f_bytes f" "f_seekable f1" "f_writable f1 = f_writable f" "f_pos f1 = off" "rk_fp k1 d = Some f1"
    "\<forall>x. k1\<lparr>rk_fp := (rk_fp k1)(d := x)\<rparr> = k\<lparr>rk_fp := (rk_fp k)(d := x)\<rparr>"
    "(if w_in_sector c = 0 then rk_with_fp d (emu_fseek_set (unat (of_nat (rk_lba (cur_da c)) * 0x200 :: u32))) k else Some (0, k)) =
       Some (0, k1)"
proof (cases "w_in_sector c = 0")
  case True
  have "rk_lba (cur_da c) < 4872" using assms(1) rk_lba_less by (simp add: rk_at_def)
  then have "unat (of_nat (rk_lba (cur_da c)) * 0x200 :: u32) = 512 * rk_lba (cur_da c)"
    by (simp add: unat_word_ariths unat_of_nat take_bit_eq_mod)
  then show ?thesis
    using assms True
    by (intro that[of "f\<lparr>f_pos := off, f_eof := False\<rparr>" "k\<lparr>rk_fp := (rk_fp k)(d := Some (f\<lparr>f_pos := off, f_eof := False\<rparr>))\<rparr>"])
      (simp_all add: rk_at_def rk_with_fp_def emu_fseek_set_def)
next
  case False
  then show ?thesis using assms by (intro that[of f k]) (simp_all add: rk_at_def)
qed

lemma rk_xfer_word_fetch:
  assumes "\<not> sector_one_based k" "rk_at off c f" "rk_fp k d = Some f" "f_seekable f" "off + 2 \<le> length (f_bytes f)"
  obtains f' where "f_bytes f' = f_bytes f" "f_seekable f'" "f_pos f' = off + 2"
    "rk_xfer_word e RK_XFER_READ d c k s =
      rk_xfer_rest e RK_XFER_READ d (rk_pa (cur_mex c) (cur_ba c) s) (word_of (f_bytes f ! off) (f_bytes f ! (off + 1))) c
        (k\<lparr>rk_fp := (rk_fp k)(d := Some f')\<rparr>) s"
proof -
  obtain f1 k1 where f1: "f_bytes f1 = f_bytes f" "f_seekable f1" "f_pos f1 = off" "rk_fp k1 d = Some f1"
    "\<forall>x. k1\<lparr>rk_fp := (rk_fp k1)(d := x)\<rparr> = k\<lparr>rk_fp := (rk_fp k)(d := x)\<rparr>"
    and seek: "(if w_in_sector c = 0 then rk_with_fp d (emu_fseek_set (unat (of_nat (rk_lba (cur_da c)) * 0x200 :: u32))) k else Some (0, k)) =
       Some (0, k1)"
    using seek_at[OF assms(2-4)] by metis
  have ok: "rk_da_ok (cur_da c)" using assms(2) by (simp add: rk_at_def)
  have "rk_xfer_word e RK_XFER_READ d c k s =
      rk_xfer_rest e RK_XFER_READ d (rk_pa (cur_mex c) (cur_ba c) s) (word_of (f_bytes f ! off) (f_bytes f ! (off + 1))) c
        (k\<lparr>rk_fp := (rk_fp k)(d := Some (f1\<lparr>f_pos := off + 2\<rparr>))\<rparr>) s"
    using img_read_at[of k1 d f1] f1 assms(5) ok
    by (simp add: rk_xfer_word_def rk_da_to_lba_eq[OF assms(1)] seek Let_def)
  then show ?thesis using f1 by (intro that[of "f1\<lparr>f_pos := off + 2\<rparr>"]) simp_all
qed

lemma rk_xfer_word_read:
  assumes "\<not> sector_one_based k" "rk_at off c f" "rk_fp k d = Some f" "f_seekable f" "off + 2 \<le> length (f_bytes f)"
    and "dma_word (rk_pa (cur_mex c) (cur_ba c) s) s"
  obtains f' where "f_bytes f' = f_bytes f" "f_seekable f'" "f_pos f' = off + 2"
    "rk_xfer_word e RK_XFER_READ d c k s =
      (let (go, c', k') = rk_xfer_advance c (k\<lparr>rk_fp := (rk_fp k)(d := Some f')\<rparr>)
       in Some (go, c', k', put_word (rk_pa (cur_mex c) (cur_ba c) s) (word_of (f_bytes f ! off) (f_bytes f ! (off + 1))) s))"
  by (rule rk_xfer_word_fetch[OF assms(1-5), of e s], rule that)
    (auto simp: rk_xfer_rest_def rk_xfer_data_def dma_write[OF assms(6)])

lemma rk_xfer_word_write:
  assumes "\<not> sector_one_based k" "rk_at off c f" "rk_fp k d = Some f" "f_seekable f" "f_writable f" "off \<le> length (f_bytes f)"
    and "dma_word (rk_pa (cur_mex c) (cur_ba c) s) s"
  obtains f' where "f_bytes f' = put_at off (le_bytes [mem_word (rk_pa (cur_mex c) (cur_ba c) s) s]) (f_bytes f)"
    "f_seekable f'" "f_writable f'" "f_pos f' = off + 2"
    "rk_xfer_word e RK_XFER_WRITE d c k s =
      (let (go, c', k') = rk_xfer_advance c (k\<lparr>rk_fp := (rk_fp k)(d := Some f')\<rparr>) in Some (go, c', k', s))"
proof -
  obtain f1 k1 where f1: "f_bytes f1 = f_bytes f" "f_seekable f1" "f_writable f1 = f_writable f" "f_pos f1 = off" "rk_fp k1 d = Some f1"
    "\<forall>x. k1\<lparr>rk_fp := (rk_fp k1)(d := x)\<rparr> = k\<lparr>rk_fp := (rk_fp k)(d := x)\<rparr>"
    and seek: "(if w_in_sector c = 0 then rk_with_fp d (emu_fseek_set (unat (of_nat (rk_lba (cur_da c)) * 0x200 :: u32))) k else Some (0, k)) =
       Some (0, k1)"
    using seek_at[OF assms(2-4)] by metis
  define f' where "f' = f1\<lparr>f_bytes := put_at off (le_bytes [mem_word (rk_pa (cur_mex c) (cur_ba c) s) s]) (f_bytes f), f_pos := off + 2\<rparr>"
  have ok: "rk_da_ok (cur_da c)" using assms(2) by (simp add: rk_at_def)
  have "rk_xfer_word e RK_XFER_WRITE d c k s =
      (let (go, c', k') = rk_xfer_advance c (k\<lparr>rk_fp := (rk_fp k)(d := Some f')\<rparr>) in Some (go, c', k', s))"
    using img_write_at[of k1 d f1] f1 assms(5,6) ok
    by (simp add: rk_xfer_word_def rk_da_to_lba_eq[OF assms(1)] seek
        rk_xfer_rest_def rk_xfer_data_def dma_read[OF assms(7)] f'_def Let_def)
  then show ?thesis using f1 assms(5) by (intro that[of f']) (simp_all add: f'_def)
qed


text \<open>Whole transfers: \<open>n\<close> words are to go.\<close>

definition rk_to_go :: "nat \<Rightarrow> nat \<Rightarrow> nat \<Rightarrow> rk_cursor \<Rightarrow> rk11 \<Rightarrow> emu_file \<Rightarrow> 'x lsi \<Rightarrow> bool" where
  "rk_to_go n off d c k f s =
     (\<not> sector_one_based k \<and> rkcs k AND RKCS_IBA = 0 \<and> rk_fp k d = Some f \<and> f_seekable f \<and>
      n = unat (- cur_wc c) \<and> (0 < n \<longrightarrow> rk_at off c f) \<and> off + 2 * n \<le> rk_size \<and>
      (\<forall>pa \<in> set (rk_addrs n (cur_ba c) (cur_mex c) s). dma_word pa s))"

lemma unat_minus_Suc: "Suc n = unat (- w) \<Longrightarrow> n = unat (- (w + 1 :: 'a::len word)) \<and> w \<noteq> 0"
  by (cases "w = 0") (auto simp: unat_minus_one[of "- w"] dest: sym)

lemma rk_step_to_go:
  assumes go: "rk_to_go (Suc n) off d c k f s" and f': "f_pos f' = off + 2" "f_seekable f'"
    and s': "s' = s \<or> (g_ram s \<noteq> None \<and> s' = put_word pa w s)"
    and a: "rk_xfer_advance c (k\<lparr>rk_fp := (rk_fp k)(d := Some f')\<rparr>) = (go_on, c', k')"
  shows "k' = k\<lparr>rk_fp := (rk_fp k)(d := Some f')\<rparr>" "if go_on then rk_to_go n (off + 2) d c' k' f' s' else n = 0 \<and> cur_wc c' = 0"
    "rk_addrs (Suc n) (cur_ba c) (cur_mex c) s = rk_pa (cur_mex c) (cur_ba c) s # rk_addrs n (cur_ba c') (cur_mex c') s'"
    "cur_wc c' = cur_wc c + 1" "cur_wc c \<noteq> 0"
proof -
  have at: "rk_at off c f" and wc: "n = unat (- (cur_wc c + 1))" "cur_wc c \<noteq> 0" and sz: "off + 2 * Suc n \<le> rk_size"
    using go unat_minus_Suc[of n "cur_wc c"] by (auto simp: rk_to_go_def)
  have last: "cur_wc c + 1 = 0" if "n = 0" using wc(1) that by (metis neg_equal_0_iff_equal unat_eq_zero)
  then have "off + 2 < rk_size \<or> cur_wc c + 1 = 0" using sz by (cases n) auto
  then have adv: "k' = k\<lparr>rk_fp := (rk_fp k)(d := Some f')\<rparr>" "cur_wc c' = cur_wc c + 1" "cur_ba c' = fst (rk_ba_inc (cur_ba c) (cur_mex c))"
    "cur_mex c' = snd (rk_ba_inc (cur_ba c) (cur_mex c))" "go_on = (off + 2 < rk_size)" "go_on \<longrightarrow> rk_at (off + 2) c' f'"
    using rk_xfer_advance_at[OF at _ f'(1), of "k\<lparr>rk_fp := (rk_fp k)(d := Some f')\<rparr>"] go a by (auto simp: rk_to_go_def)
  show "k' = k\<lparr>rk_fp := (rk_fp k)(d := Some f')\<rparr>" "cur_wc c' = cur_wc c + 1" "cur_wc c \<noteq> 0" by fact+
  show addrs: "rk_addrs (Suc n) (cur_ba c) (cur_mex c) s = rk_pa (cur_mex c) (cur_ba c) s # rk_addrs n (cur_ba c') (cur_mex c') s'"
    using adv(3,4) s' by auto
  have "\<forall>pa \<in> set (rk_addrs n (cur_ba c') (cur_mex c') s'). dma_word pa s'"
    using go s' adv(3,4) by (auto simp: rk_to_go_def)
  then show "if go_on then rk_to_go n (off + 2) d c' k' f' s' else n = 0 \<and> cur_wc c' = 0"
    using go adv wc f'(2) sz last by (auto simp: rk_to_go_def)
qed

lemma le_words_at:
  "off + 2 * Suc n \<le> length bs \<Longrightarrow>
   le_words (take (2 * Suc n) (drop off bs)) = word_of (bs ! off) (bs ! (off + 1)) # le_words (take (2 * n) (drop (off + 2) bs))"
proof -
  assume "off + 2 * Suc n \<le> length bs"
  then have "drop off bs = bs ! off # bs ! (off + 1) # drop (off + 2) bs"
    using Cons_nth_drop_Suc[of off bs] Cons_nth_drop_Suc[of "Suc off" bs] by simp
  then show ?thesis by simp
qed


lemma rk_words_read:
  assumes "rk_to_go n off d c k f s" "off + 2 * n \<le> length (f_bytes f)"
  shows "\<exists>c' f'. rk_words e RK_XFER_READ d c k s =
      Some (c', k\<lparr>rk_fp := (rk_fp k)(d := Some f')\<rparr>,
            put_words (rk_addrs n (cur_ba c) (cur_mex c) s) (le_words (take (2 * n) (drop off (f_bytes f)))) s) \<and>
    cur_wc c' = 0 \<and> f_bytes f' = f_bytes f"
  using assms
proof (induction n arbitrary: off c k f s)
  case 0
  then have "cur_wc c = 0" by (metis neg_equal_0_iff_equal rk_to_go_def unat_eq_zero)
  moreover have "k\<lparr>rk_fp := (rk_fp k)(d := Some f)\<rparr> = k" using 0(1) by (simp add: rk_to_go_def fun_upd_idem)
  ultimately show ?case by (intro exI[of _ c] exI[of _ f]) (subst rk_words.simps, simp)
next
  case (Suc n)
  let ?pa = "rk_pa (cur_mex c) (cur_ba c) s" and ?w = "word_of (f_bytes f ! off) (f_bytes f ! (off + 1))"
  have pre: "\<not> sector_one_based k" "rk_at off c f" "rk_fp k d = Some f" "f_seekable f" "off + 2 \<le> length (f_bytes f)" "dma_word ?pa s"
    using Suc(2,3) by (auto simp: rk_to_go_def)
  obtain f' where f': "f_bytes f' = f_bytes f" "f_seekable f'" "f_pos f' = off + 2"
    "rk_xfer_word e RK_XFER_READ d c k s =
      (let (go, c', k') = rk_xfer_advance c (k\<lparr>rk_fp := (rk_fp k)(d := Some f')\<rparr>) in Some (go, c', k', put_word ?pa ?w s))"
    using rk_xfer_word_read[OF pre] by metis
  obtain go_on c' k' where a: "rk_xfer_advance c (k\<lparr>rk_fp := (rk_fp k)(d := Some f')\<rparr>) = (go_on, c', k')" by (metis prod_cases3)
  have "put_word ?pa ?w s = s \<or> (g_ram s \<noteq> None \<and> put_word ?pa ?w s = put_word ?pa ?w s)" using pre(6) by (simp add: dma_word_def)
  note step = rk_step_to_go[OF Suc(2) f'(3,2) this a]
  have ws: "le_words (take (2 * Suc n) (drop off (f_bytes f))) = ?w # le_words (take (2 * n) (drop (off + 2) (f_bytes f')))"
    using le_words_at[OF Suc(3)] f'(1) by simp
  show ?case
  proof (cases go_on)
    case False
    then show ?thesis
      using step f' a ws by (intro exI[of _ c'] exI[of _ f']) (subst rk_words.simps, auto)
  next
    case True
    have go: "rk_to_go n (off + 2) d c' k' f' (put_word ?pa ?w s)" using True step(2) by simp
    have "off + 2 + 2 * n \<le> length (f_bytes f')" using Suc(3) f'(1) by simp
    from Suc(1)[OF go this] obtain c2 f2 where
      "rk_words e RK_XFER_READ d c' k' (put_word ?pa ?w s) = Some (c2, k'\<lparr>rk_fp := (rk_fp k')(d := Some f2)\<rparr>,
         put_words (rk_addrs n (cur_ba c') (cur_mex c') (put_word ?pa ?w s)) (le_words (take (2 * n) (drop (off + 2) (f_bytes f'))))
           (put_word ?pa ?w s))" "cur_wc c2 = 0" "f_bytes f2 = f_bytes f'"
      by blast
    then show ?thesis
      using True step(3,5) f' a ws
      by (intro exI[of _ c2] exI[of _ f2]) (subst rk_words.simps, simp add: step(1) del: rk_addrs.simps(2) rk_addrs_put_word)
  qed
qed


lemma rk_words_write:
  assumes "rk_to_go n off d c k f s" "off \<le> length (f_bytes f)" "f_writable f"
  shows "\<exists>c' f'. rk_words e RK_XFER_WRITE d c k s = Some (c', k\<lparr>rk_fp := (rk_fp k)(d := Some f')\<rparr>, s) \<and> cur_wc c' = 0 \<and>
    f_bytes f' = put_at off (le_bytes (map (\<lambda>pa. mem_word pa s) (rk_addrs n (cur_ba c) (cur_mex c) s))) (f_bytes f) \<and>
    f_seekable f' \<and> f_writable f'"
  using assms
proof (induction n arbitrary: off c k f)
  case 0
  then have "cur_wc c = 0" by (metis neg_equal_0_iff_equal rk_to_go_def unat_eq_zero)
  moreover have "k\<lparr>rk_fp := (rk_fp k)(d := Some f)\<rparr> = k" "f_seekable f" using 0(1) by (simp_all add: rk_to_go_def fun_upd_idem)
  ultimately show ?case using 0 by (intro exI[of _ c] exI[of _ f]) (subst rk_words.simps, simp add: put_at_Nil)
next
  case (Suc n)
  let ?pa = "rk_pa (cur_mex c) (cur_ba c) s"
  have pre: "\<not> sector_one_based k" "rk_at off c f" "rk_fp k d = Some f" "f_seekable f" "f_writable f" "off \<le> length (f_bytes f)"
    "dma_word ?pa s"
    using Suc(2-4) by (auto simp: rk_to_go_def)
  obtain f' where f': "f_bytes f' = put_at off (le_bytes [mem_word ?pa s]) (f_bytes f)" "f_seekable f'" "f_writable f'" "f_pos f' = off + 2"
    "rk_xfer_word e RK_XFER_WRITE d c k s =
      (let (go, c', k') = rk_xfer_advance c (k\<lparr>rk_fp := (rk_fp k)(d := Some f')\<rparr>) in Some (go, c', k', s))"
    using rk_xfer_word_write[OF pre] by metis
  obtain go_on c' k' where a: "rk_xfer_advance c (k\<lparr>rk_fp := (rk_fp k)(d := Some f')\<rparr>) = (go_on, c', k')" by (metis prod_cases3)
  note step = rk_step_to_go[OF Suc(2) f'(4,2) disjI1[OF refl] a]
  show ?case
  proof (cases go_on)
    case False
    then show ?thesis
      using step f' a by (intro exI[of _ c'] exI[of _ f']) (subst rk_words.simps, auto)
  next
    case True
    have at: "put_at (off + 2) (le_bytes ws) (f_bytes f') = put_at off (le_bytes (mem_word ?pa s # ws)) (f_bytes f)" for ws
      using put_at_append[OF pre(6), of "le_bytes [mem_word ?pa s]" "le_bytes ws"] f'(1) by simp
    have go: "rk_to_go n (off + 2) d c' k' f' s" using True step(2) by simp
    have "off + 2 \<le> length (f_bytes f')" using f'(1) pre(6) by (simp add: put_at_inside)
    from Suc(1)[OF go this f'(3)] obtain c2 f2 where
      "rk_words e RK_XFER_WRITE d c' k' s = Some (c2, k'\<lparr>rk_fp := (rk_fp k')(d := Some f2)\<rparr>, s)" "cur_wc c2 = 0"
      "f_bytes f2 = put_at (off + 2) (le_bytes (map (\<lambda>pa. mem_word pa s) (rk_addrs n (cur_ba c') (cur_mex c') s))) (f_bytes f')"
      "f_seekable f2" "f_writable f2"
      by blast
    then show ?thesis
      using True step(3,5) f'(5) a at
      by (intro exI[of _ c2] exI[of _ f2]) (subst rk_words.simps, simp add: step(1) del: rk_addrs.simps(2))
  qed
qed


section \<open>Commands\<close>

text \<open>The registers describe a transfer of \<open>n\<close> words at sector \<open>lba\<close> of an attached image and words of RAM.\<close>

definition rk_ready :: "nat \<Rightarrow> nat \<Rightarrow> nat \<Rightarrow> emu_file \<Rightarrow> rk11 \<Rightarrow> 'x lsi \<Rightarrow> bool" where
  "rk_ready d lba n f k s =
     (\<not> sector_one_based k \<and> rkcs k AND RKCS_IBA = 0 \<and> rkcs k AND RKCS_GO \<noteq> 0 \<and> rk_fp k d = Some f \<and> f_seekable f \<and>
      unat (rk_get_drive (rkda k)) = d \<and> rk_da_ok (rkda k) \<and> lba = rk_lba (rkda k) \<and> n = unat (- rkwc k) \<and>
      512 * lba + 2 * n \<le> rk_size \<and> 512 * lba + 2 * n \<le> length (f_bytes f) \<and>
      (\<forall>pa \<in> set (rk_addrs n (rkba k) (rkmex k) s). dma_word pa s))"

lemma rk_ready_to_go:
  assumes "rk_ready d lba n f k s"
  shows "rk_to_go n (512 * lba) d \<lparr>cur_wc = rkwc k, cur_ba = rkba k, cur_mex = rkmex k, cur_da = rkda k, w_in_sector = 0\<rparr> k f s"
    "rk_validate_da_for_xfer (rkda k) k = (0, k)" "rk_drive_fp (rk_get_drive (rkda k)) k = Some f"
proof -
  note r = assms[unfolded rk_ready_def]
  show "rk_to_go n (512 * lba) d \<lparr>cur_wc = rkwc k, cur_ba = rkba k, cur_mex = rkmex k, cur_da = rkda k, w_in_sector = 0\<rparr> k f s"
    using r by (simp add: rk_to_go_def rk_at_def)
  have v: "rk_drive_valid (rk_get_drive (rkda k))" using da_fields(4)[of "rkda k"] by (simp add: rk_drive_valid_def word_less_nat_alt)
  have "rk_fp k (unat (rk_get_drive (rkda k))) = Some f" using r by metis
  then show fp: "rk_drive_fp (rk_get_drive (rkda k)) k = Some f" using v by (simp add: rk_drive_fp_def)
  show "rk_validate_da_for_xfer (rkda k) k = (0, k)"
    using r v fp da_fields(2)[of "rkda k"]
    by (simp add: rk_validate_da_for_xfer_def rk_drive_attached_def rk_da_ok_def Let_def not_less not_le word_less_nat_alt word_le_nat_alt)
qed

lemma rk_finish_simps [simp]:
  "rkwc (rk_finish_command k) = rkwc k" "rker (rk_finish_command k) = rker k" "rk_fp (rk_finish_command k) = rk_fp k"
  by (simp_all add: rk_finish_command_def)

lemma rk_read_command:
  assumes "rk_ready d lba n f k s" "rkcs k AND RKCS_FUNC_MASK = 4"
  shows "\<exists>k' f'. rk11_poll e k s =
      Some (k', put_words (rk_addrs n (rkba k) (rkmex k) s) (le_words (take (2 * n) (drop (512 * lba) (f_bytes f)))) s) \<and>
    rkwc k' = 0 \<and> rker k' = rker k \<and> rk_fp k' d = Some f' \<and> f_bytes f' = f_bytes f"
proof -
  have len: "512 * lba + 2 * n \<le> length (f_bytes f)" and go: "rkcs k AND RKCS_GO \<noteq> 0" using assms(1) by (simp_all add: rk_ready_def)
  have d: "unat (rk_get_drive (rkda k)) = d" using assms(1) by (simp add: rk_ready_def)
  from rk_words_read[OF rk_ready_to_go(1)[OF assms(1)] len, of e] obtain c' f' where
    w: "rk_words e RK_XFER_READ d \<lparr>cur_wc = rkwc k, cur_ba = rkba k, cur_mex = rkmex k, cur_da = rkda k, w_in_sector = 0\<rparr> k s =
      Some (c', k\<lparr>rk_fp := (rk_fp k)(d := Some f')\<rparr>,
        put_words (rk_addrs n (rkba k) (rkmex k) s) (le_words (take (2 * n) (drop (512 * lba) (f_bytes f)))) s)"
      "cur_wc c' = 0" "f_bytes f' = f_bytes f" by auto
  show ?thesis
    using go w by (simp add: rk11_poll_def rk_exec_command_def assms(2) rk_transfer_def rk_ready_to_go(2,3)[OF assms(1)] d)
qed

lemma rk_write_command:
  assumes "rk_ready d lba n f k s" "rkcs k AND RKCS_FUNC_MASK = 2" "f_writable f" "\<not> rk_img_read_only k d" "\<not> rk_write_lock k d"
  shows "\<exists>k' f'. rk11_poll e k s = Some (k', s) \<and> rkwc k' = 0 \<and> rker k' = rker k \<and> rk_fp k' d = Some f' \<and>
    f_bytes f' = put_at (512 * lba) (le_bytes (map (\<lambda>pa. mem_word pa s) (rk_addrs n (rkba k) (rkmex k) s))) (f_bytes f)"
proof -
  have len: "512 * lba \<le> length (f_bytes f)" and go: "rkcs k AND RKCS_GO \<noteq> 0" using assms(1) by (simp_all add: rk_ready_def)
  have d: "unat (rk_get_drive (rkda k)) = d" using assms(1) by (simp add: rk_ready_def)
  from rk_words_write[OF rk_ready_to_go(1)[OF assms(1)] len assms(3), of e] obtain c' f' where
    w: "rk_words e RK_XFER_WRITE d \<lparr>cur_wc = rkwc k, cur_ba = rkba k, cur_mex = rkmex k, cur_da = rkda k, w_in_sector = 0\<rparr> k s =
      Some (c', k\<lparr>rk_fp := (rk_fp k)(d := Some f')\<rparr>, s)" "cur_wc c' = 0"
      "f_bytes f' = put_at (512 * lba) (le_bytes (map (\<lambda>pa. mem_word pa s) (rk_addrs n (rkba k) (rkmex k) s))) (f_bytes f)" by auto
  show ?thesis
    using go w assms(4,5)
    by (simp add: rk11_poll_def rk_exec_command_def assms(2) rk_transfer_def rk_ready_to_go(2,3)[OF assms(1)] rk_drive_read_only_def d Let_def)
qed

text \<open>C24: What is written to an RK11 disk is read back: a WRITE command copies its words of memory to the image, with no error, and leaves the rest of the image; any later READ command for the same sector and number of words, at any time the image still holds these bytes, puts the same words at its memory addresses and leaves the rest of memory. The transfer may cross sectors, surfaces, cylinders and pages of the UNIBUS map.\<close>
theorem rk_write_then_read:
  assumes w: "rk_ready d lba n f k s" "rkcs k AND RKCS_FUNC_MASK = 2" "f_writable f" "\<not> rk_img_read_only k d" "\<not> rk_write_lock k d"
  shows "\<exists>k1 f1. rk11_poll e k s = Some (k1, s) \<and> rkwc k1 = 0 \<and> rker k1 = rker k \<and> rk_fp k1 d = Some f1 \<and>
    (\<forall>i < length (f_bytes f). (i < 512 * lba \<or> 512 * lba + 2 * n \<le> i) \<longrightarrow> f_bytes f1 ! i = f_bytes f ! i) \<and>
    (\<forall>k2 s2 f2. rk_ready d lba n f2 k2 s2 \<and> f_bytes f2 = f_bytes f1 \<and> rkcs k2 AND RKCS_FUNC_MASK = 4 \<and>
        sorted_wrt apart (rk_addrs n (rkba k2) (rkmex k2) s2) \<longrightarrow>
      (\<exists>k3 s3. rk11_poll e k2 s2 = Some (k3, s3) \<and> rkwc k3 = 0 \<and> rker k3 = rker k2 \<and>
        (\<forall>i < n. mem_word (rk_addrs n (rkba k2) (rkmex k2) s2 ! i) s3 = mem_word (rk_addrs n (rkba k) (rkmex k) s ! i) s) \<and>
        (\<forall>x. (\<forall>pa \<in> set (rk_addrs n (rkba k2) (rkmex k2) s2). x \<noteq> pa \<and> x \<noteq> pa + 1) \<longrightarrow>
           the (g_ram s3) x = the (g_ram s2) x)))"
proof -
  let ?ws = "map (\<lambda>pa. mem_word pa s) (rk_addrs n (rkba k) (rkmex k) s)"
  obtain k1 f1 where k1: "rk11_poll e k s = Some (k1, s)" "rkwc k1 = 0" "rker k1 = rker k" "rk_fp k1 d = Some f1"
    "f_bytes f1 = put_at (512 * lba) (le_bytes ?ws) (f_bytes f)"
    using rk_write_command[OF w, of e] by blast
  have len: "512 * lba + length (le_bytes ?ws) \<le> length (f_bytes f)" using w(1) by (simp add: rk_ready_def)
  have ws: "le_words (take (2 * n) (drop (512 * lba) (f_bytes f1))) = ?ws"
    using take_drop_put_at[of "512 * lba" "f_bytes f" "le_bytes ?ws"] len k1(5) by simp
  have reread: "\<exists>k3 s3. rk11_poll e k2 s2 = Some (k3, s3) \<and> rkwc k3 = 0 \<and> rker k3 = rker k2 \<and>
      (\<forall>i < n. mem_word (rk_addrs n (rkba k2) (rkmex k2) s2 ! i) s3 = mem_word (rk_addrs n (rkba k) (rkmex k) s ! i) s) \<and>
      (\<forall>x. (\<forall>pa \<in> set (rk_addrs n (rkba k2) (rkmex k2) s2). x \<noteq> pa \<and> x \<noteq> pa + 1) \<longrightarrow> the (g_ram s3) x = the (g_ram s2) x)"
    if r: "rk_ready d lba n f2 k2 s2" "f_bytes f2 = f_bytes f1" "rkcs k2 AND RKCS_FUNC_MASK = 4"
      "sorted_wrt apart (rk_addrs n (rkba k2) (rkmex k2) s2)" for k2 s2 f2
  proof (cases "n = 0")
    case True
    then show ?thesis using rk_read_command[OF r(1,3), of e] by auto
  next
    case False
    then have "rk_addrs n (rkba k2) (rkmex k2) s2 \<noteq> []" by (metis length_0_conv length_rk_addrs)
    then have "g_ram s2 \<noteq> None" using r(1) by (auto simp: rk_ready_def dma_word_def neq_Nil_conv)
    then show ?thesis
      using rk_read_command[OF r(1,3), of e] r(2,4) ws put_words_nth[of "rk_addrs n (rkba k2) (rkmex k2) s2" ?ws _ s2]
        put_words_other[of "rk_addrs n (rkba k2) (rkmex k2) s2" ?ws _ s2] by fastforce
  qed
  show ?thesis
    using k1 reread len by (intro exI[of _ k1] exI[of _ f1]) (auto simp: put_at_nth)
qed


section \<open>Addresses outside the memory\<close>

text \<open>With an address extension the low 16 bits decide on an LSI-11 whether the address is RAM, and
  the whole address is the index into the array.\<close>

lemma rk_pa_extended:
  assumes "g_machine s = BUS_MACHINE_LSI11_1104" "mex AND 3 \<noteq> 0" "ba < 0xDFFF"
  defines "pa \<equiv> rk_pa mex ba s"
  shows "0x10000 \<le> pa" "ucast pa = ba" "ucast (pa + 1) = ba + 1" "pa \<le> 0x3FFFF"
proof -
  have e: "pa = push_bit 16 (ucast (mex AND 3)) OR ucast ba"
  proof -
    have "(push_bit 16 (ucast (mex AND 3)) OR ucast ba :: u32) AND 0x3FFFF = push_bit 16 (ucast (mex AND 3)) OR ucast ba"
    proof -
      have m: "(0x3FFFF :: u32) = mask 18" "(3 :: u8) = mask 2" by (simp_all add: mask_eq_exp_minus_1)
      show ?thesis unfolding m by (auto simp: bit_eq_iff bit_simps dest: bit_imp_le_length)
    qed
    then show ?thesis using assms(1) by (simp add: pa_def rk_pa_def Let_def)
  qed
  have d: "push_bit 16 (ucast (mex AND 3)) AND ucast ba = (0 :: u32)"
    by (auto simp: bit_eq_iff bit_simps dest: bit_imp_le_length)
  have small: "unat (mex AND 3) \<le> 3" using word_and_le1[of mex 3] by (simp add: word_le_nat_alt)
  have p: "unat (push_bit 16 (ucast (mex AND 3)) :: u32) = 65536 * unat (mex AND 3)"
    using small by (simp add: push_bit_eq_mult unat_word_ariths unat_ucast_up)
  have u: "unat pa = 65536 * unat (mex AND 3) + unat ba"
    unfolding e disjunctive_add_eq_or[OF d, symmetric]
    using small p unsigned_less[of ba, where 'a = nat] by (simp add: unat_word_ariths unat_ucast_up)
  have "unat (mex AND 3) \<noteq> 0" using assms(2) by (simp add: unat_eq_0)
  then show "0x10000 \<le> pa" "pa \<le> 0x3FFFF" using u small unsigned_less[of ba, where 'a = nat] by (auto simp: word_le_nat_alt)
  have n: "(ucast x :: u16) = of_nat (unat x)" for x :: u32 by simp
  show "ucast pa = ba" unfolding n u using unsigned_less[of ba, where 'a = nat] by (simp add: word_unat_eq_iff unat_of_nat take_bit_eq_mod del: of_nat_add of_nat_mult)
  have "unat (pa + 1) = unat pa + 1" using u small unsigned_less[of ba, where 'a = nat] by (simp add: unat_word_ariths)
  moreover have "unat (ba + 1) = unat ba + 1" "unat ba < 65535" using assms(3) by (auto simp: word_less_nat_alt unat_word_ariths)
  ultimately show "ucast (pa + 1) = ba + 1"
    unfolding n by (simp add: word_unat_eq_iff unat_of_nat take_bit_eq_mod u del: of_nat_add of_nat_mult of_nat_Suc)
qed


text \<open>C26: A controller can leave the memory of an LSI-11: when a READ command is given with a non-zero address extension in RKCS and a bus address below 0157777, the poll writes the array of the RAM outside its 56 KB (the bus tests only the low 16 bits of the address), so no result is defined; the read of a WRITE command at such an address is outside, too.\<close>
theorem rk_extension_leaves_memory:
  assumes "bus_ok s" "g_machine s = BUS_MACHINE_LSI11_1104" "rkmex k AND 3 \<noteq> 0" "rkba k < 0xDFFF" "rkwc k \<noteq> 0"
    "rkcs k AND RKCS_GO \<noteq> 0" "rkcs k AND RKCS_FUNC_MASK = 4" "\<not> sector_one_based k" "rk_da_ok (rkda k)"
    "rk_drive_fp (rk_get_drive (rkda k)) k = Some f" "f_seekable f" "512 * rk_lba (rkda k) + 2 \<le> length (f_bytes f)"
  shows "rk11_poll e k s = None \<and> rk_dma_read_word e (rk_pa (rkmex k) (rkba k) s) s = None"
proof -
  let ?pa = "rk_pa (rkmex k) (rkba k) s" and ?d = "unat (rk_get_drive (rkda k))"
  let ?c = "\<lparr>cur_wc = rkwc k, cur_ba = rkba k, cur_mex = rkmex k, cur_da = rkda k, w_in_sector = 0\<rparr>"
  note p = rk_pa_extended[OF assms(2-4)]
  have nio: "io_decode_addr x s = None" if "0x10000 \<le> x" "x \<le> 0x40000" for x
    using that assms(2) by (auto simp: io_decode_addr_def in_22bit_io_def Let_def word_le_nat_alt)
  have "?pa \<le> 0x3FFFF" "0x10000 \<le> ?pa" by fact+
  then have p1: "0x10000 \<le> ?pa + 1" "?pa + 1 \<le> 0x40000" "?pa \<le> 0x40000" by (auto simp: word_le_nat_alt unat_word_ariths)
  have "rkba k + 1 \<le> 0xDFFF" "rkba k \<le> 0xDFFF" using assms(4) by (auto simp: word_less_nat_alt word_le_nat_alt unat_word_ariths)
  then have ram: "bus_addr_is_ram ?pa s" "bus_addr_is_ram (?pa + 1) s"
    using p assms(2) nio[OF p(1) p1(3)] nio[OF p1(1,2)] by (simp_all add: bus_addr_is_ram_def io_is_decoded_def)
  have "g_ram_bytes s = 57344" using assms(1,2) by (simp add: bus_ok_def)
  then have out: "\<not> uint ?pa < g_ram_bytes s" using p(1) by (simp add: word_le_def)
  have dma: "rk_dma_read_word e ?pa s = None" "rk_dma_write_word e ?pa w s = None" for w
    using ram out by (auto simp: rk_dma_read_word_def rk_dma_write_word_def range_2 ram_not_nxm bus_read16_def bus_write16_def
        ram_decoded ram_get_def ram_set_def split: option.splits)
  have v: "rk_validate_da_for_xfer (rkda k) k = (0, k)"
    using assms(9,10) da_fields(2,4)[of "rkda k"]
    by (simp add: rk_validate_da_for_xfer_def rk_drive_attached_def rk_drive_valid_def rk_da_ok_def Let_def not_less not_le word_less_nat_alt word_le_nat_alt)
  have fp: "rk_fp k ?d = Some f" using assms(10) by (simp add: rk_drive_fp_def split: if_splits)
  have "rk_xfer_word e RK_XFER_READ ?d ?c k s = None"
    by (rule rk_xfer_word_fetch[OF assms(8) _ fp assms(11), of "512 * rk_lba (rkda k)" ?c e s])
      (use assms(9,12) dma in \<open>auto simp: rk_at_def rk_xfer_rest_def rk_xfer_data_def\<close>)
  then have "rk_words e RK_XFER_READ ?d ?c k s = None" using assms(5) by (subst rk_words.simps) simp
  then show ?thesis
    using assms(6,7,10) v dma(1) by (simp add: rk11_poll_def rk_exec_command_def rk_transfer_def Let_def)
qed


text \<open>The option of one-based sectors: the last sector of a track has a place in the image, but the
  transfer refuses it.\<close>

lemma one_based_last_sector:
  assumes "sector_one_based k" "rk_get_sector da = 12" "rk_get_cyl da \<le> RK_MAX_CYL" "rk_drive_attached (rk_get_drive da) k"
  shows "rk_da_to_lba da k = Some ((ucast (rk_get_cyl da) * 2 + ucast (rk_get_surf da)) * 12 + 11) \<and>
    rk_validate_da_for_xfer da k = (-1, rk_set_error RKER_NXS k)"
proof -
  have "\<not> ucast (rk_get_surf da) > (1 :: u32)" "\<not> ucast (rk_get_cyl da) > (202 :: u32)" "rk_drive_valid (rk_get_drive da)"
    using da_fields(2,4)[of da] assms(3) by (simp_all add: word_less_nat_alt word_le_nat_alt unat_ucast_up rk_drive_valid_def)
  then show ?thesis using assms by (simp add: rk_da_to_lba_def rk_validate_da_for_xfer_def Let_def)
qed

section \<open>A concrete controller\<close>

text \<open>A drive with one sector of zeros; the input of the witnesses.\<close>

definition rk_test_image :: emu_file where
  "rk_test_image = \<lparr>f_bytes = replicate 512 0, f_pos = 0, f_eof = False, f_writable = True, f_seekable = True\<rparr>"

definition rk_test :: "u16 \<Rightarrow> u8 \<Rightarrow> rk11" where
  "rk_test cs mex = \<lparr>rkds = 0, rker = 0, rkcs = cs, rkwc = 0xFFFF, rkba = 0x1000, rkda = 0, rkdb = 0, rkmex = mex,
     rk_write_lock = (\<lambda>i. False), rk_l = \<lparr>l_done = False, l_ie = False, irq_req = False, irq_armed = True\<rparr>,
     rk_fp = (\<lambda>i. if i = 0 then Some rk_test_image else None), rk_img_read_only = (\<lambda>i. False), sector_one_based = False\<rparr>"

lemma test_bus [simp]: "bus_ok (bus_init blank_lsi)" "g_machine (bus_init blank_lsi) = BUS_MACHINE_LSI11_1104"
  "dma_word 0x1000 (bus_init blank_lsi)"
proof -
  show "bus_ok (bus_init blank_lsi)" by (simp add: bus_ok_init blank_lsi_def Let_def)
  show "g_machine (bus_init blank_lsi) = BUS_MACHINE_LSI11_1104" by (simp add: bus_init_def blank_lsi_def Let_def)
  have "bus_addr_is_ram 0x1000 (bus_init blank_lsi)" "bus_addr_is_ram (0x1000 + 1) (bus_init blank_lsi)"
    "g_ram_bytes (bus_init blank_lsi) = 57344" "\<not> Option.is_none (g_ram (bus_init blank_lsi))" by code_simp+
  then show "dma_word 0x1000 (bus_init blank_lsi)" by (simp add: dma_word_def Option.is_none_def)
qed

lemma test_ready: "rkcs (rk_test cs 0) AND RKCS_IBA = 0 \<Longrightarrow> rkcs (rk_test cs 0) AND RKCS_GO \<noteq> 0 \<Longrightarrow>
  rk_ready 0 0 1 rk_test_image (rk_test cs 0) (bus_init blank_lsi)"
  by (simp add: rk_ready_def rk_test_def rk_test_image_def rk_get_drive_def rk_da_ok_def rk_get_sector_def rk_get_cyl_def
      rk_get_surf_def rk_lba_def rk_size_def rk_pa_lsi)

theorem rk_poll_returns_witness:
  "\<exists>k' s'. rk11_poll no_others (rk_test 5 0) (bus_init blank_lsi) = Some (k', s') \<and> l_done (rk_l k')"
  using rk_poll_returns[of "bus_init blank_lsi" "rk_test 5 0" no_others] by (auto simp: rk_test_def)

theorem rk_write_then_read_witness:
  "\<exists>k1 f1. rk11_poll no_others (rk_test 3 0) (bus_init blank_lsi) = Some (k1, bus_init blank_lsi) \<and> rkwc k1 = 0 \<and>
     rk_fp k1 0 = Some f1"
proof -
  have "rk_ready 0 0 1 rk_test_image (rk_test 3 0) (bus_init blank_lsi)" by (rule test_ready) (simp_all add: rk_test_def)
  from rk_write_then_read[OF this, of no_others] show ?thesis by (fastforce simp: rk_test_def rk_test_image_def)
qed

theorem rk_extension_leaves_memory_witness:
  "rk11_poll no_others (rk_test 5 1) (bus_init blank_lsi) = None"
  using rk_extension_leaves_memory[of "bus_init blank_lsi" "rk_test 5 1" rk_test_image no_others]
  by (simp add: rk_test_def rk_test_image_def rk_get_drive_def rk_da_ok_def rk_get_sector_def rk_get_cyl_def rk_get_surf_def
      rk_lba_def rk_drive_fp_def rk_drive_valid_def)

end
