(* ===== verification/Rl11Runs.thy ===== *)
theory Rl11Runs
  imports Rl11 Rk11Copy
begin

text \<open>
  What the RL11 promises: the CRC of its headers detects every change of one word, and every poll
  returns with the command completed, without an access outside the memory of the machine.
\<close>

section \<open>The CRC\<close>

text \<open>A bit of the CRC with the data folded in: the shift register of the polynomial.\<close>

definition crc_shift :: "u32 \<Rightarrow> u32" where
  "crc_shift x = drop_bit 1 x XOR (if bit x 0 then 0xA001 else 0)"

lemma crc_bit_shift:
  "fst (crc_bit (c, d)) XOR snd (crc_bit (c, d)) = crc_shift (c XOR d)" "snd (crc_bit (c, d)) = drop_bit 1 d"
proof -
  have o: "(x AND 1 \<noteq> 0) = bit x 0" for x :: u32 using and_exp_bit[of x 0] by simp
  have b: "((c AND NOT 1) OR ((c AND 1) XOR (d AND 1))) AND 1 \<noteq> 0 \<longleftrightarrow> bit (c XOR d) 0"
    unfolding o by (simp add: bit_simps)
  have s: "drop_bit 1 ((c AND NOT 1) OR ((c AND 1) XOR (d AND 1))) = drop_bit 1 c"
    using bit_imp_le_length[of c 32] by (simp only: u32_eq_bits) (auto simp: bit_simps)
  have x: "drop_bit 1 (c XOR d) = drop_bit 1 c XOR drop_bit 1 d" by simp
  show "fst (crc_bit (c, d)) XOR snd (crc_bit (c, d)) = crc_shift (c XOR d)"
    by (simp only: crc_bit_def Let_def prod.case fst_conv snd_conv b s crc_shift_def x) (simp add: ac_simps)
  show "snd (crc_bit (c, d)) = drop_bit 1 d" by (simp add: crc_bit_def Let_def)
qed

lemma crc_bits_shift:
  "fst ((crc_bit ^^ n) (c, d)) XOR snd ((crc_bit ^^ n) (c, d)) = (crc_shift ^^ n) (c XOR d) \<and>
   snd ((crc_bit ^^ n) (c, d)) = drop_bit n d"
proof (induction n)
  case (Suc n)
  obtain c' d' where p: "(crc_bit ^^ n) (c, d) = (c', d')" by (cases "(crc_bit ^^ n) (c, d)")
  have "drop_bit 1 (drop_bit n d) = drop_bit (Suc n) d" by (simp add: ac_simps)
  moreover have "c' XOR d' = (crc_shift ^^ n) (c XOR d)" "d' = drop_bit n d" using Suc unfolding p fst_conv snd_conv by blast+
  ultimately show ?case using p crc_bit_shift[of c' d'] by simp
qed simp

lemma crc_word_shift: "crc_word w c = (crc_shift ^^ 16) (c XOR ucast w)"
proof -
  have "drop_bit 16 (ucast w :: u32) = 0" by (auto simp: bit_eq_iff bit_simps dest: bit_imp_le_length)
  then have "snd ((crc_bit ^^ 16) (c, ucast w)) = 0" using crc_bits_shift[of 16 c "ucast w"] by metis
  then show ?thesis using crc_bits_shift[of 16 c "ucast w"] unfolding crc_word_def by (metis xor.right_neutral)
qed

lemma small_bits: "x < 0x10000 \<longleftrightarrow> drop_bit 16 x = (0 :: u32)"
  by (simp add: word_less_nat_alt word_unat_eq_iff unat_drop_bit_eq drop_bit_eq_div[where 'a = nat] div_eq_0_iff)

lemma crc_shift_small: "x < 0x10000 \<Longrightarrow> crc_shift x < 0x10000"
proof -
  assume x: "x < 0x10000"
  have "drop_bit 16 (drop_bit 1 x) = drop_bit 1 (drop_bit 16 x)" by (simp add: ac_simps)
  then show ?thesis using x unfolding small_bits by (simp add: crc_shift_def)
qed

lemma crc_shift_inj:
  assumes "x < 0x10000" "y < 0x10000" "crc_shift x = crc_shift y"
  shows "x = y"
proof -
  have z: "\<not> bit z 16" if "z < 0x10000" for z :: u32
  proof -
    have "\<not> bit (drop_bit 16 z) 0" using that small_bits[of z] by simp
    then show ?thesis by (simp add: bit_simps)
  qed
  have "bit (crc_shift z) 15 = bit z 0" if "z < 0x10000" for z
    using z[OF that] by (simp add: crc_shift_def bit_simps)
  then have b: "bit x 0 = bit y 0" using assms by metis
  moreover have "drop_bit 1 z = crc_shift z XOR (if bit z 0 then 0xA001 else 0)" for z by (simp add: crc_shift_def xor.assoc)
  ultimately have e: "drop_bit 1 x = drop_bit 1 y" using assms(3) by metis
  have "bit x (Suc n) = bit y (Suc n)" for n using arg_cong[OF e, of "\<lambda>z. bit z n"] by (simp only: bit_drop_bit_eq comp_apply plus_1_eq_Suc)
  then show "x = y" using b by (metis bit_eqI old.nat.exhaust)
qed

lemma xor_cancel: "a XOR b = c XOR b \<Longrightarrow> a = (c :: u32)" "b XOR a = b XOR c \<Longrightarrow> a = (c :: u32)"
proof -
  show "a XOR b = c XOR b \<Longrightarrow> a = c" by (drule arg_cong[of _ _ "\<lambda>z. z XOR b"]) (simp add: xor.assoc)
  show "b XOR a = b XOR c \<Longrightarrow> a = c" by (drule arg_cong[of _ _ "\<lambda>z. b XOR z"]) (simp add: xor.assoc[symmetric])
qed

lemma crc_shifts:
  "x < 0x10000 \<Longrightarrow> (crc_shift ^^ n) x < 0x10000"
  "x < 0x10000 \<Longrightarrow> y < 0x10000 \<Longrightarrow> (crc_shift ^^ n) x = (crc_shift ^^ n) y \<Longrightarrow> x = y"
proof -
  show s: "x < 0x10000 \<Longrightarrow> (crc_shift ^^ n) x < 0x10000" for x by (induction n) (auto simp: crc_shift_small)
  show "x < 0x10000 \<Longrightarrow> y < 0x10000 \<Longrightarrow> (crc_shift ^^ n) x = (crc_shift ^^ n) y \<Longrightarrow> x = y"
  proof (induction n)
    case (Suc n)
    have "(crc_shift ^^ n) z < 0x10000" if "z < 0x10000" for z using that by (induction n) (auto simp: crc_shift_small)
    then show ?case using Suc crc_shift_inj by simp
  qed simp
qed

lemma ucast_small: "(ucast (w :: u16) :: u32) < 0x10000" "c < 0x10000 \<Longrightarrow> c XOR ucast w < (0x10000 :: u32)"
proof -
  show u: "(ucast w :: u32) < 0x10000" using unsigned_less[of w, where 'a = nat] by (simp add: word_less_nat_alt unat_ucast_up)
  show "c < 0x10000 \<Longrightarrow> c XOR ucast w < (0x10000 :: u32)" using u unfolding small_bits by simp
qed

lemma crc_word_small: "c < 0x10000 \<Longrightarrow> crc_word w c < 0x10000"
  unfolding crc_word_shift by (intro crc_shifts(1) ucast_small(2))

lemma crc_fold_small: "c < 0x10000 \<Longrightarrow> fold crc_word ws c < 0x10000"
  by (induction ws arbitrary: c) (simp_all add: crc_word_small)

lemma crc_fold_inj:
  "c < 0x10000 \<Longrightarrow> c' < 0x10000 \<Longrightarrow> fold crc_word ws c = fold crc_word ws c' \<Longrightarrow> c = c'"
proof (induction ws arbitrary: c c')
  case (Cons w ws)
  have "crc_word w c = crc_word w c'"
    using Cons(1)[OF crc_word_small[OF Cons(2)] crc_word_small[OF Cons(3)]] Cons(4) by simp
  then have "c XOR ucast w = c' XOR ucast w"
    using Cons(2,3) crc_shifts(2)[of "c XOR ucast w" "c' XOR ucast w" 16] ucast_small(2) by (simp add: crc_word_shift)
  then show ?case by (rule xor_cancel(1))
qed simp

lemma crc_word_inj:
  assumes "c < 0x10000" "crc_word w c = crc_word w' c"
  shows "w = w'"
proof -
  have "(ucast w :: u32) = ucast w'"
    using crc_shifts(2)[OF ucast_small(2)[OF assms(1)] ucast_small(2)[OF assms(1)]] assms(2) xor_cancel(2) unfolding crc_word_shift by blast
  then show "w = w'" by (metis wide16(3))
qed

text \<open>C27: The header CRC of the RL11 does its work: words followed by their CRC have CRC 0 (so do the three words of a READ HEADER command), and changing any one word of a message changes its CRC.\<close>
theorem rl_crc_detects:
  "rl_calc_crc16 (ws @ [rl_calc_crc16 ws]) = 0 \<and>
   (\<forall>i < length ws. \<forall>w. w \<noteq> ws ! i \<longrightarrow> rl_calc_crc16 (ws[i := w]) \<noteq> rl_calc_crc16 ws) \<and>
   (if rl_ready_drive k = None then True
    else length (rl_rhdr_fifo (rl_exec_read_header k)) = 3 \<and> rl_calc_crc16 (rl_rhdr_fifo (rl_exec_read_header k)) = 0)"
proof -
  have u: "(ucast (ucast c :: u16) :: u32) = c" if "c < 0x10000" for c :: u32
    using that by (simp add: word_unat_eq_iff unat_ucast_up unsigned_ucast_eq take_bit_eq_mod word_less_nat_alt unat_mod_distrib)
  have res: "rl_calc_crc16 (xs @ [rl_calc_crc16 xs]) = 0" for xs
  proof -
    have "(crc_shift ^^ n) 0 = 0" for n by (induction n) (auto simp: crc_shift_def)
    then show ?thesis using u[OF crc_fold_small[of 0 xs]] by (simp add: rl_calc_crc16_def crc_word_shift)
  qed
  have det: "rl_calc_crc16 (ws[i := w]) \<noteq> rl_calc_crc16 ws" if "i < length ws" "w \<noteq> ws ! i" for i w
  proof
    assume e: "rl_calc_crc16 (ws[i := w]) = rl_calc_crc16 ws"
    define c where "c = fold crc_word (take i ws) 0"
    have c: "c < 0x10000" unfolding c_def by (rule crc_fold_small) simp
    have f: "fold crc_word ws 0 = fold crc_word (drop (Suc i) ws) (crc_word (ws ! i) c)"
      "fold crc_word (ws[i := w]) 0 = fold crc_word (drop (Suc i) ws) (crc_word w c)"
      using arg_cong[OF id_take_nth_drop[OF that(1)], of "\<lambda>xs. fold crc_word xs 0"]
      by (simp_all add: upd_conv_take_nth_drop[OF that(1)] c_def)
    have "fold crc_word ws 0 = fold crc_word (ws[i := w]) 0"
      using e u[OF crc_fold_small[of 0 ws]] u[OF crc_fold_small[of 0 "ws[i := w]"]] unfolding rl_calc_crc16_def by simp
    then have "crc_word (ws ! i) c = crc_word w c"
      unfolding f using crc_fold_inj crc_word_small[OF c] by metis
    then show False using crc_word_inj[OF c] that(2) by metis
  qed
  have "length (rl_rhdr_fifo (rl_exec_read_header k)) = 3 \<and> rl_calc_crc16 (rl_rhdr_fifo (rl_exec_read_header k)) = 0"
    if "rl_ready_drive k \<noteq> None"
    using that res[of "[_, _]"]
    by (auto simp: rl_exec_read_header_def rl_finish_command_def rl_sync_cs_def rl_upd_def Let_def)
  then show ?thesis using res det by auto
qed


section \<open>Every poll returns\<close>

definition rl_live :: "nat \<Rightarrow> rl_cursor \<Rightarrow> rl11 \<Rightarrow> 'x lsi \<Rightarrow> bool" where
  "rl_live i c k s = (bus_ok s \<and> d_fp (rl_drv k i) \<noteq> None \<and> (g_machine s = BUS_MACHINE_LSI11_1104 \<longrightarrow> l_ext c = 0))"

lemma rl_pa_lsi: "g_machine s = BUS_MACHINE_LSI11_1104 \<Longrightarrow> rl_pa ba 0 s = ucast ba"
  by (simp add: rl_pa_def)

lemma rl_pa_ok: "rl_live i c k s \<Longrightarrow> bus_addr_ok (rl_pa (l_ba c) (l_ext c) s) s"
  by (auto simp: rl_live_def bus_addr_ok_def rl_pa_lsi wide16)

lemma rl_ba_inc_low:
  assumes "g_machine s = BUS_MACHINE_LSI11_1104" "bus_range_is_ram (rl_pa ba 0 s) 2 s"
  shows "snd (rl_ba_inc ba 0) = 0"
proof -
  have "ba \<le> 0xDFFF" using assms by (auto simp: rl_pa_lsi range_2 bus_addr_is_ram_def wide16 split: if_splits)
  then have "\<not> ba + 2 < ba" by (simp add: word_less_nat_alt word_le_nat_alt unat_word_ariths)
  then show ?thesis by (simp add: rl_ba_inc_def Let_def)
qed

text \<open>What the operations on the image and the buffer keep: the drive has an image, and the address.\<close>

definition rl_kept :: "nat \<Rightarrow> rl_cursor \<Rightarrow> bool \<times> rl_cursor \<times> rl11 \<Rightarrow> bool" where
  "rl_kept i c = (\<lambda>(go, c', k'). d_fp (rl_drv k' i) \<noteq> None \<and> l_ba c' = l_ba c \<and> l_ext c' = l_ext c \<and> wc_xfer c' = wc_xfer c)"

lemma rl_set_error_drv [simp]: "rl_drv (rl_set_error b de k) = rl_drv k"
  by (simp add: rl_set_error_def Let_def)

lemma rl_kept_break [simp]: "rl_kept i c (rl_break b c' k) = rl_kept i c (True, c', k)"
  by (simp add: rl_kept_def rl_break_def)

lemma rl_with_fp_runs: "d_fp (rl_drv k i) \<noteq> None \<Longrightarrow> runs True (rl_with_fp i op k) (\<lambda>(x, k'). d_fp (rl_drv k' i) \<noteq> None)"
  by (auto simp: rl_with_fp_def rl_upd_def split: prod.splits option.splits)

lemma rl_flush_runs: "d_fp (rl_drv k i) \<noteq> None \<Longrightarrow> runs True (rl_flush i c k) (rl_kept i c)"
  by (auto simp: rl_flush_def rl_kept_def rl_break_def intro!: runs_bind runs_weaken[OF rl_with_fp_runs])

lemma rl_read_into_runs: "d_fp (rl_drv k i) \<noteq> None \<Longrightarrow> runs True (rl_read_into i lba c k) (\<lambda>(rc, c', k'). rl_kept i c (True, c', k'))"
  by (auto simp: rl_read_into_def rl_kept_def intro!: runs_bind runs_weaken[OF rl_with_fp_runs])

lemma rl_load_sector_runs:
  assumes "d_fp (rl_drv k i) \<noteq> None"
  shows "runs True (rl_load_sector i lba c k) (rl_kept i c)"
proof -
  have read: "runs True (rl_read_into i lba c' k') (\<lambda>(rc, c'', k''). rl_kept i c (True, c'', k''))" if "rl_kept i c (True, c', k')" for c' k'
    using that by (intro runs_weaken[OF rl_read_into_runs]) (auto simp: rl_kept_def)
  have "runs True (if \<not> go then Some (False, c', k')
      else do { (rc, c, k) \<leftarrow> rl_read_into i lba c' k';
                if rc \<noteq> 0 then Some (rl_break RLCS_E_DLT c k) else Some (True, c\<lparr>sec_lba := lba, sec_valid := True, sec_word := 0\<rparr>, k) })
    (rl_kept i c)" if "rl_kept i c (go, c', k')" for go c' k'
    using that read[of c' k'] by (auto simp: rl_kept_def[of i c] rl_break_def intro!: runs_bind elim!: runs_weaken)
  then show ?thesis
    using assms by (auto simp: rl_load_sector_def rl_kept_def[of i c] intro!: runs_bind runs_weaken[OF rl_flush_runs])
qed


lemma rl_dma_runs:
  assumes "rl_live i c k s"
  shows "runs True (rl_dma_read_word e (l_ba c) (l_ext c) s)
      (\<lambda>(rc, w, s'). s' = s \<and> (rc = 0 \<longrightarrow> bus_range_is_ram (rl_pa (l_ba c) (l_ext c) s) 2 s))"
    "runs True (rl_dma_write_word e (l_ba c) (l_ext c) v s)
      (\<lambda>(rc, s'). bus_ok s' \<and> g_machine s' = g_machine s \<and> (rc = 0 \<longrightarrow> bus_range_is_ram (rl_pa (l_ba c) (l_ext c) s) 2 s))"
  using dma_runs[OF _ rl_pa_ok[OF assms]] assms by (simp_all add: rl_dma_read_word_def rl_dma_write_word_def rl_live_def)

definition rl_word_ok :: "nat \<Rightarrow> rl_cursor \<Rightarrow> 'x lsi \<Rightarrow> (bool \<times> rl_cursor \<times> rl11) \<times> 'x lsi \<Rightarrow> bool" where
  "rl_word_ok i c s = (\<lambda>((go, c', k'), s'). rl_kept i c (go, c', k') \<and> bus_ok s' \<and> g_machine s' = g_machine s \<and>
     (go \<longrightarrow> bus_range_is_ram (rl_pa (l_ba c) (l_ext c) s) 2 s))"

lemma rl_xfer_data_runs:
  assumes "rl_live i c k s"
  shows "runs True (rl_xfer_data e mode c k s) (rl_word_ok i c s)"
proof -
  note a = rl_dma_runs[OF assms]
  have l: "bus_ok s" "d_fp (rl_drv k i) \<noteq> None" using assms by (auto simp: rl_live_def)
  show ?thesis
    using l by (cases mode)
      (auto simp: rl_xfer_data_def rl_word_ok_def rl_kept_def rl_break_def Let_def intro!: runs_bind runs_weaken[OF a(1)] runs_weaken[OF a(2)])
qed

definition rl_step_ok :: "nat \<Rightarrow> rl_cursor \<Rightarrow> 'x lsi \<Rightarrow> (bool \<times> rl_cursor \<times> rl11) \<times> 'x lsi \<Rightarrow> bool" where
  "rl_step_ok i c s = (\<lambda>((go, c', k'), s'). d_fp (rl_drv k' i) \<noteq> None \<and> bus_ok s' \<and> g_machine s' = g_machine s \<and>
     (go \<longrightarrow> rl_live i c' k' s' \<and> wc_xfer c' = wc_xfer c - 1))"

lemma rl_xfer_advance_runs:
  assumes "d_fp (rl_drv k i) \<noteq> None"
  shows "runs True (rl_xfer_advance i c k) (\<lambda>(go, c', k'). d_fp (rl_drv k' i) \<noteq> None \<and> wc_xfer c' = wc_xfer c - 1 \<and>
    l_ext c' = snd (rl_ba_inc (l_ba c) (l_ext c)))"
  using assms
  by (auto simp: rl_xfer_advance_def rl_kept_def Let_def split: prod.splits intro!: runs_bind runs_weaken[OF rl_flush_runs])

lemma rl_xfer_word_runs:
  assumes "rl_live i c k s"
  shows "runs True (rl_xfer_word e mode i c k s) (rl_step_ok i c s)"
proof (cases "rl_da_to_lba (rl_drv k i) (l_da c)")
  case None
  then show ?thesis using assms by (simp add: rl_xfer_word_def rl_step_ok_def rl_break_def rl_live_def)
next
  case (Some lba)
  have l: "bus_ok s" "d_fp (rl_drv k i) \<noteq> None" using assms by (auto simp: rl_live_def)
  have adv: "runs True (do { r \<leftarrow> rl_xfer_advance i c2 k2; Some (r, s2) }) (rl_step_ok i c s)"
    if "rl_word_ok i c1 s ((True, c2, k2), s2)" "rl_kept i c (True, c1, k1)" for c1 k1 c2 k2 s2
  proof -
    have r: "d_fp (rl_drv k2 i) \<noteq> None" "l_ba c2 = l_ba c" "l_ext c2 = l_ext c" "wc_xfer c2 = wc_xfer c" "bus_ok s2"
      "g_machine s2 = g_machine s" "bus_range_is_ram (rl_pa (l_ba c) (l_ext c) s) 2 s"
      using that by (auto simp: rl_word_ok_def rl_kept_def)
    have "l_ext c = 0 \<and> snd (rl_ba_inc (l_ba c) (l_ext c)) = 0" if "g_machine s = BUS_MACHINE_LSI11_1104"
      using that assms r(7) rl_ba_inc_low[of s "l_ba c"] by (simp add: rl_live_def)
    then show ?thesis
      using r by (auto simp: rl_step_ok_def rl_live_def intro!: runs_bind runs_weaken[OF rl_xfer_advance_runs])
  qed
  have data: "runs True (do { ((go, c, k), s) \<leftarrow> rl_xfer_data e mode c1 k1 s;
        if \<not> go then Some ((False, c, k), s) else do { r \<leftarrow> rl_xfer_advance i c k; Some (r, s) } }) (rl_step_ok i c s)"
    if "rl_kept i c (True, c1, k1)" for c1 k1
  proof (rule runs_bind, rule runs_weaken[OF rl_xfer_data_runs[of i c1 k1 s]])
    show "rl_live i c1 k1 s" using assms that by (auto simp: rl_live_def rl_kept_def)
    fix x :: "(bool \<times> rl_cursor \<times> rl11) \<times> 'a lsi"
    assume x: "rl_word_ok i c1 s x"
    obtain go c2 k2 s2 where [simp]: "x = ((go, c2, k2), s2)" by (metis prod_cases3 surj_pair)
    show "runs True (case x of (x, s) \<Rightarrow> (case x of (go, c, k) \<Rightarrow> \<lambda>s. if \<not> go then Some ((False, c, k), s)
        else do { r \<leftarrow> rl_xfer_advance i c k; Some (r, s) }) s) (rl_step_ok i c s)"
      using x adv[OF _ that, of c2 k2 s2]
      by (cases go) (auto simp: rl_word_ok_def rl_kept_def rl_step_ok_def)
  qed
  show ?thesis
    unfolding rl_xfer_word_def Some option.case
  proof (rule runs_bind, rule runs_weaken[OF rl_load_sector_runs[OF l(2)]], clarify)
    fix go c1 k1 assume k: "rl_kept i c (go, c1, k1)"
    show "runs True (if \<not> go then Some ((False, c1, k1), s)
        else do { ((go, c, k), s) \<leftarrow> rl_xfer_data e mode c1 k1 s;
                  if \<not> go then Some ((False, c, k), s) else do { r \<leftarrow> rl_xfer_advance i c k; Some (r, s) } }) (rl_step_ok i c s)"
      using k data[of c1 k1] l by (cases go) (auto simp: rl_step_ok_def rl_kept_def)
  qed
qed

lemma rl_words_returns:
  assumes "rl_live i c k s"
  shows "runs True (rl_words e mode i c k s) (\<lambda>(c', k', s'). d_fp (rl_drv k' i) \<noteq> None \<and> bus_ok s')"
  using assms
proof (induction "unat (wc_xfer c)" arbitrary: c k s rule: less_induct)
  case less
  show ?case
  proof (cases "wc_xfer c = 0")
    case True
    then show ?thesis using less(2) by (subst rl_words.simps) (simp add: rl_live_def)
  next
    case False
    have ih: "runs True (rl_words e mode i c' k' s') (\<lambda>(c', k', s'). d_fp (rl_drv k' i) \<noteq> None \<and> bus_ok s')"
      if "wc_xfer c' = wc_xfer c - 1" "rl_live i c' k' s'" for c' k' s'
      using less(1)[of c' k' s'] that measure_unat[OF False] by simp
    show ?thesis
      using False
      by (subst rl_words.simps) (auto intro!: runs_bind runs_weaken[OF rl_xfer_word_runs[OF less(2)]] ih simp: rl_step_ok_def simp del: not_None_eq)
  qed
qed

lemma rl_fill_sector_runs:
  "d_fp (rl_drv k i) \<noteq> None \<Longrightarrow> runs True (rl_fill_sector mode i c k) (\<lambda>(c', k'). d_fp (rl_drv k' i) \<noteq> None)"
  by (auto simp: rl_fill_sector_def rl_kept_def split: option.splits intro!: runs_bind runs_weaken[OF rl_read_into_runs])

lemma rl_last_flush_runs:
  "d_fp (rl_drv k i) \<noteq> None \<Longrightarrow> runs True (rl_last_flush i c k) (\<lambda>_. True)"
  by (auto simp: rl_last_flush_def intro!: runs_bind runs_weaken[OF rl_with_fp_runs])

definition rl_completed :: "rl11 \<times> 'x lsi \<Rightarrow> bool" where
  "rl_completed = (\<lambda>(k, s). l_done (rl_l k) \<and> \<not> rl_busy k \<and> rlcs k AND RLCS_CRDY \<noteq> 0 \<and> bus_ok s)"

lemma rl_sync_cs_done: "l_done (rl_l k) \<Longrightarrow> rlcs (rl_sync_cs k) AND RLCS_CRDY \<noteq> 0"
proof -
  have b: "(x AND RLCS_CRDY \<noteq> 0) = bit x 7" for x :: u16 using and_exp_bit[of x 7] by simp
  show "l_done (rl_l k) \<Longrightarrow> rlcs (rl_sync_cs k) AND RLCS_CRDY \<noteq> 0"
    unfolding b by (simp add: rl_sync_cs_def Let_def bit_simps)
qed

lemma rl_completed_finish [simp]: "rl_completed (rl_finish_command k, s) = bus_ok s"
proof -
  have "l_done (irq_latch_event_set_done l)" for l by (simp add: irq_latch_event_set_done_def Let_def)
  then show ?thesis
    using rl_sync_cs_done[of "k\<lparr>rl_busy := False, rl_l := irq_latch_event_set_done (rl_l k)\<rparr>"]
    by (simp add: rl_completed_def rl_finish_command_def) (simp add: rl_sync_cs_def Let_def)
qed

lemma rl_completed_fail [simp]: "rl_completed (rl_fail b k, s) = bus_ok s"
  by (simp add: rl_fail_def)

lemma rl_xfer_from_returns:
  assumes "bus_ok s" "d_fp (rl_drv k i) \<noteq> None" "g_machine s = BUS_MACHINE_LSI11_1104 \<longrightarrow> rlbae k AND 0x3F = 0"
  shows "runs True (rl_xfer_from e mode b i da k s) rl_completed"
  unfolding rl_xfer_from_def Let_def
proof (rule runs_bind, rule runs_weaken[OF rl_words_returns])
  show "rl_live i \<lparr>wc_xfer = x, wc_done = 0, l_ba = rlba k, l_ext = rl_ba_ext_get k, l_da = da, w_in_sec = 0, had_error = False,
     secbuf = replicate 256 0, sec_lba = 0, sec_valid = False, sec_dirty = False, sec_word = 0\<rparr> k s" for x
    using assms by (auto simp: rl_live_def rl_ba_ext_get_def)
qed (auto simp: rl_xfer_end_def Let_def intro!: runs_bind runs_weaken[OF rl_fill_sector_runs] runs_weaken[OF rl_last_flush_runs])

lemma rl_exec_xfer_returns:
  assumes "bus_ok s" "g_machine s = BUS_MACHINE_LSI11_1104 \<longrightarrow> rlbae k AND 0x3F = 0"
  shows "runs True (rl_exec_xfer e mode k s) rl_completed"
proof (cases "rl_ready_drive k")
  case None
  then show ?thesis using assms(1) by (simp add: rl_exec_xfer_def)
next
  case (Some r)
  obtain i d f where r: "r = (i, d, f)" by (cases r)
  then have "d_fp (rl_drv k i) \<noteq> None"
    using Some by (auto simp: rl_ready_drive_def rl_selected_drive_def Let_def split: option.splits if_splits)
  then show ?thesis using assms Some r by (auto simp: rl_exec_xfer_def Let_def intro!: rl_xfer_from_returns)
qed

lemma rl_poll_runs:
  assumes "bus_ok s" "g_machine s = BUS_MACHINE_LSI11_1104 \<longrightarrow> rlbae k AND 0x3F = 0"
  shows "runs True (rl11_poll e now k s)
    (\<lambda>(k', s'). if rl_busy k \<and> rl_ready_ns k \<le> now then rl_completed (k', s') else k' = k \<and> s' = s)"
  using assms rl_exec_xfer_returns[OF assms]
  by (auto simp: rl11_poll_def rl_exec_command_def rl_exec_noop_def rl_exec_get_status_def rl_exec_seek_def rl_exec_read_header_def
      Let_def not_less split: option.splits)

text \<open>Every command of the RL11 ends: on a configured machine (an LSI-11 with the extension register clear, or a PDP-11/84 with any UNIBUS map) a poll returns whatever the registers, the images and the memory hold, no transfer leaves the memory, and once the command's time has come it is completed: the controller is ready again and not busy.\<close>
theorem rl_poll_returns:
  assumes "bus_ok s" "g_machine s = BUS_MACHINE_LSI11_1104 \<longrightarrow> rlbae k AND 0x3F = 0"
  shows "\<exists>k' s'. rl11_poll e now k s = Some (k', s') \<and> bus_ok s' \<and>
    (if rl_busy k \<and> rl_ready_ns k \<le> now then l_done (rl_l k') \<and> \<not> rl_busy k' \<and> rlcs k' AND RLCS_CRDY \<noteq> 0 else k' = k \<and> s' = s)"
  using rl_poll_runs[OF assms, of e now] assms(1) by (auto simp: runs_total rl_completed_def split: if_splits)

section \<open>A concrete controller\<close>

definition rl_test :: rl11 where
  "rl_test = \<lparr>rlcs = 0x4, rlba = 0x1000, rlda = 3, rlmp = 0, rlbae = 0, rl_err_code = 0, rl_drive_error = False, rl_busy = True,
     rl_ready_ns = 0, rl_l = \<lparr>l_done = False, l_ie = False, irq_req = False, irq_armed = True\<rparr>,
     rl_drv = (\<lambda>i. \<lparr>d_fp = None, d_type = RL11_TYPE_RL01, d_read_only = False, d_cyl = 0, d_head = 0, d_rot_sector = 0,
                    d_status_latch = 0\<rparr>), rl_rhdr_fifo = [], rl_rhdr_len = 0, rl_rhdr_idx = 0\<rparr>"

theorem rl_crc_detects_witness:
  "rl_calc_crc16 [1, 2, rl_calc_crc16 [1, 2]] = 0 \<and> rl_calc_crc16 [1, 3] \<noteq> rl_calc_crc16 [1, 2]"
proof -
  have "rl_calc_crc16 ([1, 2][1 := 3]) \<noteq> rl_calc_crc16 [1, 2]"
    using rl_crc_detects[of "[1, 2]" rl_test] by (elim conjE allE[of _ 1] allE[of _ 3]) simp
  then show ?thesis using rl_crc_detects[of "[1, 2]" rl_test] by simp
qed

theorem rl_poll_returns_witness:
  "\<exists>k' s'. rl11_poll no_others 0 rl_test (bus_init blank_lsi) = Some (k', s') \<and> l_done (rl_l k')"
  using rl_poll_returns[of "bus_init blank_lsi" rl_test no_others 0] by (auto simp: rl_test_def)

end
