(* ===== verification/LsiDisk.thy ===== *)
theory LsiDisk
  imports LsiMachine Rl11Runs
begin

text \<open>
  The RK11 and the RL11 as devices of the LSI-11 machine: their registration (\<^verbatim>\<open>rk11_init\<close>,
  \<^verbatim>\<open>rl11_init\<close>) and the record of access functions the bus calls. The other unmodelled devices stay an
  argument, and so does the host's clock, which the RL11 compares with the time of its command.
\<close>

record lsi_disks =
  rk_of :: rk11
  rl_of :: rl11

definition put_rk :: "rk11 \<Rightarrow> lsi_disks lsi \<Rightarrow> lsi_disks lsi" where
  "put_rk k s = s\<lparr>others := (others s)\<lparr>rk_of := k\<rparr>\<rparr>"

definition put_rl :: "rl11 \<Rightarrow> lsi_disks lsi \<Rightarrow> lsi_disks lsi" where
  "put_rl k s = s\<lparr>others := (others s)\<lparr>rl_of := k\<rparr>\<rparr>"

definition rk_irq :: "lsi_disks lsi irq_source_t" where
  "rk_irq = \<lparr>irq_vector = 0x90, irq_priority = 5, irq_pending = Some (\<lambda>s. rk11_irq_pending (rk_of (others s))),
     irq_ack = Some (\<lambda>s. put_rk (rk11_irq_ack (rk_of (others s))) s)\<rparr>"

definition rl_irq :: "lsi_disks lsi irq_source_t" where
  "rl_irq = \<lparr>irq_vector = 0x70, irq_priority = 5, irq_pending = Some (\<lambda>s. rl11_irq_pending (rl_of (others s))),
     irq_ack = Some (\<lambda>s. put_rl (rl11_irq_ack (rl_of (others s))) s)\<rparr>"

text \<open>A poll outside the memory of the machine has no result; by \<open>disk_polls\<close> below that does not
  happen while the address extensions are clear, and the state is then kept.\<close>

definition disk_access :: "64 word \<Rightarrow> lsi_disks other_devs \<Rightarrow> lsi_disks other_devs" where
  "disk_access now e = e\<lparr>
     o_read8 := (\<lambda>d a s. if d = RK11 then (let (v, k) = rk_read8 a (rk_of (others s)) in (v, put_rk k s))
                         else if d = RL11 then (let (v, k) = rl_read8 a (rl_of (others s)) in (v, put_rl k s))
                         else o_read8 e d a s),
     o_write8 := (\<lambda>d a v s. if d = RK11 then put_rk (rk_write8 a v (rk_of (others s))) s
                            else if d = RL11 then put_rl (rl_write8 now a v (rl_of (others s))) s
                            else o_write8 e d a v s),
     o_irq := (\<lambda>d n. if d = RK11 then rk_irq else if d = RL11 then rl_irq else o_irq e d n),
     o_reset := (\<lambda>d s. if d = RK11 then put_rk (rk11_reset (rk_of (others s))) s
                       else if d = RL11 then put_rl (rl11_reset (rl_of (others s))) s else o_reset e d s),
     o_poll := (\<lambda>d s. if d = RK11 then (case rk11_poll e (rk_of (others s)) s of None \<Rightarrow> s | Some (k, s) \<Rightarrow> put_rk k s)
                      else if d = RL11 then (case rl11_poll e now (rl_of (others s)) s of None \<Rightarrow> s | Some (k, s) \<Rightarrow> put_rl k s)
                      else o_poll e d s),
     o_shutdown := (\<lambda>d s. if d = RK11 \<or> d = RL11 then s else o_shutdown e d s)\<rparr>"

definition rk11_init :: "lsi_disks other_devs \<Rightarrow> lsi_disks lsi \<Rightarrow> int \<times> lsi_disks lsi" where
  "rk11_init e = init_all
     [devio_register (io_range 0xFF00 0xFF0E (IO_OTHER RK11)), lsi_irq_register e (IRQ_OTHER RK11 0),
      done_with (\<lambda>s. put_rk (rk11_reset (rk_of (others s))) s)]"

definition rl11_init :: "lsi_disks other_devs \<Rightarrow> lsi_disks lsi \<Rightarrow> int \<times> lsi_disks lsi" where
  "rl11_init e = init_all
     [devio_register (io_range 0xF900 0xF909 (IO_OTHER RL11)), lsi_irq_register e (IRQ_OTHER RL11 0),
      done_with (\<lambda>s. put_rl (rl11_reset (rl_of (others s))) s)]"

definition disk_devs :: "64 word \<Rightarrow> lsi_disks other_devs \<Rightarrow> lsi_disks other_devs" where
  "disk_devs now e0 =
     (let e = disk_access now e0
      in e\<lparr>o_init := (\<lambda>d. if d = RK11 then rk11_init e else if d = RL11 then rl11_init e else o_init e0 d)\<rparr>)"

section \<open>Facts\<close>

lemma disk_polls:
  assumes "bus_ok s" "g_machine s = BUS_MACHINE_LSI11_1104 \<longrightarrow> rkmex (rk_of (others s)) = 0 \<and> rlbae (rl_of (others s)) AND 0x3F = 0"
  shows "\<exists>k s'. rk11_poll e (rk_of (others s)) s = Some (k, s') \<and> o_poll (disk_devs now e) RK11 s = put_rk k s'"
    "\<exists>k s'. rl11_poll e now (rl_of (others s)) s = Some (k, s') \<and> o_poll (disk_devs now e) RL11 s = put_rl k s'"
proof -
  have "runs True (rk11_poll e (rk_of (others s)) s) (\<lambda>_. True)" "runs True (rl11_poll e now (rl_of (others s)) s) (\<lambda>_. True)"
    using rk_poll_runs[OF assms(1)] rl_poll_runs[OF assms(1)] assms(2) by (blast intro: runs_weaken)+
  then show "\<exists>k s'. rk11_poll e (rk_of (others s)) s = Some (k, s') \<and> o_poll (disk_devs now e) RK11 s = put_rk k s'"
    "\<exists>k s'. rl11_poll e now (rl_of (others s)) s = Some (k, s') \<and> o_poll (disk_devs now e) RL11 s = put_rl k s'"
    by (auto simp: runs_total disk_devs_def disk_access_def Let_def)
qed

text \<open>The high byte of RKDB is implemented by \<open>rk_write8\<close>, but its address is outside the range that
  \<^verbatim>\<open>rk11_init\<close> registers: no access reaches it.\<close>

lemma rkdb_high_byte:
  "io_range 0xFF00 0xFF0E dev = Some r \<Longrightarrow> \<not> in_range 0xFF0F r" "rkdb (rk_write8 0xFF0F b k) = (rkdb k AND 0xFF) OR push_bit 8 (ucast b)"
  by (auto simp: io_range_def in_range_def rk_write8_def set_byte_of_def Let_def rk_sync_status_def rk_sync_rkds_def rk_sync_rkcs_def)

text \<open>A command given with interrupts enabled requests an interrupt when it completes.\<close>

lemma rk_command_interrupts:
  assumes "bus_ok s" "g_machine s = BUS_MACHINE_LSI11_1104 \<longrightarrow> rkmex (rk_write8 0xFF04 b k) = 0"
    "l_done (rk_l k)" "b AND 0x41 = 0x41"
  shows "runs True (rk11_poll e (rk_write8 0xFF04 b k) s) (\<lambda>(k', s'). rk11_irq_pending k' \<and> l_done (rk_l k'))"
proof -
  have "bit (b AND 0x41) 0 = bit (0x41 :: u8) 0" "bit (b AND 0x41) 6 = bit (0x41 :: u8) 6" using assms(4) by simp_all
  then have "bit b 0" "bit b 6" by (simp_all add: bit_simps)
  have n: "(x AND 1 \<noteq> 0) = bit x 0" for x :: u8 using and_exp_bit[of x 0] by simp
  have n6: "(x AND RKCS_IDE \<noteq> 0) = bit x 6" "(x AND RKCS_GO \<noteq> 0) = bit x 0" for x :: u16
    using and_exp_bit[of x 6] and_exp_bit[of x 0] by simp_all
  have l: "rk_l (rk_write8 0xFF04 b k) = irq_latch_sw_clear_done (irq_latch_set_ie True (rk_l k))"
    "rkcs (rk_write8 0xFF04 b k) AND RKCS_GO \<noteq> 0"
    unfolding n6(2)
    using \<open>bit b 0\<close> \<open>bit b 6\<close> assms(3)
    by (simp_all add: rk_write8_def rk_write_cs_low_def n n6 Let_def irq_latch_set_ie_def bit_simps rk_sync_status_def rk_sync_rkds_def
        rk_sync_rkcs_def rk_clear_soft_errors_def)
  show ?thesis
    using rk_poll_runs[OF assms(1,2), of e] l
    by (auto elim!: runs_weaken simp: rk_completed_def latch_defs rk11_irq_pending_def Let_def)
qed

end
