(* ===== verification/Mk90Devices.thy ===== *)
theory Mk90Devices
  imports Prelude
begin

text \<open>
  The devices of the MK-90 (mk90/mk90\_machine.h and mk90\_keyboard.c, mk90\_lcd.c, mk90\_smp.c,
  mk90\_io.c, mk90\_rtc.c): the state of the machine as one record, the keyboard and display
  registers, the removable memory modules, the serial I/O controller with its queue of sounds,
  and the real-time clock. The host's files are a part of the state and its calendar is an
  argument; the trace is not modelled.
\<close>

section \<open>State\<close>

record mk90_smp_slot_t =
  sl_data :: "(u32 \<Rightarrow> u8) option"
  sl_size :: "64 word"
  sl_position :: u32
  sl_mask :: u32
  sl_cmd :: u8
  sl_present :: bool
  sl_dirty :: bool
  sl_owns_data :: bool
  sl_path :: string

record mk90_rtc_state_t =
  rtc_data :: "nat \<Rightarrow> u8"
  second_accum_ms :: u32
  periodic_accum_ms :: u32

record mk90_io_state_t =
  io_regs :: "nat \<Rightarrow> u16"
  shiftreg :: u16
  rgrq :: u16
  select_active :: bool
  beeper_divider :: "nat \<Rightarrow> u16"
  beeper_cycles :: "nat \<Rightarrow> u32"
  beeper_head :: u32
  beeper_count :: u32
  transfer_busy_cycles :: u32

record mk90_irq_state_t =
  evnt :: bool
  inrt :: bool
  data_ready :: bool
  keyboard :: bool

record host_files =
  file_data :: "string \<Rightarrow> u8 list option"
  file_writable :: "string \<Rightarrow> bool"

record mk90_state_t =
  m_ram :: "u32 \<Rightarrow> u8"
  m_rom :: "u32 \<Rightarrow> u8"
  ram_size :: u16
  ram_end :: u16
  cold_reset_pending :: bool
  lcd_base :: u16
  lcd_config :: u16
  rtc :: mk90_rtc_state_t
  io :: mk90_io_state_t
  rg1 :: u16
  rg2 :: u16
  scan_code :: u16
  irq :: mk90_irq_state_t
  smp :: "nat \<Rightarrow> mk90_smp_slot_t"
  files :: host_files

definition mk90_machine_raise_evnt :: "mk90_state_t \<Rightarrow> mk90_state_t" where
  "mk90_machine_raise_evnt s = s\<lparr>irq := (irq s)\<lparr>evnt := True\<rparr>\<rparr>"

definition mk90_machine_raise_inrt :: "mk90_state_t \<Rightarrow> mk90_state_t" where
  "mk90_machine_raise_inrt s = s\<lparr>irq := (irq s)\<lparr>inrt := True\<rparr>\<rparr>"

definition mk90_machine_raise_data_ready :: "mk90_state_t \<Rightarrow> mk90_state_t" where
  "mk90_machine_raise_data_ready s = s\<lparr>irq := (irq s)\<lparr>data_ready := True\<rparr>\<rparr>"

definition mk90_machine_raise_keyboard :: "mk90_state_t \<Rightarrow> mk90_state_t" where
  "mk90_machine_raise_keyboard s = s\<lparr>irq := (irq s)\<lparr>keyboard := True\<rparr>\<rparr>"

text \<open>The byte of a word that an odd or even address names, and the word with that byte replaced:
  the common part of the byte accesses of all devices.\<close>

definition byte_lane :: "u16 \<Rightarrow> u16 \<Rightarrow> u8" where
  "byte_lane offset w = (if offset AND 1 \<noteq> 0 then ucast (drop_bit 8 w AND 0xFF) else ucast (w AND 0xFF))"

definition put_lane :: "u16 \<Rightarrow> u8 \<Rightarrow> u16 \<Rightarrow> u16" where
  "put_lane offset v w = (if offset AND 1 \<noteq> 0 then (w AND 0xFF) OR push_bit 8 (ucast v) else (w AND 0xFF00) OR ucast v)"

section \<open>Keyboard\<close>

definition mk90_keyboard_reset :: "mk90_state_t \<Rightarrow> mk90_state_t" where
  "mk90_keyboard_reset s = s\<lparr>scan_code := 0\<rparr>"

definition mk90_keyboard_press :: "u16 \<Rightarrow> mk90_state_t \<Rightarrow> mk90_state_t" where
  "mk90_keyboard_press code s = s\<lparr>scan_code := code\<rparr>"

definition mk90_keyboard_release :: "mk90_state_t \<Rightarrow> mk90_state_t" where
  "mk90_keyboard_release s = s\<lparr>scan_code := 0\<rparr>"

definition mk90_keyboard_scan_code :: "mk90_state_t \<Rightarrow> u16" where
  "mk90_keyboard_scan_code s = scan_code s"

section \<open>Display registers\<close>

definition mk90_lcd_word :: "u16 \<Rightarrow> mk90_state_t \<Rightarrow> u16" where
  "mk90_lcd_word reg_index s = (if reg_index = 0 then lcd_base s else lcd_config s)"

definition mk90_lcd_set_word :: "u16 \<Rightarrow> u16 \<Rightarrow> mk90_state_t \<Rightarrow> mk90_state_t" where
  "mk90_lcd_set_word reg_index value s =
     (if reg_index = 0 then s\<lparr>lcd_base := value\<rparr> else s\<lparr>lcd_config := value\<rparr>)"

definition mk90_lcd_reset :: "mk90_state_t \<Rightarrow> mk90_state_t" where
  "mk90_lcd_reset s = s\<lparr>lcd_base := 0, lcd_config := 0x88C6\<rparr>"

definition mk90_lcd_read_word :: "u16 \<Rightarrow> mk90_state_t \<Rightarrow> u16" where
  "mk90_lcd_read_word offset s = mk90_lcd_word (drop_bit 1 offset AND 1) s"

definition mk90_lcd_read_byte :: "u16 \<Rightarrow> mk90_state_t \<Rightarrow> u8" where
  "mk90_lcd_read_byte offset s = byte_lane offset (mk90_lcd_read_word offset s)"

definition mk90_lcd_write_word :: "u16 \<Rightarrow> u16 \<Rightarrow> mk90_state_t \<Rightarrow> mk90_state_t" where
  "mk90_lcd_write_word offset value s = mk90_lcd_set_word (drop_bit 1 offset AND 1) value s"

definition mk90_lcd_write_byte :: "u16 \<Rightarrow> u8 \<Rightarrow> mk90_state_t \<Rightarrow> mk90_state_t" where
  "mk90_lcd_write_byte offset value s =
     mk90_lcd_write_word offset (put_lane offset value (mk90_lcd_read_word offset s)) s"

section \<open>Memory modules\<close>

text \<open>A file that can be opened for writing takes all the bytes; writing back is only tried for
  modules of less than 32 KB.\<close>

definition mk90_smp_save_slot :: "mk90_smp_slot_t \<Rightarrow> host_files \<Rightarrow> int \<times> mk90_smp_slot_t \<times> host_files" where
  "mk90_smp_save_slot slot fs =
     (if \<not> sl_present slot \<or> \<not> sl_dirty slot \<or> sl_size slot \<ge> 0x8000 \<or> sl_path slot = [] then (0, slot, fs)
      else if \<not> file_writable fs (sl_path slot) then (-1, slot, fs)
      else (0, slot\<lparr>sl_dirty := False\<rparr>,
            fs\<lparr>file_data := (file_data fs)(sl_path slot :=
              Some (case sl_data slot of None \<Rightarrow> [] | Some d \<Rightarrow> map (\<lambda>i. d (of_nat i)) [0..<unat (sl_size slot)]))\<rparr>))"

definition empty_slot :: mk90_smp_slot_t where
  "empty_slot = \<lparr>sl_data = None, sl_size = 0, sl_position = 0, sl_mask = 0, sl_cmd = 0, sl_present = False,
     sl_dirty = False, sl_owns_data = False, sl_path = []\<rparr>"

definition mk90_smp_release_slot :: "nat \<Rightarrow> mk90_state_t \<Rightarrow> mk90_state_t" where
  "mk90_smp_release_slot i s =
     (let (rc, slot, fs) = mk90_smp_save_slot (smp s i) (files s)
      in s\<lparr>smp := (smp s)(i := empty_slot), files := fs\<rparr>)"

definition mk90_smp_reset :: "mk90_state_t \<Rightarrow> mk90_state_t" where
  "mk90_smp_reset s =
     s\<lparr>smp := (smp s)(0 := (smp s 0)\<lparr>sl_position := 0, sl_cmd := 0\<rparr>, 1 := (smp s 1)\<lparr>sl_position := 0, sl_cmd := 0\<rparr>)\<rparr>"

definition mk90_smp_close :: "mk90_state_t \<Rightarrow> mk90_state_t" where
  "mk90_smp_close s = mk90_smp_release_slot 1 (mk90_smp_release_slot 0 s)"

text \<open>Allocation succeeds; the path is cut to the size of its array.\<close>

definition mk90_smp_load :: "nat \<Rightarrow> string \<Rightarrow> mk90_state_t \<Rightarrow> int \<times> mk90_state_t" where
  "mk90_smp_load i path s =
     (if i \<ge> 2 then (-1, s)
      else let s = mk90_smp_release_slot i s
           in if path = [] then (0, s)
              else case file_data (files s) path of
                None \<Rightarrow> (-1, s)
              | Some bytes \<Rightarrow>
                  (0, s\<lparr>smp := (smp s)(i := \<lparr>sl_data = Some (\<lambda>p. if unat p < length bytes then bytes ! unat p else 0),
                        sl_size = of_nat (length bytes), sl_position = 0,
                        sl_mask = (if (of_nat (length bytes) :: 64 word) < 0x8000 then 0xFFFF else 0xFFFFFF),
                        sl_cmd = 0, sl_present = True, sl_dirty = False, sl_owns_data = True,
                        sl_path = take 1023 path\<rparr>)\<rparr>))"

definition mk90_smp_cmd :: "nat \<Rightarrow> u8 \<Rightarrow> mk90_state_t \<Rightarrow> u8 \<times> mk90_state_t" where
  "mk90_smp_cmd i value s =
     (0, if i < 2 then s\<lparr>smp := (smp s)(i := (smp s i)\<lparr>sl_cmd := value\<rparr>)\<rparr> else s)"

text \<open>The access of one module, on the slot.\<close>

definition slot_data :: "u8 \<Rightarrow> mk90_smp_slot_t \<Rightarrow> u8 \<times> mk90_smp_slot_t" where
  "slot_data value slot =
     (if \<not> sl_present slot then (0xFF, slot)
      else case sl_data slot of
        None \<Rightarrow> (0xFF, slot)
      | Some d \<Rightarrow>
          (let op = sl_cmd slot AND 0xF0; pos = sl_position slot
           in if op = 0 then (0, slot)
              else if op = 0xA0 then (0xFF, slot\<lparr>sl_position := (push_bit 8 pos OR ucast value) AND sl_mask slot\<rparr>)
              else if op = 0x10 \<or> op = 0xD0 then
                (if ucast pos < sl_size slot then d pos else 0,
                 slot\<lparr>sl_position := (if sl_cmd slot AND 0x80 = 0 then pos - 1 else pos + 1) AND sl_mask slot\<rparr>)
              else if op = 0x20 \<or> op = 0xC0 \<or> op = 0xE0 then
                (let slot = (if ucast pos < sl_size slot \<and> sl_size slot < 0x8000
                             then slot\<lparr>sl_data := Some (d(pos := value)), sl_dirty := True\<rparr> else slot)
                 in (0xFF, slot\<lparr>sl_position := (if sl_cmd slot AND 0x10 = 0 then pos + 1 else pos - 1) AND sl_mask slot\<rparr>))
              else (0xFF, slot)))"

definition mk90_smp_data :: "nat \<Rightarrow> u8 \<Rightarrow> mk90_state_t \<Rightarrow> u8 \<times> mk90_state_t" where
  "mk90_smp_data i value s =
     (if i \<ge> 2 then (0xFF, s)
      else let (v, slot) = slot_data value (smp s i) in (v, s\<lparr>smp := (smp s)(i := slot)\<rparr>))"

section \<open>Serial I/O controller\<close>

abbreviation MK90_BEEPER_QUEUE_SIZE :: u32 where "MK90_BEEPER_QUEUE_SIZE \<equiv> 64"

definition mk90_io_queue_buzzer :: "mk90_io_state_t \<Rightarrow> mk90_io_state_t" where
  "mk90_io_queue_buzzer s =
     (let divider = io_regs s 1; last = unat ((beeper_head s + beeper_count s - 1) mod MK90_BEEPER_QUEUE_SIZE)
      in if divider = 0 \<or> io_regs s 2 AND 0x80 = 0 then s
         else if beeper_count s \<noteq> 0 \<and> beeper_divider s last = divider
         then s\<lparr>beeper_cycles := (beeper_cycles s)(last := beeper_cycles s last + 8)\<rparr>
         else if beeper_count s \<ge> MK90_BEEPER_QUEUE_SIZE
         then s\<lparr>beeper_cycles := (beeper_cycles s)(last := beeper_cycles s last + 8)\<rparr>
         else let tail = unat ((beeper_head s + beeper_count s) mod MK90_BEEPER_QUEUE_SIZE)
              in s\<lparr>beeper_divider := (beeper_divider s)(tail := divider), beeper_cycles := (beeper_cycles s)(tail := 8),
                   beeper_count := beeper_count s + 1\<rparr>)"

definition mk90_io_transfer_cycles :: "mk90_io_state_t \<Rightarrow> u32" where
  "mk90_io_transfer_cycles s =
     (let divider = io_regs s 1
      in if divider = 0 \<or> io_regs s 2 AND 0x80 = 0 \<or> io_regs s 2 AND 0xF \<noteq> 0xB then 0 else ucast divider * 20)"

definition mk90_io_start_transfer :: "mk90_io_state_t \<Rightarrow> mk90_io_state_t" where
  "mk90_io_start_transfer s =
     (let cycles = mk90_io_transfer_cycles s in if cycles \<noteq> 0 then s\<lparr>transfer_busy_cycles := cycles\<rparr> else s)"

definition mk90_io_fetch_input :: "mk90_state_t \<Rightarrow> u16 \<times> mk90_state_t" where
  "mk90_io_fetch_input s =
     (let mode = io_regs (io s) 2 AND 0xF
      in if mode = 0 then (let (v, s) = mk90_smp_data 0 0 s in (ucast v, s))
         else if mode = 1 then (let (v, s) = mk90_smp_data 1 0 s in (ucast v, s))
         else if mode = 2 then (mk90_keyboard_scan_code s, s)
         else (0xFFFF, s))"

definition mk90_io_raise_data_irq :: "mk90_state_t \<Rightarrow> mk90_state_t" where
  "mk90_io_raise_data_irq s = (if io_regs (io s) 2 AND 0x20 = 0 then mk90_machine_raise_data_ready s else s)"

definition set_shiftreg :: "u16 \<Rightarrow> mk90_state_t \<Rightarrow> mk90_state_t" where
  "set_shiftreg v s = s\<lparr>io := (io s)\<lparr>shiftreg := v\<rparr>\<rparr>"

text \<open>\<open>shift_in\<close> is an assignment of a call's byte to the shift register.\<close>

definition shift_in :: "u8 \<times> mk90_state_t \<Rightarrow> mk90_state_t" where
  "shift_in p = set_shiftreg (ucast (fst p)) (snd p)"

definition request_channel :: "mk90_state_t \<Rightarrow> mk90_state_t" where
  "request_channel s = s\<lparr>io := (io s)\<lparr>rgrq := rgrq (io s) OR push_bit (unat (io_regs (io s) 2 AND 7)) 1\<rparr>\<rparr>"

definition commit_data :: "mk90_state_t \<Rightarrow> mk90_state_t" where
  "commit_data s =
     (let mode = io_regs (io s) 2 AND 0xF; s = request_channel (set_shiftreg (io_regs (io s) 0) s)
      in if \<not> select_active (io s) then s
         else let s = mk90_io_raise_data_irq s; v = ucast (shiftreg (io s)) :: u8
           in if mode = 0 then shift_in (mk90_smp_data 0 v s)
              else if mode = 1 then shift_in (mk90_smp_data 1 v s)
              else if mode = 2 then set_shiftreg (mk90_keyboard_scan_code s) s
              else if mode = 8 then snd (mk90_smp_data 0 v s)
              else if mode = 9 then snd (mk90_smp_data 1 v s)
              else if mode = 0xB then s\<lparr>io := mk90_io_start_transfer (mk90_io_queue_buzzer (io s))\<rparr>
              else s)"

definition commit_control :: "mk90_state_t \<Rightarrow> mk90_state_t" where
  "commit_control s =
     (let mode = io_regs (io s) 2 AND 0xF
      in if \<not> select_active (io s) then s
         else let s = mk90_io_raise_data_irq s
           in if mode = 0 then shift_in (mk90_smp_data 0 0 s)
              else if mode = 1 then shift_in (mk90_smp_data 1 0 s)
              else if mode = 2 then set_shiftreg (mk90_keyboard_scan_code s) s
              else s)"

definition commit_command :: "mk90_state_t \<Rightarrow> mk90_state_t" where
  "commit_command s =
     (let mode = io_regs (io s) 2 AND 0xF; s = s\<lparr>io := (io s)\<lparr>select_active := True\<rparr>\<rparr>;
          s = mk90_io_raise_data_irq (request_channel (set_shiftreg (io_regs (io s) 3) s)); v = ucast (shiftreg (io s)) :: u8
      in if mode = 0 then shift_in (mk90_smp_cmd 0 v s)
         else if mode = 1 then shift_in (mk90_smp_cmd 1 v s)
         else if mode = 2 then set_shiftreg (mk90_keyboard_scan_code s) s
         else if mode = 8 then snd (mk90_smp_cmd 0 v s)
         else if mode = 9 then snd (mk90_smp_cmd 1 v s)
         else s)"

definition mk90_io_commit_reg_write :: "nat \<Rightarrow> mk90_state_t \<Rightarrow> mk90_state_t" where
  "mk90_io_commit_reg_write reg_index s =
     (if reg_index = 0 then commit_data s
      else if reg_index = 2 then commit_control s
      else if reg_index = 3 then commit_command s
      else s)"

definition mk90_io_reset :: "mk90_state_t \<Rightarrow> mk90_state_t" where
  "mk90_io_reset s =
     s\<lparr>io := (io s)\<lparr>io_regs := (io_regs (io s))(0 := 0, 1 := 0, 2 := 0, 3 := 0), shiftreg := 0xFFFF, rgrq := 0xFFFF,
        select_active := False, beeper_head := 0, beeper_count := 0, transfer_busy_cycles := 0\<rparr>\<rparr>"

definition mk90_io_read_word :: "u16 \<Rightarrow> mk90_state_t \<Rightarrow> u16 \<times> mk90_state_t" where
  "mk90_io_read_word offset s =
     (let reg_index = drop_bit 1 offset AND 3
      in if reg_index = 0 then
           (let value = shiftreg (io s); s = request_channel (set_shiftreg 0xFFFF s)
            in if select_active (io s)
               then (let (v, s) = mk90_io_fetch_input (mk90_io_raise_data_irq s) in (value, set_shiftreg v s))
               else (value, s))
         else if reg_index = 1 then (rgrq (io s), s)
         else if reg_index = 2 then
           (let value = (io_regs (io s) 2 AND 0x70) OR 0xFF84;
                value = (if transfer_busy_cycles (io s) \<noteq> 0 then value AND NOT 0x80 else value)
            in (if \<not> select_active (io s) then value OR 8 else value, s))
         else
           (let s = (if select_active (io s) then mk90_io_raise_data_irq s else s)
            in (shiftreg (io s), s\<lparr>io := (io s)\<lparr>select_active := False\<rparr>\<rparr>)))"

definition mk90_io_read_byte :: "u16 \<Rightarrow> mk90_state_t \<Rightarrow> u8 \<times> mk90_state_t" where
  "mk90_io_read_byte offset s = (let (value, s) = mk90_io_read_word offset s in (byte_lane offset value, s))"

definition mk90_io_write_word :: "u16 \<Rightarrow> u16 \<Rightarrow> mk90_state_t \<Rightarrow> mk90_state_t" where
  "mk90_io_write_word offset value s =
     (let reg_index = unat (drop_bit 1 offset AND 3);
          s = mk90_io_commit_reg_write reg_index (s\<lparr>io := (io s)\<lparr>io_regs := (io_regs (io s))(reg_index := value)\<rparr>\<rparr>)
      in if reg_index = 3 then s\<lparr>io := mk90_io_start_transfer (io s)\<rparr> else s)"

definition mk90_io_write_byte :: "u16 \<Rightarrow> u8 \<Rightarrow> mk90_state_t \<Rightarrow> mk90_state_t" where
  "mk90_io_write_byte offset value s =
     mk90_io_write_word offset (put_lane offset value (io_regs (io s) (unat (drop_bit 1 offset AND 3)))) s"

definition mk90_io_timer_irq :: "mk90_state_t \<Rightarrow> mk90_state_t" where
  "mk90_io_timer_irq s = (if io_regs (io s) 2 AND 0x40 = 0 then mk90_machine_raise_inrt s else s)"

definition mk90_io_step :: "u32 \<Rightarrow> mk90_state_t \<Rightarrow> mk90_state_t" where
  "mk90_io_step cycles s =
     s\<lparr>io := (io s)\<lparr>transfer_busy_cycles :=
        (if transfer_busy_cycles (io s) \<le> cycles then 0 else transfer_busy_cycles (io s) - cycles)\<rparr>\<rparr>"

definition mk90_io_key_irq :: "mk90_state_t \<Rightarrow> mk90_state_t" where
  "mk90_io_key_irq s =
     (let s = s\<lparr>io := (io s)\<lparr>rgrq := rgrq (io s) AND NOT 4\<rparr>\<rparr>
      in if io_regs (io s) 2 AND 0x10 = 0 then mk90_machine_raise_keyboard s else s)"

definition mk90_machine_pop_audio_segment :: "mk90_io_state_t \<Rightarrow> (u16 \<times> u32) option \<times> mk90_io_state_t" where
  "mk90_machine_pop_audio_segment s =
     (if beeper_count s = 0 then (None, s)
      else let head = unat (beeper_head s)
           in (Some (beeper_divider s head, beeper_cycles s head),
               s\<lparr>beeper_head := (beeper_head s + 1) mod MK90_BEEPER_QUEUE_SIZE, beeper_count := beeper_count s - 1\<rparr>))"

end
