(* ===== verification/Mk90Rtc.thy ===== *)
theory Mk90Rtc
  imports Mk90Devices
begin

text \<open>
  The real-time clock of the MK-90 (mk90/mk90\_rtc.c): the calendar of \<^verbatim>\<open>mk90_rtc_update_second\<close> in
  its two modes, the periodic interrupt, and the accesses to the registers. The host's calendar
  at a cold reset is an argument.
\<close>

section \<open>Definitions\<close>

abbreviation (input) RTC_REG_SECONDS :: nat where "RTC_REG_SECONDS \<equiv> 0"
abbreviation (input) RTC_REG_SECONDS_ALARM :: nat where "RTC_REG_SECONDS_ALARM \<equiv> 1"
abbreviation (input) RTC_REG_MINUTES :: nat where "RTC_REG_MINUTES \<equiv> 2"
abbreviation (input) RTC_REG_MINUTES_ALARM :: nat where "RTC_REG_MINUTES_ALARM \<equiv> 3"
abbreviation (input) RTC_REG_HOURS :: nat where "RTC_REG_HOURS \<equiv> 4"
abbreviation (input) RTC_REG_HOURS_ALARM :: nat where "RTC_REG_HOURS_ALARM \<equiv> 5"
abbreviation (input) RTC_REG_WEEKDAY :: nat where "RTC_REG_WEEKDAY \<equiv> 6"
abbreviation (input) RTC_REG_DAY :: nat where "RTC_REG_DAY \<equiv> 7"
abbreviation (input) RTC_REG_MONTH :: nat where "RTC_REG_MONTH \<equiv> 8"
abbreviation (input) RTC_REG_YEAR :: nat where "RTC_REG_YEAR \<equiv> 9"
abbreviation (input) RTC_REG_A :: nat where "RTC_REG_A \<equiv> 10"
abbreviation (input) RTC_REG_B :: nat where "RTC_REG_B \<equiv> 11"
abbreviation (input) RTC_REG_C :: nat where "RTC_REG_C \<equiv> 12"
abbreviation (input) RTC_REG_D :: nat where "RTC_REG_D \<equiv> 13"

type_synonym rtc_regs = "nat \<Rightarrow> u8"

definition mk90_rtc_bcd_inc :: "u8 \<Rightarrow> u8" where
  "mk90_rtc_bcd_inc v = (let v = v + 1 in if v AND 0xF > 9 then v + 6 else v)"

definition mk90_rtc_periodic_rate_ms :: "rtc_regs \<Rightarrow> u32" where
  "mk90_rtc_periodic_rate_ms d =
     [0, 8, 8, 8, 8, 8, 8, 8, 8, 8, 16, 31, 63, 125, 250, 500] ! unat (d RTC_REG_A AND 0xF)"

definition rtc_put :: "rtc_regs \<Rightarrow> mk90_state_t \<Rightarrow> mk90_state_t" where
  "rtc_put d s = s\<lparr>rtc := (rtc s)\<lparr>rtc_data := d\<rparr>\<rparr>"

definition mk90_rtc_flag_irq :: "mk90_state_t \<Rightarrow> mk90_state_t" where
  "mk90_rtc_flag_irq s =
     (let d = rtc_data (rtc s)
      in if d RTC_REG_B AND d RTC_REG_C AND 0x70 \<noteq> 0
         then mk90_io_timer_irq (rtc_put (d(RTC_REG_C := d RTC_REG_C OR 0x80)) s)
         else rtc_put (d(RTC_REG_C := d RTC_REG_C AND NOT 0x80)) s)"

definition rtc_days :: "u8 \<Rightarrow> u8" where
  "rtc_days month = [31, 28, 31, 30, 31, 30, 31, 31, 30, 31, 30, 31] ! unat ((ucast month - 1 :: u32) mod 12)"

text \<open>
  The two branches of the calendar, each a cascade of carries that the C code leaves by
  \<^verbatim>\<open>goto check_alarm\<close>. The limits are the source's: octal constants in the BCD branch.
\<close>

definition bcd_calendar :: "rtc_regs \<Rightarrow> rtc_regs" where
  "bcd_calendar d =
     (let inc = mk90_rtc_bcd_inc; d = d(RTC_REG_SECONDS := inc (d RTC_REG_SECONDS))
      in if d RTC_REG_SECONDS < 48 then d else
      let d = d(RTC_REG_SECONDS := 0, RTC_REG_MINUTES := inc (d RTC_REG_MINUTES))
      in if d RTC_REG_MINUTES < 48 then d else
      let d = d(RTC_REG_MINUTES := 0, RTC_REG_HOURS := inc (d RTC_REG_HOURS))
      in if d RTC_REG_HOURS < 20 then d else
      let d = d(RTC_REG_HOURS := 0, RTC_REG_WEEKDAY := inc (d RTC_REG_WEEKDAY));
          d = (if d RTC_REG_WEEKDAY > 7 then d(RTC_REG_WEEKDAY := 1) else d);
          d = d(RTC_REG_DAY := inc (d RTC_REG_DAY))
      in if d RTC_REG_DAY \<le> rtc_days (d RTC_REG_MONTH) then d else
      let d = d(RTC_REG_DAY := 1, RTC_REG_MONTH := inc (d RTC_REG_MONTH))
      in if d RTC_REG_MONTH \<le> 10 then d else
      let d = d(RTC_REG_MONTH := 1, RTC_REG_YEAR := inc (d RTC_REG_YEAR))
      in if d RTC_REG_YEAR \<le> 99 then d else d(RTC_REG_YEAR := 0))"

definition binary_calendar :: "rtc_regs \<Rightarrow> rtc_regs" where
  "binary_calendar d =
     (let d = d(RTC_REG_SECONDS := d RTC_REG_SECONDS + 1)
      in if d RTC_REG_SECONDS < 60 then d else
      let d = d(RTC_REG_SECONDS := 0, RTC_REG_MINUTES := d RTC_REG_MINUTES + 1)
      in if d RTC_REG_MINUTES < 60 then d else
      let d = d(RTC_REG_MINUTES := 0, RTC_REG_HOURS := d RTC_REG_HOURS + 1)
      in if d RTC_REG_HOURS < 24 then d else
      let d = d(RTC_REG_HOURS := 0, RTC_REG_WEEKDAY := d RTC_REG_WEEKDAY + 1);
          d = (if d RTC_REG_WEEKDAY > 7 then d(RTC_REG_WEEKDAY := 1) else d);
          d = d(RTC_REG_DAY := d RTC_REG_DAY + 1)
      in if d RTC_REG_DAY \<le> rtc_days (d RTC_REG_MONTH) then d else
      let d = d(RTC_REG_DAY := 1, RTC_REG_MONTH := d RTC_REG_MONTH + 1)
      in if d RTC_REG_MONTH \<le> 12 then d else
      let d = d(RTC_REG_MONTH := 1, RTC_REG_YEAR := d RTC_REG_YEAR + 1)
      in if d RTC_REG_YEAR \<le> 99 then d else d(RTC_REG_YEAR := 0))"

definition check_alarm :: "rtc_regs \<Rightarrow> rtc_regs" where
  "check_alarm d =
     (let d = (if d RTC_REG_SECONDS_ALARM = d RTC_REG_SECONDS \<and> d RTC_REG_MINUTES_ALARM = d RTC_REG_MINUTES \<and>
                  d RTC_REG_HOURS_ALARM = d RTC_REG_HOURS
               then d(RTC_REG_C := d RTC_REG_C OR 0x20) else d(RTC_REG_C := d RTC_REG_C AND NOT 0x20))
      in d(RTC_REG_C := d RTC_REG_C OR 0x10))"

definition mk90_rtc_update_second :: "mk90_state_t \<Rightarrow> mk90_state_t" where
  "mk90_rtc_update_second s =
     (let d = rtc_data (rtc s)
      in if d RTC_REG_B AND 0x80 \<noteq> 0 then rtc_put (d(RTC_REG_C := d RTC_REG_C AND NOT 0x10)) s
         else mk90_rtc_flag_irq (rtc_put (check_alarm
                (if d RTC_REG_B AND 4 = 0 then bcd_calendar d else binary_calendar d)) s))"

definition mk90_rtc_periodic_tick :: "mk90_state_t \<Rightarrow> mk90_state_t" where
  "mk90_rtc_periodic_tick s =
     (let s = (if rtc_data (rtc s) RTC_REG_B AND 8 \<noteq> 0 then mk90_machine_raise_evnt s else s);
          d = rtc_data (rtc s);
          d = d(RTC_REG_C := d RTC_REG_C OR 0x40)
      in if d RTC_REG_B AND 0x40 \<noteq> 0
         then mk90_io_timer_irq (rtc_put (d(RTC_REG_C := d RTC_REG_C OR 0x80)) s)
         else rtc_put d s)"

record tm =
  tm_sec :: int
  tm_min :: int
  tm_hour :: int
  tm_mday :: int
  tm_mon :: int
  tm_year :: int
  tm_wday :: int

definition mk90_rtc_reset :: "tm \<Rightarrow> mk90_state_t \<Rightarrow> mk90_state_t" where
  "mk90_rtc_reset now s =
     s\<lparr>rtc := \<lparr>rtc_data = (\<lambda>i. if i < 64 then 0 else rtc_data (rtc s) i)
        (RTC_REG_YEAR := of_int (tm_year now mod 100), RTC_REG_MONTH := of_int (tm_mon now + 1),
         RTC_REG_DAY := of_int (tm_mday now), RTC_REG_WEEKDAY := of_int (if tm_wday now = 0 then 7 else tm_wday now),
         RTC_REG_HOURS := of_int (tm_hour now), RTC_REG_MINUTES := of_int (tm_min now),
         RTC_REG_SECONDS := of_int (tm_sec now)),
        second_accum_ms = 0, periodic_accum_ms = 0\<rparr>\<rparr>"

text \<open>The two loops of \<^verbatim>\<open>mk90_rtc_tick_ms\<close>; the second is entered with a period that is not 0.\<close>

function seconds_loop :: "mk90_state_t \<Rightarrow> mk90_state_t" where
  "seconds_loop s =
     (if second_accum_ms (rtc s) \<ge> 1000
      then seconds_loop (mk90_rtc_update_second (s\<lparr>rtc := (rtc s)\<lparr>second_accum_ms := second_accum_ms (rtc s) - 1000\<rparr>\<rparr>))
      else s)"
  by auto

function periodic_loop :: "u32 \<Rightarrow> mk90_state_t \<Rightarrow> mk90_state_t" where
  "periodic_loop ms s =
     (if ms \<noteq> 0 \<and> periodic_accum_ms (rtc s) \<ge> ms
      then periodic_loop ms (mk90_rtc_periodic_tick (s\<lparr>rtc := (rtc s)\<lparr>periodic_accum_ms := periodic_accum_ms (rtc s) - ms\<rparr>\<rparr>))
      else s)"
  by auto

lemma accum_kept [simp]:
  "second_accum_ms (rtc (mk90_rtc_update_second s)) = second_accum_ms (rtc s)"
  "periodic_accum_ms (rtc (mk90_rtc_update_second s)) = periodic_accum_ms (rtc s)"
  "second_accum_ms (rtc (mk90_rtc_periodic_tick s)) = second_accum_ms (rtc s)"
  "periodic_accum_ms (rtc (mk90_rtc_periodic_tick s)) = periodic_accum_ms (rtc s)"
  by (simp_all add: mk90_rtc_update_second_def mk90_rtc_flag_irq_def mk90_rtc_periodic_tick_def rtc_put_def
      mk90_io_timer_irq_def mk90_machine_raise_inrt_def mk90_machine_raise_evnt_def Let_def)

lemma word_sub_less: "(a :: u32) \<noteq> 0 \<Longrightarrow> a \<le> b \<Longrightarrow> unat (b - a) < unat b"
  by (simp add: unat_sub word_le_nat_alt unat_gt_0[symmetric])

termination seconds_loop
  by (relation "measure (\<lambda>s. unat (second_accum_ms (rtc s)))") (auto intro: word_sub_less)

termination periodic_loop
  by (relation "measure (\<lambda>(ms, s). unat (periodic_accum_ms (rtc s)))") (auto intro: word_sub_less)

declare seconds_loop.simps [simp del] periodic_loop.simps [simp del]

definition mk90_rtc_tick_ms :: "u32 \<Rightarrow> mk90_state_t \<Rightarrow> mk90_state_t" where
  "mk90_rtc_tick_ms elapsed_ms s =
     (let s = s\<lparr>rtc := (rtc s)\<lparr>second_accum_ms := second_accum_ms (rtc s) + elapsed_ms,
                               periodic_accum_ms := periodic_accum_ms (rtc s) + elapsed_ms\<rparr>\<rparr>;
          s = seconds_loop s;
          periodic_ms = mk90_rtc_periodic_rate_ms (rtc_data (rtc s))
      in if periodic_ms = 0 then s else periodic_loop periodic_ms s)"

definition mk90_rtc_read_word :: "u16 \<Rightarrow> mk90_state_t \<Rightarrow> u16 \<times> mk90_state_t" where
  "mk90_rtc_read_word offset s =
     (let index = unat (drop_bit 1 offset AND 0x3F); d = rtc_data (rtc s)
      in (push_bit 1 (ucast (d index)),
          if index = RTC_REG_D then rtc_put (d(RTC_REG_D := 0x80)) s
          else if index = RTC_REG_C then rtc_put (d(RTC_REG_C := 0)) s
          else s))"

definition mk90_rtc_read_byte :: "u16 \<Rightarrow> mk90_state_t \<Rightarrow> u8 \<times> mk90_state_t" where
  "mk90_rtc_read_byte offset s = (let (value, s) = mk90_rtc_read_word offset s in (byte_lane offset value, s))"

definition mk90_rtc_write_word :: "u16 \<Rightarrow> u16 \<Rightarrow> mk90_state_t \<Rightarrow> mk90_state_t" where
  "mk90_rtc_write_word offset value s =
     (let index = unat (drop_bit 1 offset AND 0x3F)
      in if index = RTC_REG_C \<or> index = RTC_REG_D then s
         else rtc_put ((rtc_data (rtc s))(index := ucast (drop_bit 1 value AND 0xFF))) s)"

definition mk90_rtc_write_byte :: "u16 \<Rightarrow> u8 \<Rightarrow> mk90_state_t \<Rightarrow> mk90_state_t" where
  "mk90_rtc_write_byte offset value s =
     (let (w, s) = mk90_rtc_read_word offset s in mk90_rtc_write_word offset (put_lane offset value w) s)"

end
