(* ===== verification/Mk90Machine.thy ===== *)
theory Mk90Machine
  imports Mk90Rtc Traps
begin

text \<open>
  The MK-90 around its processor (mk90/mk90\_syscon.c and mk90\_machine.c): the system
  controller that decides what each address reads and writes, the cached RAM window of the
  processor that follows it, the bus callbacks, reset, interrupts, and the entry points of the
  host program. The processor of the C state (\<^verbatim>\<open>state->cpu\<close>) is the one whose \<open>mach\<close> holds the
  state, so the routines that resize its RAM window act on \<open>regs\<close>. Traces are not modelled.
\<close>

section \<open>System controller\<close>

definition ram_ends :: "u16 list" where "ram_ends = [0xDFFF, 0x7FFF, 0x3FFF, 0x1FFF]"

definition mk90_syscon_read_word :: "u16 \<Rightarrow> mk90_state_t \<Rightarrow> u16" where
  "mk90_syscon_read_word offset s = (if offset < 2 then rg1 s else rg2 s)"

definition mk90_syscon_read_byte :: "u16 \<Rightarrow> mk90_state_t \<Rightarrow> u8" where
  "mk90_syscon_read_byte offset s = byte_lane offset (mk90_syscon_read_word offset s)"

definition mk90_syscon_wr_ram :: "mk90_state_t \<Rightarrow> u16 \<Rightarrow> bool" where
  "mk90_syscon_wr_ram s address =
     (let index = unat (drop_bit 9 (rg1 s) AND 3)
      in if address \<le> ram_ends ! index then True else address \<ge> 0xE800 \<and> address \<le> 0xEBFF)"

definition mk90_syscon_rd_ram :: "mk90_state_t \<Rightarrow> u16 \<Rightarrow> bool" where
  "mk90_syscon_rd_ram s address =
     (let index = unat (drop_bit 11 (rg1 s) AND 7)
      in if index < 4 \<and> address \<le> ram_ends ! index then True else address \<ge> 0xE800 \<and> address \<le> 0xEBFF)"

definition mk90_syscon_rd_rom :: "mk90_state_t \<Rightarrow> u16 \<Rightarrow> bool" where
  "mk90_syscon_rd_rom s address =
     (let index = unat (drop_bit 11 (rg1 s) AND 7)
      in if rg2 s AND 0x2000 \<noteq> 0 then False
         else if address \<ge> [0xFFFF, 0x8000, 0x4000, 0x2000, 0, 0, 0, 0] ! index \<and> address \<le> 0xDFFF then True
         else if rg2 s AND 0x200 \<noteq> 0 \<and> address \<ge> 0xE000 \<and> address \<le> 0xE7FF then True
         else address \<ge> 0xEC00 \<and> address \<le> 0xFDFF)"

section \<open>The RAM window of the processor\<close>

text \<open>Plain RAM: read and written without the ROM in front of it.\<close>

definition plain_ram :: "mk90_state_t \<Rightarrow> u16 \<Rightarrow> bool" where
  "plain_ram s address = (mk90_syscon_rd_ram s address \<and> mk90_syscon_wr_ram s address \<and> \<not> mk90_syscon_rd_rom s address)"

function fast_size_loop :: "mk90_state_t \<Rightarrow> u32 \<Rightarrow> u32" where
  "fast_size_loop s n =
     (if n < ucast (ram_size s) \<and> plain_ram s (ucast n) then fast_size_loop s (n + 1) else n)"
  by auto

lemma word_step_less: "(n :: u32) < m \<Longrightarrow> unat m - unat (n + 1) < unat m - unat n"
proof -
  assume a: "n < m"
  have "uint n < uint m" "uint m < 4294967296" using a uint_lt2p[of m] by (simp_all add: word_less_def)
  then have "uint (n + 1) = uint n + 1" by (simp add: uint_plus_if')
  then have "int (unat (n + 1)) = int (unat n + 1)" by simp
  then have "unat (n + 1) = unat n + 1" by (simp only: of_nat_eq_iff)
  then show ?thesis using a by (simp add: word_less_nat_alt)
qed

termination fast_size_loop
  by (relation "measure (\<lambda>(s, n). unat (ucast (ram_size s) :: u32) - unat n)") (auto intro: word_step_less)

declare fast_size_loop.simps [simp del]

definition mk90_machine_sync_fast_ram :: "mk90_state_t regs \<Rightarrow> mk90_state_t regs" where
  "mk90_machine_sync_fast_ram r =
     (let fast_size = fast_size_loop (mach r) 0
      in r\<lparr>ram_fast := (if fast_size \<noteq> 0 then Some 0 else None), ram_fast_size := fast_size\<rparr>)"

definition mk90_syscon_reset :: "mk90_state_t regs \<Rightarrow> mk90_state_t regs" where
  "mk90_syscon_reset r = mk90_machine_sync_fast_ram (r\<lparr>mach := (mach r)\<lparr>rg1 := 0, rg2 := 0\<rparr>\<rparr>)"

definition mk90_syscon_write_word :: "u16 \<Rightarrow> u16 \<Rightarrow> mk90_state_t regs \<Rightarrow> mk90_state_t regs" where
  "mk90_syscon_write_word offset value r =
     mk90_machine_sync_fast_ram
       (r\<lparr>mach := (if offset < 2 then (mach r)\<lparr>rg1 := value\<rparr> else (mach r)\<lparr>rg2 := value\<rparr>)\<rparr>)"

definition mk90_syscon_write_byte :: "u16 \<Rightarrow> u8 \<Rightarrow> mk90_state_t regs \<Rightarrow> mk90_state_t regs" where
  "mk90_syscon_write_byte offset value r =
     mk90_syscon_write_word offset (put_lane offset value (mk90_syscon_read_word offset (mach r))) r"

section \<open>Bus callbacks\<close>

abbreviation MK90_ROM_START :: u16 where "MK90_ROM_START \<equiv> 0x4000"
abbreviation MK90_ROM_SIZE :: u32 where "MK90_ROM_SIZE \<equiv> 0xBF00"
abbreviation MK90_LCD_BASE :: u16 where "MK90_LCD_BASE \<equiv> 0xE800"
abbreviation MK90_IO_BASE :: u16 where "MK90_IO_BASE \<equiv> 0xE810"
abbreviation MK90_SYS_BASE :: u16 where "MK90_SYS_BASE \<equiv> 0xE81A"
abbreviation MK90_RTC_BASE :: u16 where "MK90_RTC_BASE \<equiv> 0xEA00"

text \<open>The index of a byte in the ROM array, when the address is in it.\<close>

definition rom_index :: "u16 \<Rightarrow> u32" where
  "rom_index address = ucast address - ucast MK90_ROM_START"

definition mk90_read_byte :: "mk90_state_t \<Rightarrow> u16 \<Rightarrow> u8 \<times> mk90_state_t" where
  "mk90_read_byte s address =
     (let rd_ram = mk90_syscon_rd_ram s address; rd_rom = mk90_syscon_rd_rom s address;
          in_rom = (address \<ge> MK90_ROM_START \<and> rom_index address < MK90_ROM_SIZE);
          hole_rom = (address > ram_end s \<and> in_rom);
          from_rom = (if rd_rom \<and> in_rom \<or> hole_rom then (m_rom s (rom_index address), s) else (0xFF, s))
      in if rd_ram then
           (if address \<le> ram_end s then (m_ram s (ucast address), s)
            else if address \<ge> MK90_LCD_BASE \<and> address \<le> MK90_LCD_BASE + 7
            then (mk90_lcd_read_byte (address - MK90_LCD_BASE) s, s)
            else if address \<ge> MK90_IO_BASE \<and> address \<le> MK90_IO_BASE + 7
            then mk90_io_read_byte (address - MK90_IO_BASE) s
            else if address \<ge> MK90_SYS_BASE \<and> address \<le> MK90_SYS_BASE + 3
            then (mk90_syscon_read_byte (address - MK90_SYS_BASE) s, s)
            else if address \<ge> MK90_RTC_BASE \<and> address < MK90_RTC_BASE + 0x80
            then mk90_rtc_read_byte (address - MK90_RTC_BASE) s
            else from_rom)
         else from_rom)"

definition on_mach :: "(mk90_state_t \<Rightarrow> mk90_state_t) \<Rightarrow> mk90_state_t regs \<Rightarrow> mk90_state_t regs" where
  "on_mach f r = r\<lparr>mach := f (mach r)\<rparr>"

definition mk90_write_byte :: "mk90_state_t regs \<Rightarrow> u16 \<Rightarrow> u8 \<Rightarrow> mk90_state_t regs" where
  "mk90_write_byte r address value =
     (if \<not> mk90_syscon_wr_ram (mach r) address then r
      else if address \<le> ram_end (mach r) then on_mach (\<lambda>s. s\<lparr>m_ram := (m_ram s)(ucast address := value)\<rparr>) r
      else if address \<ge> MK90_LCD_BASE \<and> address \<le> MK90_LCD_BASE + 7
      then on_mach (mk90_lcd_write_byte (address - MK90_LCD_BASE) value) r
      else if address \<ge> MK90_IO_BASE \<and> address \<le> MK90_IO_BASE + 7
      then on_mach (mk90_io_write_byte (address - MK90_IO_BASE) value) r
      else if address \<ge> MK90_SYS_BASE \<and> address \<le> MK90_SYS_BASE + 3
      then mk90_syscon_write_byte (address - MK90_SYS_BASE) value r
      else if address \<ge> MK90_RTC_BASE \<and> address < MK90_RTC_BASE + 0x80
      then on_mach (mk90_rtc_write_byte (address - MK90_RTC_BASE) value) r
      else r)"

definition word_at :: "(u32 \<Rightarrow> u8) \<Rightarrow> u32 \<Rightarrow> u16" where
  "word_at m i = ucast (m i) OR push_bit 8 (ucast (m (i + 1)))"

definition read_two_bytes :: "mk90_state_t \<Rightarrow> u16 \<Rightarrow> u16 \<times> mk90_state_t" where
  "read_two_bytes s address =
     (let (lo, s) = mk90_read_byte s address; (hi, s) = mk90_read_byte s (address + 1)
      in (ucast lo OR push_bit 8 (ucast hi), s))"

definition mk90_read_word :: "mk90_state_t \<Rightarrow> u16 \<Rightarrow> u16 \<times> mk90_state_t" where
  "mk90_read_word s address =
     (let rd_ram = mk90_syscon_rd_ram s address; rd_rom = mk90_syscon_rd_rom s address;
          in_rom = (address \<ge> MK90_ROM_START \<and> rom_index address + 1 < MK90_ROM_SIZE);
          hole_rom = (address + 1 > ram_end s \<and> in_rom);
          even = (address AND 1 = 0)
      in if rd_ram then
           (if address + 1 \<le> ram_end s then (word_at (m_ram s) (ucast address), s)
            else if even \<and> address \<ge> MK90_LCD_BASE \<and> address \<le> MK90_LCD_BASE + 6
            then (mk90_lcd_read_word (address - MK90_LCD_BASE) s, s)
            else if even \<and> address \<ge> MK90_IO_BASE \<and> address \<le> MK90_IO_BASE + 6
            then mk90_io_read_word (address - MK90_IO_BASE) s
            else if even \<and> address \<ge> MK90_SYS_BASE \<and> address \<le> MK90_SYS_BASE + 2
            then (mk90_syscon_read_word (address - MK90_SYS_BASE) s, s)
            else if even \<and> address \<ge> MK90_RTC_BASE \<and> address < MK90_RTC_BASE + 0x7F
            then mk90_rtc_read_word (address - MK90_RTC_BASE) s
            else if hole_rom then (word_at (m_rom s) (rom_index address), s)
            else read_two_bytes s address)
         else if rd_rom \<and> in_rom then (word_at (m_rom s) (rom_index address), s)
         else read_two_bytes s address)"

definition mk90_write_word :: "mk90_state_t regs \<Rightarrow> u16 \<Rightarrow> u16 \<Rightarrow> mk90_state_t regs" where
  "mk90_write_word r address value =
     (let even = (address AND 1 = 0)
      in if \<not> mk90_syscon_wr_ram (mach r) address then r
         else if address + 1 \<le> ram_end (mach r)
         then on_mach (\<lambda>s. s\<lparr>m_ram := (m_ram s)(ucast address := ucast (value AND 0xFF),
                                               ucast address + 1 := ucast (drop_bit 8 value AND 0xFF))\<rparr>) r
         else if even \<and> address \<ge> MK90_LCD_BASE \<and> address \<le> MK90_LCD_BASE + 6
         then on_mach (mk90_lcd_write_word (address - MK90_LCD_BASE) value) r
         else if even \<and> address \<ge> MK90_IO_BASE \<and> address \<le> MK90_IO_BASE + 6
         then on_mach (mk90_io_write_word (address - MK90_IO_BASE) value) r
         else if even \<and> address \<ge> MK90_SYS_BASE \<and> address \<le> MK90_SYS_BASE + 2
         then mk90_syscon_write_word (address - MK90_SYS_BASE) value r
         else if even \<and> address \<ge> MK90_RTC_BASE \<and> address < MK90_RTC_BASE + 0x7F
         then on_mach (mk90_rtc_write_word (address - MK90_RTC_BASE) value) r
         else mk90_write_byte (mk90_write_byte r address (ucast (value AND 0xFF))) (address + 1)
                (ucast (drop_bit 8 value AND 0xFF)))"

section \<open>Initialisation, reset, interrupts\<close>

definition mk90_init :: "mk90_state_t regs \<Rightarrow> int \<times> mk90_state_t regs" where
  "mk90_init r = (0, mk90_machine_sync_fast_ram (on_mach (\<lambda>s. s\<lparr>m_ram := (\<lambda>i. if i < 0x8000 then 0 else m_ram s i)\<rparr>) r))"

definition mk90_reset :: "tm \<Rightarrow> mk90_state_t regs \<Rightarrow> mk90_state_t regs" where
  "mk90_reset now r =
     (let cold_reset = cold_reset_pending (mach r);
          r = on_mach (\<lambda>s. mk90_keyboard_reset (mk90_lcd_reset (s\<lparr>cold_reset_pending := False\<rparr>))) r;
          r = on_mach (\<lambda>s. mk90_io_reset (mk90_smp_reset s)) (mk90_syscon_reset r);
          r = (if cold_reset then on_mach (mk90_rtc_reset now) r else r);
          r = mk90_machine_sync_fast_ram r;
          r = on_mach (\<lambda>s. s\<lparr>irq := \<lparr>evnt = False, inrt = False, data_ready = False, keyboard = False\<rparr>\<rparr>) r
      in r\<lparr>SEL0 := 0xF600\<rparr>)"

definition mk90_fini :: "mk90_state_t regs \<Rightarrow> mk90_state_t regs" where
  "mk90_fini r = on_mach mk90_smp_close r"

definition mk90_poll_irq :: "mk90_state_t regs \<Rightarrow> u16 option \<times> mk90_state_t regs" where
  "mk90_poll_irq r =
     (let q = irq (mach r); take = (\<lambda>v q. (Some v, on_mach (\<lambda>s. s\<lparr>irq := q\<rparr>) r))
      in if psw r AND FLAG_P \<noteq> 0 then (None, r)
         else if evnt q then take 0x40 (q\<lparr>evnt := False\<rparr>)
         else if inrt q then take 0xC0 (q\<lparr>inrt := False\<rparr>)
         else if data_ready q then take 0xC4 (q\<lparr>data_ready := False\<rparr>)
         else if keyboard q then take 0xC8 (q\<lparr>keyboard := False\<rparr>)
         else (None, r))"

definition mk90_ramptr :: "mk90_state_t regs \<Rightarrow> u16 \<Rightarrow> u32 option" where
  "mk90_ramptr r offset = (if (ucast offset :: u32) \<ge> ucast (ram_size (mach r)) then None else Some (ucast offset))"

definition mk90_bus :: "tm \<Rightarrow> mk90_state_t bus" where
  "mk90_bus now =
     \<lparr>ENABLE_MMU = False, MMU_STUB_REGS_WHEN_DISABLED = False,
      cb_load_byte = (\<lambda>be r a. let (v, s) = mk90_read_byte (mach r) a in Some (v, r\<lparr>mach := s\<rparr>)),
      cb_store_byte = (\<lambda>be r a v. Some (mk90_write_byte r a v)),
      cb_load_word = (\<lambda>be r a. let (v, s) = mk90_read_word (mach r) a in Some (v, r\<lparr>mach := s\<rparr>)),
      cb_store_word = (\<lambda>be r a v. Some (mk90_write_word r a v)),
      cb_load_byte_pa = None, cb_store_byte_pa = None, cb_load_word_pa = None, cb_store_word_pa = None,
      cb_init = Some mk90_init, cb_reset = Some (mk90_reset now), cb_fini = Some mk90_fini,
      cb_poll_irq = Some mk90_poll_irq, cb_ramptr = Some mk90_ramptr,
      host_read = (\<lambda>r p. m_ram (mach r) p),
      host_write = (\<lambda>r p v. on_mach (\<lambda>s. s\<lparr>m_ram := (m_ram s)(p := v)\<rparr>) r)\<rparr>"

text \<open>\<^verbatim>\<open>mk90_machine_connect\<close> clears the state (the host's files are not in it).\<close>

definition mk90_machine_connect :: "mk90_state_t regs \<Rightarrow> mk90_state_t regs" where
  "mk90_machine_connect r =
     r\<lparr>mach := \<lparr>m_ram = (\<lambda>_. 0), m_rom = (\<lambda>_. 0), ram_size = 0x4000, ram_end = 0x3FFF, cold_reset_pending = True,
         lcd_base = 0, lcd_config = 0,
         rtc = \<lparr>rtc_data = (\<lambda>_. 0), second_accum_ms = 0, periodic_accum_ms = 0\<rparr>,
         io = \<lparr>io_regs = (\<lambda>_. 0), shiftreg = 0, rgrq = 0, select_active = False, beeper_divider = (\<lambda>_. 0),
               beeper_cycles = (\<lambda>_. 0), beeper_head = 0, beeper_count = 0, transfer_busy_cycles = 0\<rparr>,
         rg1 = 0, rg2 = 0, scan_code = 0,
         irq = \<lparr>evnt = False, inrt = False, data_ready = False, keyboard = False\<rparr>,
         smp = (\<lambda>_. empty_slot), files = files (mach r)\<rparr>,
       ram_fast := None, ram_fast_size := 0\<rparr>"

section \<open>The host's side\<close>

text \<open>A file is read into a part of the ROM array; an empty one is an error.\<close>

definition mk90_load_file_into :: "u32 \<Rightarrow> nat \<Rightarrow> string \<Rightarrow> mk90_state_t \<Rightarrow> int \<times> mk90_state_t" where
  "mk90_load_file_into at max_size path s =
     (case file_data (files s) path of
        None \<Rightarrow> (-1, s)
      | Some bytes \<Rightarrow>
          (let n = min max_size (length bytes)
           in if n = 0 \<and> max_size > 0 then (-1, s)
              else (0, s\<lparr>m_rom := (\<lambda>i. if i \<ge> at \<and> unat (i - at) < n then bytes ! unat (i - at) else m_rom s i)\<rparr>)))"

definition mk90_machine_load_images :: "string \<Rightarrow> string \<Rightarrow> string \<Rightarrow> string \<Rightarrow> mk90_state_t \<Rightarrow> int \<times> mk90_state_t" where
  "mk90_machine_load_images rom_path romt_path smp0_path smp1_path s =
     (let s = s\<lparr>m_rom := (\<lambda>i. if i < MK90_ROM_SIZE then 0xFF else m_rom s i)\<rparr>;
          (rc, s) = (if romt_path \<noteq> [] then mk90_load_file_into 0 0x4000 romt_path s else (0, s))
      in if rc \<noteq> 0 then (-1, s)
         else if rom_path = [] then (-1, s)
         else let (rc, s) = mk90_load_file_into 0x4000 0x7F00 rom_path s
              in if rc \<noteq> 0 then (-1, s)
                 else let (rc, s) = mk90_smp_load 0 smp0_path s
                      in if rc \<noteq> 0 then (-1, s)
                         else let (rc, s) = mk90_smp_load 1 smp1_path s in if rc \<noteq> 0 then (-1, s) else (0, s))"

definition mk90_machine_key_press :: "u16 \<Rightarrow> mk90_state_t \<Rightarrow> mk90_state_t" where
  "mk90_machine_key_press code s = (if code = 0 then s else mk90_io_key_irq (mk90_keyboard_press code s))"

definition mk90_machine_ram_peek :: "u16 \<Rightarrow> mk90_state_t \<Rightarrow> u8" where
  "mk90_machine_ram_peek addr s = (if addr \<le> ram_end s then m_ram s (ucast addr) else 0xFF)"

text \<open>The picture: two pages of 32 rows of 15 bytes, interleaved in memory, each byte eight pixels
  with the most significant bit first. \<open>px\<close> is the pixel array, \<open>n\<close> counts down the loops.\<close>

definition lcd_byte :: "mk90_state_t \<Rightarrow> u16 \<Rightarrow> u8" where
  "lcd_byte s index =
     (if lcd_base s + index \<le> ram_end s then m_ram s (ucast (lcd_base s + index)) else 0xFF)"

definition lcd_bits :: "u8 \<Rightarrow> nat \<Rightarrow> (nat \<Rightarrow> u32) \<Rightarrow> nat \<Rightarrow> u32" where
  "lcd_bits value at px =
     (\<lambda>i. if at \<le> i \<and> i < at + 8 then (if bit value (7 - (i - at)) then 0xFF000000 else 0xFFFFFFFF) else px i)"

fun lcd_cols :: "mk90_state_t \<Rightarrow> nat \<Rightarrow> nat \<Rightarrow> u16 \<times> (nat \<Rightarrow> u32) \<Rightarrow> u16 \<times> (nat \<Rightarrow> u32)" where
  "lcd_cols s at 0 st = st"
| "lcd_cols s at (Suc n) (index, px) = lcd_cols s (at + 8) n (index + 2, lcd_bits (lcd_byte s index) at px)"

fun lcd_rows :: "mk90_state_t \<Rightarrow> nat \<Rightarrow> nat \<Rightarrow> nat \<Rightarrow> u16 \<times> (nat \<Rightarrow> u32) \<Rightarrow> u16 \<times> (nat \<Rightarrow> u32)" where
  "lcd_rows s pitch y 0 st = st"
| "lcd_rows s pitch y (Suc n) st = lcd_rows s pitch (y + 1) n (lcd_cols s (y * pitch) 15 st)"

definition mk90_lcd_render :: "mk90_state_t \<Rightarrow> (nat \<Rightarrow> u32) \<Rightarrow> nat \<Rightarrow> nat \<Rightarrow> u32" where
  "mk90_lcd_render s px pitch =
     (if pitch = 0 then px
      else let (index, px) = lcd_rows s pitch 0 32 (0, px); index = index - (960 - 1);
               (index, px) = lcd_rows s pitch 32 32 (index, px)
           in px)"

end
