(* ===== verification/BkTiming.thy ===== *)
theory BkTiming
  imports Prelude
begin

text \<open>
  Instruction times of the K1801 (bk0010-01/bk\_timing.c), which the BK-0010 and the MK-90 use to
  advance their devices: the dispatch tables, and the cycles of an instruction as a function of
  its opcode word.
\<close>

section \<open>Tables\<close>

datatype (plugins only: size) inst =
   I_illegal | I_adc | I_adcb | I_add | I_ash | I_ashc | I_asl | I_aslb | I_asr | I_asrb
   | I_bcc | I_bcs | I_beq | I_bge | I_bgt | I_bhi | I_bic | I_bicb | I_bis | I_bisb
   | I_bit | I_bitb | I_ble | I_blos | I_blt | I_bmi | I_bne | I_bpl | I_bpt | I_br
   | I_bvc | I_bvs | I_clr | I_clrb | I_ccc | I_cmp | I_cmpb | I_com | I_comb | I_dec
   | I_decb | I_divide | I_emt | I_halt | I_inc | I_incb | I_iot | I_jmp | I_jsr | I_mark
   | I_mfpd | I_mfpi | I_mfps | I_mov | I_movb | I_mtpd | I_mtpi | I_mtps | I_mul | I_neg
   | I_negb | I_busreset | I_rol | I_rolb | I_ror | I_rorb | I_rti | I_rts | I_rtt | I_sbc
   | I_sbcb | I_scc | I_sob | I_sub | I_swabi | I_sxt | I_trap | I_tst | I_tstb | I_waiti
   | I_xor | I_fis | I_itimtab0 | I_itimtab1


definition a_time :: "u32 list" where "a_time = [0, 12, 12, 20, 12, 20, 20, 28]"
definition b_time :: "u32 list" where "b_time = [0, 20, 20, 32, 20, 32, 32, 40]"
definition ab_time :: "u32 list" where "ab_time = [0, 16, 16, 24, 16, 24, 24, 32]"
definition a2_time :: "u32 list" where "a2_time = [0, 20, 20, 28, 20, 28, 28, 36]"
definition ds_time :: "u32 list" where "ds_time = [0, 32, 32, 40, 32, 40, 40, 48]"

abbreviation REGREG :: u32 where "REGREG \<equiv> 12"

definition SRC_MODE :: "u16 \<Rightarrow> nat" where "SRC_MODE op = unat (drop_bit 9 (op AND 0xE00))"
definition DST_MODE :: "u16 \<Rightarrow> nat" where "DST_MODE op = unat (drop_bit 3 (op AND 0x38))"

definition dst_time :: "u16 \<Rightarrow> u32 list" where "dst_time op = (if SRC_MODE op \<noteq> 0 then ab_time else b_time)"
definition cmp_time :: "u16 \<Rightarrow> u32 list" where "cmp_time op = (if SRC_MODE op \<noteq> 0 then a_time else a2_time)"

text \<open>The dispatch tables, in runs of equal entries.\<close>

definition unruns :: "(nat \<times> 'a) list \<Rightarrow> 'a list" where
  "unruns rs = concat (map (\<lambda>(n, c). replicate n c) rs)"

definition sitimtab0 :: "inst list" where
  "sitimtab0 = unruns
    [(1, I_halt), (1, I_waiti), (1, I_rti), (1, I_bpt), (1, I_iot), (1, I_busreset),
     (1, I_rtt), (57, I_illegal)]"

definition sitimtab1 :: "inst list" where
  "sitimtab1 = unruns
    [(8, I_rts), (24, I_illegal), (16, I_ccc), (16, I_scc)]"

definition itimtab :: "inst list" where
  "itimtab = unruns
    [(1, I_itimtab0), (1, I_jmp), (1, I_itimtab1), (1, I_swabi), (4, I_br), (4, I_bne),
     (4, I_beq), (4, I_bge), (4, I_blt), (4, I_bgt), (4, I_ble), (8, I_jsr), (1, I_clr),
     (1, I_com), (1, I_inc), (1, I_dec), (1, I_neg), (1, I_adc), (1, I_sbc), (1, I_tst),
     (1, I_ror), (1, I_rol), (1, I_asr), (1, I_asl), (1, I_mark), (1, I_mfpi), (1, I_mtpi),
     (1, I_sxt), (8, I_illegal), (64, I_mov), (64, I_cmp), (64, I_bit), (64, I_bic),
     (64, I_bis), (64, I_add), (8, I_mul), (8, I_divide), (8, I_ash), (8, I_ashc), (8, I_xor),
     (16, I_illegal), (8, I_sob), (4, I_bpl), (4, I_bmi), (4, I_bhi), (4, I_blos), (4, I_bvc),
     (4, I_bvs), (4, I_bcc), (4, I_bcs), (4, I_emt), (4, I_trap), (1, I_clrb), (1, I_comb),
     (1, I_incb), (1, I_decb), (1, I_negb), (1, I_adcb), (1, I_sbcb), (1, I_tstb),
     (1, I_rorb), (1, I_rolb), (1, I_asrb), (1, I_aslb), (1, I_mtps), (1, I_mfpd),
     (1, I_mtpd), (1, I_mfps), (8, I_illegal), (64, I_movb), (64, I_cmpb), (64, I_bitb),
     (64, I_bicb), (64, I_bisb), (64, I_sub), (64, I_fis)]"

section \<open>Cycles of an instruction\<close>

text \<open>The two-stage lookup, then the switch on the instruction.\<close>

definition bk_inst :: "u16 \<Rightarrow> inst" where
  "bk_inst op =
     (let code = itimtab ! unat (drop_bit 6 op)
      in if code = I_itimtab0 then sitimtab0 ! unat (op AND 0x3F)
         else if code = I_itimtab1 then sitimtab1 ! unat (op AND 0x3F)
         else code)"

definition inst_cycles :: "inst \<Rightarrow> u16 \<Rightarrow> u32" where
  "inst_cycles code op =
     (if code \<in> {I_mov, I_movb, I_bic, I_bicb, I_bis, I_bisb, I_add, I_sub}
      then REGREG + a_time ! SRC_MODE op + dst_time op ! DST_MODE op
      else if code \<in> {I_cmp, I_cmpb, I_bit, I_bitb}
      then REGREG + a_time ! SRC_MODE op + cmp_time op ! DST_MODE op
      else if code \<in> {I_clr, I_clrb, I_com, I_comb, I_neg, I_negb, I_inc, I_incb, I_dec, I_decb, I_adc, I_adcb,
                      I_sbc, I_sbcb, I_ror, I_rorb, I_rol, I_rolb, I_asl, I_aslb, I_asr, I_asrb, I_mtps, I_mfps,
                      I_swabi, I_sxt}
      then REGREG + ab_time ! DST_MODE op
      else if code \<in> {I_tst, I_tstb} then REGREG + a_time ! DST_MODE op
      else if code \<in> {I_bne, I_beq, I_bge, I_blt, I_bgt, I_ble, I_bpl, I_bmi, I_bhi, I_blos, I_bvc, I_bvs,
                      I_bcc, I_bcs, I_br} then 16
      else if code = I_jmp then a2_time ! DST_MODE op
      else if code = I_jsr then ds_time ! DST_MODE op
      else if code = I_sob then 20
      else if code = I_rts then 32
      else if code \<in> {I_scc, I_ccc} then REGREG
      else if code \<in> {I_rti, I_rtt} then 40
      else if code \<in> {I_trap, I_emt, I_bpt, I_iot} then 68
      else if code \<in> {I_mfpi, I_mfpd} then REGREG + ds_time ! DST_MODE op
      else if code \<in> {I_mtpi, I_mtpd} then REGREG + ab_time ! DST_MODE op
      else if code = I_xor then REGREG + a2_time ! DST_MODE op
      else if code = I_mark then 36
      else if code \<in> {I_illegal, I_halt, I_fis, I_mul, I_divide, I_ash, I_ashc} then 144
      else if code \<in> {I_waiti, I_busreset} then 1167
      else 0)"

definition bk_timing_cycles :: "u16 \<Rightarrow> u32" where
  "bk_timing_cycles op = inst_cycles (bk_inst op) op"

section \<open>Where an instruction stands in a table\<close>

fun run_intervals :: "'a \<Rightarrow> nat \<Rightarrow> (nat \<times> 'a) list \<Rightarrow> (nat \<times> nat) list" where
  "run_intervals c off [] = []"
| "run_intervals c off ((n, d) # rs) =
     (if d = c then (off, off + n) # run_intervals c (off + n) rs else run_intervals c (off + n) rs)"

lemma run_intervals_from: "(a, b) \<in> set (run_intervals c off rs) \<Longrightarrow> off \<le> a"
proof (induction rs arbitrary: off)
  case (Cons y rs)
  then show ?case by (cases y) (auto split: if_splits dest!: Cons.IH)
qed simp

lemma nth_unruns:
  "i < length (unruns rs) \<Longrightarrow> (unruns rs ! i = c) = (\<exists>(a, b) \<in> set (run_intervals c off rs). a \<le> off + i \<and> off + i < b)"
proof (induction rs arbitrary: i off)
  case (Cons x rs)
  obtain n d where x: "x = (n, d)" by force
  show ?case
  proof (cases "i < n")
    case True
    then show ?thesis by (auto simp: x unruns_def nth_append dest: run_intervals_from)
  next
    case False
    then have "i - n < length (unruns rs)" using Cons.prems by (simp add: x unruns_def)
    from Cons.IH[OF this, of "off + n"] False show ?thesis by (auto simp: x unruns_def nth_append)
  qed
qed (simp add: unruns_def)

lemma table_at:
  "unruns rs ! i = c \<longleftrightarrow> (\<exists>(a, b) \<in> set (run_intervals c 0 rs). a \<le> i \<and> i < b)" if "i < length (unruns rs)"
  using nth_unruns[OF that, of c 0] by simp

lemma lengths [simp]: "length itimtab = 1024" "length sitimtab0 = 64" "length sitimtab1 = 64"
  by (simp_all add: itimtab_def sitimtab0_def sitimtab1_def unruns_def)

lemma itimtab_at:
  assumes "i < 1024"
  shows "itimtab ! i = I_jmp \<longleftrightarrow> i = 1" "itimtab ! i = I_jsr \<longleftrightarrow> 32 \<le> i \<and> i < 40"
    "itimtab ! i = I_itimtab0 \<longleftrightarrow> i = 0" "itimtab ! i = I_itimtab1 \<longleftrightarrow> i = 2"
  using assms lengths(1) unfolding itimtab_def by (auto simp: table_at)

section \<open>Bounds\<close>

lemma modes_less [simp]: "SRC_MODE op < 8" "DST_MODE op < 8"
proof -
  have "drop_bit 9 (op AND 0xE00) = drop_bit 9 (op AND 0xE00) AND 7" "drop_bit 3 (op AND 0x38) = drop_bit 3 (op AND 0x38) AND 7"
    by (auto simp: u16_eq_bits bit_simps dest: bit_imp_le_length)
  then have "drop_bit 9 (op AND 0xE00) \<le> 7" "drop_bit 3 (op AND 0x38) \<le> 7" by (metis word_and_le1)+
  then show "SRC_MODE op < 8" "DST_MODE op < 8" by (simp_all add: SRC_MODE_def DST_MODE_def word_le_nat_alt)
qed

definition in_range :: "u32 \<Rightarrow> bool" where "in_range c = (12 \<le> c \<and> c \<le> 1167)"

lemma times:
  "i < 8 \<Longrightarrow> a_time ! i \<in> {0, 12, 20, 28}" "i < 8 \<Longrightarrow> b_time ! i \<in> {0, 20, 32, 40}" "i < 8 \<Longrightarrow> ab_time ! i \<in> {0, 16, 24, 32}"
  "i < 8 \<Longrightarrow> a2_time ! i \<in> {0, 20, 28, 36}" "i < 8 \<Longrightarrow> ds_time ! i \<in> {0, 32, 40, 48}"
  "i < 8 \<Longrightarrow> i \<noteq> 0 \<Longrightarrow> a2_time ! i \<in> {20, 28, 36}" "i < 8 \<Longrightarrow> i \<noteq> 0 \<Longrightarrow> ds_time ! i \<in> {32, 40, 48}"
  by (auto simp: a_time_def b_time_def ab_time_def a2_time_def ds_time_def nth_Cons')

lemma times_in_range:
  "in_range (REGREG + a_time ! SRC_MODE op + dst_time op ! DST_MODE op)"
  "in_range (REGREG + a_time ! SRC_MODE op + cmp_time op ! DST_MODE op)"
  "in_range (REGREG + ab_time ! DST_MODE op)" "in_range (REGREG + a_time ! DST_MODE op)"
  "in_range (REGREG + ds_time ! DST_MODE op)" "in_range (REGREG + a2_time ! DST_MODE op)"
  "DST_MODE op \<noteq> 0 \<Longrightarrow> in_range (a2_time ! DST_MODE op)" "DST_MODE op \<noteq> 0 \<Longrightarrow> in_range (ds_time ! DST_MODE op)"
proof -
  have d: "dst_time op ! DST_MODE op \<in> {0, 16, 20, 24, 32, 40}" "cmp_time op ! DST_MODE op \<in> {0, 12, 20, 28, 36}"
    using times(1-4)[OF modes_less(2)[of op]] by (auto simp: dst_time_def cmp_time_def)
  have a: "a_time ! SRC_MODE op \<in> {0, 12, 20, 28}" by (rule times(1)) simp
  show "in_range (REGREG + a_time ! SRC_MODE op + dst_time op ! DST_MODE op)" using a d(1) by (auto simp: in_range_def)
  show "in_range (REGREG + a_time ! SRC_MODE op + cmp_time op ! DST_MODE op)" using a d(2) by (auto simp: in_range_def)
  note t = times[OF modes_less(2)[of op]]
  show "in_range (REGREG + ab_time ! DST_MODE op)" using t(3) by (auto simp: in_range_def)
  show "in_range (REGREG + a_time ! DST_MODE op)" using t(1) by (auto simp: in_range_def)
  show "in_range (REGREG + ds_time ! DST_MODE op)" using t(5) by (auto simp: in_range_def)
  show "in_range (REGREG + a2_time ! DST_MODE op)" using t(4) by (auto simp: in_range_def)
  show "DST_MODE op \<noteq> 0 \<Longrightarrow> in_range (a2_time ! DST_MODE op)" using t(6) by (auto simp: in_range_def)
  show "DST_MODE op \<noteq> 0 \<Longrightarrow> in_range (ds_time ! DST_MODE op)" using t(7) by (auto simp: in_range_def)
qed

lemma inst_cycles_range:
  assumes "code \<notin> {I_itimtab0, I_itimtab1}" "code \<in> {I_jmp, I_jsr} \<Longrightarrow> DST_MODE op \<noteq> 0"
  shows "in_range (inst_cycles code op)"
proof -
  have c: "in_range 16" "in_range 20" "in_range 32" "in_range 12" "in_range 40" "in_range 68" "in_range 36" "in_range 144" "in_range 1167"
    by (simp_all add: in_range_def)
  show ?thesis using assms by (cases code) (simp_all add: inst_cycles_def times_in_range c)
qed

lemma inst_cycles_zero: "DST_MODE op = 0 \<Longrightarrow> inst_cycles I_jmp op = 0" "DST_MODE op = 0 \<Longrightarrow> inst_cycles I_jsr op = 0"
  by (simp_all add: inst_cycles_def a2_time_def ds_time_def)

lemma sub_tables: "set sitimtab0 \<inter> {I_itimtab0, I_itimtab1, I_jmp, I_jsr} = {}" "set sitimtab1 \<inter> {I_itimtab0, I_itimtab1, I_jmp, I_jsr} = {}"
  by (simp_all add: sitimtab0_def sitimtab1_def unruns_def)

lemma bk_inst_cases:
  "bk_inst op \<notin> {I_itimtab0, I_itimtab1}" "bk_inst op = I_jmp \<longleftrightarrow> drop_bit 6 op = 1"
  "bk_inst op = I_jsr \<longleftrightarrow> 32 \<le> unat (drop_bit 6 op) \<and> unat (drop_bit 6 op) < 40"
proof -
  define i where "i = unat (drop_bit 6 op)"
  have "drop_bit 6 op = drop_bit 6 op AND 0x3FF" by (auto simp: u16_eq_bits bit_simps dest: bit_imp_le_length)
  then have "drop_bit 6 op \<le> 0x3FF" by (metis word_and_le1)
  then have i: "i < 1024" by (simp add: i_def word_le_nat_alt)
  have "op AND 0x3F \<le> 0x3F" by (rule word_and_le1)
  then have l: "unat (op AND 0x3F) < 64" by (simp add: word_le_nat_alt)
  have s: "sitimtab0 ! unat (op AND 0x3F) \<notin> {I_itimtab0, I_itimtab1, I_jmp, I_jsr}"
    "sitimtab1 ! unat (op AND 0x3F) \<notin> {I_itimtab0, I_itimtab1, I_jmp, I_jsr}"
    using sub_tables nth_mem[of "unat (op AND 0x3F)" sitimtab0] nth_mem[of "unat (op AND 0x3F)" sitimtab1] l
    unfolding lengths by blast+
  have one: "drop_bit 6 op = 1 \<longleftrightarrow> i = 1" by (simp add: i_def word_unat_eq_iff)
  note at = itimtab_at[OF i]
  show "bk_inst op \<notin> {I_itimtab0, I_itimtab1}"
    using s by (auto simp: bk_inst_def i_def[symmetric] Let_def)
  show "bk_inst op = I_jmp \<longleftrightarrow> drop_bit 6 op = 1"
    using s at(1) unfolding one by (auto simp: bk_inst_def i_def[symmetric] Let_def)
  show "bk_inst op = I_jsr \<longleftrightarrow> 32 \<le> unat (drop_bit 6 op) \<and> unat (drop_bit 6 op) < 40"
    using s at(2) unfolding i_def[symmetric] by (auto simp: bk_inst_def i_def[symmetric] Let_def)
qed

text \<open>C34: Every instruction takes between 12 and 1167 cycles, except JMP and JSR to a register, which have no time: the tables give 0 exactly for the opcodes 00010R and 004R0R, which the processor traps.\<close>
theorem timing_bounds:
  "if op AND 0xFFF8 = 0x40 \<or> op AND 0xFE38 = 0x800 then bk_timing_cycles op = 0
   else 12 \<le> bk_timing_cycles op \<and> bk_timing_cycles op \<le> 1167"
proof -
  have jmp: "op AND 0xFFF8 = 0x40 \<longleftrightarrow> drop_bit 6 op = 1 \<and> drop_bit 3 (op AND 0x38) = 0"
    by (auto simp: u16_eq_bits bit_simps dest: bit_imp_le_length)
  have jsr: "op AND 0xFE38 = 0x800 \<longleftrightarrow> drop_bit 9 op = 4 \<and> drop_bit 3 (op AND 0x38) = 0"
    by (auto simp: u16_eq_bits bit_simps dest: bit_imp_le_length)
  have "unat (drop_bit 9 op) = unat (drop_bit 6 op) div 8"
    by (simp add: unat_drop_bit_eq drop_bit_eq_div unat_div_distrib div_mult2_eq [symmetric])
  then have "drop_bit 9 op = 4 \<longleftrightarrow> 32 \<le> unat (drop_bit 6 op) \<and> unat (drop_bit 6 op) < 40"
    by (auto simp: word_unat_eq_iff)
  then have j: "op AND 0xFFF8 = 0x40 \<longleftrightarrow> bk_inst op = I_jmp \<and> DST_MODE op = 0"
    "op AND 0xFE38 = 0x800 \<longleftrightarrow> bk_inst op = I_jsr \<and> DST_MODE op = 0"
    unfolding jmp jsr bk_inst_cases(2,3) by (simp_all add: DST_MODE_def unat_eq_0)
  show ?thesis
  proof (cases "op AND 0xFFF8 = 0x40 \<or> op AND 0xFE38 = 0x800")
    case True
    then show ?thesis unfolding j bk_timing_cycles_def by (elim disjE conjE) (simp_all add: inst_cycles_zero)
  next
    case False
    then show ?thesis using inst_cycles_range[of "bk_inst op" op] bk_inst_cases(1)[of op] unfolding j
      by (auto simp: bk_timing_cycles_def in_range_def)
  qed
qed

end
