(* ===== verification/Mk90Cpu.thy ===== *)
theory Mk90Cpu
  imports Mk90Machine Invariants BkTiming
begin

text \<open>
  The processor on the MK-90: the cached RAM window is always the part of the memory that the
  system controller maps as plain RAM, so the fast path of the core cannot be told from the bus;
  every step of every program returns and keeps it so, with any key presses and clock ticks
  between the steps; the interrupts; the picture as a function of the memory.
\<close>

section \<open>The map of the system controller\<close>

definition mk90_map :: "mk90_state_t \<Rightarrow> u16 \<times> u16 \<times> u16 \<times> u16" where
  "mk90_map s = (rg1 s, rg2 s, ram_size s, ram_end s)"

lemma map_fields: "mk90_map s' = mk90_map s \<Longrightarrow> rg1 s' = rg1 s \<and> rg2 s' = rg2 s \<and> ram_size s' = ram_size s \<and> ram_end s' = ram_end s"
  by (simp add: mk90_map_def)

lemma map_plain: "mk90_map s' = mk90_map s \<Longrightarrow> plain_ram s' = plain_ram s"
  by (simp add: mk90_map_def fun_eq_iff plain_ram_def mk90_syscon_rd_ram_def mk90_syscon_wr_ram_def mk90_syscon_rd_rom_def)

lemma map_fast_size: "mk90_map s' = mk90_map s \<Longrightarrow> fast_size_loop s' n = fast_size_loop s n"
proof (induction s n rule: fast_size_loop.induct)
  case (1 s n)
  have f: "ram_size s' = ram_size s" "plain_ram s' = plain_ram s"
    using map_fields[OF 1(2)] map_plain[OF 1(2)] by simp_all
  show ?case
  proof (cases "n < ucast (ram_size s) \<and> plain_ram s (ucast n)")
    case True
    then show ?thesis using 1(1)[OF True 1(2)] f by (simp add: fast_size_loop.simps[of s' n] fast_size_loop.simps[of s n])
  next
    case False
    then show ?thesis using f by (auto simp: fast_size_loop.simps[of s' n] fast_size_loop.simps[of s n])
  qed
qed

text \<open>The window ends at the first address that is not plain RAM.\<close>

lemma fast_size_plain:
  "n \<le> ucast (ram_size s) \<Longrightarrow> n \<le> fast_size_loop s n \<and> fast_size_loop s n \<le> ucast (ram_size s) \<and>
   (\<forall>a. n \<le> a \<longrightarrow> a < fast_size_loop s n \<longrightarrow> plain_ram s (ucast a)) \<and>
   (fast_size_loop s n = ucast (ram_size s) \<or> \<not> plain_ram s (ucast (fast_size_loop s n)))"
proof (induction s n rule: fast_size_loop.induct)
  case (1 s n)
  show ?case
  proof (cases "n < ucast (ram_size s) \<and> plain_ram s (ucast n)")
    case True
    have step: "fast_size_loop s n = fast_size_loop s (n + 1)" using True by (simp add: fast_size_loop.simps[of s n])
    have "uint n < uint (ucast (ram_size s) :: u32)" "uint (ucast (ram_size s) :: u32) < 4294967296"
      using True uint_lt2p[of "ucast (ram_size s) :: u32"] by (simp_all add: word_less_def)
    then have n: "uint (n + 1) = uint n + 1" by (simp add: uint_plus_if')
    then have le: "n + 1 \<le> ucast (ram_size s)" "n \<le> n + 1" using True by (simp_all add: word_le_def word_less_def)
    note ih = 1(1)[OF True le(1)]
    have "plain_ram s (ucast a)" if "n \<le> a" "a < fast_size_loop s (n + 1)" for a
    proof (cases "a = n")
      case False
      then have "n + 1 \<le> a" using that(1) n by (simp add: word_le_def word_uint_eq_iff)
      then show ?thesis using ih that(2) by blast
    qed (use True in simp)
    then show ?thesis using ih le(2) unfolding step by (auto intro: order_trans)
  next
    case False
    then show ?thesis using 1(2) by (auto simp: fast_size_loop.simps[of s n])
  qed
qed

lemma window_plain:
  assumes "a < fast_size_loop s 0"
  shows "plain_ram s (ucast a)" "a < ucast (ram_size s)"
  using fast_size_plain[of 0 s] assms by (auto intro: order_less_le_trans)

section \<open>What keeps the window\<close>

definition mk90_ok :: "mk90_state_t regs \<Rightarrow> bool" where
  "mk90_ok r = (ram_fast_size r = fast_size_loop (mach r) 0 \<and> ram_fast r \<in> {None, Some 0} \<and>
     ram_size (mach r) = 0x4000 \<and> ram_end (mach r) = 0x3FFF)"

lemma mk90_ok_sync: "ram_size (mach r) = 0x4000 \<Longrightarrow> ram_end (mach r) = 0x3FFF \<Longrightarrow> mk90_ok (mk90_machine_sync_fast_ram r)"
  by (simp add: mk90_ok_def mk90_machine_sync_fast_ram_def Let_def)

lemma mk90_ok_map: "mk90_map s = mk90_map (mach r) \<Longrightarrow> mk90_ok (r\<lparr>mach := s\<rparr>) = mk90_ok r"
  using map_fast_size[of s "mach r" 0] map_fields[of s "mach r"] by (simp add: mk90_ok_def)

lemma mk90_ok_on_mach: "(\<And>s. mk90_map (f s) = mk90_map s) \<Longrightarrow> mk90_ok (on_mach f r) = mk90_ok r"
  by (simp add: on_mach_def mk90_ok_map)

named_theorems map_kept

lemmas raise_defs = mk90_machine_raise_evnt_def mk90_machine_raise_inrt_def mk90_machine_raise_data_ready_def mk90_machine_raise_keyboard_def

lemma map_smp [map_kept, simp]: "mk90_map (snd (mk90_smp_data i v s)) = mk90_map s" "mk90_map (snd (mk90_smp_cmd i v s)) = mk90_map s"
  "mk90_map (mk90_smp_reset s) = mk90_map s" "mk90_map (mk90_smp_close s) = mk90_map s"
  by (simp_all add: mk90_smp_data_def mk90_smp_cmd_def mk90_smp_reset_def mk90_smp_close_def mk90_smp_release_slot_def
      mk90_map_def Let_def split: prod.splits)

lemma map_small [simp]: "mk90_map (set_shiftreg v s) = mk90_map s" "mk90_map (mk90_io_raise_data_irq s) = mk90_map s"
  "mk90_map (request_channel s) = mk90_map s" "mk90_map (mk90_io_timer_irq s) = mk90_map s" "mk90_map (rtc_put d s) = mk90_map s"
  "mk90_map (mk90_machine_raise_evnt s) = mk90_map s" "mk90_map (s\<lparr>io := x\<rparr>) = mk90_map s" "mk90_map (s\<lparr>rtc := y\<rparr>) = mk90_map s"
  "mk90_map (shift_in p) = mk90_map (snd p)" "mk90_map (s\<lparr>irq := q\<rparr>) = mk90_map s" "mk90_map (s\<lparr>m_ram := m\<rparr>) = mk90_map s"
  "mk90_map (mk90_io_key_irq s) = mk90_map s" "mk90_map (mk90_io_step c s) = mk90_map s"
  "mk90_map (mk90_lcd_write_word a w s) = mk90_map s" "mk90_map (mk90_lcd_write_byte a b s) = mk90_map s"
  "mk90_map (mk90_io_reset s) = mk90_map s" "mk90_map (mk90_rtc_reset now s) = mk90_map s"
  "mk90_map (mk90_keyboard_reset s) = mk90_map s" "mk90_map (mk90_lcd_reset s) = mk90_map s" "mk90_map (s\<lparr>cold_reset_pending := cr\<rparr>) = mk90_map s"
  "mk90_map (mk90_keyboard_release s) = mk90_map s" "mk90_map (mk90_machine_key_press k s) = mk90_map s"
  by (simp_all add: mk90_map_def set_shiftreg_def mk90_io_raise_data_irq_def request_channel_def mk90_io_timer_irq_def rtc_put_def
      shift_in_def mk90_io_key_irq_def mk90_io_step_def mk90_lcd_write_word_def mk90_lcd_write_byte_def mk90_lcd_set_word_def
      mk90_io_reset_def mk90_rtc_reset_def mk90_keyboard_reset_def mk90_lcd_reset_def mk90_keyboard_release_def
      mk90_machine_key_press_def mk90_keyboard_press_def raise_defs Let_def)

lemma map_fetch [simp]: "mk90_map (snd (mk90_io_fetch_input s)) = mk90_map s"
  by (auto simp: mk90_io_fetch_input_def Let_def split_beta)

lemma map_commit [simp]: "mk90_map (mk90_io_commit_reg_write i s) = mk90_map s"
  by (simp add: mk90_io_commit_reg_write_def commit_data_def commit_control_def commit_command_def Let_def)

lemma map_io [simp]: "mk90_map (snd (mk90_io_read_word a s)) = mk90_map s" "mk90_map (mk90_io_write_word a w s) = mk90_map s"
  "mk90_map (snd (mk90_io_read_byte a s)) = mk90_map s" "mk90_map (mk90_io_write_byte a b s) = mk90_map s"
  by (simp_all add: mk90_io_read_word_def mk90_io_write_word_def mk90_io_read_byte_def mk90_io_write_byte_def Let_def split_beta)

lemma map_rtc [simp]: "mk90_map (snd (mk90_rtc_read_word a s)) = mk90_map s" "mk90_map (mk90_rtc_write_word a w s) = mk90_map s"
  "mk90_map (snd (mk90_rtc_read_byte a s)) = mk90_map s" "mk90_map (mk90_rtc_write_byte a b s) = mk90_map s"
  "mk90_map (mk90_rtc_update_second s) = mk90_map s" "mk90_map (mk90_rtc_periodic_tick s) = mk90_map s"
  by (simp_all add: mk90_rtc_read_word_def mk90_rtc_write_word_def mk90_rtc_read_byte_def mk90_rtc_write_byte_def
      mk90_rtc_update_second_def mk90_rtc_flag_irq_def mk90_rtc_periodic_tick_def Let_def split_beta)

lemma map_seconds [simp]: "mk90_map (seconds_loop s) = mk90_map s"
proof (induction s rule: seconds_loop.induct)
  case (1 s)
  then show ?case by (simp add: seconds_loop.simps[of s])
qed

lemma map_periodic [simp]: "mk90_map (periodic_loop ms s) = mk90_map s"
proof (induction ms s rule: periodic_loop.induct)
  case (1 ms s)
  then show ?case by (simp add: periodic_loop.simps[of ms s])
qed

lemma map_tick [simp]: "mk90_map (mk90_rtc_tick_ms ms s) = mk90_map s"
  by (simp add: mk90_rtc_tick_ms_def Let_def)

lemma map_reads [simp]: "mk90_map (snd (mk90_read_byte s a)) = mk90_map s" "mk90_map (snd (mk90_read_word s a)) = mk90_map s"
proof -
  show b: "mk90_map (snd (mk90_read_byte s a)) = mk90_map s" for s a
    by (simp add: mk90_read_byte_def Let_def)
  show "mk90_map (snd (mk90_read_word s a)) = mk90_map s"
    by (simp add: mk90_read_word_def read_two_bytes_def Let_def split_beta b)
qed

lemma ok_syscon [simp]: "mk90_ok r \<Longrightarrow> mk90_ok (mk90_syscon_write_word a w r)" "mk90_ok r \<Longrightarrow> mk90_ok (mk90_syscon_write_byte a b r)"
proof -
  have "ram_size (mach r) = 0x4000 \<and> ram_end (mach r) = 0x3FFF" if "mk90_ok r" using that by (simp add: mk90_ok_def)
  then show "mk90_ok r \<Longrightarrow> mk90_ok (mk90_syscon_write_word a w r)" for w by (simp add: mk90_syscon_write_word_def mk90_ok_sync)
  then show "mk90_ok r \<Longrightarrow> mk90_ok (mk90_syscon_write_byte a b r)" by (simp add: mk90_syscon_write_byte_def)
qed

lemma ok_writes [simp]: "mk90_ok r \<Longrightarrow> mk90_ok (mk90_write_byte r a b)" "mk90_ok r \<Longrightarrow> mk90_ok (mk90_write_word r a w)"
proof -
  show b: "mk90_ok r \<Longrightarrow> mk90_ok (mk90_write_byte r a b)" for r a b
    by (simp add: mk90_write_byte_def mk90_ok_on_mach)
  show "mk90_ok r \<Longrightarrow> mk90_ok (mk90_write_word r a w)"
    by (simp add: mk90_write_word_def mk90_ok_on_mach Let_def b)
qed

section \<open>The fast path cannot be observed\<close>

lemma bus_simps [simp]: "ENABLE_MMU (mk90_bus now) = False" "cb_ramptr (mk90_bus now) = Some mk90_ramptr"
  "cb_reset (mk90_bus now) = Some (mk90_reset now)" "cb_poll_irq (mk90_bus now) = Some mk90_poll_irq"
  "MMU_STUB_REGS_WHEN_DISABLED (mk90_bus now) = False"
  "cb_load_byte (mk90_bus now) = (\<lambda>be r a. let (v, s) = mk90_read_byte (mach r) a in Some (v, r\<lparr>mach := s\<rparr>))"
  "cb_store_byte (mk90_bus now) = (\<lambda>be r a v. Some (mk90_write_byte r a v))"
  "cb_load_word (mk90_bus now) = (\<lambda>be r a. let (v, s) = mk90_read_word (mach r) a in Some (v, r\<lparr>mach := s\<rparr>))"
  "cb_store_word (mk90_bus now) = (\<lambda>be r a v. Some (mk90_write_word r a v))"
  "host_read (mk90_bus now) r p = m_ram (mach r) p"
  "host_write (mk90_bus now) r p v = on_mach (\<lambda>s. s\<lparr>m_ram := (m_ram s)(p := v)\<rparr>) r"
  "cb_load_byte_pa (mk90_bus now) = None" "cb_store_byte_pa (mk90_bus now) = None"
  "cb_load_word_pa (mk90_bus now) = None" "cb_store_word_pa (mk90_bus now) = None"
  by (simp_all add: mk90_bus_def)

lemma window_ram:
  assumes "mk90_ok r" "ucast a < ram_fast_size r"
  shows "mk90_read_byte (mach r) a = (m_ram (mach r) (ucast a), mach r)"
    "mk90_write_byte r a b = on_mach (\<lambda>s. s\<lparr>m_ram := (m_ram s)(ucast a := b)\<rparr>) r"
    "a < 0x4000"
proof -
  have w: "plain_ram (mach r) (ucast (ucast a :: u32))" "(ucast a :: u32) < ucast (ram_size (mach r))"
    using window_plain[of "ucast a" "mach r"] assms by (simp_all add: mk90_ok_def)
  have p: "plain_ram (mach r) a" using w(1) by (simp add: wide16)
  have "unat a < 0x4000" using w(2) assms(1) by (simp add: mk90_ok_def word_less_nat_alt wide16)
  then show a: "a < 0x4000" by (simp add: word_less_nat_alt)
  then have e: "a \<le> ram_end (mach r)" using assms(1) by (simp add: mk90_ok_def word_less_nat_alt word_le_nat_alt)
  show "mk90_read_byte (mach r) a = (m_ram (mach r) (ucast a), mach r)"
    "mk90_write_byte r a b = on_mach (\<lambda>s. s\<lparr>m_ram := (m_ram s)(ucast a := b)\<rparr>) r"
    using p e by (simp_all add: mk90_read_byte_def mk90_write_byte_def plain_ram_def Let_def)
qed

lemma next16:
  assumes "ucast (a :: u16) + 1 < (n :: u32)" "n \<le> 0x4000"
  shows "ucast a < n" "a + 1 \<le> 0x3FFF" "ucast (a + 1) = (ucast a + 1 :: u32)" "ucast (a + 1) < n"
proof -
  have u: "unat (ucast a + 1 :: u32) = unat a + 1" using unsigned_less[of a, where 'a = nat] by (simp add: unat_word_ariths wide16)
  then have l: "unat a + 1 < unat n" "unat n \<le> 0x4000" using assms by (simp_all add: word_less_nat_alt word_le_nat_alt)
  then have v: "unat (a + 1) = unat a + 1" by (simp add: unat_word_ariths)
  show "ucast a < n" "a + 1 \<le> 0x3FFF" using l v by (simp_all add: word_less_nat_alt word_le_nat_alt wide16)
  show c: "ucast (a + 1) = (ucast a + 1 :: u32)" by (simp add: word_unat_eq_iff u wide16 v)
  show "ucast (a + 1) < n" using assms(1) by (simp add: c)
qed

lemma window_words:
  assumes "mk90_ok r" "ucast a + 1 < ram_fast_size r"
  shows "mk90_read_word (mach r) a = (word_at (m_ram (mach r)) (ucast a), mach r)"
    "mk90_write_word r a w = on_mach (\<lambda>s. s\<lparr>m_ram := (m_ram s)(ucast a := ucast (w AND 0xFF), ucast a + 1 := ucast (drop_bit 8 w AND 0xFF))\<rparr>) r"
proof -
  have n: "ram_fast_size r \<le> 0x4000" using fast_size_plain[of 0 "mach r"] assms(1) by (simp add: mk90_ok_def)
  note x = next16[OF assms(2) n]
  have "plain_ram (mach r) a" using window_plain(1)[of "ucast a" "mach r"] x(1) assms(1) by (simp add: mk90_ok_def wide16)
  then show "mk90_read_word (mach r) a = (word_at (m_ram (mach r)) (ucast a), mach r)"
    "mk90_write_word r a w = on_mach (\<lambda>s. s\<lparr>m_ram := (m_ram s)(ucast a := ucast (w AND 0xFF), ucast a + 1 := ucast (drop_bit 8 w AND 0xFF))\<rparr>) r"
    using x(2) assms(1) by (simp_all add: mk90_read_word_def mk90_write_word_def plain_ram_def mk90_ok_def Let_def)
qed

lemma no_mmu [simp]: "mmu_on (mk90_bus now) r = False"
  by (simp add: mmu_on_def)

lemmas bus_path = core_load_byte_def core_load_byte_ex_def fast_load_byte_def core_load_byte_slow_def va_reg_load_byte_def
  core_load_word_def core_load_word_ifetch_def core_load_word_ex_def fast_load_word_def core_load_word_slow_def va_reg_load_word_def
  core_store_byte_def core_store_byte_ex_def fast_store_byte_def core_store_byte_slow_def va_reg_store_byte_def
  core_store_word_def core_store_word_ex_def fast_store_word_def core_store_word_slow_def va_reg_store_word_def

lemma raw_paths:
  assumes "model r \<noteq> DCJ11"
  shows "raw_load_byte_phys (mk90_bus now) t (ucast a) r = (let (v, s) = mk90_read_byte (mach r) a in Some (v, r\<lparr>mach := s\<rparr>))"
    "raw_load_word_phys (mk90_bus now) t (ucast a) r = (let (v, s) = mk90_read_word (mach r) a in Some (v, r\<lparr>mach := s\<rparr>))"
    "raw_store_byte_phys (mk90_bus now) t (ucast a) v r = Some (mk90_write_byte r a v)"
    "raw_store_word_phys (mk90_bus now) t (ucast a) w r = Some (mk90_write_word r a w)"
  using assms by (simp_all add: raw_load_byte_phys_def raw_load_word_phys_def raw_store_byte_phys_def raw_store_word_phys_def
      dcj11_io_alias_offset_def wide16)

lemma translate_off [simp]: "translate_va_ex (mk90_bus now) a w i k r = (XOk (ucast a), r)"
  by (simp add: translate_va_ex_def)

text \<open>C28: The fast path of the processor cannot be told from the bus of the MK-90: while the cached RAM window is the plain RAM of the map, which every reset, every write of the system controller and every instruction keeps, each load, instruction fetch and store of the processor, inside the window or not, is the access of the bus routines at the same address.\<close>
theorem mk90_memory_is_the_bus:
  assumes "mk90_ok r" "model r = K1801VM2"
  shows "core_load_byte (mk90_bus now) t a r = (let (v, s) = mk90_read_byte (mach r) a in Some (v, r\<lparr>mach := s\<rparr>)) \<and>
    core_load_word (mk90_bus now) t a r = (let (v, s) = mk90_read_word (mach r) a in Some (v, r\<lparr>mach := s\<rparr>)) \<and>
    core_load_word_ifetch (mk90_bus now) t a r = (let (v, s) = mk90_read_word (mach r) a in Some (v, r\<lparr>mach := s\<rparr>)) \<and>
    core_store_byte (mk90_bus now) t a b r = Some (mk90_write_byte r a b) \<and>
    core_store_word (mk90_bus now) t a w r = Some (mk90_write_word r a w)"
proof (cases "ram_fast r")
  case None
  then show ?thesis using assms(2) by (simp add: bus_path raw_paths)
next
  case (Some x)
  have x: "x = 0" using assms(1) Some by (simp add: mk90_ok_def)
  note path = bus_path raw_paths Some x assms(2)
  have bytes: "core_load_byte (mk90_bus now) t a r = (let (v, s) = mk90_read_byte (mach r) a in Some (v, r\<lparr>mach := s\<rparr>)) \<and>
    core_store_byte (mk90_bus now) t a b r = Some (mk90_write_byte r a b)"
    using window_ram(1)[OF assms(1), of a] window_ram(2)[OF assms(1), of a b] by (cases "ucast a < ram_fast_size r") (simp_all add: path)
  moreover have "core_load_word (mk90_bus now) t a r = (let (v, s) = mk90_read_word (mach r) a in Some (v, r\<lparr>mach := s\<rparr>)) \<and>
    core_load_word_ifetch (mk90_bus now) t a r = (let (v, s) = mk90_read_word (mach r) a in Some (v, r\<lparr>mach := s\<rparr>)) \<and>
    core_store_word (mk90_bus now) t a w r = Some (mk90_write_word r a w)"
    using window_words(1)[OF assms(1), of a] window_words(2)[OF assms(1), of a w]
    by (cases "ucast a + 1 < ram_fast_size r") (simp_all add: path host_read_word_def word_at_def host_write_word_def on_mach_def)
  ultimately show ?thesis by simp
qed

section \<open>The host's loop\<close>

text \<open>The main program (mk90/main.c), without options, traces, window and picture: power on, then
  frames, each with the host's key events, a number of instructions whose times drive the serial
  port, the segments of sound taken for the audio thread, and the real time that drives the clock.\<close>

definition mk90_power_on :: "tm \<Rightarrow> nat \<Rightarrow> string \<times> string \<times> string \<times> string \<Rightarrow> mk90_state_t regs \<Rightarrow> mk90_state_t regs option" where
  "mk90_power_on now n paths r =
     (case paths of (rom, romt, smp0, smp1) \<Rightarrow>
        let r = mk90_machine_connect (r\<lparr>model := K1806VM2\<rparr>);
            (rc, s) = mk90_machine_load_images rom romt smp0 smp1 (mach r)
        in if rc \<noteq> 0 then None
           else let (rc, r) = core_init (mk90_bus now) (r\<lparr>mach := s\<rparr>)
                in if rc \<noteq> 0 then None else core_reset (mk90_bus now) (core_trap (mk90_bus now) n) r)"

datatype key_event = Key_press u16 | Key_release

fun key_events :: "key_event list \<Rightarrow> mk90_state_t \<Rightarrow> mk90_state_t" where
  "key_events [] s = s"
| "key_events (Key_press code # es) s = key_events es (mk90_machine_key_press code s)"
| "key_events (Key_release # es) s = key_events es (mk90_keyboard_release s)"

definition mk90_instruction :: "tm \<Rightarrow> nat \<Rightarrow> nat \<Rightarrow> mk90_state_t regs \<Rightarrow> mk90_state_t regs option" where
  "mk90_instruction now n m r =
     do { r \<leftarrow> core_step (mk90_bus now) n m r;
          let cycles = bk_timing_cycles (ir r);
          Some (on_mach (mk90_io_step (if cycles = 0 then 1 else cycles)) r) }"

fun mk90_instructions :: "tm \<Rightarrow> nat \<Rightarrow> nat \<Rightarrow> nat \<Rightarrow> mk90_state_t regs \<Rightarrow> mk90_state_t regs option" where
  "mk90_instructions now n m 0 r = Some r"
| "mk90_instructions now n m (Suc k) r = do { r \<leftarrow> mk90_instruction now n m r; mk90_instructions now n m k r }"

function mk90_take_audio :: "mk90_io_state_t \<Rightarrow> (u16 \<times> u32) list \<times> mk90_io_state_t" where
  "mk90_take_audio s =
     (case mk90_machine_pop_audio_segment s of
        (None, s) \<Rightarrow> ([], s)
      | (Some segment, s) \<Rightarrow> let (segments, s) = mk90_take_audio s in (segment # segments, s))"
  by auto

termination mk90_take_audio
  by (relation "measure (\<lambda>s. unat (beeper_count s))")
    (auto simp: mk90_machine_pop_audio_segment_def Let_def unat_minus_one unat_gt_0 intro!: diff_Suc_less split: if_splits)

declare mk90_take_audio.simps [simp del]

text \<open>A frame gives the sound it made.\<close>

type_synonym mk90_frame_input = "key_event list \<times> nat \<times> u32"

definition mk90_frame ::
  "tm \<Rightarrow> nat \<Rightarrow> nat \<Rightarrow> mk90_frame_input \<Rightarrow> mk90_state_t regs \<Rightarrow> ((u16 \<times> u32) list \<times> mk90_state_t regs) option" where
  "mk90_frame now n m input r =
     (case input of (keys, steps, elapsed_ms) \<Rightarrow>
        do { r \<leftarrow> mk90_instructions now n m steps (on_mach (key_events keys) r);
             let (sound, i) = mk90_take_audio (io (mach r));
             Some (sound, on_mach (mk90_rtc_tick_ms elapsed_ms) (on_mach (\<lambda>s. s\<lparr>io := i\<rparr>) r)) })"

fun mk90_main_loop ::
  "tm \<Rightarrow> nat \<Rightarrow> nat \<Rightarrow> mk90_frame_input list \<Rightarrow> mk90_state_t regs \<Rightarrow> ((u16 \<times> u32) list \<times> mk90_state_t regs) option" where
  "mk90_main_loop now n m [] r = Some ([], r)"
| "mk90_main_loop now n m (i # is) r =
     do { (sound, r) \<leftarrow> mk90_frame now n m i r; (rest, r) \<leftarrow> mk90_main_loop now n m is r; Some (sound @ rest, r) }"

section \<open>Every program runs\<close>

lemma map_load [simp]: "mk90_map (snd (mk90_machine_load_images rom romt p0 p1 s)) = mk90_map s"
proof -
  have f: "mk90_map (snd (mk90_load_file_into at n p s)) = mk90_map s" for at n p s
    by (simp add: mk90_load_file_into_def Let_def mk90_map_def split: option.split)
  have l: "mk90_map (snd (mk90_smp_load i p s)) = mk90_map s" for i p s
    by (simp add: mk90_smp_load_def mk90_smp_release_slot_def mk90_map_def Let_def split: option.split prod.split)
  have c: "mk90_map (s\<lparr>m_rom := x\<rparr>) = mk90_map s" for s x by (simp add: mk90_map_def)
  show ?thesis
    by (simp add: mk90_machine_load_images_def Let_def f l c split_beta)
qed

lemma map_keys [simp]: "mk90_map (key_events es s) = mk90_map s"
  by (induction es s rule: key_events.induct) simp_all

lemma ok_mach [simp]:
  "mk90_ok (on_mach (key_events es) r) = mk90_ok r" "mk90_ok (on_mach (mk90_io_step c) r) = mk90_ok r"
  "mk90_ok (on_mach (mk90_rtc_tick_ms ms) r) = mk90_ok r" "mk90_ok (on_mach (\<lambda>s. s\<lparr>io := x\<rparr>) r) = mk90_ok r"
  "mk90_ok (on_mach (\<lambda>s. s\<lparr>irq := q\<rparr>) r) = mk90_ok r" "mk90_ok (on_mach (\<lambda>s. s\<lparr>m_ram := f s\<rparr>) r) = mk90_ok r"
  by (simp_all add: mk90_ok_on_mach)

lemma on_mach_fields [simp]: "model (on_mach f r) = model r" "dcj11_vector_push_active (on_mach f r) = dcj11_vector_push_active r"
  "ir (on_mach f r) = ir r" "mach (on_mach f r) = f (mach r)"
  by (simp_all add: on_mach_def)

abbreviation same_cpu :: "mk90_state_t regs \<Rightarrow> mk90_state_t regs \<Rightarrow> bool" where
  "same_cpu r' r \<equiv> model r' = model r \<and> dcj11_vector_push_active r' = dcj11_vector_push_active r"

lemma write_fields [simp]: "same_cpu (mk90_write_byte r a b) r" "same_cpu (mk90_write_word r a w) r"
proof -
  have c: "same_cpu (mk90_syscon_write_word a w r) r" "same_cpu (mk90_syscon_write_byte a b r) r" for a b w r
    by (simp_all add: mk90_syscon_write_word_def mk90_syscon_write_byte_def mk90_machine_sync_fast_ram_def Let_def)
  show b: "same_cpu (mk90_write_byte r a b) r" for r a b
    by (simp add: mk90_write_byte_def c)
  show "same_cpu (mk90_write_word r a w) r"
    by (simp add: mk90_write_word_def c b Let_def)
qed

lemma sync_fields [simp]: "mach (mk90_machine_sync_fast_ram r) = mach r" "model (mk90_machine_sync_fast_ram r) = model r"
  "SEL0 (mk90_machine_sync_fast_ram r) = SEL0 r"
  by (simp_all add: mk90_machine_sync_fast_ram_def Let_def)

lemma ok_SEL0 [simp]: "mk90_ok (r\<lparr>SEL0 := x\<rparr>) = mk90_ok r"
  by (simp add: mk90_ok_def)

lemma ok_reset: "mk90_ok r \<Longrightarrow> mk90_ok (mk90_reset now r) \<and> model (mk90_reset now r) = model r"
proof -
  assume "mk90_ok r"
  then have ends: "ram_size (mach r) = 0x4000" "ram_end (mach r) = 0x3FFF" by (simp_all add: mk90_ok_def)
  have size: "ram_size (f s) = ram_size s \<and> ram_end (f s) = ram_end s" if "mk90_map (f s) = mk90_map s" for f s
    using map_fields[OF that] by simp
  note sizes = size[of "\<lambda>s. mk90_keyboard_reset (mk90_lcd_reset s)", simplified] size[of mk90_smp_reset, simplified]
    size[of mk90_io_reset, simplified] size[of "mk90_rtc_reset now", simplified]
  show ?thesis using ends
    by (simp add: mk90_reset_def mk90_syscon_reset_def mk90_ok_sync sizes Let_def)
qed

lemma ok_fields: "core_fields r' = core_fields r \<Longrightarrow> mk90_ok r' = mk90_ok r \<and> model r' = model r"
  by (simp add: mk90_ok_def core_fields_def)

definition mk90_inv :: "(cpu \<Rightarrow> bool) \<Rightarrow> mk90_state_t regs \<Rightarrow> bool" where
  "mk90_inv P r = (mk90_ok r \<and> P (model r))"

lemma inv_fields: "mk90_inv P r \<Longrightarrow> (mach r', ram_fast r', ram_fast_size r', model r') = (mach r, ram_fast r, ram_fast_size r, model r) \<Longrightarrow> mk90_inv P r'"
  by (simp add: mk90_inv_def mk90_ok_def)

lemma set_psw_mach [simp]: "mach (dcj11_set_psw w r) = mach r"
  using set_psw_fields[of w r] by (simp add: core_fields_def)

lemma reg_stores_window:
  "dcj11_reg_block_store_word a w r = Some r' \<Longrightarrow> (mach r', ram_fast r', ram_fast_size r', model r') = (mach r, ram_fast r, ram_fast_size r, model r)"
  "mmu_io_write_word (mk90_bus now) a w r = Some r' \<Longrightarrow> (mach r', ram_fast r', ram_fast_size r', model r') = (mach r, ram_fast r, ram_fast_size r, model r)"
  by (auto simp: dcj11_reg_block_store_word_def mmu_io_write_word_def mmu_write_ssr0_def mmu_write_parpdr_def
      mmu_tlb_flush_all_def core_fields_def Let_def split: if_splits option.splits prod.splits)

interpretation mk90: machine_inv "mk90_bus now" "mk90_inv P" True False for now P
proof
  fix r r' :: "mk90_state_t regs" assume "core_fields r' = core_fields r"
  then show "mk90_inv P r' = mk90_inv P r" using ok_fields[of r' r] by (simp add: mk90_inv_def)
next
  fix r r' :: "mk90_state_t regs" and a w assume r: "mk90_inv P r"
  show "dcj11_reg_block_store_word a w r = Some r' \<Longrightarrow> mk90_inv P r'"
    "mmu_io_write_word (mk90_bus now) a w r = Some r' \<Longrightarrow> mk90_inv P r'"
    using r reg_stores_window by (blast intro: inv_fields)+
next
  fix r :: "mk90_state_t regs" and bits mode space seg assume "mk90_inv P r"
  then show "mk90_inv P (pdr_or mode space seg bits r)" "mk90_inv P (dcj11_set_cpuerr bits r)"
    "mk90_inv P (dcj11_reset_instruction_state (mk90_bus now) r)"
    by (auto simp: mk90_inv_def mk90_ok_def pdr_or_def dcj11_set_cpuerr_def dcj11_reset_instruction_state_def)
next
  fix r :: "mk90_state_t regs" and be a x assume "mk90_inv P r"
  then show "runs True (cb_load_byte (mk90_bus now) be r a) (\<lambda>(v, r). mk90_inv P r)"
    "runs True (cb_store_byte (mk90_bus now) be r a x) (mk90_inv P)"
    by (auto simp: mk90_inv_def Let_def split_beta mk90_ok_map)
next
  fix r :: "mk90_state_t regs" and be a x assume "mk90_inv P r"
  then show "runs True (cb_load_word (mk90_bus now) be r a) (\<lambda>(v, r). mk90_inv P r)"
    "runs True (cb_store_word (mk90_bus now) be r a x) (mk90_inv P)"
    by (auto simp: mk90_inv_def Let_def split_beta mk90_ok_map)
next
  fix r :: "mk90_state_t regs" and f assume "mk90_inv P r" "cb_reset (mk90_bus now) = Some f"
  then show "mk90_inv P (f r)" using ok_reset[of r now] by (auto simp: mk90_inv_def)
next
  fix r :: "mk90_state_t regs" and g assume "mk90_inv P r" "cb_poll_irq (mk90_bus now) = Some g"
  then show "mk90_inv P (snd (g r))" by (auto simp: mk90_inv_def mk90_poll_irq_def Let_def)
qed (auto simp: mk90_inv_def)

interpretation mk90: machine_trap "mk90_bus now" "mk90_inv P" True False "core_trap (mk90_bus now) (n + 2)"
  for now P n
proof
  show "trap_ok (mk90_bus now) True (mk90_inv P) (core_trap (mk90_bus now) (n + 2))"
    by (rule mk90.core_trap_total) simp_all
  then show "push_ok (mk90_bus now) True False (mk90_inv P) (core_trap (mk90_bus now) (n + 2))"
    by (rule mk90.trap_ok_push) simp
qed

lemma mk90_step_ok:
  assumes "mk90_inv (\<lambda>c. c = K1801VM2) r" "2 \<le> n"
  shows "\<exists>r'. core_step (mk90_bus now) n m r = Some r' \<and> mk90_inv (\<lambda>c. c = K1801VM2) r'"
proof -
  obtain j where n: "n = j + 2" using assms(2) by (metis le_add_diff_inverse2)
  show ?thesis using mk90.step_wp[of "\<lambda>c. c = K1801VM2" r now j m] assms(1)
    by (auto simp: core_step_def runs_total n mk90_inv_def)
qed

lemma mk90_instructions_ok:
  "mk90_inv (\<lambda>c. c = K1801VM2) r \<Longrightarrow> 2 \<le> n \<Longrightarrow>
   \<exists>r'. mk90_instructions now n m k r = Some r' \<and> mk90_inv (\<lambda>c. c = K1801VM2) r'"
proof (induction k arbitrary: r)
  case (Suc k)
  obtain r1 where r1: "core_step (mk90_bus now) n m r = Some r1" "mk90_inv (\<lambda>c. c = K1801VM2) r1"
    using mk90_step_ok[OF Suc.prems] by blast
  show ?case using Suc.IH[OF _ Suc.prems(2), of "on_mach (mk90_io_step c) r1" for c] r1
    by (simp add: mk90_instruction_def mk90_inv_def Let_def)
qed simp

lemma mk90_main_loop_ok:
  "mk90_inv (\<lambda>c. c = K1801VM2) r \<Longrightarrow> 2 \<le> n \<Longrightarrow>
   \<exists>sound r'. mk90_main_loop now n m is r = Some (sound, r') \<and> mk90_inv (\<lambda>c. c = K1801VM2) r'"
proof (induction "is" arbitrary: r)
  case (Cons i "is")
  obtain keys steps ms where i: "i = (keys, steps, ms)" by (metis prod_cases3)
  have "mk90_inv (\<lambda>c. c = K1801VM2) (on_mach (key_events keys) r)" using Cons.prems(1) by (simp add: mk90_inv_def)
  from mk90_instructions_ok[OF this Cons.prems(2)] obtain r1
    where r1: "mk90_instructions now n m steps (on_mach (key_events keys) r) = Some r1" "mk90_inv (\<lambda>c. c = K1801VM2) r1" by blast
  obtain sound x where a: "mk90_take_audio (io (mach r1)) = (sound, x)" by force
  have "mk90_inv (\<lambda>c. c = K1801VM2) (on_mach (mk90_rtc_tick_ms ms) (on_mach (\<lambda>s. s\<lparr>io := x\<rparr>) r1))"
    using r1(2) by (simp add: mk90_inv_def)
  from Cons.IH[OF this Cons.prems(2)] show ?case using r1(1) by (auto simp: mk90_frame_def i a)
qed simp

lemma ok_unit [simp]: "mk90_ok (r\<lparr>R := x1\<rparr>) = mk90_ok r" "mk90_ok (r\<lparr>psw := x2\<rparr>) = mk90_ok r"
  by (simp_all add: mk90_ok_def)

lemma ok_cache: "mk90_ok r \<Longrightarrow> mk90_ok (cache_ram_pointer (mk90_bus now) r) \<and> model (cache_ram_pointer (mk90_bus now) r) = model r"
  by (simp add: cache_ram_pointer_def mk90_ramptr_def mk90_ok_def)

lemma ok_reset_fields: "mk90_ok (core_reset_fields (mk90_bus now) r) = mk90_ok r" "model (core_reset_fields (mk90_bus now) r) = model r"
  by (simp_all add: core_reset_fields_def mk90_ok_def Let_def)

lemma core_reset_ok:
  assumes "mk90_ok r" "model r = K1801VM2"
  obtains r' where "core_reset (mk90_bus now) t r = Some r'" "mk90_ok r'" "model r' = K1801VM2"
proof -
  define q where "q = mk90_reset now (core_reset_fields (mk90_bus now) r)"
  have q: "mk90_ok q" "model q = K1801VM2"
    using ok_reset[of "core_reset_fields (mk90_bus now) r" now] assms by (simp_all add: q_def ok_reset_fields)
  define q' where "q' = q\<lparr>R := (R q)(7 := SEL0 q AND 0xFF00), psw := 0xE0\<rparr>"
  have "core_reset (mk90_bus now) t r = Some (cache_ram_pointer (mk90_bus now) q')"
    using q(2) by (simp add: core_reset_def q_def[symmetric] is_vm2_def q'_def)
  moreover have "mk90_ok q'" "model q' = K1801VM2" using q by (simp_all add: q'_def)
  ultimately show ?thesis using that ok_cache[of q' now] by auto
qed

lemma core_init_ok:
  assumes "ram_size (mach r) = 0x4000" "ram_end (mach r) = 0x3FFF" "model r = K1806VM2"
  obtains r' where "core_init (mk90_bus now) r = (0, r')" "mk90_ok r'" "model r' = K1801VM2"
proof
  show "core_init (mk90_bus now) r = (0, snd (core_init (mk90_bus now) r))" "mk90_ok (snd (core_init (mk90_bus now) r))"
    "model (snd (core_init (mk90_bus now) r)) = K1801VM2"
    using assms by (simp_all add: core_init_def mk90_bus_def mk90_init_def Let_def mk90_ok_sync)
qed

text \<open>The machine starts when the images load.\<close>

lemma power_on_ok:
  assumes "fst (mk90_machine_load_images rom romt p0 p1 (mach (mk90_machine_connect r))) = 0"
  obtains r' where "mk90_power_on now n (rom, romt, p0, p1) r = Some r'" "mk90_inv (\<lambda>c. c = K1801VM2) r'"
proof -
  define r1 where "r1 = mk90_machine_connect (r\<lparr>model := K1806VM2\<rparr>)"
  have r1: "model r1 = K1806VM2" "mach r1 = mach (mk90_machine_connect r)"
    by (simp_all add: r1_def mk90_machine_connect_def)
  define s where "s = snd (mk90_machine_load_images rom romt p0 p1 (mach r1))"
  have load: "mk90_machine_load_images rom romt p0 p1 (mach r1) = (0, s)" using assms by (simp add: s_def r1 prod_eq_iff)
  have "mk90_map s = mk90_map (mach r1)" using map_load[of rom romt p0 p1 "mach r1"] by (simp add: load)
  from map_fields[OF this] have ends: "ram_size s = 0x4000" "ram_end s = 0x3FFF" by (simp_all add: r1_def mk90_machine_connect_def)
  obtain r2 where r2: "core_init (mk90_bus now) (r1\<lparr>mach := s\<rparr>) = (0, r2)" "mk90_ok r2" "model r2 = K1801VM2"
    using core_init_ok[of "r1\<lparr>mach := s\<rparr>" now] ends r1(1) by auto
  obtain r3 where r3: "core_reset (mk90_bus now) (core_trap (mk90_bus now) n) r2 = Some r3" "mk90_ok r3" "model r3 = K1801VM2"
    using core_reset_ok[OF r2(2,3)] by blast
  then have "mk90_power_on now n (rom, romt, p0, p1) r = Some r3"
    by (simp add: mk90_power_on_def r1_def[symmetric] load r2(1))
  then show ?thesis using that r3 by (simp add: mk90_inv_def)
qed

section \<open>Interrupts\<close>

definition pending_sources :: "mk90_irq_state_t \<Rightarrow> bool list" where
  "pending_sources q = [evnt q, inrt q, data_ready q, keyboard q]"

text \<open>The interrupts of the MK-90 are taken in the order of their vectors 0100, 0300, 0304, 0310: with the priority bit of the PSW clear the callback delivers the first one pending and clears that one only; with none pending it changes nothing.\<close>
theorem mk90_interrupt_order:
  assumes "psw r AND FLAG_P = 0"
  shows "case find (\<lambda>i. pending_sources (irq (mach r)) ! i) [0, 1, 2, 3] of
      None \<Rightarrow> mk90_poll_irq r = (None, r)
    | Some i \<Rightarrow> fst (mk90_poll_irq r) = Some ([0x40, 0xC0, 0xC4, 0xC8] ! i) \<and>
        pending_sources (irq (mach (snd (mk90_poll_irq r)))) = (pending_sources (irq (mach r)))[i := False] \<and>
        snd (mk90_poll_irq r) = r\<lparr>mach := (mach r)\<lparr>irq := irq (mach (snd (mk90_poll_irq r)))\<rparr>\<rparr>"
  using assms by (auto simp: mk90_poll_irq_def pending_sources_def on_mach_def Let_def)

section \<open>From power on\<close>

text \<open>C29: From power on, the MK-90 runs: when the images load, the machine starts, and whatever the images hold, whatever the key presses and releases of each frame, the number of its instructions and the time it took, the main loop comes to the end of every list of frames: every instruction of every program returns, and the cached RAM window is then still the part of the memory that is plain RAM under the map of the system controller.\<close>
theorem mk90_runs:
  assumes "fst (mk90_machine_load_images rom romt smp0 smp1 (mach (mk90_machine_connect r))) = 0" "2 \<le> n"
  shows "\<exists>r0 sound r'. mk90_power_on now n (rom, romt, smp0, smp1) r = Some r0 \<and>
     mk90_main_loop now n m frames r0 = Some (sound, r') \<and> model r' = K1801VM2 \<and>
     ram_fast_size r' = fast_size_loop (mach r') 0"
proof -
  obtain r0 where r0: "mk90_power_on now n (rom, romt, smp0, smp1) r = Some r0" "mk90_inv (\<lambda>c. c = K1801VM2) r0"
    using power_on_ok[OF assms(1)] by blast
  from mk90_main_loop_ok[OF r0(2) assms(2)] show ?thesis using r0(1) by (fastforce simp: mk90_inv_def mk90_ok_def)
qed

definition one_image :: host_files where
  "one_image = \<lparr>file_data = (\<lambda>p. if p = ''rom'' then Some [0] else None), file_writable = (\<lambda>_. False)\<rparr>"

definition mk90_off :: "mk90_state_t regs" where
  "mk90_off = mk90_machine_connect (zero_regs K1806VM2
     \<lparr>m_ram = (\<lambda>_. 0), m_rom = (\<lambda>_. 0), ram_size = 0, ram_end = 0, cold_reset_pending = False, lcd_base = 0, lcd_config = 0,
      rtc = \<lparr>rtc_data = (\<lambda>_. 0), second_accum_ms = 0, periodic_accum_ms = 0\<rparr>,
      io = \<lparr>io_regs = (\<lambda>_. 0), shiftreg = 0, rgrq = 0, select_active = False, beeper_divider = (\<lambda>_. 0),
            beeper_cycles = (\<lambda>_. 0), beeper_head = 0, beeper_count = 0, transfer_busy_cycles = 0\<rparr>,
      rg1 = 0, rg2 = 0, scan_code = 0, irq = \<lparr>evnt = False, inrt = False, data_ready = False, keyboard = False\<rparr>,
      smp = (\<lambda>_. empty_slot), files = one_image\<rparr>)"

definition noon :: tm where
  "noon = \<lparr>tm_sec = 0, tm_min = 0, tm_hour = 12, tm_mday = 1, tm_mon = 0, tm_year = 99, tm_wday = 5\<rparr>"

theorem mk90_runs_witness:
  "\<exists>r0 sound r'. mk90_power_on noon 2 (''rom'', [], [], []) mk90_off = Some r0 \<and>
     mk90_main_loop noon 2 1 [([Key_press 0x21], 100, 16), ([Key_release], 50, 17)] r0 = Some (sound, r') \<and> model r' = K1801VM2 \<and>
     ram_fast_size r' = fast_size_loop (mach r') 0"
  by (rule mk90_runs) (simp_all add: mk90_off_def mk90_machine_connect_def one_image_def mk90_machine_load_images_def
      mk90_load_file_into_def mk90_smp_load_def mk90_smp_release_slot_def Let_def zero_regs_def empty_slot_def split_beta)

theorem mk90_interrupt_order_witness:
  "fst (mk90_poll_irq (mk90_off\<lparr>mach := (mach mk90_off)\<lparr>irq := \<lparr>evnt = False, inrt = True, data_ready = False, keyboard = True\<rparr>\<rparr>\<rparr>)) = Some 0xC0"
  using mk90_interrupt_order[of "mk90_off\<lparr>mach := (mach mk90_off)\<lparr>irq := \<lparr>evnt = False, inrt = True, data_ready = False, keyboard = True\<rparr>\<rparr>\<rparr>"]
  by (simp add: mk90_off_def mk90_machine_connect_def zero_regs_def pending_sources_def)

theorem mk90_memory_is_the_bus_witness:
  "core_store_word (mk90_bus noon) (\<lambda>_ r. None) 0x3FFE 0x1234 (mk90_machine_sync_fast_ram (mk90_off\<lparr>model := K1801VM2\<rparr>)) =
     Some (mk90_write_word (mk90_machine_sync_fast_ram (mk90_off\<lparr>model := K1801VM2\<rparr>)) 0x3FFE 0x1234)"
  using mk90_memory_is_the_bus[of "mk90_machine_sync_fast_ram (mk90_off\<lparr>model := K1801VM2\<rparr>)" noon "\<lambda>_ r. None" "0x3FFE" _ "0x1234"]
  by (simp add: mk90_ok_sync mk90_off_def mk90_machine_connect_def)

end
