(* ===== verification/Mk90Picture.thy ===== *)
theory Mk90Picture
  imports Mk90Machine
begin

text \<open>The picture of the MK-90 as a function of its memory: which bit each pixel shows.\<close>

definition pixel :: "u8 \<Rightarrow> nat \<Rightarrow> u32" where
  "pixel value x = (if bit value (7 - x) then 0xFF000000 else 0xFFFFFFFF)"

lemma lcd_cols_closed:
  "lcd_cols s at n (index, px) =
     (index + of_nat (2 * n),
      \<lambda>i. if at \<le> i \<and> i < at + 8 * n then pixel (lcd_byte s (index + of_nat (2 * ((i - at) div 8)))) ((i - at) mod 8) else px i)"
proof (induction n arbitrary: at index px)
  case (Suc n)
  have "pixel (lcd_byte s (index + 2 + of_nat (2 * ((i - (at + 8)) div 8)))) ((i - (at + 8)) mod 8) =
      pixel (lcd_byte s (index + of_nat (2 * ((i - at) div 8)))) ((i - at) mod 8)" if "at + 8 \<le> i" for i
  proof -
    define j where "j = i - (at + 8)"
    then have "i - at = j + 8" using that by simp
    moreover have "(j + 8) div 8 = Suc (j div 8)" by simp
    ultimately show ?thesis by (simp add: j_def[symmetric] algebra_simps)
  qed
  moreover have "pixel (lcd_byte s (index + of_nat (2 * ((i - at) div 8)))) ((i - at) mod 8) =
      lcd_bits (lcd_byte s index) at px i" if "at \<le> i" "i < at + 8" for i
    using that by (simp add: pixel_def lcd_bits_def)
  moreover have "lcd_bits (lcd_byte s index) at px i = px i" if "\<not> (at \<le> i \<and> i < at + 8)" for i
    using that by (auto simp: lcd_bits_def)
  ultimately show ?case unfolding lcd_cols.simps Suc.IH
    by (auto simp: fun_eq_iff algebra_simps not_less not_le)
qed (auto simp: fun_eq_iff)

text \<open>A pass writes \<open>n\<close> rows of 120 pixels.\<close>

lemma lcd_rows_closed:
  assumes "120 \<le> pitch"
  shows "fst (lcd_rows s pitch y n (index, px)) = index + of_nat (30 * n) \<and>
    (\<forall>i. snd (lcd_rows s pitch y n (index, px)) i =
      (if y \<le> i div pitch \<and> i div pitch < y + n \<and> i mod pitch < 120
       then pixel (lcd_byte s (index + of_nat (30 * (i div pitch - y) + 2 * (i mod pitch div 8)))) (i mod pitch mod 8) else px i))"
proof (induction n arbitrary: y index px)
  case (Suc n)
  define st where "st = lcd_cols s (y * pitch) 15 (index, px)"
  have st: "st = (index + 30, \<lambda>i. if y * pitch \<le> i \<and> i < y * pitch + 120
      then pixel (lcd_byte s (index + of_nat (2 * ((i - y * pitch) div 8)))) ((i - y * pitch) mod 8) else px i)"
    by (simp add: st_def lcd_cols_closed)
  have row: "(y * pitch \<le> i \<and> i < y * pitch + 120) = (i div pitch = y \<and> i mod pitch < 120)" for i
  proof
    assume a: "y * pitch \<le> i \<and> i < y * pitch + 120"
    then have "i div pitch = y" using assms by (intro div_nat_eqI) (simp_all add: mult.commute)
    then show "i div pitch = y \<and> i mod pitch < 120" using a assms mult_div_mod_eq[of pitch i] by (simp add: mult.commute)
  next
    assume "i div pitch = y \<and> i mod pitch < 120"
    then show "y * pitch \<le> i \<and> i < y * pitch + 120" using mult_div_mod_eq[of pitch i] by (simp add: mult.commute)
  qed
  have off: "i div pitch = y \<Longrightarrow> i - y * pitch = i mod pitch" for i using mult_div_mod_eq[of pitch i] by (metis add_diff_cancel_left' mult.commute)
  have later: "index + 30 + of_nat (30 * (k - (y + 1)) + c) = (index + of_nat (30 * (k - y) + c) :: u16)" if "y < k" for k c
  proof -
    define j where "j = k - (y + 1)"
    have j: "k = y + 1 + j" using that by (simp add: j_def)
    show ?thesis by (simp add: j algebra_simps)
  qed
  show ?case unfolding lcd_rows.simps st_def[symmetric] unfolding st using Suc.IH[of "y + 1"] row off later
    by (auto simp: algebra_simps)
qed auto

text \<open>C30: The picture of the MK-90: pixel (x, y) is bit 7 - x mod 8 of the byte at 30 * (y mod 32) + 2 * (x div 8) + y div 32 from the base of the display memory, so the two halves of the screen are interleaved byte by byte; bytes outside the RAM show as 0xFF.\<close>
theorem lcd_picture:
  assumes "120 \<le> pitch" "y < 64" "x < 120"
  shows "mk90_lcd_render s px pitch (y * pitch + x) =
     pixel (lcd_byte s (of_nat (30 * (y mod 32) + 2 * (x div 8) + y div 32))) (x mod 8)"
proof -
  define st where "st = lcd_rows s pitch 0 32 (0, px)"
  obtain index p1 where p1: "st = (index, p1)" by force
  have index: "index = 960" using lcd_rows_closed[OF assms(1), of s 0 32 0 px] by (simp add: st_def[symmetric] p1)
  have d: "(y * pitch + x) div pitch = y" "x mod pitch = x" "x div pitch = 0" using assms by simp_all
  have first: "p1 (y * pitch + x) = (if y < 32 then pixel (lcd_byte s (of_nat (30 * y + 2 * (x div 8)))) (x mod 8) else px (y * pitch + x))"
    using lcd_rows_closed[OF assms(1), of s 0 32 0 px] assms(3) by (simp add: st_def[symmetric] p1 d)
  have "mk90_lcd_render s px pitch = snd (lcd_rows s pitch 32 32 (1, p1))"
    using assms(1) by (simp add: mk90_lcd_render_def st_def[symmetric] p1 index split_beta)
  then have "mk90_lcd_render s px pitch (y * pitch + x) =
     (if 32 \<le> y then pixel (lcd_byte s (1 + of_nat (30 * (y - 32) + 2 * (x div 8)))) (x mod 8) else p1 (y * pitch + x))"
    using lcd_rows_closed[OF assms(1), of s 32 32 1 p1] assms(2,3) by (simp add: d)
  then show ?thesis
  proof (cases "32 \<le> y")
    case True
    then have "y mod 32 = y - 32" "y div 32 = 1" using assms(2) by (simp_all add: mod_if div_if)
    then show ?thesis using \<open>mk90_lcd_render s px pitch (y * pitch + x) = _\<close> True by (simp add: algebra_simps)
  next
    case False
    then show ?thesis using \<open>mk90_lcd_render s px pitch (y * pitch + x) = _\<close> first by simp
  qed
qed

definition striped :: mk90_state_t where
  "striped = \<lparr>m_ram = (\<lambda>i. ucast i), m_rom = (\<lambda>_. 0), ram_size = 0x4000, ram_end = 0x3FFF, cold_reset_pending = False,
     lcd_base = 0x100, lcd_config = 0, rtc = \<lparr>rtc_data = (\<lambda>_. 0), second_accum_ms = 0, periodic_accum_ms = 0\<rparr>,
     io = \<lparr>io_regs = (\<lambda>_. 0), shiftreg = 0, rgrq = 0, select_active = False, beeper_divider = (\<lambda>_. 0),
           beeper_cycles = (\<lambda>_. 0), beeper_head = 0, beeper_count = 0, transfer_busy_cycles = 0\<rparr>,
     rg1 = 0, rg2 = 0, scan_code = 0, irq = \<lparr>evnt = False, inrt = False, data_ready = False, keyboard = False\<rparr>,
     smp = (\<lambda>_. empty_slot), files = \<lparr>file_data = (\<lambda>_. None), file_writable = (\<lambda>_. False)\<rparr>\<rparr>"

theorem lcd_picture_witness:
  "mk90_lcd_render striped (\<lambda>_. 0) 120 (33 * 120 + 18) = 0xFF000000"
  using lcd_picture[of 120 33 18 striped "\<lambda>_. 0"] by (simp add: striped_def lcd_byte_def pixel_def)

end
