(* ===== verification/Mk90Sound.thy ===== *)
theory Mk90Sound
  imports Mk90Devices
begin

text \<open>
  The queue of sounds of the MK-90: the circular buffer of \<^verbatim>\<open>mk90_io_queue_buzzer\<close> and
  \<^verbatim>\<open>mk90_machine_pop_audio_segment\<close> is a list of segments in which a pulse of the same pitch
  lengthens the last segment, and no sound is lost.
\<close>

section \<open>The interface: a list of segments\<close>

text \<open>A pulse of the buzzer adds 8 cycles of sound. With a full list it is added to the last
  segment, whatever its pitch.\<close>

definition lengthen :: "(u16 \<times> u32) list \<Rightarrow> (u16 \<times> u32) list" where
  "lengthen q = butlast q @ [(fst (last q), snd (last q) + 8)]"

definition add_pulse :: "u16 \<Rightarrow> (u16 \<times> u32) list \<Rightarrow> (u16 \<times> u32) list" where
  "add_pulse d q =
     (if q \<noteq> [] \<and> (fst (last q) = d \<or> length q \<ge> 64) then lengthen q else q @ [(d, 8)])"

datatype sound_op = Pulse u16 u16 | Pop

text \<open>\<open>Pulse d c\<close> is a write to the data register with divider \<open>d\<close> and control register \<open>c\<close>.\<close>

definition audible :: "u16 \<Rightarrow> u16 \<Rightarrow> bool" where
  "audible d c = (d \<noteq> 0 \<and> c AND 0x80 \<noteq> 0)"

fun list_run :: "sound_op list \<Rightarrow> (u16 \<times> u32) list \<Rightarrow> (u16 \<times> u32) list \<times> (u16 \<times> u32) list" where
  "list_run [] q = ([], q)"
| "list_run (Pulse d c # ops) q = list_run ops (if audible d c then add_pulse d q else q)"
| "list_run (Pop # ops) q =
     (if q = [] then list_run ops q else let (out, q') = list_run ops (tl q) in (hd q # out, q'))"

locale sound_queue =
  fixes pulse :: "u16 \<Rightarrow> u16 \<Rightarrow> 'q \<Rightarrow> 'q" and pop :: "'q \<Rightarrow> (u16 \<times> u32) option \<times> 'q"
    and segs :: "'q \<Rightarrow> (u16 \<times> u32) list" and ok :: "'q \<Rightarrow> bool"
  assumes pulse_ok: "ok q \<Longrightarrow> ok (pulse d c q)"
    and pulse_segs: "ok q \<Longrightarrow> segs (pulse d c q) = (if audible d c then add_pulse d (segs q) else segs q)"
    and pop_empty: "ok q \<Longrightarrow> segs q = [] \<Longrightarrow> pop q = (None, q)"
    and pop_first: "ok q \<Longrightarrow> segs q \<noteq> [] \<Longrightarrow> \<exists>q'. pop q = (Some (hd (segs q)), q') \<and> segs q' = tl (segs q) \<and> ok q'"
begin

fun run :: "sound_op list \<Rightarrow> 'q \<Rightarrow> (u16 \<times> u32) list \<times> 'q" where
  "run [] q = ([], q)"
| "run (Pulse d c # ops) q = run ops (pulse d c q)"
| "run (Pop # ops) q =
     (let (v, q) = pop q; (out, q) = run ops q in ((case v of None \<Rightarrow> out | Some x \<Rightarrow> x # out), q))"

lemma run_list:
  assumes "ok q" "run ops q = (out, q')"
  shows "ok q' \<and> list_run ops (segs q) = (out, segs q')"
  using assms
proof (induction ops arbitrary: q out q')
  case (Cons op ops)
  show ?case
  proof (cases op)
    case (Pulse d c)
    then show ?thesis using Cons.IH[OF pulse_ok[OF Cons.prems(1)]] Cons.prems by (simp add: pulse_segs)
  next
    case Pop
    show ?thesis
    proof (cases "segs q = []")
      case True
      then show ?thesis using Cons.IH[OF Cons.prems(1)] Cons.prems Pop by (auto simp: pop_empty split: prod.splits)
    next
      case False
      then obtain q1 where q1: "pop q = (Some (hd (segs q)), q1)" "segs q1 = tl (segs q)" "ok q1"
        using pop_first[OF Cons.prems(1)] by blast
      obtain out' where r: "run ops q1 = (out', q')" "out = hd (segs q) # out'"
        using Cons.prems(2) Pop q1(1) by (auto split: prod.splits)
      show ?thesis using Cons.IH[OF q1(3) r(1)] Pop False r(2) q1(2) by simp
    qed
  qed
qed simp

end

text \<open>No sound is lost: what is played and what is still queued adds up to eight cycles for each
  pulse (in 32 bits).\<close>

definition total :: "(u16 \<times> u32) list \<Rightarrow> u32" where
  "total q = sum_list (map snd q)"

lemma total_add: "total (add_pulse d q) = total q + 8"
proof (cases q rule: rev_cases)
  case (snoc q0 x)
  then show ?thesis by (simp add: add_pulse_def lengthen_def total_def)
qed (simp add: add_pulse_def total_def)

definition pulses :: "sound_op list \<Rightarrow> nat" where
  "pulses ops = length (filter (\<lambda>op. case op of Pulse d c \<Rightarrow> audible d c | Pop \<Rightarrow> False) ops)"

lemma list_run_total: "list_run ops q = (out, q') \<Longrightarrow> total out + total q' = total q + 8 * of_nat (pulses ops)"
proof (induction ops q arbitrary: out q' rule: list_run.induct)
  case (2 d c ops q)
  then show ?case by (cases "audible d c") (simp_all add: total_add pulses_def algebra_simps)
next
  case (3 ops q)
  show ?case
  proof (cases "q = []")
    case True
    then show ?thesis using 3 by (simp add: pulses_def)
  next
    case False
    obtain out1 where r: "list_run ops (tl q) = (out1, q')" "out = hd q # out1"
      using 3(3) False by (auto split: prod.splits)
    have "total q = snd (hd q) + total (tl q)" using False by (cases q) (simp_all add: total_def)
    then show ?thesis using 3(2)[OF False r(1)] r(2) by (simp add: total_def pulses_def algebra_simps)
  qed
qed (simp add: pulses_def total_def)

section \<open>The circular buffer\<close>

definition ring_ok :: "mk90_io_state_t \<Rightarrow> bool" where
  "ring_ok s = (beeper_head s < 64 \<and> beeper_count s \<le> 64)"

definition ring_slot :: "mk90_io_state_t \<Rightarrow> nat \<Rightarrow> nat" where
  "ring_slot s i = (unat (beeper_head s) + i) mod 64"

definition ring_segs :: "mk90_io_state_t \<Rightarrow> (u16 \<times> u32) list" where
  "ring_segs s = map (\<lambda>i. (beeper_divider s (ring_slot s i), beeper_cycles s (ring_slot s i))) [0..<unat (beeper_count s)]"

definition pulse :: "u16 \<Rightarrow> u16 \<Rightarrow> mk90_io_state_t \<Rightarrow> mk90_io_state_t" where
  "pulse d c s = mk90_io_queue_buzzer (s\<lparr>io_regs := (io_regs s)(1 := d, 2 := c)\<rparr>)"

lemma ring_slots:
  assumes "ring_ok s"
  shows "unat ((beeper_head s + beeper_count s) mod 64) = ring_slot s (unat (beeper_count s))"
    and "beeper_count s \<noteq> 0 \<Longrightarrow> unat ((beeper_head s + beeper_count s - 1) mod 64) = ring_slot s (unat (beeper_count s) - 1)"
proof -
  have b: "unat (beeper_head s) < 64" "unat (beeper_count s) \<le> 64"
    using assms by (simp_all add: ring_ok_def word_less_nat_alt word_le_nat_alt)
  have sum: "unat (beeper_head s + beeper_count s) = unat (beeper_head s) + unat (beeper_count s)"
    using b by (simp add: unat_word_ariths)
  then show "unat ((beeper_head s + beeper_count s) mod 64) = ring_slot s (unat (beeper_count s))"
    by (simp add: ring_slot_def unat_mod_distrib)
  assume c: "beeper_count s \<noteq> 0"
  then have c': "0 < unat (beeper_count s)" by (simp add: unat_gt_0)
  then have "1 \<le> beeper_head s + beeper_count s" using sum by (simp add: word_le_nat_alt)
  then have "unat (beeper_head s + beeper_count s - 1) = unat (beeper_head s) + unat (beeper_count s) - 1"
    using sum by (simp add: unat_sub)
  then show "unat ((beeper_head s + beeper_count s - 1) mod 64) = ring_slot s (unat (beeper_count s) - 1)"
    using c' by (simp add: ring_slot_def unat_mod_distrib)
qed

lemma ring_slot_cases:
  assumes "ring_ok s" "i < 64"
  shows "ring_slot s i = (if unat (beeper_head s) + i < 64 then unat (beeper_head s) + i else unat (beeper_head s) + i - 64)"
  using assms by (auto simp: ring_slot_def ring_ok_def word_less_nat_alt mod_if)

lemma ring_slot_inj:
  assumes "ring_ok s" "i < 64" "j < 64"
  shows "ring_slot s i = ring_slot s j \<longleftrightarrow> i = j"
  using assms by (auto simp: ring_slot_cases ring_ok_def word_less_nat_alt split: if_splits)

lemma last_map_upt: "0 < n \<Longrightarrow> last (map f [0..<n]) = f (n - 1)" "butlast (map f [0..<n]) = map f [0..<n - 1]"
  by (cases n; simp)+

lemma tl_map_upt: "tl (map f [0..<n]) = map (\<lambda>i. f (Suc i)) [0..<n - 1]"
  by (rule nth_equalityI) (auto simp: nth_tl)

lemma pulse_ring:
  assumes "ring_ok s"
  shows "ring_ok (pulse d c s)"
    and "ring_segs (pulse d c s) = (if audible d c then add_pulse d (ring_segs s) else ring_segs s)"
proof -
  define n where "n = unat (beeper_count s)"
  have n: "n \<le> 64" "beeper_count s = 0 \<longleftrightarrow> n = 0" "beeper_count s \<ge> 64 \<longleftrightarrow> n = 64"
    using assms by (auto simp: ring_ok_def n_def word_le_nat_alt unat_eq_zero)
  have next_count: "n < 64 \<Longrightarrow> unat (beeper_count s + 1) = n + 1" by (simp add: n_def unat_word_ariths)
  have grow: "n < 64 \<Longrightarrow> beeper_count s + 1 \<le> 64"
    using next_count by (simp add: word_le_nat_alt)
  note slots = ring_slots[OF assms, folded n_def]
  show "ring_ok (pulse d c s)"
    using assms grow n by (auto simp: pulse_def mk90_io_queue_buzzer_def ring_ok_def Let_def not_le word_less_nat_alt word_le_nat_alt n_def)
  show "ring_segs (pulse d c s) = (if audible d c then add_pulse d (ring_segs s) else ring_segs s)"
  proof (cases "audible d c")
    case False
    then show ?thesis by (auto simp: pulse_def mk90_io_queue_buzzer_def audible_def Let_def ring_segs_def ring_slot_def)
  next
    case True
    let ?last = "n \<noteq> 0 \<and> (fst (last (ring_segs s)) = d \<or> length (ring_segs s) \<ge> 64)"
    have empty: "ring_segs s = [] \<longleftrightarrow> n = 0" "length (ring_segs s) = n" by (simp_all add: ring_segs_def n_def)
    have last: "n \<noteq> 0 \<Longrightarrow> last (ring_segs s) = (beeper_divider s (ring_slot s (n - 1)), beeper_cycles s (ring_slot s (n - 1)))"
      by (simp add: ring_segs_def last_map_upt n_def)
    show ?thesis
    proof (cases ?last)
      case l: True
      have "pulse d c s = s\<lparr>io_regs := (io_regs s)(1 := d, 2 := c),
          beeper_cycles := (beeper_cycles s)(ring_slot s (n - 1) := beeper_cycles s (ring_slot s (n - 1)) + 8)\<rparr>"
        using True l last slots(2) n empty by (auto simp: pulse_def mk90_io_queue_buzzer_def audible_def Let_def)
      then have "ring_segs (pulse d c s) = map (\<lambda>i. (beeper_divider s (ring_slot s i),
          if ring_slot s i = ring_slot s (n - 1) then beeper_cycles s (ring_slot s (n - 1)) + 8 else beeper_cycles s (ring_slot s i))) [0..<n]"
        by (simp add: ring_segs_def ring_slot_def n_def)
      also have "\<dots> = map (\<lambda>i. (beeper_divider s (ring_slot s i),
          if i = n - 1 then beeper_cycles s (ring_slot s (n - 1)) + 8 else beeper_cycles s (ring_slot s i))) [0..<n]"
        using ring_slot_inj[OF assms, of _ "n - 1"] n by (intro map_cong) auto
      also have "\<dots> = lengthen (ring_segs s)"
      proof -
        have "[0..<n] = [0..<n - 1] @ [n - 1]" using l by (cases n) simp_all
        then show ?thesis using l last by (simp add: lengthen_def) (simp add: ring_segs_def last_map_upt n_def[symmetric])
      qed
      finally show ?thesis using True l empty by (simp add: add_pulse_def)
    next
      case l: False
      then have lt: "n < 64" using n empty by auto
      have "pulse d c s = s\<lparr>io_regs := (io_regs s)(1 := d, 2 := c), beeper_divider := (beeper_divider s)(ring_slot s n := d),
          beeper_cycles := (beeper_cycles s)(ring_slot s n := 8), beeper_count := beeper_count s + 1\<rparr>"
      proof -
        have a: "d \<noteq> 0" "c AND 0x80 \<noteq> 0" using True by (simp_all add: audible_def)
        have b: "\<not> 64 \<le> beeper_count s" using lt n(3) by simp
        have nl: "\<not> (beeper_count s \<noteq> 0 \<and> beeper_divider s (unat ((beeper_head s + beeper_count s - 1) mod 64)) = d)"
          using l slots(2) last n(2) empty(2) lt by auto
        show ?thesis unfolding pulse_def mk90_io_queue_buzzer_def Let_def using nl a b slots(1) by auto
      qed
      then have "ring_segs (pulse d c s) = map (\<lambda>i. (if ring_slot s i = ring_slot s n then d else beeper_divider s (ring_slot s i),
          if ring_slot s i = ring_slot s n then 8 else beeper_cycles s (ring_slot s i))) [0..<n + 1]"
        using next_count[OF lt] by (simp add: ring_segs_def ring_slot_def)
      also have "\<dots> = map (\<lambda>i. (beeper_divider s (ring_slot s i), beeper_cycles s (ring_slot s i))) [0..<n] @ [(d, 8)]"
        using ring_slot_inj[OF assms, of _ n] lt by (auto intro!: map_cong)
      finally show ?thesis using True l empty by (auto simp: add_pulse_def ring_segs_def n_def)
    qed
  qed
qed

lemma pop_ring:
  assumes "ring_ok s"
  shows "ring_segs s = [] \<Longrightarrow> mk90_machine_pop_audio_segment s = (None, s)"
    and "ring_segs s \<noteq> [] \<Longrightarrow>
      \<exists>s'. mk90_machine_pop_audio_segment s = (Some (hd (ring_segs s)), s') \<and> ring_segs s' = tl (ring_segs s) \<and> ring_ok s'"
proof -
  show "ring_segs s = [] \<Longrightarrow> mk90_machine_pop_audio_segment s = (None, s)"
    by (simp add: ring_segs_def mk90_machine_pop_audio_segment_def unat_eq_zero)
  assume "ring_segs s \<noteq> []"
  then have c: "0 < unat (beeper_count s)" "beeper_count s \<noteq> 0" by (auto simp: ring_segs_def)
  have h: "unat (beeper_head s) < 64" using assms by (simp add: ring_ok_def word_less_nat_alt)
  have head: "unat ((beeper_head s + 1) mod 64) = (unat (beeper_head s) + 1) mod 64"
    using h by (simp add: unat_mod_distrib unat_word_ariths)
  have count: "unat (beeper_count s - 1) = unat (beeper_count s) - 1"
    using c by (simp add: unat_minus_one)
  define s' where "s' = s\<lparr>beeper_head := (beeper_head s + 1) mod 64, beeper_count := beeper_count s - 1\<rparr>"
  have slot: "ring_slot s' i = ring_slot s (Suc i)" for i
    by (simp add: s'_def ring_slot_def head mod_add_left_eq)
  have "ring_segs s' = tl (ring_segs s)"
    using c by (simp add: ring_segs_def slot count tl_map_upt) (simp add: s'_def count)
  moreover have "ring_ok s'"
    using assms head count c by (simp add: s'_def ring_ok_def word_less_nat_alt word_le_nat_alt) linarith
  moreover have "mk90_machine_pop_audio_segment s = (Some (hd (ring_segs s)), s')"
    using c h by (simp add: mk90_machine_pop_audio_segment_def s'_def ring_segs_def upt_conv_Cons ring_slot_def Let_def)
  ultimately show "\<exists>s'. mk90_machine_pop_audio_segment s = (Some (hd (ring_segs s)), s') \<and> ring_segs s' = tl (ring_segs s) \<and> ring_ok s'"
    by blast
qed

interpretation ring: sound_queue pulse mk90_machine_pop_audio_segment ring_segs ring_ok
  by unfold_locales (simp_all add: pulse_ring pop_ring)

text \<open>C33: The ring buffer of sound segments is a queue of at most 64: over any sequence of pulses and pops, what the audio thread takes is what the list specification gives (equal tones in a row merge, a full ring lengthens its last segment), and no cycle of sound is lost: those taken and those left are those there at the start plus 8 per audible pulse.\<close>
theorem sound_queue_refines:
  assumes "ring_ok s" "ring.run ops s = (out, s')"
  shows "list_run ops (ring_segs s) = (out, ring_segs s') \<and> length (ring_segs s') \<le> 64 \<and>
    total out + total (ring_segs s') = total (ring_segs s) + 8 * of_nat (pulses ops)"
proof -
  note r = ring.run_list[OF assms]
  then have "unat (beeper_count s') \<le> 64" by (simp add: ring_ok_def word_le_nat_alt)
  then show ?thesis using r list_run_total by (auto simp: ring_segs_def)
qed

text \<open>The controller after power-on.\<close>

definition io0 :: mk90_io_state_t where
  "io0 = \<lparr>io_regs = (\<lambda>_. 0), shiftreg = 0xFFFF, rgrq = 0xFFFF, select_active = False, beeper_divider = (\<lambda>_. 0),
     beeper_cycles = (\<lambda>_. 0), beeper_head = 0, beeper_count = 0, transfer_busy_cycles = 0\<rparr>"

theorem sound_queue_refines_witness:
  "\<exists>s'. ring.run [Pulse 100 0x80, Pulse 100 0x80, Pulse 50 0x80, Pop] (io0\<lparr>beeper_head := 63\<rparr>) = ([(100, 16)], s') \<and>
     ring_segs s' = [(50, 8)]"
proof -
  have "ring_ok (io0\<lparr>beeper_head := 63\<rparr>)" by (simp add: ring_ok_def io0_def)
  moreover have "list_run [Pulse 100 0x80, Pulse 100 0x80, Pulse 50 0x80, Pop] (ring_segs (io0\<lparr>beeper_head := 63\<rparr>)) = ([(100, 16)], [(50, 8)])"
    by (simp add: ring_segs_def io0_def audible_def add_pulse_def lengthen_def)
  ultimately show ?thesis
    using sound_queue_refines[of "io0\<lparr>beeper_head := 63\<rparr>" "[Pulse 100 0x80, Pulse 100 0x80, Pulse 50 0x80, Pop]"]
    by (metis prod.inject surj_pair)
qed

end
