(* ===== verification/Mk90Module.thy ===== *)
theory Mk90Module
  imports Mk90Devices
begin

text \<open>
  The removable memory modules of the MK-90 as storage: what is written through the command and
  data registers is read back, now and after the module has been closed and loaded again.
\<close>

section \<open>Transfers\<close>

text \<open>The protocol of the modules: an address command and two bytes, then a command to read or
  write upwards and one transfer for each byte.\<close>

fun smp_send :: "nat \<Rightarrow> u8 list \<Rightarrow> mk90_state_t \<Rightarrow> u8 list \<times> mk90_state_t" where
  "smp_send i [] s = ([], s)"
| "smp_send i (b # bs) s = (let (v, s) = mk90_smp_data i b s; (vs, s) = smp_send i bs s in (v # vs, s))"

definition smp_seek :: "nat \<Rightarrow> u16 \<Rightarrow> mk90_state_t \<Rightarrow> mk90_state_t" where
  "smp_seek i a s = snd (smp_send i [ucast (drop_bit 8 a), ucast a] (snd (mk90_smp_cmd i 0xA0 s)))"

definition smp_write :: "nat \<Rightarrow> u16 \<Rightarrow> u8 list \<Rightarrow> mk90_state_t \<Rightarrow> mk90_state_t" where
  "smp_write i a bs s = snd (smp_send i bs (snd (mk90_smp_cmd i 0xC0 (smp_seek i a s))))"

definition smp_read :: "nat \<Rightarrow> u16 \<Rightarrow> nat \<Rightarrow> mk90_state_t \<Rightarrow> u8 list" where
  "smp_read i a n s = fst (smp_send i (replicate n 0) (snd (mk90_smp_cmd i 0xD0 (smp_seek i a s))))"

text \<open>A module that can be written.\<close>

definition module_ok :: "mk90_smp_slot_t \<Rightarrow> bool" where
  "module_ok m = (sl_present m \<and> sl_data m \<noteq> None \<and> sl_size m < 0x8000 \<and> sl_mask m = 0xFFFF)"

text \<open>The same transfers on the slot alone.\<close>

fun slot_send :: "u8 list \<Rightarrow> mk90_smp_slot_t \<Rightarrow> u8 list \<times> mk90_smp_slot_t" where
  "slot_send [] m = ([], m)"
| "slot_send (b # bs) m = (let (v, m) = slot_data b m; (vs, m) = slot_send bs m in (v # vs, m))"

lemma smp_send_slot:
  "i < 2 \<Longrightarrow> smp_send i bs s = (fst (slot_send bs (smp s i)), s\<lparr>smp := (smp s)(i := snd (slot_send bs (smp s i)))\<rparr>)"
proof (induction bs arbitrary: s)
  case (Cons b bs)
  obtain v m where d: "slot_data b (smp s i) = (v, m)" by fastforce
  have "smp_send i bs (s\<lparr>smp := (smp s)(i := m)\<rparr>) = (fst (slot_send bs m), s\<lparr>smp := (smp s)(i := snd (slot_send bs m))\<rparr>)"
    by (subst Cons.IH[OF Cons.prems]) (auto intro!: mk90_state_t.equality)
  then show ?case using Cons.prems by (simp add: mk90_smp_data_def d split_beta) (auto intro!: mk90_state_t.equality)
qed simp

section \<open>One slot\<close>

lemma seek_position:
  "((push_bit 8 ((push_bit 8 p OR ucast (ucast (drop_bit 8 (a :: u16)) :: u8)) AND 0xFFFF) OR ucast (ucast a :: u8)) AND 0xFFFF) = (ucast a :: u32)"
  by (simp only: u32_eq_bits) (auto simp: bit_simps dest: bit_imp_le_length)

lemma slot_seek:
  fixes a :: u16
  assumes "module_ok m"
  shows "slot_send [ucast (drop_bit 8 a), ucast a] (m\<lparr>sl_cmd := 0xA0\<rparr>) = ([0xFF, 0xFF], m\<lparr>sl_cmd := 0xA0, sl_position := ucast a\<rparr>)"
  using assms seek_position[of "sl_position m" a] by (auto simp: module_ok_def slot_data_def Let_def)

lemma next_position:
  assumes "unat (p :: u32) < 0x8000"
  shows "(p + 1) AND 0xFFFF = p + 1" "unat (p + 1) = unat p + 1"
proof -
  show u: "unat (p + 1) = unat p + 1" using assms by (simp add: unat_word_ariths)
  have "int (unat (p + 1)) < int 65536" using assms u by (simp only: of_nat_less_iff)
  then have "uint (p + 1) < 2 ^ 16" by simp
  then have "(p + 1) AND mask 16 = p + 1" by (simp add: mask_eq_iff)
  then show "(p + 1) AND 0xFFFF = p + 1" by (simp add: mask_eq_exp_minus_1)
qed

lemma slot_write:
  assumes "module_ok m" "sl_cmd m = 0xC0" "sl_data m = Some d" "unat (sl_position m) + length bs \<le> unat (sl_size m)"
  shows "snd (slot_send bs m) = m\<lparr>sl_data := Some (\<lambda>j. if unat (sl_position m) \<le> unat j \<and> unat j < unat (sl_position m) + length bs
       then bs ! (unat j - unat (sl_position m)) else d j),
     sl_position := sl_position m + of_nat (length bs), sl_dirty := sl_dirty m \<or> bs \<noteq> []\<rparr>"
  using assms
proof (induction bs arbitrary: m d)
  case Nil
  have "(\<lambda>j. if unat (sl_position m) \<le> unat j \<and> unat j < unat (sl_position m) + length ([] :: u8 list)
       then [] ! (unat j - unat (sl_position m)) else d j) = d" by (rule ext) auto
  then show ?case using Nil(3) by (cases m) simp
next
  case (Cons b bs)
  let ?p = "sl_position m"
  have sz: "unat (sl_size m) < 0x8000" using Cons.prems(1) by (simp add: module_ok_def word_less_nat_alt)
  then have p: "unat ?p < 0x8000" "unat ?p < unat (sl_size m)" using Cons.prems(4) by simp_all
  have lt: "ucast ?p < sl_size m" using p by (simp add: word_less_nat_alt unat_ucast_up)
  define m' where "m' = m\<lparr>sl_data := Some (d(?p := b)), sl_dirty := True, sl_position := ?p + 1\<rparr>"
  have step: "slot_data b m = (0xFF, m')"
    using Cons.prems(1-3) lt next_position[OF p(1)] by (simp add: slot_data_def module_ok_def m'_def Let_def)
  have ih: "snd (slot_send bs m') = m'\<lparr>sl_data := Some (\<lambda>j. if unat (sl_position m') \<le> unat j \<and> unat j < unat (sl_position m') + length bs
       then bs ! (unat j - unat (sl_position m')) else (d(?p := b)) j),
     sl_position := sl_position m' + of_nat (length bs), sl_dirty := sl_dirty m' \<or> bs \<noteq> []\<rparr>"
    by (rule Cons.IH) (use Cons.prems next_position[OF p(1)] in \<open>auto simp: m'_def module_ok_def\<close>)
  have f: "(\<lambda>j. if unat (?p + 1) \<le> unat j \<and> unat j < unat (?p + 1) + length bs then bs ! (unat j - unat (?p + 1)) else (d(?p := b)) j) =
      (\<lambda>j. if unat ?p \<le> unat j \<and> unat j < unat ?p + length (b # bs) then (b # bs) ! (unat j - unat ?p) else d j)"
    by (rule ext) (auto simp: next_position[OF p(1)] nth_Cons' word_unat_eq_iff)
  show ?case using ih f by (simp add: step split_beta) (simp add: m'_def cong: if_cong)
qed

lemma slot_read:
  assumes "module_ok m" "sl_cmd m = 0xD0" "sl_data m = Some d" "unat (sl_position m) + n \<le> unat (sl_size m)"
  shows "fst (slot_send (replicate n 0) m) = map (\<lambda>k. d (sl_position m + of_nat k)) [0..<n]"
  using assms
proof (induction n arbitrary: m)
  case (Suc n)
  let ?p = "sl_position m"
  have sz: "unat (sl_size m) < 0x8000" using Suc.prems(1) by (simp add: module_ok_def word_less_nat_alt)
  then have p: "unat ?p < 0x8000" "unat ?p < unat (sl_size m)" using Suc.prems(4) by simp_all
  have lt: "ucast ?p < sl_size m" using p by (simp add: word_less_nat_alt unat_ucast_up)
  define m' where "m' = m\<lparr>sl_position := ?p + 1\<rparr>"
  have step: "slot_data 0 m = (d ?p, m')"
    using Suc.prems(1-3) lt next_position[OF p(1)] by (simp add: slot_data_def module_ok_def m'_def Let_def)
  have ih: "fst (slot_send (replicate n 0) m') = map (\<lambda>k. d (sl_position m' + of_nat k)) [0..<n]"
    by (rule Suc.IH) (use Suc.prems next_position[OF p(1)] in \<open>auto simp: m'_def module_ok_def\<close>)
  have "map (\<lambda>k. d (?p + of_nat k)) [0..<Suc n] = d ?p # map (\<lambda>k. d (?p + 1 + of_nat k)) [0..<n]"
    by (rule nth_equalityI) (auto simp: nth_Cons' nth_append less_Suc_eq algebra_simps)
  then show ?case using ih by (simp add: step m'_def split_beta)
qed simp

section \<open>Modules as storage\<close>

lemma seek_slot:
  assumes "i < 2" "module_ok (smp s i)"
  shows "smp_seek i a s = s\<lparr>smp := (smp s)(i := (smp s i)\<lparr>sl_cmd := 0xA0, sl_position := ucast a\<rparr>)\<rparr>"
proof -
  have "smp_seek i a s = s\<lparr>smp := (smp s)(i := (smp s i)\<lparr>sl_cmd := 0xA0\<rparr>,
      i := snd (slot_send [ucast (drop_bit 8 a), ucast a] ((smp s i)\<lparr>sl_cmd := 0xA0\<rparr>)))\<rparr>"
    unfolding smp_seek_def by (subst smp_send_slot[OF assms(1)]) (simp add: mk90_smp_cmd_def assms(1) del: slot_send.simps)
  then show ?thesis unfolding slot_seek[OF assms(2)] by simp
qed

lemma write_slot:
  assumes "i < 2" "module_ok (smp s i)" "sl_data (smp s i) = Some d" "unat a + length bs \<le> unat (sl_size (smp s i))"
  shows "\<exists>p. smp_write i a bs s = s\<lparr>smp := (smp s)(i := (smp s i)\<lparr>sl_cmd := 0xC0,
     sl_data := Some (\<lambda>j. if unat a \<le> unat j \<and> unat j < unat a + length bs then bs ! (unat j - unat a) else d j),
     sl_position := p, sl_dirty := sl_dirty (smp s i) \<or> bs \<noteq> []\<rparr>)\<rparr>"
proof -
  have "snd (slot_send bs ((smp s i)\<lparr>sl_position := ucast a, sl_cmd := 0xC0\<rparr>)) = (smp s i)\<lparr>sl_cmd := 0xC0, sl_position := ucast a,
     sl_data := Some (\<lambda>j. if unat a \<le> unat j \<and> unat j < unat a + length bs then bs ! (unat j - unat a) else d j),
     sl_position := ucast a + of_nat (length bs), sl_dirty := sl_dirty (smp s i) \<or> bs \<noteq> []\<rparr>"
    by (subst slot_write) (use assms in \<open>auto simp: module_ok_def unat_ucast_up cong: if_cong\<close>)
  then show ?thesis
    by (intro exI[of _ "ucast a + of_nat (length bs)"]) (simp add: smp_write_def seek_slot[OF assms(1,2)] mk90_smp_cmd_def smp_send_slot assms(1))
qed

lemma read_slot:
  assumes "i < 2" "module_ok (smp s i)" "sl_data (smp s i) = Some d" "unat a + n \<le> unat (sl_size (smp s i))"
  shows "smp_read i a n s = map (\<lambda>k. d (ucast a + of_nat k)) [0..<n]"
proof -
  have "fst (slot_send (replicate n 0) ((smp s i)\<lparr>sl_position := ucast a, sl_cmd := 0xD0\<rparr>)) = map (\<lambda>k. d (ucast a + of_nat k)) [0..<n]"
    by (subst slot_read) (use assms in \<open>auto simp: module_ok_def unat_ucast_up\<close>)
  then show ?thesis by (simp add: smp_read_def seek_slot[OF assms(1,2)] mk90_smp_cmd_def smp_send_slot assms(1))
qed

lemma byte_index:
  assumes "unat (a :: u16) + k < 0x10000"
  shows "unat (ucast a + of_nat k :: u32) = unat a + k" "(of_nat (unat a + k) :: u32) = ucast a + of_nat k"
proof -
  show u: "unat (ucast a + of_nat k :: u32) = unat a + k" using assms by (simp add: unat_word_ariths unat_of_nat wide16)
  show "(of_nat (unat a + k) :: u32) = ucast a + of_nat k" by (simp add: u[symmetric])
qed

lemma stored_bytes:
  assumes "unat (a :: u16) + length bs < 0x10000"
  shows "map (\<lambda>k. if unat a \<le> unat (ucast a + of_nat k :: u32) \<and> unat (ucast a + of_nat k :: u32) < unat a + length bs
     then bs ! (unat (ucast a + of_nat k :: u32) - unat a) else d k) [0..<length bs] = bs"
  using assms by (intro nth_equalityI) (simp_all add: byte_index)

theorem module_write_then_read:
  assumes "i < 2" "module_ok (smp s i)" "unat a + length bs \<le> unat (sl_size (smp s i))"
  shows "smp_read i a (length bs) (smp_write i a bs s) = bs"
proof -
  obtain d where d: "sl_data (smp s i) = Some d" using assms(2) by (auto simp: module_ok_def)
  obtain p where w: "smp_write i a bs s = s\<lparr>smp := (smp s)(i := (smp s i)\<lparr>sl_cmd := 0xC0,
     sl_data := Some (\<lambda>j. if unat a \<le> unat j \<and> unat j < unat a + length bs then bs ! (unat j - unat a) else d j),
     sl_position := p, sl_dirty := sl_dirty (smp s i) \<or> bs \<noteq> []\<rparr>)\<rparr>"
    using write_slot[OF assms(1,2) d assms(3)] by blast
  have "unat (sl_size (smp s i)) < 0x8000" using assms(2) by (simp add: module_ok_def word_less_nat_alt)
  then have "unat a + length bs < 0x10000" using assms(3) by simp
  then show ?thesis
    by (subst read_slot[OF assms(1)]) (use assms in \<open>auto simp: w module_ok_def stored_bytes cong: if_cong\<close>)
qed

text \<open>Closing a module writes it to its file, loading the file again brings it back.\<close>

lemma close_slot:
  assumes "i < 2" "sl_present (smp s i)" "sl_data (smp s i) = Some d" "sl_size (smp s i) < 0x8000" "sl_dirty (smp s i)"
    "sl_path (smp s i) \<noteq> []" "file_writable (files s) (sl_path (smp s i))" "sl_path (smp s (1 - i)) \<noteq> sl_path (smp s i)"
  shows "file_data (files (mk90_smp_close s)) (sl_path (smp s i)) =
      Some (map (\<lambda>j. d (of_nat j)) [0..<unat (sl_size (smp s i))])"
    "smp (mk90_smp_close s) i = empty_slot"
proof -
  have "i = 0 \<or> i = 1" using assms(1) by linarith
  then show "file_data (files (mk90_smp_close s)) (sl_path (smp s i)) =
      Some (map (\<lambda>j. d (of_nat j)) [0..<unat (sl_size (smp s i))])" "smp (mk90_smp_close s) i = empty_slot"
    using assms by (elim disjE; auto simp: mk90_smp_close_def mk90_smp_release_slot_def mk90_smp_save_slot_def Let_def not_le[symmetric] split: prod.splits)+
qed

text \<open>C32: A memory module of the MK-90 keeps its contents: bytes written through the address and data commands of the serial port, then saved when the module is closed, are read back by the same commands after the module is loaded again from its file.\<close>
theorem module_persists:
  assumes "i < 2" "module_ok (smp s i)" "unat a + length bs \<le> unat (sl_size (smp s i))" "bs \<noteq> []"
    and "path = sl_path (smp s i)" "path \<noteq> []" "length path < 1024" "file_writable (files s) path" "sl_path (smp s (1 - i)) \<noteq> path"
  shows "\<exists>s'. mk90_smp_load i path (mk90_smp_close (smp_write i a bs s)) = (0, s') \<and> smp_read i a (length bs) s' = bs"
proof -
  obtain d where d: "sl_data (smp s i) = Some d" using assms(2) by (auto simp: module_ok_def)
  define d' where "d' = (\<lambda>j. if unat a \<le> unat j \<and> unat j < unat a + length bs then bs ! (unat j - unat a) else d j)"
  obtain p where w: "smp_write i a bs s = s\<lparr>smp := (smp s)(i := (smp s i)\<lparr>sl_cmd := 0xC0,
     sl_data := Some d', sl_position := p, sl_dirty := sl_dirty (smp s i) \<or> bs \<noteq> []\<rparr>)\<rparr>"
    using write_slot[OF assms(1,2) d assms(3)] unfolding d'_def by blast
  define n where "n = unat (sl_size (smp s i))"
  have n: "n < 0x8000" "sl_size (smp s i) = of_nat n" using assms(2) by (simp_all add: n_def module_ok_def word_less_nat_alt)
  have other: "Suc 0 - i \<noteq> i" using assms(1) by presburger
  have fits: "unat a + length bs \<le> n" and usz: "unat (of_nat n :: 64 word) = n"
    using assms(3) n(2)[symmetric] by (simp_all add: n_def)
  have small: "(of_nat n :: 64 word) < 0x8000" using assms(2) n by (simp add: module_ok_def)
  note c = close_slot[of i "smp_write i a bs s" d', simplified w, simplified]
  have closed: "file_data (files (mk90_smp_close (smp_write i a bs s))) path = Some (map (\<lambda>j. d' (of_nat j)) [0..<n])"
    "smp (mk90_smp_close (smp_write i a bs s)) i = empty_slot"
    using c assms other by (simp_all add: w module_ok_def n_def)
  define s' where "s' = snd (mk90_smp_load i path (mk90_smp_close (smp_write i a bs s)))"
  have load: "mk90_smp_load i path (mk90_smp_close (smp_write i a bs s)) = (0, s')"
    "smp s' i = \<lparr>sl_data = Some (\<lambda>p. if unat p < n then map (\<lambda>j. d' (of_nat j)) [0..<n] ! unat p else 0), sl_size = of_nat n,
       sl_position = 0, sl_mask = 0xFFFF, sl_cmd = 0, sl_present = True, sl_dirty = False, sl_owns_data = True, sl_path = path\<rparr>"
    using closed assms n small by (simp_all add: s'_def mk90_smp_load_def mk90_smp_release_slot_def mk90_smp_save_slot_def empty_slot_def)
  have "smp_read i a (length bs) s' = map (\<lambda>k. d' (ucast a + of_nat k)) [0..<length bs]"
  proof -
    define f where "f = (\<lambda>p :: u32. if unat p < n then map (\<lambda>j. d' (of_nat j)) [0..<n] ! unat p else 0)"
    have "smp_read i a (length bs) s' = map (\<lambda>k. f (ucast a + of_nat k)) [0..<length bs]"
      by (rule read_slot[OF assms(1)]) (use fits small usz in \<open>simp_all add: load(2) module_ok_def f_def\<close>)
    also have "\<dots> = map (\<lambda>k. d' (ucast a + of_nat k)) [0..<length bs]"
      using fits n(1) by (intro map_cong) (auto simp: byte_index f_def)
    finally show ?thesis .
  qed
  then show ?thesis using load(1) stored_bytes[of a bs "\<lambda>k. d (ucast a + of_nat k)"] fits n(1) unfolding d'_def by simp
qed

text \<open>Two modules of a kilobyte, the first one written.\<close>

definition two_modules :: mk90_state_t where
  "two_modules =
     (let files = \<lparr>file_data = [''a.bin'' \<mapsto> replicate 1024 0, ''b.bin'' \<mapsto> replicate 1024 0], file_writable = (\<lambda>_. True)\<rparr>;
          slot = \<lparr>sl_data = Some (\<lambda>_. 0), sl_size = 1024, sl_position = 0, sl_mask = 0xFFFF, sl_cmd = 0, sl_present = True,
                  sl_dirty = False, sl_owns_data = True, sl_path = ''a.bin''\<rparr>
      in \<lparr>m_ram = (\<lambda>_. 0), m_rom = (\<lambda>_. 0), ram_size = 0x4000, ram_end = 0x3FFF, cold_reset_pending = False,
          lcd_base = 0, lcd_config = 0x88C6,
          rtc = \<lparr>rtc_data = (\<lambda>_. 0), second_accum_ms = 0, periodic_accum_ms = 0\<rparr>,
          io = \<lparr>io_regs = (\<lambda>_. 0), shiftreg = 0xFFFF, rgrq = 0xFFFF, select_active = False, beeper_divider = (\<lambda>_. 0),
                beeper_cycles = (\<lambda>_. 0), beeper_head = 0, beeper_count = 0, transfer_busy_cycles = 0\<rparr>,
          rg1 = 0, rg2 = 0, scan_code = 0,
          irq = \<lparr>evnt = False, inrt = False, data_ready = False, keyboard = False\<rparr>,
          smp = (\<lambda>i. if i = 0 then slot else slot\<lparr>sl_path := ''b.bin''\<rparr>), files = files\<rparr>)"

lemma two_modules_simps [simp]:
  "smp two_modules (Suc 0) = (smp two_modules 0)\<lparr>sl_path := ''b.bin''\<rparr>" "module_ok (smp two_modules 0)"
  "sl_size (smp two_modules 0) = 1024" "sl_path (smp two_modules 0) = ''a.bin''" "file_writable (files two_modules) p"
  by (simp_all add: two_modules_def Let_def module_ok_def)

theorem module_write_then_read_witness:
  "smp_read 0 0x100 3 (smp_write 0 0x100 [1, 2, 3] two_modules) = [1, 2, 3]"
  using module_write_then_read[of 0 two_modules "0x100" "[1, 2, 3]"] by (simp add: numeral_3_eq_3)

theorem module_persists_witness:
  "\<exists>s'. mk90_smp_load 0 ''a.bin'' (mk90_smp_close (smp_write 0 0x100 [1, 2, 3] two_modules)) = (0, s') \<and>
     smp_read 0 0x100 3 s' = [1, 2, 3]"
  using module_persists[of 0 two_modules "0x100" "[1, 2, 3]" "''a.bin''"] by (simp add: numeral_3_eq_3)

end
