(* ===== verification/Mk90Clock.thy ===== *)
theory Mk90Clock
  imports Mk90Rtc
begin

text \<open>
  The clock of the MK-90 keeps time: in binary mode the calendar of the source is a counter of
  seconds in years of 365 days, and a tick of the host adds the whole seconds it completes. In
  BCD mode it is not: the limits are octal constants where BCD ones are meant.
\<close>

section \<open>The calendar as a counter of seconds\<close>

definition month_lengths :: "nat list" where
  "month_lengths = [31, 28, 31, 30, 31, 30, 31, 31, 30, 31, 30, 31]"

definition day_of_year :: "nat \<Rightarrow> nat \<Rightarrow> nat" where
  "day_of_year month day = sum_list (take (month - 1) month_lengths) + (day - 1)"

definition rtc_time :: "rtc_regs \<Rightarrow> nat" where
  "rtc_time d = unat (d 0) + 60 * unat (d 2) + 3600 * unat (d 4) +
     86400 * (day_of_year (unat (d 8)) (unat (d 7)) + 365 * unat (d 9))"

definition rtc_valid :: "rtc_regs \<Rightarrow> bool" where
  "rtc_valid d = (unat (d 0) < 60 \<and> unat (d 2) < 60 \<and> unat (d 4) < 24 \<and> unat (d 6) \<in> {1..7} \<and> unat (d 8) \<in> {1..12} \<and>
     unat (d 7) \<in> {1..month_lengths ! (unat (d 8) - 1)} \<and> unat (d 9) < 100)"

abbreviation CENTURY :: nat where "CENTURY \<equiv> 36500 * 86400"

lemma inc8: "unat (x :: u8) < 255 \<Longrightarrow> unat (x + 1) = unat x + 1"
  by (simp add: unat_word_ariths)

lemma inj_unat: "inj (unat :: 'a::len word \<Rightarrow> nat)"
  by (auto intro: injI simp: word_unat_eq_iff)

lemma month_cases: "unat (m :: u8) \<in> {1..12} \<Longrightarrow> m \<in> set [1, 2, 3, 4, 5, 6, 7, 8, 9, 10, 11, 12]"
proof -
  assume "unat m \<in> {1..12}"
  also have "{1..12} = unat ` set [1, 2, 3, 4, 5, 6, 7, 8, 9, 10, 11, 12 :: u8]" by code_simp
  finally show ?thesis by (simp only: inj_image_mem_iff[OF inj_unat])
qed

lemma month_facts:
  "\<forall>m \<in> set [1, 2, 3, 4, 5, 6, 7, 8, 9, 10, 11, 12]. unat (rtc_days m) = month_lengths ! (unat m - 1) \<and>
     28 \<le> month_lengths ! (unat m - 1) \<and> month_lengths ! (unat m - 1) \<le> 31 \<and>
     day_of_year (unat m) (month_lengths ! (unat m - 1)) \<le> 364 \<and>
     (if unat m < 12 then day_of_year (unat m + 1) 1 = day_of_year (unat m) (month_lengths ! (unat m - 1)) + 1
      else unat m = 12 \<and> day_of_year (unat m) (month_lengths ! (unat m - 1)) = 364)"
  by code_simp

lemma month_table:
  assumes "unat (m :: u8) \<in> {1..12}"
  shows "unat (rtc_days m) = month_lengths ! (unat m - 1)" "28 \<le> month_lengths ! (unat m - 1)" "month_lengths ! (unat m - 1) \<le> 31"
    "unat m < 12 \<Longrightarrow> day_of_year (unat m + 1) 1 = day_of_year (unat m) (month_lengths ! (unat m - 1)) + 1"
    "unat m = 12 \<Longrightarrow> day_of_year (unat m) (month_lengths ! (unat m - 1)) = 364"
    "day_of_year (unat m) (month_lengths ! (unat m - 1)) \<le> 364"
  using bspec[OF month_facts month_cases[OF assms]] by (simp_all split: if_splits)

lemma next_day: "1 \<le> n \<Longrightarrow> day_of_year m (n + 1) = day_of_year m n + 1"
  by (simp add: day_of_year_def)

text \<open>The cascade of carries, by how far it goes.\<close>

lemma carries:
  assumes "rtc_valid d"
  defines "w \<equiv> (if unat (d 6) = 7 then 1 else d 6 + 1)" and "n \<equiv> month_lengths ! (unat (d 8) - 1)"
  shows "binary_calendar d =
    (if unat (d 0) < 59 then d(0 := d 0 + 1)
     else if unat (d 2) < 59 then d(0 := 0, 2 := d 2 + 1)
     else if unat (d 4) < 23 then d(0 := 0, 2 := 0, 4 := d 4 + 1)
     else if unat (d 7) < n then d(0 := 0, 2 := 0, 4 := 0, 6 := w, 7 := d 7 + 1)
     else if unat (d 8) < 12 then d(0 := 0, 2 := 0, 4 := 0, 6 := w, 7 := 1, 8 := d 8 + 1)
     else if unat (d 9) < 99 then d(0 := 0, 2 := 0, 4 := 0, 6 := w, 7 := 1, 8 := 1, 9 := d 9 + 1)
     else d(0 := 0, 2 := 0, 4 := 0, 6 := w, 7 := 1, 8 := 1, 9 := 0))"
proof -
  have v: "unat (d 0) < 60" "unat (d 2) < 60" "unat (d 4) < 24" "unat (d 6) \<in> {1..7}" "unat (d 8) \<in> {1..12}" "unat (d 7) \<in> {1..n}"
    "unat (d 9) < 100" using assms(1) by (simp_all add: rtc_valid_def n_def)
  note t = month_table[OF v(5), folded n_def]
  have "unat (d 0 + 1) = unat (d 0) + 1" "unat (d 2 + 1) = unat (d 2) + 1" "unat (d 4 + 1) = unat (d 4) + 1"
    "unat (d 6 + 1) = unat (d 6) + 1" "unat (d 7 + 1) = unat (d 7) + 1" "unat (d 8 + 1) = unat (d 8) + 1" "unat (d 9 + 1) = unat (d 9) + 1"
    using v t(3) by (auto simp: inc8)
  then have c: "d 0 + 1 < 60 \<longleftrightarrow> unat (d 0) < 59" "d 2 + 1 < 60 \<longleftrightarrow> unat (d 2) < 59" "d 4 + 1 < 24 \<longleftrightarrow> unat (d 4) < 23"
    "d 6 + 1 > 7 \<longleftrightarrow> unat (d 6) = 7" "d 7 + 1 \<le> rtc_days (d 8) \<longleftrightarrow> unat (d 7) < n"
    "d 8 + 1 \<le> 12 \<longleftrightarrow> unat (d 8) < 12" "d 9 + 1 \<le> 99 \<longleftrightarrow> unat (d 9) < 99"
    using v t(1) by (auto simp: word_less_nat_alt word_le_nat_alt)
  show ?thesis using c by (simp add: binary_calendar_def Let_def w_def fun_upd_twist)
qed

lemma calendar_step:
  assumes "rtc_valid d"
  defines "e \<equiv> binary_calendar d"
  shows "rtc_valid e \<and> rtc_time e = (rtc_time d + 1) mod CENTURY \<and>
    unat (e 6) - 1 = (unat (d 6) - 1 + (if (rtc_time d + 1) mod 86400 = 0 then 1 else 0)) mod 7 \<and>
    (\<forall>i. i \<notin> {0, 2, 4, 6, 7, 8, 9} \<longrightarrow> e i = d i)"
proof -
  define n where "n = month_lengths ! (unat (d 8) - 1)"
  define w where "w = (if unat (d 6) = 7 then 1 else d 6 + 1)"
  have v: "unat (d 0) < 60" "unat (d 2) < 60" "unat (d 4) < 24" "unat (d 6) \<in> {1..7}" "unat (d 8) \<in> {1..12}" "unat (d 7) \<in> {1..n}"
    "unat (d 9) < 100" using assms(1) by (simp_all add: rtc_valid_def n_def)
  note t = month_table[OF v(5), folded n_def]
  have i: "unat (d 0 + 1) = unat (d 0) + 1" "unat (d 2 + 1) = unat (d 2) + 1" "unat (d 4 + 1) = unat (d 4) + 1"
    "unat (d 7 + 1) = unat (d 7) + 1" "unat (d 8 + 1) = unat (d 8) + 1" "unat (d 9 + 1) = unat (d 9) + 1"
    using v t(3) by (auto simp: inc8)
  have w: "unat w - 1 = (unat (d 6) - 1 + 1) mod 7" "unat w \<in> {1..7}"
    using v(4) inc8[of "d 6"] by (auto simp: w_def mod_if)
  have vn: "unat (d 7) \<le> month_lengths ! (unat (d 8) - Suc 0)" "n = month_lengths ! (unat (d 8) - Suc 0)" using v(6) by (simp_all add: n_def)
  define y where "y = day_of_year (unat (d 8)) (unat (d 7))"
  have y: "y \<le> 364" using t(6) v(6) by (simp add: y_def day_of_year_def) linarith
  define D where "D = y + 365 * unat (d 9)"
  have D: "D \<le> 36499" using y v(7) by (simp add: D_def)
  define c where "c = unat (d 0) + 60 * unat (d 2) + 3600 * unat (d 4)"
  have td: "rtc_time d = c + 86400 * D" by (simp add: rtc_time_def c_def D_def y_def)
  note cs = carries[OF assms(1), folded n_def w_def e_def]
  show ?thesis
  proof (cases "c = 86399")
    case False
    have c: "c + 1 < 86400" using v(1-3) False unfolding c_def by linarith
    have m: "(rtc_time d + 1) mod 86400 \<noteq> 0" "(rtc_time d + 1) mod CENTURY = rtc_time d + 1"
      using c D by (simp_all add: td)
    have wd: "unat (d 6) - 1 = (unat (d 6) - 1) mod 7" using v(4) by auto
    consider "unat (d 0) < 59" | "unat (d 0) = 59" "unat (d 2) < 59" | "unat (d 0) = 59" "unat (d 2) = 59" "unat (d 4) < 23"
      using v(1-3) False unfolding c_def by linarith
    then have "rtc_valid e \<and> rtc_time e = rtc_time d + 1 \<and> e 6 = d 6"
      using v i vn by cases (simp_all add: cs rtc_valid_def rtc_time_def)
    moreover have "\<forall>i. i \<notin> {0, 2, 4, 6, 7, 8, 9} \<longrightarrow> e i = d i" by (simp add: cs)
    ultimately show ?thesis using m wd by simp
  next
    case True
    then have full: "unat (d 0) = 59" "unat (d 2) = 59" "unat (d 4) = 23" using v(1-3) unfolding c_def by linarith+
    have "rtc_time d + 1 = 86400 * (D + 1)" using True by (simp add: td)
    then have m: "(rtc_time d + 1) mod 86400 = 0" "(rtc_time d + 1) mod CENTURY = 86400 * ((D + 1) mod 36500)"
      using mult_mod_right[of 86400 "D + 1" 36500] by (simp_all only: mod_mult_self1_is_0) simp
    consider "unat (d 7) < n" | "unat (d 7) = n" "unat (d 8) < 12" | "unat (d 7) = n" "unat (d 8) = 12" "unat (d 9) < 99"
      | "unat (d 7) = n" "unat (d 8) = 12" "unat (d 9) = 99"
      using v(5-7) by fastforce
    then have "rtc_valid e \<and> rtc_time e = 86400 * ((D + 1) mod 36500)"
    proof cases
      case 1
      have "day_of_year (unat (d 8)) (unat (d 7) + 1) = y + 1" using v(6) next_day[of "unat (d 7)" "unat (d 8)"] by (simp add: y_def)
      moreover have "y + 1 \<le> 364" using 1 t(6) v(6) unfolding y_def day_of_year_def by simp
      then have "(D + 1) mod 36500 = D + 1" using v(7) by (simp add: D_def)
      ultimately show ?thesis using 1 v i w(2) by (simp add: cs full rtc_valid_def rtc_time_def vn(2)[symmetric] D_def)
    next
      case 2
      have "28 \<le> month_lengths ! (unat (d 8 + 1) - 1)" using month_table(2)[of "d 8 + 1"] 2 i v(5) by simp
      moreover have "y + 1 = day_of_year (unat (d 8) + 1) 1" using 2 t(4) by (simp add: y_def)
      moreover have "y + 1 \<le> 364" using month_table(6)[of "d 8 + 1"] 2 i v(5) t(4) by (simp add: y_def day_of_year_def)
      then have "(D + 1) mod 36500 = D + 1" using v(7) by (simp add: D_def)
      ultimately show ?thesis using 2 v i w(2) by (simp add: cs full rtc_valid_def rtc_time_def D_def y_def)
    next
      case 3
      then show ?thesis using v i w(2) t(5) by (simp add: cs full rtc_valid_def rtc_time_def D_def y_def day_of_year_def month_lengths_def)
    next
      case 4
      then show ?thesis using v w(2) t(5) by (simp add: cs full rtc_valid_def rtc_time_def D_def y_def day_of_year_def month_lengths_def)
    qed
    moreover have "e 6 = w \<and> (\<forall>i. i \<notin> {0, 2, 4, 6, 7, 8, 9} \<longrightarrow> e i = d i)" by (simp add: cs full)
    ultimately show ?thesis using m w(1) by simp
  qed
qed

section \<open>Ticks\<close>

definition binary_mode :: "rtc_regs \<Rightarrow> bool" where
  "binary_mode d = (d RTC_REG_B AND 0x84 = 4)"

lemma mode_bits: "binary_mode d \<Longrightarrow> d RTC_REG_B AND 0x80 = 0 \<and> d RTC_REG_B AND 4 \<noteq> 0"
proof -
  assume "binary_mode d"
  then have "(d 11 AND 0x84) AND 0x80 = 0" "(d 11 AND 0x84) AND 4 = 4" by (simp_all add: binary_mode_def)
  then show ?thesis by (simp add: and.assoc)
qed

lemma calendar_regs:
  assumes "\<forall>i. i \<noteq> 12 \<longrightarrow> d' i = d i"
  shows "rtc_time d' = rtc_time d" "rtc_valid d' = rtc_valid d" "binary_mode d' = binary_mode d" "d' 6 = d 6"
  using assms by (simp_all add: rtc_time_def rtc_valid_def binary_mode_def)

lemma timer_irq_rtc [simp]: "rtc (mk90_io_timer_irq s) = rtc s" "rtc (mk90_machine_raise_evnt s) = rtc s"
  by (simp_all add: mk90_io_timer_irq_def mk90_machine_raise_inrt_def mk90_machine_raise_evnt_def)

lemma update_regs:
  assumes "binary_mode (rtc_data (rtc s))"
  shows "\<forall>i. i \<noteq> 12 \<longrightarrow> rtc_data (rtc (mk90_rtc_update_second s)) i = binary_calendar (rtc_data (rtc s)) i"
  using mode_bits[OF assms] by (simp add: mk90_rtc_update_second_def mk90_rtc_flag_irq_def check_alarm_def rtc_put_def Let_def)

lemma periodic_regs: "\<forall>i. i \<noteq> 12 \<longrightarrow> rtc_data (rtc (mk90_rtc_periodic_tick s)) i = rtc_data (rtc s) i"
  by (simp add: mk90_rtc_periodic_tick_def rtc_put_def Let_def)

definition clock_after :: "nat \<Rightarrow> rtc_regs \<Rightarrow> rtc_regs \<Rightarrow> bool" where
  "clock_after n d d' = (rtc_valid d' \<and> binary_mode d' \<and> rtc_time d' = (rtc_time d + n) mod CENTURY \<and>
     unat (d' 6) - 1 = (unat (d 6) - 1 + (rtc_time d mod 86400 + n) div 86400) mod 7)"

lemma clock_next:
  assumes "rtc_valid d" "binary_mode d" "\<forall>i. i \<noteq> 12 \<longrightarrow> e i = binary_calendar d i" "clock_after n e f"
  shows "clock_after (Suc n) d f"
proof -
  note e = calendar_regs[OF assms(3)]
  note c = calendar_step[OF assms(1)]
  have m: "binary_mode (binary_calendar d)" using c assms(2) by (simp add: binary_mode_def)
  have t: "rtc_time e = (rtc_time d + 1) mod CENTURY" using c e(1) by simp
  have tm: "rtc_time e mod 86400 = (rtc_time d + 1) mod 86400" unfolding t by (rule mod_mod_cancel) simp
  have w: "unat (e 6) - 1 = (unat (d 6) - 1 + (if (rtc_time d + 1) mod 86400 = 0 then 1 else 0)) mod 7" using c e(4) by simp
  define x where "x = rtc_time d mod 86400"
  have x: "x < 86400" "(rtc_time d + 1) mod 86400 = (if x = 86399 then 0 else x + 1)"
    by (simp_all add: x_def mod_Suc)
  define c where "c = (if x = 86399 then 1 else 0 :: nat)"
  define q where "q = ((if x = 86399 then 0 else x + 1) + n) div 86400"
  have days: "(x + Suc n) div 86400 = c + q" using div_add_self1[of 86400 n] by (simp add: c_def q_def)
  have "unat (e 6) - 1 = (unat (d 6) - 1 + c) mod 7" using w x(2) by (simp add: c_def split: if_splits)
  moreover have "unat (f 6) - 1 = (unat (e 6) - 1 + q) mod 7"
    using assms(4) unfolding clock_after_def tm x(2) q_def by blast
  ultimately have "unat (f 6) - 1 = (unat (d 6) - 1 + (x + Suc n) div 86400) mod 7"
    unfolding days by (simp only: mod_add_left_eq add.assoc)
  moreover have "rtc_time f = (rtc_time d + Suc n) mod CENTURY"
    using assms(4) by (simp add: clock_after_def t mod_add_left_eq)
  ultimately show ?thesis using assms(4) by (simp add: clock_after_def x_def)
qed

lemma rtc_time_bound: "rtc_valid d \<Longrightarrow> rtc_time d < CENTURY"
proof -
  assume v: "rtc_valid d"
  then have m: "unat (d 8) \<in> {1..12}" by (simp add: rtc_valid_def)
  have "unat (d 7) \<le> month_lengths ! (unat (d 8) - 1)" using v by (simp add: rtc_valid_def)
  then have "day_of_year (unat (d 8)) (unat (d 7)) \<le> 364"
    using month_table(6)[OF m] unfolding day_of_year_def by linarith
  moreover have "unat (d 9) < 100" "unat (d 0) < 60" "unat (d 2) < 60" "unat (d 4) < 24" using v by (simp_all add: rtc_valid_def)
  ultimately show ?thesis unfolding rtc_time_def by simp
qed

lemma seconds_loop_time:
  "rtc_valid (rtc_data (rtc s)) \<Longrightarrow> binary_mode (rtc_data (rtc s)) \<Longrightarrow>
   clock_after (unat (second_accum_ms (rtc s)) div 1000) (rtc_data (rtc s)) (rtc_data (rtc (seconds_loop s))) \<and>
   unat (second_accum_ms (rtc (seconds_loop s))) = unat (second_accum_ms (rtc s)) mod 1000"
proof (induction s rule: seconds_loop.induct)
  case (1 s)
  let ?d = "rtc_data (rtc s)" and ?a = "unat (second_accum_ms (rtc s))"
  show ?case
  proof (cases "second_accum_ms (rtc s) \<ge> 1000")
    case False
    then have "?a < 1000" by (simp add: word_le_nat_alt)
    moreover have "rtc_time ?d < CENTURY" by (rule rtc_time_bound[OF 1(2)])
    ultimately show ?thesis using 1(2,3) False seconds_loop.simps[of s] by (auto simp: clock_after_def rtc_valid_def)
  next
    case True
    define s1 where "s1 = s\<lparr>rtc := (rtc s)\<lparr>second_accum_ms := second_accum_ms (rtc s) - 1000\<rparr>\<rparr>"
    define s2 where "s2 = mk90_rtc_update_second s1"
    have a: "1000 \<le> ?a" using True by (simp add: word_le_nat_alt)
    have b: "unat (second_accum_ms (rtc s2)) = ?a - 1000" using a by (simp add: s2_def s1_def unat_sub word_le_nat_alt)
    have r: "\<forall>i. i \<noteq> 12 \<longrightarrow> rtc_data (rtc s2) i = binary_calendar ?d i"
      using update_regs[of s1] 1(3) by (simp add: s2_def s1_def)
    have "rtc_valid (rtc_data (rtc s2))" "binary_mode (rtc_data (rtc s2))"
      using calendar_regs(2,3)[OF r] calendar_step[OF 1(2)] 1(3) by (simp_all add: binary_mode_def)
    then have ih: "clock_after (unat (second_accum_ms (rtc s2)) div 1000) (rtc_data (rtc s2)) (rtc_data (rtc (seconds_loop s2))) \<and>
        unat (second_accum_ms (rtc (seconds_loop s2))) = unat (second_accum_ms (rtc s2)) mod 1000"
      using 1(1)[OF True] by (simp add: s2_def s1_def)
    have n: "?a div 1000 = Suc ((?a - 1000) div 1000)" "(?a - 1000) mod 1000 = ?a mod 1000"
      using a by (simp_all add: le_div_geq le_mod_geq)
    have "seconds_loop s = seconds_loop s2" using True by (simp add: seconds_loop.simps[of s] s2_def s1_def)
    then show ?thesis using ih clock_next[OF 1(2,3) r] by (simp add: b n)
  qed
qed

lemma periodic_loop_regs:
  "(\<forall>i. i \<noteq> 12 \<longrightarrow> rtc_data (rtc (periodic_loop ms s)) i = rtc_data (rtc s) i) \<and>
   second_accum_ms (rtc (periodic_loop ms s)) = second_accum_ms (rtc s)"
proof (induction ms s rule: periodic_loop.induct)
  case (1 ms s)
  define s1 where "s1 = s\<lparr>rtc := (rtc s)\<lparr>periodic_accum_ms := periodic_accum_ms (rtc s) - ms\<rparr>\<rparr>"
  have "\<forall>i. i \<noteq> 12 \<longrightarrow> rtc_data (rtc (mk90_rtc_periodic_tick s1)) i = rtc_data (rtc s) i"
    using periodic_regs[of s1] by (simp add: s1_def)
  then show ?case using 1 by (simp add: periodic_loop.simps[of ms s] s1_def)
qed

text \<open>C31: The clock of the MK-90 counts the seconds of the code's calendar, whose years all have 365 days (February has 28 days in every year, so 29 February is never reached; see the findings). In binary mode with the SET bit clear, from a valid date and time, and as long as the accumulated milliseconds plus the tick stay below 2^32: a tick leaves a valid date and time, advanced by exactly the whole seconds that have accumulated (over minutes, hours, months, 365-day years and the end of the century), the weekday advanced by the days passed, and the rest of the milliseconds kept for the next tick.\<close>
theorem clock_keeps_time:
  assumes "rtc_valid (rtc_data (rtc s))" "binary_mode (rtc_data (rtc s))"
    and "unat (second_accum_ms (rtc s)) + unat ms < 2 ^ 32"
  shows "let d = rtc_data (rtc s); s' = mk90_rtc_tick_ms ms s; d' = rtc_data (rtc s');
      total = unat (second_accum_ms (rtc s)) + unat ms; n = total div 1000
    in rtc_valid d' \<and> rtc_time d' = (rtc_time d + n) mod CENTURY \<and>
       unat (d' 6) - 1 = (unat (d 6) - 1 + (rtc_time d mod 86400 + n) div 86400) mod 7 \<and>
       unat (second_accum_ms (rtc s')) = total mod 1000"
proof -
  define s1 where "s1 = s\<lparr>rtc := (rtc s)\<lparr>second_accum_ms := second_accum_ms (rtc s) + ms, periodic_accum_ms := periodic_accum_ms (rtc s) + ms\<rparr>\<rparr>"
  have a: "unat (second_accum_ms (rtc s1)) = unat (second_accum_ms (rtc s)) + unat ms" "rtc_data (rtc s1) = rtc_data (rtc s)"
    using assms(3) by (simp_all add: s1_def unat_word_ariths)
  have l: "clock_after (unat (second_accum_ms (rtc s1)) div 1000) (rtc_data (rtc s1)) (rtc_data (rtc (seconds_loop s1)))"
    "unat (second_accum_ms (rtc (seconds_loop s1))) = unat (second_accum_ms (rtc s1)) mod 1000"
    using seconds_loop_time[of s1] assms(1,2) by (simp_all add: a(2))
  define s2 where "s2 = mk90_rtc_tick_ms ms s"
  have p: "\<forall>i. i \<noteq> 12 \<longrightarrow> rtc_data (rtc s2) i = rtc_data (rtc (seconds_loop s1)) i"
    "second_accum_ms (rtc s2) = second_accum_ms (rtc (seconds_loop s1))"
    using periodic_loop_regs by (simp_all add: s2_def mk90_rtc_tick_ms_def s1_def Let_def)
  show ?thesis
    using l unfolding s2_def[symmetric] Let_def clock_after_def calendar_regs[OF p(1), symmetric] p(2)[symmetric] a by simp
qed

text \<open>The last second of a century, a Sunday, and a tick of two and a half seconds.\<close>

theorem clock_keeps_time_witness:
  "\<exists>s :: mk90_state_t. rtc_time (rtc_data (rtc s)) = CENTURY - 1 \<and> rtc_time (rtc_data (rtc (mk90_rtc_tick_ms 2500 s))) = 1"
proof -
  define d :: rtc_regs where "d = (\<lambda>_. 0)(0 := 59, 2 := 59, 4 := 23, 6 := 7, 7 := 31, 8 := 12, 9 := 99, 11 := 4)"
  define s :: mk90_state_t where "s = undefined\<lparr>rtc := \<lparr>rtc_data = d, second_accum_ms = 0, periodic_accum_ms = 0\<rparr>\<rparr>"
  have t: "rtc_time d = CENTURY - 1" by (simp add: d_def rtc_time_def day_of_year_def month_lengths_def)
  have v: "rtc_valid d" "binary_mode d" by (simp_all add: d_def rtc_valid_def month_lengths_def binary_mode_def)
  have "rtc_time (rtc_data (rtc (mk90_rtc_tick_ms 2500 s))) = (rtc_time d + 2) mod CENTURY"
    using clock_keeps_time[of s 2500] v by (simp add: s_def Let_def)
  then show ?thesis using t by (intro exI[of _ s]) (simp add: s_def)
qed

section \<open>Leap years\<close>

text \<open>The second after 23:59:59 on 28 February of the leap year 24 is in March: the table of the
  month lengths gives February 28 days in every year, and 29 February is never reached.\<close>

theorem no_leap_day:
  "map (binary_calendar ((\<lambda>_. 0)(0 := 59, 2 := 59, 4 := 23, 6 := 3, 7 := 28, 8 := 2, 9 := 24, 11 := 4))) [0, 2, 4, 6, 7, 8, 9] =
   [0, 0, 0, 4, 1, 3, 24]"
  by code_simp

section \<open>BCD mode\<close>

text \<open>A BCD minute has 30 seconds, an hour 30 minutes, a day 14 hours, a year 9 months: the limits
  \<^verbatim>\<open>0060u\<close>, \<^verbatim>\<open>0024u\<close> and \<^verbatim>\<open>012u\<close> are octal 48, 20 and 10.\<close>

theorem bcd_clock_is_short:
  "map (\<lambda>i. bcd_calendar ((\<lambda>_. 0)(0 := 0x29, 2 := 0x29, 4 := 0x13, 6 := 1, 7 := 0x19, 8 := 9, 9 := 0x20)) i) [0, 2, 4, 7, 8, 9] =
   [0, 0, 0, 1, 1, 0x21]"
  by code_simp

end
