(* ===== verification/BkTape.thy ===== *)
theory BkTape
  imports Prelude
begin

text \<open>
  The cassette recorder of the BK-0010 (bk0010-01/bk\_tape.c): the recording as bytes (two per
  pulse: the level in bit 15, the length in ticks below it), the motor and the two heads, a binary
  file coded as pulses, and the decoder that finds a file in a recording. Allocation succeeds;
  sizes and positions are natural numbers.
\<close>

type_synonym u64 = "64 word"

record bk_tape =
  tape_synch :: u32
  tape_synch_forced :: bool
  tape_name_pad_space :: bool
  tape_read_val :: bool
  tape_write_val :: bool
  tape_status :: bool \<comment> \<open>stopped\<close>
  tape_ticks :: u64
  tape_read_ticks :: u64
  tape_write_ticks :: u64
  tape_in :: "u8 list option"
  tape_in_pos :: nat
  tape_out :: "u8 list"
  tape_out_enabled :: bool

section \<open>Pulses as bytes\<close>

definition chunk_bytes :: "bool \<Rightarrow> u16 \<Rightarrow> u8 list" where
  "chunk_bytes val chunk =
     [(ucast (drop_bit 8 chunk AND 0x7F) :: u8) OR (if val then 0x80 else 0), ucast (chunk AND 0xFF)]"

lemma chunk_less: "(d :: u16) \<noteq> 0 \<Longrightarrow> unat (d - (if 32767 < d then 32767 else d)) < unat d"
  by (auto simp: word_less_nat_alt unat_sub word_le_nat_alt unat_gt_0)

function tape_in_append :: "bool \<Rightarrow> u16 \<Rightarrow> u8 list \<Rightarrow> u8 list" where
  "tape_in_append val duration buf =
     (if duration = 0 then buf
      else let chunk = (if duration > 32767 then 32767 else duration)
           in tape_in_append val (duration - chunk) (buf @ chunk_bytes val chunk))"
  by auto

termination tape_in_append
  by (relation "measure (\<lambda>(_, d, _). unat d)") (auto simp: chunk_less simp del: if_split)

lemma chunk64_less: "(d :: u64) \<noteq> 0 \<Longrightarrow> unat (d - ucast (if 32767 < d then 32767 else ucast d :: u16)) < unat d"
proof -
  assume d: "d \<noteq> 0"
  have "unat (ucast (if 32767 < d then 32767 else ucast d :: u16) :: u64) = min 32767 (unat d)"
  proof (cases "32767 < d")
    case False
    then have "unat d < 2 ^ 16" by (simp add: word_less_nat_alt)
    then show ?thesis using False by (simp add: word_less_nat_alt unsigned_ucast_eq unsigned_take_bit_eq take_bit_nat_eq_self)
  qed (simp add: word_less_nat_alt)
  moreover have "0 < unat d" using d by (simp add: unat_gt_0)
  ultimately show ?thesis by (simp add: unat_sub word_le_nat_alt)
qed

function out_append :: "bool \<Rightarrow> u64 \<Rightarrow> u8 list \<Rightarrow> u8 list" where
  "out_append val duration buf =
     (if duration = 0 then buf
      else let chunk = (if duration > 32767 then 32767 else ucast duration :: u16)
           in out_append val (duration - ucast chunk) (buf @ chunk_bytes val chunk))"
  by auto

termination out_append
  by (relation "measure (\<lambda>(_, d, _). unat d)") (auto simp: chunk64_less simp del: if_split)

declare tape_in_append.simps [simp del] out_append.simps [simp del]

definition tape_out_append :: "bool \<Rightarrow> u64 \<Rightarrow> bk_tape \<Rightarrow> bk_tape" where
  "tape_out_append val duration t =
     (if tape_out_enabled t then t\<lparr>tape_out := out_append val duration (tape_out t)\<rparr> else t)"

section \<open>Coding a binary file\<close>

text \<open>\<open>s\<close> is \<^verbatim>\<open>tape_synch\<close>; products are cut to 16 bits, as the casts of the source do.\<close>

definition tape_put_si :: "u32 \<Rightarrow> u8 list \<Rightarrow> u8 list" where
  "tape_put_si s buf = tape_in_append False (ucast s) (tape_in_append True (ucast s) buf)"

definition tape_put0 :: "u32 \<Rightarrow> u8 list \<Rightarrow> u8 list" where
  "tape_put0 s buf = tape_put_si s (tape_in_append False (ucast s) (tape_in_append True (ucast s) buf))"

definition tape_put1 :: "u32 \<Rightarrow> u8 list \<Rightarrow> u8 list" where
  "tape_put1 s buf = tape_put_si s (tape_in_append False (ucast (2 * s)) (tape_in_append True (ucast (2 * s)) buf))"

definition tape_put_inm :: "u32 \<Rightarrow> u8 list \<Rightarrow> u8 list" where
  "tape_put_inm s buf = tape_in_append True (ucast (8 * s)) buf"

definition tape_put_outm :: "u32 \<Rightarrow> u8 list \<Rightarrow> u8 list" where
  "tape_put_outm s buf = tape_in_append False (ucast (4 * s)) (tape_in_append True (ucast (4 * s)) buf)"

fun tape_put_tune :: "u32 \<Rightarrow> nat \<Rightarrow> u8 list \<Rightarrow> u8 list" where
  "tape_put_tune s 0 buf = buf"
| "tape_put_tune s (Suc n) buf = tape_put_tune s n (tape_put_si s buf)"

fun put_byte_bits :: "u32 \<Rightarrow> nat \<Rightarrow> u8 \<Rightarrow> u8 list \<Rightarrow> u8 list" where
  "put_byte_bits s 0 b buf = buf"
| "put_byte_bits s (Suc n) b buf = put_byte_bits s n (drop_bit 1 b) (if b AND 1 \<noteq> 0 then tape_put1 s buf else tape_put0 s buf)"

definition tape_put_byte :: "u32 \<Rightarrow> u8 \<Rightarrow> u8 list \<Rightarrow> u8 list" where
  "tape_put_byte s b buf = put_byte_bits s 8 b buf"

fun tape_put_array :: "u32 \<Rightarrow> u8 list \<Rightarrow> u8 list \<Rightarrow> u8 list" where
  "tape_put_array s [] buf = buf"
| "tape_put_array s (b # bs) buf = tape_put_array s bs (tape_put_byte s b buf)"

fun checksum_loop :: "u8 list \<Rightarrow> u32 \<Rightarrow> u32" where
  "checksum_loop [] acc = acc"
| "checksum_loop (b # bs) acc =
     (let acc = acc + ucast b in checksum_loop bs (if acc AND 0x10000 \<noteq> 0 then (acc AND 0xFFFF) + 1 else acc))"

definition tape_checksum :: "u8 list \<Rightarrow> u16" where
  "tape_checksum bs = ucast (checksum_loop bs 0)"

definition le_word :: "u8 \<Rightarrow> u8 \<Rightarrow> u16" where
  "le_word lo hi = ucast lo OR push_bit 8 (ucast hi)"

definition tape_header_name :: "u8 list \<Rightarrow> u8 list option \<Rightarrow> bool \<Rightarrow> u8 list" where
  "tape_header_name name_raw name pad =
     (if name_raw \<noteq> [] then take 16 (name_raw @ replicate 16 0)
      else case name of
        Some n \<Rightarrow> take 16 (n @ replicate 16 (if pad then 0x20 else 0))
      | None \<Rightarrow> replicate 16 0)"

definition tape_encode_bin_to_raw_internal :: "u32 \<Rightarrow> bool \<Rightarrow> u8 list \<Rightarrow> u8 list \<Rightarrow> u8 list option \<Rightarrow> u8 list option" where
  "tape_encode_bin_to_raw_internal s pad data name_raw name =
     (if length data < 4 then None
      else let addr = le_word (data ! 0) (data ! 1); len = le_word (data ! 2) (data ! 3)
           in if unat len > length data - 4 then None
              else let buf = tape_put_inm s [];
                       buf = tape_put_tune s 0x1000 buf;
                       buf = tape_put_outm s buf;
                       buf = tape_put1 s buf;
                       buf = tape_put_tune s 8 buf;
                       buf = tape_put_outm s buf;
                       buf = tape_put1 s buf;
                       buf = tape_put_byte s (ucast (addr AND 0xFF)) buf;
                       buf = tape_put_byte s (ucast (drop_bit 8 addr)) buf;
                       buf = tape_put_byte s (ucast (len AND 0xFF)) buf;
                       buf = tape_put_byte s (ucast (drop_bit 8 len)) buf;
                       buf = tape_put_array s (tape_header_name name_raw name pad) buf;
                       buf = tape_put_tune s 8 buf;
                       buf = tape_put_outm s buf;
                       buf = tape_put1 s buf;
                       payload = take (unat len) (drop 4 data);
                       buf = tape_put_array s payload buf;
                       check = tape_checksum payload;
                       buf = tape_put_byte s (ucast (check AND 0xFF)) buf;
                       buf = tape_put_byte s (ucast (drop_bit 8 check)) buf;
                       buf = tape_put_inm s buf;
                       buf = tape_put_tune s 0x100 buf;
                       buf = tape_put_outm s buf;
                       buf = tape_put1 s buf
                   in Some buf)"

definition bk_tape_encode_bin_to_raw :: "u8 list \<Rightarrow> u8 list option \<Rightarrow> bk_tape \<Rightarrow> u8 list option" where
  "bk_tape_encode_bin_to_raw data name t =
     tape_encode_bin_to_raw_internal (tape_synch t) (tape_name_pad_space t) data [] name"

section \<open>Decoding a recording\<close>

record tape_raw_reader =
  raw_data :: "u8 list"
  raw_pos :: nat
  old_strobe :: u16

type_synonym 'a reading = "tape_raw_reader \<Rightarrow> 'a option \<times> tape_raw_reader"

text \<open>The next step of a reading, unless it failed.\<close>

definition reading_then :: "'a reading \<Rightarrow> ('a \<Rightarrow> 'b reading) \<Rightarrow> 'b reading" where
  "reading_then m f r = (case m r of (None, r) \<Rightarrow> (None, r) | (Some x, r) \<Rightarrow> f x r)"

definition tape_raw_next_word :: "u16 reading" where
  "tape_raw_next_word r =
     (if raw_pos r + 1 \<ge> length (raw_data r) then (None, r)
      else (Some (push_bit 8 (ucast (raw_data r ! raw_pos r)) OR ucast (raw_data r ! (raw_pos r + 1))),
            r\<lparr>raw_pos := raw_pos r + 2\<rparr>))"

abbreviation left :: "tape_raw_reader \<Rightarrow> nat" where
  "left r \<equiv> length (raw_data r) - raw_pos r"

lemma next_word_left: "tape_raw_next_word r = (Some c, r') \<Longrightarrow> left r' < left r"
  by (auto simp: tape_raw_next_word_def split: if_splits)

text \<open>A strobe is a level and its length; pulses of length 0 and 1 are joined to their neighbours.\<close>

function tape_raw_get_strobe :: "(int \<times> bool) reading" where
  "tape_raw_get_strobe r =
     (case tape_raw_next_word r of
        (None, r) \<Rightarrow> (None, r)
      | (Some c, r) \<Rightarrow>
          if c AND 0x7FFF > 1
          then (Some (uint (old_strobe r AND 0x7FFF), bit (old_strobe r) 15), r\<lparr>old_strobe := c\<rparr>)
          else let r = r\<lparr>old_strobe := old_strobe r + 1\<rparr>
               in case tape_raw_next_word r of
                    (None, r) \<Rightarrow> (None, r)
                  | (Some c, r) \<Rightarrow> tape_raw_get_strobe (r\<lparr>old_strobe := old_strobe r + (c AND 0x7FFF)\<rparr>))"
  by auto

termination tape_raw_get_strobe
  by (relation "measure left") (auto dest!: next_word_left[OF sym])

declare tape_raw_get_strobe.simps [simp del]

lemma strobe_left: "tape_raw_get_strobe r = (Some x, r') \<Longrightarrow> left r' < left r"
proof (induction r rule: tape_raw_get_strobe.induct)
  case (1 r)
  then show ?case
    by (subst (asm) (2) tape_raw_get_strobe.simps)
      (fastforce split: prod.splits option.splits if_splits dest: next_word_left simp: Let_def)
qed

text \<open>The next strobe of a level.\<close>

function find_level :: "bool \<Rightarrow> int reading" where
  "find_level polarity r =
     (case tape_raw_get_strobe r of
        (None, r) \<Rightarrow> (None, r)
      | (Some (len, val), r) \<Rightarrow> if val \<noteq> polarity then find_level polarity r else (Some len, r))"
  by auto

termination find_level
  by (relation "measure (\<lambda>(_, r). left r)") (auto dest: strobe_left[OF sym])

declare find_level.simps [simp del]

definition tape_read_bit_raw :: "bool \<Rightarrow> int reading" where
  "tape_read_bit_raw polarity =
     reading_then (find_level polarity) (\<lambda>len1.
     reading_then tape_raw_get_strobe (\<lambda>(len2, _).
     reading_then tape_raw_get_strobe (\<lambda>(len3, _).
     reading_then tape_raw_get_strobe (\<lambda>(len4, _) r.
       (Some ((if len1 > len3 then len1 else len3) + (if len2 > len4 then len2 else len4)), r)))))"

section \<open>Finding the file\<close>

text \<open>The pilot tone: 2049 strobes none of which is shorter than the last by more than 150 ticks.\<close>

function pilot_loop :: "int \<Rightarrow> int \<Rightarrow> bool reading" where
  "pilot_loop strobe_cnt strobe_len r =
     (case tape_raw_get_strobe r of
        (None, r) \<Rightarrow> (None, r)
      | (Some (len, val), r) \<Rightarrow>
          let (strobe_cnt, strobe_len) = (if strobe_len - len > 150 then (0, 0) else (strobe_cnt + 1, len))
          in if strobe_cnt > 0x800 then (Some val, r) else pilot_loop strobe_cnt strobe_len r)"
  by auto

termination pilot_loop
  by (relation "measure (\<lambda>(_, _, r). left r)") (auto dest: strobe_left[OF sym])

declare pilot_loop.simps [simp del]

fun bit_sum_loop :: "bool \<Rightarrow> nat \<Rightarrow> int \<Rightarrow> int reading" where
  "bit_sum_loop val 0 acc r = (Some acc, r)"
| "bit_sum_loop val (Suc n) acc r = reading_then (tape_read_bit_raw val) (\<lambda>bit. bit_sum_loop val n (acc + bit)) r"

text \<open>The first long strobe: how many strobes were read, its length and its level.\<close>

function marker_loop :: "int \<Rightarrow> int \<Rightarrow> (int \<times> int \<times> bool) reading" where
  "marker_loop threshold num r =
     (case tape_raw_get_strobe r of
        (None, r) \<Rightarrow> (None, r)
      | (Some (len, val), r) \<Rightarrow>
          if len < threshold then marker_loop threshold (num + 1) r else (Some (num + 1, len, val), r))"
  by auto

termination marker_loop
  by (relation "measure (\<lambda>(_, _, r). left r)") (auto dest: strobe_left[OF sym])

declare marker_loop.simps [simp del]

definition tape_find_header :: "(bool \<times> int) reading" where
  "tape_find_header =
     reading_then (pilot_loop 0 0) (\<lambda>val.
     reading_then (bit_sum_loop val 0x80 0) (\<lambda>acc.
       let mean = drop_bit 7 acc; threshold = mean + drop_bit 1 mean
       in reading_then (marker_loop threshold 0) (\<lambda>(num, len, val) r.
            if len > 2 * threshold \<or> num < 100 then (None, r)
            else (Some (val, threshold), snd (tape_read_bit_raw val r)))))"

function array_marker :: "bool \<Rightarrow> int \<Rightarrow> int reading" where
  "array_marker polarity threshold r =
     (case find_level polarity r of
        (None, r) \<Rightarrow> (None, r)
      | (Some l, r) \<Rightarrow> if l < threshold then array_marker polarity threshold r else (Some l, r))"
  by auto

lemma level_left: "find_level p r = (Some x, r') \<Longrightarrow> left r' < left r"
proof (induction p r rule: find_level.induct)
  case (1 p r)
  then show ?case
    by (subst (asm) (2) find_level.simps)
      (fastforce split: prod.splits option.splits if_splits dest: strobe_left)
qed

termination array_marker
  by (relation "measure (\<lambda>(_, _, r). left r)") (auto dest: level_left[OF sym])

declare array_marker.simps [simp del]

text \<open>\<open>n\<close> bits, the first in the lowest place; then bytes.\<close>

fun read_bits :: "bool \<Rightarrow> int \<Rightarrow> nat \<Rightarrow> nat \<Rightarrow> 'w::len word \<Rightarrow> 'w word reading" where
  "read_bits polarity threshold i 0 b r = (Some b, r)"
| "read_bits polarity threshold i (Suc n) b r =
     reading_then (tape_read_bit_raw polarity) (\<lambda>v.
       read_bits polarity threshold (i + 1) n (if v > threshold then b OR push_bit i 1 else b)) r"

fun read_bytes :: "bool \<Rightarrow> int \<Rightarrow> nat \<Rightarrow> u8 list \<Rightarrow> u8 list reading" where
  "read_bytes polarity threshold 0 out r = (Some out, r)"
| "read_bytes polarity threshold (Suc n) out r =
     reading_then (read_bits polarity threshold 0 8 0) (\<lambda>b. read_bytes polarity threshold n (out @ [b])) r"

definition tape_read_array_raw :: "bool \<Rightarrow> int \<Rightarrow> nat \<Rightarrow> u8 list reading" where
  "tape_read_array_raw polarity threshold len =
     reading_then (array_marker polarity threshold) (\<lambda>l r.
       if l > threshold * 2 then (None, r)
       else reading_then (tape_read_bit_raw polarity) (\<lambda>_. read_bytes polarity threshold len []) r)"

text \<open>The name without the blanks and zeros at its end, and as the 16 bytes of the header.\<close>

fun strip_name :: "u8 list \<Rightarrow> u8 list" where
  "strip_name [] = []"
| "strip_name (c # cs) = (if c = 0x20 \<or> c = 0 then strip_name cs else c # cs)"

definition tape_name_out :: "nat \<Rightarrow> u8 list \<Rightarrow> u8 list" where
  "tape_name_out name_size header =
     (let n = min (name_size - 1) 16 in rev (strip_name (rev (take n (drop 4 header)))))"

definition tape_name_raw :: "nat \<Rightarrow> u8 list \<Rightarrow> u8 list" where
  "tape_name_raw name_raw_size header =
     (let n = min name_raw_size 16 in take n (drop 4 header) @ replicate (name_raw_size - n) 0)"

text \<open>The file, its name as a string (cut to \<open>name_size - 1\<close> characters) and its raw name; an
  empty list stands for a name buffer that is not given.\<close>

definition decode_payload :: "nat \<Rightarrow> nat \<Rightarrow> bool \<Rightarrow> int \<Rightarrow> u8 list \<Rightarrow> (u8 list \<times> u8 list \<times> u8 list) reading" where
  "decode_payload name_size name_raw_size polarity threshold header =
     (let addr = le_word (header ! 0) (header ! 1); len = le_word (header ! 2) (header ! 3)
      in reading_then (tape_read_array_raw polarity threshold (unat len)) (\<lambda>payload.
         reading_then (read_bits polarity threshold 0 16 (0 :: u16)) (\<lambda>checksum r.
           if checksum \<noteq> tape_checksum payload then (None, r)
           else (Some ([ucast (addr AND 0xFF), ucast (drop_bit 8 addr), ucast (len AND 0xFF), ucast (drop_bit 8 len)] @ payload,
                       tape_name_out name_size header, tape_name_raw name_raw_size header), r))))"

definition decode_file :: "nat \<Rightarrow> nat \<Rightarrow> (u8 list \<times> u8 list \<times> u8 list) reading" where
  "decode_file name_size name_raw_size =
     reading_then tape_find_header (\<lambda>(polarity, threshold).
     reading_then (tape_read_array_raw polarity threshold 20) (decode_payload name_size name_raw_size polarity threshold))"

definition bk_tape_decode_raw_to_bin :: "u8 list \<Rightarrow> nat \<Rightarrow> nat \<Rightarrow> (u8 list \<times> u8 list \<times> u8 list) option" where
  "bk_tape_decode_raw_to_bin raw name_size name_raw_size =
     (if length raw < 4 then None
      else fst (decode_file name_size name_raw_size \<lparr>raw_data = raw, raw_pos = 0, old_strobe = 0\<rparr>))"

section \<open>The recorder\<close>

text \<open>The environment may force the pulse length: its value is an argument of the initialisation.\<close>

definition bk_tape_init :: "nat option \<Rightarrow> bk_tape \<Rightarrow> bk_tape" where
  "bk_tape_init synch_env t =
     (case synch_env of
        None \<Rightarrow> t
      | Some v \<Rightarrow> if v > 0 \<and> v \<le> 100000 then t\<lparr>tape_synch := of_nat v, tape_synch_forced := True\<rparr> else t)"

definition bk_tape_set_name_pad :: "bool \<Rightarrow> bk_tape \<Rightarrow> bk_tape" where
  "bk_tape_set_name_pad use_space t = t\<lparr>tape_name_pad_space := use_space\<rparr>"

definition bk_tape_reset :: "bk_tape \<Rightarrow> bk_tape" where
  "bk_tape_reset t =
     t\<lparr>tape_ticks := 0, tape_read_ticks := 0, tape_write_ticks := 0, tape_read_val := True, tape_write_val := False,
       tape_status := True, tape_in_pos := 0\<rparr>"

definition bk_tape_set_tick_hz :: "u32 \<Rightarrow> bk_tape \<Rightarrow> bk_tape" where
  "bk_tape_set_tick_hz hz t =
     (if tape_synch_forced t \<or> hz = 0 then t
      else let sync = hz div 3000 in t\<lparr>tape_synch := (if sync = 0 then 1 else sync)\<rparr>)"

definition bk_tape_tick :: "bk_tape \<Rightarrow> bk_tape" where
  "bk_tape_tick t = t\<lparr>tape_ticks := tape_ticks t + 1\<rparr>"

abbreviation TAPE_RELAY_DELAY :: u64 where "TAPE_RELAY_DELAY \<equiv> 10000"

definition bk_tape_write :: "bool \<Rightarrow> bool \<Rightarrow> bk_tape \<Rightarrow> bk_tape" where
  "bk_tape_write motor_on val t =
     (let stopped = (\<not> motor_on);
          t = (if stopped \<noteq> tape_status t then
                 let t = t\<lparr>tape_ticks := tape_ticks t + TAPE_RELAY_DELAY, tape_status := stopped\<rparr>
                 in if \<not> stopped then t\<lparr>tape_read_ticks := tape_ticks t, tape_write_ticks := tape_ticks t\<rparr>
                    else if tape_out_enabled t
                    then (tape_out_append (tape_write_val t) (tape_ticks t - tape_write_ticks t) t)\<lparr>tape_write_ticks := tape_ticks t\<rparr>
                    else t
               else t)
      in if \<not> tape_status t \<and> val \<noteq> tape_write_val t then
           let delta = tape_ticks t - tape_write_ticks t;
               t = (if delta \<noteq> 0 then tape_out_append (tape_write_val t) delta t else t)
           in t\<lparr>tape_write_ticks := tape_ticks t, tape_write_val := val\<rparr>
         else t)"

text \<open>The read head: pulses are taken from the recording until one reaches beyond the present tick.\<close>

function play_loop :: "u8 list \<Rightarrow> bk_tape \<Rightarrow> bk_tape" where
  "play_loop data t =
     (if tape_in_pos t + 1 < length data \<and> tape_ticks t > tape_read_ticks t
      then let delta = push_bit 8 (ucast (data ! tape_in_pos t)) OR ucast (data ! (tape_in_pos t + 1)) :: u16
           in play_loop data (t\<lparr>tape_in_pos := tape_in_pos t + 2, tape_read_val := bit delta 15,
                               tape_read_ticks := tape_read_ticks t + ucast (delta AND 0x7FFF)\<rparr>)
      else t)"
  by auto

termination play_loop
  by (relation "measure (\<lambda>(data, t). length data - tape_in_pos t)") (auto simp: Let_def)

declare play_loop.simps [simp del]

definition bk_tape_read :: "bk_tape \<Rightarrow> bool \<times> bk_tape" where
  "bk_tape_read t =
     (let t' = (case tape_in t of
                  Some data \<Rightarrow>
                    if tape_status t \<or> tape_in_pos t + 1 \<ge> length data
                    then t\<lparr>tape_read_val := \<not> tape_read_val t\<rparr> else play_loop data t
                | None \<Rightarrow> t\<lparr>tape_read_val := \<not> tape_read_val t\<rparr>)
      in (tape_read_val t', t'))"

definition bk_tape_set_input :: "u8 list \<Rightarrow> bk_tape \<Rightarrow> int \<times> bk_tape" where
  "bk_tape_set_input data t =
     (if data = [] then (-1, t\<lparr>tape_in := None, tape_in_pos := 0\<rparr>)
      else (0, t\<lparr>tape_in := Some data, tape_in_pos := 0\<rparr>))"

definition bk_tape_set_input_bin :: "u8 list \<Rightarrow> u8 list option \<Rightarrow> bk_tape \<Rightarrow> int \<times> bk_tape" where
  "bk_tape_set_input_bin data name t =
     (case bk_tape_encode_bin_to_raw data name t of None \<Rightarrow> (-1, t) | Some raw \<Rightarrow> bk_tape_set_input raw t)"

definition bk_tape_set_output_enabled :: "bool \<Rightarrow> bk_tape \<Rightarrow> bk_tape" where
  "bk_tape_set_output_enabled enable t =
     (let t = t\<lparr>tape_out_enabled := enable\<rparr> in if \<not> enable then t else t\<lparr>tape_out := []\<rparr>)"

definition bk_tape_output_data :: "bk_tape \<Rightarrow> u8 list \<times> bk_tape" where
  "bk_tape_output_data t =
     (let delta = tape_ticks t - tape_write_ticks t;
          t = (if tape_out_enabled t \<and> \<not> tape_status t \<and> delta \<noteq> 0
               then (tape_out_append (tape_write_val t) delta t)\<lparr>tape_write_ticks := tape_ticks t\<rparr> else t)
      in (tape_out t, t))"

definition bk_tape_output_clear :: "bk_tape \<Rightarrow> bk_tape" where
  "bk_tape_output_clear t = t\<lparr>tape_out := []\<rparr>"

definition bk_tape_rewind :: "bk_tape \<Rightarrow> bk_tape" where
  "bk_tape_rewind t = t\<lparr>tape_in_pos := 0, tape_read_ticks := tape_ticks t\<rparr>"

end
