(* ===== verification/BkTapeCode.thy ===== *)
theory BkTapeCode
  imports BkTape
begin

text \<open>
  A binary file coded as pulses is found and decoded again. \<open>gives m S x S'\<close> is the triple of the
  decoder: on a reader whose strobes to come are \<open>S\<close>, the reading \<open>m\<close> succeeds with \<open>x\<close> and leaves
  \<open>S'\<close>; every part of the decoder has its triple, and they compose along \<open>reading_then\<close>.
\<close>

section \<open>Pulses\<close>

type_synonym pulse = "bool \<times> nat"

definition strobe_word :: "pulse \<Rightarrow> u16" where
  "strobe_word p = of_nat (snd p) OR (if fst p then 0x8000 else 0)"

definition code :: "pulse list \<Rightarrow> u8 list" where
  "code ps = concat (map (\<lambda>(v, d). chunk_bytes v (of_nat d)) ps)"

definition audible_pulse :: "pulse \<Rightarrow> bool" where
  "audible_pulse p = (2 \<le> snd p \<and> snd p < 32768)"

lemma code_simps [simp]: "code [] = []" "code ((v, d) # ps) = chunk_bytes v (of_nat d) @ code ps" "code (ps @ qs) = code ps @ code qs"
  by (simp_all add: code_def)

lemma append_code:
  assumes "0 < d" "d < 32768"
  shows "tape_in_append v (of_nat d) buf = buf @ code [(v, d)]"
proof -
  have u: "unat (of_nat d :: u16) = d" using assms by (simp add: unsigned_of_nat take_bit_nat_eq_self)
  then have "(of_nat d :: u16) \<noteq> 0" "\<not> (32767 :: u16) < of_nat d" using assms by (auto simp: word_less_nat_alt)
  then show ?thesis by (simp add: tape_in_append.simps[of v "of_nat d"] tape_in_append.simps[of v 0])
qed

section \<open>The coder\<close>

definition alt :: "bool \<Rightarrow> nat \<Rightarrow> nat \<Rightarrow> pulse list" where
  "alt v n k = map (\<lambda>i. (v = even i, n)) [0..<k]"

definition bit_pulses :: "nat \<Rightarrow> bool \<Rightarrow> pulse list" where
  "bit_pulses n b = (let d = (if b then 2 * n else n) in [(True, d), (False, d), (True, n), (False, n)])"

definition bits_pulses :: "nat \<Rightarrow> bool list \<Rightarrow> pulse list" where
  "bits_pulses n bs = concat (map (bit_pulses n) bs)"

definition marker :: "nat \<Rightarrow> pulse list" where
  "marker n = [(True, 4 * n), (False, 4 * n)] @ bit_pulses n True"

definition byte_bits :: "u8 \<Rightarrow> bool list" where
  "byte_bits b = map (bit b) [0..<8]"

lemma alt_Suc: "alt v n (Suc k) = (v, n) # alt (\<not> v) n k"
  by (simp add: alt_def upt_conv_Cons map_Suc_upt[symmetric] del: upt_Suc) auto

lemma alt_0 [simp]: "alt v n 0 = []"
  by (simp add: alt_def)

lemma alt_split: "alt v n (k + m) = alt v n k @ alt (v = even k) n m"
proof (induction k arbitrary: v)
  case (Suc k)
  have "((\<not> v) = even k) = (v = even (Suc k))" by auto
  then show ?case using Suc by (simp add: alt_Suc)
qed simp

definition synch_ok :: "u32 \<Rightarrow> nat \<Rightarrow> bool" where
  "synch_ok s n = (n = unat s \<and> 2 \<le> n \<and> n \<le> 4095)"

lemma pulse_lengths:
  assumes "synch_ok s n"
  shows "(ucast s :: u16) = of_nat n" "(ucast (2 * s) :: u16) = of_nat (2 * n)"
    "(ucast (4 * s) :: u16) = of_nat (4 * n)" "(ucast (8 * s) :: u16) = of_nat (8 * n)"
proof -
  have n: "n = unat s" "n \<le> 4095" using assms by (simp_all add: synch_ok_def)
  have m: "unat (k * s) = unat k * n" if "unat k \<le> 8" for k
    using mult_le_mono[OF that n(2)] unfolding n(1) by (simp add: unat_mult_lem[THEN iffD1])
  have e: "(ucast x :: u16) = of_nat (unat x)" for x :: u32 by (simp add: word_unat_eq_iff unsigned_ucast_eq unsigned_of_nat)
  show "(ucast s :: u16) = of_nat n" "(ucast (2 * s) :: u16) = of_nat (2 * n)"
    "(ucast (4 * s) :: u16) = of_nat (4 * n)" "(ucast (8 * s) :: u16) = of_nat (8 * n)"
    using m[of 1] m[of 2] m[of 4] m[of 8] by (simp_all only: e) simp_all
qed

lemma append: "synch_ok s n \<Longrightarrow> k \<in> {1, 2, 4, 8} \<Longrightarrow> tape_in_append v (of_nat (k * n)) buf = buf @ code [(v, k * n)]"
  by (intro append_code) (auto simp: synch_ok_def)

lemma put_parts:
  assumes "synch_ok s n"
  shows "tape_put_si s buf = buf @ code (alt True n 2)"
  "tape_put0 s buf = buf @ code (bit_pulses n False)" "tape_put1 s buf = buf @ code (bit_pulses n True)"
  "tape_put_inm s buf = buf @ code [(True, 8 * n)]"
  "tape_put_outm s buf = buf @ code [(True, 4 * n), (False, 4 * n)]"
  using append[OF assms, of 1] append[OF assms, of 2] append[OF assms, of 4] append[OF assms, of 8]
  by (simp_all add: pulse_lengths[OF assms] tape_put_si_def tape_put0_def tape_put1_def tape_put_inm_def tape_put_outm_def 
      bit_pulses_def Let_def alt_Suc numeral_2_eq_2)

lemma put_tune: "synch_ok s n \<Longrightarrow> tape_put_tune s k buf = buf @ code (alt True n (2 * k))"
proof (induction k arbitrary: buf)
  case (Suc k)
  have "alt True n (2 * Suc k) = alt True n 2 @ alt True n (2 * k)" using alt_split[of True n 2 "2 * k"] by simp
  then show ?case using Suc by (simp add: put_parts)
qed simp

lemma put_byte_bits: "synch_ok s n \<Longrightarrow> put_byte_bits s k b buf = buf @ code (bits_pulses n (map (bit b) [0..<k]))"
proof (induction k arbitrary: b buf)
  case (Suc k)
  have "map (bit b) [0..<Suc k] = bit b 0 # map (bit (drop_bit 1 b)) [0..<k]"
    by (simp add: upt_conv_Cons map_Suc_upt[symmetric] bit_simps del: upt_Suc)
  moreover have "b AND 1 \<noteq> 0 \<longleftrightarrow> bit b 0" by (simp add: bit_0 odd_iff_mod_2_eq_one and_one_eq)
  ultimately show ?case using Suc by (simp add: put_parts bits_pulses_def del: upt_Suc)
qed (simp add: bits_pulses_def)

lemma put_byte: "synch_ok s n \<Longrightarrow> tape_put_byte s b buf = buf @ code (bits_pulses n (byte_bits b))"
  by (simp add: tape_put_byte_def put_byte_bits byte_bits_def)

lemma put_array: "synch_ok s n \<Longrightarrow> tape_put_array s bs buf = buf @ code (bits_pulses n (concat (map byte_bits bs)))"
  by (induction bs arbitrary: buf) (simp_all add: put_byte bits_pulses_def)

section \<open>The decoder, step by step\<close>

definition stream :: "tape_raw_reader \<Rightarrow> pulse list \<Rightarrow> bool" where
  "stream r S = (\<exists>old ps. S = old # ps \<and> raw_pos r \<le> length (raw_data r) \<and> drop (raw_pos r) (raw_data r) = code ps \<and>
     old_strobe r = strobe_word old \<and> snd old < 32768 \<and> list_all audible_pulse ps)"

definition gives :: "'a reading \<Rightarrow> pulse list \<Rightarrow> 'a \<Rightarrow> pulse list \<Rightarrow> bool" where
  "gives m S x S' = (\<forall>r. stream r S \<longrightarrow> (\<exists>r'. m r = (Some x, r') \<and> stream r' S'))"

lemma gives_then: "gives m S x S' \<Longrightarrow> gives (f x) S' y S'' \<Longrightarrow> gives (reading_then m f) S y S''"
  unfolding gives_def reading_then_def by fastforce

lemma gives_return: "gives (\<lambda>r. (Some x, r)) S x S"
  by (simp add: gives_def)

lemma of_nat_bit15: "d < 32768 \<Longrightarrow> \<not> bit (of_nat d :: u16) 15"
  by (simp only: bit_of_nat_iff bit_iff_odd[of d]) simp

lemma strobe_word_bits:
  assumes "d < 32768"
  shows "strobe_word (v, d) AND 0x7FFF = of_nat d" "bit (strobe_word (v, d)) 15 = v"
  using of_nat_bit15[OF assms] by (simp_all add: strobe_word_def u16_eq_bits bit_simps)

lemma chunk_word:
  assumes "d < 32768" "chunk_bytes v (of_nat d) = [a, b]"
  shows "push_bit 8 (ucast a) OR ucast b = strobe_word (v, d)"
  using of_nat_bit15[OF assms(1)] assms(2) by (auto simp: chunk_bytes_def strobe_word_def u16_eq_bits bit_simps)

lemma next_word_stream:
  assumes "drop (raw_pos r) (raw_data r) = chunk_bytes v (of_nat d) @ rest" "raw_pos r \<le> length (raw_data r)" "d < 32768"
  shows "tape_raw_next_word r = (Some (strobe_word (v, d)), r\<lparr>raw_pos := raw_pos r + 2\<rparr>)"
    "raw_pos r + 2 \<le> length (raw_data r)" "drop (raw_pos r + 2) (raw_data r) = rest"
proof -
  obtain a b where ab: "chunk_bytes v (of_nat d) = [a, b]" by (simp add: chunk_bytes_def)
  have len: "length (raw_data r) - raw_pos r = Suc (Suc (length rest))" using arg_cong[OF assms(1), of length] by (simp add: ab)
  then show l: "raw_pos r + 2 \<le> length (raw_data r)" by simp
  have "raw_data r ! raw_pos r = a" "raw_data r ! (raw_pos r + 1) = b"
    using assms(1) l nth_drop[of "raw_pos r" "raw_data r" 0] nth_drop[of "raw_pos r" "raw_data r" 1] by (simp_all add: ab)
  then show "tape_raw_next_word r = (Some (strobe_word (v, d)), r\<lparr>raw_pos := raw_pos r + 2\<rparr>)"
    using l chunk_word[OF assms(3) ab] by (simp add: tape_raw_next_word_def)
  have "drop (raw_pos r + 2) (raw_data r) = drop 2 (drop (raw_pos r) (raw_data r))" by (simp add: add.commute)
  then show "drop (raw_pos r + 2) (raw_data r) = rest" by (simp add: assms(1) ab)
qed

lemma gives_strobe: "gives tape_raw_get_strobe (x # y # S) (int (snd x), fst x) (y # S)"
  unfolding gives_def
proof (intro allI impI)
  fix r assume "stream r (x # y # S)"
  then have r: "raw_pos r \<le> length (raw_data r)" "drop (raw_pos r) (raw_data r) = code (y # S)" "old_strobe r = strobe_word x"
    "snd x < 32768" "audible_pulse y" "list_all audible_pulse S" by (auto simp: stream_def)
  obtain v d where y: "y = (v, d)" by force
  have d: "2 \<le> d" "d < 32768" using r(5) by (simp_all add: audible_pulse_def y)
  note w = next_word_stream[OF _ r(1) d(2), of v "code S"]
  have u: "unat (of_nat d :: u16) = d" using d by (simp add: unsigned_of_nat take_bit_nat_eq_self)
  then have "1 < strobe_word y AND 0x7FFF" using d by (simp add: y strobe_word_bits word_less_nat_alt)
  moreover obtain v' d' where x: "x = (v', d')" by force
  moreover have "uint (of_nat d' :: u16) = int d'" if "d' < 32768" using that by (simp add: unsigned_of_nat take_bit_nat_eq_self uint_nat)
  ultimately have "tape_raw_get_strobe r = (Some (int (snd x), fst x), r\<lparr>raw_pos := raw_pos r + 2, old_strobe := strobe_word y\<rparr>)"
    using r w by (subst tape_raw_get_strobe.simps) (simp add: y strobe_word_bits)
  moreover have "stream (r\<lparr>raw_pos := raw_pos r + 2, old_strobe := strobe_word y\<rparr>) (y # S)"
    using w r d by (simp add: stream_def y)
  ultimately show "\<exists>r'. tape_raw_get_strobe r = (Some (int (snd x), fst x), r') \<and> stream r' (y # S)" by blast
qed

lemma strobe_from:
  assumes "stream r (x # y # S)"
  obtains r' where "tape_raw_get_strobe r = (Some (int (snd x), fst x), r')" "stream r' (y # S)"
  using gives_strobe[of x y S, unfolded gives_def] assms by blast

text \<open>A strobe of the other level is skipped by everything that looks for a level.\<close>

lemma level_skip:
  assumes "stream r (x # y # S)" "fst x \<noteq> p"
  obtains r' where "find_level p r = find_level p r'" "stream r' (y # S)"
proof -
  obtain r' where r': "tape_raw_get_strobe r = (Some (int (snd x), fst x), r')" "stream r' (y # S)" using strobe_from[OF assms(1)] by blast
  show ?thesis using that[of r'] r' assms(2) by (simp add: find_level.simps[of p r])
qed

lemma gives_level: "gives (find_level (fst x)) (x # y # S) (int (snd x)) (y # S)"
  unfolding gives_def
proof (intro allI impI)
  fix r assume "stream r (x # y # S)"
  from strobe_from[OF this] obtain r' where "tape_raw_get_strobe r = (Some (int (snd x), fst x), r')" "stream r' (y # S)" by blast
  then show "\<exists>r'. find_level (fst x) r = (Some (int (snd x)), r') \<and> stream r' (y # S)" by (simp add: find_level.simps[of _ r])
qed

lemma gives_bit:
  "gives (tape_read_bit_raw v) ((v, a) # (w, b) # (x, c) # (y, d) # e # S) (int (max a c + max b d)) (e # S)"
proof -
  have l: "gives (find_level v) ((v, a) # y # T) (int a) (y # T)" for y T using gives_level[of "(v, a)"] by simp
  have m: "(if int a > int c then int a else int c) + (if int b > int d then int b else int d) = int (max a c + max b d)" by auto
  have last: "gives (\<lambda>r. (Some ((if int a > int c then int a else int c) + (if int b > int d then int b else int d)), r)) S' (int (max a c + max b d)) S'" for S'
    unfolding m by (rule gives_return)
  show ?thesis unfolding tape_read_bit_raw_def
    by (rule gives_then[OF l], rule gives_then[OF gives_strobe], simp only: split prod.sel,
        rule gives_then[OF gives_strobe], simp only: split prod.sel, rule gives_then[OF gives_strobe],
        simp only: split prod.sel, rule last)
qed

lemma gives_bit_skip:
  assumes "fst x \<noteq> p" "gives (tape_read_bit_raw p) (y # S) v S'"
  shows "gives (tape_read_bit_raw p) (x # y # S) v S'"
  unfolding gives_def
proof (intro allI impI)
  fix r assume "stream r (x # y # S)"
  from level_skip[OF this assms(1)] obtain r' where r': "find_level p r = find_level p r'" "stream r' (y # S)" by blast
  have "tape_read_bit_raw p r = tape_read_bit_raw p r'" by (simp add: tape_read_bit_raw_def reading_then_def r'(1))
  then show "\<exists>r'. tape_read_bit_raw p r = (Some v, r') \<and> stream r' S'" using assms(2) r'(2) by (simp add: gives_def)
qed

section \<open>Finding the header\<close>

lemma neq_Cons: "S \<noteq> [] \<Longrightarrow> \<exists>y T. S = y # T"
  by (cases S) simp_all

lemma gives_strobe_ne: "S \<noteq> [] \<Longrightarrow> gives tape_raw_get_strobe (x # S) (int (snd x), fst x) S"
  using gives_strobe by (cases S) simp_all

lemma alt_append_ne: "S \<noteq> [] \<Longrightarrow> alt v n k @ S \<noteq> []"
  by simp

lemma gives_pilot_step:
  assumes "S \<noteq> []" "stl - int (snd x) \<le> 150" "cnt + 1 \<le> 0x800" "gives (pilot_loop (cnt + 1) (int (snd x))) S v S'"
  shows "gives (pilot_loop cnt stl) (x # S) v S'"
  unfolding gives_def
proof (intro allI impI)
  fix r assume "stream r (x # S)"
  then obtain r' where "tape_raw_get_strobe r = (Some (int (snd x), fst x), r')" "stream r' S"
    using gives_strobe_ne[OF assms(1)] unfolding gives_def by blast
  then show "\<exists>r'. pilot_loop cnt stl r = (Some v, r') \<and> stream r' S'"
    using assms(2-4) by (simp add: pilot_loop.simps[of cnt stl r] gives_def)
qed

lemma gives_pilot_last:
  assumes "S \<noteq> []" "stl - int (snd x) \<le> 150" "cnt = 0x800"
  shows "gives (pilot_loop cnt stl) (x # S) (fst x) S"
  unfolding gives_def
proof (intro allI impI)
  fix r assume "stream r (x # S)"
  then obtain r' where "tape_raw_get_strobe r = (Some (int (snd x), fst x), r')" "stream r' S"
    using gives_strobe_ne[OF assms(1)] unfolding gives_def by blast
  then show "\<exists>r'. pilot_loop cnt stl r = (Some (fst x), r') \<and> stream r' S"
    using assms(2-3) by (simp add: pilot_loop.simps[of "0x800" stl r])
qed

lemma gives_pilot_reset:
  assumes "S \<noteq> []" "stl - int (snd x) > 150" "gives (pilot_loop 0 0) S v S'"
  shows "gives (pilot_loop cnt stl) (x # S) v S'"
  unfolding gives_def
proof (intro allI impI)
  fix r assume "stream r (x # S)"
  then obtain r' where "tape_raw_get_strobe r = (Some (int (snd x), fst x), r')" "stream r' S"
    using gives_strobe_ne[OF assms(1)] unfolding gives_def by blast
  then show "\<exists>r'. pilot_loop cnt stl r = (Some v, r') \<and> stream r' S'"
    using assms(2-3) by (simp add: pilot_loop.simps[of cnt stl r] gives_def)
qed

text \<open>The last of \<open>k\<close> alternating levels.\<close>

lemma pilot_alt:
  assumes "S \<noteq> []" "stl \<le> int n + 150" "k < 0x801"
  shows "gives (pilot_loop (0x800 - int k) stl) (alt v n (Suc k) @ S) (v = even k) S"
  using assms(2,3)
proof (induction k arbitrary: v stl)
  case 0
  then show ?case using gives_pilot_last[of S stl "(v, n)" "0x800"] assms(1) by (simp add: alt_Suc)
next
  case (Suc k)
  have "gives (pilot_loop (0x800 - int k) (int n)) (alt (\<not> v) n (Suc k) @ S) ((\<not> v) = even k) S"
    using Suc by simp
  moreover have "((\<not> v) = even k) = (v = even (Suc k))" by auto
  ultimately show ?case
    using gives_pilot_step[of "alt (\<not> v) n (Suc k) @ S" stl "(v, n)" "0x800 - int (Suc k)"] assms(1) Suc.prems
    by (simp add: alt_Suc[of v n "Suc k"])
qed

text \<open>The pilot tone of the coder: a long strobe before it does not matter, whatever its effect on the count.\<close>

lemma pilot_found:
  assumes "2 \<le> n" "n \<le> 4095" "S \<noteq> []"
  obtains v m where "gives (pilot_loop 0 0) ((False, 0) # (True, 8 * n) # alt True n 8192 @ S) v (alt (\<not> v) n m @ S)" "5000 \<le> m"
proof -
  have first: "gives (pilot_loop 0 0) ((False, 0) # (True, 8 * n) # alt True n 8192 @ S) v S'"
    if "gives (pilot_loop 2 (int (8 * n))) (alt True n 8192 @ S) v S'" for v S'
  proof -
    have "gives (pilot_loop 1 0) ((True, 8 * n) # alt True n 8192 @ S) v S'"
      using gives_pilot_step[of "alt True n 8192 @ S" 0 "(True, 8 * n)" 1] assms(3) that by simp
    then show ?thesis using gives_pilot_step[of "(True, 8 * n) # alt True n 8192 @ S" 0 "(False, 0)" 0] by simp
  qed
  have split: "alt True n 8192 = alt True n (Suc k) @ alt (odd k) n (8191 - k)" if "k < 8191" for k
    using alt_split[of True n "Suc k" "8191 - k"] that by simp
  show ?thesis
  proof (cases "7 * n \<le> 150")
    case True
    have "gives (pilot_loop 2 (int (8 * n))) (alt True n (Suc 0x7FE) @ alt False n 6145 @ S) True (alt False n 6145 @ S)"
      using pilot_alt[of "alt False n 6145 @ S" "int (8 * n)" n "0x7FE" True] assms(3) True by simp
    then have "gives (pilot_loop 2 (int (8 * n))) (alt True n 8192 @ S) True (alt (\<not> True) n 6145 @ S)"
      using split[of "0x7FE"] by simp
    from first[OF this] show ?thesis by (rule that) simp
  next
    case False
    have "gives (pilot_loop 0 0) (alt False n (Suc 0x800) @ alt True n 6142 @ S) False (alt True n 6142 @ S)"
      using pilot_alt[of "alt True n 6142 @ S" 0 n "0x800" False] assms(3) by simp
    moreover have "alt True n 8192 = (True, n) # alt False n (Suc 0x800) @ alt True n 6142"
      using alt_Suc[of True n 8191] alt_split[of False n "Suc 0x800" 6142] by simp
    ultimately have "gives (pilot_loop 2 (int (8 * n))) (alt True n 8192 @ S) False (alt (\<not> False) n 6142 @ S)"
      using gives_pilot_reset[of "alt False n (Suc 0x800) @ alt True n 6142 @ S" "int (8 * n)" "(True, n)" False _ 2] False assms(3) by simp
    from first[OF this] show ?thesis by (rule that) simp
  qed
qed

text \<open>The mean of 128 bits of the pilot tone gives the threshold.\<close>

lemma alt_4: "alt v n (4 + m) = (v, n) # (\<not> v, n) # (v, n) # (\<not> v, n) # alt v n m"
proof -
  have "alt v n (4 + m) = alt v n (Suc (Suc (Suc (Suc m))))" by (simp add: numeral_eq_Suc)
  then show ?thesis by (simp add: alt_Suc)
qed

lemma gives_tone_bit:
  assumes "S \<noteq> []"
  shows "gives (tape_read_bit_raw v) (alt v n (4 * Suc k) @ S) (int (2 * n)) (alt v n (4 * k) @ S)"
    "gives (tape_read_bit_raw v) ((\<not> v, n) # alt v n (4 * Suc k) @ S) (int (2 * n)) (alt v n (4 * k) @ S)"
proof -
  obtain y T where y: "alt v n (4 * k) @ S = y # T" using assms by (cases "alt v n (4 * k) @ S") auto
  have e: "alt v n (4 * Suc k) = (v, n) # (\<not> v, n) # (v, n) # (\<not> v, n) # alt v n (4 * k)"
    using alt_4[of v n "4 * k"] by simp
  have b: "gives (tape_read_bit_raw v) ((v, n) # (\<not> v, n) # (v, n) # (\<not> v, n) # y # T) (int (2 * n)) (y # T)"
    using gives_bit[of v n "\<not> v" n v n "\<not> v" n y T] by (simp only: max.idem mult_2)
  show "gives (tape_read_bit_raw v) (alt v n (4 * Suc k) @ S) (int (2 * n)) (alt v n (4 * k) @ S)"
    unfolding e append_Cons y by (rule b)
  show "gives (tape_read_bit_raw v) ((\<not> v, n) # alt v n (4 * Suc k) @ S) (int (2 * n)) (alt v n (4 * k) @ S)"
    unfolding e append_Cons y by (rule gives_bit_skip[OF _ b]) simp
qed

lemma gives_bit_sum:
  assumes "gives (tape_read_bit_raw v) S0 b S1" "gives (bit_sum_loop v k (acc + b)) S1 x S2"
  shows "gives (bit_sum_loop v (Suc k) acc) S0 x S2"
proof -
  have "bit_sum_loop v (Suc k) acc = reading_then (tape_read_bit_raw v) (\<lambda>bit. bit_sum_loop v k (acc + bit))"
    by (rule ext) simp
  then show ?thesis using gives_then[of "tape_read_bit_raw v" S0 b S1 "\<lambda>bit. bit_sum_loop v k (acc + bit)"] assms by simp
qed

lemma bits_of_tone:
  assumes "S \<noteq> []"
  shows "gives (bit_sum_loop v k acc) (alt v n (4 * k) @ S) (acc + int (2 * n * k)) S"
proof (induction k arbitrary: acc)
  case 0
  show ?case by (simp add: gives_return[unfolded gives_def] gives_def)
next
  case (Suc k)
  have e: "acc + int (2 * n * Suc k) = acc + int (2 * n) + int (2 * n * k)" by (simp add: algebra_simps)
  show ?case unfolding e by (rule gives_bit_sum[OF gives_tone_bit(1)[OF assms] Suc])
qed

lemma skipped_tone:
  assumes "S \<noteq> []"
  shows "gives (bit_sum_loop v (Suc k) acc) ((\<not> v, n) # alt v n (4 * Suc k) @ S) (acc + int (2 * n * Suc k)) S"
proof -
  have e: "acc + int (2 * n * Suc k) = acc + int (2 * n) + int (2 * n * k)" by (simp add: algebra_simps)
  show ?thesis unfolding e by (rule gives_bit_sum[OF gives_tone_bit(2)[OF assms] bits_of_tone[OF assms]])
qed

lemma marker_found:
  assumes "S \<noteq> []" "int n < threshold" "threshold \<le> int (4 * n)"
  shows "gives (marker_loop threshold num) (alt v n k @ (True, 4 * n) # S) (num + int k + 1, int (4 * n), True) S"
proof (induction k arbitrary: v num)
  case 0
  show ?case unfolding gives_def
  proof (intro allI impI)
    fix r assume "stream r (alt v n 0 @ (True, 4 * n) # S)"
    then obtain r' where "tape_raw_get_strobe r = (Some (int (4 * n), True), r')" "stream r' S"
      using gives_strobe_ne[OF assms(1), of "(True, 4 * n)"] by (auto simp: gives_def)
    then show "\<exists>r'. marker_loop threshold num r = (Some (num + int 0 + 1, int (4 * n), True), r') \<and> stream r' S"
      using assms(3) by (simp add: marker_loop.simps[of threshold num r])
  qed
next
  case (Suc k)
  show ?case unfolding gives_def
  proof (intro allI impI)
    fix r assume "stream r (alt v n (Suc k) @ (True, 4 * n) # S)"
    then obtain r' where "tape_raw_get_strobe r = (Some (int n, v), r')" "stream r' (alt (\<not> v) n k @ (True, 4 * n) # S)"
      using gives_strobe_ne[of "alt (\<not> v) n k @ (True, 4 * n) # S" "(v, n)"] by (auto simp: gives_def alt_Suc)
    then show "\<exists>r'. marker_loop threshold num r = (Some (num + int (Suc k) + 1, int (4 * n), True), r') \<and> stream r' S"
      using Suc[of "num + 1" "\<not> v"] assms(2) by (simp add: marker_loop.simps[of threshold num r] gives_def algebra_simps)
  qed
qed

lemma header_found:
  assumes "2 \<le> n" "n \<le> 4095" "S \<noteq> []"
  shows "gives tape_find_header ((False, 0) # (True, 8 * n) # alt True n 8192 @ marker n @ S) (True, int (3 * n)) S"
proof -
  let ?S = "marker n @ S"
  obtain v m where p: "gives (pilot_loop 0 0) ((False, 0) # (True, 8 * n) # alt True n 8192 @ ?S) v (alt (\<not> v) n m @ ?S)" "5000 \<le> m"
    using pilot_found[OF assms(1,2), of ?S] assms(3) by auto
  define k where "k = m - 513"
  have m: "m = Suc (4 * 128 + k)" using p(2) by (simp add: k_def)
  have tone: "alt (\<not> v) n m @ ?S = (\<not> v, n) # alt v n (4 * 128) @ alt v n k @ ?S"
    unfolding m alt_Suc using alt_split[of v n "4 * 128" k] by simp
  have sums: "gives (bit_sum_loop v 0x80 0) (alt (\<not> v) n m @ ?S) (int (2 * n * 128)) (alt v n k @ ?S)"
    using skipped_tone[of "alt v n k @ ?S" v 127 0 n] assms(3) unfolding tone by (simp add: marker_def)
  have mean: "(let mean = drop_bit 7 (int (2 * n * 128)); threshold = mean + drop_bit 1 mean in f threshold) = f (int (3 * n))"
    for f :: "int \<Rightarrow> (bool \<times> int) reading"
    by (simp add: drop_bit_eq_div)
  have found: "gives (marker_loop (int (3 * n)) 0) (alt v n k @ ?S) (int k + 1, int (4 * n), True) ((False, 4 * n) # bit_pulses n True @ S)"
    using marker_found[of "(False, 4 * n) # bit_pulses n True @ S" n "int (3 * n)" 0 v k] assms by (simp add: marker_def)
  obtain y T where S: "S = y # T" using neq_Cons assms(3) by blast
  have bit: "gives (tape_read_bit_raw True) ((False, 4 * n) # bit_pulses n True @ S) (int (4 * n)) S"
    using gives_bit_skip[of "(False, 4 * n)" True "(True, 2 * n)"] gives_bit[of True "2 * n" False "2 * n" True n False n y T]
    by (simp add: bit_pulses_def S Let_def)
  have last: "gives (\<lambda>r. if int (4 * n) > 2 * int (3 * n) \<or> int k + 1 < 100 then (None, r)
      else (Some (True, int (3 * n)), snd (tape_read_bit_raw True r))) ((False, 4 * n) # bit_pulses n True @ S) (True, int (3 * n)) S"
    using bit p(2) by (auto simp: gives_def k_def)
  have "gives (reading_then (marker_loop (int (3 * n)) 0) (\<lambda>(num, len, val) r.
      if len > 2 * int (3 * n) \<or> num < 100 then (None, r) else (Some (val, int (3 * n)), snd (tape_read_bit_raw val r))))
      (alt v n k @ ?S) (True, int (3 * n)) S"
    by (rule gives_then[OF found]) (use last in simp)
  then show ?thesis unfolding tape_find_header_def
    by (intro gives_then[OF p(1)] gives_then[OF sums]) (unfold mean)
qed

section \<open>Reading bytes\<close>

lemma gives_data_bit:
  assumes "S \<noteq> []"
  shows "gives (tape_read_bit_raw True) (bit_pulses n b @ S) (int (if b then 4 * n else 2 * n)) S"
proof -
  obtain y T where S: "S = y # T" using neq_Cons assms by blast
  define d where "d = (if b then 2 * n else n)"
  have "max d n + max d n = (if b then 4 * n else 2 * n)" by (auto simp: d_def)
  then show ?thesis using gives_bit[of True d False d True n False n y T]
    by (simp only: bit_pulses_def Let_def d_def[symmetric] S append_Cons append_Nil)
qed

lemma gives_read_bits:
  assumes "S \<noteq> []" "0 < n"
  shows "gives (read_bits True (int (3 * n)) i m b) (bits_pulses n (map (bit x) [i..<i + m]) @ S)
     (b OR (x AND push_bit i (mask m))) S"
proof (induction m arbitrary: i b)
  case 0
  show ?case by (simp add: bits_pulses_def gives_def)
next
  case (Suc m)
  let ?b = "if bit x i then b OR push_bit i 1 else b"
  let ?rest = "bits_pulses n (map (bit x) [Suc i..<Suc i + m]) @ S"
  have first: "bits_pulses n (map (bit x) [i..<i + Suc m]) @ S = bit_pulses n (bit x i) @ ?rest"
    by (simp add: bits_pulses_def upt_conv_Cons del: upt_Suc)
  have v: "(if int (if bit x i then 4 * n else 2 * n) > int (3 * n) then b OR push_bit i 1 else b) = ?b"
    using assms(2) by simp
  have e: "b OR (x AND push_bit i (mask (Suc m))) = ?b OR (x AND push_bit (Suc i) (mask m))"
  proof (rule bit_word_eqI)
    fix j assume "j < LENGTH('a)"
    obtain k l where k: "k = Suc m" and l: "l = Suc i" by simp
    then have shift: "l \<le> j \<longleftrightarrow> i < j" "i < j \<Longrightarrow> j - l < m \<longleftrightarrow> j - i \<le> m" by auto
    have less: "j' < k \<longleftrightarrow> j' \<le> m" for j' using k by (simp add: less_Suc_eq_le)
    have "bit (b OR (x AND push_bit i (mask k))) j = bit (?b OR (x AND push_bit l (mask m))) j"
      using \<open>j < LENGTH('a)\<close> by (cases "j = i") (auto simp: bit_simps not_less less shift)
    then show "bit (b OR (x AND push_bit i (mask (Suc m)))) j = bit (?b OR (x AND push_bit (Suc i) (mask m))) j"
      by (simp only: k l)
  qed
  have step: "read_bits True (int (3 * n)) i (Suc m) b = reading_then (tape_read_bit_raw True) (\<lambda>v.
      read_bits True (int (3 * n)) (i + 1) m (if v > int (3 * n) then b OR push_bit i 1 else b))"
    by (rule ext) simp
  show ?case unfolding step first e
    by (rule gives_then[OF gives_data_bit]) (use assms(1) Suc[of "Suc i" ?b] v in simp_all)
qed

lemma gives_byte:
  assumes "S \<noteq> []" "0 < n"
  shows "gives (read_bits True (int (3 * n)) 0 8 0) (bits_pulses n (byte_bits x) @ S) x S"
proof -
  have "x AND mask 8 = x" by (simp add: u8_eq_bits bit_simps)
  then show ?thesis using gives_read_bits[OF assms, of 0 8 0 x] by (simp add: byte_bits_def)
qed

lemma gives_word:
  assumes "S \<noteq> []" "0 < n"
  shows "gives (read_bits True (int (3 * n)) 0 16 (0 :: u16)) (bits_pulses n (byte_bits (ucast (x AND 0xFF)) @ byte_bits (ucast (drop_bit 8 x))) @ S) x S"
proof -
  have "byte_bits (ucast (x AND 0xFF)) @ byte_bits (ucast (drop_bit 8 x)) = map (bit x) [0..<0 + 16]"
    by (simp add: byte_bits_def upt_rec bit_simps numeral_eq_Suc del: upt_Suc)
  moreover have "x AND mask 16 = x" by (simp add: u16_eq_bits bit_simps)
  ultimately show ?thesis using gives_read_bits[OF assms, of 0 16 0 x] by simp
qed

lemma gives_bytes:
  assumes "S \<noteq> []" "0 < n"
  shows "gives (read_bytes True (int (3 * n)) (length bs) out) (bits_pulses n (concat (map byte_bits bs)) @ S) (out @ bs) S"
proof (induction bs arbitrary: out)
  case (Cons x bs)
  let ?rest = "bits_pulses n (concat (map byte_bits bs)) @ S"
  have split: "bits_pulses n (concat (map byte_bits (x # bs))) @ S = bits_pulses n (byte_bits x) @ ?rest"
    by (simp add: bits_pulses_def)
  have step: "read_bytes True (int (3 * n)) (length (x # bs)) out =
      reading_then (read_bits True (int (3 * n)) 0 8 0) (\<lambda>b. read_bytes True (int (3 * n)) (length bs) (out @ [b]))"
    by (rule ext) simp
  show ?case unfolding split step
    by (rule gives_then[OF gives_byte]) (use assms Cons[of "out @ [x]"] in simp_all)
qed (simp add: bits_pulses_def gives_def)

text \<open>The marker before an array.\<close>

lemma array_skip:
  assumes "fst x \<noteq> p" "S \<noteq> []" "gives (array_marker p t) S l S'"
  shows "gives (array_marker p t) (x # S) l S'"
  unfolding gives_def
proof (intro allI impI)
  fix r assume "stream r (x # S)"
  moreover obtain y T where S: "S = y # T" using neq_Cons assms(2) by blast
  ultimately obtain r' where r': "find_level p r = find_level p r'" "stream r' S" using level_skip assms(1) by blast
  have "array_marker p t r = array_marker p t r'" by (simp add: array_marker.simps[of p t r] array_marker.simps[of p t r'] r'(1))
  then show "\<exists>r'. array_marker p t r = (Some l, r') \<and> stream r' S'" using assms(3) r'(2) by (simp add: gives_def)
qed

lemma array_short:
  assumes "S \<noteq> []" "int d < t" "gives (array_marker p t) S l S'"
  shows "gives (array_marker p t) ((p, d) # S) l S'"
  unfolding gives_def
proof (intro allI impI)
  fix r assume r: "stream r ((p, d) # S)"
  obtain y T where S: "S = y # T" using neq_Cons assms(1) by blast
  obtain r' where "find_level p r = (Some (int d), r')" "stream r' S"
    using gives_level[of "(p, d)" y T] r unfolding gives_def S by auto
  then show "\<exists>r'. array_marker p t r = (Some l, r') \<and> stream r' S'"
    using assms(2,3) by (simp add: array_marker.simps[of p t r] gives_def)
qed

lemma array_long:
  assumes "S \<noteq> []" "t \<le> int d"
  shows "gives (array_marker p t) ((p, d) # S) (int d) S"
  unfolding gives_def
proof (intro allI impI)
  fix r assume r: "stream r ((p, d) # S)"
  obtain y T where S: "S = y # T" using neq_Cons assms(1) by blast
  obtain r' where "find_level p r = (Some (int d), r')" "stream r' S"
    using gives_level[of "(p, d)" y T] r unfolding gives_def S by auto
  then show "\<exists>r'. array_marker p t r = (Some (int d), r') \<and> stream r' S"
    using assms(2) by (simp add: array_marker.simps[of p t r])
qed

lemma gives_array_marker:
  assumes "S \<noteq> []" "0 < n"
  shows "gives (array_marker True (int (3 * n))) (alt v n k @ (True, 4 * n) # S) (int (4 * n)) S"
proof (induction k arbitrary: v)
  case 0
  show ?case using array_long[OF assms(1), of "int (3 * n)" "4 * n" True] by simp
next
  case (Suc k)
  show ?case
  proof (cases v)
    case True
    then show ?thesis using array_short[of "alt False n k @ (True, 4 * n) # S" n "int (3 * n)" True] Suc[of False] assms(2)
      by (simp add: alt_Suc)
  next
    case False
    then show ?thesis using array_skip[of "(False, n)" True "alt True n k @ (True, 4 * n) # S"] Suc[of True] by (simp add: alt_Suc)
  qed
qed

lemma gives_array:
  assumes "S \<noteq> []" "0 < n"
  shows "gives (tape_read_array_raw True (int (3 * n)) (length bs))
     (alt True n k @ marker n @ bits_pulses n (concat (map byte_bits bs)) @ S) bs S"
proof -
  let ?data = "bits_pulses n (concat (map byte_bits bs)) @ S"
  have m: "gives (array_marker True (int (3 * n))) (alt True n k @ marker n @ ?data) (int (4 * n)) ((False, 4 * n) # bit_pulses n True @ ?data)"
    using gives_array_marker[of "(False, 4 * n) # bit_pulses n True @ ?data" n True k] assms(2) by (simp add: marker_def)
  obtain y T where y: "bit_pulses n True @ ?data = (True, 2 * n) # y # T" by (simp add: bit_pulses_def Let_def)
  have skip: "gives (tape_read_bit_raw True) ((False, 4 * n) # bit_pulses n True @ ?data) (int (4 * n)) ?data"
    using gives_bit_skip[of "(False, 4 * n)" True "(True, 2 * n)" "y # T"] gives_data_bit[of ?data n True] assms(1) unfolding y by simp
  have len: "\<not> int (4 * n) > int (3 * n) * 2" using assms(2) by simp
  have "gives (reading_then (tape_read_bit_raw True) (\<lambda>_. read_bytes True (int (3 * n)) (length bs) []))
      ((False, 4 * n) # bit_pulses n True @ ?data) bs S"
    using gives_then[OF skip, of "\<lambda>_. read_bytes True (int (3 * n)) (length bs) []"] gives_bytes[OF assms, of bs "[]"] by simp
  then show ?thesis unfolding tape_read_array_raw_def
    by (intro gives_then[OF m]) (simp only: len if_False gives_def)
qed

section \<open>The round trip\<close>

text \<open>The pulses of a coded file.\<close>

definition file_pulses :: "nat \<Rightarrow> u8 list \<Rightarrow> u8 list \<Rightarrow> u16 \<Rightarrow> pulse list" where
  "file_pulses n header payload check =
     (True, 8 * n) # alt True n 8192 @ marker n @ alt True n 16 @ marker n @ bits_pulses n (concat (map byte_bits header)) @
     alt True n 16 @ marker n @ bits_pulses n (concat (map byte_bits payload)) @
     bits_pulses n (byte_bits (ucast (check AND 0xFF)) @ byte_bits (ucast (drop_bit 8 check))) @
     (True, 8 * n) # alt True n 512 @ marker n"

lemma take_4: "4 \<le> length xs \<Longrightarrow> take 4 xs = [xs ! 0, xs ! 1, xs ! 2, xs ! 3]"
  by (rule nth_equalityI) (auto simp: numeral_eq_Suc less_Suc_eq)

lemma le_bytes: "ucast (le_word a b AND 0xFF) = a" "ucast (drop_bit 8 (le_word a b)) = b"
  by (auto simp: le_word_def u8_eq_bits bit_simps)

lemma encoded:
  assumes "synch_ok s n" "4 \<le> length data" "unat (le_word (data ! 2) (data ! 3)) \<le> length data - 4"
  shows "tape_encode_bin_to_raw_internal s pad data name_raw name =
    (let payload = take (unat (le_word (data ! 2) (data ! 3))) (drop 4 data)
     in Some (code (file_pulses n (take 4 data @ tape_header_name name_raw name pad) payload (tape_checksum payload))))"
proof -
  show ?thesis using assms(2,3)
    by (simp add: tape_encode_bin_to_raw_internal_def Let_def put_parts[OF assms(1)] put_tune[OF assms(1)]
        put_byte[OF assms(1)] put_array[OF assms(1)] le_bytes file_pulses_def marker_def take_4 bits_pulses_def)
qed

lemma audible_parts:
  assumes "2 \<le> n" "n \<le> 4095"
  shows "list_all audible_pulse (alt v n k)" "list_all audible_pulse (marker n)" "list_all audible_pulse (bits_pulses n bs)"
    "audible_pulse (True, 8 * n)"
proof -
  have b: "list_all audible_pulse (bit_pulses n b)" for b using assms by (simp add: bit_pulses_def audible_pulse_def Let_def)
  show "list_all audible_pulse (bits_pulses n bs)" by (induction bs) (simp_all add: bits_pulses_def b)
  show "list_all audible_pulse (marker n)" using assms b by (simp add: marker_def audible_pulse_def)
  show "list_all audible_pulse (alt v n k)" using assms by (simp add: alt_def list_all_iff audible_pulse_def)
  show "audible_pulse (True, 8 * n)" using assms by (simp add: audible_pulse_def)
qed

lemma header_length: "length (tape_header_name name_raw name pad) = 16"
  by (auto simp: tape_header_name_def split: option.split)

lemma decoded:
  assumes "2 \<le> n" "n \<le> 4095" "length header = 20" "unat (le_word (header ! 2) (header ! 3)) = length payload"
  shows "bk_tape_decode_raw_to_bin (code (file_pulses n header payload (tape_checksum payload))) name_size name_raw_size =
    Some (take 4 header @ payload, tape_name_out name_size header, tape_name_raw name_raw_size header)"
proof -
  define check where "check = tape_checksum payload"
  define S4 where "S4 = (True, 8 * n) # alt True n 512 @ marker n"
  define S3 where "S3 = bits_pulses n (byte_bits (ucast (check AND 0xFF)) @ byte_bits (ucast (drop_bit 8 check))) @ S4"
  define S2 where "S2 = alt True n 16 @ marker n @ bits_pulses n (concat (map byte_bits payload)) @ S3"
  define S1 where "S1 = alt True n 16 @ marker n @ bits_pulses n (concat (map byte_bits header)) @ S2"
  have ne: "S1 \<noteq> []" "S2 \<noteq> []" "S3 \<noteq> []" "S4 \<noteq> []" by (simp_all add: S1_def S2_def S3_def S4_def marker_def)
  have pulses: "file_pulses n header payload check = (True, 8 * n) # alt True n 8192 @ marker n @ S1"
    by (simp add: file_pulses_def S1_def S2_def S3_def S4_def)
  have n: "0 < n" using assms(1) by simp
  have h: "gives tape_find_header ((False, 0) # (True, 8 * n) # alt True n 8192 @ marker n @ S1) (True, int (3 * n)) S1"
    by (rule header_found[OF assms(1,2) ne(1)])
  have a: "gives (tape_read_array_raw True (int (3 * n)) 20) S1 header S2"
    using gives_array[OF ne(2) n, of header 16] by (simp add: S1_def assms(3))
  have p: "gives (tape_read_array_raw True (int (3 * n)) (unat (le_word (header ! 2) (header ! 3)))) S2 payload S3"
    using gives_array[OF ne(3) n, of payload 16] by (simp add: S2_def assms(4))
  have c: "gives (read_bits True (int (3 * n)) 0 16 (0 :: u16)) S3 check S4"
    unfolding S3_def by (rule gives_word[OF ne(4) n])
  let ?r = "\<lparr>raw_data = code (file_pulses n header payload check), raw_pos = 0, old_strobe = 0\<rparr>"
  have start: "stream ?r ((False, 0) # (True, 8 * n) # alt True n 8192 @ marker n @ S1)"
    unfolding stream_def using audible_parts[OF assms(1,2)]
    by (simp add: pulses strobe_word_def S1_def S2_def S3_def S4_def)
  have long: "\<not> length (code (file_pulses n header payload check)) < 4"
    by (simp add: pulses chunk_bytes_def marker_def bit_pulses_def Let_def)
  let ?result = "(take 4 header @ payload, tape_name_out name_size header, tape_name_raw name_raw_size header)"
  have rest: "gives (decode_payload name_size name_raw_size True (int (3 * n)) header) S2 ?result S4"
    unfolding decode_payload_def Let_def
    by (rule gives_then[OF p], rule gives_then[OF c]) (simp add: gives_def check_def[symmetric] le_bytes take_4 assms(3))
  have "gives (decode_file name_size name_raw_size) ((False, 0) # (True, 8 * n) # alt True n 8192 @ marker n @ S1) ?result S4"
    unfolding decode_file_def by (rule gives_then[OF h], unfold split, rule gives_then[OF a], rule rest)
  then have "fst (decode_file name_size name_raw_size ?r) = Some ?result" using start unfolding gives_def by fastforce
  then show ?thesis using long by (simp add: bk_tape_decode_raw_to_bin_def check_def)
qed

text \<open>C35: What the BK-0010 tape coder writes, its decoder reads: for every pulse length from 2 to 4095 ticks, a binary file with a valid header is coded into a recording in which the decoder finds the pilot tone and the markers, whatever the contents, and gives back the address, the length and every byte of the file, and the name of its header.\<close>
theorem tape_roundtrip:
  assumes "2 \<le> unat s" "unat s \<le> 4095" "4 \<le> length data" "unat (le_word (data ! 2) (data ! 3)) \<le> length data - 4"
  shows "\<exists>raw. tape_encode_bin_to_raw_internal s pad data name_raw name = Some raw \<and>
    bk_tape_decode_raw_to_bin raw 17 16 =
      Some (take (4 + unat (le_word (data ! 2) (data ! 3))) data,
            rev (strip_name (rev (tape_header_name name_raw name pad))), tape_header_name name_raw name pad)"
proof -
  let ?len = "unat (le_word (data ! 2) (data ! 3))"
  let ?header = "take 4 data @ tape_header_name name_raw name pad"
  have ok: "synch_ok s (unat s)" using assms(1,2) by (simp add: synch_ok_def)
  have len: "length ?header = 20" using assms(3) by (simp add: header_length)
  have at: "?header ! 2 = data ! 2" "?header ! 3 = data ! 3" using assms(3) by (simp_all add: nth_append)
  have names: "tape_name_out 17 ?header = rev (strip_name (rev (tape_header_name name_raw name pad)))"
    "tape_name_raw 16 ?header = tape_header_name name_raw name pad"
    using assms(3) header_length[of name_raw name pad] by (simp_all add: tape_name_out_def tape_name_raw_def)
  have whole: "take 4 ?header @ take ?len (drop 4 data) = take (4 + ?len) data"
    using assms(3) by (simp add: take_add)
  show ?thesis
    using decoded[OF assms(1,2) len, of "take ?len (drop 4 data)" 17 16] assms(3,4)
    by (simp only: encoded[OF ok assms(3,4)] at names whole Let_def) simp
qed

lemma strip_blanks: "strip_name (replicate k 0x20 @ cs) = strip_name cs"
  by (induction k) simp_all

theorem tape_roundtrip_witness:
  "\<exists>raw. tape_encode_bin_to_raw_internal 1000 True [0, 2, 3, 0, 0xAA, 0x55, 0xFF] [] (Some [0x41, 0x42]) = Some raw \<and>
    bk_tape_decode_raw_to_bin raw 17 16 = Some ([0, 2, 3, 0, 0xAA, 0x55, 0xFF], [0x41, 0x42], [0x41, 0x42] @ replicate 14 0x20)"
  using tape_roundtrip[of 1000 "[0, 2, 3, 0, 0xAA, 0x55, 0xFF]" True "[]" "Some [0x41, 0x42]"]
  by (simp add: le_word_def tape_header_name_def strip_blanks)

end
