(* ===== verification/BkTapePlay.thy ===== *)
theory BkTapePlay
  imports BkTape
begin

text \<open>
  The two heads of the recorder: what a program writes, tick by tick, is what the read head gives
  back, tick by tick. A recording is a list of words, each a level and a number of ticks; its
  levels are the waveform.
\<close>

section \<open>Recordings as words\<close>

definition word_bytes :: "u16 \<Rightarrow> u8 list" where
  "word_bytes w = [ucast (drop_bit 8 w), ucast w]"

definition bytes_of :: "u16 list \<Rightarrow> u8 list" where
  "bytes_of ws = concat (map word_bytes ws)"

definition ticks_of :: "u16 \<Rightarrow> nat" where
  "ticks_of w = unat (w AND 0x7FFF)"

definition levels :: "u16 list \<Rightarrow> bool list" where
  "levels ws = concat (map (\<lambda>w. replicate (ticks_of w) (bit w 15)) ws)"

lemma levels_simps [simp]: "levels [] = []" "levels (w # ws) = replicate (ticks_of w) (bit w 15) @ levels ws"
  "levels (us @ ws) = levels us @ levels ws"
  by (simp_all add: levels_def)

lemma bytes_simps [simp]: "bytes_of [] = []" "bytes_of (w # ws) = word_bytes w @ bytes_of ws" "bytes_of (us @ ws) = bytes_of us @ bytes_of ws"
  "length (bytes_of ws) = 2 * length ws"
  by (induction ws) (simp_all add: bytes_of_def word_bytes_def)

lemma bytes_nth: "i < length ws \<Longrightarrow> bytes_of ws ! (2 * i) = ucast (drop_bit 8 (ws ! i)) \<and> bytes_of ws ! (2 * i + 1) = ucast (ws ! i)"
proof (induction ws arbitrary: i)
  case (Cons w ws)
  then show ?case by (cases i) (simp_all add: word_bytes_def)
qed simp

section \<open>Recording\<close>

lemma chunk_word_bytes:
  assumes "c \<le> 32767"
  shows "chunk_bytes val c = word_bytes (c OR (if val then 0x8000 else 0))" "ticks_of (c OR (if val then 0x8000 else 0)) = unat c"
    "bit (c OR (if val then 0x8000 else 0)) 15 = val"
proof -
  have "unat c < 2 ^ 15" using assms by (simp add: word_le_nat_alt)
  then have "\<not> bit (unat c) 15" by (simp add: bit_iff_odd)
  then have b: "\<not> bit c 15" by (simp add: bit_unsigned_iff)
  then show "chunk_bytes val c = word_bytes (c OR (if val then 0x8000 else 0))" "bit (c OR (if val then 0x8000 else 0)) 15 = val"
    by (auto simp: chunk_bytes_def word_bytes_def u8_eq_bits bit_simps)
  have "(c OR (if val then 0x8000 else 0)) AND 0x7FFF = c" using b by (auto simp: u16_eq_bits bit_simps)
  then show "ticks_of (c OR (if val then 0x8000 else 0)) = unat c" by (simp add: ticks_of_def)
qed

text \<open>A recording that is well formed: no word of length 0.\<close>

definition tape_words :: "u8 list \<Rightarrow> u16 list \<Rightarrow> bool" where
  "tape_words data ws = (data = bytes_of ws \<and> (\<forall>w \<in> set ws. 0 < ticks_of w))"

lemma out_append_levels:
  assumes "tape_words buf ws"
  obtains us where "tape_words (out_append val d buf) (ws @ us)" "levels us = replicate (unat d) val" "d \<noteq> 0 \<Longrightarrow> us \<noteq> []"
    "unat d \<le> 32767 \<Longrightarrow> length us \<le> 1"
proof -
  have "\<exists>us. tape_words (out_append val d buf) (ws @ us) \<and> levels us = replicate (unat d) val \<and> (d \<noteq> 0 \<longrightarrow> us \<noteq> []) \<and>
      (unat d \<le> 32767 \<longrightarrow> length us \<le> 1)"
    using assms
  proof (induction val d buf arbitrary: ws rule: out_append.induct)
    case (1 val d buf)
    show ?case
    proof (cases "d = 0")
      case True
      then show ?thesis using 1(2) by (auto simp: out_append.simps intro: exI[of _ "[]"])
    next
      case False
      define c where "c = (if d > 32767 then 32767 else ucast d :: u16)"
      have uc: "unat c = min 32767 (unat d)"
      proof (cases "32767 < d")
        case False
        then have "unat d < 2 ^ 16" by (simp add: word_less_nat_alt)
        then show ?thesis using False by (simp add: c_def word_less_nat_alt unsigned_ucast_eq unsigned_take_bit_eq take_bit_nat_eq_self)
      qed (simp add: c_def word_less_nat_alt)
      have c: "c \<le> 32767" "0 < unat c" using uc False by (simp_all add: word_le_nat_alt unat_gt_0)
      have uu: "unat (ucast c :: u64) = unat c" by (rule unat_ucast_up) simp
      have rest: "unat (d - ucast c) = unat d - unat c" using uc by (simp add: unat_sub word_le_nat_alt uu)
      let ?w = "c OR (if val then 0x8000 else 0)"
      have "tape_words (buf @ chunk_bytes val c) (ws @ [?w])" using 1(2) chunk_word_bytes[OF c(1), of val] c(2) by (auto simp: tape_words_def)
      from 1(1)[OF False c_def this] obtain us where us: "tape_words (out_append val (d - ucast c) (buf @ chunk_bytes val c)) ((ws @ [?w]) @ us)"
        "levels us = replicate (unat (d - ucast c)) val" by blast
      have e: "out_append val d buf = out_append val (d - ucast c) (buf @ chunk_bytes val c)"
        using False by (simp add: out_append.simps[of val d buf] c_def Let_def)
      have "unat c + (unat d - unat c) = unat d" using uc by simp
      then have lv: "levels (?w # us) = replicate (unat d) val" using us(2) rest chunk_word_bytes[OF c(1), of val]
        by (simp flip: replicate_add)
      have "us = []" if "unat d \<le> 32767"
      proof -
        have "levels us = []" using us(2) rest uc that by simp
        moreover have "\<forall>w \<in> set us. 0 < ticks_of w" using us(1) by (simp add: tape_words_def)
        ultimately show ?thesis by (cases us) auto
      qed
      then show ?thesis using us(1) lv unfolding e by (intro exI[of _ "?w # us"]) auto
    qed
  qed
  then show ?thesis using that by blast
qed

text \<open>A program that sets a level and lets a tick pass, for each level of a list.\<close>

fun record_levels :: "bool list \<Rightarrow> bk_tape \<Rightarrow> bk_tape" where
  "record_levels [] t = t"
| "record_levels (v # vs) t = record_levels vs (bk_tape_tick (bk_tape_write True v t))"

definition recording :: "bk_tape \<Rightarrow> bool list \<Rightarrow> bool" where
  "recording t vs = (tape_out_enabled t \<and> \<not> tape_status t \<and> 0 < unat (tape_ticks t - tape_write_ticks t) \<and>
     (\<exists>ws. tape_words (tape_out t) ws \<and> vs = levels ws @ replicate (unat (tape_ticks t - tape_write_ticks t)) (tape_write_val t)))"

lemma write_moving: "\<not> tape_status t \<Longrightarrow> bk_tape_write True v t =
   (if v \<noteq> tape_write_val t
    then (if tape_ticks t - tape_write_ticks t \<noteq> 0 then tape_out_append (tape_write_val t) (tape_ticks t - tape_write_ticks t) t else t)
           \<lparr>tape_write_ticks := tape_ticks t, tape_write_val := v\<rparr>
    else t)"
  by (simp add: bk_tape_write_def tape_out_append_def Let_def)

lemma recording_length: "recording t vs \<Longrightarrow> unat (tape_ticks t - tape_write_ticks t) \<le> length vs"
  by (auto simp: recording_def)

lemma record_step:
  assumes "recording t vs" "length vs < 2 ^ 63"
  shows "recording (bk_tape_tick (bk_tape_write True v t)) (vs @ [v])"
proof -
  let ?d = "tape_ticks t - tape_write_ticks t"
  obtain ws where ws: "tape_words (tape_out t) ws" "vs = levels ws @ replicate (unat ?d) (tape_write_val t)"
    and st: "tape_out_enabled t" "\<not> tape_status t" using assms(1) by (auto simp: recording_def)
  show ?thesis
  proof (cases "v = tape_write_val t")
    case True
    have "unat ?d + 1 < 2 ^ 64" using recording_length[OF assms(1)] assms(2) by simp
    then have "unat (?d + 1) = unat ?d + 1" by (simp add: unat_word_ariths)
    moreover have "tape_ticks t + 1 - tape_write_ticks t = ?d + 1" by simp
    ultimately have "unat (tape_ticks t + 1 - tape_write_ticks t) = unat ?d + 1" by metis
    then show ?thesis using ws st True
      by (auto simp: write_moving bk_tape_tick_def recording_def replicate_append_same intro!: exI[of _ ws])
  next
    case False
    obtain us where us: "tape_words (out_append (tape_write_val t) ?d (tape_out t)) (ws @ us)"
      "levels us = replicate (unat ?d) (tape_write_val t)" using out_append_levels[OF ws(1)] by blast
    have "out_append (tape_write_val t) 0 (tape_out t) = tape_out t" by (simp add: out_append.simps)
    then have o: "tape_words (if ?d \<noteq> 0 then out_append (tape_write_val t) ?d (tape_out t) else tape_out t) (ws @ us)" using us(1) by auto
    show ?thesis unfolding recording_def write_moving[OF st(2)] bk_tape_tick_def
      using False st us(2) ws(2) o by (auto simp: tape_out_append_def intro!: exI[of _ "ws @ us"])
  qed
qed

lemma record_start:
  assumes "tape_status t" "tape_out_enabled t" "tape_out t = []"
  shows "recording (bk_tape_tick (bk_tape_write True v t)) [v]"
  using assms unfolding recording_def bk_tape_write_def bk_tape_tick_def
  by (auto simp: Let_def tape_words_def intro!: exI[of _ "[]"])

lemma record_levels_ok:
  "recording t us \<Longrightarrow> length us + length vs < 2 ^ 63 \<Longrightarrow> recording (record_levels vs t) (us @ vs)"
proof (induction vs arbitrary: us t)
  case (Cons v vs)
  then show ?case using Cons.IH[OF record_step[of t us v]] by simp
qed simp

lemma record_stop:
  assumes "recording t (vs @ [v])" "vs = [] \<or> last vs \<noteq> v" "length vs < 2 ^ 62"
  obtains ws w where "tape_words (tape_out (bk_tape_write False b t)) (ws @ [w])" "levels ws = vs" "bit w 15 = v" "0 < ticks_of w"
proof -
  let ?d = "tape_ticks t - tape_write_ticks t"
  obtain ws where ws: "tape_words (tape_out t) ws" "vs @ [v] = levels ws @ replicate (unat ?d) (tape_write_val t)"
    and st: "tape_out_enabled t" "\<not> tape_status t" "0 < unat ?d" using assms(1) by (auto simp: recording_def)
  have "unat ?d = 1"
  proof (rule ccontr)
    assume "unat ?d \<noteq> 1"
    then obtain k where k: "unat ?d = Suc (Suc k)" using st(3) by (metis One_nat_def not_less0 old.nat.exhaust)
    have "replicate (Suc (Suc k)) (tape_write_val t) = replicate (Suc k) (tape_write_val t) @ [tape_write_val t]"
      by (simp add: replicate_append_same)
    then have "vs @ [v] = (levels ws @ replicate (Suc k) (tape_write_val t)) @ [tape_write_val t]" using ws(2) k by simp
    then have "vs = levels ws @ replicate (Suc k) (tape_write_val t)" "v = tape_write_val t" by (simp_all only: append1_eq_conv)
    then show False using assms(2) by (auto simp: replicate_append_same[symmetric])
  qed
  then have d: "?d = 1" by (simp add: word_unat_eq_iff)
  then have v: "vs = levels ws" "v = tape_write_val t" using ws(2) by simp_all
  have d': "tape_ticks t + TAPE_RELAY_DELAY - tape_write_ticks t = 10001" using d by (simp add: algebra_simps)
  obtain us where us: "tape_words (out_append v 10001 (tape_out t)) (ws @ us)" "levels us = replicate 10001 v" "length us \<le> 1" "us \<noteq> []"
    using out_append_levels[OF ws(1), of v 10001] by auto
  obtain w where w: "us = [w]" using us(3,4) by (cases us) auto
  have "replicate (ticks_of w) (bit w 15) = replicate 10001 v" using us(2) by (simp add: w)
  then have "ticks_of w = 10001 \<and> bit w 15 = v" by (subst (asm) replicate_eq_replicate) simp
  moreover have "tape_out (bk_tape_write False b t) = out_append v 10001 (tape_out t)"
    using st(1,2) v(2) unfolding d'[symmetric] by (simp add: bk_tape_write_def Let_def tape_out_append_def)
  ultimately show ?thesis using that[of ws w] us(1) v(1) by (simp add: w)
qed

section \<open>Playing\<close>

fun play_levels :: "nat \<Rightarrow> bk_tape \<Rightarrow> bool list \<times> bk_tape" where
  "play_levels 0 t = ([], t)"
| "play_levels (Suc n) t =
     (let (v, t) = bk_tape_read (bk_tape_tick t); (vs, t) = play_levels n t in (v # vs, t))"

text \<open>The tick at which word \<open>i\<close> begins.\<close>

definition start_of :: "u16 list \<Rightarrow> nat \<Rightarrow> nat" where
  "start_of ws i = length (levels (take i ws))"

lemma start_of_simps: "start_of ws 0 = 0" "i < length ws \<Longrightarrow> start_of ws (Suc i) = start_of ws i + ticks_of (ws ! i)"
  by (simp_all add: start_of_def take_Suc_conv_app_nth)

lemma start_of_mono: "i \<le> j \<Longrightarrow> start_of ws i \<le> start_of ws j"
proof -
  assume "i \<le> j"
  then have "take j ws = take i ws @ drop i (take j ws)" by (metis append_take_drop_id min.absorb1 take_take)
  then show ?thesis by (metis start_of_def levels_simps(3) length_append le_add1)
qed

lemma level_at:
  assumes "i < length ws" "start_of ws i < k" "k \<le> start_of ws (Suc i)"
  shows "levels ws ! (k - 1) = bit (ws ! i) 15"
proof -
  have "levels ws = levels (take i ws) @ replicate (ticks_of (ws ! i)) (bit (ws ! i) 15) @ levels (drop (Suc i) ws)"
    using id_take_nth_drop[OF assms(1)] by (metis levels_simps(2,3))
  moreover have "length (levels (take i ws)) \<le> k - 1" "k - 1 - length (levels (take i ws)) < ticks_of (ws ! i)"
    using assms by (simp_all add: start_of_simps start_of_def[symmetric])
  ultimately show ?thesis by (simp add: nth_append)
qed

lemma play_loop_words:
  assumes "tape_in_pos t = 2 * i" "i \<le> length ws" "unat (tape_ticks t) = T + k" "unat (tape_read_ticks t) = T + start_of ws i"
    and "T + start_of ws (length ws) < 2 ^ 64"
  shows "\<exists>j. i \<le> j \<and> j \<le> length ws \<and> (start_of ws j \<ge> k \<or> j = length ws) \<and> (i < j \<longrightarrow> start_of ws (j - 1) < k) \<and>
     play_loop (bytes_of ws) t = t\<lparr>tape_in_pos := 2 * j, tape_read_ticks := of_nat (T + start_of ws j),
       tape_read_val := (if i = j then tape_read_val t else bit (ws ! (j - 1)) 15)\<rparr>"
  using assms
proof (induction "length ws - i" arbitrary: i t rule: less_induct)
  case less
  have read: "of_nat (T + start_of ws i) = tape_read_ticks t" by (simp flip: less.prems(4))
  show ?case
  proof (cases "i < length ws \<and> start_of ws i < k")
    case False
    then have "play_loop (bytes_of ws) t = t" using less.prems by (subst play_loop.simps) (auto simp: word_less_nat_alt)
    then show ?thesis using False less.prems(1,2) read by (intro exI[of _ i]) auto
  next
    case True
    let ?w = "ws ! i"
    let ?t = "t\<lparr>tape_in_pos := 2 * Suc i, tape_read_val := bit ?w 15, tape_read_ticks := tape_read_ticks t + ucast (?w AND 0x7FFF)\<rparr>"
    have w: "push_bit 8 (ucast (bytes_of ws ! (2 * i))) OR ucast (bytes_of ws ! (2 * i + 1)) = ?w"
      using bytes_nth[of i ws] True by (auto simp: u16_eq_bits bit_simps)
    have step: "play_loop (bytes_of ws) t = play_loop (bytes_of ws) ?t"
      using True less.prems w by (subst play_loop.simps) (simp add: word_less_nat_alt Let_def)
    have "start_of ws (Suc i) \<le> start_of ws (length ws)" using True by (intro start_of_mono) simp
    then have bound: "T + (start_of ws i + ticks_of ?w) < 2 ^ 64" using less.prems(5) True by (simp add: start_of_simps)
    have "unat (ucast (?w AND 0x7FFF) :: u64) = ticks_of ?w" unfolding ticks_of_def by (rule unat_ucast_up) simp
    then have "unat (tape_read_ticks ?t) = T + start_of ws (Suc i)"
      using bound True less.prems(4) by (simp add: unat_word_ariths start_of_simps)
    then have "\<exists>j. Suc i \<le> j \<and> j \<le> length ws \<and> (start_of ws j \<ge> k \<or> j = length ws) \<and> (Suc i < j \<longrightarrow> start_of ws (j - 1) < k) \<and>
        play_loop (bytes_of ws) ?t = ?t\<lparr>tape_in_pos := 2 * j, tape_read_ticks := of_nat (T + start_of ws j),
          tape_read_val := (if Suc i = j then tape_read_val ?t else bit (ws ! (j - 1)) 15)\<rparr>"
      by (intro less.hyps) (use True less.prems(3,5) in \<open>simp_all add: diff_less_mono2\<close>)
    then obtain j where j: "Suc i \<le> j" "j \<le> length ws" "start_of ws j \<ge> k \<or> j = length ws" "Suc i < j \<longrightarrow> start_of ws (j - 1) < k"
      "play_loop (bytes_of ws) ?t = ?t\<lparr>tape_in_pos := 2 * j, tape_read_ticks := of_nat (T + start_of ws j),
         tape_read_val := (if Suc i = j then tape_read_val ?t else bit (ws ! (j - 1)) 15)\<rparr>" by blast
    have "start_of ws (j - 1) < k" using j(1,4) True by (cases "Suc i = j") auto
    moreover have "(if Suc i = j then tape_read_val ?t else bit (ws ! (j - 1)) 15) = bit (ws ! (j - 1)) 15" using j(1) by auto
    ultimately show ?thesis using j step by (intro exI[of _ j]) (simp add: less_eq_Suc_le)
  qed
qed

text \<open>After \<open>k\<close> ticks of playing the head stands in word \<open>i - 1\<close>, which covers that tick.\<close>

definition playing :: "u16 list \<Rightarrow> nat \<Rightarrow> nat \<Rightarrow> bk_tape \<Rightarrow> bool" where
  "playing ws T k t = (\<exists>i. tape_in t = Some (bytes_of ws) \<and> \<not> tape_status t \<and> unat (tape_ticks t) = T + k \<and>
     tape_in_pos t = 2 * i \<and> i \<le> length ws \<and> unat (tape_read_ticks t) = T + start_of ws i \<and>
     (if k = 0 then i = 0 else 0 < i \<and> start_of ws (i - 1) < k \<and> k \<le> start_of ws i \<and> tape_read_val t = bit (ws ! (i - 1)) 15))"

lemma play_step:
  assumes "playing (ws @ [w]) T k t" "k \<le> length (levels ws)" "0 < ticks_of w"
    and "T + length (levels (ws @ [w])) < 2 ^ 64"
  shows "fst (bk_tape_read (bk_tape_tick t)) = levels (ws @ [w]) ! k \<and> playing (ws @ [w]) T (Suc k) (snd (bk_tape_read (bk_tape_tick t)))"
proof -
  let ?ws = "ws @ [w]" let ?t = "bk_tape_tick t"
  obtain i where i: "tape_in t = Some (bytes_of ?ws)" "\<not> tape_status t" "unat (tape_ticks t) = T + k" "tape_in_pos t = 2 * i"
    "i \<le> length ?ws" "unat (tape_read_ticks t) = T + start_of ?ws i"
    "if k = 0 then i = 0 else 0 < i \<and> start_of ?ws (i - 1) < k \<and> k \<le> start_of ?ws i \<and> tape_read_val t = bit (?ws ! (i - 1)) 15"
    using assms(1) unfolding playing_def by blast
  have total: "start_of ?ws (length ?ws) = length (levels ?ws)" "start_of ?ws (length ws) = length (levels ws)"
    by (simp_all add: start_of_def)
  have lt: "i < length ?ws"
  proof (rule ccontr)
    assume "\<not> i < length ?ws"
    then have "i = length ?ws" using i(5) by simp
    then show False using i(7) total(2) assms(2) by (auto split: if_splits)
  qed
  have ticks: "unat (tape_ticks ?t) = T + Suc k"
  proof -
    have "T + Suc k < 2 ^ 64" using assms(2,3,4) by simp
    then show ?thesis using i(3) by (simp add: bk_tape_tick_def unat_word_ariths)
  qed
  obtain j where j: "i \<le> j" "j \<le> length ?ws" "start_of ?ws j \<ge> Suc k \<or> j = length ?ws" "i < j \<longrightarrow> start_of ?ws (j - 1) < Suc k"
    "play_loop (bytes_of ?ws) ?t = ?t\<lparr>tape_in_pos := 2 * j, tape_read_ticks := of_nat (T + start_of ?ws j),
       tape_read_val := (if i = j then tape_read_val ?t else bit (?ws ! (j - 1)) 15)\<rparr>"
    using play_loop_words[of ?t i ?ws T "Suc k"] i assms(4) ticks total(1) by (auto simp: bk_tape_tick_def)
  have reach: "Suc k \<le> start_of ?ws j" using j(3) total(1) assms(2,3) by auto
  have from_i: "start_of ?ws (j - 1) < Suc k" "0 < j"
    using j(4) i(7) reach j(1) by (cases "i = j"; auto simp: start_of_simps split: if_splits)+
  have val: "(if i = j then tape_read_val ?t else bit (?ws ! (j - 1)) 15) = bit (?ws ! (j - 1)) 15"
    using i(7) reach by (auto simp: bk_tape_tick_def start_of_simps split: if_splits)
  have "start_of ?ws j \<le> start_of ?ws (length ?ws)" by (rule start_of_mono[OF j(2)])
  then have rt: "unat (of_nat (T + start_of ?ws j) :: u64) = T + start_of ?ws j"
    using assms(4) total(1) by (simp add: unsigned_of_nat take_bit_nat_eq_self del: of_nat_add)
  have read: "bk_tape_read ?t = (bit (?ws ! (j - 1)) 15, play_loop (bytes_of ?ws) ?t)"
  proof -
    have "\<not> length (bytes_of ?ws) \<le> 2 * i + 1" using lt unfolding bytes_simps(4) by linarith
    then have "bk_tape_read ?t = (tape_read_val (play_loop (bytes_of ?ws) ?t), play_loop (bytes_of ?ws) ?t)"
      using i(1,2,4) by (simp add: bk_tape_read_def bk_tape_tick_def Let_def del: bytes_simps)
    then show ?thesis unfolding j(5) val by simp
  qed
  have "levels ?ws ! (Suc k - 1) = bit (?ws ! (j - 1)) 15"
    by (rule level_at) (use from_i reach j(2) in simp_all)
  moreover have "playing ?ws T (Suc k) (play_loop (bytes_of ?ws) ?t)"
    unfolding playing_def using i(1,2) j(2,5) ticks rt from_i reach val
    by (intro exI[of _ j]) (simp add: bk_tape_tick_def)
  ultimately show ?thesis by (simp add: read)
qed

lemma play_levels_ok:
  "playing (ws @ [w]) T k t \<Longrightarrow> k + n \<le> Suc (length (levels ws)) \<Longrightarrow> 0 < ticks_of w \<Longrightarrow>
   T + length (levels (ws @ [w])) < 2 ^ 64 \<Longrightarrow>
   fst (play_levels n t) = take n (drop k (levels (ws @ [w])))"
proof (induction n arbitrary: k t)
  case (Suc n)
  have k: "k \<le> length (levels ws)" using Suc.prems(2) by simp
  have lt: "k < length (levels (ws @ [w]))" using k Suc.prems(3) by simp
  note step = play_step[OF Suc.prems(1) k Suc.prems(3,4)]
  have "fst (play_levels n (snd (bk_tape_read (bk_tape_tick t)))) = take n (drop (Suc k) (levels (ws @ [w])))"
    using Suc.IH[of "Suc k" "snd (bk_tape_read (bk_tape_tick t))"] step Suc.prems(2-4) by simp
  then show ?case using step lt by (simp add: split_beta Cons_nth_drop_Suc[symmetric] del: levels_simps)
qed simp

text \<open>C36: What a program records on the BK-0010 tape is played back tick by tick: writing any sequence of levels, one per tick, closed by a last edge, and stopping the motor leaves a recording from which, after a rewind, the read head gives exactly that sequence, one level per tick, from the moment the motor starts.\<close>
theorem record_then_play:
  assumes "tape_status t" "tape_out_enabled t" "tape_out t = []" and "vs \<noteq> []" "length vs < 2 ^ 62"
    and "tape_status p" "unat (tape_ticks p) < 2 ^ 62"
  shows "let data = tape_out (bk_tape_write False b (record_levels (vs @ [\<not> last vs]) t))
    in fst (play_levels (length vs + 1) (bk_tape_write True c (snd (bk_tape_set_input data p)))) = vs @ [\<not> last vs]"
proof -
  let ?vs = "vs @ [\<not> last vs]" let ?t = "record_levels ?vs t"
  obtain v us where v: "vs = v # us" using assms(4) by (cases vs) auto
  have "recording ?t ([v] @ us @ [\<not> last vs])"
    using record_levels_ok[OF record_start[OF assms(1-3)], of v "us @ [\<not> last vs]"] assms(5) by (simp add: v)
  then have "recording ?t (vs @ [\<not> last vs])" by (simp add: v)
  then obtain ws w where w: "tape_words (tape_out (bk_tape_write False b ?t)) (ws @ [w])" "levels ws = vs"
    "bit w 15 = (\<not> last vs)" "0 < ticks_of w" using record_stop[of ?t vs "\<not> last vs" b] assms(5) by auto
  define p1 where "p1 = bk_tape_write True c (snd (bk_tape_set_input (bytes_of (ws @ [w])) p))"
  have "bytes_of (ws @ [w]) \<noteq> []" by (simp add: word_bytes_def)
  then have p1: "tape_in p1 = Some (bytes_of (ws @ [w]))" "\<not> tape_status p1" "tape_in_pos p1 = 0"
    "tape_ticks p1 = tape_ticks p + TAPE_RELAY_DELAY" "tape_read_ticks p1 = tape_ticks p + TAPE_RELAY_DELAY"
    using assms(6) by (auto simp: p1_def bk_tape_write_def bk_tape_set_input_def tape_out_append_def Let_def)
  have T: "unat (tape_ticks p + TAPE_RELAY_DELAY) = unat (tape_ticks p) + 10000" using assms(7) by (simp add: unat_word_ariths)
  then have start: "playing (ws @ [w]) (unat (tape_ticks p) + 10000) 0 p1"
    unfolding playing_def using p1 by (intro exI[of _ 0]) (simp add: start_of_simps)
  have "ticks_of w < 2 ^ 16" unfolding ticks_of_def using unsigned_less[of "w AND 0x7FFF", where 'a = nat] by simp
  then have "unat (tape_ticks p) + 10000 + length (levels (ws @ [w])) < 2 ^ 64" using assms(5,7) w(2) by simp
  from play_levels_ok[OF start _ w(4) this, of "length vs + 1"]
  have "fst (play_levels (length vs + 1) p1) = take (length vs + 1) (levels (ws @ [w]))" by (simp add: w(2))
  also have "\<dots> = vs @ [\<not> last vs]"
    using w(2-4) by (cases "ticks_of w") simp_all
  finally show ?thesis using w(1) by (simp add: p1_def tape_words_def Let_def)
qed

definition new_tape :: bk_tape where
  "new_tape = \<lparr>tape_synch = 25, tape_synch_forced = False, tape_name_pad_space = False, tape_read_val = True, tape_write_val = False,
     tape_status = True, tape_ticks = 0, tape_read_ticks = 0, tape_write_ticks = 0, tape_in = None, tape_in_pos = 0, tape_out = [],
     tape_out_enabled = True\<rparr>"

lemma new_tape_ready: "tape_status new_tape" "tape_out_enabled new_tape" "tape_out new_tape = []" "unat (tape_ticks new_tape) < 2 ^ 62"
  by (simp_all add: new_tape_def)

lemma three_short: "length [True, True, False] < 2 ^ 62"
  by simp

theorem record_then_play_witness:
  "fst (play_levels 4 (bk_tape_write True False (snd (bk_tape_set_input
     (tape_out (bk_tape_write False False (record_levels [True, True, False, True] new_tape))) new_tape)))) = [True, True, False, True]"
proof -
  have "length [True, True, False] + 1 = 4" "[True, True, False] @ [\<not> last [True, True, False]] = [True, True, False, True]" by simp_all
  then show ?thesis
    using record_then_play[of new_tape "[True, True, False]" new_tape False False] unfolding Let_def
    by (metis (no_types) new_tape_ready list.distinct(1) three_short)
qed

end
