(* ===== verification/BkHw.thy ===== *)
theory BkHw
  imports Traps BkTape BkTiming Step
begin

text \<open>
  The BK-0010-01 around its processor (bk0010-01/bk\_hw.c): the memory with the ROM segments in
  front of it, the keyboard, shift, extension and system registers, the bus callbacks, reset and
  interrupts; and the host's side of it (bk0010-01/main.c, x11\_gui.c): power on, key events, the
  instructions of a frame, the picture.
\<close>

section \<open>State\<close>

text \<open>A ROM segment is never stored without its data (\<^verbatim>\<open>bk_hw_set_rom_segment\<close>). \<open>bk_mem\<close> is the
  host's block, \<open>None\<close> for the NULL pointer.\<close>

record rom_segment =
  rom_data :: "u32 \<Rightarrow> u8"
  rom_base :: u16
  rom_size :: u16

record bk_hw =
  bk_mem :: "(u16 \<Rightarrow> u8) option"
  mem_size :: nat
  kbd_status :: u8
  kbd_data :: u8
  shift_reg :: u16
  ext_port :: u16
  sys_ctrl :: u16
  sys_port_out :: u8
  sys_port_in :: u8
  kbd_irq_pending :: bool
  tape_in_bit :: bool
  beeper_on :: bool
  beeper_pulse :: int
  roms :: "rom_segment list"
  tape :: bk_tape

abbreviation BK_KBD_STATUS :: u16 where "BK_KBD_STATUS \<equiv> 0xFFB0"
abbreviation BK_KBD_DATA :: u16 where "BK_KBD_DATA \<equiv> 0xFFB2"
abbreviation BK_SHIFT_REG :: u16 where "BK_SHIFT_REG \<equiv> 0xFFB4"
abbreviation BK_EXT_PORT :: u16 where "BK_EXT_PORT \<equiv> 0xFFCC"
abbreviation BK_SYS_CTRL :: u16 where "BK_SYS_CTRL \<equiv> 0xFFCE"
abbreviation BK_IO :: u16 where "BK_IO \<equiv> 0xFF80"
abbreviation CSR_READY :: u8 where "CSR_READY \<equiv> 0x80"

definition on_bk :: "(bk_hw \<Rightarrow> bk_hw) \<Rightarrow> bk_hw regs \<Rightarrow> bk_hw regs" where
  "on_bk f r = r\<lparr>mach := f (mach r)\<rparr>"

section \<open>Read-only memory\<close>

definition rom_covers :: "u16 \<Rightarrow> rom_segment \<Rightarrow> bool" where
  "rom_covers addr seg =
     (let addr32 = ucast addr :: u32; base = ucast (rom_base seg); fin = base + ucast (rom_size seg)
      in rom_size seg \<noteq> 0 \<and>
         (if fin \<le> 0x10000 then addr32 \<ge> base \<and> addr32 < fin else addr32 \<ge> base \<or> addr32 < fin AND 0xFFFF))"

definition rom_for_addr :: "bk_hw \<Rightarrow> u16 \<Rightarrow> rom_segment option" where
  "rom_for_addr s addr = find (rom_covers addr) (roms s)"

definition rom_offset :: "rom_segment \<Rightarrow> u16 \<Rightarrow> u32" where
  "rom_offset seg addr =
     (let base = ucast (rom_base seg); addr32 = ucast addr in if addr32 \<ge> base then addr32 - base else addr32 + 0x10000 - base)"

definition is_rom_addr :: "u16 \<Rightarrow> bool" where
  "is_rom_addr addr = (addr \<ge> 0x8000 \<and> addr \<le> 0xFFFF)"

definition tape_motor_on :: "bk_hw \<Rightarrow> bool" where
  "tape_motor_on s = (sys_port_out s AND 0x80 = 0)"

section \<open>The bus\<close>

text \<open>\<open>be\<close> is the bus error trap of the core; \<open>None\<close> without memory (a NULL pointer is read).\<close>

definition bk_load_byte :: "(bk_hw regs \<Rightarrow> bk_hw regs option) \<Rightarrow> bk_hw regs \<Rightarrow> u16 \<Rightarrow> (u8 \<times> bk_hw regs) option" where
  "bk_load_byte be r offset =
     (let s = mach r
      in if offset = BK_KBD_STATUS then Some ((kbd_status s AND CSR_READY) OR (kbd_status s AND 0x40), r)
         else if offset = BK_KBD_STATUS + 1 then Some (0, r)
         else if offset = BK_KBD_DATA
         then Some (kbd_data s AND 0x7F,
                    r\<lparr>mach := s\<lparr>kbd_status := kbd_status s AND NOT CSR_READY, sys_port_in := sys_port_in s OR 0x40,
                               kbd_irq_pending := False\<rparr>\<rparr>)
         else if offset = BK_KBD_DATA + 1 then Some (0, r)
         else if offset = BK_SHIFT_REG then Some (ucast (shift_reg s AND 0xFF), r)
         else if offset = BK_SHIFT_REG + 1 then Some (ucast (drop_bit 8 (shift_reg s)) AND 2, r)
         else if offset = BK_EXT_PORT then Some (ucast (ext_port s AND 0xFF), r)
         else if offset = BK_EXT_PORT + 1 then Some (ucast (drop_bit 8 (ext_port s)), r)
         else if offset = BK_SYS_CTRL
         then let value = ucast (sys_port_in s AND 0xFC) :: u16
              in Some (ucast (value AND 0xFF), r\<lparr>mach := s\<lparr>sys_port_in := sys_port_in s AND NOT 4\<rparr>\<rparr>)
         else if offset = BK_SYS_CTRL + 1 then Some (ucast (drop_bit 8 (sys_ctrl s)), r)
         else if offset \<ge> BK_IO then do { r \<leftarrow> be r; Some (0, r) }
         else case rom_for_addr s offset of
                Some seg \<Rightarrow> Some (rom_data seg (rom_offset seg offset), r)
              | None \<Rightarrow>
                  if is_rom_addr offset then do { r \<leftarrow> be r; Some (0, r) }
                  else case bk_mem s of None \<Rightarrow> None | Some m \<Rightarrow> Some (m offset, r))"

definition sys_ctrl_write :: "u8 \<Rightarrow> bk_hw \<Rightarrow> bk_hw" where
  "sys_ctrl_write value s =
     (let s = s\<lparr>sys_port_out := value AND 0xF0, beeper_on := (value AND 0x40 \<noteq> 0)\<rparr>;
          s = (if beeper_on s then s\<lparr>beeper_pulse := beeper_pulse s + 1\<rparr> else s);
          s = s\<lparr>tape := bk_tape_write (tape_motor_on s) (value AND 0x40 \<noteq> 0) (tape s)\<rparr>
      in s\<lparr>sys_port_in := sys_port_in s OR 4\<rparr>)"

definition bk_store_byte :: "(bk_hw regs \<Rightarrow> bk_hw regs option) \<Rightarrow> bk_hw regs \<Rightarrow> u16 \<Rightarrow> u8 \<Rightarrow> bk_hw regs option" where
  "bk_store_byte be r offset value =
     (let s = mach r
      in if offset = BK_KBD_STATUS
         then Some (r\<lparr>mach := s\<lparr>kbd_status := (kbd_status s AND CSR_READY) OR (value AND 0x40)\<rparr>\<rparr>)
         else if offset = BK_KBD_STATUS + 1 then Some r
         else if offset = BK_KBD_DATA
         then Some (r\<lparr>mach := s\<lparr>kbd_data := value, kbd_status := kbd_status s OR CSR_READY\<rparr>\<rparr>)
         else if offset = BK_KBD_DATA + 1 then Some r
         else if offset = BK_SHIFT_REG
         then Some (r\<lparr>mach := s\<lparr>shift_reg := (shift_reg s AND 0xFF00) OR ucast value\<rparr>\<rparr>)
         else if offset = BK_SHIFT_REG + 1
         then Some (r\<lparr>mach := s\<lparr>shift_reg := (shift_reg s AND 0xFF) OR (push_bit 8 (ucast value) AND 0x200)\<rparr>\<rparr>)
         else if offset = BK_EXT_PORT
         then Some (r\<lparr>mach := s\<lparr>ext_port := (ext_port s AND 0xFF00) OR ucast value\<rparr>\<rparr>)
         else if offset = BK_EXT_PORT + 1
         then Some (r\<lparr>mach := s\<lparr>ext_port := (ext_port s AND 0xFF) OR push_bit 8 (ucast value)\<rparr>\<rparr>)
         else if offset = BK_SYS_CTRL then Some (r\<lparr>mach := sys_ctrl_write value s\<rparr>)
         else if offset = BK_SYS_CTRL + 1 then Some (r\<lparr>mach := s\<lparr>sys_port_in := sys_port_in s OR 4\<rparr>\<rparr>)
         else if offset \<ge> BK_IO then be r
         else if rom_for_addr s offset \<noteq> None \<or> is_rom_addr offset then be r
         else case bk_mem s of None \<Rightarrow> None | Some m \<Rightarrow> Some (r\<lparr>mach := s\<lparr>bk_mem := Some (m(offset := value))\<rparr>\<rparr>))"

definition bk_load_word :: "(bk_hw regs \<Rightarrow> bk_hw regs option) \<Rightarrow> bk_hw regs \<Rightarrow> u16 \<Rightarrow> (u16 \<times> bk_hw regs) option" where
  "bk_load_word be r offset =
     do { (lo, r) \<leftarrow> bk_load_byte be r offset;
          if fAbort r then Some (0, r)
          else do { (hi, r) \<leftarrow> bk_load_byte be r (offset + 1); Some (ucast lo OR push_bit 8 (ucast hi), r) } }"

definition bk_store_word :: "(bk_hw regs \<Rightarrow> bk_hw regs option) \<Rightarrow> bk_hw regs \<Rightarrow> u16 \<Rightarrow> u16 \<Rightarrow> bk_hw regs option" where
  "bk_store_word be r offset value =
     do { r \<leftarrow> bk_store_byte be r offset (ucast (value AND 0xFF));
          if fAbort r then Some r else bk_store_byte be r (offset + 1) (ucast (drop_bit 8 value)) }"

section \<open>Initialisation, reset, interrupts\<close>

definition bk_hw_required_memory_size :: nat where "bk_hw_required_memory_size = 65536"

text \<open>The environment variable of \<^verbatim>\<open>bk_tape_init\<close> is an argument.\<close>

definition bk_init :: "nat option \<Rightarrow> bk_hw regs \<Rightarrow> int \<times> bk_hw regs" where
  "bk_init synch_env r =
     (if bk_mem (mach r) = None \<or> mem_size (mach r) < 65536 then (-1, r)
      else (0, on_bk (\<lambda>s. s\<lparr>bk_mem := Some (\<lambda>_. 0), tape := bk_tape_init synch_env (tape s)\<rparr>) r))"

definition bk_hw_reset_state :: "bk_hw \<Rightarrow> bk_hw" where
  "bk_hw_reset_state s =
     s\<lparr>kbd_status := CSR_READY, kbd_data := 0, shift_reg := 0x2D8, ext_port := 0xFFFF, sys_ctrl := 0x8000,
       sys_port_out := 0x90, sys_port_in := 0xF8, kbd_irq_pending := False, beeper_on := False, beeper_pulse := 0,
       tape := bk_tape_reset (tape s)\<rparr>"

definition bk_reset :: "bk_hw regs \<Rightarrow> bk_hw regs" where
  "bk_reset r = on_bk
     (\<lambda>s. s\<lparr>kbd_status := CSR_READY, kbd_data := 0, shift_reg := 0x2D8, ext_port := 0xFFFF, sys_ctrl := 0x8000,
            sys_port_out := 0x90, sys_port_in := 0xF8, kbd_irq_pending := False, beeper_on := False, beeper_pulse := 0,
            tape := bk_tape_reset (tape s)\<rparr>) r"

definition bk_fini :: "bk_hw regs \<Rightarrow> bk_hw regs" where
  "bk_fini r = on_bk
     (\<lambda>s. s\<lparr>bk_mem := None, mem_size := 0, tape := bk_tape_output_clear (snd (bk_tape_set_input [] (tape s)))\<rparr>) r"

definition bk_ramptr :: "bk_hw regs \<Rightarrow> u16 \<Rightarrow> u32 option" where
  "bk_ramptr r offset = (if is_rom_addr offset then None else Some (ucast offset))"

definition bk_poll_irq :: "bk_hw regs \<Rightarrow> u16 option \<times> bk_hw regs" where
  "bk_poll_irq r =
     (let s = mach r
      in if kbd_irq_pending s \<and> kbd_status s AND CSR_READY \<noteq> 0 \<and> kbd_status s AND 0x40 = 0
         then (Some (if kbd_data s AND 0x80 \<noteq> 0 then 0xBC else 0x30), r\<lparr>mach := s\<lparr>kbd_irq_pending := False\<rparr>\<rparr>)
         else (None, r))"

text \<open>\<^verbatim>\<open>bk_hw_connect\<close> fills in the callbacks and the fields of the fast path.\<close>

definition bk_bus :: "nat option \<Rightarrow> bk_hw bus" where
  "bk_bus synch_env =
     \<lparr>ENABLE_MMU = False, MMU_STUB_REGS_WHEN_DISABLED = False,
      cb_load_byte = bk_load_byte, cb_store_byte = bk_store_byte, cb_load_word = bk_load_word, cb_store_word = bk_store_word,
      cb_load_byte_pa = None, cb_store_byte_pa = None, cb_load_word_pa = None, cb_store_word_pa = None,
      cb_init = Some (bk_init synch_env), cb_reset = Some bk_reset, cb_fini = Some bk_fini,
      cb_poll_irq = Some bk_poll_irq, cb_ramptr = Some bk_ramptr,
      host_read = (\<lambda>r p. case bk_mem (mach r) of None \<Rightarrow> 0 | Some m \<Rightarrow> m (ucast p)),
      host_write = (\<lambda>r p v. on_bk (\<lambda>s. s\<lparr>bk_mem := map_option (\<lambda>m. m(ucast p := v)) (bk_mem s)\<rparr>) r)\<rparr>"

definition bk_hw_connect :: "bk_hw regs \<Rightarrow> bk_hw regs" where
  "bk_hw_connect r = r\<lparr>ram_fast := None, ram_fast_size := 0x8000\<rparr>"

definition bk_hw_set_memory :: "(u16 \<Rightarrow> u8) option \<Rightarrow> nat \<Rightarrow> bk_hw \<Rightarrow> int \<times> bk_hw" where
  "bk_hw_set_memory memory bytes s =
     (if memory = None \<or> bytes < 65536 then (-1, s\<lparr>bk_mem := None, mem_size := 0\<rparr>)
      else (0, s\<lparr>bk_mem := memory, mem_size := bytes\<rparr>))"

definition bk_hw_set_rom_segment :: "(u32 \<Rightarrow> u8) option \<Rightarrow> u16 \<Rightarrow> u16 \<Rightarrow> bk_hw \<Rightarrow> bk_hw" where
  "bk_hw_set_rom_segment rom base bytes s =
     (case rom of
        None \<Rightarrow> s
      | Some data \<Rightarrow> if bytes = 0 \<or> length (roms s) \<ge> 2 then s
                    else s\<lparr>roms := roms s @ [\<lparr>rom_data = data, rom_base = base, rom_size = bytes\<rparr>]\<rparr>)"

section \<open>Keyboard, tape and beeper\<close>

definition bk_hw_handle_key :: "int \<Rightarrow> bk_hw \<Rightarrow> bk_hw" where
  "bk_hw_handle_key code s =
     (if code < 0 then s
      else let s = s\<lparr>kbd_data := word_of_int code, kbd_status := kbd_status s OR CSR_READY, sys_port_in := sys_port_in s AND NOT 0x40\<rparr>
           in if kbd_status s AND 0x40 = 0 then s\<lparr>kbd_irq_pending := True\<rparr> else s)"

definition bk_hw_set_tick_hz :: "u32 \<Rightarrow> bk_hw \<Rightarrow> bk_hw" where
  "bk_hw_set_tick_hz hz s = s\<lparr>tape := bk_tape_set_tick_hz hz (tape s)\<rparr>"

definition bk_hw_tick :: "bk_hw \<Rightarrow> bk_hw" where
  "bk_hw_tick s =
     (let (v, t) = bk_tape_read (bk_tape_tick (tape s)); s = s\<lparr>tape := t, tape_in_bit := v\<rparr>
      in if tape_in_bit s then s\<lparr>sys_port_in := sys_port_in s OR 0x20\<rparr> else s\<lparr>sys_port_in := sys_port_in s AND NOT 0x20\<rparr>)"

fun bk_hw_tick_n :: "nat \<Rightarrow> bk_hw \<Rightarrow> bk_hw" where
  "bk_hw_tick_n 0 s = s"
| "bk_hw_tick_n (Suc ticks) s = bk_hw_tick_n ticks (bk_hw_tick s)"

definition bk_hw_beeper_pulse :: "bk_hw \<Rightarrow> int \<times> bk_hw" where
  "bk_hw_beeper_pulse s = (beeper_pulse s, s\<lparr>beeper_pulse := 0\<rparr>)"

definition bk_hw_tape_set_input :: "u8 list \<Rightarrow> bk_hw \<Rightarrow> int \<times> bk_hw" where
  "bk_hw_tape_set_input data s = (let (rc, t) = bk_tape_set_input_bin data None (tape s) in (rc, s\<lparr>tape := t\<rparr>))"

definition bk_hw_tape_set_input_named :: "u8 list \<Rightarrow> u8 list \<Rightarrow> bk_hw \<Rightarrow> int \<times> bk_hw" where
  "bk_hw_tape_set_input_named data name s = (let (rc, t) = bk_tape_set_input_bin data (Some name) (tape s) in (rc, s\<lparr>tape := t\<rparr>))"

definition bk_hw_tape_set_input_raw :: "u8 list \<Rightarrow> bk_hw \<Rightarrow> int \<times> bk_hw" where
  "bk_hw_tape_set_input_raw data s = (let (rc, t) = bk_tape_set_input data (tape s) in (rc, s\<lparr>tape := t\<rparr>))"

definition bk_hw_tape_rewind :: "bk_hw \<Rightarrow> bk_hw" where
  "bk_hw_tape_rewind s = s\<lparr>tape := bk_tape_rewind (tape s)\<rparr>"

section \<open>Picture\<close>

definition bk_hw_vram_base :: "bk_hw \<Rightarrow> u16" where
  "bk_hw_vram_base s = (if shift_reg s AND 0x200 \<noteq> 0 then 0x4000 else 0x7000)"

definition bk_hw_vram_size :: "bk_hw \<Rightarrow> u16" where
  "bk_hw_vram_size s = (if shift_reg s AND 0x200 \<noteq> 0 then 0x4000 else 0x1000)"

text \<open>The pixel of the bitmap at \<open>x < 512\<close>, \<open>y < 256\<close> (\<^verbatim>\<open>draw_screen\<close>, \<^verbatim>\<open>x11_gui_draw\<close>): the byte index and
  the bit, and the colour. The arithmetic is that of \<^verbatim>\<open>word\<close>.\<close>

definition byte_index :: "bk_hw \<Rightarrow> nat \<Rightarrow> nat \<Rightarrow> u16" where
  "byte_index s x y =
     (let vram_size = bk_hw_vram_size s;
          scroll = shift_reg s AND 0xFF;
          base_offset = ((scroll - 0xD8) AND 0xFF) * 0x40;
          base_offset = (if vram_size \<noteq> 0 then base_offset mod vram_size else base_offset);
          line_offset = of_nat (y * 64);
          i = base_offset + line_offset + of_nat (x div 8)
      in if vram_size \<noteq> 0 then i mod vram_size else i)"

definition draw_screen :: "bk_hw \<Rightarrow> nat \<Rightarrow> nat \<Rightarrow> u32 option" where
  "draw_screen s x y =
     (case bk_mem s of
        None \<Rightarrow> None
      | Some m \<Rightarrow> let mask = push_bit (x mod 8) 1 :: u8
                 in Some (if m (bk_hw_vram_base s + byte_index s x y) AND mask \<noteq> 0 then 0xFFFFFFFF else 0))"

section \<open>The host's loop\<close>

text \<open>The host's keys and the choices of \<^verbatim>\<open>main\<close> they change; traces, titles and pacing are left out.\<close>

record bk_main =
  cpu_hz :: u32
  cpu_max :: bool
  cpu_mode :: int
  name_pad_space :: bool
  cycles_per_frame :: nat

abbreviation BK_KEY_STOP :: int where "BK_KEY_STOP \<equiv> 0x100"
abbreviation BK_KEY_FREQ :: int where "BK_KEY_FREQ \<equiv> 0x101"
abbreviation BK_KEY_PADD :: int where "BK_KEY_PADD \<equiv> 0x102"

definition key_down :: "int \<Rightarrow> bk_main \<times> bk_hw regs \<Rightarrow> bk_main \<times> bk_hw regs" where
  "key_down code st =
     (case st of (h, r) \<Rightarrow>
        if code = BK_KEY_STOP then (h, r\<lparr>fHaltSignal := True\<rparr>)
        else if code = BK_KEY_PADD then
          let h = h\<lparr>name_pad_space := \<not> name_pad_space h\<rparr>
          in (h, on_bk (\<lambda>s. s\<lparr>tape := bk_tape_set_name_pad (name_pad_space h) (tape s)\<rparr>) r)
        else if code = BK_KEY_FREQ then
          let h = h\<lparr>cpu_mode := (cpu_mode h + 1) mod 3\<rparr>;
              h = (if cpu_mode h = 0 then h\<lparr>cpu_hz := 3000000, cpu_max := False\<rparr>
                   else if cpu_mode h = 1 then h\<lparr>cpu_hz := 4000000, cpu_max := False\<rparr>
                   else h\<lparr>cpu_max := True\<rparr>);
              h = h\<lparr>cycles_per_frame := unat (cpu_hz h) div 60\<rparr>
          in (h, on_bk (bk_hw_set_tick_hz (cpu_hz h)) r)
        else if code \<ge> 0 then (h, on_bk (bk_hw_handle_key code) r)
        else (h, r))"

text \<open>The instructions of a frame: the cycle counter stays far below \<open>2 ^ 64\<close> and is a number. \<open>audio\<close>: a
  sound device is open, and each instruction takes the beeper's pulses.\<close>

definition bk_instruction :: "nat option \<Rightarrow> bool \<Rightarrow> nat \<Rightarrow> nat \<Rightarrow> bk_hw regs \<Rightarrow> (u32 \<times> bk_hw regs) option" where
  "bk_instruction e audio n m r =
     do { r \<leftarrow> core_step (bk_bus e) n m r;
          let cycles = bk_timing_cycles (ir r);
          let cycles = (if cycles = 0 then 1 else cycles);
          let r = (if audio then on_bk (\<lambda>s. snd (bk_hw_beeper_pulse s)) r else r);
          Some (cycles, on_bk (bk_hw_tick_n (unat cycles)) r) }"

text \<open>The loop ends when a frame's cycles are used up; that it does is proved in BkCpu.\<close>

partial_function (option) bk_instructions ::
  "nat option \<Rightarrow> bool \<Rightarrow> nat \<Rightarrow> nat \<Rightarrow> nat \<Rightarrow> nat \<Rightarrow> bk_hw regs \<Rightarrow> bk_hw regs option" where
  "bk_instructions e audio n m budget frame_cycles r =
     (if frame_cycles < budget
      then do { (cycles, r) \<leftarrow> bk_instruction e audio n m r; bk_instructions e audio n m budget (frame_cycles + unat cycles) r }
      else Some r)"

definition bk_frame ::
  "nat option \<Rightarrow> bool \<Rightarrow> nat \<Rightarrow> nat \<Rightarrow> int list \<Rightarrow> bk_main \<times> bk_hw regs \<Rightarrow> (bk_main \<times> bk_hw regs) option" where
  "bk_frame e audio n m codes st =
     (case fold key_down codes st of (h, r) \<Rightarrow>
        do { r \<leftarrow> bk_instructions e audio n m (if cpu_max h then 200000 else cycles_per_frame h) 0 r; Some (h, r) })"

fun bk_main_loop ::
  "nat option \<Rightarrow> bool \<Rightarrow> nat \<Rightarrow> nat \<Rightarrow> int list list \<Rightarrow> bk_main \<times> bk_hw regs \<Rightarrow> (bk_main \<times> bk_hw regs) option" where
  "bk_main_loop e audio n m [] st = Some st"
| "bk_main_loop e audio n m (codes # frames) st =
     do { st \<leftarrow> bk_frame e audio n m codes st; bk_main_loop e audio n m frames st }"

text \<open>Power on, with the images of the monitor and (if there is one) of the BASIC.\<close>

definition bk_power_on ::
  "nat option \<Rightarrow> nat \<Rightarrow> bk_main \<Rightarrow> (u32 \<Rightarrow> u8) \<times> u16 \<Rightarrow> ((u32 \<Rightarrow> u8) \<times> u16) option \<Rightarrow> bk_hw \<Rightarrow> bk_hw regs option" where
  "bk_power_on e n h monitor basic s =
     (let r = zero_regs K1801VM1 (snd (bk_hw_set_memory (Some (\<lambda>_. 0)) bk_hw_required_memory_size s));
          r = bk_hw_connect r;
          r = on_bk (\<lambda>s. s\<lparr>tape := bk_tape_set_name_pad (name_pad_space h) (tape s)\<rparr>) r;
          (rc, r) = core_init (bk_bus e) r
      in if rc \<noteq> 0 then None
         else let r = on_bk (bk_hw_set_rom_segment (Some (fst monitor)) 0x8000 (snd monitor)) r;
                  r = (case basic of None \<Rightarrow> r | Some (rom, bytes) \<Rightarrow> on_bk (bk_hw_set_rom_segment (Some rom) 0xA000 bytes) r)
              in do { r \<leftarrow> core_reset (bk_bus e) (core_trap (bk_bus e) n) r;
                      Some (on_bk (bk_hw_set_tick_hz (cpu_hz h)) r) })"

end
