(* ===== verification/BkCpu.thy ===== *)
theory BkCpu
  imports BkHw Invariants
begin

text \<open>
  The VM1 on the BK-0010-01. Its callbacks raise bus errors, and the trap that follows pushes on
  the stack, which may raise the next one: the nest ends because the stack pointer moves down to
  the RAM, and with the vector of the HALT mode in ROM every program runs; without that ROM it
  does not. The cached RAM window is the bus. The keyboard.
\<close>

section \<open>What keeps the machine running\<close>

definition seg_high :: "rom_segment \<Rightarrow> bool" where
  "seg_high seg = (0x8000 \<le> unat (rom_base seg) \<and> unat (rom_base seg) + unat (rom_size seg) \<le> 0x10000)"

definition in_rom :: "bk_hw \<Rightarrow> u16 \<Rightarrow> bool" where
  "in_rom s a = (rom_for_addr s a \<noteq> None)"

text \<open>All ROM is in the upper half and holds the two words of the vector 0160002.\<close>

definition roms_ok :: "bk_hw \<Rightarrow> bool" where
  "roms_ok s = ((\<forall>seg \<in> set (roms s). seg_high seg) \<and> in_rom s 0xE002 \<and> in_rom s 0xE003 \<and> in_rom s 0xE004 \<and> in_rom s 0xE005)"

definition bk_inv :: "bk_hw regs \<Rightarrow> bool" where
  "bk_inv r = (model r = K1801VM1 \<and> bk_mem (mach r) \<noteq> None \<and> roms_ok (mach r) \<and>
     ram_fast r \<in> {None, Some 0} \<and> ram_fast_size r = 0x8000)"

lemma bk_invD: "bk_inv r \<Longrightarrow> model r = K1801VM1 \<and> roms_ok (mach r) \<and> (\<exists>m. bk_mem (mach r) = Some m)"
  by (auto simp: bk_inv_def)

lemma bk_inv_mach: "bk_inv r \<Longrightarrow> bk_mem s \<noteq> None \<Longrightarrow> roms s = roms (mach r) \<Longrightarrow> bk_inv (r\<lparr>mach := s\<rparr>)"
  by (simp add: bk_inv_def roms_ok_def in_rom_def rom_for_addr_def)

lemma bk_inv_fields: "(model r', mach r', ram_fast r', ram_fast_size r') = (model r, mach r, ram_fast r, ram_fast_size r) \<Longrightarrow> bk_inv r' = bk_inv r"
  by (simp add: bk_inv_def)

lemma low_not_rom: "roms_ok s \<Longrightarrow> a < 0x8000 \<Longrightarrow> rom_for_addr s a = None"
proof -
  assume r: "roms_ok s" and a: "a < 0x8000"
  have "\<not> rom_covers a seg" if seg: "seg \<in> set (roms s)" for seg
  proof -
    have h: "0x8000 \<le> unat (rom_base seg)" "unat (rom_base seg) + unat (rom_size seg) \<le> 0x10000"
      using r seg by (simp_all add: roms_ok_def seg_high_def)
    then have "unat (ucast (rom_base seg) + ucast (rom_size seg) :: u32) = unat (rom_base seg) + unat (rom_size seg)"
      by (simp add: unat_word_ariths wide16)
    then show ?thesis using h a by (simp add: rom_covers_def word_less_nat_alt word_le_nat_alt wide16 Let_def)
  qed
  then show ?thesis by (simp add: rom_for_addr_def find_None_iff)
qed

lemma low_access:
  assumes "bk_inv r" "a < 0x8000" "bk_mem (mach r) = Some m"
  shows "bk_load_byte be r a = Some (m a, r)"
    "bk_store_byte be r a v = Some (r\<lparr>mach := (mach r)\<lparr>bk_mem := Some (m(a := v))\<rparr>\<rparr>)"
proof -
  have "unat a < 0x8000" using assms(2) by (simp add: word_less_nat_alt)
  then have n: "a \<noteq> k" if "0x8000 \<le> unat k" for k using that by auto
  have "\<not> BK_IO \<le> a" "\<not> is_rom_addr a" using assms(2) by (auto simp: is_rom_addr_def word_le_nat_alt word_less_nat_alt)
  moreover have "rom_for_addr (mach r) a = None" using assms(1,2) by (auto simp: bk_inv_def low_not_rom)
  ultimately show "bk_load_byte be r a = Some (m a, r)"
    "bk_store_byte be r a v = Some (r\<lparr>mach := (mach r)\<lparr>bk_mem := Some (m(a := v))\<rparr>\<rparr>)"
    using assms(3) by (simp_all add: bk_load_byte_def bk_store_byte_def Let_def n)
qed

section \<open>The callbacks\<close>

lemma sys_ctrl_keeps [simp]: "bk_mem (sys_ctrl_write v s) = bk_mem s" "roms (sys_ctrl_write v s) = roms s"
  by (simp_all add: sys_ctrl_write_def Let_def)

lemma is_rom_iff: "is_rom_addr a = (0x8000 \<le> a)"
  using unsigned_less[of a, where 'a = nat] by (auto simp: is_rom_addr_def word_le_nat_alt)

text \<open>A store changes the devices or, in the upper half, raises a bus error; a load likewise.\<close>

lemma bk_store_wp:
  assumes "bk_inv r" "0x8000 \<le> a \<Longrightarrow> runs tot (be r) Q"
    and Q: "\<And>s. bk_mem s \<noteq> None \<Longrightarrow> roms s = roms (mach r) \<Longrightarrow> Q (r\<lparr>mach := s\<rparr>)"
  shows "runs tot (bk_store_byte be r a v) Q"
proof (cases "a < 0x8000")
  case True
  obtain m where "bk_mem (mach r) = Some m" using bk_invD[OF assms(1)] by blast
  then show ?thesis using low_access(2)[OF assms(1) True] by (auto intro: Q)
next
  case False
  then have a: "0x8000 \<le> a" by (simp add: word_le_nat_alt word_less_nat_alt)
  obtain m where m: "bk_mem (mach r) = Some m" using bk_invD[OF assms(1)] by blast
  have "Q r" using Q[of "mach r"] m by simp
  then show ?thesis unfolding bk_store_byte_def Let_def
    by (intro runs_if runs_SomeI Q assms(2) a) (simp_all add: m is_rom_iff a)
qed

lemma bk_load_wp:
  assumes "bk_inv r" "0x8000 \<le> a \<Longrightarrow> runs tot (be r) (\<lambda>r. Q (0, r))"
    and Q: "\<And>v s. bk_mem s \<noteq> None \<Longrightarrow> roms s = roms (mach r) \<Longrightarrow> Q (v, r\<lparr>mach := s\<rparr>)"
  shows "runs tot (bk_load_byte be r a) Q"
proof (cases "a < 0x8000")
  case True
  obtain m where "bk_mem (mach r) = Some m" using bk_invD[OF assms(1)] by blast
  then show ?thesis using low_access(1)[OF assms(1) True] Q[of "mach r"] by auto
next
  case False
  then have a: "0x8000 \<le> a" by (simp add: word_le_nat_alt word_less_nat_alt)
  obtain m where m: "bk_mem (mach r) = Some m" using bk_invD[OF assms(1)] by blast
  have same: "Q (v, r)" for v using Q[of "mach r"] m by simp
  have be: "runs tot (be r \<bind> (\<lambda>r. Some (0, r))) Q" by (intro runs_bind runs_weaken[OF assms(2)[OF a]]) simp
  show ?thesis unfolding bk_load_byte_def Let_def
    by (intro runs_if runs_SomeI Q same be) (auto simp: m is_rom_iff a be same split: option.split)
qed

lemma inv_store: "bk_inv r \<Longrightarrow> (\<And>q. bk_inv q \<Longrightarrow> runs tot (be q) bk_inv) \<Longrightarrow> runs tot (bk_store_byte be r a v) bk_inv"
  by (rule bk_store_wp) (auto intro: bk_inv_mach)

lemma inv_load: "bk_inv r \<Longrightarrow> (\<And>q. bk_inv q \<Longrightarrow> runs tot (be q) bk_inv) \<Longrightarrow> runs tot (bk_load_byte be r a) (\<lambda>(v, r). bk_inv r)"
  by (rule bk_load_wp) (auto intro: bk_inv_mach)

lemma inv_words:
  assumes "bk_inv r" "\<And>q. bk_inv q \<Longrightarrow> runs tot (be q) bk_inv"
  shows "runs tot (bk_load_word be r a) (\<lambda>(v, r). bk_inv r)" "runs tot (bk_store_word be r a w) bk_inv"
  unfolding bk_load_word_def bk_store_word_def
  by (auto intro!: runs_bind runs_weaken[OF inv_load[OF assms(1)]] runs_weaken[OF inv_store[OF assms(1)]] inv_store assms(2)
      runs_weaken[OF inv_load])

section \<open>Bus errors nest only until the stack is in RAM\<close>

text \<open>The two words of a vector can be read.\<close>

lemma rom_byte: "bk_inv r \<Longrightarrow> a \<in> {0xE002, 0xE003, 0xE004, 0xE005} \<Longrightarrow> \<exists>v. bk_load_byte be r a = Some (v, r)"
  by (auto simp: bk_inv_def roms_ok_def in_rom_def bk_load_byte_def)

lemma vector_word:
  assumes "bk_inv r" "a \<in> {4, 6, 0xE002, 0xE004}"
  shows "\<exists>w. core_load_word_vector (bk_bus e) t a r = Some (w, r)"
proof -
  obtain m where m: "bk_mem (mach r) = Some m" using bk_invD[OF assms(1)] by blast
  have byte: "\<exists>v. bk_load_byte be r b = Some (v, r)" if "b \<in> {4, 5, 6, 7} \<or> b \<in> {0xE002, 0xE003, 0xE004, 0xE005}" for b be
    using that
  proof
    assume "b \<in> {4, 5, 6, 7}"
    then have "b < 0x8000" by auto
    then show ?thesis using low_access(1)[OF assms(1) _ m] by simp
  qed (rule rom_byte[OF assms(1)])
  have ab: "a \<in> {4, 5, 6, 7} \<or> a \<in> {0xE002, 0xE003, 0xE004, 0xE005}"
    "a + 1 \<in> {4, 5, 6, 7} \<or> a + 1 \<in> {0xE002, 0xE003, 0xE004, 0xE005}" using assms(2) by auto
  have "\<exists>w. bk_load_word be r a = Some (w, r)" for be
  proof -
    obtain v v' where "bk_load_byte be r a = Some (v, r)" "bk_load_byte be r (a + 1) = Some (v', r)"
      using byte[OF ab(1)] byte[OF ab(2)] by blast
    then show ?thesis by (cases "fAbort r") (simp_all add: bk_load_word_def)
  qed
  moreover have "a AND 0xFFFE = a" using assms(2) by auto
  ultimately show ?thesis
    using assms(1) by (simp add: core_load_word_vector_def bk_bus_def raw_load_word_phys_def dcj11_io_alias_offset_def bk_inv_def wide16)
qed

text \<open>A store by the processor: at an address below 077777 it returns; elsewhere it returns, or raises a
  bus error with the same registers.\<close>

definition bus_error_ok :: "bk_hw trapf \<Rightarrow> u16 \<Rightarrow> bool" where
  "bus_error_ok t sp = (\<forall>r. bk_inv r \<longrightarrow> R r 6 = sp \<longrightarrow> runs True (t BUS_ERROR r) (\<lambda>r. bk_inv r \<and> fAbort r))"

lemma store_word_ok:
  assumes "bk_inv r" "R r 6 = sp" "0x7FFF \<le> a \<Longrightarrow> bus_error_ok t sp"
  shows "runs True (bk_store_word (t BUS_ERROR) r a w) (\<lambda>r'. bk_inv r' \<and> (fAbort r' \<or> R r' = R r))"
proof -
  have byte: "runs True (bk_store_byte (t BUS_ERROR) q b v) (\<lambda>q'. bk_inv q' \<and> (fAbort q' \<or> R q' = R q))"
    if q: "bk_inv q" "R q 6 = sp" "0x8000 \<le> b \<Longrightarrow> bus_error_ok t sp" for q b v
  proof (rule bk_store_wp[OF q(1)])
    assume "0x8000 \<le> b"
    then show "runs True (t BUS_ERROR q) (\<lambda>q'. bk_inv q' \<and> (fAbort q' \<or> R q' = R q))"
      using q by (auto simp: bus_error_ok_def intro: runs_weaken)
  qed (auto intro: bk_inv_mach[OF q(1)])
  have le: "0x7FFF \<le> a" if "0x8000 \<le> a" using that by (simp add: word_le_nat_alt)
  have le': "0x7FFF \<le> a" if "0x8000 \<le> a + 1"
  proof (cases "a = 0xFFFF")
    case False
    then have "unat (a + 1) = unat a + 1"
      using unsigned_less[of a, where 'a = nat] by (auto simp: unat_word_ariths word_unat_eq_iff)
    then show ?thesis using that by (simp add: word_le_nat_alt)
  qed simp
  show ?thesis unfolding bk_store_word_def
  proof (intro runs_bind runs_weaken[OF byte[OF assms(1,2)]] runs_if runs_SomeI)
    show "0x8000 \<le> a \<Longrightarrow> bus_error_ok t sp" using assms(3) le by blast
    fix q assume q: "bk_inv q \<and> (fAbort q \<or> R q = R r)" "\<not> fAbort q"
    show "runs True (bk_store_byte (t BUS_ERROR) q (a + 1) (ucast (drop_bit 8 w))) (\<lambda>r'. bk_inv r' \<and> (fAbort r' \<or> R r' = R r))"
      by (rule runs_weaken[OF byte]) (use q assms le' in auto)
  qed auto
qed

lemma vm1_store_keeps: "vm1_reg_block_store_word a w r = Some r' \<Longrightarrow> R r' = R r \<and> (bk_inv r' = bk_inv r)"
  by (auto simp: vm1_reg_block_store_word_def bk_inv_def split: if_splits)

lemma host_store_keeps: "bk_inv r \<Longrightarrow> bk_inv (host_write (bk_bus e) r p v) \<and> R (host_write (bk_bus e) r p v) = R r"
  by (auto simp: bk_bus_def on_bk_def bk_inv_def roms_ok_def in_rom_def rom_for_addr_def)

lemma core_store_ok:
  assumes "bk_inv r" "R r 6 = sp" "0x7FFF \<le> a \<Longrightarrow> bus_error_ok t sp"
  shows "runs True (core_store_word (bk_bus e) t a w r) (\<lambda>r'. bk_inv r' \<and> (fAbort r' \<or> R r' = R r))"
proof -
  have m: "model r = K1801VM1" "\<not> ENABLE_MMU (bk_bus e)" "mmu_on (bk_bus e) r = False"
    using assms(1) by (simp_all add: bk_inv_def bk_bus_def mmu_on_def)
  have raw: "raw_store_word_phys (bk_bus e) t (ucast a) w r = bk_store_word (t BUS_ERROR) r a w"
    using m(1) by (simp add: raw_store_word_phys_def dcj11_io_alias_offset_def bk_bus_def wide16)
  have fast: "runs True (Some (host_write_word (bk_bus e) r p w)) (\<lambda>r'. bk_inv r' \<and> (fAbort r' \<or> R r' = R r))" for p
    using host_store_keeps[OF assms(1), of e p] host_store_keeps by (simp add: host_write_word_def)
  have store: "runs True (bk_store_word (t BUS_ERROR) r a w) (\<lambda>r'. bk_inv r' \<and> (fAbort r' \<or> R r' = R r))"
    by (rule store_word_ok[OF assms])
  have slow: "runs True (core_store_word_slow (bk_bus e) t False a w r) (\<lambda>r'. bk_inv r' \<and> (fAbort r' \<or> R r' = R r))"
    using store vm1_store_keeps[of a w r] assms(1) m
    by (auto simp: core_store_word_slow_def va_reg_store_word_def translate_va_ex_def raw split: option.split)
  show ?thesis using fast slow m unfolding core_store_word_def core_store_word_ex_def fast_store_word_def
    by (auto split: option.split)
qed

lemma bus_error_step:
  assumes "unat (sp - 2) \<ge> 0x7FFF \<Longrightarrow> bus_error_ok t (sp - 2)" "unat (sp - 4) \<ge> 0x7FFF \<Longrightarrow> bus_error_ok t (sp - 4)"
    and "bk_inv r" "R r 6 = sp"
  shows "runs True (bus_error_trap (bk_bus e) t r) (\<lambda>r. bk_inv r \<and> fAbort r)"
proof -
  have m: "model r = K1801VM1" using assms(3) by (simp add: bk_inv_def)
  define vec :: u16 where "vec = (if psw r AND 0xC00 \<noteq> 0 then 0xE002 else 4)"
  have vecs: "vec + 2 \<in> {4, 6, 0xE002, 0xE004}" "vec \<in> {4, 6, 0xE002, 0xE004}" by (simp_all add: vec_def)
  obtain w v where ld: "core_load_word_vector (bk_bus e) t (vec + 2) r = Some (w, r)" "core_load_word_vector (bk_bus e) t vec r = Some (v, r)"
    using vector_word[OF assms(3) vecs(1)] vector_word[OF assms(3) vecs(2)] by blast
  have push: "runs True (pushw (bk_bus e) t x q) (\<lambda>q'. bk_inv q' \<and> (fAbort q' \<or> R q' 6 = R q 6 - 2))"
    if "bk_inv q" "unat (R q 6 - 2) \<ge> 0x7FFF \<Longrightarrow> bus_error_ok t (R q 6 - 2)" for q x
  proof -
    define q1 where "q1 = q\<lparr>R := (R q)(6 := R q 6 - 2)\<rparr>"
    have q1: "bk_inv q1" "R q1 6 = R q 6 - 2" "dcj11_note_stack_reference (R q 6 - 2) q1 = q1"
      using that(1) bk_inv_fields[of q1 q] by (simp_all add: q1_def dcj11_note_stack_reference_def bk_inv_def)
    show ?thesis unfolding pushw_def Let_def q1_def[symmetric] q1(2,3)
      by (rule runs_weaken[OF core_store_ok[OF q1(1,2)]]) (use that(2) q1(2) in \<open>auto simp: word_le_nat_alt\<close>)
  qed
  have "runs True (core_take_vector (bk_bus e) t vec (R r 7) (psw r) r) bk_inv"
  proof (cases "fAbort r")
    case True
    then show ?thesis using ld assms(3) by (simp add: core_take_vector_def)
  next
    case False
    define q where "q = dcj11_set_psw (trap_psw r (psw r) w) r"
    have q: "q = r\<lparr>psw := w\<rparr>" using m by (simp add: q_def dcj11_set_psw_def trap_psw_def is_vm2_def)
    have inv: "bk_inv q" "R q 6 = sp" "model q \<noteq> DCJ11" using assms(3,4) m by (simp_all add: q bk_inv_def)
    have clear: "bk_inv (x\<lparr>dcj11_vector_push_active := False\<rparr>) = bk_inv x" "bk_inv (x\<lparr>dcj11_vector_push_active := False, R := y\<rparr>) = bk_inv x"
      for x y by (simp_all add: bk_inv_def)
    have "sp - 2 - 2 = sp - 4" by simp
    then have second: "bus_error_ok t (R x 6 - 2)" if "R x 6 = R q 6 - 2" "unat (R x 6 - 2) \<ge> 0x7FFF" for x :: "bk_hw regs"
      using that assms(2) inv(2) by metis
    have first: "bus_error_ok t (R q 6 - 2)" if "unat (R q 6 - 2) \<ge> 0x7FFF" using that assms(1) inv(2) by metis
    have pushes: "runs True (pushw (bk_bus e) t (psw r) q) (\<lambda>x. bk_inv x \<and> (fAbort x \<or> runs True (pushw (bk_bus e) t (R r 7) x) bk_inv))"
    proof (rule runs_weaken[OF push[OF inv(1) first]])
      fix x assume x: "bk_inv x \<and> (fAbort x \<or> R x 6 = R q 6 - 2)"
      then have "runs True (pushw (bk_bus e) t (R r 7) x) bk_inv" if "R x 6 = R q 6 - 2"
        by (intro runs_weaken[OF push]) (use that second in auto)
      then show "bk_inv x \<and> (fAbort x \<or> runs True (pushw (bk_bus e) t (R r 7) x) bk_inv)" using x by blast
    qed simp
    show ?thesis unfolding core_take_vector_def ld(1) bind.simps(2) prod.case Let_def
      unfolding ld(2) bind.simps(2) prod.case q_def[symmetric]
      using False inv
      by (auto intro!: runs_bind runs_weaken[OF pushes] elim!: runs_weaken simp: clear)
  qed
  then have "runs True (core_take_vector (bk_bus e) t vec (R r 7) (psw r) r \<bind> (\<lambda>r. Some (r\<lparr>fAbort := True\<rparr>))) (\<lambda>r. bk_inv r \<and> fAbort r)"
    by (auto intro!: runs_bind elim!: runs_weaken simp: bk_inv_def)
  then show ?thesis using m by (simp add: bus_error_trap_def dcj11_take_red_stack_abort_def vec_def)
qed

lemma bus_errors_end_high: "4 \<le> unat sp \<Longrightarrow> unat sp < n \<Longrightarrow> bus_error_ok (core_trap (bk_bus e) n) sp"
proof (induction "unat sp" arbitrary: sp n rule: less_induct)
  case less
  obtain k where n: "n = Suc k" using less.prems(2) by (cases n) auto
  have u: "unat (sp - 2) = unat sp - 2" "unat (sp - 4) = unat sp - 4"
    using less.prems(1) by (simp_all add: unat_sub word_le_nat_alt)
  have ih: "bus_error_ok (core_trap (bk_bus e) k) (sp - 2)" if "unat (sp - 2) \<ge> 0x7FFF"
    using less.hyps[of "sp - 2" k] that u less.prems n by simp
  have ih': "bus_error_ok (core_trap (bk_bus e) k) (sp - 4)" if "unat (sp - 4) \<ge> 0x7FFF"
    using less.hyps[of "sp - 4" k] that u less.prems n by simp
  show ?case unfolding bus_error_ok_def n using bus_error_step[OF ih ih'] by simp
qed

lemma bus_errors_end:
  assumes "0x10001 \<le> n" shows "bus_error_ok (core_trap (bk_bus e) n) sp"
proof -
  obtain k where n: "n = Suc k" "0x10000 \<le> k" using assms by (cases n) auto
  have hi: "bus_error_ok (core_trap (bk_bus e) k) x" if "unat x \<ge> 0x7FFF" for x
    using bus_errors_end_high[of x k e] that n(2) unsigned_less[of x, where 'a = nat] by simp
  show ?thesis unfolding bus_error_ok_def n using bus_error_step[OF hi hi] by simp
qed

section \<open>Every program runs\<close>

lemma bk_bus_simps [simp]: "ENABLE_MMU (bk_bus e) = False" "mmu_on (bk_bus e) r = False" "cb_ramptr (bk_bus e) = Some bk_ramptr"
  "cb_reset (bk_bus e) = Some bk_reset" "cb_poll_irq (bk_bus e) = Some bk_poll_irq" "cb_init (bk_bus e) = Some (bk_init e)"
  "cb_load_byte (bk_bus e) = bk_load_byte" "cb_store_byte (bk_bus e) = bk_store_byte"
  "cb_load_word (bk_bus e) = bk_load_word" "cb_store_word (bk_bus e) = bk_store_word"
  "cb_load_byte_pa (bk_bus e) = None" "cb_store_byte_pa (bk_bus e) = None"
  "cb_load_word_pa (bk_bus e) = None" "cb_store_word_pa (bk_bus e) = None"
  by (simp_all add: bk_bus_def mmu_on_def)

lemma reg_stores_keep:
  "dcj11_reg_block_store_word a w r = Some r' \<Longrightarrow> (model r', mach r', ram_fast r', ram_fast_size r') = (model r, mach r, ram_fast r, ram_fast_size r)"
  "mmu_io_write_word (bk_bus e) a w r = Some r' \<Longrightarrow> (model r', mach r', ram_fast r', ram_fast_size r') = (model r, mach r, ram_fast r, ram_fast_size r)"
  using set_psw_fields[of _ r] by (auto simp: dcj11_reg_block_store_word_def mmu_io_write_word_def mmu_write_ssr0_def mmu_write_parpdr_def
      mmu_tlb_flush_all_def core_fields_def Let_def split: if_splits option.splits prod.splits)

lemma on_bk_inv: "bk_inv r \<Longrightarrow> bk_mem (f (mach r)) \<noteq> None \<Longrightarrow> roms (f (mach r)) = roms (mach r) \<Longrightarrow> bk_inv (on_bk f r)"
  by (simp add: on_bk_def bk_inv_mach)

interpretation bk: machine_inv "bk_bus e" bk_inv True True for e
proof
  fix r r' :: "bk_hw regs" assume "core_fields r' = core_fields r"
  then show "bk_inv r' = bk_inv r" by (intro bk_inv_fields) (simp add: core_fields_def)
next
  fix r r' :: "bk_hw regs" and a w assume r: "bk_inv r"
  show "dcj11_reg_block_store_word a w r = Some r' \<Longrightarrow> bk_inv r'" "mmu_io_write_word (bk_bus e) a w r = Some r' \<Longrightarrow> bk_inv r'"
    using r bk_inv_fields reg_stores_keep by metis+
next
  fix r :: "bk_hw regs" and bits mode space seg p v assume r: "bk_inv r"
  then show "bk_inv (pdr_or mode space seg bits r)" "bk_inv (dcj11_set_cpuerr bits r)"
    "bk_inv (dcj11_reset_instruction_state (bk_bus e) r)"
    by (auto simp: bk_inv_def pdr_or_def dcj11_set_cpuerr_def dcj11_reset_instruction_state_def)
  show "bk_inv (host_write (bk_bus e) r p v)" using host_store_keeps[OF r] by simp
next
  fix r :: "bk_hw regs" and be a x assume "True \<Longrightarrow> \<forall>r. bk_inv r \<longrightarrow> runs True (be r) bk_inv" "bk_inv r"
  then show "runs True (cb_load_byte (bk_bus e) be r a) (\<lambda>(v, r). bk_inv r)" "runs True (cb_store_byte (bk_bus e) be r a x) bk_inv"
    by (auto intro: inv_load inv_store)
next
  fix r :: "bk_hw regs" and be a x assume "True \<Longrightarrow> \<forall>r. bk_inv r \<longrightarrow> runs True (be r) bk_inv" "bk_inv r"
  then show "runs True (cb_load_word (bk_bus e) be r a) (\<lambda>(v, r). bk_inv r)" "runs True (cb_store_word (bk_bus e) be r a x) bk_inv"
    by (auto intro: inv_words)
next
  fix r :: "bk_hw regs" and f assume "bk_inv r" "cb_reset (bk_bus e) = Some f"
  then show "bk_inv (f r)" by (auto simp: bk_reset_def dest: bk_invD intro!: on_bk_inv)
next
  fix r :: "bk_hw regs" and g assume "bk_inv r" "cb_poll_irq (bk_bus e) = Some g"
  then show "bk_inv (snd (g r))" by (auto simp: bk_poll_irq_def Let_def dest: bk_invD intro!: bk_inv_mach)
qed simp_all

lemma bk_traps_ok: "0x10001 \<le> n \<Longrightarrow> trap_ok (bk_bus e) True bk_inv (core_trap (bk_bus e) n)"
proof -
  assume n: "0x10001 \<le> n"
  have "runs True (core_trap (bk_bus e) n BUS_ERROR r) bk_inv" if "bk_inv r" for r
    by (rule runs_weaken[of True _ "\<lambda>r. bk_inv r \<and> fAbort r"])
      (use bus_errors_end[OF n, of e "R r 6"] that in \<open>auto simp: bus_error_ok_def\<close>)
  then show ?thesis by (simp add: trap_ok_def)
qed

interpretation bk: machine_trap "bk_bus e" bk_inv True True "core_trap (bk_bus e) (n + 0x10001)" for e n
proof
  show "trap_ok (bk_bus e) True bk_inv (core_trap (bk_bus e) (n + 0x10001))" by (rule bk_traps_ok) simp
  then show "push_ok (bk_bus e) True True bk_inv (core_trap (bk_bus e) (n + 0x10001))" by (rule bk.push_ok_trap) simp
qed

lemma bk_step_ok:
  assumes "bk_inv r" "0x10001 \<le> n"
  obtains r' where "core_step (bk_bus e) n m r = Some r'" "bk_inv r'"
proof -
  obtain j where n: "n = j + 0x10001" using assms(2) by (metis le_add_diff_inverse2)
  have "runs True (step_with (bk_bus e) (core_trap (bk_bus e) n) m r) bk_inv"
    unfolding n by (rule bk.step_wp) (use assms(1) in \<open>auto dest: bk_invD\<close>)
  then show ?thesis using that by (auto simp: core_step_def runs_total)
qed

lemma tick_keeps [simp]: "bk_mem (bk_hw_tick_n k s) = bk_mem s" "roms (bk_hw_tick_n k s) = roms s"
  by (induction k arbitrary: s) (simp_all add: bk_hw_tick_def Let_def split_beta)

lemma bk_instruction_ok:
  assumes "bk_inv r" "0x10001 \<le> n"
  obtains c r' where "bk_instruction e audio n m r = Some (c, r')" "bk_inv r'" "0 < unat c"
proof -
  obtain r1 where r1: "core_step (bk_bus e) n m r = Some r1" "bk_inv r1" by (rule bk_step_ok[OF assms])
  define r2 where "r2 = (if audio then on_bk (\<lambda>s. snd (bk_hw_beeper_pulse s)) r1 else r1)"
  have r2: "bk_inv r2" using r1(2) by (auto simp: r2_def bk_hw_beeper_pulse_def dest: bk_invD intro!: on_bk_inv)
  define c where "c = (if bk_timing_cycles (ir r1) = 0 then 1 else bk_timing_cycles (ir r1))"
  have "bk_instruction e audio n m r = Some (c, on_bk (bk_hw_tick_n (unat c)) r2)"
    by (simp add: bk_instruction_def r1(1) r2_def c_def Let_def)
  moreover have "bk_inv (on_bk (bk_hw_tick_n (unat c)) r2)" using r2 by (auto dest: bk_invD intro!: on_bk_inv)
  moreover have "0 < unat c" by (simp add: c_def unat_gt_0)
  ultimately show ?thesis using that by blast
qed

lemma bk_instructions_ok:
  "bk_inv r \<Longrightarrow> 0x10001 \<le> n \<Longrightarrow> \<exists>r'. bk_instructions e audio n m budget c r = Some r' \<and> bk_inv r'"
proof (induction "budget - c" arbitrary: c r rule: less_induct)
  case less
  show ?case
  proof (cases "c < budget")
    case True
    obtain d r1 where d: "bk_instruction e audio n m r = Some (d, r1)" "bk_inv r1" "0 < unat d"
      by (rule bk_instruction_ok[OF less.prems])
    have "budget - (c + unat d) < budget - c" using True d(3) by simp
    from less.hyps[OF this d(2) less.prems(2)] show ?thesis
      using True by (simp add: bk_instructions.simps[of e audio n m budget c r] d(1))
  qed (use less.prems in \<open>simp add: bk_instructions.simps[of e audio n m budget c r]\<close>)
qed

lemma key_down_inv: "bk_inv (snd st) \<Longrightarrow> bk_inv (snd (key_down code st))"
  by (cases st) (auto simp: key_down_def Let_def bk_hw_handle_key_def bk_hw_set_tick_hz_def bk_inv_def on_bk_def
      roms_ok_def in_rom_def rom_for_addr_def)

lemma keys_inv: "bk_inv (snd st) \<Longrightarrow> bk_inv (snd (fold key_down codes st))"
  by (induction codes arbitrary: st) (simp_all add: key_down_inv)

lemma bk_main_loop_ok:
  "bk_inv (snd st) \<Longrightarrow> 0x10001 \<le> n \<Longrightarrow> \<exists>st'. bk_main_loop e audio n m frames st = Some st' \<and> bk_inv (snd st')"
proof (induction frames arbitrary: st)
  case (Cons codes frames)
  obtain h r where hr: "fold key_down codes st = (h, r)" by force
  then have "bk_inv r" using keys_inv[OF Cons.prems(1), of codes] by simp
  from bk_instructions_ok[OF this Cons.prems(2)] obtain r' where
    "bk_instructions e audio n m (if cpu_max h then 200000 else cycles_per_frame h) 0 r = Some r'" "bk_inv r'" by blast
  then show ?case using Cons.IH[of "(h, r')"] Cons.prems(2) by (simp add: bk_frame_def hr)
qed simp

section \<open>Power on\<close>

lemma bk_core_reset_ok:
  assumes "bk_inv r" "0x10001 \<le> n"
  obtains r' where "core_reset (bk_bus e) (core_trap (bk_bus e) n) r = Some r'" "bk_inv r'"
proof -
  obtain j where n: "n = j + 0x10001" using assms(2) by (metis le_add_diff_inverse2)
  let ?t = "core_trap (bk_bus e) (j + 0x10001)"
  define q where "q = bk_reset (core_reset_fields (bk_bus e) r)"
  have "bk_inv (core_reset_fields (bk_bus e) r)" using assms(1) by (simp add: core_reset_fields_def bk_inv_def Let_def)
  then have q: "bk_inv q" by (auto simp: q_def bk_reset_def dest: bk_invD intro!: on_bk_inv)
  define q1 where "q1 = q\<lparr>TVE_CSR := 0xFF00, TVE_LIMIT := 0, TVE_COUNT := 0, TVE_PENDING := False, VM1_RAP_PRESENT := True\<rparr>"
  have q1: "bk_inv q1" using q by (simp add: q1_def)
  have "runs True (core_load_word (bk_bus e) ?t 0xFFCE q1) (\<lambda>(v, r). bk_inv r)" by (rule bk.mem(3)[OF q1]) simp
  then obtain v q2 where q2: "core_load_word (bk_bus e) ?t 0xFFCE q1 = Some (v, q2)" "bk_inv q2" by (auto simp: runs_total)
  have cache: "bk_inv (cache_ram_pointer (bk_bus e) x)" if "bk_inv x" for x
    using that by (simp add: cache_ram_pointer_def bk_ramptr_def is_rom_addr_def bk_inv_def)
  have "core_reset (bk_bus e) ?t r = Some (cache_ram_pointer (bk_bus e) (q2\<lparr>R := (R q2)(7 := v AND 0xFF00), psw := 0xE0\<rparr>))"
    using q bk_invD[OF q] by (simp add: core_reset_def q_def[symmetric] q1_def[symmetric] q2(1) Let_def)
  moreover have "bk_inv (q2\<lparr>R := (R q2)(7 := v AND 0xFF00), psw := 0xE0\<rparr>)" using q2(2) by (simp add: bk_inv_def)
  ultimately show ?thesis using that cache n by simp
qed

lemma roms_fit:
  assumes "\<forall>seg \<in> set (roms s). seg_high seg" "\<lparr>rom_data = d, rom_base = 0xA000, rom_size = size'\<rparr> \<in> set (roms s)" "0x4006 \<le> unat size'"
  shows "roms_ok s"
proof -
  let ?b = "\<lparr>rom_data = d, rom_base = 0xA000, rom_size = size'\<rparr>"
  have size: "unat size' \<le> 0x6000" using assms(1,2) by (auto simp: seg_high_def)
  then have "unat (0xA000 + ucast size' :: u32) = 0xA000 + unat size'" by (simp add: unat_word_ariths wide16)
  then have "rom_covers a ?b" if "0xE002 \<le> unat a" "unat a \<le> 0xE005" for a
    using that assms(3) size by (auto simp: rom_covers_def word_le_nat_alt word_less_nat_alt wide16 Let_def)
  then have "in_rom s a" if "0xE002 \<le> unat a" "unat a \<le> 0xE005" for a
    using that assms(2) unfolding in_rom_def rom_for_addr_def find_None_iff by blast
  then show ?thesis using assms(1) by (simp add: roms_ok_def)
qed

text \<open>C37: The BK-0010-01 runs: with a BASIC ROM that holds the vector 0160002 (the one of the machine ends at 0177777), the machine starts, and whatever the ROM images hold, whatever the keys of each frame, the main loop comes to the end of every list of frames: every instruction of every program returns. Bus errors whose trap pushes raise the next bus error nest at most 65537 deep, because the stack pointer moves down to the RAM.\<close>
theorem bk_runs:
  assumes "roms s = []" "unat (snd monitor) \<le> 0x8000" "0x4006 \<le> unat (snd basic)" "unat (snd basic) \<le> 0x6000" "0x10001 \<le> n"
  shows "\<exists>r h' r'. bk_power_on e n h monitor (Some basic) s = Some r \<and> bk_main_loop e audio n m frames (h, r) = Some (h', r')"
proof -
  define r0 where "r0 = zero_regs K1801VM1 (snd (bk_hw_set_memory (Some (\<lambda>_. 0)) bk_hw_required_memory_size s))"
  define r1 where "r1 = on_bk (\<lambda>s. s\<lparr>tape := bk_tape_set_name_pad (name_pad_space h) (tape s)\<rparr>) (bk_hw_connect r0)"
  have r1: "model r1 = K1801VM1" "ram_fast_size r1 = 0x8000" "bk_mem (mach r1) = Some (\<lambda>_. 0)" "mem_size (mach r1) = 65536" "roms (mach r1) = []"
    using assms(1) by (simp_all add: r1_def r0_def on_bk_def bk_hw_connect_def bk_hw_set_memory_def bk_hw_required_memory_size_def zero_regs_def)
  define r2 where "r2 = snd (core_init (bk_bus e) r1)"
  have r2: "core_init (bk_bus e) r1 = (0, r2)" "model r2 = K1801VM1" "ram_fast_size r2 = 0x8000" "ram_fast r2 = None"
    "bk_mem (mach r2) \<noteq> None" "roms (mach r2) = []"
    using r1 by (simp_all add: r2_def core_init_def bk_init_def on_bk_def)
  define r3 where "r3 = on_bk (bk_hw_set_rom_segment (Some (fst basic)) 0xA000 (snd basic))
    (on_bk (bk_hw_set_rom_segment (Some (fst monitor)) 0x8000 (snd monitor)) r2)"
  have size: "snd basic \<noteq> 0" using assms(3) by auto
  have roms3: "\<lparr>rom_data = fst basic, rom_base = 0xA000, rom_size = snd basic\<rparr> \<in> set (roms (mach r3))"
    "\<forall>seg \<in> set (roms (mach r3)). seg_high seg" "bk_mem (mach r3) \<noteq> None"
    using r2(5,6) size assms(2,4) by (auto simp: r3_def on_bk_def bk_hw_set_rom_segment_def seg_high_def)
  have "roms_ok (mach r3)" by (rule roms_fit[OF roms3(2,1) assms(3)])
  then have "bk_inv r3" using r2(2-4) roms3(3) by (simp add: bk_inv_def) (simp add: r3_def on_bk_def)
  then obtain r4 where r4: "core_reset (bk_bus e) (core_trap (bk_bus e) n) r3 = Some r4" "bk_inv r4"
    by (rule bk_core_reset_ok[OF _ assms(5)])
  have "bk_inv (on_bk (bk_hw_set_tick_hz (cpu_hz h)) r4)"
    using r4(2) by (auto simp: bk_hw_set_tick_hz_def dest: bk_invD intro!: on_bk_inv)
  moreover have "bk_power_on e n h monitor (Some basic) s = Some (on_bk (bk_hw_set_tick_hz (cpu_hz h)) r4)"
    using r4(1) by (simp add: bk_power_on_def r0_def[symmetric] r1_def[symmetric] r2(1) r3_def[symmetric] Let_def split_beta)
  ultimately show ?thesis
    using bk_main_loop_ok[of "(h, on_bk (bk_hw_set_tick_hz (cpu_hz h)) r4)" n e audio m frames] assms(5) by force
qed

section \<open>Without the ROM of the vector\<close>

lemma no_vector_no_trap:
  "model r = K1801VM1 \<Longrightarrow> psw r AND 0xC00 \<noteq> 0 \<Longrightarrow> \<not> in_rom (mach r) 0xE004 \<Longrightarrow> core_trap (bk_bus e) n BUS_ERROR r = None"
proof (induction n)
  case (Suc n)
  have "bk_load_byte (core_trap (bk_bus e) n BUS_ERROR) r 0xE004 = None"
    using Suc by (simp add: bk_load_byte_def in_rom_def is_rom_iff)
  then have "core_load_word_vector (bk_bus e) (core_trap (bk_bus e) n) 0xE004 r = None"
    using Suc.prems(1) by (simp add: core_load_word_vector_def raw_load_word_phys_def dcj11_io_alias_offset_def bk_load_word_def)
  then show ?case using Suc.prems by (simp add: bus_error_trap_def dcj11_take_red_stack_abort_def core_take_vector_def)
qed simp

text \<open>C38: Without a ROM at the vector 0160002 (the emulator starts without the BASIC image) a BK-0010-01 whose PSW has bit 10 or 11 set never comes back from a bus error, here an instruction fetch from a place without ROM: the trap reads its vector, which is the next bus error, at every depth of nesting.\<close>
theorem bk_no_vector_never_returns:
  assumes "model r = K1801VM1" "psw r AND 0xC00 \<noteq> 0" "\<not> in_rom (mach r) 0xE004" "ram_fast_size r = 0x8000"
    and "\<not> fAbort r" "\<not> fHaltSignal r" "\<not> fWait r" "0x8000 \<le> R r 7" "R r 7 < 0xFF80" "\<not> in_rom (mach r) (R r 7)"
  shows "core_step (bk_bus e) n m r = None"
proof -
  let ?t = "core_trap (bk_bus e) n"
  have addr: "unat (R r 7) < 0xFF80" "0x8000 \<le> unat (R r 7)" using assms(8,9) by (simp_all add: word_less_nat_alt word_le_nat_alt)
  then have n: "R r 7 \<noteq> k" if "0xFF80 \<le> unat k" for k using that by auto
  have ifetch: "core_load_word_ifetch (bk_bus e) ?t (R r 7) q = None" if q: "model q = K1801VM1" "psw q = psw r" "mach q = mach r"
    "ram_fast_size q = 0x8000" for q
  proof -
    have "bk_load_byte (?t BUS_ERROR) q (R r 7) = None"
      using assms(2,3,8-10) q no_vector_no_trap[of q e n]
      by (simp add: bk_load_byte_def n in_rom_def is_rom_iff Let_def word_le_nat_alt word_less_nat_alt)
    then have slow: "raw_load_word_phys (bk_bus e) ?t (ucast (R r 7)) q = None"
      using q(1) by (simp add: raw_load_word_phys_def dcj11_io_alias_offset_def bk_load_word_def wide16)
    have "\<not> ucast (R r 7) + 1 < (0x8000 :: u32)"
      using addr by (simp add: word_less_nat_alt unat_word_ariths wide16)
    then show ?thesis using q slow
      by (simp add: core_load_word_ifetch_def core_load_word_ex_def fast_load_word_def core_load_word_slow_def va_reg_load_word_def
          vm1_reg_block_load_word_def translate_va_ex_def n split: option.split)
  qed
  show ?thesis using assms
    by (simp add: core_step_def step_with_def fetch_and_execute_def mmu_mmr1_instruction_start_def ifetch Let_def)
qed

section \<open>The cached RAM window\<close>

lemma raw_access:
  assumes "model r = K1801VM1"
  shows "raw_load_byte_phys (bk_bus e) t (ucast a) r = bk_load_byte (t BUS_ERROR) r a"
    "raw_load_word_phys (bk_bus e) t (ucast a) r = bk_load_word (t BUS_ERROR) r a"
    "raw_store_byte_phys (bk_bus e) t (ucast a) v r = bk_store_byte (t BUS_ERROR) r a v"
    "raw_store_word_phys (bk_bus e) t (ucast a) w r = bk_store_word (t BUS_ERROR) r a w"
  using assms by (simp_all add: raw_load_byte_phys_def raw_load_word_phys_def raw_store_byte_phys_def raw_store_word_phys_def
      dcj11_io_alias_offset_def wide16)

lemma bk_translate [simp]: "translate_va_ex (bk_bus e) a w i k r = (XOk (ucast a), r)"
  by (simp add: translate_va_ex_def)

lemma low_no_register:
  assumes "unat a < 0x8000"
  shows "vm1_reg_block_load_word r a = None" "vm1_reg_block_load_byte r a = None"
    "vm1_reg_block_store_word a w r = None" "vm1_reg_block_store_byte a v r = None"
proof -
  have n: "a \<noteq> k" if "0x8000 \<le> unat k" for k using assms that by auto
  show w: "vm1_reg_block_load_word r a = None" by (simp add: vm1_reg_block_load_word_def n)
  show "vm1_reg_block_load_byte r a = None" "vm1_reg_block_store_word a w r = None" "vm1_reg_block_store_byte a v r = None"
    by (simp_all add: vm1_reg_block_load_byte_def vm1_reg_block_store_byte_def vm1_reg_block_store_word_def w n)
qed

lemma bk_window_words:
  assumes "bk_inv r" "unat a + 1 < 0x8000" "\<not> fAbort r" "bk_mem (mach r) = Some m"
  shows "bk_load_word be r a = Some (ucast (m a) OR push_bit 8 (ucast (m (a + 1))), r)"
    "bk_store_word be r a w = Some (r\<lparr>mach := (mach r)\<lparr>bk_mem := Some (m(a := ucast w, a + 1 := ucast (drop_bit 8 w)))\<rparr>\<rparr>)"
proof -
  have a: "a < 0x8000" "a + 1 < 0x8000" using assms(2) by (simp_all add: word_less_nat_alt unat_word_ariths)
  show "bk_load_word be r a = Some (ucast (m a) OR push_bit 8 (ucast (m (a + 1))), r)"
    using assms by (simp add: bk_load_word_def low_access[OF assms(1) a(1)] low_access[OF assms(1) a(2)])
  have inv: "bk_inv (r\<lparr>mach := (mach r)\<lparr>bk_mem := Some m'\<rparr>\<rparr>)" for m' by (rule bk_inv_mach[OF assms(1)]) simp_all
  show "bk_store_word be r a w = Some (r\<lparr>mach := (mach r)\<lparr>bk_mem := Some (m(a := ucast w, a + 1 := ucast (drop_bit 8 w)))\<rparr>\<rparr>)"
    using assms by (simp add: bk_store_word_def low_access[OF assms(1) a(1) assms(4)] low_access(2)[OF inv a(2)] low_bytes)
qed

lemma slow_is_bus:
  assumes "model r = K1801VM1"
  shows "core_load_byte_slow (bk_bus e) t i k a r =
      (case vm1_reg_block_load_byte r a of Some v \<Rightarrow> Some (v, r) | None \<Rightarrow> bk_load_byte (t BUS_ERROR) r a)"
    "core_load_word_slow (bk_bus e) t i k a r =
      (case vm1_reg_block_load_word r a of Some v \<Rightarrow> Some (v, r) | None \<Rightarrow> bk_load_word (t BUS_ERROR) r a)"
    "core_store_byte_slow (bk_bus e) t k a v r =
      (case vm1_reg_block_store_byte a v r of Some r \<Rightarrow> Some r | None \<Rightarrow> bk_store_byte (t BUS_ERROR) r a v)"
    "core_store_word_slow (bk_bus e) t k a w r =
      (case vm1_reg_block_store_word a w r of Some r \<Rightarrow> Some r | None \<Rightarrow> bk_store_word (t BUS_ERROR) r a w)"
  using assms by (simp_all add: core_load_byte_slow_def core_load_word_slow_def core_store_byte_slow_def core_store_word_slow_def
      va_reg_load_byte_def va_reg_load_word_def va_reg_store_byte_def va_reg_store_word_def raw_access split: option.split)

lemmas fast_path = core_load_byte_def core_load_byte_ex_def fast_load_byte_def core_load_word_def core_load_word_ifetch_def
  core_load_word_ex_def fast_load_word_def core_store_byte_def core_store_byte_ex_def fast_store_byte_def
  core_store_word_def core_store_word_ex_def fast_store_word_def

text \<open>The fast path of the VM1 cannot be told from the bus of the BK-0010-01: outside a pending abort, each load, instruction fetch and store of the processor, in the cached RAM window or not, is the access of its timer registers or of the bus routine at the same address.\<close>
theorem bk_memory_is_the_bus:
  assumes "bk_inv r" "\<not> fAbort r"
  shows "core_load_byte (bk_bus e) t a r =
      (case vm1_reg_block_load_byte r a of Some v \<Rightarrow> Some (v, r) | None \<Rightarrow> bk_load_byte (t BUS_ERROR) r a) \<and>
    core_load_word (bk_bus e) t a r =
      (case vm1_reg_block_load_word r a of Some v \<Rightarrow> Some (v, r) | None \<Rightarrow> bk_load_word (t BUS_ERROR) r a) \<and>
    core_load_word_ifetch (bk_bus e) t a r = core_load_word (bk_bus e) t a r \<and>
    core_store_byte (bk_bus e) t a v r =
      (case vm1_reg_block_store_byte a v r of Some r \<Rightarrow> Some r | None \<Rightarrow> bk_store_byte (t BUS_ERROR) r a v) \<and>
    core_store_word (bk_bus e) t a w r =
      (case vm1_reg_block_store_word a w r of Some r \<Rightarrow> Some r | None \<Rightarrow> bk_store_word (t BUS_ERROR) r a w)"
proof -
  obtain m where m: "bk_mem (mach r) = Some m" using bk_invD[OF assms(1)] by blast
  have cpu: "model r = K1801VM1" "ram_fast_size r = 0x8000" using assms(1) by (simp_all add: bk_inv_def)
  note path = fast_path slow_is_bus[OF cpu(1)] cpu
  show ?thesis
  proof (cases "ram_fast r")
    case None
    then show ?thesis by (simp add: path)
  next
    case (Some x)
    have x: "x = 0" using assms(1) Some by (simp add: bk_inv_def)
    have host: "host_read (bk_bus e) r (ucast b) = m b" "host_read (bk_bus e) r p = m (ucast p)"
      "host_write (bk_bus e) q p v = on_bk (\<lambda>s. s\<lparr>bk_mem := map_option (\<lambda>m. m(ucast p := v)) (bk_mem s)\<rparr>) q" for b p v q
      by (simp_all add: bk_bus_def m wide16)
    have "core_load_byte (bk_bus e) t a r =
        (case vm1_reg_block_load_byte r a of Some v \<Rightarrow> Some (v, r) | None \<Rightarrow> bk_load_byte (t BUS_ERROR) r a) \<and>
      core_store_byte (bk_bus e) t a v r =
        (case vm1_reg_block_store_byte a v r of Some r \<Rightarrow> Some r | None \<Rightarrow> bk_store_byte (t BUS_ERROR) r a v)"
    proof (cases "(ucast a :: u32) < 0x8000")
      case True
      then have a: "unat a < 0x8000" "a < 0x8000" by (simp_all add: word_less_nat_alt wide16)
      then show ?thesis using True low_access[OF assms(1) a(2) m]
        by (simp add: path Some x host low_no_register on_bk_def m wide16)
    qed (simp add: path Some x)
    moreover have "core_load_word (bk_bus e) t a r =
        (case vm1_reg_block_load_word r a of Some v \<Rightarrow> Some (v, r) | None \<Rightarrow> bk_load_word (t BUS_ERROR) r a) \<and>
      core_load_word_ifetch (bk_bus e) t a r = core_load_word (bk_bus e) t a r \<and>
      core_store_word (bk_bus e) t a w r =
        (case vm1_reg_block_store_word a w r of Some r \<Rightarrow> Some r | None \<Rightarrow> bk_store_word (t BUS_ERROR) r a w)"
    proof (cases "(ucast a :: u32) + 1 < 0x8000")
      case True
      have u: "unat (ucast a + 1 :: u32) = unat a + 1" using unsigned_less[of a, where 'a = nat] by (simp add: unat_word_ariths wide16)
      then have a: "unat a + 1 < 0x8000" using True by (simp add: word_less_nat_alt)
      have "(ucast (ucast a + 1 :: u32) :: u16) = a + 1"
        using a by (simp add: word_unat_eq_iff unsigned_ucast_eq unsigned_take_bit_eq u take_bit_nat_eq_self unat_word_ariths)
      then show ?thesis using True a bk_window_words[OF assms(1) a assms(2) m]
        by (simp add: low_no_register path Some x host host_read_word_def host_write_word_def on_bk_def m wide16 low_bytes)
    qed (simp add: path Some x)
    ultimately show ?thesis by blast
  qed
qed

section \<open>The keyboard\<close>

text \<open>C39: A key of the BK-0010-01: with keyboard interrupts on (bit 6 of the status clear) and none pending before, a key interrupts exactly once, through vector 060, or 0274 for the codes with bit 7; with them off it does not. Either way the status shows it ready and the port 0177716 shows a key until the data register is read, which gives the code without bit 7 and cancels an interrupt not yet taken.\<close>
theorem bk_key_interrupts:
  assumes "mach r = bk_hw_handle_key code s" "0 \<le> code" "code < 256"
  shows "fst (bk_poll_irq r) = (if kbd_status s AND 0x40 = 0 then Some (if code < 128 then 0x30 else 0xBC) else None) \<and>
    fst (bk_poll_irq (snd (bk_poll_irq r))) = None \<and>
    map_option (\<lambda>(v, r). v AND 0x80) (bk_load_byte be r 0xFFB0) = Some 0x80 \<and>
    map_option (\<lambda>(v, r). v AND 0x40) (bk_load_byte be r 0xFFCE) = Some 0 \<and>
    (\<exists>r'. bk_load_byte be r 0xFFB2 = Some (word_of_int (code mod 128), r') \<and> fst (bk_poll_irq r') = None \<and>
       map_option (\<lambda>(v, r). v AND 0x80) (bk_load_byte be r' 0xFFB0) = Some 0 \<and>
       map_option (\<lambda>(v, r). v AND 0x40) (bk_load_byte be r' 0xFFCE) = Some 0x40)"
proof -
  have mask: "((x :: u8) AND 0x80 = 0) = (\<not> bit x 7)" "(x AND 0x40 = 0) = (\<not> bit x 6)" "(x AND 0x80 = 0x80) = bit x 7" "(x AND 0x40 = 0x40) = bit x 6"
    for x by (auto simp: u8_eq_bits bit_simps)
  have "code div 128 = (if code < 128 then 0 else 1)" using assms(2,3) by presburger
  then have c7: "bit code 7 = (\<not> code < 128)" by (simp add: bit_iff_odd)
  have "(word_of_int code :: u8) AND mask 7 = word_of_int (take_bit 7 code)" by (intro bit_word_eqI) (auto simp: bit_simps)
  then have low: "(word_of_int code :: u8) AND 0x7F = word_of_int (code mod 128)" by (simp add: mask_eq_exp_minus_1 take_bit_eq_mod)
  have key: "kbd_data (mach r) = word_of_int code" "kbd_status (mach r) = kbd_status s OR 0x80" "sys_port_in (mach r) = sys_port_in s AND NOT 0x40"
    "kbd_irq_pending (mach r) = (kbd_status s AND 0x40 = 0 \<or> kbd_irq_pending s)"
    using assms(1,2) by (auto simp: bk_hw_handle_key_def Let_def mask bit_simps)
  show ?thesis
    by (simp add: bk_poll_irq_def bk_load_byte_def Let_def key mask bit_simps c7 low)
qed

section \<open>On concrete machines\<close>

definition no_tape :: bk_tape where
  "no_tape = \<lparr>tape_synch = 25, tape_synch_forced = False, tape_name_pad_space = False, tape_read_val = True, tape_write_val = False,
     tape_status = True, tape_ticks = 0, tape_read_ticks = 0, tape_write_ticks = 0, tape_in = None, tape_in_pos = 0, tape_out = [],
     tape_out_enabled = True\<rparr>"

definition bk_off :: bk_hw where
  "bk_off = \<lparr>bk_mem = None, mem_size = 0, kbd_status = 0x80, kbd_data = 0, shift_reg = 0x2D8, ext_port = 0xFFFF, sys_ctrl = 0x8000,
     sys_port_out = 0x90, sys_port_in = 0xF8, kbd_irq_pending = False, tape_in_bit = True, beeper_on = False, beeper_pulse = 0,
     roms = [], tape = no_tape\<rparr>"

definition three_mhz :: bk_main where
  "three_mhz = \<lparr>cpu_hz = 3000000, cpu_max = False, cpu_mode = 0, name_pad_space = False, cycles_per_frame = 50000\<rparr>"

theorem bk_runs_witness:
  "\<exists>r h' r'. bk_power_on None 0x10001 three_mhz (\<lambda>_. 0, 0x2000) (Some (\<lambda>_. 0xFF, 0x6000)) bk_off = Some r \<and>
     bk_main_loop None True 0x10001 1 [[0x41], [], [0x100]] (three_mhz, r) = Some (h', r')"
  by (rule bk_runs) (simp_all add: bk_off_def)

text \<open>The monitor alone, with the PSW of a program that set bit 10, at an address behind it.\<close>

definition monitor_only :: "bk_hw regs" where
  "monitor_only = (zero_regs K1801VM1 (bk_off\<lparr>bk_mem := Some (\<lambda>_. 0), roms := [\<lparr>rom_data = (\<lambda>_. 0), rom_base = 0x8000, rom_size = 0x2000\<rparr>]\<rparr>))
     \<lparr>psw := 0x400, R := (\<lambda>_. 0xA000), ram_fast_size := 0x8000\<rparr>"

theorem bk_no_vector_never_returns_witness:
  "core_step (bk_bus None) 1000000 1 monitor_only = None"
  by (rule bk_no_vector_never_returns)
    (simp_all add: monitor_only_def zero_regs_def in_rom_def rom_for_addr_def rom_covers_def)

definition bk_ready :: "bk_hw regs" where
  "bk_ready = (zero_regs K1801VM1 (bk_off\<lparr>bk_mem := Some (\<lambda>_. 0x12), roms := [\<lparr>rom_data = (\<lambda>_. 0), rom_base = 0xA000, rom_size = 0x6000\<rparr>]\<rparr>))
     \<lparr>ram_fast := Some 0, ram_fast_size := 0x8000\<rparr>"

theorem bk_memory_is_the_bus_witness:
  "core_load_word (bk_bus None) (\<lambda>_ r. None) 0x7FFE bk_ready = Some (0x1212, bk_ready)"
proof -
  have ok: "bk_inv bk_ready" "\<not> fAbort bk_ready"
    by (simp_all add: bk_ready_def bk_inv_def roms_ok_def seg_high_def in_rom_def rom_for_addr_def rom_covers_def zero_regs_def)
  show ?thesis using bk_memory_is_the_bus[OF ok, of None "\<lambda>_ r. None" "0x7FFE" 0 0]
    by (simp add: vm1_reg_block_load_word_def bk_load_word_def bk_load_byte_def is_rom_iff rom_for_addr_def rom_covers_def bk_ready_def zero_regs_def)
qed

theorem bk_key_interrupts_witness:
  "fst (bk_poll_irq (bk_ready\<lparr>mach := bk_hw_handle_key 0x81 bk_off\<rparr>)) = Some 0xBC"
  using bk_key_interrupts[of "bk_ready\<lparr>mach := bk_hw_handle_key 0x81 bk_off\<rparr>" "0x81" bk_off "\<lambda>_. None"]
  by (simp add: bk_off_def)

end
