(* ===== verification/BkScreen.thy ===== *)
theory BkScreen
  imports BkCpu
begin

text \<open>
  The picture of the BK-0010-01: the arithmetic of 16-bit words in the drawing routine gives a
  window of the video memory that starts at the line of the shift register and wraps around.
\<close>

lemma low_byte_nat: "unat (w AND 0xFF :: u16) = unat w mod 256"
proof -
  have "w AND 0xFF = w AND mask 8" by (simp add: mask_eq_exp_minus_1)
  then have "unat (w AND 0xFF) = unat (take_bit 8 w)" by (simp only: take_bit_eq_mask)
  also have "\<dots> = take_bit 8 (unat w)" by (rule unsigned_take_bit_eq)
  also have "\<dots> = unat w mod 256" by (simp add: take_bit_eq_mod)
  finally show ?thesis .
qed

lemma line_and_column:
  assumes "d < 64" "n dvd 256"
  shows "((64 * (c mod 256)) mod (64 * n) + 64 * y + d) mod (64 * n) = 64 * ((c + y) mod n) + (d :: nat)"
proof -
  have "(64 * (c mod 256)) mod (64 * n) = 64 * (c mod n)" using assms(2) by (simp add: mod_mod_cancel)
  then have "((64 * (c mod 256)) mod (64 * n) + 64 * y + d) mod (64 * n) = (64 * (c mod n + y) + d) mod (64 * n)"
    by (simp add: algebra_simps)
  also have "\<dots> = 64 * ((64 * (c mod n + y) + d) div 64 mod n) + (64 * (c mod n + y) + d) mod 64" by (rule mod_mult2_eq)
  also have "(64 * (c mod n + y) + d) div 64 = c mod n + y" using assms(1) by simp
  also have "(64 * (c mod n + y) + d) mod 64 = d" using assms(1) by (simp only: mod_mult_self4 mod_less)
  finally show ?thesis by (simp add: mod_add_left_eq)
qed

text \<open>C40: The picture of the BK-0010-01: pixel (x, y) is bit x mod 8 of byte x div 8 of line (scroll - 0330 + y) of the video memory, the lines wrapping around at 256 lines from 040000 when bit 9 of the shift register is set, or at 64 lines from 070000 when it is clear; the scroll is the low byte of that register. This is what bk_hw.c does; README.md describes another base and the opposite sense of bit 9, see the findings.\<close>
theorem bk_picture:
  assumes "bk_mem s = Some m" "x < 512" "y < 256"
  shows "let full = (shift_reg s AND 0x200 \<noteq> 0);
      line = (unat (shift_reg s AND 0xFF) + 40 + y) mod (if full then 256 else 64);
      b = m ((if full then 0x4000 else 0x7000) + of_nat (64 * line + x div 8))
    in draw_screen s x y = Some (if bit b (x mod 8) then 0xFFFFFFFF else 0)"
proof -
  define c where "c = unat (shift_reg s AND 0xFF)"
  have c: "c < 256" by (simp add: c_def low_byte_nat)
  have "unat ((shift_reg s AND 0xFF) - 0xD8) = (if 216 \<le> c then c - 216 else c + 65320)"
    using unat_sub_if'[of "shift_reg s AND 0xFF" "0xD8"] by (simp add: c_def[symmetric])
  moreover have "c + 65320 = (c + 40) + 255 * 256" by simp
  then have "(c + 65320) mod 256 = (c + 40) mod 256" by (simp only: mod_mult_self1)
  moreover have "(c - 216) mod 256 = (c + 40) mod 256" if "216 \<le> c" using that c by (simp add: mod_if)
  ultimately have "unat ((shift_reg s AND 0xFF) - 0xD8) mod 256 = (c + 40) mod 256" by (simp split: if_splits)
  then have b: "unat (((shift_reg s AND 0xFF) - 0xD8) AND 0xFF) = (c + 40) mod 256" by (simp add: low_byte_nat)
  define B :: u16 where "B = (((shift_reg s AND 0xFF) - 0xD8) AND 0xFF) * 0x40"
  have base: "unat B = 64 * ((c + 40) mod 256)" using b by (simp add: B_def unat_word_ariths)
  have size: "unat (bk_hw_vram_size s) = 64 * (if shift_reg s AND 0x200 \<noteq> 0 then 256 else 64)" "bk_hw_vram_size s \<noteq> 0"
    by (simp_all add: bk_hw_vram_size_def)
  have wm: "unat (u mod v) = unat u mod unat v" for u v :: u16 by (simp add: unat_mod_distrib)
  have xs: "unat (of_nat (y * 64) :: u16) = 64 * y" "unat (of_nat (x div 8) :: u16) = x div 8" "x div 8 < 64"
    using assms(2,3) by (simp_all add: unsigned_of_nat take_bit_nat_eq_self del: of_nat_mult)
  let ?n = "if shift_reg s AND 0x200 \<noteq> 0 then 256 else 64 :: nat"
  have "byte_index s x y = (B mod bk_hw_vram_size s + of_nat (y * 64) + of_nat (x div 8)) mod bk_hw_vram_size s"
    using size(2) by (simp add: byte_index_def Let_def B_def)
  moreover have "unat (B mod bk_hw_vram_size s + of_nat (y * 64) + of_nat (x div 8)) = (64 * ((c + 40) mod 256)) mod (64 * ?n) + 64 * y + x div 8"
  proof -
    have "(64 * ((c + 40) mod 256)) mod (64 * ?n) \<le> 64 * ((c + 40) mod 256)" by (rule mod_less_eq_dividend)
    moreover have "(c + 40) mod 256 \<le> 255" by simp
    ultimately have "(64 * ((c + 40) mod 256)) mod (64 * ?n) + 64 * y + x div 8 < 65536" using xs(3) assms(3) by linarith
    moreover have "unat (B mod bk_hw_vram_size s) = (64 * ((c + 40) mod 256)) mod (64 * ?n)" by (simp only: wm size(1) base)
    ultimately show ?thesis by (simp only: unat_word_ariths xs) simp
  qed
  ultimately have "unat (byte_index s x y) = ((64 * ((c + 40) mod 256)) mod (64 * ?n) + 64 * y + x div 8) mod (64 * ?n)"
    by (simp only: wm size(1))
  also have "\<dots> = 64 * ((c + 40 + y) mod ?n) + x div 8" by (rule line_and_column) (use xs(3) in auto)
  finally have i: "byte_index s x y = of_nat (64 * ((c + 40 + y) mod ?n) + x div 8)"
    by (metis of_nat_unat ucast_id)
  have bit: "(b AND 2 ^ k = 0) = (\<not> bit b k)" for b :: u8 and k
    by (simp add: bit_iff_and_push_bit_not_eq_0)
  show ?thesis using assms(1) by (simp add: draw_screen_def Let_def i bit bk_hw_vram_base_def c_def[symmetric])
qed

definition picture_hw :: bk_hw where
  "picture_hw = bk_off\<lparr>bk_mem := Some (\<lambda>a. if a = 0x4041 then 4 else 0), shift_reg := 0x2D9\<rparr>"

theorem bk_picture_witness: "draw_screen picture_hw 10 0 = Some 0xFFFFFFFF"
  using bk_picture[of picture_hw "\<lambda>a. if a = 0x4041 then 4 else 0" 10 0] by (simp add: picture_hw_def bk_off_def bit_numeral_rec)

end
