(* ===== verification/BkKeys.thy ===== *)
theory BkKeys
  imports BkHw
begin

text \<open>
  The key tables of the two front ends of the BK-0010-01 (\<^verbatim>\<open>bk_translate_key\<close> of main.c with SDL,
  \<^verbatim>\<open>translate_key\<close> of x11\_gui.c). A key is the host's key symbol without modifiers; \<open>F_key\<close> has its
  number, \<open>Digit\<close> and \<open>Letter\<close> the offset from the symbol of 0 and of a, \<open>Other_key\<close> is any symbol the
  tables do not name.
\<close>

datatype (plugins only: size) key =
    Escape | Backspace | Return_key | Tab | Left_key | Right_key | Up | Down | Home | F_key nat
  | Digit nat | Letter nat
  | Space | Minus | Equals | Left_bracket | Right_bracket | Semicolon | Quote | Comma | Period | Slash | Backslash | Backquote
  | Other_key

record key_mods =
  with_ctrl :: bool
  with_shift :: bool
  with_alt :: bool

text \<open>The characters of the C functions, as their codes.\<close>

definition shifted_digits :: "int list" where
  "shifted_digits = [0x29, 0x21, 0x40, 0x23, 0x24, 0x25, 0x5E, 0x26, 0x2A, 0x28]"

section \<open>SDL\<close>

definition sdl_ctrl :: "key \<Rightarrow> int option" where
  "sdl_ctrl k =
     (case k of
        Letter n \<Rightarrow> map_of [(6, 0x07), (12, 0x0D), (15, 0x10), (17, 0x12), (19, 0x14), (20, 0x15)] n
      | F_key n \<Rightarrow> if n = 11 then Some BK_KEY_PADD else if n = 12 then Some BK_KEY_FREQ else None
      | _ \<Rightarrow> None)"

definition sdl_regular :: "key \<Rightarrow> int option" where
  "sdl_regular k =
     (case k of
        Escape \<Rightarrow> Some BK_KEY_STOP
      | Backspace \<Rightarrow> Some 0x18 | Return_key \<Rightarrow> Some 0x0A | Tab \<Rightarrow> Some 0x09 | Left_key \<Rightarrow> Some 0x08 | Right_key \<Rightarrow> Some 0x19
      | Up \<Rightarrow> Some 0x1A | Down \<Rightarrow> Some 0x1B | Home \<Rightarrow> Some 0x13
      | F_key n \<Rightarrow> map_of [(1, 0x81), (2, 0x03), (3, 0x8B), (4, 0x16), (5, 0x17), (6, 0x82), (7, 0x84), (8, 0x80), (9, 0x0C), (10, 0x0E),
                           (11, 0x0F)] n
      | _ \<Rightarrow> None)"

definition sdl_symbol :: "bool \<Rightarrow> key \<Rightarrow> int option" where
  "sdl_symbol shift k =
     (case k of
        Space \<Rightarrow> Some 0x20
      | Minus \<Rightarrow> Some (if shift then 0x5F else 0x2D) | Equals \<Rightarrow> Some (if shift then 0x2B else 0x3D)
      | Left_bracket \<Rightarrow> Some (if shift then 0x7B else 0x5B) | Right_bracket \<Rightarrow> Some (if shift then 0x7D else 0x5D)
      | Semicolon \<Rightarrow> Some (if shift then 0x3A else 0x3B) | Quote \<Rightarrow> Some (if shift then 0x22 else 0x27)
      | Comma \<Rightarrow> Some (if shift then 0x3C else 0x2C) | Period \<Rightarrow> Some (if shift then 0x3E else 0x2E)
      | Slash \<Rightarrow> Some (if shift then 0x3F else 0x2F) | Backslash \<Rightarrow> Some (if shift then 0x7C else 0x5C)
      | Backquote \<Rightarrow> Some (if shift then 0x7E else 0x60)
      | _ \<Rightarrow> None)"

text \<open>A matched shortcut that returns at once skips what follows; the code is -1 while none matched.\<close>

definition bk_translate_key :: "key \<Rightarrow> key_mods \<Rightarrow> int" where
  "bk_translate_key k m =
     (let code = (if with_ctrl m then case sdl_ctrl k of Some c \<Rightarrow> c | None \<Rightarrow> -1 else -1)
      in if code = BK_KEY_PADD \<or> code = BK_KEY_FREQ then code
         else let code = (if code = -1 then case sdl_regular k of Some c \<Rightarrow> c | None \<Rightarrow> -1 else code)
              in if code = BK_KEY_STOP then code
                 else let code = (case k of
                                    Digit n \<Rightarrow> if code = -1 \<and> n \<le> 9 then (if with_shift m then shifted_digits ! n else 0x30 + int n) else code
                                  | _ \<Rightarrow> code);
                          code = (case k of
                                    Letter n \<Rightarrow> if code = -1 \<and> n \<le> 25 then (if with_shift m then 0x41 + int n else 0x61 + int n) else code
                                  | _ \<Rightarrow> code);
                          code = (if code = -1 then case sdl_symbol (with_shift m) k of Some c \<Rightarrow> c | None \<Rightarrow> -1 else code)
                      in if code \<noteq> -1 \<and> with_alt m then code OR 0x80 else code)"

section \<open>X11\<close>

definition x11_ctrl :: "key \<Rightarrow> int" where
  "x11_ctrl k =
     (case k of
        Letter n \<Rightarrow> if n = 6 then 0x07 else if n = 12 then 0x0D else if n = 15 then 0x10 else if n = 17 then 0x12 else if n = 19 then 0x14
                    else if n = 20 then 0x15 else 0
      | F_key n \<Rightarrow> if n = 11 then 0x102 else if n = 12 then 0x101 else 0
      | _ \<Rightarrow> 0)"

definition x11_regular :: "key \<Rightarrow> int" where
  "x11_regular k =
     (case k of
        Escape \<Rightarrow> 0x100
      | Backspace \<Rightarrow> 0x18 | Return_key \<Rightarrow> 0x0A | Tab \<Rightarrow> 0x09 | Left_key \<Rightarrow> 0x08 | Right_key \<Rightarrow> 0x19 | Up \<Rightarrow> 0x1A | Down \<Rightarrow> 0x1B | Home \<Rightarrow> 0x13
      | F_key n \<Rightarrow> if n = 1 then 0x81 else if n = 2 then 0x03 else if n = 3 then 0x8B else if n = 4 then 0x16 else if n = 5 then 0x17
                   else if n = 6 then 0x82 else if n = 7 then 0x84 else if n = 8 then 0x80 else if n = 9 then 0x0C
                   else if n = 10 then 0x0E else if n = 11 then 0x0F else 0
      | _ \<Rightarrow> 0)"

definition x11_symbol :: "bool \<Rightarrow> key \<Rightarrow> int" where
  "x11_symbol shift k =
     (case k of
        Space \<Rightarrow> 0x20
      | Minus \<Rightarrow> if shift then 0x5F else 0x2D | Equals \<Rightarrow> if shift then 0x2B else 0x3D
      | Left_bracket \<Rightarrow> if shift then 0x7B else 0x5B | Right_bracket \<Rightarrow> if shift then 0x7D else 0x5D
      | Semicolon \<Rightarrow> if shift then 0x3A else 0x3B | Quote \<Rightarrow> if shift then 0x22 else 0x27
      | Comma \<Rightarrow> if shift then 0x3C else 0x2C | Period \<Rightarrow> if shift then 0x3E else 0x2E
      | Slash \<Rightarrow> if shift then 0x3F else 0x2F | Backslash \<Rightarrow> if shift then 0x7C else 0x5C
      | Backquote \<Rightarrow> if shift then 0x7E else 0x60
      | _ \<Rightarrow> 0)"

definition translate_key :: "key \<Rightarrow> key_mods \<Rightarrow> int" where
  "translate_key k m =
     (if with_ctrl m \<and> x11_ctrl k \<noteq> 0 then x11_ctrl k
      else let code = x11_regular k
           in if code = 0x100 then code
              else let code = (case k of
                                 Digit n \<Rightarrow> if code = 0 \<and> n \<le> 9 then (if with_shift m then shifted_digits ! n else 0x30 + int n) else code
                               | _ \<Rightarrow> code);
                       code = (case k of
                                 Letter n \<Rightarrow> if code = 0 \<and> n \<le> 25 then (if with_shift m then 0x41 + int n else 0x61 + int n) else code
                               | _ \<Rightarrow> code);
                       code = (if code = 0 then x11_symbol (with_shift m) k else code)
                   in if code \<noteq> 0 \<and> with_alt m then code OR 0x80 else code)"

section \<open>The two tables\<close>

lemma shifted_range: "n \<le> 9 \<Longrightarrow> 0 < shifted_digits ! n \<and> shifted_digits ! n < 128"
proof -
  assume "n \<le> 9"
  then have "shifted_digits ! n \<in> set shifted_digits" by (intro nth_mem) (simp add: shifted_digits_def)
  moreover have "\<forall>c \<in> set shifted_digits. 0 < c \<and> c < 128" by (simp add: shifted_digits_def)
  ultimately show ?thesis by blast
qed

lemma or_128: "0 \<le> c \<Longrightarrow> c < 256 \<Longrightarrow> 128 \<le> (c OR 0x80 :: int) \<and> (c OR 0x80) < 256"
  using OR_upper[of c 8 "0x80"] or_greater_eq[of c "0x80"] by (simp add: or.commute)

text \<open>Every key has a code of eight bits, one of the three commands, or none.\<close>

definition code_ok :: "int \<Rightarrow> bool" where
  "code_ok c = (c = -1 \<or> 0 < c \<and> c < 256 \<or> c \<in> {BK_KEY_STOP, BK_KEY_FREQ, BK_KEY_PADD})"

lemma same_tables: "sdl_ctrl k = (if x11_ctrl k = 0 then None else Some (x11_ctrl k))"
  "sdl_regular k = (if x11_regular k = 0 then None else Some (x11_regular k))"
  "sdl_symbol b k = (if x11_symbol b k = 0 then None else Some (x11_symbol b k))"
  by (cases k; simp add: sdl_ctrl_def sdl_regular_def sdl_symbol_def x11_ctrl_def x11_regular_def x11_symbol_def)+

lemma table_ranges: "x11_ctrl k \<in> {BK_KEY_FREQ, BK_KEY_PADD} \<or> 0 \<le> x11_ctrl k \<and> x11_ctrl k < 128"
  "x11_regular k = BK_KEY_STOP \<or> 0 \<le> x11_regular k \<and> x11_regular k < 256" "0 \<le> x11_symbol b k \<and> x11_symbol b k < 128"
  by (cases k; simp add: x11_ctrl_def x11_regular_def x11_symbol_def)+

text \<open>The key without modifiers, in both tables.\<close>

definition plain_code :: "bool \<Rightarrow> key \<Rightarrow> int" where
  "plain_code shift k =
     (if x11_regular k \<noteq> 0 then x11_regular k
      else case k of
        Digit n \<Rightarrow> if n \<le> 9 then (if shift then shifted_digits ! n else 0x30 + int n) else 0
      | Letter n \<Rightarrow> if n \<le> 25 then (if shift then 0x41 + int n else 0x61 + int n) else 0
      | _ \<Rightarrow> x11_symbol shift k)"

lemma plain_range: "plain_code b k = BK_KEY_STOP \<or> 0 \<le> plain_code b k \<and> plain_code b k < 256"
proof -
  have "case k of Digit n \<Rightarrow> n \<le> 9 \<longrightarrow> 0 < shifted_digits ! n \<and> shifted_digits ! n < 128 | _ \<Rightarrow> True"
    using shifted_range by (cases k) auto
  then show ?thesis using table_ranges(2)[of k] table_ranges(3)[of b k] by (auto simp: plain_code_def split: key.split)
qed

lemma table_zeros [simp]: "x11_regular (Digit n) = 0" "x11_regular (Letter n) = 0" "x11_symbol b (Digit n) = 0" "x11_symbol b (Letter n) = 0"
  by (simp_all add: x11_regular_def x11_symbol_def)

text \<open>The control flow of the two functions over the tables: \<open>x\<close> the shortcut, \<open>y\<close> the key.\<close>

lemma sdl_flow:
  fixes x y :: int
  assumes "x = 0 \<or> x \<in> {BK_KEY_FREQ, BK_KEY_PADD} \<or> 0 < x \<and> x < 128" "y = BK_KEY_STOP \<or> 0 \<le> y \<and> y < 256"
  shows "(let code = (if ctrl then if x = 0 then -1 else x else -1)
      in if code = BK_KEY_PADD \<or> code = BK_KEY_FREQ then code
         else let code = (if code = -1 then if y = 0 then -1 else y else code)
              in if code = BK_KEY_STOP then code else if code \<noteq> -1 \<and> alt then code OR 0x80 else code) =
    (let c = (if ctrl \<and> x \<noteq> 0 then x else y) in if c = 0 then -1 else if c \<ge> 0x100 then c else if alt then c OR 0x80 else c)"
proof (cases "ctrl \<and> x \<noteq> 0")
  case True
  then show ?thesis using assms(1) by auto
next
  case False
  then show ?thesis using assms(2) by auto
qed

lemma opt_if: "(case if p then None else Some c of None \<Rightarrow> d | Some x \<Rightarrow> f x) = (if p then d else f c)"
  by simp

lemma if_zero: "(if y \<noteq> 0 then y else 0) = (y :: int)"
  by simp

lemma sdl_by_plain: "bk_translate_key k m =
   (let c = (if with_ctrl m \<and> x11_ctrl k \<noteq> 0 then x11_ctrl k else plain_code (with_shift m) k)
    in if c = 0 then -1 else if c \<ge> 0x100 then c else if with_alt m then c OR 0x80 else c)"
proof -
  have x: "x11_ctrl k = 0 \<or> x11_ctrl k \<in> {BK_KEY_FREQ, BK_KEY_PADD} \<or> 0 < x11_ctrl k \<and> x11_ctrl k < 128"
    using table_ranges(1)[of k] by auto
  show ?thesis
  proof (cases k)
    case (Digit n)
    then show ?thesis using shifted_range[of n] or_128[of "plain_code (with_shift m) k"]
      by (auto simp: bk_translate_key_def same_tables plain_code_def x11_ctrl_def Let_def)
  next
    case (Letter n)
    then show ?thesis
      using x unfolding Letter by (auto simp: bk_translate_key_def same_tables plain_code_def Let_def)
  next
    case (F_key n)
    then show ?thesis
      unfolding sdl_flow[OF x plain_range, symmetric] bk_translate_key_def same_tables
      by (simp only: F_key plain_code_def x11_symbol_def opt_if if_zero Let_def key.case if_True if_False simp_thms) auto
  qed (simp_all add: bk_translate_key_def same_tables plain_code_def x11_ctrl_def x11_regular_def x11_symbol_def)
qed

lemma x11_by_plain: "translate_key k m =
   (if with_ctrl m \<and> x11_ctrl k \<noteq> 0 then x11_ctrl k
    else let c = plain_code (with_shift m) k
         in if c = 0 then 0 else if c \<ge> 0x100 then c else if with_alt m then c OR 0x80 else c)"
proof (cases k)
  case (Digit n)
  then show ?thesis using shifted_range[of n] by (auto simp: translate_key_def plain_code_def x11_ctrl_def Let_def)
next
  case (Letter n)
  then show ?thesis by (auto simp: translate_key_def plain_code_def Let_def)
next
  case (F_key n)
  then show ?thesis using table_ranges(2)[of k] by (auto simp: translate_key_def plain_code_def x11_symbol_def Let_def)
qed (simp_all add: translate_key_def plain_code_def x11_ctrl_def x11_regular_def x11_symbol_def)

text \<open>The two front ends of the BK-0010-01 agree: for every key and every modifiers the X11 table gives the code of the SDL table (0 for none instead of -1), except that for the shortcuts with Ctrl it ignores Alt; and the codes of both are those of eight bits and the commands STOP, FREQ and PADD.\<close>
theorem front_ends_agree:
  "translate_key k m =
     (let sdl = bk_translate_key k (if with_ctrl m \<and> x11_ctrl k \<noteq> 0 then m\<lparr>with_alt := False\<rparr> else m) in if sdl = -1 then 0 else sdl) \<and>
   code_ok (bk_translate_key k m)"
proof -
  have p: "plain_code (with_shift m) k = BK_KEY_STOP \<or> 0 \<le> plain_code (with_shift m) k \<and> plain_code (with_shift m) k < 256"
    by (rule plain_range)
  show ?thesis
  proof (cases "with_ctrl m \<and> x11_ctrl k \<noteq> 0")
    case True
    then show ?thesis using table_ranges(1)[of k] or_128[of "x11_ctrl k"]
      by (auto simp: sdl_by_plain x11_by_plain code_ok_def Let_def)
  next
    case False
    define q where "q = plain_code (with_shift m) k"
    have q: "q = BK_KEY_STOP \<or> q = 0 \<or> 0 < q \<and> q < 256" using p by (auto simp: q_def)
    have x: "translate_key k m = (if q = 0 then 0 else if q \<ge> 0x100 then q else if with_alt m then q OR 0x80 else q)"
      "bk_translate_key k m = (if q = 0 then -1 else if q \<ge> 0x100 then q else if with_alt m then q OR 0x80 else q)"
      unfolding x11_by_plain sdl_by_plain q_def Let_def if_not_P[OF False] by (rule refl)+
    have "128 \<le> q OR 0x80 \<and> q OR 0x80 < 256" if "0 < q" "q < 256" using or_128[of q] that by simp
    then have "translate_key k m = (if bk_translate_key k m = -1 then 0 else bk_translate_key k m) \<and> code_ok (bk_translate_key k m)"
      using q unfolding x code_ok_def by (elim disjE) simp_all
    then show ?thesis unfolding Let_def if_not_P[OF False] by blast
  qed
qed

end
