(* ===== verification/Spec2Isabelle.thy ===== *)
theory Spec2Isabelle
  imports Arithmetic Fp11Value LsiCpu LsiDisk Mk90Cpu Mk90Picture Mk90Sound Mk90Module Mk90Clock BkTapeCode BkTapePlay BkCpu BkScreen BkKeys
begin

text \<open>
  The PDP-11 processor core of this repository (src/core) and three emulators built on it: the
  LSI-11 and PDP-11 machines (src/lsi11), the pocket computer MK-90 (src/mk90) and the home computer
  BK-0010-01 (src/bk0010-01).

  \<^bold>\<open>The program.\<close> \<^verbatim>\<open>core_step\<close> (core/core.c) executes one instruction on \<^verbatim>\<open>struct _regs\<close>. It reaches
  memory, devices and the machine's reset only through the function pointers of that struct, which
  each emulator sets: \<^verbatim>\<open>load_byte\<close>, \<^verbatim>\<open>store_word\<close>, \<^verbatim>\<open>mem_valid\<close>, \<^verbatim>\<open>reset\<close> and so on. The floating point
  processor (core/pdp11\_fp.c) is called by the dispatcher for the opcodes 17xxxx. A machine runs
  steps, advances its devices (by host time, by executed instructions, or by the instruction times
  of bk\_timing.c) and delivers interrupts through \<^verbatim>\<open>core_interrupt\<close>. For speed the core keeps two copies of
  what the machine knows: a pointer to the RAM (\<^verbatim>\<open>ram_fast\<close>) and the translations of recent pages; when
  these agree with the machine is a question of its own in each emulator.

  \<^bold>\<open>How the code is modelled.\<close> A struct is a record with the names of the C fields, an integer is a
  word of its width (\<^verbatim>\<open>word\<close> is \<open>16 word\<close>), so arithmetic wraps as in C. A function that changes state
  returns the new state; a function that may not return is an option. The callbacks are the record
  \<open>bus\<close>, an argument of the core's definitions; each machine provides its own (\<open>hwstub_bus\<close>, \<open>lsi_bus\<close>,
  \<open>mk90_bus\<close>, \<open>bk_bus\<close>), and the core is never changed for one of them. Host time, the host's calendar
  and files, the terminal and the keys pressed are arguments or parts of the state.
\<close>

text \<open>
  \<^bold>\<open>The processor.\<close>
  \<^item> Prelude: widths, the predicate \<open>runs\<close> (a routine returns, and what it returns satisfies a
    postcondition) with its rules, and the collections of lemmas.
  \<^item> Regs, RegBlocks, Mmu, Memory, Traps, Operand: the state, the register blocks in the I/O page, the
    MMU with its translation cache, the accesses with their fast paths, trap entry and reset, and the
    addressing modes of core/core.c.
  \<^item> ExecControl, ExecSingle, ExecDouble, Fis, Fp11Arith, Fp11: the instructions, one definition per
    case of the C switches; the last two are core/pdp11\_fp.c. Step: \<^verbatim>\<open>core_step\<close>.
  \<^item> Hwstub: core/hardware.c, the machine of RAM alone.

  \<^bold>\<open>The LSI-11.\<close> IrqPoll (irq.c, irq\_latch.h), LsiDevices (dev\_dl11.c, dev\_lp11.c, dev\_sr.c,
  dev\_vm1sel.c, dev\_vm1sav.c, util\_term.c), Kw11 (dev\_kw11.c), LsiBus (bus.c, devio.c, ubmap.c), LsiMachine
  (adapter\_core.c and a part of main.c); the devices not listed are the record \<open>other_devs\<close>, an argument:
  their reads, writes, polls and interrupts are any functions. The disk controllers: HostFile
  (emu\_file.c), Rk11 (dev\_rk11.c) and Rl11 (dev\_rl11.c), with their direct memory access in LsiDma; LsiDisk
  registers them on the bus as an instance of \<open>other_devs\<close>, which leaves the massbus, MSCP and tape
  controllers and the multiplexer as its argument.

  \<^bold>\<open>The MK-90.\<close> Mk90Devices (mk90\_machine.h, mk90\_keyboard.c, mk90\_lcd.c, mk90\_smp.c, mk90\_io.c), Mk90Rtc
  (mk90\_rtc.c), Mk90Machine (mk90\_syscon.c, mk90\_machine.c).

  \<^bold>\<open>The BK-0010-01.\<close> BkTiming (bk\_timing.c, which the MK-90 uses too), BkTape (bk\_tape.c), BkHw (bk\_hw.c,
  main.c), BkKeys (the key tables of main.c and x11\_gui.c).
\<close>

text \<open>
  \<^bold>\<open>What is proved of the processor.\<close>
  \<^item> Arithmetic (on WordInts): the results and condition codes of ADD, SUB, CMP, MUL, DIV, ASH and the
    single-operand instructions as integers, and that a branch after CMP is taken exactly when the
    relation it names holds.
  \<^item> Fp11Value: the fractions as integers, the loops of normalisation, multiplication and division, and
    that addition of like signs, multiplication and division are correctly rounded in both formats on
    operands that cause no overflow or underflow (each theorem gives the range of exponents): in the
    rounding mode, and addition and division in the truncation mode too. The instructions LDCif and
    STCfi copy 16-bit integers between registers exactly.
  \<^item> StepInv and StepFlow: the locales \<open>machine_inv\<close> (callbacks that keep a predicate on the state, and
    that return, or raise no bus error, when its flags say so) and \<open>machine_trap\<close> (which adds a trap routine
    that keeps it). Every access, trap, instruction and step keeps the predicate then; proved once,
    one rule per definition.
  \<^item> Invariants, Translation: these locales on \<open>hwstub_bus\<close>; reset and every run keep the unimplemented
    register bits 0 and the translation cache a copy of the page registers; on that machine, which has
    no devices, the fast path equals the slow one (on the LSI-11 it does not: LsiCpu); translation of an
    address as arithmetic, and the status bits of its page, which a write that faults changes too.
  \<^item> RamBus: the locale \<open>word_memory\<close> (what an instruction may expect of RAM); in it trap entry followed
    by RTI, and JSR followed by RTS, restore the state, on a VM2 unless it returns from HALT mode to an
    address below 0160000. The theorems of RamBus are for the machine without devices, those of LsiCpu
    for the LSI-11. Banks: the way back between modes of a DCJ11.

  \<^bold>\<open>What is proved of the machines.\<close>
  \<^item> LsiMemory: no access leaves an array, memory is memory, the two banks of a VM2 are separate.
  \<^item> LsiDevices and Kw11: the console is two queues of characters (NULs are dropped, and a write to RBUF
    or of RE discards the character waiting); the programmable clock counts, up or down.
  \<^item> LsiCpu: both step locales (\<open>lsi\<close>) and \<open>word_memory\<close> (\<open>lsi_ram\<close>) on the LSI-11 with any devices; the
    invariant of the whole machine over the main loop; interrupts are taken; the place where the
    cached RAM pointer is not the memory (VM2 in HALT mode).
  \<^item> Rk11Copy, Rl11Runs, LsiDisk: every poll of a controller returns with its command completed, sectors
    written to an RK11 are read back, the CRC of an RL11 header detects every change of one word; and
    the DMA addresses that leave the memory of an LSI-11.
  \<^item> Mk90Cpu: the step locales (\<open>mk90\<close>); the cached RAM window is the bus; every program runs from power on.
    Mk90Picture, Mk90Module: pixels and memory modules. Mk90Sound: the locale \<open>sound_queue\<close> (the contract
    of a queue of sounds) on the ring buffer. Mk90Clock: the calendar is a counter of
    seconds in years of 365 days; the code knows no leap years, unlike the chip HARDWARE.md names.
  \<^item> BkCpu: the step locales (\<open>bk\<close>) on callbacks that raise bus errors; every program runs with the
    vector of the HALT mode in ROM, and none that uses it without. BkScreen, BkKeys: keys, and the picture
    as bk\_hw.c has it (README.md gives another base of the video memory and the opposite sense of bit 9).
    BkTapeCode, BkTapePlay: a file coded as pulses is decoded again, and what was recorded is played
    back tick by tick; the specification is the list of levels over time.
\<close>

text \<open>
  \<^bold>\<open>Fuel.\<close> In C an access may trap and a trap accesses memory; \<open>core_trap b n\<close> allows \<open>n\<close> nested traps and
  is \<open>None\<close> when they do not suffice. Two suffice on the machines whose callbacks raise no error (the
  machine without devices and the MK-90, theorems \<open>core_run_returns\<close> and \<open>mk90_runs\<close>). On the BK-0010-01 a
  trap that pushes outside the RAM traps again, two bytes lower; \<open>0x10001\<close> suffice (\<open>bk_runs\<close>). With an MMU
  no number does: a kernel page 0 that is not resident faults for ever, and the theorems about the
  DCJ11 speak of the runs that return. The loop over pending interrupts has a bound as its argument.
  All other loops end: they are structural, or have a measure, or a counter that the C code has too.

  \<^bold>\<open>Not modelled.\<close>
  \<^item> core/disas.c and all tracing: text for the debugger.
  \<^item> dev\_rh11.c, dev\_rq11.c, dev\_xp.c, dev\_tq11.c, dev\_dz11.c: controllers of larger disks, of tapes and of
    sockets; every theorem about the LSI-11 holds for any behaviour of theirs.
  \<^item> options.c, machine.c and the parts of the main functions that read options and files;
    the file system tools of lsi11/tools, which share no code with the emulators.
  \<^item> The windows, audio and event queues of the hosts.
  \<^item> pico-lsi11: a port to a microcontroller with a vendored file system and an SD card driver.
  \<^item> The FPGA cores: the same machines in Verilog and microcode.
\<close>

end
